(* ===== verification/Go_Prelude.thy ===== *)
theory Go_Prelude
  imports Main "HOL-Library.Char_ord" "HOL-Library.List_Lexorder" "HOL-Library.Multiset"
begin

text \<open>
  Shared material of the development: what the Go sources use of the language and its standard
  library that is not about time (that is \<open>Go_Time\<close>).

  \<^item> \<open>'a result\<close> is the Go pair \<open>(value, error)\<close>: \<open>Inl e\<close> is a non-nil error, and the \<open>go_error\<close>
    constructors are the sentinel errors of the packages, \<open>ErrMsg\<close> for \<open>errors.New\<close> texts and \<open>ErrFmt\<close> for
    \<open>fmt.Errorf\<close> (its format and its arguments), \<open>ErrJoin\<close> for \<open>errors.Join\<close>. An error wrapped with \<open>%w\<close> is the error it wraps, as
    \<open>errors.Is\<close> sees it.
  \<^item> Signed 64-bit arithmetic is \<open>int\<close> with the wrap-around of \<open>wrap64\<close> written at the operations.
  \<^item> Strings are byte strings (\<open>string\<close> is a \<open>char list\<close> and a \<open>char\<close> is a byte), compared
    lexicographically by byte as Go's \<open><\<close> and SQLite's BINARY collation do.
  \<^item> \<open>blank\<close> is the test \<open>strings.TrimSpace(s) == ""\<close>, with Go's Unicode white space in UTF-8.
  \<^item> \<open>sort_stable\<close> is \<open>sort.SliceStable\<close>; the locale \<open>strict_preference\<close> states what a comparison
    function has to satisfy for \<open>sort_stable\<close> and for a running-best loop to find a best element.
\<close>

named_theorems go_simps \<open>unfolding rules of the modelled standard library\<close>

section \<open>Results and errors\<close>

datatype go_error =
    ErrNotFound
  | ErrPrioritySetMismatch
  | ErrStaleGeneration
  | ErrNoCandidate
  | ErrPolicyGraceExpired
  | ErrConstraint
  | ErrNoRows
  | ErrDriver
  | ErrMsg string
  | ErrFmt string "string list"
  | ErrJoin "go_error list"

type_synonym 'a result = "go_error + 'a"

definition bind_result :: "'a result \<Rightarrow> ('a \<Rightarrow> 'b result) \<Rightarrow> 'b result" where
  "bind_result r f = (case r of Inl e \<Rightarrow> Inl e | Inr x \<Rightarrow> f x)"

lemma bind_result_simps [simp]:
  "bind_result (Inl e) f = Inl e"
  "bind_result (Inr x) f = f x"
  by (simp_all add: bind_result_def)

lemma bind_result_Inr [simp]:
  "bind_result r f = Inr y \<longleftrightarrow> (\<exists>x. r = Inr x \<and> f x = Inr y)"
  by (cases r) auto

lemma bind_result_cong [fundef_cong]:
  "r = r' \<Longrightarrow> (\<And>x. r' = Inr x \<Longrightarrow> f x = g x) \<Longrightarrow> bind_result r f = bind_result r' g"
  by (cases r') auto

definition guard_err :: "bool \<Rightarrow> go_error \<Rightarrow> unit result" where
  "guard_err bad e = (if bad then Inl e else Inr ())"

lemma guard_err_Inr [simp]: "guard_err bad e = Inr u \<longleftrightarrow> \<not> bad"
  by (simp add: guard_err_def)

section \<open>Signed 64-bit integers\<close>

definition wrap64 :: "int \<Rightarrow> int" where
  "wrap64 x = (x + 2 ^ 63) mod 2 ^ 64 - 2 ^ 63"

definition max_int64 :: int where "max_int64 = 2 ^ 63 - 1"
definition min_int64 :: int where "min_int64 = - (2 ^ 63)"

definition is_int64 :: "int \<Rightarrow> bool" where
  "is_int64 x \<longleftrightarrow> min_int64 \<le> x \<and> x \<le> max_int64"

lemmas int64_defs = is_int64_def min_int64_def max_int64_def

lemma wrap64_id [simp]: "is_int64 x \<Longrightarrow> wrap64 x = x"
  by (simp add: wrap64_def int64_defs)

lemma wrap64_range [simp]: "is_int64 (wrap64 x)"
proof -
  have "0 \<le> (x + 2 ^ 63) mod 2 ^ 64" "(x + 2 ^ 63) mod 2 ^ 64 < 2 ^ 64" by simp_all
  then show ?thesis unfolding wrap64_def int64_defs by simp
qed

text \<open>Go's integer division truncates towards zero.\<close>

definition go_div :: "int \<Rightarrow> int \<Rightarrow> int" where
  "go_div num den =
     (let q = nat \<bar>num\<bar> div nat \<bar>den\<bar> in if (num < 0) = (den < 0) then int q else - int q)"

lemma go_div_nonneg [simp]: "0 \<le> num \<Longrightarrow> 0 < den \<Longrightarrow> go_div num den = num div den"
  by (simp add: go_div_def nat_div_distrib[symmetric] pos_imp_zdiv_nonneg_iff)

section \<open>White space and decimal text\<close>

abbreviation byte_at :: "nat \<Rightarrow> char" where "byte_at n \<equiv> char_of n"

definition ascii_space :: "char \<Rightarrow> bool" where
  "ascii_space c \<longleftrightarrow> of_char c \<in> {9, 10, 11, 12, 13, 32 :: nat}"

text \<open>
  The number of bytes of the white-space rune at the head of a UTF-8 text, 0 if there is none:
  ASCII spaces, U+0085, U+00A0, U+1680, U+2000..U+200A, U+2028, U+2029, U+202F, U+205F, U+3000.
\<close>

definition space_len :: "string \<Rightarrow> nat" where
  "space_len s =
     (case map of_char s :: nat list of
        [] \<Rightarrow> 0
      | a # r \<Rightarrow>
          if a \<in> {9, 10, 11, 12, 13, 32} then 1
          else (case r of
                  [] \<Rightarrow> 0
                | b # r' \<Rightarrow>
                    if a = 194 \<and> (b = 133 \<or> b = 160) then 2
                    else (case r' of
                            [] \<Rightarrow> 0
                          | c # _ \<Rightarrow>
                              if (a = 225 \<and> b = 154 \<and> c = 128)
                               \<or> (a = 226 \<and> b = 128 \<and> (128 \<le> c \<and> c \<le> 138 \<or> c \<in> {168, 169, 175}))
                               \<or> (a = 226 \<and> b = 129 \<and> c = 159)
                               \<or> (a = 227 \<and> b = 128 \<and> c = 128)
                              then 3 else 0)))"

lemma space_len_le: "space_len s \<le> length s"
proof (cases s)
  case Nil
  then show ?thesis by (simp add: space_len_def)
next
  case c: (Cons c r)
  show ?thesis
  proof (cases r)
    case Nil
    with c show ?thesis by (simp add: space_len_def)
  next
    case r: (Cons c' r')
    with c show ?thesis by (cases r') (simp_all add: space_len_def)
  qed
qed

lemma space_len_Nil [simp]: "space_len [] = 0"
  by (simp add: space_len_def)

function trim_left :: "string \<Rightarrow> string" where
  "trim_left s = (if space_len s = 0 then s else trim_left (drop (space_len s) s))"
  by pat_completeness auto
termination
proof (relation "measure length", simp)
  fix s assume "space_len s \<noteq> 0"
  then show "(drop (space_len s) s, s) \<in> measure length"
    using space_len_le[of s] by (cases s) auto
qed

declare trim_left.simps [simp del]

definition blank :: "string \<Rightarrow> bool" where
  "blank s \<longleftrightarrow> trim_left s = []"

lemma trim_left_Nil [simp]: "trim_left [] = []"
  by (simp add: trim_left.simps)

lemma blank_Nil [simp]: "blank []"
  by (simp add: blank_def)

lemma not_blank_nonempty: "\<not> blank s \<Longrightarrow> s \<noteq> []"
  by auto

text \<open>\<open>strconv.FormatInt(x, 10)\<close> and \<open>strconv.ParseInt(s, 10, 64)\<close>.\<close>

definition digit_char :: "nat \<Rightarrow> char" where
  "digit_char d = char_of (48 + d)"

definition is_digit :: "char \<Rightarrow> bool" where
  "is_digit c \<longleftrightarrow> 48 \<le> (of_char c :: nat) \<and> (of_char c :: nat) \<le> 57"

definition digit_val :: "char \<Rightarrow> nat" where
  "digit_val c = of_char c - 48"

lemma digit_char_val [simp]: "d < 10 \<Longrightarrow> digit_val (digit_char d) = d"
  by (simp add: digit_val_def digit_char_def)

lemma digit_char_is_digit [simp]: "d < 10 \<Longrightarrow> is_digit (digit_char d)"
  by (simp add: is_digit_def digit_char_def)

fun format_nat :: "nat \<Rightarrow> string" where
  "format_nat n = (if n < 10 then [digit_char n] else format_nat (n div 10) @ [digit_char (n mod 10)])"

declare format_nat.simps [simp del]

definition format_int :: "int \<Rightarrow> string" where
  "format_int x = (if x < 0 then CHR ''-'' # format_nat (nat (- x)) else format_nat (nat x))"

definition digits_val :: "string \<Rightarrow> nat" where
  "digits_val s = foldl (\<lambda>acc c. 10 * acc + digit_val c) 0 s"

definition parse_digits :: "string \<Rightarrow> nat option" where
  "parse_digits s = (if s \<noteq> [] \<and> list_all is_digit s then Some (digits_val s) else None)"

definition parse_int64 :: "string \<Rightarrow> int option" where
  "parse_int64 s =
     (let (neg, body) = (case s of
              [] \<Rightarrow> (False, [])
            | c # r \<Rightarrow> if c = CHR ''-'' then (True, r) else if c = CHR ''+'' then (False, r) else (False, s))
      in case parse_digits body of
           None \<Rightarrow> None
         | Some n \<Rightarrow> (let x = (if neg then - int n else int n) in if is_int64 x then Some x else None))"

lemma digits_val_snoc [simp]: "digits_val (s @ [c]) = 10 * digits_val s + digit_val c"
  by (simp add: digits_val_def)

lemma format_nat_digits: "format_nat n \<noteq> [] \<and> list_all is_digit (format_nat n) \<and> digits_val (format_nat n) = n"
proof (induction n rule: format_nat.induct)
  case (1 n)
  show ?case
  proof (cases "n < 10")
    case True
    then show ?thesis
      by (simp add: format_nat.simps[of n] digits_val_def)
  next
    case False
    then have "format_nat n = format_nat (n div 10) @ [digit_char (n mod 10)]"
      by (simp add: format_nat.simps[of n])
    with 1[OF False] show ?thesis by simp
  qed
qed

lemma parse_digits_format_nat [simp]: "parse_digits (format_nat n) = Some n"
  using format_nat_digits[of n] by (simp add: parse_digits_def)

lemma format_nat_head: "format_nat n = c # r \<Longrightarrow> c \<noteq> CHR ''-'' \<and> c \<noteq> CHR ''+''"
  using format_nat_digits[of n] by (auto simp: is_digit_def)

lemma parse_format_int64 [simp]: "is_int64 x \<Longrightarrow> parse_int64 (format_int x) = Some x"
proof (cases "x < 0")
  case True
  assume "is_int64 x"
  with True show ?thesis by (simp add: parse_int64_def format_int_def)
next
  case False
  assume r: "is_int64 x"
  obtain c s where cs: "format_nat (nat x) = c # s"
    using format_nat_digits[of "nat x"] by (cases "format_nat (nat x)") auto
  have "parse_digits (c # s) = Some (nat x)"
    using parse_digits_format_nat[of "nat x"] cs by simp
  with False r format_nat_head[OF cs] cs show ?thesis
    by (simp add: parse_int64_def format_int_def)
qed

text \<open>
  A text encoding of values and its parser: what is read back is what was written, so the texts of
  two values differ when the values do.
\<close>

locale text_codec =
  fixes ok :: "'a \<Rightarrow> bool"
    and encode :: "'a \<Rightarrow> string"
    and decode :: "string \<Rightarrow> 'a option"
  assumes decode_encode: "ok x \<Longrightarrow> decode (encode x) = Some x"
begin

lemma encode_inject: "ok x \<Longrightarrow> ok y \<Longrightarrow> encode x = encode y \<longleftrightarrow> x = y"
  by (metis decode_encode option.inject)

end

interpretation int64_codec: text_codec is_int64 format_int parse_int64
  by unfold_locales simp

section \<open>Ordering: stable sort and running best\<close>

text \<open>\<open>sort.SliceStable\<close> with a comparison \<open>less\<close>: insertion after every element that is not greater.\<close>

primrec insert_stable :: "('a \<Rightarrow> 'a \<Rightarrow> bool) \<Rightarrow> 'a \<Rightarrow> 'a list \<Rightarrow> 'a list" where
  "insert_stable lt x [] = [x]"
| "insert_stable lt x (y # ys) = (if lt y x then y # insert_stable lt x ys else x # y # ys)"

primrec sort_stable :: "('a \<Rightarrow> 'a \<Rightarrow> bool) \<Rightarrow> 'a list \<Rightarrow> 'a list" where
  "sort_stable lt [] = []"
| "sort_stable lt (x # xs) = insert_stable lt x (sort_stable lt xs)"

lemma mset_insert_stable [simp]: "mset (insert_stable lt x xs) = add_mset x (mset xs)"
  by (induction xs) auto

lemma mset_sort_stable [simp]: "mset (sort_stable lt xs) = mset xs"
  by (induction xs) auto

lemma set_insert_stable [simp]: "set (insert_stable lt x xs) = insert x (set xs)"
  by (induction xs) auto

lemma set_sort_stable [simp]: "set (sort_stable lt xs) = set xs"
  by (induction xs) auto

lemma length_sort_stable [simp]: "length (sort_stable lt xs) = length xs"
  by (metis mset_sort_stable size_mset)

lemma sort_stable_Nil_iff [simp]: "sort_stable lt xs = [] \<longleftrightarrow> xs = []"
  by (metis length_0_conv length_sort_stable)

text \<open>
  The running-best loop of Go (\<open>best := -1; for i, x := range xs { if best == -1 || better(x, xs[best])
  { best = i } }\<close>), over the elements instead of their indices.
\<close>

fun best_of :: "('a \<Rightarrow> 'a \<Rightarrow> bool) \<Rightarrow> 'a option \<Rightarrow> 'a list \<Rightarrow> 'a option" where
  "best_of better acc [] = acc"
| "best_of better acc (x # xs) =
     (case acc of
        None \<Rightarrow> best_of better (Some x) xs
      | Some b \<Rightarrow> best_of better (if better x b then Some x else acc) xs)"

text \<open>
  A comparison function that Go code passes to \<open>sort.SliceStable\<close> or uses in a running-best loop:
  a strict weak order on the elements \<open>dom\<close> describes.
\<close>

locale strict_preference =
  fixes dom :: "'a \<Rightarrow> bool"
    and better :: "'a \<Rightarrow> 'a \<Rightarrow> bool"
  assumes better_asym: "dom x \<Longrightarrow> dom y \<Longrightarrow> better x y \<Longrightarrow> \<not> better y x"
    and better_cotrans: "dom x \<Longrightarrow> dom y \<Longrightarrow> dom z \<Longrightarrow> better x z \<Longrightarrow> better x y \<or> better y z"
begin

lemma better_irrefl: "dom x \<Longrightarrow> \<not> better x x"
  using better_asym by blast

lemma better_trans: "dom x \<Longrightarrow> dom y \<Longrightarrow> dom z \<Longrightarrow> better x y \<Longrightarrow> better y z \<Longrightarrow> better x z"
  using better_asym better_cotrans by blast

lemma insert_stable_sorted:
  assumes "sorted_wrt (\<lambda>a b. \<not> better b a) xs" and "dom x" and "\<forall>y\<in>set xs. dom y"
  shows "sorted_wrt (\<lambda>a b. \<not> better b a) (insert_stable better x xs)"
  using assms
proof (induction xs)
  case Nil
  then show ?case by simp
next
  case (Cons y ys)
  show ?case
  proof (cases "better y x")
    case True
    with Cons better_asym show ?thesis by auto
  next
    case False
    have "\<not> better z x" if "z \<in> set ys" for z
    proof
      assume "better z x"
      with better_cotrans[of z y x] Cons.prems that have "better z y \<or> better y x" by auto
      with False Cons.prems(1) that show False by simp
    qed
    with False Cons.prems(1) show ?thesis by simp
  qed
qed

lemma sort_stable_sorted:
  "\<forall>y\<in>set xs. dom y \<Longrightarrow> sorted_wrt (\<lambda>a b. \<not> better b a) (sort_stable better xs)"
  by (induction xs) (auto intro: insert_stable_sorted)

lemma sort_stable_hd_best:
  assumes "\<forall>y\<in>set xs. dom y" and "xs \<noteq> []" and "x \<in> set xs"
  shows "\<not> better x (hd (sort_stable better xs))"
proof -
  obtain h t where ht: "sort_stable better xs = h # t"
    using assms(2) by (cases "sort_stable better xs") auto
  have "x \<in> set (h # t)" using assms(3) ht set_sort_stable[of better xs] by metis
  moreover have "dom h" using assms(1) ht set_sort_stable[of better xs] by (metis list.set_intros(1))
  ultimately show ?thesis
    using sort_stable_sorted[OF assms(1)] ht better_irrefl by auto
qed

lemma best_of_optimal:
  assumes "\<forall>y\<in>set xs. dom y" and "\<forall>b. acc = Some b \<longrightarrow> dom b"
    and "best_of better acc xs = Some r"
  shows "dom r \<and> (r \<in> set xs \<or> acc = Some r) \<and> (\<forall>y\<in>set xs. \<not> better y r)
       \<and> (\<forall>b. acc = Some b \<longrightarrow> \<not> better b r)"
  using assms
proof (induction better' \<equiv> better acc xs rule: best_of.induct)
  case (1 acc)
  then show ?case using better_irrefl by auto
next
  case (2 acc x xs)
  show ?case
  proof (cases acc)
    case None
    with 2 show ?thesis by auto
  next
    case (Some b)
    define acc' where "acc' = (if better x b then Some x else acc)"
    have res: "best_of better acc' xs = Some r"
      using "2.prems"(3) Some by (cases "better x b") (simp_all add: acc'_def)
    have dxb: "dom x" "dom b" "\<forall>y\<in>set xs. dom y" using "2.prems"(1,2) Some by auto
    then have "\<forall>b'. acc' = Some b' \<longrightarrow> dom b'" using Some by (auto simp: acc'_def)
    with 2(2)[OF Some] res dxb
    have ih: "dom r" "r \<in> set xs \<or> acc' = Some r" "\<forall>y\<in>set xs. \<not> better y r"
        "\<forall>b'. acc' = Some b' \<longrightarrow> \<not> better b' r"
      by (auto simp: acc'_def)
    have "\<not> better x r \<and> \<not> better b r"
    proof (cases "better x b")
      case True
      with ih(4) have "\<not> better x r" by (simp add: acc'_def)
      with True dxb ih(1) better_trans show ?thesis by blast
    next
      case False
      with ih(4) Some have "\<not> better b r" by (simp add: acc'_def)
      with False dxb ih(1) better_cotrans show ?thesis by blast
    qed
    with ih Some show ?thesis by (auto simp: acc'_def split: if_splits)
  qed
qed

end

lemma best_of_None_iff: "best_of better acc xs = None \<longleftrightarrow> acc = None \<and> xs = []"
  by (induction better acc xs rule: best_of.induct) (auto split: option.splits)

lemma best_of_mem:
  "best_of better acc xs = Some r \<Longrightarrow> r \<in> set xs \<or> acc = Some r"
  by (induction better acc xs rule: best_of.induct) (auto split: option.splits if_splits)

section \<open>Systems of operations and their invariants\<close>

text \<open>
  A component whose operations are a step function on a state: an invariant that holds at the start
  and is kept by every operation holds after every sequence of operations.
\<close>

fun run_ops :: "('s \<Rightarrow> 'o \<Rightarrow> 's) \<Rightarrow> 's \<Rightarrow> 'o list \<Rightarrow> 's" where
  "run_ops step s [] = s"
| "run_ops step s (x # xs) = run_ops step (step s x) xs"

lemma run_ops_append [simp]: "run_ops step s (xs @ ys) = run_ops step (run_ops step s xs) ys"
  by (induction xs arbitrary: s) auto

locale operation_system =
  fixes inv :: "'s \<Rightarrow> bool"
    and legal :: "'s \<Rightarrow> 'o \<Rightarrow> bool"
    and step :: "'s \<Rightarrow> 'o \<Rightarrow> 's"
  assumes step_inv: "inv s \<Longrightarrow> legal s x \<Longrightarrow> inv (step s x)"
begin

fun legal_run :: "'s \<Rightarrow> 'o list \<Rightarrow> bool" where
  "legal_run s [] \<longleftrightarrow> True"
| "legal_run s (x # xs) \<longleftrightarrow> legal s x \<and> legal_run (step s x) xs"

lemma run_inv: "inv s \<Longrightarrow> legal_run s xs \<Longrightarrow> inv (run_ops step s xs)"
  by (induction xs arbitrary: s) (auto intro: step_inv)

end

end
