(* ===== verification/Go_Time.thy ===== *)
theory Go_Time
  imports Go_Prelude "HOL-Library.Monad_Syntax"
begin

text \<open>
  Go's package \<open>time\<close>, as far as the sources use it. A \<open>time.Time\<close> in UTC is an \<open>instant\<close>, the
  nanoseconds since the Unix epoch; a \<open>time.Duration\<close> is a signed 64-bit count of nanoseconds.
  \<open>format_time\<close> is \<open>t.UTC().Format(time.RFC3339Nano)\<close> and \<open>parse_time\<close> is
  \<open>time.Parse(time.RFC3339Nano, s)\<close> (fraction optional and with any number of digits, one-digit hours,
  numeric zone offsets: what the Go parser accepts). The database stores these texts and the SQL of
  the repositories compares them as texts, so the file also relates the order of the texts to the
  order of the instants: the two agree between instants of different seconds (\<open>format_time_less\<close>)
  and may disagree inside one second.
\<close>

type_synonym instant = int
type_synonym duration = int

definition second :: int where "second = 1000000000"
definition minute :: int where "minute = 60 * second"

text \<open>\<open>time.Time{}\<close>: January 1, year 1, 00:00:00 UTC.\<close>

definition zero_time :: instant where "zero_time = - 62135596800 * second"

definition is_zero :: "instant \<Rightarrow> bool" where "is_zero t \<longleftrightarrow> t = zero_time"

text \<open>\<open>t.Sub(u)\<close> saturates at the ends of the 64-bit range.\<close>

definition time_sub :: "instant \<Rightarrow> instant \<Rightarrow> duration" where
  "time_sub t u = max min_int64 (min max_int64 (t - u))"

text \<open>\<open>time.Duration(n) * time.Second\<close> wraps.\<close>

definition seconds_dur :: "int \<Rightarrow> duration" where
  "seconds_dur n = wrap64 (n * second)"

lemma seconds_dur_small [simp]: "0 \<le> n \<Longrightarrow> n \<le> 9000000000 \<Longrightarrow> seconds_dur n = n * second"
  by (simp add: seconds_dur_def second_def int64_defs)

section \<open>Calendar\<close>

definition leap_year :: "int \<Rightarrow> bool" where
  "leap_year y \<longleftrightarrow> 4 dvd y \<and> (\<not> 100 dvd y \<or> 400 dvd y)"

definition days_in :: "int \<Rightarrow> int \<Rightarrow> int" where
  "days_in y m =
     (if m = 2 then (if leap_year y then 29 else 28) else if m \<in> {4, 6, 9, 11} then 30 else 31)"

text \<open>Days since 1970-01-01 of a date, counting years from March so that the leap day comes last.\<close>

definition year_days :: "int \<Rightarrow> int" where
  "year_days y = 365 * y + y div 4 - y div 100 + y div 400"

definition days_from_civil :: "int \<Rightarrow> int \<Rightarrow> int \<Rightarrow> int" where
  "days_from_civil y m d =
     (let y' = (if m \<le> 2 then y - 1 else y); mp = (if m \<le> 2 then m + 9 else m - 3)
      in year_days y' + (153 * mp + 2) div 5 + d - 1 - 719468)"

definition civil_from_days :: "int \<Rightarrow> int \<times> int \<times> int" where
  "civil_from_days z =
     (let n = z + 719468;
          a = n div 146097; d400 = n mod 146097;
          b = min 3 (d400 div 36524); d100 = d400 - 36524 * b;
          c = d100 div 1461; d4 = d100 mod 1461;
          e = min 3 (d4 div 365); doy = d4 - 365 * e;
          y' = 400 * a + 100 * b + 4 * c + e;
          mp = (5 * doy + 2) div 153;
          d = doy - (153 * mp + 2) div 5 + 1;
          m = (if mp < 10 then mp + 3 else mp - 9);
          y = (if m \<le> 2 then y' + 1 else y')
      in (y, m, d))"

definition valid_date :: "int \<Rightarrow> int \<Rightarrow> int \<Rightarrow> bool" where
  "valid_date y m d \<longleftrightarrow> 1 \<le> m \<and> m \<le> 12 \<and> 1 \<le> d \<and> d \<le> days_in y m"

lemma civil_parts:
  fixes n :: int
  assumes "a = n div 146097" "d400 = n mod 146097" "b = min 3 (d400 div 36524)"
    "d100 = d400 - 36524 * b" "c = d100 div 1461" "d4 = d100 mod 1461"
    "e = min 3 (d4 div 365)" "doy = d4 - 365 * e" "y = 400 * a + 100 * b + 4 * c + e"
  shows "n = year_days y + doy"
    and "0 \<le> doy" and "doy \<le> 365" and "doy = 365 \<longrightarrow> leap_year (y + 1)"
proof -
  have n: "n = 146097 * a + d400" "0 \<le> d400" "d400 \<le> 146096" using assms(1,2) by simp_all
  have b: "0 \<le> b" "b \<le> 3" "0 \<le> d100" "d100 \<le> 36524" "b < 3 \<Longrightarrow> d100 \<le> 36523"
    using n assms(3,4) by (auto simp: min_def split: if_splits)
  have c: "d100 = 1461 * c + d4" "0 \<le> d4" "d4 \<le> 1460" "0 \<le> c" "c \<le> 24"
    using b assms(5,6) by auto
  have e: "0 \<le> e" "e \<le> 3" "0 \<le> doy" "doy \<le> 365" "e < 3 \<Longrightarrow> doy \<le> 364"
    using c assms(7,8) by (auto simp: min_def split: if_splits)
  have y4: "y div 4 = 100 * a + 25 * b + c" using e assms(9) by simp
  have y100: "y div 100 = 4 * a + b" using c e assms(9) by simp
  have y400: "y div 400 = a" using b c e assms(9) by simp
  show "n = year_days y + doy"
    unfolding year_days_def y4 y100 y400 using n c assms(4,8,9) by simp
  show "0 \<le> doy" "doy \<le> 365" using e by auto
  show "doy = 365 \<longrightarrow> leap_year (y + 1)"
  proof
    assume "doy = 365"
    then have e3: "e = 3" and d4: "d4 = 1460" using e assms(8) by (cases "e < 3"; simp)+
    have y1: "y + 1 = 400 * a + 100 * b + 4 * (c + 1)" using e3 assms(9) by simp
    show "leap_year (y + 1)"
    proof (cases "c = 24")
      case True
      then have "d100 = 36524" using d4 c by simp
      then have "b = 3" using b by (cases "b < 3") auto
      then have "y + 1 = 400 * (a + 1)" using y1 True by simp
      then show ?thesis by (simp add: leap_year_def)
    next
      case False
      have "y + 1 = 4 * (100 * a + 25 * b + (c + 1))" using y1 by simp
      then have d4y: "4 dvd y + 1" by (metis dvd_triv_left)
      have "\<not> 100 dvd y + 1"
      proof
        assume "100 dvd y + 1"
        then have "100 dvd (y + 1) - 100 * (4 * a + b)" by (rule dvd_diff) simp
        then have "100 dvd 4 * (c + 1)" using y1 by (simp add: algebra_simps)
        then have "25 * 4 dvd (c + 1) * 4" by (simp add: algebra_simps)
        then have "25 dvd c + 1" by (subst (asm) dvd_mult_cancel_right) simp
        then have "25 \<le> c + 1" using c by (intro zdvd_imp_le) auto
        then show False using False c by simp
      qed
      with d4y show ?thesis by (simp add: leap_year_def)
    qed
  qed
qed

lemma civil_from_days_correct:
  assumes "civil_from_days z = (y, m, d)"
  shows "days_from_civil y m d = z" and "valid_date y m d"
proof -
  define n where "n = z + 719468"
  define a where "a = n div 146097"
  define d400 where "d400 = n mod 146097"
  define b where "b = min 3 (d400 div 36524)"
  define d100 where "d100 = d400 - 36524 * b"
  define c where "c = d100 div 1461"
  define d4 where "d4 = d100 mod 1461"
  define e where "e = min 3 (d4 div 365)"
  define doy where "doy = d4 - 365 * e"
  define y' where "y' = 400 * a + 100 * b + 4 * c + e"
  define mp where "mp = (5 * doy + 2) div 153"
  note defs = n_def a_def d400_def b_def d100_def c_def d4_def e_def doy_def y'_def mp_def
  have P: "n = year_days y' + doy"
    "0 \<le> doy" "doy \<le> 365" "doy = 365 \<longrightarrow> leap_year (y' + 1)"
    using civil_parts[OF a_def d400_def b_def d100_def c_def d4_def e_def doy_def y'_def] by auto
  have mp: "0 \<le> mp" "mp \<le> 11" using P(2,3) by (simp_all add: mp_def)
  have ymd: "m = (if mp < 10 then mp + 3 else mp - 9)" "d = doy - (153 * mp + 2) div 5 + 1"
    "y = (if m \<le> 2 then y' + 1 else y')"
  proof -
    have "civil_from_days z = (if (if mp < 10 then mp + 3 else mp - 9) \<le> 2 then y' + 1 else y',
        if mp < 10 then mp + 3 else mp - 9, doy - (153 * mp + 2) div 5 + 1)"
      by (simp only: civil_from_days_def Let_def defs)
    then have eq: "y = (if (if mp < 10 then mp + 3 else mp - 9) \<le> 2 then y' + 1 else y')"
      "m = (if mp < 10 then mp + 3 else mp - 9)" "d = doy - (153 * mp + 2) div 5 + 1"
      unfolding assms prod.inject by blast+
    show "m = (if mp < 10 then mp + 3 else mp - 9)" by (rule eq)
    show "d = doy - (153 * mp + 2) div 5 + 1" by (rule eq)
    show "y = (if m \<le> 2 then y' + 1 else y')" unfolding eq(2) by (rule eq(1))
  qed
  show "days_from_civil y m d = z"
  proof -
    have "(if m \<le> 2 then m + 9 else m - 3) = mp" "(if m \<le> 2 then y - 1 else y) = y'"
      using ymd(1,3) mp by (auto split: if_splits)
    then have "days_from_civil y m d = year_days y' + (153 * mp + 2) div 5 + d - 1 - 719468"
      by (simp only: days_from_civil_def Let_def)
    then show ?thesis using ymd(2) P(1) n_def by linarith
  qed
  have "mp = 0 \<or> mp = 1 \<or> mp = 2 \<or> mp = 3 \<or> mp = 4 \<or> mp = 5 \<or> mp = 6 \<or> mp = 7 \<or> mp = 8
      \<or> mp = 9 \<or> mp = 10 \<or> mp = 11"
    using mp by presburger
  moreover have "153 * mp \<le> 5 * doy + 2" "5 * doy + 2 < 153 * mp + 153"
    unfolding mp_def by presburger+
  ultimately show "valid_date y m d"
    using ymd P by (elim disjE) (auto simp: valid_date_def days_in_def)
qed

subsection \<open>Order of dates\<close>

lemma div_step:
  fixes y k :: int
  assumes "0 < k"
  shows "y div k - (y - 1) div k = (if k dvd y then 1 else 0)"
proof (cases "k dvd y")
  case True
  then obtain q where q: "y = k * q" by (elim dvdE)
  have "(k * q - 1) div k = q - 1"
    using assms int_div_pos_eq[of "k * q - 1" k "q - 1" "k - 1"] by (simp add: algebra_simps)
  with True q assms show ?thesis by simp
next
  case False
  have r: "y mod k < k" using assms by simp
  have r0: "0 < y mod k"
    using False assms pos_mod_sign[of k y] by (simp add: dvd_eq_mod_eq_0 order_less_le)
  have "(y - 1) div k = y div k"
    using int_div_pos_eq[of "y - 1" k "y div k" "y mod k - 1"] r r0
    by (simp add: algebra_simps minus_mod_eq_mult_div [symmetric])
  with False show ?thesis by simp
qed

lemma year_days_step: "year_days y = year_days (y - 1) + 365 + (if leap_year y then 1 else 0)"
proof -
  have "(400::int) dvd y \<Longrightarrow> 100 dvd y" and "(100::int) dvd y \<Longrightarrow> 4 dvd y"
    using dvd_trans[of "100::int" 400 y] dvd_trans[of "4::int" 100 y] by simp_all
  moreover have "year_days y - year_days (y - 1) = 365 + (if 4 dvd y then 1 else 0)
      - (if 100 dvd y then 1 else 0) + (if 400 dvd y then 1 else 0)"
    unfolding year_days_def div_step[of 4 y, simplified, symmetric] div_step[of 100 y, simplified, symmetric]
      div_step[of 400 y, simplified, symmetric]
    by (simp only: right_diff_distrib)
  ultimately show ?thesis
    by (cases "4 dvd y"; cases "100 dvd y"; cases "400 dvd y") (auto simp: leap_year_def)
qed

lemma first_of_next_month:
  assumes "1 \<le> m" "m \<le> 11"
  shows "days_from_civil y (m + 1) 1 = days_from_civil y m 1 + days_in y m"
proof -
  have "m = 1 \<or> m = 2 \<or> m = 3 \<or> m = 4 \<or> m = 5 \<or> m = 6 \<or> m = 7 \<or> m = 8 \<or> m = 9 \<or> m = 10 \<or> m = 11"
    using assms by presburger
  then show ?thesis
    using year_days_step[of y] by (elim disjE) (auto simp: days_from_civil_def days_in_def)
qed

lemma first_of_next_year: "days_from_civil (y + 1) 1 1 = days_from_civil y 12 1 + 31"
  by (simp add: days_from_civil_def Let_def)

lemma day_offset: "days_from_civil y m d = days_from_civil y m 1 + d - 1"
  by (simp add: days_from_civil_def Let_def)

lemma days_in_pos: "28 \<le> days_in y m"
  by (simp add: days_in_def)

lemma first_of_month_mono:
  assumes "1 \<le> m" "m < m'" "m' \<le> 12"
  shows "days_from_civil y m 1 + days_in y m \<le> days_from_civil y m' 1"
proof -
  have "days_from_civil y m 1 + days_in y m \<le> days_from_civil y (m + 1 + int k) 1"
    if "m + 1 + int k \<le> 12" for k
    using that
  proof (induction k)
    case 0
    then show ?case using first_of_next_month[of m y] assms by simp
  next
    case (Suc k)
    have "days_from_civil y (m + 1 + int (Suc k)) 1
        = days_from_civil y (m + 1 + int k) 1 + days_in y (m + 1 + int k)"
      using first_of_next_month[of "m + 1 + int k" y] assms Suc.prems by (simp add: algebra_simps)
    moreover have "days_from_civil y m 1 + days_in y m \<le> days_from_civil y (m + 1 + int k) 1"
      using Suc by simp
    ultimately show ?case using days_in_pos[of y "m + 1 + int k"] by linarith
  qed
  from this[of "nat (m' - m - 1)"] show ?thesis using assms by simp
qed

lemma new_year_mono: "y < y' \<Longrightarrow> days_from_civil (y + 1) 1 1 \<le> days_from_civil y' 1 1"
proof -
  assume "y < y'"
  have "days_from_civil (y + 1) 1 1 \<le> days_from_civil (y + 1 + int k) 1 1" for k
  proof (induction k)
    case (Suc k)
    have "days_from_civil (y + 1 + int k + 1) 1 1 \<ge> days_from_civil (y + 1 + int k) 1 1"
      using first_of_next_year[of "y + 1 + int k"] first_of_month_mono[of 1 12 "y + 1 + int k"]
        days_in_pos[of "y + 1 + int k" 1] by simp
    with Suc show ?case by (simp add: algebra_simps)
  qed simp
  from this[of "nat (y' - y - 1)"] show ?thesis using \<open>y < y'\<close> by simp
qed

lemma days_from_civil_mono:
  assumes v: "valid_date y m d" "valid_date y' m' d'"
    and less: "y < y' \<or> y = y' \<and> (m < m' \<or> m = m' \<and> d < d')"
  shows "days_from_civil y m d < days_from_civil y' m' d'"
proof -
  have v1: "1 \<le> m" "m \<le> 12" "1 \<le> d" "d \<le> days_in y m" using v(1) by (auto simp: valid_date_def)
  have v2: "1 \<le> m'" "m' \<le> 12" "1 \<le> d'" using v(2) by (auto simp: valid_date_def)
  consider "y < y'" | "y = y'" "m < m'" | "y = y'" "m = m'" "d < d'" using less by auto
  then show ?thesis
  proof cases
    case 1
    have "days_from_civil y m 1 + days_in y m \<le> days_from_civil (y + 1) 1 1"
    proof (cases "m = 12")
      case True
      then show ?thesis by (simp add: first_of_next_year days_in_def)
    next
      case False
      then show ?thesis
        using first_of_month_mono[of m 12 y] v1 first_of_next_year[of y] by simp
    qed
    also have "\<dots> \<le> days_from_civil y' 1 1" using new_year_mono[OF 1] .
    also have "\<dots> \<le> days_from_civil y' m' 1"
      using first_of_month_mono[of 1 m' y'] v2 days_in_pos[of y' 1] by (cases "m' = 1") auto
    finally show ?thesis using v1 v2 day_offset[of y m d] day_offset[of y' m' d'] by simp
  next
    case 2
    then show ?thesis
      using first_of_month_mono[of m m' y] v1 v2 day_offset[of y m d] day_offset[of y' m' d'] by simp
  next
    case 3
    then show ?thesis using day_offset[of y m d] day_offset[of y' m' d'] by simp
  qed
qed

lemma civil_from_days_less:
  assumes "z < z'" "civil_from_days z = (y, m, d)" "civil_from_days z' = (y', m', d')"
  shows "y < y' \<or> y = y' \<and> (m < m' \<or> m = m' \<and> d < d')"
proof (rule ccontr)
  assume "\<not> ?thesis"
  then have "y' < y \<or> y' = y \<and> (m' < m \<or> m' = m \<and> d' < d) \<or> (y', m', d') = (y, m, d)" by auto
  then have "days_from_civil y' m' d' \<le> days_from_civil y m d"
    using days_from_civil_mono[OF civil_from_days_correct(2)[OF assms(3)] civil_from_days_correct(2)[OF assms(2)]]
    by auto
  then show False
    using assms civil_from_days_correct(1) by fastforce
qed

lemma civil_from_days_eq:
  assumes "valid_date y m d" and "days_from_civil y m d = z"
  shows "civil_from_days z = (y, m, d)"
proof -
  obtain y' m' d' where c: "civil_from_days z = (y', m', d')" by (cases "civil_from_days z")
  note v = civil_from_days_correct[OF c]
  have "y' = y \<and> m' = m \<and> d' = d"
    using days_from_civil_mono[OF v(2) assms(1)] days_from_civil_mono[OF assms(1) v(2)] v(1) assms(2) by fastforce
  then show ?thesis using c by simp
qed

section \<open>RFC 3339 text\<close>

text \<open>\<open>pad k n\<close> writes the last \<open>k\<close> decimal digits of \<open>n\<close>.\<close>

primrec pad :: "nat \<Rightarrow> nat \<Rightarrow> string" where
  "pad 0 n = []"
| "pad (Suc k) n = digit_char (n div 10 ^ k mod 10) # pad k n"

definition format_year :: "int \<Rightarrow> string" where
  "format_year y =
     (if 0 \<le> y \<and> y \<le> 9999 then pad 4 (nat y)
      else (if y < 0 then ''-'' else '''') @
           (let ds = format_nat (nat \<bar>y\<bar>) in replicate (4 - length ds) (CHR ''0'') @ ds))"

definition strip_zeros :: "string \<Rightarrow> string" where
  "strip_zeros s = rev (dropWhile (\<lambda>c. c = CHR ''0'') (rev s))"

definition format_frac :: "nat \<Rightarrow> string" where
  "format_frac ns = (if ns = 0 then '''' else CHR ''.'' # strip_zeros (pad 9 ns))"

definition format_seconds :: "int \<Rightarrow> string" where
  "format_seconds s =
     (let (y, m, d) = civil_from_days (s div 86400); r = s mod 86400
      in format_year y @ ''-'' @ pad 2 (nat m) @ ''-'' @ pad 2 (nat d) @ ''T'' @
         pad 2 (nat (r div 3600)) @ '':'' @ pad 2 (nat (r div 60 mod 60)) @ '':'' @ pad 2 (nat (r mod 60)))"

definition format_time :: "instant \<Rightarrow> string" where
  "format_time t = format_seconds (t div second) @ format_frac (nat (t mod second)) @ ''Z''"

text \<open>The Go parser's pieces: two digits; one or two digits (the hour); an expected byte.\<close>

definition get2 :: "string \<Rightarrow> (nat \<times> string) option" where
  "get2 s = (case s of
     a # b # r \<Rightarrow> if is_digit a \<and> is_digit b then Some (10 * digit_val a + digit_val b, r) else None
   | _ \<Rightarrow> None)"

definition get_hour :: "string \<Rightarrow> (nat \<times> string) option" where
  "get_hour s = (case s of
     [] \<Rightarrow> None
   | a # r \<Rightarrow>
       if \<not> is_digit a then None
       else (case r of
               b # r' \<Rightarrow> if is_digit b then Some (10 * digit_val a + digit_val b, r') else Some (digit_val a, r)
             | [] \<Rightarrow> Some (digit_val a, r)))"

definition get4 :: "string \<Rightarrow> (nat \<times> string) option" where
  "get4 s = (if 4 \<le> length s \<and> list_all is_digit (take 4 s) then Some (digits_val (take 4 s), drop 4 s) else None)"

definition expect :: "char \<Rightarrow> string \<Rightarrow> string option" where
  "expect c s = (case s of a # r \<Rightarrow> if a = c then Some r else None | [] \<Rightarrow> None)"

text \<open>Nanoseconds of the fraction digits: at most nine digits count, later ones are dropped.\<close>

fun frac_val :: "nat \<Rightarrow> string \<Rightarrow> nat" where
  "frac_val 0 s = 0"
| "frac_val (Suc k) [] = 0"
| "frac_val (Suc k) (c # s) = digit_val c * 10 ^ k + frac_val k s"

definition get_frac :: "string \<Rightarrow> nat \<times> string" where
  "get_frac s = (case s of
     a # b # r \<Rightarrow> if (a = CHR ''.'' \<or> a = CHR '','') \<and> is_digit b
                  then (frac_val 9 (takeWhile is_digit (b # r)), dropWhile is_digit (b # r)) else (0, s)
   | _ \<Rightarrow> (0, s))"

definition get_zone :: "string \<Rightarrow> (int \<times> string) option" where
  "get_zone s = (case s of
     [] \<Rightarrow> None
   | c # r \<Rightarrow>
       if c = CHR ''Z'' then Some (0, r)
       else if c = CHR ''+'' \<or> c = CHR ''-'' then
         do { (h, r1) \<leftarrow> get2 r; r2 \<leftarrow> expect (CHR '':'') r1; (m, r3) \<leftarrow> get2 r2;
              if 24 < h \<or> 60 < m then None
              else Some ((if c = CHR ''-'' then -1 else 1) * (int h * 3600 + int m * 60), r3) }
       else None)"

definition parse_time :: "string \<Rightarrow> instant option" where
  "parse_time s = do {
     (y, s1) \<leftarrow> get4 s; s2 \<leftarrow> expect (CHR ''-'') s1;
     (m, s3) \<leftarrow> get2 s2; s4 \<leftarrow> expect (CHR ''-'') s3;
     (d, s5) \<leftarrow> get2 s4; s6 \<leftarrow> expect (CHR ''T'') s5;
     (h, s7) \<leftarrow> get_hour s6; s8 \<leftarrow> expect (CHR '':'') s7;
     (mi, s9) \<leftarrow> get2 s8; s10 \<leftarrow> expect (CHR '':'') s9;
     (se, s11) \<leftarrow> get2 s10;
     let (ns, s12) = get_frac s11;
     (off, s13) \<leftarrow> get_zone s12;
     if s13 = [] \<and> valid_date (int y) (int m) (int d) \<and> h < 24 \<and> mi < 60 \<and> se < 60
     then Some ((days_from_civil (int y) (int m) (int d) * 86400 + int h * 3600 + int mi * 60 + int se - off) * second + int ns)
     else None }"

subsection \<open>Digits\<close>

lemma length_pad [simp]: "length (pad k n) = k"
  by (induction k) auto

lemma pad_digits [simp]: "list_all is_digit (pad k n)"
  by (induction k) auto

lemma digits_val_append: "digits_val (s @ t) = digits_val s * 10 ^ length t + digits_val t"
proof (induction t rule: rev_induct)
  case Nil
  then show ?case by (simp add: digits_val_def)
next
  case (snoc c t)
  have "digits_val (s @ t @ [c]) = 10 * digits_val (s @ t) + digit_val c"
    using digits_val_snoc[of "s @ t" c] by simp
  with snoc show ?case by (simp add: algebra_simps)
qed

lemma digits_val_Cons: "digits_val (c # s) = digit_val c * 10 ^ length s + digits_val s"
  using digits_val_append[of "[c]" s] by (simp add: digits_val_def)

lemma mod_split: "(n :: nat) mod (10 * 10 ^ k) = (n div 10 ^ k mod 10) * 10 ^ k + n mod 10 ^ k"
  by (metis mod_mult2_eq mult.commute add.commute)

lemma digits_val_pad: "digits_val (pad k n) = n mod 10 ^ k"
proof (induction k)
  case 0
  show ?case by (simp add: digits_val_def)
next
  case (Suc k)
  then show ?case by (simp add: digits_val_Cons mod_split)
qed

lemma frac_val_pad: "frac_val k (pad k n) = n mod 10 ^ k"
proof (induction k)
  case (Suc k)
  then show ?case by (simp add: mod_split)
qed simp

lemma frac_val_zeros: "frac_val k (replicate j (CHR ''0'')) = 0"
proof (induction k arbitrary: j)
  case (Suc k)
  then show ?case by (cases j) (simp_all add: digit_val_def)
qed simp

lemma frac_val_append_zeros: "frac_val k (s @ replicate j (CHR ''0'')) = frac_val k s"
  by (induction k s rule: frac_val.induct) (simp_all add: frac_val_zeros)

lemma strip_zeros_split: "\<exists>j. s = strip_zeros s @ replicate j (CHR ''0'')"
proof -
  define z where "z = takeWhile (\<lambda>c. c = CHR ''0'') (rev s)"
  have "rev s = z @ dropWhile (\<lambda>c. c = CHR ''0'') (rev s)" by (simp add: z_def)
  then have "rev (rev s) = rev (z @ dropWhile (\<lambda>c. c = CHR ''0'') (rev s))" by (rule arg_cong)
  then have split: "s = strip_zeros s @ rev z" by (simp add: strip_zeros_def)
  have "\<forall>c\<in>set z. c = CHR ''0''" unfolding z_def by (auto dest: set_takeWhileD)
  then have "replicate (length z) (CHR ''0'') = z" by (intro replicate_length_same) auto
  then have "rev z = replicate (length z) (CHR ''0'')" by (metis rev_replicate)
  with split show ?thesis by (intro exI[of _ "length z"]) simp
qed

lemma frac_val_strip [simp]: "frac_val k (strip_zeros s) = frac_val k s"
  using strip_zeros_split[of s] frac_val_append_zeros by metis

lemma strip_zeros_digits: "list_all is_digit s \<Longrightarrow> list_all is_digit (strip_zeros s)"
  using strip_zeros_split[of s] by (metis list_all_append)

lemma strip_zeros_Nil: "strip_zeros s = [] \<Longrightarrow> frac_val k s = 0"
  using strip_zeros_split[of s] frac_val_zeros by (metis append_Nil)

section \<open>Round trip\<close>

lemma get2_pad [simp]: "get2 (pad 2 n @ r) = Some (n mod 100, r)"
proof -
  have "n mod 100 = 10 * (n div 10 mod 10) + n mod 10" using mod_split[of n 1] by simp
  then show ?thesis by (simp add: get2_def numeral_2_eq_2)
qed

lemma get_hour_pad [simp]: "get_hour (pad 2 n @ r) = Some (n mod 100, r)"
proof -
  have "n mod 100 = 10 * (n div 10 mod 10) + n mod 10" using mod_split[of n 1] by simp
  then show ?thesis by (simp add: get_hour_def numeral_2_eq_2)
qed

lemma get4_pad [simp]: "get4 (pad 4 n @ r) = Some (n mod 10000, r)"
  by (simp add: get4_def digits_val_pad)

lemma expect_same [simp]: "expect c (c # r) = Some r"
  by (simp add: expect_def)

lemma get_frac_format:
  assumes "ns < 1000000000"
  shows "get_frac (format_frac ns @ ''Z'') = (ns, ''Z'')"
proof (cases "ns = 0")
  case True
  then show ?thesis by (simp add: format_frac_def get_frac_def)
next
  case False
  let ?f = "strip_zeros (pad 9 ns)"
  have val: "frac_val 9 ?f = ns" using assms by (simp add: frac_val_pad)
  have dig: "list_all is_digit ?f" by (simp add: strip_zeros_digits)
  have "frac_val 9 [] = 0" by (simp add: eval_nat_numeral)
  with val False obtain b r where br: "?f = b # r" by (cases ?f) auto
  have nz: "\<not> is_digit (CHR ''Z'')" by (simp add: is_digit_def)
  have all: "\<forall>c\<in>set (b # r). is_digit c" using dig br by (simp add: list_all_iff)
  have "takeWhile is_digit ((b # r) @ ''Z'') = b # r" "dropWhile is_digit ((b # r) @ ''Z'') = ''Z''"
    using all nz by (simp_all add: takeWhile_append dropWhile_append)
  with False br val all show ?thesis by (simp add: format_frac_def get_frac_def)
qed

lemma get_zone_Z [simp]: "get_zone ''Z'' = Some (0, [])"
  by (simp add: get_zone_def)

text \<open>The instants of the years 0 to 9999, the range of the RFC 3339 texts.\<close>

definition rfc3339_range :: "instant \<Rightarrow> bool" where
  "rfc3339_range t \<longleftrightarrow> (case civil_from_days (t div second div 86400) of (y, m, d) \<Rightarrow> 0 \<le> y \<and> y \<le> 9999)"

lemma clock_parts:
  fixes r :: int
  assumes "0 \<le> r" "r < 86400"
  shows "nat (r div 3600) < 24" "nat (r div 60 mod 60) < 60" "nat (r mod 60) < 60"
    "int (nat (r div 3600)) * 3600 + int (nat (r div 60 mod 60)) * 60 + int (nat (r mod 60)) = r"
proof -
  have "0 \<le> r div 3600" "0 \<le> r div 60 mod 60" "0 \<le> r mod 60" using assms by simp_all
  moreover have "r div 3600 * 3600 + r div 60 mod 60 * 60 + r mod 60 = r"
  proof -
    have e: "r div 3600 = r div 60 div 60" using zdiv_zmult2_eq[of 60 r 60] by simp
    have "60 * (r div 60 div 60) + r div 60 mod 60 = r div 60" "60 * (r div 60) + r mod 60 = r"
      by (rule mult_div_mod_eq)+
    then show ?thesis unfolding e by linarith
  qed
  ultimately show "int (nat (r div 3600)) * 3600 + int (nat (r div 60 mod 60)) * 60 + int (nat (r mod 60)) = r"
    by simp
qed (use assms in auto)

lemma days_in_le: "days_in y m \<le> 31"
  by (simp add: days_in_def)

text \<open>How a concrete time is written: the date, the seconds of the day, and no fraction.\<close>

lemma format_time_date:
  assumes "valid_date y m d" and "t = (days_from_civil y m d * 86400 + s) * second" and "0 \<le> s" "s < 86400"
  shows "format_time t = format_year y @ ''-'' @ pad 2 (nat m) @ ''-'' @ pad 2 (nat d) @ ''T'' @
         pad 2 (nat (s div 3600)) @ '':'' @ pad 2 (nat (s div 60 mod 60)) @ '':'' @ pad 2 (nat (s mod 60)) @ ''Z''"
proof -
  have q: "t div second = days_from_civil y m d * 86400 + s" "t mod second = 0"
    using assms(2) by (simp_all add: second_def)
  have "civil_from_days (t div second div 86400) = (y, m, d)" "t div second mod 86400 = s"
    using assms(1,3,4) by (simp_all add: q civil_from_days_eq)
  then show ?thesis by (simp add: format_time_def format_seconds_def format_frac_def q(2))
qed

lemma pad_numeral: "pad (numeral k) n = digit_char (n div 10 ^ (pred_numeral k) mod 10) # pad (pred_numeral k) n"
  by (metis numeral_eq_Suc pad.simps(2))

lemma digit_chars:
  "digit_char 0 = CHR ''0''" "digit_char (Suc 0) = CHR ''1''" "digit_char 2 = CHR ''2''"
  "digit_char (Suc (Suc 0)) = CHR ''2''" "digit_char (Suc (Suc (Suc (Suc (Suc (Suc 0)))))) = CHR ''6''" "digit_char 6 = CHR ''6''"
  by code_simp+

lemma parse_format_time:
  assumes "rfc3339_range t"
  shows "parse_time (format_time t) = Some t"
proof -
  obtain y m d where ymd: "civil_from_days (t div second div 86400) = (y, m, d)" by (cases "civil_from_days (t div second div 86400)")
  define r where "r = t div second mod 86400"
  have r: "0 \<le> r" "r < 86400" by (simp_all add: r_def)
  have y: "0 \<le> y" "y \<le> 9999" using assms ymd by (simp_all add: rfc3339_range_def)
  have vd: "valid_date y m d" and days: "days_from_civil y m d = t div second div 86400"
    using civil_from_days_correct[OF ymd] by simp_all
  have m: "1 \<le> m" "m \<le> 12" and d: "1 \<le> d" "d \<le> 31"
    using vd days_in_le[of y m] by (auto simp: valid_date_def)
  define ns where "ns = nat (t mod second)"
  have ns: "ns < 1000000000" "int ns = t mod second" by (auto simp: ns_def second_def)
  have fmt: "format_time t = pad 4 (nat y) @ CHR ''-'' # pad 2 (nat m) @ CHR ''-'' # pad 2 (nat d) @ CHR ''T'' #
     pad 2 (nat (r div 3600)) @ CHR '':'' # pad 2 (nat (r div 60 mod 60)) @ CHR '':'' # pad 2 (nat (r mod 60)) @
     (format_frac ns @ ''Z'')"
    using y unfolding format_time_def format_seconds_def format_year_def
    by (simp add: ymd r_def ns_def Let_def)
  have small: "nat y mod 10000 = nat y" "nat m mod 100 = nat m" "nat d mod 100 = nat d"
    "nat (r div 3600) mod 100 = nat (r div 3600)" "nat (r div 60 mod 60) mod 100 = nat (r div 60 mod 60)"
    "nat (r mod 60) mod 100 = nat (r mod 60)"
    using y m d clock_parts(1-3)[OF r] by (simp_all add: mod_less nat_less_iff)
  have total: "(days_from_civil y m d * 86400 + int (nat (r div 3600)) * 3600 + int (nat (r div 60 mod 60)) * 60 + int (nat (r mod 60)) - 0) * second + int ns = t"
  proof -
    have "days_from_civil y m d * 86400 + int (nat (r div 3600)) * 3600 + int (nat (r div 60 mod 60)) * 60 + int (nat (r mod 60)) = t div second"
      using clock_parts(4)[OF r] mult_div_mod_eq[of 86400 "t div second"] unfolding days r_def[symmetric] by linarith
    then show ?thesis using ns(2) mult_div_mod_eq[of second t] by (simp only: diff_0_right mult.commute[of _ second])
  qed
  have vd': "valid_date (int (nat y)) (int (nat m)) (int (nat d))" using vd y m d by simp
  show ?thesis
    unfolding parse_time_def fmt using vd' total y m d
    by (simp add: small get_frac_format[OF ns(1)] clock_parts(1-3)[OF r])
qed

section \<open>Order of the texts\<close>

lemma append_less_head:
  fixes a b :: string
  shows "length a = length b \<Longrightarrow> a < b \<Longrightarrow> a @ r < b @ r'"
  by (induction a b rule: list_induct2) auto

lemma append_less_same [simp]: "a @ r < a @ r' \<longleftrightarrow> r < r'" for a :: string
  by (induction a) auto

lemma digit_char_less [simp]: "i < 10 \<Longrightarrow> j < 10 \<Longrightarrow> digit_char i < digit_char j \<longleftrightarrow> i < j"
  by (simp add: digit_char_def less_char_def)

lemma digit_char_eq [simp]: "i < 10 \<Longrightarrow> j < 10 \<Longrightarrow> digit_char i = digit_char j \<longleftrightarrow> i = j"
  by (metis digit_char_val)

lemma pad_mod: "j \<le> k \<Longrightarrow> pad j (n mod 10 ^ k) = pad j n"
proof (induction j)
  case (Suc j)
  obtain i where k: "k = j + Suc i" using Suc.prems by (metis add_Suc_right less_iff_Suc_add Suc_le_eq)
  have "n mod 10 ^ k div 10 ^ j mod 10 = n div 10 ^ j mod (10 ^ Suc i) mod 10"
    unfolding k power_add by (simp only: mod_mult2_eq[of n "10 ^ j"]) (simp add: div_mult2_eq)
  also have "\<dots> = n div 10 ^ j mod 10" by (rule mod_mod_cancel) simp
  finally show ?case using Suc by simp
qed simp

lemma pad_less: "m < n \<Longrightarrow> n < 10 ^ k \<Longrightarrow> pad k m < pad k n"
proof (induction k arbitrary: m n)
  case (Suc k)
  let ?p = "10 ^ k :: nat"
  have lt: "m div ?p < 10" "n div ?p < 10"
    using Suc.prems by (auto simp: less_mult_imp_div_less)
  have le: "m div ?p \<le> n div ?p" using Suc.prems by (simp add: div_le_mono)
  show ?case
  proof (cases "m div ?p = n div ?p")
    case True
    have "m mod ?p < n mod ?p"
      using Suc.prems(1) True by (metis div_mult_mod_eq nat_add_left_cancel_less)
    then have "pad k (m mod ?p) < pad k (n mod ?p)" by (intro Suc.IH) simp_all
    with True show ?thesis by (simp add: pad_mod)
  next
    case False
    with le lt show ?thesis by simp
  qed
qed simp

lemma pad_seg:
  "m < n \<and> n < 10 ^ k \<or> m = n \<and> r < r' \<Longrightarrow> pad k m @ r < pad k n @ r'"
  using append_less_head[of "pad k m" "pad k n" r r'] pad_less[of m n k] append_less_same[of "pad k m" r r']
  by (metis length_pad)

lemma clock_less:
  fixes r r' :: int
  assumes "r < r'"
  shows "r div 3600 < r' div 3600 \<or> r div 3600 = r' div 3600 \<and>
     (r div 60 mod 60 < r' div 60 mod 60 \<or> r div 60 mod 60 = r' div 60 mod 60 \<and> r mod 60 < r' mod 60)"
proof -
  have e: "x div 3600 = x div 60 div 60" for x :: int using zdiv_zmult2_eq[of 60 x 60] by simp
  have step: "x < x' \<Longrightarrow> x div 60 < x' div 60 \<or> x div 60 = x' div 60 \<and> x mod 60 < x' mod 60" for x x' :: int
    using mult_div_mod_eq[of 60 x] mult_div_mod_eq[of 60 x'] zdiv_mono1[of x x' 60] by linarith
  show ?thesis
    using step[OF assms] step[of "r div 60" "r' div 60"] unfolding e by metis
qed

text \<open>Texts of instants in different seconds compare as the instants do.\<close>

lemma format_seconds_less:
  assumes "s < s'"
    and "rfc3339_range (s * second)" and "rfc3339_range (s' * second)"
  shows "format_seconds s @ f < format_seconds s' @ f'"
proof -
  obtain y m d where ymd: "civil_from_days (s div 86400) = (y, m, d)" by (cases "civil_from_days (s div 86400)")
  obtain y' m' d' where ymd': "civil_from_days (s' div 86400) = (y', m', d')" by (cases "civil_from_days (s' div 86400)")
  define r where "r = s mod 86400"
  define r' where "r' = s' mod 86400"
  have r: "0 \<le> r" "r < 86400" "0 \<le> r'" "r' < 86400" by (simp_all add: r_def r'_def)
  have y: "0 \<le> y" "y \<le> 9999" "0 \<le> y'" "y' \<le> 9999"
    using assms(2,3) ymd ymd' by (simp_all add: rfc3339_range_def second_def)
  have v: "valid_date y m d" "valid_date y' m' d'"
    using civil_from_days_correct[OF ymd] civil_from_days_correct[OF ymd'] by simp_all
  have md: "1 \<le> m" "m \<le> 12" "1 \<le> d" "d \<le> 31" "1 \<le> m'" "m' \<le> 12" "1 \<le> d'" "d' \<le> 31"
    using v days_in_le[of y m] days_in_le[of y' m'] by (auto simp: valid_date_def)
  have cases: "s div 86400 < s' div 86400 \<or> s div 86400 = s' div 86400 \<and> r < r'"
    using assms(1) mult_div_mod_eq[of 86400 s] mult_div_mod_eq[of 86400 s'] zdiv_mono1[of s s' 86400]
    unfolding r_def[symmetric] r'_def[symmetric] by linarith
  have date: "y < y' \<or> y = y' \<and> (m < m' \<or> m = m' \<and> (d < d' \<or> d = d' \<and> r < r'))"
    using cases civil_from_days_less[OF _ ymd ymd'] ymd ymd' by (metis prod.inject)
  define hh where "hh = nat (r div 3600)"
  define mm where "mm = nat (r div 60 mod 60)"
  define ss where "ss = nat (r mod 60)"
  define hh' where "hh' = nat (r' div 3600)"
  define mm' where "mm' = nat (r' div 60 mod 60)"
  define ss' where "ss' = nat (r' mod 60)"
  note clk = hh_def mm_def ss_def hh'_def mm'_def ss'_def
  have "0 \<le> r div 3600" "0 \<le> r div 60 mod 60" "0 \<le> r mod 60" "0 \<le> r' div 3600" "0 \<le> r' div 60 mod 60" "0 \<le> r' mod 60"
    using r by simp_all
  then have clock: "r < r' \<Longrightarrow> hh < hh' \<or> hh = hh' \<and> (mm < mm' \<or> mm = mm' \<and> ss < ss')"
    unfolding clk using clock_less[of r r'] by (metis nat_less_eq_zless)
  have bounds: "hh' < 24" "mm' < 60" "ss' < 60" unfolding clk using clock_parts(1-3)[OF r(3,4)] by simp_all
  have bd: "nat y' < 10 ^ 4" "nat m' < 10 ^ 2" "nat d' < 10 ^ 2" "hh' < 10 ^ 2" "mm' < 10 ^ 2" "ss' < 10 ^ 2"
    using y md bounds by (simp_all add: nat_less_iff)
  have date': "nat y < nat y' \<or> nat y = nat y' \<and> (nat m < nat m' \<or> nat m = nat m' \<and>
       (nat d < nat d' \<or> nat d = nat d' \<and> (hh < hh' \<or> hh = hh' \<and> (mm < mm' \<or> mm = mm' \<and> ss < ss'))))"
    using date clock y md by (metis nat_less_eq_zless order_trans zero_le_one)
  have "pad 4 (nat y) @ CHR ''-'' # pad 2 (nat m) @ CHR ''-'' # pad 2 (nat d) @ CHR ''T'' #
          pad 2 hh @ CHR '':'' # pad 2 mm @ CHR '':'' # pad 2 ss @ f
      < pad 4 (nat y') @ CHR ''-'' # pad 2 (nat m') @ CHR ''-'' # pad 2 (nat d') @ CHR ''T'' #
          pad 2 hh' @ CHR '':'' # pad 2 mm' @ CHR '':'' # pad 2 ss' @ f'"
    using date' bd by (elim disjE conjE) (intro pad_seg; simp add: pad_seg)+
  then show ?thesis
    unfolding format_seconds_def ymd ymd' Let_def prod.case r_def[symmetric] r'_def[symmetric] clk format_year_def
    using y by simp
qed

lemma rfc3339_range_second: "rfc3339_range t \<Longrightarrow> rfc3339_range (t div second * second)"
  by (simp add: rfc3339_range_def second_def)

text \<open>The texts of the database compare as the instants do, between different seconds.\<close>

lemma format_time_less:
  assumes "rfc3339_range t" "rfc3339_range u" "t div second < u div second"
  shows "format_time t < format_time u"
  unfolding format_time_def
  using format_seconds_less[OF assms(3) rfc3339_range_second[OF assms(1)] rfc3339_range_second[OF assms(2)]]
  by simp

lemma format_time_less_imp:
  assumes "rfc3339_range t" "rfc3339_range u" "format_time t < format_time u"
  shows "t div second \<le> u div second"
  using format_time_less[OF assms(2,1)] assms(3) by (meson less_asym not_le)

interpretation instant_codec: text_codec rfc3339_range format_time parse_time
  by unfold_locales (rule parse_format_time)

end
