(* ===== verification/Go_Json.thy ===== *)
theory Go_Json
  imports Go_Prelude
begin

text \<open>
  \<open>json.Marshal\<close> of the values the sources put into audit events: strings, integers, booleans, lists
  of strings, and maps, whose keys are written in sorted order. The length of the encoding matters:
  \<open>state.appendEventTx\<close> refuses details of more than 16 KiB. Strings are escaped as Go does (HTML escaping on, invalid
  UTF-8 replaced by U+FFFD, the line separators U+2028 and U+2029 escaped).
\<close>

datatype json = JStr string | JInt int | JBool bool | JStrs "string list"

definition byte_val :: "char \<Rightarrow> nat" where "byte_val c = of_char c"

definition cont_byte :: "nat \<Rightarrow> nat \<Rightarrow> char \<Rightarrow> bool" where
  "cont_byte lo hi c \<longleftrightarrow> lo \<le> byte_val c \<and> byte_val c \<le> hi"

text \<open>The number of bytes of the well-formed UTF-8 sequence at the head of a text, 0 when there is none.\<close>

definition rune_len :: "string \<Rightarrow> nat" where
  "rune_len s = (case s of
     [] \<Rightarrow> 0
   | a # r \<Rightarrow>
     let n = byte_val a in
     if n < 128 then 1
     else if n < 194 \<or> 244 < n then 0
     else if n < 224 then (case r of b # _ \<Rightarrow> if cont_byte 128 191 b then 2 else 0 | _ \<Rightarrow> 0)
     else if n < 240 then
       (case r of b # c # _ \<Rightarrow>
          if cont_byte (if n = 224 then 160 else 128) (if n = 237 then 159 else 191) b \<and> cont_byte 128 191 c then 3 else 0
        | _ \<Rightarrow> 0)
     else
       (case r of b # c # d # _ \<Rightarrow>
          if cont_byte (if n = 240 then 144 else 128) (if n = 244 then 143 else 191) b \<and> cont_byte 128 191 c \<and> cont_byte 128 191 d
          then 4 else 0
        | _ \<Rightarrow> 0))"

definition hex_digit :: "nat \<Rightarrow> char" where
  "hex_digit n = (if n < 10 then char_of (48 + n) else char_of (87 + n))"

definition escape_ascii :: "char \<Rightarrow> string" where
  "escape_ascii c =
     (let n = byte_val c in
      if n = 34 \<or> n = 92 then [CHR 0x5C, c]
      else if n = 8 then [CHR 0x5C, CHR ''b'']
      else if n = 12 then [CHR 0x5C, CHR ''f'']
      else if n = 10 then [CHR 0x5C, CHR ''n'']
      else if n = 13 then [CHR 0x5C, CHR ''r'']
      else if n = 9 then [CHR 0x5C, CHR ''t'']
      else if n < 32 \<or> n = 60 \<or> n = 62 \<or> n = 38 then [CHR 0x5C, CHR ''u'', CHR ''0'', CHR ''0'', hex_digit (n div 16), hex_digit (n mod 16)]
      else [c])"

function escape_json :: "string \<Rightarrow> string" where
  "escape_json s =
     (if s = [] then []
      else let k = rune_len s in
        if k = 0 then CHR 0x5C # ''ufffd'' @ escape_json (drop 1 s)
        else (if k = 1 then escape_ascii (hd s)
              else if map byte_val (take k s) = [226, 128, 168] then CHR 0x5C # ''u2028''
              else if map byte_val (take k s) = [226, 128, 169] then CHR 0x5C # ''u2029''
              else take k s) @ escape_json (drop k s))"
  by pat_completeness auto
termination
  by (relation "measure length") auto

declare escape_json.simps [simp del]

definition json_string :: "string \<Rightarrow> string" where
  "json_string s = [CHR 0x22] @ escape_json s @ [CHR 0x22]"

fun join_with :: "string \<Rightarrow> string list \<Rightarrow> string" where
  "join_with sep [] = []"
| "join_with sep [x] = x"
| "join_with sep (x # y # ys) = x @ sep @ join_with sep (y # ys)"

definition json_value :: "json \<Rightarrow> string" where
  "json_value v = (case v of
     JStr s \<Rightarrow> json_string s
   | JInt n \<Rightarrow> format_int n
   | JBool b \<Rightarrow> if b then ''true'' else ''false''
   | JStrs xs \<Rightarrow> ''['' @ join_with '','' (map json_string xs) @ '']'')"

definition marshal :: "(string \<times> json) list \<Rightarrow> string" where
  "marshal kvs =
     ''{'' @ join_with '','' (map (\<lambda>(k, v). json_string k @ '':'' @ json_value v)
                             (sort_stable (\<lambda>a b. fst a < fst b) kvs)) @ ''}''"

section \<open>Length of the encoding\<close>

lemma length_escape_ascii: "length (escape_ascii c) \<le> 6"
  by (simp add: escape_ascii_def Let_def)

lemma rune_len_le: "rune_len s \<le> length s"
  by (auto simp: rune_len_def Let_def split: list.splits)

lemma length_escape_json: "length (escape_json s) \<le> 6 * length s"
proof (induction s rule: escape_json.induct)
  case (1 s)
  show ?case
  proof (cases "s = []")
    case True
    then show ?thesis by (simp add: escape_json.simps)
  next
    case False
    define k where "k = rune_len s"
    show ?thesis
    proof (cases "k = 0")
      case True
      have "length (escape_json (drop 1 s)) \<le> 6 * length (drop 1 s)"
        using 1(1)[OF False refl] True by (simp add: k_def)
      moreover have "length s \<ge> 1" using False by (cases s) auto
      ultimately show ?thesis using False True by (simp add: escape_json.simps[of s] k_def)
    next
      case kpos: False
      have ih: "length (escape_json (drop k s)) \<le> 6 * length (drop k s)"
        using 1(2)[OF False refl] kpos by (simp add: k_def)
      have le: "k \<le> length s" by (simp add: k_def rune_len_le)
      define h where "h = (if k = 1 then escape_ascii (hd s)
              else if map byte_val (take k s) = [226, 128, 168] then CHR 0x5C # ''u2028''
              else if map byte_val (take k s) = [226, 128, 169] then CHR 0x5C # ''u2029''
              else take k s)"
      have h: "length h \<le> 6 * k"
        using length_escape_ascii[of "hd s"] kpos le by (simp add: h_def)
      have "escape_json s = h @ escape_json (drop k s)"
        using False kpos by (simp add: escape_json.simps[of s] k_def h_def Let_def)
      with h ih le show ?thesis by simp
    qed
  qed
qed

lemma length_json_string: "length (json_string s) \<le> 6 * length s + 2"
  using length_escape_json[of s] by (simp add: json_string_def)

lemma length_join_with: "length (join_with sep xs) = sum_list (map length xs) + (length xs - 1) * length sep"
  by (induction sep xs rule: join_with.induct) auto

definition entry_length :: "string \<times> json \<Rightarrow> nat" where
  "entry_length kv = length (json_string (fst kv)) + 1 + length (json_value (snd kv))"

lemma length_marshal: "length (marshal kvs) = 2 + (length kvs - 1) + sum_list (map entry_length kvs)"
proof -
  let ?s = "sort_stable (\<lambda>a b. fst a < fst b) kvs :: (string \<times> json) list"
  have "mset (map entry_length ?s) = mset (map entry_length kvs)" by simp
  then have "sum_list (map entry_length ?s) = sum_list (map entry_length kvs)"
    using sum_mset_sum_list[of "map entry_length ?s"] sum_mset_sum_list[of "map entry_length kvs"] by simp
  moreover have "(length \<circ> (\<lambda>(k, v). json_string k @ CHR '':'' # json_value v)) = entry_length"
    by (rule ext) (simp add: entry_length_def split_beta)
  ultimately show ?thesis by (simp add: marshal_def length_join_with)
qed

lemma length_format_nat: "n < 10 ^ Suc k \<Longrightarrow> length (format_nat n) \<le> Suc k"
proof (induction k arbitrary: n)
  case 0
  then show ?case by (simp add: format_nat.simps)
next
  case (Suc k)
  then have "n div 10 < 10 ^ Suc k" by (simp add: less_mult_imp_div_less)
  from Suc.IH[OF this] show ?case by (simp add: format_nat.simps[of n])
qed

lemma length_format_int: "is_int64 x \<Longrightarrow> length (format_int x) \<le> 20"
proof -
  assume "is_int64 x"
  then have "nat (- x) < 10 ^ Suc 18" "nat x < 10 ^ Suc 18" by (simp_all add: int64_defs) linarith+
  from length_format_nat[OF this(1)] length_format_nat[OF this(2)] show ?thesis by (simp add: format_int_def)
qed

lemma entry_length_str: "entry_length (k, JStr s) \<le> 6 * length k + 6 * length s + 5"
  using length_json_string[of k] length_json_string[of s] by (simp add: entry_length_def json_value_def)

lemma entry_length_int: "is_int64 x \<Longrightarrow> entry_length (k, JInt x) \<le> 6 * length k + 23"
  using length_json_string[of k] length_format_int[of x] by (simp add: entry_length_def json_value_def)

end
