(* ===== verification/Access_Ranking.thy ===== *)
theory Access_Ranking
  imports Go_Prelude "HOL-Library.Product_Lexorder"
begin

text \<open>
  \<open>internal/accesspolicy/ranking.go\<close>: the choice of the best fresh access candidate.
  \<open>Rank\<close> validates the candidates, drops the ineligible ones and sorts the rest with
  \<open>candidateLess\<close>. The comparison is shown to be the lexicographic order of \<open>candidate_rank\<close>
  (the architectural order of the comment above \<open>Rank\<close>), hence an instance of
  \<open>strict_preference\<close>; from this follow that the winner is a best candidate, that the result does not
  depend on the order of the candidates, and that equal candidates do not move the active path.
\<close>

section \<open>Data\<close>

datatype method_kind = MethodDirect | MethodSubscription | MethodOther string

datatype quality =
  QualityUnknown | QualityFull | QualityLimited | QualityWhitelistOnly | QualityFailed | QualityOther string

record candidate =
  Key :: string
  PathID :: string
  MethodID :: string
  MethodKind :: method_kind
  UplinkID :: string
  SubscriptionID :: string
  NodeID :: string
  Quality :: quality
  FunctionalScore :: int
  MethodPriority :: int
  UplinkPriority :: int
  NodePriority :: int
  MethodEnabled :: bool
  UplinkReady :: bool
  NodeAllowed :: bool
  Fresh :: bool
  CandPolicyGeneration :: int
  CandRouteGeneration :: int

record decision =
  DecCandidate :: candidate
  Sticky :: bool
  DecReason :: string

section \<open>Operations\<close>

definition qualityRank :: "quality \<Rightarrow> int" where
  "qualityRank q = (case q of
     QualityFull \<Rightarrow> 2 | QualityLimited \<Rightarrow> 1 | QualityWhitelistOnly \<Rightarrow> 1 | _ \<Rightarrow> 0)"

definition limited_quality :: "quality \<Rightarrow> bool" where
  "limited_quality q \<longleftrightarrow> q = QualityLimited \<or> q = QualityWhitelistOnly"

definition candidateLess :: "string \<Rightarrow> candidate \<Rightarrow> candidate \<Rightarrow> bool" where
  "candidateLess currentKey left right =
     (let leftClass = qualityRank (Quality left); rightClass = qualityRank (Quality right);
          leftCurrent = (Key left = currentKey); rightCurrent = (Key right = currentKey)
      in if leftClass \<noteq> rightClass then leftClass > rightClass
         else if limited_quality (Quality left) \<and> FunctionalScore left \<noteq> FunctionalScore right
         then FunctionalScore left > FunctionalScore right
         else if MethodPriority left \<noteq> MethodPriority right then MethodPriority left < MethodPriority right
         else if UplinkPriority left \<noteq> UplinkPriority right then UplinkPriority left < UplinkPriority right
         else if NodePriority left \<noteq> NodePriority right then NodePriority left < NodePriority right
         else if leftCurrent \<noteq> rightCurrent then leftCurrent
         else Key left < Key right)"

definition validateCandidate :: "candidate \<Rightarrow> unit result" where
  "validateCandidate c =
     (if blank (Key c) \<or> blank (MethodID c) \<or> blank (UplinkID c) then
        Inl (ErrMsg ''access candidate key, method, and uplink are required'')
      else if MethodPriority c \<le> 0 \<or> UplinkPriority c \<le> 0 \<or> FunctionalScore c < 0 then
        Inl (ErrMsg ''access candidate priorities and functional score are invalid'')
      else case Quality c of
        QualityOther q \<Rightarrow> Inl (ErrFmt ''access candidate %s has invalid quality %q'' [Key c, q])
      | _ \<Rightarrow>
        if limited_quality (Quality c) \<and> FunctionalScore c = 0 then
          Inl (ErrMsg ''limited access candidate requires a positive functional score'')
        else case MethodKind c of
          MethodDirect \<Rightarrow>
            if SubscriptionID c \<noteq> '''' \<or> NodeID c \<noteq> '''' \<or> NodePriority c \<noteq> 0 then
              Inl (ErrMsg ''direct candidate cannot contain subscription or node identity'')
            else Inr ()
        | MethodSubscription \<Rightarrow>
            if blank (SubscriptionID c) \<or> blank (NodeID c) \<or> NodePriority c \<le> 0 then
              Inl (ErrMsg ''subscription candidate requires subscription, node, and node priority'')
            else Inr ()
        | MethodOther k \<Rightarrow> Inl (ErrFmt ''access candidate %s has invalid method kind %q'' [Key c, k]))"

text \<open>The two \<open>continue\<close> guards of \<open>Rank\<close>.\<close>

definition eligible_candidate :: "candidate \<Rightarrow> bool" where
  "eligible_candidate c \<longleftrightarrow>
     MethodEnabled c \<and> UplinkReady c \<and> NodeAllowed c \<and> Fresh c \<and>
     (Quality c = QualityFull \<or> Quality c = QualityLimited \<or> Quality c = QualityWhitelistOnly)"

text \<open>The loop of \<open>Rank\<close> over the candidates, with the keys seen so far and the eligible ones found.\<close>

fun rank_scan :: "string list \<Rightarrow> candidate list \<Rightarrow> candidate list \<Rightarrow> candidate list result" where
  "rank_scan seen eligible [] = Inr eligible"
| "rank_scan seen eligible (c # cs) =
     (case validateCandidate c of
        Inl e \<Rightarrow> Inl e
      | Inr _ \<Rightarrow>
          if Key c \<in> set seen then Inl (ErrFmt ''duplicate access candidate key %q'' [Key c])
          else rank_scan (Key c # seen) (if eligible_candidate c then eligible @ [c] else eligible) cs)"

definition Rank :: "candidate list \<Rightarrow> string \<Rightarrow> decision result" where
  "Rank candidates currentKey =
     (case rank_scan [] [] candidates of
        Inl e \<Rightarrow> Inl e
      | Inr eligible \<Rightarrow>
          (case sort_stable (candidateLess currentKey) eligible of
             [] \<Rightarrow> Inl ErrNoCandidate
           | winner # _ \<Rightarrow>
               let sticky = (Key winner = currentKey);
                   reason = (if limited_quality (Quality winner) then ''LIMITED_FUNCTIONAL_SCORE'' else ''FULL_PRIORITY'')
               in Inr \<lparr> DecCandidate = winner, Sticky = sticky,
                        DecReason = (if sticky then reason @ ''_STICKY_TIE'' else reason) \<rparr>))"

section \<open>The architectural order\<close>

text \<open>
  FULL before LIMITED or WHITELIST_ONLY, the higher functional score among the latter, then method,
  uplink and node priority, then the active path, then the key.
\<close>

definition candidate_rank :: "string \<Rightarrow> candidate \<Rightarrow> int \<times> int \<times> int \<times> int \<times> int \<times> bool \<times> string" where
  "candidate_rank currentKey c =
     (- qualityRank (Quality c),
      if limited_quality (Quality c) then - FunctionalScore c else 0,
      MethodPriority c, UplinkPriority c, NodePriority c, Key c \<noteq> currentKey, Key c)"

lemma limited_quality_rank: "limited_quality q \<longleftrightarrow> qualityRank q = 1"
  by (cases q) (simp_all add: limited_quality_def qualityRank_def)

lemma lex_less: "(a, b) < (a', b') \<longleftrightarrow> (if a \<noteq> a' then a < a' else b < b')" for a :: "'a::linorder"
  by auto

lemma candidateLess_rank:
  "candidateLess currentKey left right \<longleftrightarrow> candidate_rank currentKey left < candidate_rank currentKey right"
proof (cases "qualityRank (Quality left) = qualityRank (Quality right)")
  case True
  then have l: "limited_quality (Quality right) = limited_quality (Quality left)" by (simp add: limited_quality_rank)
  show ?thesis unfolding candidateLess_def candidate_rank_def lex_less Let_def l by (simp add: True)
next
  case False
  then show ?thesis unfolding candidateLess_def candidate_rank_def lex_less Let_def by simp
qed

interpretation access_order: strict_preference "\<lambda>_. True" "candidateLess currentKey" for currentKey
  by unfold_locales (auto simp: candidateLess_rank)

lemma candidate_rank_key: "candidate_rank k c = candidate_rank k c' \<Longrightarrow> Key c = Key c'"
  by (simp add: candidate_rank_def)

section \<open>Validation and selection\<close>

definition valid_candidates :: "candidate list \<Rightarrow> bool" where
  "valid_candidates cs \<longleftrightarrow> (\<forall>c\<in>set cs. validateCandidate c = Inr ()) \<and> distinct (map Key cs)"

lemma rank_scan_Inr:
  "rank_scan seen es cs = Inr es' \<longleftrightarrow>
     (\<forall>c\<in>set cs. validateCandidate c = Inr ()) \<and> distinct (map Key cs)
     \<and> set (map Key cs) \<inter> set seen = {} \<and> es' = es @ filter eligible_candidate cs"
proof (induction seen es cs rule: rank_scan.induct)
  case (2 seen es c cs)
  show ?case
  proof (cases "validateCandidate c")
    case (Inr u)
    with 2[OF Inr] show ?thesis by (cases "Key c \<in> set seen") auto
  qed simp
qed auto

lemma rank_scan_ok: "rank_scan [] [] cs = Inr es \<longleftrightarrow> valid_candidates cs \<and> es = filter eligible_candidate cs"
  by (auto simp: rank_scan_Inr valid_candidates_def)

lemma validateCandidate_not_NoCandidate: "validateCandidate c \<noteq> Inl ErrNoCandidate"
  by (simp add: validateCandidate_def split: quality.splits method_kind.splits)

lemma rank_scan_not_NoCandidate: "rank_scan seen es cs \<noteq> Inl ErrNoCandidate"
  by (induction seen es cs rule: rank_scan.induct)
     (auto split: sum.splits dest: validateCandidate_not_NoCandidate[THEN notE])

lemma Rank_Inr:
  assumes "Rank cs k = Inr d"
  shows "valid_candidates cs"
    and "filter eligible_candidate cs \<noteq> []"
    and "DecCandidate d = hd (sort_stable (candidateLess k) (filter eligible_candidate cs))"
    and "Sticky d \<longleftrightarrow> Key (DecCandidate d) = k"
  using assms by (auto simp: Rank_def Let_def rank_scan_ok split: sum.splits list.splits)

lemma Rank_valid:
  assumes "valid_candidates cs" "c \<in> set cs" "eligible_candidate c"
  shows "\<exists>d. Rank cs k = Inr d"
proof -
  have "rank_scan [] [] cs = Inr (filter eligible_candidate cs)" using assms(1) by (simp add: rank_scan_ok)
  moreover have "filter eligible_candidate cs \<noteq> []" using assms(2,3) by (auto simp: filter_empty_conv)
  then have "sort_stable (candidateLess k) (filter eligible_candidate cs) \<noteq> []" by simp
  ultimately show ?thesis
    by (cases "sort_stable (candidateLess k) (filter eligible_candidate cs)") (simp_all add: Rank_def Let_def)
qed

lemma Rank_winner:
  assumes "Rank cs k = Inr d"
  shows "DecCandidate d \<in> set cs" and "eligible_candidate (DecCandidate d)"
    and "\<lbrakk>c \<in> set cs; eligible_candidate c\<rbrakk> \<Longrightarrow> \<not> candidateLess k c (DecCandidate d)"
proof -
  let ?es = "filter eligible_candidate cs"
  have "hd (sort_stable (candidateLess k) ?es) \<in> set ?es"
    using Rank_Inr(2)[OF assms] by (metis hd_in_set set_sort_stable sort_stable_Nil_iff)
  then show "DecCandidate d \<in> set cs" "eligible_candidate (DecCandidate d)"
    using Rank_Inr(3)[OF assms] by auto
  show "\<not> candidateLess k c (DecCandidate d)" if "c \<in> set cs" "eligible_candidate c"
    unfolding Rank_Inr(3)[OF assms]
    by (rule access_order.sort_stable_hd_best) (use that Rank_Inr(2)[OF assms] in auto)
qed

text \<open>The winner is determined by the set of candidates: no two candidates share a key.\<close>

lemma Rank_winner_unique:
  assumes "Rank cs k = Inr d" "c \<in> set cs" "eligible_candidate c"
    and "\<forall>c'\<in>set cs. eligible_candidate c' \<longrightarrow> \<not> candidateLess k c' c"
  shows "DecCandidate d = c"
proof -
  have "candidate_rank k c = candidate_rank k (DecCandidate d)"
    using Rank_winner[OF assms(1)] assms(2-4) by (metis candidateLess_rank linorder_neqE)
  then have "Key c = Key (DecCandidate d)" by (rule candidate_rank_key)
  moreover have "inj_on Key (set cs)"
    using Rank_Inr(1)[OF assms(1)] by (simp add: valid_candidates_def distinct_map)
  ultimately show ?thesis using assms(2) Rank_winner(1)[OF assms(1)] by (auto dest: inj_onD)
qed

lemma Rank_decision:
  assumes "Rank cs k = Inr d"
  shows "d = \<lparr> DecCandidate = DecCandidate d, Sticky = (Key (DecCandidate d) = k),
     DecReason = (let reason = (if limited_quality (Quality (DecCandidate d)) then ''LIMITED_FUNCTIONAL_SCORE'' else ''FULL_PRIORITY'')
                  in if Key (DecCandidate d) = k then reason @ ''_STICKY_TIE'' else reason) \<rparr>"
  using assms by (auto simp: Rank_def Let_def split: sum.splits list.splits)

section \<open>Properties\<close>

text \<open>
  Property C14 (Rank finds the best candidate): on valid candidates with distinct keys of which one is
  eligible, \<open>Rank\<close> returns a decision for an eligible candidate of the input, and no eligible candidate
  precedes it in the architectural order.
\<close>

theorem Rank_optimal:
  assumes "valid_candidates cs" and "c \<in> set cs" and "eligible_candidate c"
  shows "\<exists>d. Rank cs k = Inr d \<and> DecCandidate d \<in> set cs \<and> eligible_candidate (DecCandidate d)
          \<and> candidate_rank k (DecCandidate d) \<le> candidate_rank k c"
proof -
  obtain d where d: "Rank cs k = Inr d" using Rank_valid[OF assms] by blast
  have "\<not> candidate_rank k c < candidate_rank k (DecCandidate d)"
    using Rank_winner(3)[OF d assms(2,3)] by (simp add: candidateLess_rank)
  with d Rank_winner(1,2)[OF d] show ?thesis by auto
qed

text \<open>
  Rank does not depend on the order of the candidates: a decision made for a list of
  candidates is the decision for every permutation of it.
\<close>

theorem Rank_permutation:
  assumes "Rank cs k = Inr d" and "mset cs' = mset cs"
  shows "Rank cs' k = Inr d"
proof -
  have set: "set cs' = set cs" using assms(2) by (metis set_mset_mset)
  have "distinct (map Key cs') = distinct (map Key cs)" using assms(2) by (metis mset_map mset_eq_imp_distinct_iff)
  then have "valid_candidates cs'" using Rank_Inr(1)[OF assms(1)] set by (simp add: valid_candidates_def)
  then obtain d' where d': "Rank cs' k = Inr d'"
    using Rank_valid Rank_winner(1,2)[OF assms(1)] set by metis
  have "DecCandidate d = DecCandidate d'"
    using Rank_winner_unique[OF assms(1)] Rank_winner[OF d'] set by metis
  then have "d' = d" using Rank_decision[OF assms(1)] Rank_decision[OF d'] by simp
  with d' show ?thesis by simp
qed

text \<open>
  \<open>Rank\<close> reports \<open>ErrNoCandidate\<close> exactly when the input is valid and
  none of the candidates is eligible; an invalid or duplicated candidate is another error.
\<close>

theorem Rank_no_candidate:
  "Rank cs k = Inl ErrNoCandidate \<longleftrightarrow> valid_candidates cs \<and> filter eligible_candidate cs = []"
proof (cases "rank_scan [] [] cs")
  case (Inl e)
  then have "\<not> valid_candidates cs" using rank_scan_ok[of cs "filter eligible_candidate cs"] by auto
  with Inl rank_scan_not_NoCandidate[of "[]" "[]" cs] show ?thesis by (simp add: Rank_def)
next
  case (Inr es)
  then have "valid_candidates cs" "es = filter eligible_candidate cs" by (simp_all add: rank_scan_ok)
  with Inr show ?thesis
    by (cases "es = []"; cases "sort_stable (candidateLess k) es")
       (auto simp: Rank_def Let_def dest: sort_stable_Nil_iff[THEN iffD1])
qed

text \<open>
  Stickiness: when the active path is eligible and ties with the best candidate on
  quality class, score and the three priorities, \<open>Rank\<close> keeps the active path.
\<close>

theorem Rank_sticky_tie:
  assumes "Rank cs k = Inr d" and "cur \<in> set cs" and "eligible_candidate cur" and "Key cur = k"
    and "qualityRank (Quality cur) = qualityRank (Quality (DecCandidate d))"
    and "limited_quality (Quality cur) \<longrightarrow> FunctionalScore cur = FunctionalScore (DecCandidate d)"
    and "MethodPriority cur = MethodPriority (DecCandidate d)"
    and "UplinkPriority cur = UplinkPriority (DecCandidate d)"
    and "NodePriority cur = NodePriority (DecCandidate d)"
  shows "DecCandidate d = cur \<and> Sticky d"
proof -
  have "\<not> candidateLess k cur (DecCandidate d)" using Rank_winner(3)[OF assms(1-3)] .
  then have "Key (DecCandidate d) = k"
    using assms(4-9) by (auto simp: candidateLess_def Let_def split: if_splits)
  moreover have "inj_on Key (set cs)"
    using Rank_Inr(1)[OF assms(1)] by (simp add: valid_candidates_def distinct_map)
  ultimately show ?thesis
    using Rank_winner(1)[OF assms(1)] assms(2,4) Rank_Inr(4)[OF assms(1)] by (auto dest: inj_onD)
qed

section \<open>Concrete inputs\<close>

definition sample_candidate :: "string \<Rightarrow> quality \<Rightarrow> int \<Rightarrow> int \<Rightarrow> candidate" where
  "sample_candidate key q score prio =
     \<lparr> Key = key, PathID = ''p'', MethodID = ''access:direct'', MethodKind = MethodDirect, UplinkID = ''u1'',
       SubscriptionID = '''', NodeID = '''', Quality = q, FunctionalScore = score, MethodPriority = prio,
       UplinkPriority = 1, NodePriority = 0, MethodEnabled = True, UplinkReady = True, NodeAllowed = True,
       Fresh = True, CandPolicyGeneration = 1, CandRouteGeneration = 1 \<rparr>"

abbreviation "sample_candidates \<equiv>
  [sample_candidate ''b'' QualityLimited 5 1, sample_candidate ''c'' QualityFull 0 20,
   sample_candidate ''a'' QualityFull 0 20]"

lemma sample_rank:
  "Rank sample_candidates ''c'' = Inr \<lparr> DecCandidate = sample_candidate ''c'' QualityFull 0 20, Sticky = True, DecReason = ''FULL_PRIORITY_STICKY_TIE'' \<rparr>"
  by code_simp

theorem Rank_optimal_witness:
  "candidate_rank ''c'' (sample_candidate ''c'' QualityFull 0 20) \<le> candidate_rank ''c'' (sample_candidate ''a'' QualityFull 0 20)"
proof -
  have "valid_candidates sample_candidates" "eligible_candidate (sample_candidate ''a'' QualityFull 0 20)" by code_simp+
  from Rank_optimal[OF this(1) _ this(2), of "''c''"] show ?thesis by (simp add: sample_rank)
qed

theorem Rank_permutation_witness:
  "Rank (rev sample_candidates) ''c'' = Inr \<lparr> DecCandidate = sample_candidate ''c'' QualityFull 0 20, Sticky = True, DecReason = ''FULL_PRIORITY_STICKY_TIE'' \<rparr>"
  by (rule Rank_permutation[OF sample_rank]) simp

theorem Rank_sticky_tie_witness:
  "sample_candidate ''c'' QualityFull 0 20 \<in> set sample_candidates
   \<and> Key (sample_candidate ''c'' QualityFull 0 20) = ''c''
   \<and> (\<exists>d. Rank sample_candidates ''c'' = Inr d \<and> DecCandidate d = sample_candidate ''c'' QualityFull 0 20 \<and> Sticky d)"
  using Rank_sticky_tie[OF sample_rank, of "sample_candidate ''c'' QualityFull 0 20"] sample_rank
  by (simp add: sample_candidate_def eligible_candidate_def)

end
