(* ===== verification/Schema.thy ===== *)
theory Schema
  imports Go_Time Go_Json Access_Ranking
begin

text \<open>
  The SQLite database the repositories work on (the tables of \<open>migrations/\<close> as they are after the last
  migration, with the columns the modelled code reads or writes) and what the code relies on of SQL:

  \<^item> a table is a list of rows, a NULL-able column an \<open>option\<close>, and a comparison with NULL is false;
  \<^item> a query is a list comprehension over the joined tables and \<open>QueryRow\<close> its first row (\<open>first_row\<close>);
  \<^item> \<open>update_runtime\<close> is an UPDATE of the \<open>runtime_state\<close> singleton with the constraints of
    migration 000018: the CHECK on the active tuple, the trigger on policy transitions, and the foreign keys;
    a violation is \<open>ErrConstraint\<close> and leaves the table as it was;
  \<^item> \<open>sql_fns\<close> holds the two SQLite functions the queries call, as parameters: \<open>julianday\<close> (here
    into an ordered type; NULL when the text is not a time) and \<open>CAST(text AS INTEGER)\<close>;
  \<^item> a \<open>fault\<close> says where the database driver fails in an operation: nowhere, inside the transaction
    (which is then rolled back), or in the read after the commit.
\<close>

section \<open>Enumerations stored as text\<close>

datatype gateway_state =
    GatewayBooting | GatewayAllUplinksOffline | GatewayNoBypassTargets | GatewayNoWorkingSubscription
  | GatewayVerifying | GatewayVerifyingPolicy | GatewayDegradedTarget | GatewayActive | GatewayDegraded
  | GatewaySwitching | GatewayBlocked | GatewayOther string

datatype path_state = PathBlocked | PathVerifying | PathActive | PathOther string

fun gateway_text :: "gateway_state \<Rightarrow> string" where
  "gateway_text GatewayBooting = ''BOOTING''"
| "gateway_text GatewayAllUplinksOffline = ''ALL_UPLINKS_OFFLINE''"
| "gateway_text GatewayNoBypassTargets = ''NO_BYPASS_TARGETS''"
| "gateway_text GatewayNoWorkingSubscription = ''NO_WORKING_SUBSCRIPTION''"
| "gateway_text GatewayVerifying = ''VERIFYING''"
| "gateway_text GatewayVerifyingPolicy = ''VERIFYING_POLICY''"
| "gateway_text GatewayDegradedTarget = ''DEGRADED_TARGET''"
| "gateway_text GatewayActive = ''ACTIVE''"
| "gateway_text GatewayDegraded = ''DEGRADED''"
| "gateway_text GatewaySwitching = ''SWITCHING''"
| "gateway_text GatewayBlocked = ''BLOCKED''"
| "gateway_text (GatewayOther s) = s"

fun method_text :: "method_kind \<Rightarrow> string" where
  "method_text MethodDirect = ''DIRECT''"
| "method_text MethodSubscription = ''SUBSCRIPTION''"
| "method_text (MethodOther s) = s"

fun quality_text :: "quality \<Rightarrow> string" where
  "quality_text QualityUnknown = ''UNKNOWN''"
| "quality_text QualityFull = ''FULL''"
| "quality_text QualityLimited = ''LIMITED''"
| "quality_text QualityWhitelistOnly = ''WHITELIST_ONLY''"
| "quality_text QualityFailed = ''FAILED''"
| "quality_text (QualityOther s) = s"

section \<open>Tables\<close>

record uplink_row =
  u_id :: string
  u_display_number :: int
  u_type :: string
  u_name :: string
  u_enabled :: bool
  u_priority :: int
  u_route_generation :: int
  u_state :: string

record subscription_row =
  s_id :: string
  s_name :: string
  s_enabled :: bool
  s_priority :: int
  s_status :: string
  s_active_version_id :: "string option"
  s_updated_at :: string

record version_row =
  v_id :: string
  v_subscription_id :: string
  v_state :: string

record node_row =
  n_id :: string
  n_version_id :: string
  n_external_name :: string
  n_normalized_name :: string
  n_fingerprint :: string
  n_enabled :: bool
  n_selection_override :: string

record target_row =
  t_id :: string
  t_enabled :: bool
  t_required :: bool
  t_priority :: int
  t_target_class :: string
  t_state :: string
  t_updated_at :: string

record method_row =
  m_id :: string
  m_kind :: method_kind
  m_subscription_id :: "string option"
  m_enabled :: bool
  m_priority :: int
  m_immutable :: bool
  m_created_at :: string
  m_updated_at :: string

record sub_path_row =
  p_id :: string
  p_uplink_id :: string
  p_subscription_id :: string
  p_state :: string
  p_transport_state :: string
  p_selected_node_id :: "string option"
  p_candidate_nodes :: int
  p_qualified_nodes :: int
  p_required_passed :: int
  p_required_total :: int
  p_optional_passed :: int
  p_optional_total :: int
  p_quality_class :: quality
  p_functional_score :: int
  p_latency_ms :: "int option"
  p_policy_generation :: int
  p_route_generation :: int
  p_last_checked_at :: "string option"
  p_expires_at :: "string option"
  p_created_at :: string
  p_updated_at :: string

record path_node_row =
  pn_path_id :: string
  pn_node_id :: string
  pn_qualification_state :: string
  pn_qualification_generation :: int
  pn_route_generation :: int
  pn_expires_at :: "string option"
  pn_latency_ms :: "int option"
  pn_last_success_at :: "string option"
  pn_last_failure_at :: "string option"
  pn_failure_code :: "string option"

record target_result_row =
  r_path_id :: string
  r_node_id :: string
  r_target_id :: string
  r_state :: string
  r_latency_ms :: "int option"
  r_http_status :: "int option"
  r_error_code :: "string option"
  r_checked_at :: string
  r_expires_at :: string
  r_policy_generation :: int
  r_route_generation :: int

record direct_path_row =
  d_id :: string
  d_uplink_id :: string
  d_state :: string
  d_transport_state :: string
  d_quality_class :: quality
  d_functional_score :: int
  d_required_passed :: int
  d_required_total :: int
  d_optional_passed :: int
  d_optional_total :: int
  d_whitelist_passed :: int
  d_whitelist_total :: int
  d_latency_ms :: "int option"
  d_policy_generation :: int
  d_route_generation :: int
  d_last_checked_at :: "string option"
  d_expires_at :: "string option"
  d_failure_code :: "string option"
  d_created_at :: string
  d_updated_at :: string

record direct_result_row =
  dr_path_id :: string
  dr_target_id :: string
  dr_target_class :: string
  dr_state :: string
  dr_latency_ms :: "int option"
  dr_http_status :: "int option"
  dr_error_code :: "string option"
  dr_checked_at :: string
  dr_expires_at :: string
  dr_policy_generation :: int
  dr_route_generation :: int

record preference_row =
  f_subscription_id :: string
  f_fingerprint :: string
  f_selection_override :: string
  f_preferred_rank :: "int option"
  f_user_label :: string
  f_last_seen_version_id :: string
  f_missing_since :: "string option"
  f_updated_at :: string

record health_row =
  h_path_id :: string
  h_probe_class :: string
  h_next_probe_at :: string
  h_last_probe_at :: "string option"
  h_last_result :: string
  h_consecutive_successes :: int
  h_consecutive_failures :: int
  h_deferred_reason :: "string option"
  h_updated_at :: string

record event_row =
  e_occurred_at :: string
  e_severity :: string
  e_type :: string
  e_uplink_id :: "string option"
  e_modem_id :: "string option"
  e_subscription_id :: "string option"
  e_path_id :: "string option"
  e_details_json :: string

record access_policy_row =
  ap_startup_block_until_qualified :: bool
  ap_direct_service_refresh_enabled :: bool
  ap_failure_hold_seconds :: int
  ap_recovery_stable_seconds :: int
  ap_switch_cooldown_seconds :: int
  ap_ranking_generation :: int
  ap_updated_at :: string

record selection_row =
  sr_pending_candidate_key :: "string option"
  sr_pending_candidate_since :: "string option"
  sr_last_switch_at :: "string option"
  sr_last_switch_reason :: "string option"
  sr_temporary_direct_only :: bool
  sr_temporary_direct_boot_id :: "string option"
  sr_observed_boot_id :: "string option"
  sr_updated_at :: string

record runtime_row =
  rt_gateway_state :: gateway_state
  rt_path_state :: path_state
  rt_active_uplink_id :: "string option"
  rt_active_modem_id :: "string option"
  rt_active_path_id :: "string option"
  rt_active_direct_path_id :: "string option"
  rt_management_uplink_id :: "string option"
  rt_management_modem_id :: "string option"
  rt_active_subscription_id :: "string option"
  rt_active_node_id :: "string option"
  rt_active_method_id :: "string option"
  rt_active_method_kind :: "method_kind option"
  rt_active_quality_class :: "quality option"
  rt_config_generation :: int
  rt_policy_transition_generation :: "int option"
  rt_policy_transition_started_at :: "string option"
  rt_policy_transition_deadline :: "string option"
  rt_updated_at :: string

record db =
  settings :: "string \<Rightarrow> string option"
  uplinks :: "uplink_row list"
  hilink_modems :: "string list"
  subscriptions :: "subscription_row list"
  subscription_versions :: "version_row list"
  nodes :: "node_row list"
  bypass_probe_targets :: "target_row list"
  access_methods :: "method_row list"
  subscription_uplink_paths :: "sub_path_row list"
  uplink_path_nodes :: "path_node_row list"
  uplink_path_node_target_results :: "target_result_row list"
  direct_uplink_paths :: "direct_path_row list"
  direct_uplink_path_target_results :: "direct_result_row list"
  subscription_node_preferences :: "preference_row list"
  path_health_runtime :: "health_row list"
  events :: "event_row list"
  access_policy :: "access_policy_row option"
  access_selection_runtime :: "selection_row option"
  runtime_state :: "runtime_row option"

section \<open>Queries\<close>

record sql_fns =
  julianday :: "string \<Rightarrow> int option"
  cast_integer :: "string \<Rightarrow> int"

definition julian_after :: "sql_fns \<Rightarrow> string option \<Rightarrow> string \<Rightarrow> bool" where
  "julian_after q a b =
     (case Option.bind a (julianday q) of
        None \<Rightarrow> False
      | Some x \<Rightarrow> (case julianday q b of None \<Rightarrow> False | Some y \<Rightarrow> y < x))"

text \<open>\<open>column > ?\<close> on a NULL-able text column: a comparison of texts.\<close>

definition text_after :: "string option \<Rightarrow> string \<Rightarrow> bool" where
  "text_after a b = (case a of None \<Rightarrow> False | Some x \<Rightarrow> b < x)"

definition first_row :: "'a list \<Rightarrow> 'a option" where
  "first_row xs = (case xs of [] \<Rightarrow> None | x # _ \<Rightarrow> Some x)"

lemma first_row_mem: "first_row xs = Some x \<Longrightarrow> x \<in> set xs"
  by (cases xs) (auto simp: first_row_def)

lemma first_row_None [simp]: "first_row xs = None \<longleftrightarrow> xs = []"
  by (cases xs) (auto simp: first_row_def)

text \<open>\<open>sql.NullString\<close>: NULL reads as the empty string; \<open>nullString\<close> writes the empty string as NULL.\<close>

definition null_str :: "string option \<Rightarrow> string" where
  "null_str x = (case x of None \<Rightarrow> [] | Some s \<Rightarrow> s)"

definition nullString :: "string \<Rightarrow> string option" where
  "nullString s = (if s = [] then None else Some s)"

lemma null_str_simps [simp]: "null_str None = []" "null_str (Some s) = s"
  by (simp_all add: null_str_def)

lemma null_str_nonempty: "null_str x = s \<Longrightarrow> s \<noteq> [] \<Longrightarrow> x = Some s"
  by (cases x) auto

section \<open>The runtime singleton and its constraints\<close>

text \<open>The CHECK of migration 000018 on the active tuple.\<close>

definition runtime_check :: "runtime_row \<Rightarrow> bool" where
  "runtime_check r \<longleftrightarrow>
     (rt_active_method_kind r = None \<and> rt_active_method_id r = None
        \<and> rt_active_path_id r = None \<and> rt_active_direct_path_id r = None)
   \<or> (rt_active_method_kind r = Some MethodSubscription \<and> rt_active_method_id r \<noteq> None
        \<and> rt_active_uplink_id r \<noteq> None \<and> rt_active_path_id r \<noteq> None
        \<and> rt_active_direct_path_id r = None \<and> rt_active_subscription_id r \<noteq> None
        \<and> rt_active_node_id r \<noteq> None)
   \<or> (rt_active_method_kind r = Some MethodDirect \<and> rt_active_method_id r \<noteq> None
        \<and> rt_active_uplink_id r \<noteq> None \<and> rt_active_path_id r = None
        \<and> rt_active_direct_path_id r \<noteq> None \<and> rt_active_subscription_id r = None
        \<and> rt_active_node_id r = None)"

text \<open>The condition of the trigger \<open>runtime_state_policy_transition_validate_update\<close>.\<close>

definition transition_check :: "runtime_row \<Rightarrow> bool" where
  "transition_check r \<longleftrightarrow>
     (rt_policy_transition_generation r = None \<and> rt_policy_transition_started_at r = None
        \<and> rt_policy_transition_deadline r = None)
   \<or> (case (rt_policy_transition_generation r, rt_policy_transition_started_at r, rt_policy_transition_deadline r) of
        (Some g, Some a, Some d) \<Rightarrow>
          0 < g \<and> a < d \<and> rt_gateway_state r = GatewayVerifyingPolicy \<and> rt_path_state r = PathActive
          \<and> rt_active_uplink_id r \<noteq> None \<and> rt_active_path_id r \<noteq> None
          \<and> rt_active_subscription_id r \<noteq> None \<and> rt_active_node_id r \<noteq> None
          \<and> rt_active_method_kind r = Some MethodSubscription
      | _ \<Rightarrow> False)"

definition references :: "string option \<Rightarrow> string list \<Rightarrow> bool" where
  "references x ids \<longleftrightarrow> (case x of None \<Rightarrow> True | Some i \<Rightarrow> i \<in> set ids)"

definition runtime_foreign_keys :: "db \<Rightarrow> runtime_row \<Rightarrow> bool" where
  "runtime_foreign_keys D r \<longleftrightarrow>
     references (rt_active_uplink_id r) (map u_id (uplinks D))
   \<and> references (rt_active_path_id r) (map p_id (subscription_uplink_paths D))
   \<and> references (rt_active_direct_path_id r) (map d_id (direct_uplink_paths D))
   \<and> references (rt_management_uplink_id r) (map u_id (uplinks D))
   \<and> references (rt_active_subscription_id r) (map s_id (subscriptions D))
   \<and> references (rt_active_node_id r) (map n_id (nodes D))"

definition runtime_row_ok :: "db \<Rightarrow> runtime_row \<Rightarrow> bool" where
  "runtime_row_ok D r \<longleftrightarrow> runtime_check r \<and> transition_check r \<and> runtime_foreign_keys D r"

text \<open>
  \<open>UPDATE runtime_state SET ... WHERE singleton_id=1 AND guard\<close>: the new database and the number of
  affected rows.
\<close>

definition update_runtime :: "(runtime_row \<Rightarrow> bool) \<Rightarrow> (runtime_row \<Rightarrow> runtime_row) \<Rightarrow> db \<Rightarrow> (db \<times> nat) result" where
  "update_runtime guard f D =
     (case runtime_state D of
        None \<Rightarrow> Inr (D, 0)
      | Some r \<Rightarrow>
          if \<not> guard r then Inr (D, 0)
          else if runtime_row_ok D (f r) then Inr (D\<lparr>runtime_state := Some (f r)\<rparr>, 1)
          else Inl ErrConstraint)"

section \<open>Transactions\<close>

datatype fault = NoFault | FaultTx | FaultReread

text \<open>
  What the body of a transaction does: return without committing, or commit a new database. An error of the
  body rolls back.
\<close>

datatype 'a tx = Keep 'a | Commit db

section \<open>Facts shared by the repositories\<close>

lemma references_Some: "references (Some i) ids \<longleftrightarrow> i \<in> set ids"
  by (simp add: references_def)

lemma references_None [simp]: "references None ids"
  by (simp add: references_def)

lemma update_runtime_Inr:
  assumes "update_runtime guard f D = Inr (D', n)"
  shows "(D' = D \<and> n = 0) \<or> (\<exists>r. runtime_state D = Some r \<and> guard r \<and> runtime_row_ok D (f r)
           \<and> D' = D\<lparr>runtime_state := Some (f r)\<rparr> \<and> n = 1)"
  using assms by (auto simp: update_runtime_def split: option.splits if_splits)

lemma runtime_row_ok_frame:
  "\<lbrakk> uplinks D' = uplinks D; map p_id (subscription_uplink_paths D') = map p_id (subscription_uplink_paths D);
     map d_id (direct_uplink_paths D') = map d_id (direct_uplink_paths D); map s_id (subscriptions D') = map s_id (subscriptions D);
     nodes D' = nodes D \<rbrakk> \<Longrightarrow> runtime_row_ok D' r \<longleftrightarrow> runtime_row_ok D r"
  by (simp add: runtime_row_ok_def runtime_foreign_keys_def)

text \<open>What the constraints of migration 000018 guarantee of every stored row.\<close>

definition runtime_wf :: "db \<Rightarrow> bool" where
  "runtime_wf D \<longleftrightarrow> (case runtime_state D of None \<Rightarrow> True | Some r \<Rightarrow> runtime_row_ok D r)"

lemma runtime_wf_Some: "runtime_wf D \<Longrightarrow> runtime_state D = Some r \<Longrightarrow> runtime_row_ok D r"
  by (simp add: runtime_wf_def)

lemma runtime_row_ok_runtime [simp]: "runtime_row_ok (D\<lparr>runtime_state := x\<rparr>) r = runtime_row_ok D r"
  by (rule runtime_row_ok_frame) simp_all

lemma runtime_row_ok_events [simp]: "runtime_row_ok (D\<lparr>events := x\<rparr>) r = runtime_row_ok D r"
  by (rule runtime_row_ok_frame) simp_all

lemma runtime_row_ok_settings [simp]: "runtime_row_ok (D\<lparr>settings := x\<rparr>) r = runtime_row_ok D r"
  by (rule runtime_row_ok_frame) simp_all

lemma update_runtime_wf:
  "update_runtime guard f D = Inr (D', n) \<Longrightarrow> runtime_wf D \<Longrightarrow> runtime_wf D'"
  using update_runtime_Inr by (fastforce simp: runtime_wf_def)

end
