(* ===== verification/Sample_Data.thy ===== *)
theory Sample_Data
  imports Schema
begin

text \<open>
  A small concrete database on which the properties of the repositories are evaluated: one ready uplink, one
  subscription with one node, the direct method, fresh evidence for both paths, and a runtime that is
  active on the subscription path. \<open>now0\<close> is 2026-01-01T00:00:00Z; the evidence expires an hour later.
\<close>

definition now0 :: instant where "now0 = 1767225600 * second"

abbreviation "text0 \<equiv> ''2026-01-01T00:00:00Z''"
abbreviation "expiry0 \<equiv> ''2026-01-01T01:00:00Z''"

definition uplink0 :: uplink_row where
  "uplink0 = \<lparr>u_id = ''u1'', u_display_number = 1, u_type = ''ETHERNET'', u_name = ''eth'', u_enabled = True,
     u_priority = 1, u_route_generation = 3, u_state = ''UPLINK_READY''\<rparr>"

definition subscription0 :: subscription_row where
  "subscription0 = \<lparr>s_id = ''s1'', s_name = ''vpn'', s_enabled = True, s_priority = 10, s_status = ''OK'',
     s_active_version_id = Some ''v1'', s_updated_at = text0\<rparr>"

definition node0 :: node_row where
  "node0 = \<lparr>n_id = ''n1'', n_version_id = ''v1'', n_external_name = ''node'', n_normalized_name = ''node'',
     n_fingerprint = ''fp1'', n_enabled = True, n_selection_override = ''auto''\<rparr>"

definition target0 :: target_row where
  "target0 = \<lparr>t_id = ''t1'', t_enabled = True, t_required = True, t_priority = 1, t_target_class = ''GLOBAL_REQUIRED'',
     t_state = ''UNKNOWN'', t_updated_at = text0\<rparr>"

definition direct_method0 :: method_row where
  "direct_method0 = \<lparr>m_id = ''access:direct'', m_kind = MethodDirect, m_subscription_id = None, m_enabled = True,
     m_priority = 20, m_immutable = True, m_created_at = text0, m_updated_at = text0\<rparr>"

definition sub_method0 :: method_row where
  "sub_method0 = \<lparr>m_id = ''access:subscription:s1'', m_kind = MethodSubscription, m_subscription_id = Some ''s1'',
     m_enabled = True, m_priority = 10, m_immutable = False, m_created_at = text0, m_updated_at = text0\<rparr>"

definition sub_path0 :: sub_path_row where
  "sub_path0 = \<lparr>p_id = ''p1'', p_uplink_id = ''u1'', p_subscription_id = ''s1'', p_state = ''QUALIFIED'',
     p_transport_state = ''PASSED'', p_selected_node_id = Some ''n1'', p_candidate_nodes = 1, p_qualified_nodes = 1,
     p_required_passed = 1, p_required_total = 1, p_optional_passed = 0, p_optional_total = 0,
     p_quality_class = QualityFull, p_functional_score = 1000, p_latency_ms = Some 20, p_policy_generation = 5,
     p_route_generation = 3, p_last_checked_at = Some text0, p_expires_at = Some expiry0, p_created_at = text0, p_updated_at = text0\<rparr>"

definition path_node0 :: path_node_row where
  "path_node0 = \<lparr>pn_path_id = ''p1'', pn_node_id = ''n1'', pn_qualification_state = ''BYPASS_QUALIFIED'',
     pn_qualification_generation = 5, pn_route_generation = 3, pn_expires_at = Some expiry0,
     pn_latency_ms = Some 20, pn_last_success_at = Some text0, pn_last_failure_at = None, pn_failure_code = None\<rparr>"

definition direct_path0 :: direct_path_row where
  "direct_path0 = \<lparr>d_id = ''direct:path:u1'', d_uplink_id = ''u1'', d_state = ''QUALIFIED'', d_transport_state = ''PASSED'',
     d_quality_class = QualityFull, d_functional_score = 1000, d_required_passed = 1, d_required_total = 1,
     d_optional_passed = 0, d_optional_total = 0, d_whitelist_passed = 0, d_whitelist_total = 0, d_latency_ms = Some 10,
     d_policy_generation = 5, d_route_generation = 3, d_last_checked_at = Some text0, d_expires_at = Some expiry0,
     d_failure_code = None, d_created_at = text0, d_updated_at = text0\<rparr>"

definition runtime0 :: runtime_row where
  "runtime0 = \<lparr>rt_gateway_state = GatewayActive, rt_path_state = PathActive, rt_active_uplink_id = Some ''u1'',
     rt_active_modem_id = None, rt_active_path_id = Some ''p1'', rt_active_direct_path_id = None,
     rt_management_uplink_id = None, rt_management_modem_id = None, rt_active_subscription_id = Some ''s1'',
     rt_active_node_id = Some ''n1'', rt_active_method_id = Some ''access:subscription:s1'',
     rt_active_method_kind = Some MethodSubscription, rt_active_quality_class = Some QualityFull,
     rt_config_generation = 7, rt_policy_transition_generation = None, rt_policy_transition_started_at = None,
     rt_policy_transition_deadline = None, rt_updated_at = text0\<rparr>"

definition policy0 :: access_policy_row where
  "policy0 = \<lparr>ap_startup_block_until_qualified = True, ap_direct_service_refresh_enabled = True,
     ap_failure_hold_seconds = 30, ap_recovery_stable_seconds = 120, ap_switch_cooldown_seconds = 60,
     ap_ranking_generation = 1, ap_updated_at = text0\<rparr>"

definition selection0 :: selection_row where
  "selection0 = \<lparr>sr_pending_candidate_key = None, sr_pending_candidate_since = None, sr_last_switch_at = None,
     sr_last_switch_reason = None, sr_temporary_direct_only = False, sr_temporary_direct_boot_id = None,
     sr_observed_boot_id = None, sr_updated_at = text0\<rparr>"

definition db0 :: db where
  "db0 = \<lparr>settings = [''next_policy_generation'' \<mapsto> ''6''], uplinks = [uplink0], hilink_modems = [],
     subscriptions = [subscription0],
     subscription_versions = [\<lparr>v_id = ''v1'', v_subscription_id = ''s1'', v_state = ''LKG''\<rparr>],
     nodes = [node0], bypass_probe_targets = [target0], access_methods = [sub_method0, direct_method0],
     subscription_uplink_paths = [sub_path0], uplink_path_nodes = [path_node0], uplink_path_node_target_results = [],
     direct_uplink_paths = [direct_path0], direct_uplink_path_target_results = [], subscription_node_preferences = [],
     path_health_runtime = [], events = [], access_policy = Some policy0, access_selection_runtime = Some selection0,
     runtime_state = Some runtime0\<rparr>"

text \<open>SQLite functions for the samples: \<open>julianday\<close> reads the RFC 3339 text, \<open>CAST\<close> an optional decimal.\<close>

definition sql0 :: sql_fns where
  "sql0 = \<lparr>julianday = parse_time, cast_integer = (\<lambda>s. case parse_int64 s of None \<Rightarrow> 0 | Some n \<Rightarrow> n)\<rparr>"

lemma db0_wf: "runtime_wf db0"
  by code_simp

lemma sample_date: "days_from_civil 2026 1 1 = 20454" "valid_date 2026 1 1"
  by (simp_all add: days_from_civil_def year_days_def valid_date_def days_in_def)

lemma sample_text:
  assumes "0 \<le> s" "s < 86400"
  shows "format_time (now0 + s * second) = ''2026-01-01T'' @ pad 2 (nat (s div 3600)) @ '':'' @
     pad 2 (nat (s div 60 mod 60)) @ '':'' @ pad 2 (nat (s mod 60)) @ ''Z''"
proof -
  have "format_year 2026 = ''2026''" "pad 2 (nat 1) = ''01''" by (simp_all add: format_year_def pad_numeral digit_chars)
  moreover have "now0 + s * second = (days_from_civil 2026 1 1 * 86400 + s) * second"
    by (simp add: now0_def sample_date(1) algebra_simps)
  ultimately show ?thesis using format_time_date[OF sample_date(2) _ assms] by simp
qed

lemma now0_text: "format_time now0 = text0" "format_time (now0 + second) = ''2026-01-01T00:00:01Z''"
    "format_time (now0 + 120 * second) = ''2026-01-01T00:02:00Z''" "format_time (now0 + 3600 * second) = expiry0"
proof -
  have "pad 2 (nat (0 div 3600)) = ''00''" "pad 2 (nat (0 div 60 mod 60)) = ''00''" "pad 2 (nat (0 mod 60)) = ''00''"
    "pad 2 (nat (1 div 3600)) = ''00''" "pad 2 (nat (1 div 60 mod 60)) = ''00''" "pad 2 (nat (1 mod 60)) = ''01''"
    "pad 2 (nat (120 div 3600)) = ''00''" "pad 2 (nat (120 div 60 mod 60)) = ''02''" "pad 2 (nat (120 mod 60)) = ''00''"
    "pad 2 (nat (3600 div 3600)) = ''01''" "pad 2 (nat (3600 div 60 mod 60)) = ''00''" "pad 2 (nat (3600 mod 60)) = ''00''"
    by (simp_all add: pad_numeral digit_chars)
  then show "format_time now0 = text0" "format_time (now0 + second) = ''2026-01-01T00:00:01Z''"
    "format_time (now0 + 120 * second) = ''2026-01-01T00:02:00Z''" "format_time (now0 + 3600 * second) = expiry0"
    using sample_text[of 0] sample_text[of 1] sample_text[of 120] sample_text[of 3600] by simp_all
qed

lemma now0_range: "rfc3339_range now0" "rfc3339_range (now0 + 120 * second)" "rfc3339_range (now0 + 3600 * second)"
  using civil_from_days_eq[OF sample_date(2,1)] by (simp_all add: rfc3339_range_def now0_def second_def)

end
