(* ===== verification/Store.thy ===== *)
theory Store
  imports Sample_Data
begin

text \<open>
  \<open>internal/store\<close>: the monotonic counters kept in \<open>settings\<close> and the invalidation of every path result
  when the policy changes. \<open>InvalidatePathPolicy\<close> runs inside its caller's transaction, so it is a
  function from the database to the database and the new generation; an error means that the caller rolls
  back.
\<close>

section \<open>Counters\<close>

definition AllocateCounter :: "string \<Rightarrow> int \<Rightarrow> db \<Rightarrow> (int \<times> db) result" where
  "AllocateCounter key initial D =
     bind_result
       (case settings D key of
          None \<Rightarrow> Inr initial
        | Some raw \<Rightarrow>
            (case parse_int64 raw of
               None \<Rightarrow> Inl (ErrFmt ''invalid counter %s value %q'' [key, raw])
             | Some v \<Rightarrow> if v < initial then Inl (ErrFmt ''invalid counter %s value %q'' [key, raw]) else Inr v))
       (\<lambda>v. Inr (v, D\<lparr>settings := (settings D)(key \<mapsto> format_int (wrap64 (v + 1)))\<rparr>))"

section \<open>Policy invalidation\<close>

definition PolicyGracePeriod :: duration where "PolicyGracePeriod = 120 * second"

definition start_policy_transition :: "int \<Rightarrow> string \<Rightarrow> string \<Rightarrow> db \<Rightarrow> (db \<times> nat) result" where
  "start_policy_transition generation updatedAt deadline =
     update_runtime
       (\<lambda>r. rt_path_state r = PathActive \<and> rt_active_method_kind r = Some MethodSubscription
          \<and> rt_active_direct_path_id r = None \<and> rt_active_uplink_id r \<noteq> None \<and> rt_active_path_id r \<noteq> None
          \<and> rt_active_subscription_id r \<noteq> None \<and> rt_active_node_id r \<noteq> None)
       (\<lambda>r. r\<lparr>rt_gateway_state := GatewayVerifyingPolicy,
             rt_policy_transition_generation := Some generation,
             rt_policy_transition_started_at := Some updatedAt,
             rt_policy_transition_deadline := Some deadline,
             rt_updated_at := updatedAt\<rparr>)"

text \<open>
  The event written when a transition of this generation is on record. Scanning a NULL into a Go string is a
  driver error.
\<close>

definition transition_event :: "int \<Rightarrow> string \<Rightarrow> string \<Rightarrow> db \<Rightarrow> db result" where
  "transition_event generation updatedAt deadline D =
     (case runtime_state D of
        None \<Rightarrow> Inr D
      | Some r \<Rightarrow>
          if \<not> (rt_gateway_state r = GatewayVerifyingPolicy \<and> rt_policy_transition_generation r = Some generation) then Inr D
          else (case (rt_active_uplink_id r, rt_active_path_id r, rt_active_subscription_id r, rt_active_node_id r) of
                  (Some uplinkID, Some pathID, Some subscriptionID, Some nodeID) \<Rightarrow>
                    Inr (D\<lparr>events := events D @
                      [\<lparr>e_occurred_at = updatedAt, e_severity = ''INFO'', e_type = ''POLICY_VERIFICATION_STARTED'',
                        e_uplink_id = Some uplinkID,
                        e_modem_id = (if uplinkID \<in> set (hilink_modems D) then Some uplinkID else None),
                        e_subscription_id = Some subscriptionID, e_path_id = Some pathID,
                        e_details_json = marshal [(''node_id'', JStr nodeID), (''policy_generation'', JInt generation),
                          (''started_at'', JStr updatedAt), (''deadline'', JStr deadline)]\<rparr>]\<rparr>)
                | _ \<Rightarrow> Inl ErrDriver))"

definition invalidate_sub_path :: "int \<Rightarrow> string \<Rightarrow> sub_path_row \<Rightarrow> sub_path_row" where
  "invalidate_sub_path generation updatedAt p =
     (let keep = p_state p \<in> {''UPLINK_DISABLED'', ''SUBSCRIPTION_DISABLED'', ''UPLINK_OFFLINE''}
      in p\<lparr>p_policy_generation := generation,
           p_state := (if keep then p_state p else ''STALE''),
           p_transport_state := (if keep then p_transport_state p else ''UNKNOWN''),
           p_selected_node_id := None, p_qualified_nodes := 0, p_required_passed := 0,
           p_optional_passed := 0, p_quality_class := QualityUnknown, p_functional_score := 0,
           p_last_checked_at := None, p_expires_at := None, p_updated_at := updatedAt\<rparr>)"

definition invalidate_direct_path :: "int \<Rightarrow> string \<Rightarrow> direct_path_row \<Rightarrow> direct_path_row" where
  "invalidate_direct_path generation updatedAt p =
     (let keep = d_state p \<in> {''UPLINK_DISABLED'', ''UPLINK_OFFLINE''}
      in p\<lparr>d_policy_generation := generation,
           d_state := (if keep then d_state p else ''STALE''),
           d_transport_state := (if keep then d_transport_state p else ''UNKNOWN''),
           d_quality_class := QualityUnknown, d_functional_score := 0,
           d_required_passed := 0, d_optional_passed := 0, d_whitelist_passed := 0,
           d_last_checked_at := None, d_expires_at := None, d_updated_at := updatedAt\<rparr>)"

definition InvalidatePathPolicy :: "string \<Rightarrow> db \<Rightarrow> (int \<times> db) result" where
  "InvalidatePathPolicy updatedAt D =
     bind_result (AllocateCounter ''next_policy_generation'' 1 D) (\<lambda>(generation, D1).
     (case parse_time updatedAt of
        None \<Rightarrow> Inl (ErrFmt ''parse policy invalidation time'' [updatedAt])
      | Some startedAt \<Rightarrow>
          let deadline = format_time (startedAt + PolicyGracePeriod) in
          bind_result (start_policy_transition generation updatedAt deadline D1) (\<lambda>(D2, _).
          bind_result (transition_event generation updatedAt deadline D2) (\<lambda>D3.
            Inr (generation,
                 D3\<lparr>subscription_uplink_paths := map (invalidate_sub_path generation updatedAt) (subscription_uplink_paths D3),
                    direct_uplink_paths := map (invalidate_direct_path generation updatedAt) (direct_uplink_paths D3)\<rparr>)))))"

section \<open>Counters are monotonic\<close>

lemma AllocateCounter_Inr:
  assumes "AllocateCounter key initial D = Inr (g, D')" and "is_int64 initial"
  shows "initial \<le> g" and "is_int64 g"
    and "D' = D\<lparr>settings := (settings D)(key \<mapsto> format_int (wrap64 (g + 1)))\<rparr>"
    and "settings D key = None \<Longrightarrow> g = initial"
    and "settings D key = Some raw \<Longrightarrow> parse_int64 raw = Some g"
  using assms
  by (auto simp: AllocateCounter_def parse_int64_def Let_def split: option.splits if_splits prod.splits list.splits)

lemma AllocateCounter_next:
  assumes "AllocateCounter key initial D = Inr (g, D')" and "AllocateCounter key initial D' = Inr (g', D'')"
    and "is_int64 initial" and "g < max_int64"
  shows "g' = g + 1"
proof -
  note a = AllocateCounter_Inr[OF assms(1,3)]
  have w: "wrap64 (g + 1) = g + 1" using a(2) assms(4) by (intro wrap64_id) (simp add: int64_defs)
  have "settings D' key = Some (format_int (g + 1))" using a(3) w by simp
  then have "parse_int64 (format_int (g + 1)) = Some g'" by (rule AllocateCounter_Inr(5)[OF assms(2,3)])
  moreover have "is_int64 (g + 1)" using a(2) assms(4) by (simp add: int64_defs)
  ultimately show ?thesis by simp
qed

section \<open>What an invalidation changes\<close>

lemma invalidate_path_fields [simp]:
  "p_id (invalidate_sub_path g t p) = p_id p" "p_expires_at (invalidate_sub_path g t p) = None"
  "p_selected_node_id (invalidate_sub_path g t p) = None" "p_policy_generation (invalidate_sub_path g t p) = g"
  "p_quality_class (invalidate_sub_path g t p) = QualityUnknown"
  "d_id (invalidate_direct_path g t d) = d_id d" "d_expires_at (invalidate_direct_path g t d) = None"
  "d_policy_generation (invalidate_direct_path g t d) = g"
  "d_quality_class (invalidate_direct_path g t d) = QualityUnknown"
  by (simp_all add: invalidate_sub_path_def invalidate_direct_path_def Let_def)

lemma start_policy_transition_frame:
  assumes "start_policy_transition g t d D = Inr (D', n)"
  shows "D' = D\<lparr>runtime_state := runtime_state D'\<rparr>"
  using update_runtime_Inr[OF assms[unfolded start_policy_transition_def]] by auto

lemma transition_event_frame:
  assumes "transition_event g t d D = Inr D'"
  shows "D' = D\<lparr>events := events D'\<rparr>"
  using assms by (auto simp: transition_event_def split: option.splits if_splits)

lemma transition_event_runtime: "transition_event g t d D = Inr D' \<Longrightarrow> runtime_state D' = runtime_state D"
  by (auto simp: transition_event_def split: option.splits if_splits)

lemma InvalidatePathPolicy_Inr:
  assumes "InvalidatePathPolicy t D = Inr (g, D')"
  obtains D1 D2 D3 d n where
    "AllocateCounter ''next_policy_generation'' 1 D = Inr (g, D1)"
    "Option.bind (parse_time t) (\<lambda>s. Some (format_time (s + PolicyGracePeriod))) = Some d"
    "start_policy_transition g t d D1 = Inr (D2, n)"
    "transition_event g t d D2 = Inr D3"
    "D' = D3\<lparr>subscription_uplink_paths := map (invalidate_sub_path g t) (subscription_uplink_paths D3),
             direct_uplink_paths := map (invalidate_direct_path g t) (direct_uplink_paths D3)\<rparr>"
  using assms by (auto simp: InvalidatePathPolicy_def Let_def split: option.splits)

lemma InvalidatePathPolicy_frame:
  assumes "InvalidatePathPolicy t D = Inr (g, D')"
  shows "subscription_uplink_paths D' = map (invalidate_sub_path g t) (subscription_uplink_paths D)"
    and "direct_uplink_paths D' = map (invalidate_direct_path g t) (direct_uplink_paths D)"
    and "settings D' = (settings D)(''next_policy_generation'' \<mapsto> format_int (wrap64 (g + 1)))"
    and "uplinks D' = uplinks D" and "subscriptions D' = subscriptions D" and "nodes D' = nodes D"
    and "access_methods D' = access_methods D" and "uplink_path_nodes D' = uplink_path_nodes D"
proof -
  obtain D1 D2 D3 d n where
    c: "AllocateCounter ''next_policy_generation'' 1 D = Inr (g, D1)"
    and s: "start_policy_transition g t d D1 = Inr (D2, n)"
    and e: "transition_event g t d D2 = Inr D3"
    and D': "D' = D3\<lparr>subscription_uplink_paths := map (invalidate_sub_path g t) (subscription_uplink_paths D3),
             direct_uplink_paths := map (invalidate_direct_path g t) (direct_uplink_paths D3)\<rparr>"
    using assms by (rule InvalidatePathPolicy_Inr)
  have D1: "D1 = D\<lparr>settings := (settings D)(''next_policy_generation'' \<mapsto> format_int (wrap64 (g + 1)))\<rparr>"
    using AllocateCounter_Inr(3)[OF c] by (simp add: int64_defs)
  have D2: "D2 = D1\<lparr>runtime_state := runtime_state D2\<rparr>" by (rule start_policy_transition_frame[OF s])
  have D3: "D3 = D2\<lparr>events := events D3\<rparr>" by (rule transition_event_frame[OF e])
  have eq: "f D3 = f D1" if "\<And>v w X. f (X\<lparr>runtime_state := v\<rparr>) = f X" "\<And>w X. f (X\<lparr>events := w\<rparr>) = f X" for f
    using D2 D3 that by metis
  have f3: "subscription_uplink_paths D3 = subscription_uplink_paths D1" "direct_uplink_paths D3 = direct_uplink_paths D1"
    "settings D3 = settings D1" "uplinks D3 = uplinks D1" "subscriptions D3 = subscriptions D1" "nodes D3 = nodes D1"
    "access_methods D3 = access_methods D1" "uplink_path_nodes D3 = uplink_path_nodes D1"
    by (rule eq; simp)+
  show "subscription_uplink_paths D' = map (invalidate_sub_path g t) (subscription_uplink_paths D)"
    "direct_uplink_paths D' = map (invalidate_direct_path g t) (direct_uplink_paths D)"
    "settings D' = (settings D)(''next_policy_generation'' \<mapsto> format_int (wrap64 (g + 1)))"
    "uplinks D' = uplinks D" "subscriptions D' = subscriptions D" "nodes D' = nodes D" "access_methods D' = access_methods D"
    "uplink_path_nodes D' = uplink_path_nodes D"
    by (simp_all add: D' f3 D1)
qed

section \<open>The grace period\<close>

definition subscription_active :: "runtime_row \<Rightarrow> bool" where
  "subscription_active r \<longleftrightarrow> rt_path_state r = PathActive \<and> rt_active_method_kind r = Some MethodSubscription"

definition in_transition :: "int \<Rightarrow> instant \<Rightarrow> runtime_row \<Rightarrow> runtime_row" where
  "in_transition g t r = r\<lparr>rt_gateway_state := GatewayVerifyingPolicy,
     rt_policy_transition_generation := Some g, rt_policy_transition_started_at := Some (format_time t),
     rt_policy_transition_deadline := Some (format_time (t + PolicyGracePeriod)), rt_updated_at := format_time t\<rparr>"

lemma grace_text_order:
  "rfc3339_range t \<Longrightarrow> rfc3339_range (t + PolicyGracePeriod) \<Longrightarrow> format_time t < format_time (t + PolicyGracePeriod)"
  by (rule format_time_less) (simp_all add: PolicyGracePeriod_def second_def)

lemma subscription_active_tuple:
  assumes "runtime_row_ok D r" and "subscription_active r"
  shows "rt_active_uplink_id r \<noteq> None" "rt_active_path_id r \<noteq> None" "rt_active_direct_path_id r = None"
    "rt_active_subscription_id r \<noteq> None" "rt_active_node_id r \<noteq> None" "rt_active_method_id r \<noteq> None"
  using assms by (auto simp: runtime_row_ok_def runtime_check_def subscription_active_def)

lemma in_transition_ok:
  assumes "runtime_row_ok D r" and "subscription_active r" and "0 < g"
    and "rfc3339_range t" and "rfc3339_range (t + PolicyGracePeriod)"
  shows "runtime_row_ok D (in_transition g t r)"
  using assms(1-3) subscription_active_tuple[OF assms(1,2)] grace_text_order[OF assms(4,5)]
  by (simp add: runtime_row_ok_def runtime_check_def transition_check_def in_transition_def
      runtime_foreign_keys_def subscription_active_def)

lemma start_policy_transition_active:
  assumes "runtime_state D = Some r" "runtime_row_ok D r" "subscription_active r" "0 < g"
    and "rfc3339_range t" "rfc3339_range (t + PolicyGracePeriod)"
  shows "start_policy_transition g (format_time t) (format_time (t + PolicyGracePeriod)) D
       = Inr (D\<lparr>runtime_state := Some (in_transition g t r)\<rparr>, 1)"
  using assms(1,3) subscription_active_tuple[OF assms(2,3)] in_transition_ok[OF assms(2-6)]
  by (simp add: start_policy_transition_def update_runtime_def subscription_active_def in_transition_def)

lemma transition_event_active:
  assumes "runtime_state D = Some r" and "rt_active_uplink_id r \<noteq> None" "rt_active_path_id r \<noteq> None"
    "rt_active_subscription_id r \<noteq> None" "rt_active_node_id r \<noteq> None"
  shows "\<exists>es. transition_event g t d D = Inr (D\<lparr>events := es\<rparr>)"
proof -
  have "\<exists>es. D = D\<lparr>events := es\<rparr>" by (rule exI[of _ "events D"]) simp
  with assms show ?thesis by (auto simp: transition_event_def)
qed

lemma InvalidatePathPolicy_active:
  assumes "runtime_wf D" and "runtime_state D = Some r" and "subscription_active r"
    and "AllocateCounter ''next_policy_generation'' 1 D = Inr (g, D1)"
    and "rfc3339_range t" and "rfc3339_range (t + PolicyGracePeriod)"
  shows "\<exists>D'. InvalidatePathPolicy (format_time t) D = Inr (g, D')
           \<and> runtime_state D' = Some (in_transition g t r) \<and> runtime_row_ok D' (in_transition g t r)"
proof -
  have g: "0 < g" and D1: "D1 = D\<lparr>settings := (settings D)(''next_policy_generation'' \<mapsto> format_int (wrap64 (g + 1)))\<rparr>"
    using AllocateCounter_Inr(1,3)[OF assms(4)] by (simp_all add: int64_defs)
  have ok: "runtime_row_ok D r" using assms(1,2) by (rule runtime_wf_Some)
  have r1: "runtime_state D1 = Some r" "runtime_row_ok D1 r" using assms(2) ok by (simp_all add: D1)
  define D2 where "D2 = D1\<lparr>runtime_state := Some (in_transition g t r)\<rparr>"
  have s: "start_policy_transition g (format_time t) (format_time (t + PolicyGracePeriod)) D1 = Inr (D2, 1)"
    unfolding D2_def by (rule start_policy_transition_active[OF r1 assms(3) g assms(5,6)])
  have r2: "runtime_state D2 = Some (in_transition g t r)" by (simp add: D2_def)
  obtain es where e: "transition_event g (format_time t) (format_time (t + PolicyGracePeriod)) D2 = Inr (D2\<lparr>events := es\<rparr>)"
    using transition_event_active[OF r2, of g "format_time t" "format_time (t + PolicyGracePeriod)"]
      subscription_active_tuple[OF ok assms(3)] by (auto simp: in_transition_def)
  have p: "parse_time (format_time t) = Some t" by (rule instant_codec.decode_encode[OF assms(5)])
  show ?thesis
    using assms(4) s e p in_transition_ok[OF ok assms(3) g assms(5,6)] r2
    by (auto simp: InvalidatePathPolicy_def Let_def D2_def D1 runtime_row_ok_def runtime_foreign_keys_def
        invalidate_sub_path_def invalidate_direct_path_def comp_def)
qed

text \<open>
  Policy change on an active VPN path: the invalidation succeeds and opens a grace period of
  120 seconds for the active tuple, under the new generation; the tuple itself is not touched, and the new
  row satisfies the constraints of the database. The order of the two time texts that the trigger compares
  holds for every start time.
\<close>

theorem InvalidatePathPolicy_grace:
  assumes "runtime_wf D" and "runtime_state D = Some r" and "subscription_active r"
    and "AllocateCounter ''next_policy_generation'' 1 D = Inr (g, D1)"
    and "rfc3339_range t" and "rfc3339_range (t + PolicyGracePeriod)"
  shows "\<exists>D'. InvalidatePathPolicy (format_time t) D = Inr (g, D')
           \<and> runtime_state D' = Some (in_transition g t r) \<and> runtime_row_ok D' (in_transition g t r)"
  using assms by (rule InvalidatePathPolicy_active)

lemma sample_counter:
  "AllocateCounter ''next_policy_generation'' 1 db0
     = Inr (6, db0\<lparr>settings := (settings db0)(''next_policy_generation'' \<mapsto> ''7'')\<rparr>)"
proof -
  have "parse_int64 ''6'' = Some 6" "format_int (wrap64 (6 + 1)) = ''7''" by code_simp+
  then show ?thesis by (simp add: db0_def AllocateCounter_def)
qed

lemma sample_invalidation: "\<exists>D'. InvalidatePathPolicy text0 db0 = Inr (6, D')"
proof -
  have "runtime_state db0 = Some runtime0" "subscription_active runtime0"
    by (simp_all add: db0_def runtime0_def subscription_active_def)
  then show ?thesis
    using InvalidatePathPolicy_active[OF db0_wf _ _ sample_counter now0_range(1)] now0_range(2)
    by (auto simp: PolicyGracePeriod_def now0_text)
qed

theorem InvalidatePathPolicy_grace_witness:
  "\<exists>D'. InvalidatePathPolicy text0 db0 = Inr (6, D')
      \<and> runtime_state D' = Some (in_transition 6 now0 runtime0) \<and> runtime_row_ok D' (in_transition 6 now0 runtime0)"
proof -
  have "runtime_state db0 = Some runtime0" "subscription_active runtime0"
    by (simp_all add: db0_def runtime0_def subscription_active_def)
  then show ?thesis
    using InvalidatePathPolicy_grace[OF db0_wf _ _ sample_counter now0_range(1)] now0_range(2)
    by (simp add: PolicyGracePeriod_def now0_text)
qed

end
