(* ===== verification/State_Repository.thy ===== *)
theory State_Repository
  imports Store
begin

text \<open>
  \<open>internal/state/repository.go\<close>: the persisted runtime state and the operations that move it. Each
  operation is a function of the clock reading(s) it takes, the driver fault, its arguments and the database,
  and returns the database it leaves and its result; \<open>transact\<close> is the common frame (begin, roll back on
  error, commit, read back). The invariant \<open>runtime_inv\<close> says what the runtime row means for the
  data plane: a blocked row names no path at all, and a verifying or active row names a complete tuple.
\<close>

section \<open>Data\<close>

record snapshot =
  GatewayState :: gateway_state
  PathState :: path_state
  ActiveUplinkID :: string
  ActiveModemID :: string
  ActivePathID :: string
  ActiveDirectPathID :: string
  ManagementUplinkID :: string
  ManagementModemID :: string
  ActiveSubscriptionID :: string
  ActiveNodeID :: string
  ActiveMethodID :: string
  ActiveMethodKind :: method_kind
  ActiveQualityClass :: quality
  ConfigGeneration :: int
  PolicyTransitionGeneration :: int
  PolicyTransitionStartedAt :: string
  PolicyTransitionDeadline :: string
  UpdatedAt :: string

record event_input =
  Severity :: string
  EventType :: string
  EvUplinkID :: string
  EvModemID :: string
  EvSubscriptionID :: string
  EvPathID :: string
  Details :: "(string \<times> json) list"

record fresh_path =
  FpID :: string
  FpUplinkID :: string
  FpSubscriptionID :: string
  FpNodeID :: string
  FpMethodID :: string
  FpQualityClass :: quality

record fresh_direct_path =
  FdID :: string
  FdUplinkID :: string
  FdMethodID :: string
  FdQualityClass :: quality

definition null_kind :: "method_kind option \<Rightarrow> method_kind" where
  "null_kind k = (case k of None \<Rightarrow> MethodOther [] | Some x \<Rightarrow> x)"

definition null_quality :: "quality option \<Rightarrow> quality" where
  "null_quality k = (case k of None \<Rightarrow> QualityOther [] | Some x \<Rightarrow> x)"

definition null_int :: "int option \<Rightarrow> int" where
  "null_int k = (case k of None \<Rightarrow> 0 | Some x \<Rightarrow> x)"

lemma null_simps [simp]:
  "null_kind None = MethodOther []" "null_kind (Some k) = k"
  "null_quality None = QualityOther []" "null_quality (Some c) = c"
  "null_int None = 0" "null_int (Some i) = i"
  by (simp_all add: null_kind_def null_quality_def null_int_def)

definition scanSnapshot :: "runtime_row \<Rightarrow> snapshot" where
  "scanSnapshot r =
     \<lparr>GatewayState = rt_gateway_state r, PathState = rt_path_state r,
      ActiveUplinkID = null_str (rt_active_uplink_id r), ActiveModemID = null_str (rt_active_modem_id r),
      ActivePathID = null_str (rt_active_path_id r), ActiveDirectPathID = null_str (rt_active_direct_path_id r),
      ManagementUplinkID = null_str (rt_management_uplink_id r),
      ManagementModemID = null_str (rt_management_modem_id r),
      ActiveSubscriptionID = null_str (rt_active_subscription_id r), ActiveNodeID = null_str (rt_active_node_id r),
      ActiveMethodID = null_str (rt_active_method_id r), ActiveMethodKind = null_kind (rt_active_method_kind r),
      ActiveQualityClass = null_quality (rt_active_quality_class r), ConfigGeneration = rt_config_generation r,
      PolicyTransitionGeneration = null_int (rt_policy_transition_generation r),
      PolicyTransitionStartedAt = null_str (rt_policy_transition_started_at r),
      PolicyTransitionDeadline = null_str (rt_policy_transition_deadline r), UpdatedAt = rt_updated_at r\<rparr>"

definition PolicyTransitionActive :: "snapshot \<Rightarrow> bool" where
  "PolicyTransitionActive s \<longleftrightarrow>
     GatewayState s = GatewayVerifyingPolicy \<and> PathState s = PathActive
   \<and> PolicyTransitionGeneration s > 0 \<and> PolicyTransitionStartedAt s \<noteq> [] \<and> PolicyTransitionDeadline s \<noteq> []
   \<and> ActiveUplinkID s \<noteq> [] \<and> ActivePathID s \<noteq> [] \<and> ActiveDirectPathID s = []
   \<and> ActiveSubscriptionID s \<noteq> [] \<and> ActiveNodeID s \<noteq> [] \<and> ActiveMethodKind s = MethodSubscription"

section \<open>Reading\<close>

definition read_runtime :: "db \<Rightarrow> snapshot result" where
  "read_runtime D = (case runtime_state D of None \<Rightarrow> Inl ErrNoRows | Some r \<Rightarrow> Inr (scanSnapshot r))"

definition Get :: "fault \<Rightarrow> db \<Rightarrow> snapshot result" where
  "Get f D = (if f = NoFault then read_runtime D else Inl ErrDriver)"

text \<open>The ON and WHERE conditions of the query of \<open>readFreshPath\<close>, on one combination of rows.\<close>

definition fresh_path_where ::
  "string \<Rightarrow> string \<Rightarrow> int \<Rightarrow> int \<Rightarrow> string \<Rightarrow> sub_path_row \<Rightarrow> path_node_row \<Rightarrow> node_row \<Rightarrow> version_row \<Rightarrow> subscription_row
   \<Rightarrow> uplink_row \<Rightarrow> method_row \<Rightarrow> bool" where
  "fresh_path_where pathID nodeID policyGeneration routeGeneration now p pn n v s u a \<longleftrightarrow>
     pn_path_id pn = p_id p \<and> n_id n = pn_node_id pn \<and> v_id v = n_version_id n
   \<and> s_id s = p_subscription_id p \<and> s_active_version_id s = Some (v_id v) \<and> u_id u = p_uplink_id p
   \<and> m_subscription_id a = Some (s_id s) \<and> m_kind a = MethodSubscription
   \<and> p_id p = pathID \<and> p_policy_generation p = policyGeneration \<and> p_route_generation p = routeGeneration
   \<and> (nodeID = [] \<and> p_selected_node_id p = Some (pn_node_id pn) \<or> nodeID \<noteq> [] \<and> pn_node_id pn = nodeID)
   \<and> text_after (p_expires_at p) now
   \<and> (p_state p = ''QUALIFIED'' \<and> p_quality_class p = QualityFull \<and> pn_qualification_state pn = ''BYPASS_QUALIFIED''
      \<or> p_state p = ''DEGRADED'' \<and> p_quality_class p = QualityLimited \<and> pn_qualification_state pn = ''BYPASS_LIMITED'')
   \<and> pn_qualification_generation pn = p_policy_generation p
   \<and> pn_route_generation pn = p_route_generation p \<and> text_after (pn_expires_at pn) now
   \<and> n_enabled n \<and> s_enabled s \<and> m_enabled a \<and> u_enabled u \<and> u_state u = ''UPLINK_READY''"

definition fresh_path_of :: "sub_path_row \<Rightarrow> path_node_row \<Rightarrow> method_row \<Rightarrow> fresh_path" where
  "fresh_path_of p pn a =
     \<lparr>FpID = p_id p, FpUplinkID = p_uplink_id p, FpSubscriptionID = p_subscription_id p,
      FpNodeID = pn_node_id pn, FpMethodID = m_id a, FpQualityClass = p_quality_class p\<rparr>"

definition readFreshPath :: "string \<Rightarrow> string \<Rightarrow> int \<Rightarrow> int \<Rightarrow> instant \<Rightarrow> db \<Rightarrow> fresh_path result" where
  "readFreshPath pathID nodeID policyGeneration routeGeneration now D =
     (case first_row
        [fresh_path_of p pn a.
           p \<leftarrow> subscription_uplink_paths D, pn \<leftarrow> uplink_path_nodes D, n \<leftarrow> nodes D, v \<leftarrow> subscription_versions D,
           s \<leftarrow> subscriptions D, u \<leftarrow> uplinks D, a \<leftarrow> access_methods D,
           fresh_path_where pathID nodeID policyGeneration routeGeneration (format_time now) p pn n v s u a]
      of None \<Rightarrow> Inl ErrStaleGeneration | Some path \<Rightarrow> Inr path)"

text \<open>The ON and WHERE conditions of the query of \<open>readFreshDirectPath\<close>.\<close>

definition fresh_direct_where :: "sql_fns \<Rightarrow> string \<Rightarrow> int \<Rightarrow> int \<Rightarrow> string \<Rightarrow> direct_path_row \<Rightarrow> uplink_row \<Rightarrow> method_row \<Rightarrow> bool" where
  "fresh_direct_where q pathID policyGeneration routeGeneration now p u a \<longleftrightarrow>
     u_id u = d_uplink_id p \<and> m_id a = ''access:direct'' \<and> m_kind a = MethodDirect
   \<and> d_id p = pathID \<and> d_policy_generation p = policyGeneration \<and> d_route_generation p = routeGeneration
   \<and> d_route_generation p = u_route_generation u
   \<and> d_quality_class p \<in> {QualityFull, QualityLimited, QualityWhitelistOnly}
   \<and> d_state p \<in> {''QUALIFIED'', ''DEGRADED''}
   \<and> julian_after q (d_expires_at p) now
   \<and> m_enabled a \<and> u_enabled u \<and> u_state u = ''UPLINK_READY''"

definition readFreshDirectPath :: "sql_fns \<Rightarrow> string \<Rightarrow> int \<Rightarrow> int \<Rightarrow> instant \<Rightarrow> db \<Rightarrow> fresh_direct_path result" where
  "readFreshDirectPath q pathID policyGeneration routeGeneration now D =
     (case first_row
        [\<lparr>FdID = d_id p, FdUplinkID = d_uplink_id p, FdMethodID = m_id a, FdQualityClass = d_quality_class p\<rparr>.
           p \<leftarrow> direct_uplink_paths D, u \<leftarrow> uplinks D, a \<leftarrow> access_methods D,
           fresh_direct_where q pathID policyGeneration routeGeneration (format_time now) p u a]
      of None \<Rightarrow> Inl ErrStaleGeneration | Some path \<Rightarrow> Inr path)"

section \<open>Events and the transaction frame\<close>

definition validSeverity :: "string \<Rightarrow> bool" where
  "validSeverity s \<longleftrightarrow> s \<in> {''DEBUG'', ''INFO'', ''WARNING'', ''ERROR'', ''CRITICAL''}"

definition validBlockedGatewayState :: "gateway_state \<Rightarrow> bool" where
  "validBlockedGatewayState g \<longleftrightarrow>
     g \<in> {GatewayAllUplinksOffline, GatewayNoBypassTargets, GatewayNoWorkingSubscription, GatewayBlocked}"

definition appendEventTx :: "string \<Rightarrow> event_input \<Rightarrow> db \<Rightarrow> db result" where
  "appendEventTx occurredAt input D =
     (if \<not> validSeverity (Severity input) \<or> blank (EventType input) \<or> 128 < length (EventType input) then
        Inl (ErrMsg ''valid event severity and type are required'')
      else let details = marshal (Details input) in
        if 16 * 1024 < length details then Inl (ErrMsg ''event details exceed 16 KiB'')
        else let uplinkID = (if EvUplinkID input = [] then EvModemID input else EvUplinkID input);
                 modemID = (if EvModemID input = [] \<and> uplinkID \<noteq> [] \<and> uplinkID \<in> set (hilink_modems D)
                            then uplinkID else EvModemID input)
             in Inr (D\<lparr>events := events D @
                  [\<lparr>e_occurred_at = occurredAt, e_severity = Severity input, e_type = EventType input,
                    e_uplink_id = nullString uplinkID, e_modem_id = nullString modemID,
                    e_subscription_id = nullString (EvSubscriptionID input), e_path_id = nullString (EvPathID input),
                    e_details_json = details\<rparr>]\<rparr>))"

definition transact :: "fault \<Rightarrow> (db \<Rightarrow> snapshot tx result) \<Rightarrow> db \<Rightarrow> db \<times> (snapshot \<times> bool) result" where
  "transact f body D =
     (if f = FaultTx then (D, Inl ErrDriver)
      else case body D of
        Inl e \<Rightarrow> (D, Inl e)
      | Inr (Keep s) \<Rightarrow> (D, Inr (s, False))
      | Inr (Commit D') \<Rightarrow> (D', bind_result (Get f D') (\<lambda>s. Inr (s, True))))"

text \<open>An UPDATE of the runtime singleton followed by its audit event, then the commit.\<close>

definition record_state :: "(runtime_row \<Rightarrow> runtime_row) \<Rightarrow> string \<Rightarrow> event_input \<Rightarrow> db \<Rightarrow> snapshot tx result" where
  "record_state change now event D =
     bind_result (update_runtime (\<lambda>_. True) change D) (\<lambda>(D1, _).
     bind_result (appendEventTx now event D1) (\<lambda>D2. Inr (Commit D2)))"

definition modem_projection :: "db \<Rightarrow> string \<Rightarrow> string option" where
  "modem_projection D uplinkID = (if uplinkID \<in> set (hilink_modems D) then Some uplinkID else None)"

definition clear_transition :: "runtime_row \<Rightarrow> runtime_row" where
  "clear_transition r = r\<lparr>rt_policy_transition_generation := None, rt_policy_transition_started_at := None,
     rt_policy_transition_deadline := None\<rparr>"

definition clear_tuple :: "runtime_row \<Rightarrow> runtime_row" where
  "clear_tuple r = r\<lparr>rt_active_uplink_id := None, rt_active_modem_id := None, rt_active_path_id := None,
     rt_active_direct_path_id := None, rt_active_subscription_id := None, rt_active_node_id := None,
     rt_active_method_id := None, rt_active_method_kind := None, rt_active_quality_class := None\<rparr>"

section \<open>Activation of a subscription path\<close>

definition begin_row :: "db \<Rightarrow> fresh_path \<Rightarrow> string \<Rightarrow> runtime_row \<Rightarrow> runtime_row" where
  "begin_row D path now r =
     clear_transition (r\<lparr>rt_gateway_state := GatewayVerifying, rt_path_state := PathVerifying,
       rt_active_uplink_id := Some (FpUplinkID path), rt_active_modem_id := modem_projection D (FpUplinkID path),
       rt_active_path_id := Some (FpID path), rt_active_direct_path_id := None,
       rt_active_subscription_id := Some (FpSubscriptionID path), rt_active_node_id := Some (FpNodeID path),
       rt_active_method_id := Some (FpMethodID path), rt_active_method_kind := Some MethodSubscription,
       rt_active_quality_class := Some (FpQualityClass path),
       rt_config_generation := rt_config_generation r + 1, rt_updated_at := now\<rparr>)"

definition beginActivation :: "instant \<Rightarrow> fault \<Rightarrow> string \<Rightarrow> string \<Rightarrow> int \<Rightarrow> int \<Rightarrow> db \<Rightarrow> db \<times> (snapshot \<times> bool) result" where
  "beginActivation nowTime f pathID nodeID policyGeneration routeGeneration =
     transact f (\<lambda>D.
       bind_result (readFreshPath pathID nodeID policyGeneration routeGeneration nowTime D) (\<lambda>path.
       bind_result (read_runtime D) (\<lambda>current.
         if PathState current = PathVerifying \<and> ActivePathID current = FpID path \<and> ActiveNodeID current = FpNodeID path
         then Inr (Keep current)
         else let now = format_time nowTime in
           record_state (begin_row D path now) now
             \<lparr>Severity = ''INFO'', EventType = ''PATH_ACTIVATION_STARTED'', EvUplinkID = FpUplinkID path, EvModemID = [],
              EvSubscriptionID = FpSubscriptionID path, EvPathID = FpID path,
              Details = [(''node_id'', JStr (FpNodeID path)), (''policy_generation'', JInt policyGeneration),
                         (''route_generation'', JInt routeGeneration)]\<rparr> D)))"

definition BeginActivation :: "instant \<Rightarrow> fault \<Rightarrow> string \<Rightarrow> int \<Rightarrow> int \<Rightarrow> db \<Rightarrow> db \<times> (snapshot \<times> bool) result" where
  "BeginActivation now f pathID = beginActivation now f pathID []"

definition BeginNodeActivation :: "instant \<Rightarrow> fault \<Rightarrow> string \<Rightarrow> string \<Rightarrow> int \<Rightarrow> int \<Rightarrow> db \<Rightarrow> db \<times> (snapshot \<times> bool) result" where
  "BeginNodeActivation now f pathID nodeID pg rg D =
     (if blank nodeID then (D, Inl (ErrMsg ''node id is required for exact activation''))
      else beginActivation now f pathID nodeID pg rg D)"

definition finish_row :: "string \<Rightarrow> runtime_row \<Rightarrow> runtime_row" where
  "finish_row now r = clear_transition (r\<lparr>rt_gateway_state := GatewayActive, rt_path_state := PathActive, rt_updated_at := now\<rparr>)"

definition finishActivation :: "instant \<Rightarrow> fault \<Rightarrow> string \<Rightarrow> string \<Rightarrow> int \<Rightarrow> int \<Rightarrow> db \<Rightarrow> db \<times> (snapshot \<times> bool) result" where
  "finishActivation nowTime f pathID nodeID policyGeneration routeGeneration =
     transact f (\<lambda>D.
       bind_result (readFreshPath pathID nodeID policyGeneration routeGeneration nowTime D) (\<lambda>path.
       bind_result (read_runtime D) (\<lambda>current.
         if PathState current = PathActive \<and> ActivePathID current = FpID path \<and> ActiveNodeID current = FpNodeID path
         then Inr (Keep current)
         else if PathState current \<noteq> PathVerifying \<or> ActivePathID current \<noteq> FpID path \<or> ActiveNodeID current \<noteq> FpNodeID path
         then Inl ErrStaleGeneration
         else let now = format_time nowTime in
           record_state (finish_row now) now
             \<lparr>Severity = ''INFO'', EventType = ''PATH_ACTIVATED'', EvUplinkID = FpUplinkID path, EvModemID = [],
              EvSubscriptionID = FpSubscriptionID path, EvPathID = FpID path,
              Details = [(''node_id'', JStr (FpNodeID path))]\<rparr> D)))"

definition FinishActivation :: "instant \<Rightarrow> fault \<Rightarrow> string \<Rightarrow> int \<Rightarrow> int \<Rightarrow> db \<Rightarrow> db \<times> (snapshot \<times> bool) result" where
  "FinishActivation now f pathID = finishActivation now f pathID []"

definition FinishNodeActivation :: "instant \<Rightarrow> fault \<Rightarrow> string \<Rightarrow> string \<Rightarrow> int \<Rightarrow> int \<Rightarrow> db \<Rightarrow> db \<times> (snapshot \<times> bool) result" where
  "FinishNodeActivation now f pathID nodeID pg rg D =
     (if blank nodeID then (D, Inl (ErrMsg ''node id is required for exact activation completion''))
      else finishActivation now f pathID nodeID pg rg D)"

section \<open>Activation of a direct path\<close>

definition begin_direct_row :: "db \<Rightarrow> fresh_direct_path \<Rightarrow> string \<Rightarrow> runtime_row \<Rightarrow> runtime_row" where
  "begin_direct_row D path now r =
     clear_transition (r\<lparr>rt_gateway_state := GatewayVerifying, rt_path_state := PathVerifying,
       rt_active_uplink_id := Some (FdUplinkID path), rt_active_modem_id := modem_projection D (FdUplinkID path),
       rt_active_path_id := None, rt_active_direct_path_id := Some (FdID path),
       rt_active_subscription_id := None, rt_active_node_id := None,
       rt_active_method_id := Some (FdMethodID path), rt_active_method_kind := Some MethodDirect,
       rt_active_quality_class := Some (FdQualityClass path),
       rt_config_generation := rt_config_generation r + 1, rt_updated_at := now\<rparr>)"

definition BeginDirectActivation :: "sql_fns \<Rightarrow> instant \<Rightarrow> fault \<Rightarrow> string \<Rightarrow> int \<Rightarrow> int \<Rightarrow> db \<Rightarrow> db \<times> (snapshot \<times> bool) result" where
  "BeginDirectActivation q nowTime f pathID policyGeneration routeGeneration =
     transact f (\<lambda>D.
       bind_result (readFreshDirectPath q pathID policyGeneration routeGeneration nowTime D) (\<lambda>path.
       bind_result (read_runtime D) (\<lambda>current.
         if PathState current = PathVerifying \<and> ActiveDirectPathID current = FdID path \<and> ActiveMethodKind current = MethodDirect
         then Inr (Keep current)
         else let now = format_time nowTime in
           record_state (begin_direct_row D path now) now
             \<lparr>Severity = ''INFO'', EventType = ''DIRECT_PATH_ACTIVATION_STARTED'', EvUplinkID = FdUplinkID path, EvModemID = [],
              EvSubscriptionID = [], EvPathID = FdID path,
              Details = [(''quality_class'', JStr (quality_text (FdQualityClass path))), (''policy_generation'', JInt policyGeneration),
                         (''route_generation'', JInt routeGeneration)]\<rparr> D)))"

definition finish_direct_row :: "quality \<Rightarrow> string \<Rightarrow> runtime_row \<Rightarrow> runtime_row" where
  "finish_direct_row qc now r =
     clear_transition (r\<lparr>rt_gateway_state := GatewayActive, rt_path_state := PathActive,
       rt_active_quality_class := Some qc, rt_updated_at := now\<rparr>)"

definition FinishDirectActivation :: "sql_fns \<Rightarrow> instant \<Rightarrow> fault \<Rightarrow> string \<Rightarrow> int \<Rightarrow> int \<Rightarrow> db \<Rightarrow> db \<times> (snapshot \<times> bool) result" where
  "FinishDirectActivation q nowTime f pathID policyGeneration routeGeneration =
     transact f (\<lambda>D.
       bind_result (readFreshDirectPath q pathID policyGeneration routeGeneration nowTime D) (\<lambda>path.
       bind_result (read_runtime D) (\<lambda>current.
         if PathState current = PathActive \<and> ActiveDirectPathID current = FdID path \<and> ActiveMethodKind current = MethodDirect
         then Inr (Keep current)
         else if PathState current \<noteq> PathVerifying \<or> ActiveDirectPathID current \<noteq> FdID path \<or> ActiveMethodKind current \<noteq> MethodDirect
         then Inl ErrStaleGeneration
         else let now = format_time nowTime in
           record_state (finish_direct_row (FdQualityClass path) now) now
             \<lparr>Severity = ''INFO'', EventType = ''DIRECT_PATH_ACTIVATED'', EvUplinkID = FdUplinkID path, EvModemID = [],
              EvSubscriptionID = [], EvPathID = FdID path,
              Details = [(''quality_class'', JStr (quality_text (FdQualityClass path)))]\<rparr> D)))"

section \<open>Target degradation\<close>

definition read_degraded_path :: "string \<Rightarrow> string \<Rightarrow> int \<Rightarrow> int \<Rightarrow> string \<Rightarrow> db \<Rightarrow> (string \<times> string) option" where
  "read_degraded_path pathID nodeID policyGeneration routeGeneration now D = first_row
     [(p_uplink_id p, p_subscription_id p).
        p \<leftarrow> subscription_uplink_paths D, pn \<leftarrow> uplink_path_nodes D, pn_path_id pn = p_id p \<and> pn_node_id pn = nodeID,
        p_id p = pathID \<and> p_state p = ''DEGRADED'' \<and> p_transport_state p = ''PASSED''
        \<and> p_selected_node_id p = Some nodeID \<and> p_policy_generation p = policyGeneration \<and> p_route_generation p = routeGeneration
        \<and> pn_qualification_state pn = ''BYPASS_FAILED''
        \<and> pn_qualification_generation pn = p_policy_generation p
        \<and> pn_route_generation pn = p_route_generation p \<and> text_after (pn_expires_at pn) now]"

text \<open>The operation reads the clock twice: for the query and for the update.\<close>

definition MarkTargetDegraded :: "instant \<Rightarrow> instant \<Rightarrow> fault \<Rightarrow> string \<Rightarrow> string \<Rightarrow> int \<Rightarrow> int \<Rightarrow> db \<Rightarrow> db \<times> (snapshot \<times> bool) result" where
  "MarkTargetDegraded queryTime updateTime f pathID nodeID policyGeneration routeGeneration =
     transact f (\<lambda>D.
       bind_result (read_runtime D) (\<lambda>current.
         if GatewayState current = GatewayDegradedTarget \<and> PathState current = PathActive
            \<and> ActivePathID current = pathID \<and> ActiveNodeID current = nodeID
         then Inr (Keep current)
         else if PathState current \<noteq> PathActive \<or> ActivePathID current \<noteq> pathID \<or> ActiveNodeID current \<noteq> nodeID
         then Inl ErrStaleGeneration
         else case read_degraded_path pathID nodeID policyGeneration routeGeneration (format_time queryTime) D of
                None \<Rightarrow> Inl ErrStaleGeneration
              | Some (uplinkID, subscriptionID) \<Rightarrow>
                  let now = format_time updateTime in
                  record_state (\<lambda>r. r\<lparr>rt_gateway_state := GatewayDegradedTarget, rt_updated_at := now\<rparr>) now
                    \<lparr>Severity = ''WARNING'', EventType = ''ACTIVE_PATH_TARGET_DEGRADED'', EvUplinkID = uplinkID, EvModemID = [],
                     EvSubscriptionID = subscriptionID, EvPathID = pathID,
                     Details = [(''node_id'', JStr nodeID), (''policy_generation'', JInt policyGeneration),
                                (''route_generation'', JInt routeGeneration)]\<rparr> D))"

definition RecoverTargetDegraded :: "instant \<Rightarrow> fault \<Rightarrow> string \<Rightarrow> string \<Rightarrow> int \<Rightarrow> int \<Rightarrow> db \<Rightarrow> db \<times> (snapshot \<times> bool) result" where
  "RecoverTargetDegraded nowTime f pathID nodeID policyGeneration routeGeneration =
     transact f (\<lambda>D.
       bind_result (readFreshPath pathID nodeID policyGeneration routeGeneration nowTime D) (\<lambda>path.
       bind_result (read_runtime D) (\<lambda>current.
         if GatewayState current = GatewayActive \<and> PathState current = PathActive
            \<and> ActivePathID current = pathID \<and> ActiveNodeID current = nodeID
         then Inr (Keep current)
         else if GatewayState current \<noteq> GatewayDegradedTarget \<or> PathState current \<noteq> PathActive
                 \<or> ActivePathID current \<noteq> pathID \<or> ActiveNodeID current \<noteq> nodeID
         then Inl ErrStaleGeneration
         else let now = format_time nowTime in
           record_state (\<lambda>r. r\<lparr>rt_gateway_state := GatewayActive, rt_updated_at := now\<rparr>) now
             \<lparr>Severity = ''INFO'', EventType = ''ACTIVE_PATH_TARGET_RECOVERED'', EvUplinkID = FpUplinkID path, EvModemID = [],
              EvSubscriptionID = FpSubscriptionID path, EvPathID = FpID path,
              Details = [(''node_id'', JStr (FpNodeID path))]\<rparr> D)))"

section \<open>Blocking\<close>

definition block_row :: "gateway_state \<Rightarrow> string \<Rightarrow> runtime_row \<Rightarrow> runtime_row" where
  "block_row g now r =
     clear_transition (clear_tuple (r\<lparr>rt_gateway_state := g, rt_path_state := PathBlocked,
       rt_config_generation := rt_config_generation r + 1, rt_updated_at := now\<rparr>))"

definition already_blocked :: "gateway_state \<Rightarrow> snapshot \<Rightarrow> bool" where
  "already_blocked gatewayState current \<longleftrightarrow>
     GatewayState current = gatewayState \<and> PathState current = PathBlocked
     \<and> ActiveUplinkID current = [] \<and> ActiveModemID current = [] \<and> ActivePathID current = [] \<and> ActiveDirectPathID current = []
     \<and> ActiveSubscriptionID current = [] \<and> ActiveNodeID current = []
     \<and> ActiveMethodID current = [] \<and> ActiveMethodKind current = MethodOther [] \<and> ActiveQualityClass current = QualityOther []"

definition Block :: "instant \<Rightarrow> fault \<Rightarrow> gateway_state \<Rightarrow> string \<Rightarrow> db \<Rightarrow> db \<times> (snapshot \<times> bool) result" where
  "Block nowTime f gatewayState reason D =
     (if \<not> validBlockedGatewayState gatewayState \<or> blank reason then
        (D, Inl (ErrMsg ''valid blocked gateway state and reason are required''))
      else transact f (\<lambda>D.
        bind_result (read_runtime D) (\<lambda>current.
          if already_blocked gatewayState current then Inr (Keep current)
          else let now = format_time nowTime in
            record_state (block_row gatewayState now) now
              \<lparr>Severity = ''WARNING'', EventType = ''PATH_BLOCKED'', EvUplinkID = [], EvModemID = [], EvSubscriptionID = [], EvPathID = [],
               Details = [(''reason'', JStr reason), (''gateway_state'', JStr (gateway_text gatewayState))]\<rparr> D)) D)"

section \<open>Policy verification\<close>

definition read_policy_evidence :: "snapshot \<Rightarrow> int \<Rightarrow> string \<Rightarrow> db \<Rightarrow> quality option" where
  "read_policy_evidence current expectedGeneration now D = first_row
     [p_quality_class p.
        p \<leftarrow> subscription_uplink_paths D,
        pn \<leftarrow> uplink_path_nodes D, pn_path_id pn = p_id p \<and> p_selected_node_id p = Some (pn_node_id pn),
        s \<leftarrow> subscriptions D, s_id s = p_subscription_id p,
        u \<leftarrow> uplinks D, u_id u = p_uplink_id p,
        p_id p = ActivePathID current \<and> p_uplink_id p = ActiveUplinkID current
        \<and> p_subscription_id p = ActiveSubscriptionID current \<and> p_selected_node_id p = Some (ActiveNodeID current)
        \<and> p_policy_generation p = expectedGeneration \<and> text_after (p_expires_at p) now
        \<and> (p_state p = ''QUALIFIED'' \<and> p_quality_class p = QualityFull \<and> pn_qualification_state pn = ''BYPASS_QUALIFIED''
           \<or> p_state p = ''DEGRADED'' \<and> p_quality_class p = QualityLimited \<and> pn_qualification_state pn = ''BYPASS_LIMITED'')
        \<and> pn_qualification_generation pn = p_policy_generation p
        \<and> pn_route_generation pn = p_route_generation p \<and> text_after (pn_expires_at pn) now
        \<and> s_enabled s \<and> u_enabled u \<and> u_state u = ''UPLINK_READY'']"

definition verified_row :: "quality \<Rightarrow> string \<Rightarrow> runtime_row \<Rightarrow> runtime_row" where
  "verified_row qc now r =
     clear_transition (r\<lparr>rt_gateway_state := GatewayActive, rt_active_quality_class := Some qc, rt_updated_at := now\<rparr>)"

definition FinishPolicyVerification :: "instant \<Rightarrow> fault \<Rightarrow> int \<Rightarrow> db \<Rightarrow> db \<times> (snapshot \<times> bool) result" where
  "FinishPolicyVerification nowTime f expectedGeneration D =
     (if expectedGeneration \<le> 0 then (D, Inl (ErrMsg ''positive policy transition generation is required''))
      else transact f (\<lambda>D.
        bind_result (read_runtime D) (\<lambda>current.
          if \<not> PolicyTransitionActive current \<or> PolicyTransitionGeneration current \<noteq> expectedGeneration
          then Inl ErrStaleGeneration
          else case parse_time (PolicyTransitionDeadline current) of
              None \<Rightarrow> Inl (ErrMsg ''stored policy transition deadline is invalid'')
            | Some deadline \<Rightarrow>
                if \<not> nowTime < deadline then Inl ErrPolicyGraceExpired
                else let now = format_time nowTime in
                  case read_policy_evidence current expectedGeneration now D of
                    None \<Rightarrow> Inl ErrStaleGeneration
                  | Some qualityClass \<Rightarrow>
                      bind_result (update_runtime
                          (\<lambda>r. rt_gateway_state r = GatewayVerifyingPolicy \<and> rt_path_state r = PathActive
                             \<and> rt_policy_transition_generation r = Some expectedGeneration)
                          (verified_row qualityClass now) D) (\<lambda>(D1, count).
                        if count \<noteq> 1 then Inl ErrStaleGeneration
                        else bind_result (appendEventTx now
                            \<lparr>Severity = ''INFO'', EventType = ''POLICY_VERIFIED'', EvUplinkID = ActiveUplinkID current, EvModemID = [],
                             EvSubscriptionID = ActiveSubscriptionID current, EvPathID = ActivePathID current,
                             Details = [(''node_id'', JStr (ActiveNodeID current)), (''policy_generation'', JInt expectedGeneration)]\<rparr> D1)
                          (\<lambda>D2. Inr (Commit D2))))) D)"

text \<open>Called before startup convergence; it reports whether an interrupted transition was blocked.\<close>

definition RecoverPolicyTransition :: "instant \<Rightarrow> fault \<Rightarrow> db \<Rightarrow> db \<times> bool result" where
  "RecoverPolicyTransition nowTime f D =
     (if f = FaultTx then (D, Inl ErrDriver)
      else case read_runtime D of
        Inl e \<Rightarrow> (D, Inl e)
      | Inr current \<Rightarrow>
          if \<not> PolicyTransitionActive current then (D, Inr False)
          else let now = format_time nowTime in
            case record_state (block_row GatewayBlocked now) now
                   \<lparr>Severity = ''WARNING'', EventType = ''POLICY_VERIFICATION_INTERRUPTED'', EvUplinkID = ActiveUplinkID current,
                    EvModemID = [], EvSubscriptionID = ActiveSubscriptionID current, EvPathID = ActivePathID current,
                    Details = [(''node_id'', JStr (ActiveNodeID current)), (''policy_generation'', JInt (PolicyTransitionGeneration current)),
                               (''started_at'', JStr (PolicyTransitionStartedAt current)), (''deadline'', JStr (PolicyTransitionDeadline current)),
                               (''reason'', JStr ''PROCESS_RESTART'')]\<rparr> D of
              Inl e \<Rightarrow> (D, Inl e)
            | Inr (Keep s) \<Rightarrow> (D, Inr False)
            | Inr (Commit D') \<Rightarrow> (D', Inr True))"

section \<open>Management uplink\<close>

definition setManagementUplink :: "instant \<Rightarrow> fault \<Rightarrow> string \<Rightarrow> string \<Rightarrow> bool \<Rightarrow> db \<Rightarrow> db \<times> (snapshot \<times> bool) result" where
  "setManagementUplink nowTime f uplinkID reason requireHiLink D =
     (if blank reason then (D, Inl (ErrMsg ''management uplink reason is required''))
      else transact f (\<lambda>D.
        bind_result (read_runtime D) (\<lambda>current.
          if ManagementUplinkID current = uplinkID then Inr (Keep current)
          else if uplinkID \<noteq> [] \<and>
                  length [u. u \<leftarrow> uplinks D, h \<leftarrow> (if requireHiLink then hilink_modems D else [u_id u]), h = u_id u,
                              u_id u = uplinkID \<and> u_enabled u \<and> u_state u = ''UPLINK_READY''] \<noteq> 1
          then Inl (ErrMsg ''management uplink must be enabled and ready'')
          else let now = format_time nowTime;
                   eventPrefix = (if requireHiLink then ''MANAGEMENT_MODEM'' else ''MANAGEMENT_UPLINK'')
               in record_state
                    (\<lambda>r. r\<lparr>rt_management_uplink_id := nullString uplinkID,
                          rt_management_modem_id := Option.bind (nullString uplinkID) (modem_projection D), rt_updated_at := now\<rparr>) now
                    \<lparr>Severity = ''INFO'', EventType = eventPrefix @ (if uplinkID = [] then ''_CLEARED'' else ''_SELECTED''),
                     EvUplinkID = uplinkID, EvModemID = [], EvSubscriptionID = [], EvPathID = [],
                     Details = [(''previous_uplink_id'', JStr (ManagementUplinkID current)), (''reason'', JStr reason)]\<rparr> D)) D)"

definition SetManagementModem :: "instant \<Rightarrow> fault \<Rightarrow> string \<Rightarrow> string \<Rightarrow> db \<Rightarrow> db \<times> (snapshot \<times> bool) result" where
  "SetManagementModem now f modemID reason = setManagementUplink now f modemID reason True"

definition SetManagementUplink :: "instant \<Rightarrow> fault \<Rightarrow> string \<Rightarrow> string \<Rightarrow> db \<Rightarrow> db \<times> (snapshot \<times> bool) result" where
  "SetManagementUplink now f uplinkID reason = setManagementUplink now f uplinkID reason False"

definition AppendEvent :: "instant \<Rightarrow> fault \<Rightarrow> event_input \<Rightarrow> db \<Rightarrow> db \<times> unit result" where
  "AppendEvent now f input D =
     (if f = FaultTx then (D, Inl ErrDriver)
      else case appendEventTx (format_time now) input D of Inl e \<Rightarrow> (D, Inl e) | Inr D' \<Rightarrow> (D', Inr ()))"

section \<open>Startup recovery\<close>

text \<open>\<open>COALESCE(CAST((SELECT value_json ...) AS INTEGER)-1, 0)\<close>.\<close>

definition startup_generation :: "sql_fns \<Rightarrow> db \<Rightarrow> int" where
  "startup_generation q D = (case settings D ''next_policy_generation'' of None \<Rightarrow> 0 | Some v \<Rightarrow> cast_integer q v - 1)"

definition startup_vpn_tuple :: "sql_fns \<Rightarrow> snapshot \<Rightarrow> db \<Rightarrow> bool" where
  "startup_vpn_tuple q current D \<longleftrightarrow>
     [() . p \<leftarrow> subscription_uplink_paths D, u \<leftarrow> uplinks D, u_id u = p_uplink_id p,
        s \<leftarrow> subscriptions D, s_id s = p_subscription_id p,
        v \<leftarrow> subscription_versions D, s_active_version_id s = Some (v_id v) \<and> v_state v = ''LKG'',
        n \<leftarrow> nodes D, n_id n = ActiveNodeID current \<and> n_version_id n = v_id v,
        a \<leftarrow> access_methods D, m_id a = ActiveMethodID current \<and> m_kind a = MethodSubscription \<and> m_subscription_id a = Some (s_id s),
        p_id p = ActivePathID current \<and> p_uplink_id p = ActiveUplinkID current \<and> p_subscription_id p = ActiveSubscriptionID current
        \<and> p_route_generation p = u_route_generation u \<and> p_policy_generation p = startup_generation q D
        \<and> m_enabled a \<and> s_enabled s \<and> u_enabled u \<and> u_state u = ''UPLINK_READY''
        \<and> n_enabled n \<and> n_selection_override n \<noteq> ''exclude''] \<noteq> []"

definition startup_direct_tuple :: "sql_fns \<Rightarrow> snapshot \<Rightarrow> db \<Rightarrow> bool" where
  "startup_direct_tuple q current D \<longleftrightarrow>
     [() . p \<leftarrow> direct_uplink_paths D, u \<leftarrow> uplinks D, u_id u = d_uplink_id p,
        a \<leftarrow> access_methods D, m_id a = ActiveMethodID current \<and> m_kind a = MethodDirect,
        d_id p = ActiveDirectPathID current \<and> d_uplink_id p = ActiveUplinkID current
        \<and> d_route_generation p = u_route_generation u \<and> d_policy_generation p = startup_generation q D
        \<and> m_enabled a \<and> u_enabled u \<and> u_state u = ''UPLINK_READY''] \<noteq> []"

definition startup_tuple_valid :: "sql_fns \<Rightarrow> snapshot \<Rightarrow> db \<Rightarrow> bool" where
  "startup_tuple_valid q current D \<longleftrightarrow>
     (case ActiveMethodKind current of
        MethodSubscription \<Rightarrow>
          (ActiveQualityClass current = QualityFull \<or> ActiveQualityClass current = QualityLimited)
          \<and> ActivePathID current \<noteq> [] \<and> ActiveDirectPathID current = [] \<and> ActiveUplinkID current \<noteq> []
          \<and> ActiveSubscriptionID current \<noteq> [] \<and> ActiveNodeID current \<noteq> [] \<and> ActiveMethodID current \<noteq> []
          \<and> startup_vpn_tuple q current D
      | MethodDirect \<Rightarrow>
          (ActiveQualityClass current = QualityFull \<or> ActiveQualityClass current = QualityLimited
             \<or> ActiveQualityClass current = QualityWhitelistOnly)
          \<and> ActiveDirectPathID current \<noteq> [] \<and> ActivePathID current = [] \<and> ActiveUplinkID current \<noteq> []
          \<and> ActiveSubscriptionID current = [] \<and> ActiveNodeID current = [] \<and> ActiveMethodID current \<noteq> []
          \<and> startup_direct_tuple q current D
      | MethodOther _ \<Rightarrow> False)"

definition verifying_row :: "string \<Rightarrow> runtime_row \<Rightarrow> runtime_row" where
  "verifying_row now r = clear_transition (r\<lparr>rt_gateway_state := GatewayVerifying, rt_path_state := PathVerifying,
     rt_config_generation := rt_config_generation r + 1, rt_updated_at := now\<rparr>)"

text \<open>\<open>INSERT INTO path_health_runtime ... ON CONFLICT(path_id) DO UPDATE\<close>.\<close>

definition schedule_health_now :: "string \<Rightarrow> string \<Rightarrow> health_row list \<Rightarrow> health_row list" where
  "schedule_health_now pathID now hs =
     (let row = \<lparr>h_path_id = pathID, h_probe_class = ''ACTIVE'', h_next_probe_at = now, h_last_probe_at = None,
                 h_last_result = ''UNKNOWN'', h_consecutive_successes = 0, h_consecutive_failures = 0,
                 h_deferred_reason = None, h_updated_at = now\<rparr>
      in if pathID \<in> set (map h_path_id hs) then map (\<lambda>h. if h_path_id h = pathID then row else h) hs else hs @ [row])"

definition shorten_direct_expiry :: "sql_fns \<Rightarrow> string \<Rightarrow> string \<Rightarrow> string \<Rightarrow> direct_path_row list \<Rightarrow> direct_path_row list" where
  "shorten_direct_expiry q pathID deadline now =
     map (\<lambda>p. if d_id p = pathID
               then p\<lparr>d_expires_at := (if julian_after q (d_expires_at p) deadline then Some deadline else d_expires_at p),
                      d_updated_at := now\<rparr>
               else p)"

text \<open>The two branches that schedule a full check soon after the lightweight recovery.\<close>

definition schedule_requalification :: "sql_fns \<Rightarrow> snapshot \<Rightarrow> string \<Rightarrow> string \<Rightarrow> db \<Rightarrow> db" where
  "schedule_requalification q current now refreshDeadline D =
     (if ActiveMethodKind current = MethodSubscription
      then D\<lparr>path_health_runtime := schedule_health_now (ActivePathID current) now (path_health_runtime D)\<rparr>
      else D\<lparr>direct_uplink_paths := shorten_direct_expiry q (ActiveDirectPathID current) refreshDeadline now (direct_uplink_paths D)\<rparr>)"

definition PrepareStartupRecovery :: "sql_fns \<Rightarrow> instant \<Rightarrow> fault \<Rightarrow> db \<Rightarrow> db \<times> (snapshot \<times> bool) result" where
  "PrepareStartupRecovery q nowTime f =
     transact f (\<lambda>D.
       bind_result (read_runtime D) (\<lambda>current.
         if PathState current \<noteq> PathActive \<or> PolicyTransitionGeneration current \<noteq> 0
            \<or> PolicyTransitionStartedAt current \<noteq> [] \<or> PolicyTransitionDeadline current \<noteq> []
         then Inl ErrNotFound
         else if \<not> startup_tuple_valid q current D then Inl ErrNotFound
         else let now = format_time nowTime; refreshDeadline = format_time (nowTime + 30 * second) in
           bind_result (update_runtime (\<lambda>_. True) (verifying_row now) D) (\<lambda>(D1, _).
             let D2 = schedule_requalification q current now refreshDeadline D1;
                 pathID = (if ActiveMethodKind current = MethodDirect then ActiveDirectPathID current else ActivePathID current)
             in bind_result (appendEventTx now
                  \<lparr>Severity = ''INFO'', EventType = ''STARTUP_MINIMAL_RECOVERY_PREPARED'', EvUplinkID = ActiveUplinkID current, EvModemID = [],
                   EvSubscriptionID = ActiveSubscriptionID current, EvPathID = pathID,
                   Details = [(''method_kind'', JStr (method_text (ActiveMethodKind current))),
                              (''quality_class'', JStr (quality_text (ActiveQualityClass current)))]\<rparr> D2)
                (\<lambda>D3. Inr (Commit D3)))))"

section \<open>The transaction frame\<close>

lemma read_runtime_Inr [simp]: "read_runtime D = Inr s \<longleftrightarrow> (\<exists>r. runtime_state D = Some r \<and> s = scanSnapshot r)"
  by (auto simp: read_runtime_def split: option.splits)

lemma transact_outcome:
  assumes "transact f body D = (D', res)"
  obtains (aborted) e where "D' = D" "res = Inl e"
  | (kept) s where "f \<noteq> FaultTx" "body D = Inr (Keep s)" "D' = D" "res = Inr (s, False)"
  | (committed) "f \<noteq> FaultTx" "body D = Inr (Commit D')" "res = bind_result (Get f D') (\<lambda>s. Inr (s, True))"
  using assms by (auto simp: transact_def split: if_splits sum.splits tx.splits)

lemma appendEventTx_Inr:
  assumes "appendEventTx now ev D = Inr D'"
  shows "\<exists>e. D' = D\<lparr>events := events D @ [e]\<rparr>"
  using assms by (auto simp: appendEventTx_def Let_def split: if_splits)

lemma record_state_Commit:
  assumes "record_state change now ev D = Inr x"
  obtains D1 n e where "update_runtime (\<lambda>_. True) change D = Inr (D1, n)"
    "x = Commit (D1\<lparr>events := events D1 @ [e]\<rparr>)"
  using assms by (auto simp: record_state_def dest: appendEventTx_Inr)

section \<open>The runtime invariant\<close>

definition row_inv :: "runtime_row \<Rightarrow> bool" where
  "row_inv r \<longleftrightarrow>
     (rt_path_state r = PathBlocked \<longrightarrow> clear_transition (clear_tuple r) = r)
   \<and> (rt_path_state r = PathActive \<or> rt_path_state r = PathVerifying \<longrightarrow> rt_active_method_kind r \<noteq> None)"

definition runtime_inv :: "db \<Rightarrow> bool" where
  "runtime_inv D \<longleftrightarrow> (case runtime_state D of None \<Rightarrow> True | Some r \<Rightarrow> runtime_row_ok D r \<and> row_inv r)"

lemma runtime_inv_events [simp]: "runtime_inv (D\<lparr>events := es\<rparr>) = runtime_inv D"
  by (simp add: runtime_inv_def split: option.splits)

lemma update_runtime_inv:
  assumes "update_runtime guard change D = Inr (D', n)" and "runtime_inv D"
    and "\<And>r. runtime_state D = Some r \<Longrightarrow> row_inv r \<Longrightarrow> row_inv (change r)"
  shows "runtime_inv D'"
  using update_runtime_Inr[OF assms(1)] assms(2,3) by (auto simp: runtime_inv_def)

lemma record_state_inv:
  assumes "record_state change now ev D = Inr (Commit D')" and "runtime_inv D"
    and "\<And>r. runtime_state D = Some r \<Longrightarrow> row_inv r \<Longrightarrow> row_inv (change r)"
  shows "runtime_inv D'"
  using assms(1)
proof (rule record_state_Commit)
  fix D1 n e
  assume u: "update_runtime (\<lambda>_. True) change D = Inr (D1, n)" and "Commit D' = Commit (D1\<lparr>events := events D1 @ [e]\<rparr>)"
  then show ?thesis using update_runtime_inv[OF u assms(2,3)] by simp
qed

text \<open>An operation in the transaction frame keeps the invariant when its body does.\<close>

lemma transact_inv:
  assumes "runtime_inv D" and "\<And>D'. runtime_inv D \<Longrightarrow> body D = Inr (Commit D') \<Longrightarrow> runtime_inv D'"
  shows "runtime_inv (fst (transact f body D))"
  using assms by (auto simp: transact_def split: sum.splits tx.splits)

lemmas row_changes = begin_row_def finish_row_def begin_direct_row_def finish_direct_row_def block_row_def
  verified_row_def verifying_row_def clear_transition_def clear_tuple_def

lemma row_inv_begin [simp]: "row_inv (begin_row D path now r)" "row_inv (begin_direct_row D dpath now r)"
  by (simp_all add: row_inv_def row_changes)

lemma row_inv_block [simp]: "row_inv (block_row g now r)"
  by (simp add: row_inv_def row_changes)

lemma row_inv_verifying: "rt_path_state r = PathActive \<Longrightarrow> row_inv r \<Longrightarrow> row_inv (verifying_row now r)"
  by (simp add: row_inv_def row_changes)

lemma row_inv_finish:
  "rt_path_state r = PathVerifying \<Longrightarrow> row_inv r \<Longrightarrow> row_inv (finish_row now r)"
  "rt_path_state r = PathVerifying \<Longrightarrow> row_inv r \<Longrightarrow> row_inv (finish_direct_row c now r)"
  by (simp_all add: row_inv_def row_changes)

lemma row_inv_verified:
  "rt_path_state r = PathActive \<Longrightarrow> row_inv r \<Longrightarrow> row_inv (verified_row c now r)"
  by (simp add: row_inv_def row_changes)

lemma row_inv_control:
  "row_inv r \<Longrightarrow> row_inv (r\<lparr>rt_gateway_state := g, rt_updated_at := now\<rparr>)"
  "row_inv r \<Longrightarrow> row_inv (r\<lparr>rt_management_uplink_id := a, rt_management_modem_id := b, rt_updated_at := now\<rparr>)"
  by (cases r; simp add: row_inv_def row_changes)+

section \<open>Every operation keeps the invariant\<close>

lemma beginActivation_inv: "runtime_inv D \<Longrightarrow> runtime_inv (fst (beginActivation t f path node pg rg D))"
  unfolding beginActivation_def
  by (erule transact_inv) (auto simp: Let_def split: if_splits intro: record_state_inv)

lemma finishActivation_inv: "runtime_inv D \<Longrightarrow> runtime_inv (fst (finishActivation t f path node pg rg D))"
  unfolding finishActivation_def
  by (erule transact_inv)
     (auto simp: Let_def scanSnapshot_def split: if_splits intro!: row_inv_finish elim!: record_state_inv)

lemma BeginDirectActivation_inv: "runtime_inv D \<Longrightarrow> runtime_inv (fst (BeginDirectActivation q t f path pg rg D))"
  unfolding BeginDirectActivation_def
  by (erule transact_inv) (auto simp: Let_def split: if_splits intro: record_state_inv)

lemma FinishDirectActivation_inv: "runtime_inv D \<Longrightarrow> runtime_inv (fst (FinishDirectActivation q t f path pg rg D))"
  unfolding FinishDirectActivation_def
  by (erule transact_inv)
     (auto simp: Let_def scanSnapshot_def split: if_splits intro!: row_inv_finish elim!: record_state_inv)

lemma MarkTargetDegraded_inv: "runtime_inv D \<Longrightarrow> runtime_inv (fst (MarkTargetDegraded t t' f path node pg rg D))"
  unfolding MarkTargetDegraded_def
  by (erule transact_inv)
     (auto simp: Let_def split: if_splits option.splits intro!: row_inv_control elim!: record_state_inv)

lemma RecoverTargetDegraded_inv: "runtime_inv D \<Longrightarrow> runtime_inv (fst (RecoverTargetDegraded t f path node pg rg D))"
  unfolding RecoverTargetDegraded_def
  by (erule transact_inv)
     (auto simp: Let_def split: if_splits option.splits intro!: row_inv_control elim!: record_state_inv)

lemma Block_inv: "runtime_inv D \<Longrightarrow> runtime_inv (fst (Block t f g reason D))"
  unfolding Block_def
  by (auto intro!: transact_inv simp: Let_def split: if_splits elim!: record_state_inv)

lemma setManagementUplink_inv: "runtime_inv D \<Longrightarrow> runtime_inv (fst (setManagementUplink t f u reason h D))"
  unfolding setManagementUplink_def
  by (auto intro!: transact_inv row_inv_control simp: Let_def split: if_splits elim!: record_state_inv)

lemma runtime_inv_frame:
  "\<lbrakk> runtime_state D' = runtime_state D; uplinks D' = uplinks D;
     map p_id (subscription_uplink_paths D') = map p_id (subscription_uplink_paths D);
     map d_id (direct_uplink_paths D') = map d_id (direct_uplink_paths D); subscriptions D' = subscriptions D;
     nodes D' = nodes D \<rbrakk> \<Longrightarrow> runtime_inv D' = runtime_inv D"
  unfolding runtime_inv_def using runtime_row_ok_frame[of D' D] by (simp split: option.splits)

lemma FinishPolicyVerification_inv: "runtime_inv D \<Longrightarrow> runtime_inv (fst (FinishPolicyVerification t f g D))"
proof -
  assume inv: "runtime_inv D"
  have "runtime_inv D'"
    if "update_runtime (\<lambda>r. rt_gateway_state r = GatewayVerifyingPolicy \<and> rt_path_state r = PathActive
          \<and> rt_policy_transition_generation r = Some g) (verified_row c now) D = Inr (D1, n)"
      "appendEventTx now ev D1 = Inr D'" for c now D1 n ev D'
  proof -
    have "runtime_inv D1"
      using update_runtime_Inr[OF that(1)] inv row_inv_verified by (auto simp: runtime_inv_def)
    with appendEventTx_Inr[OF that(2)] show ?thesis by auto
  qed
  with inv show ?thesis
    unfolding FinishPolicyVerification_def
    by (auto intro!: transact_inv simp: Let_def split: if_splits option.splits)
qed

lemma RecoverPolicyTransition_inv: "runtime_inv D \<Longrightarrow> runtime_inv (fst (RecoverPolicyTransition t f D))"
  unfolding RecoverPolicyTransition_def
  by (auto simp: Let_def split: sum.splits tx.splits elim!: record_state_inv)

lemma map_shorten_id [simp]: "map d_id (shorten_direct_expiry q x y z ps) = map d_id ps"
  by (induction ps) (auto simp: shorten_direct_expiry_def)

lemma schedule_requalification_inv: "runtime_inv (schedule_requalification q c now d D) = runtime_inv D"
  by (rule runtime_inv_frame) (simp_all add: schedule_requalification_def)

lemma PrepareStartupRecovery_inv: "runtime_inv D \<Longrightarrow> runtime_inv (fst (PrepareStartupRecovery q t f D))"
proof -
  assume inv: "runtime_inv D"
  have "runtime_inv D'"
    if r: "runtime_state D = Some r" "rt_path_state r = PathActive"
      and u: "update_runtime (\<lambda>_. True) (verifying_row now) D = Inr (D1, n)"
      and e: "appendEventTx now ev (schedule_requalification q c now d D1) = Inr D'"
    for now r D1 n ev c d D'
  proof -
    have "runtime_inv D1" using update_runtime_inv[OF u inv] r row_inv_verifying by auto
    with appendEventTx_Inr[OF e] show ?thesis by (auto simp: schedule_requalification_inv)
  qed
  moreover have "PathState (scanSnapshot r) = rt_path_state r" for r by (simp add: scanSnapshot_def)
  ultimately show ?thesis
    using inv unfolding PrepareStartupRecovery_def
    by (auto intro!: transact_inv simp: Let_def split: if_splits)
qed

lemma AppendEvent_inv: "runtime_inv D \<Longrightarrow> runtime_inv (fst (AppendEvent t f ev D))"
  by (auto simp: AppendEvent_def split: sum.splits dest: appendEventTx_Inr)

lemma InvalidatePathPolicy_inv:
  assumes "InvalidatePathPolicy t D = Inr (g, D')" and "runtime_inv D"
  shows "runtime_inv D'"
proof -
  obtain D1 D2 D3 d n where
    c: "AllocateCounter ''next_policy_generation'' 1 D = Inr (g, D1)"
    and s: "start_policy_transition g t d D1 = Inr (D2, n)"
    and e: "transition_event g t d D2 = Inr D3"
    and D': "D' = D3\<lparr>subscription_uplink_paths := map (invalidate_sub_path g t) (subscription_uplink_paths D3),
             direct_uplink_paths := map (invalidate_direct_path g t) (direct_uplink_paths D3)\<rparr>"
    using assms(1) by (rule InvalidatePathPolicy_Inr)
  have "D1 = D\<lparr>settings := settings D1\<rparr>" using AllocateCounter_Inr(3)[OF c] by (simp add: int64_defs)
  then have "runtime_inv D1 = runtime_inv D"
    by (intro runtime_inv_frame) (metis db.simps db.surjective)+
  with assms(2) have i1: "runtime_inv D1" by simp
  have i2: "runtime_inv D2"
    using update_runtime_Inr[OF s[unfolded start_policy_transition_def]] i1
    by (auto simp: runtime_inv_def row_inv_def clear_transition_def clear_tuple_def)
  have "D3 = D2\<lparr>events := events D3\<rparr>" by (rule transition_event_frame[OF e])
  with i2 have "runtime_inv D3" by (metis runtime_inv_events)
  then show ?thesis
    unfolding D' by (subst runtime_inv_frame[of _ D3]) (simp_all add: comp_def)
qed

section \<open>Sequences of operations\<close>

text \<open>
  The operations that change the runtime row, with their arguments, clock readings and driver faults:
  those of this repository and the invalidation that other repositories run in their transactions.
\<close>

datatype state_op =
    OpBegin instant fault string string int int
  | OpFinish instant fault string string int int
  | OpBeginDirect instant fault string int int
  | OpFinishDirect instant fault string int int
  | OpMarkDegraded instant instant fault string string int int
  | OpRecoverDegraded instant fault string string int int
  | OpBlock instant fault gateway_state string
  | OpFinishPolicy instant fault int
  | OpRecoverPolicy instant fault
  | OpPrepareStartup instant fault
  | OpManagement instant fault string string bool
  | OpAppendEvent instant fault event_input
  | OpInvalidate string

fun state_step :: "sql_fns \<Rightarrow> db \<Rightarrow> state_op \<Rightarrow> db" where
  "state_step q D (OpBegin t f p n pg rg) = fst (beginActivation t f p n pg rg D)"
| "state_step q D (OpFinish t f p n pg rg) = fst (finishActivation t f p n pg rg D)"
| "state_step q D (OpBeginDirect t f p pg rg) = fst (BeginDirectActivation q t f p pg rg D)"
| "state_step q D (OpFinishDirect t f p pg rg) = fst (FinishDirectActivation q t f p pg rg D)"
| "state_step q D (OpMarkDegraded t t' f p n pg rg) = fst (MarkTargetDegraded t t' f p n pg rg D)"
| "state_step q D (OpRecoverDegraded t f p n pg rg) = fst (RecoverTargetDegraded t f p n pg rg D)"
| "state_step q D (OpBlock t f g reason) = fst (Block t f g reason D)"
| "state_step q D (OpFinishPolicy t f g) = fst (FinishPolicyVerification t f g D)"
| "state_step q D (OpRecoverPolicy t f) = fst (RecoverPolicyTransition t f D)"
| "state_step q D (OpPrepareStartup t f) = fst (PrepareStartupRecovery q t f D)"
| "state_step q D (OpManagement t f u reason h) = fst (setManagementUplink t f u reason h D)"
| "state_step q D (OpAppendEvent t f ev) = fst (AppendEvent t f ev D)"
| "state_step q D (OpInvalidate t) = (case InvalidatePathPolicy t D of Inl e \<Rightarrow> D | Inr (g, D') \<Rightarrow> D')"

lemma state_step_inv: "runtime_inv D \<Longrightarrow> runtime_inv (state_step q D op)"
  by (cases op)
     (auto simp: beginActivation_inv finishActivation_inv BeginDirectActivation_inv FinishDirectActivation_inv
        MarkTargetDegraded_inv RecoverTargetDegraded_inv Block_inv FinishPolicyVerification_inv
        RecoverPolicyTransition_inv PrepareStartupRecovery_inv setManagementUplink_inv AppendEvent_inv
      dest: InvalidatePathPolicy_inv split: sum.splits)

interpretation state_ops: operation_system runtime_inv "\<lambda>_ _. True" "state_step q" for q
  by unfold_locales (rule state_step_inv)

lemma state_ops_legal [simp]: "state_ops.legal_run q D ops"
  by (induction ops arbitrary: D) simp_all

lemma state_run_inv: "runtime_inv D \<Longrightarrow> runtime_inv (run_ops (state_step q) D ops)"
  by (rule state_ops.run_inv) simp_all

section \<open>Configuration generations\<close>

text \<open>
  The data plane is applied under the configuration generation of the row. A row may follow another under the
  same generation only with the same active tuple and with the same path state, or from verifying to active.
\<close>

definition active_tuple :: "runtime_row \<Rightarrow> string option \<times> string option \<times> string option \<times> string option \<times> string option \<times> string option \<times> method_kind option" where
  "active_tuple r = (rt_active_uplink_id r, rt_active_path_id r, rt_active_direct_path_id r,
     rt_active_subscription_id r, rt_active_node_id r, rt_active_method_id r, rt_active_method_kind r)"

definition row_follows :: "runtime_row \<Rightarrow> runtime_row \<Rightarrow> bool" where
  "row_follows r r' \<longleftrightarrow> rt_config_generation r < rt_config_generation r'
     \<or> rt_config_generation r' = rt_config_generation r \<and> active_tuple r' = active_tuple r
       \<and> (rt_path_state r' = rt_path_state r \<or> rt_path_state r = PathVerifying \<and> rt_path_state r' = PathActive)"

definition extends_row :: "runtime_row \<Rightarrow> db \<Rightarrow> bool" where
  "extends_row r D \<longleftrightarrow> (\<exists>r'. runtime_state D = Some r' \<and> row_follows r r')"

lemma row_follows_refl [simp]: "row_follows r r"
  by (simp add: row_follows_def)

lemma row_follows_trans: "row_follows r r' \<Longrightarrow> row_follows r' r'' \<Longrightarrow> row_follows r r''"
  by (auto simp: row_follows_def)

lemma row_follows_changes [simp]:
  "row_follows r (begin_row D path now r)" "row_follows r (begin_direct_row D dpath now r)"
  "row_follows r (block_row g now r)" "row_follows r (verifying_row now r)" "row_follows r (verified_row c now r)"
  "row_follows r (r\<lparr>rt_gateway_state := g, rt_updated_at := now\<rparr>)"
  "row_follows r (r\<lparr>rt_management_uplink_id := a, rt_management_modem_id := b, rt_updated_at := now\<rparr>)"
  by (simp_all add: row_follows_def row_changes active_tuple_def)

lemma row_follows_finish:
  "rt_path_state r = PathVerifying \<Longrightarrow> row_follows r (finish_row now r)"
  "rt_path_state r = PathVerifying \<Longrightarrow> row_follows r (finish_direct_row c now r)"
  by (simp_all add: row_follows_def row_changes active_tuple_def)

lemma update_runtime_follows:
  assumes "update_runtime guard change D = Inr (D', n)" and "extends_row r0 D"
    and "\<And>r. runtime_state D = Some r \<Longrightarrow> guard r \<Longrightarrow> row_follows r (change r)"
  shows "extends_row r0 D'"
  using update_runtime_Inr[OF assms(1)] assms(2,3) row_follows_trans by (fastforce simp: extends_row_def)

lemma extends_row_frame: "runtime_state D' = runtime_state D \<Longrightarrow> extends_row r D' = extends_row r D"
  by (simp add: extends_row_def)

lemma appendEventTx_follows: "appendEventTx now ev D = Inr D' \<Longrightarrow> extends_row r D' = extends_row r D"
  by (rule extends_row_frame) (auto dest: appendEventTx_Inr)

lemma record_state_follows:
  assumes "record_state change now ev D = Inr (Commit D')" and "extends_row r0 D"
    and "\<And>r. runtime_state D = Some r \<Longrightarrow> row_follows r (change r)"
  shows "extends_row r0 D'"
  using assms(1)
proof (rule record_state_Commit)
  fix D1 n e
  assume u: "update_runtime (\<lambda>_. True) change D = Inr (D1, n)" and "Commit D' = Commit (D1\<lparr>events := events D1 @ [e]\<rparr>)"
  then show ?thesis using update_runtime_follows[OF u assms(2)] assms(3) by (simp add: extends_row_def)
qed

lemma transact_follows:
  assumes "extends_row r D" and "\<And>D'. extends_row r D \<Longrightarrow> body D = Inr (Commit D') \<Longrightarrow> extends_row r D'"
  shows "extends_row r (fst (transact f body D))"
  using assms by (auto simp: transact_def split: sum.splits tx.splits)

lemma activation_follows:
  assumes "extends_row r D"
  shows "extends_row r (fst (beginActivation t f path node pg rg D))"
    and "extends_row r (fst (finishActivation t f path node pg rg D))"
    and "extends_row r (fst (BeginDirectActivation q t f path pg rg D))"
    and "extends_row r (fst (FinishDirectActivation q t f path pg rg D))"
  unfolding beginActivation_def finishActivation_def BeginDirectActivation_def FinishDirectActivation_def
  by (rule transact_follows[OF assms];
      auto simp: Let_def scanSnapshot_def split: if_splits intro: row_follows_finish elim!: record_state_follows)+

lemma control_follows:
  assumes "extends_row r D"
  shows "extends_row r (fst (MarkTargetDegraded t t' f path node pg rg D))"
    and "extends_row r (fst (RecoverTargetDegraded t f path node pg rg D))"
    and "extends_row r (fst (Block t f g reason D))"
    and "extends_row r (fst (setManagementUplink t f u reason h D))"
    and "extends_row r (fst (RecoverPolicyTransition t f D))"
    and "extends_row r (fst (AppendEvent t f ev D))"
  using assms
  unfolding MarkTargetDegraded_def RecoverTargetDegraded_def Block_def setManagementUplink_def RecoverPolicyTransition_def AppendEvent_def
  by (auto intro!: transact_follows simp: Let_def appendEventTx_follows split: if_splits option.splits sum.splits tx.splits
      elim!: record_state_follows)

lemma PrepareStartupRecovery_follows:
  assumes "extends_row r D"
  shows "extends_row r (fst (PrepareStartupRecovery q t f D))"
proof -
  have "extends_row r D'"
    if "update_runtime (\<lambda>_. True) (verifying_row now) D = Inr (D1, n)"
      "appendEventTx now ev (schedule_requalification q c now d D1) = Inr D'" for now D1 n ev c d D'
    using update_runtime_follows[OF that(1) assms] appendEventTx_follows[OF that(2)]
    by (simp add: extends_row_def schedule_requalification_def)
  with assms show ?thesis
    unfolding PrepareStartupRecovery_def by (auto intro!: transact_follows simp: Let_def split: if_splits)
qed

lemma FinishPolicyVerification_follows:
  assumes "extends_row r D"
  shows "extends_row r (fst (FinishPolicyVerification t f g D))"
proof -
  have "extends_row r D'"
    if "update_runtime (\<lambda>r. rt_gateway_state r = GatewayVerifyingPolicy \<and> rt_path_state r = PathActive
          \<and> rt_policy_transition_generation r = Some g) (verified_row c now) D = Inr (D1, n)"
      "appendEventTx now ev D1 = Inr D'" for c now D1 n ev D'
    using update_runtime_follows[OF that(1) assms] appendEventTx_follows[OF that(2)] by simp
  with assms show ?thesis
    unfolding FinishPolicyVerification_def
    by (auto intro!: transact_follows simp: Let_def split: if_splits option.splits)
qed

lemma InvalidatePathPolicy_follows:
  assumes "InvalidatePathPolicy t D = Inr (g, D')" and "extends_row r D"
  shows "extends_row r D'"
proof -
  obtain D1 D2 D3 d n where
    c: "AllocateCounter ''next_policy_generation'' 1 D = Inr (g, D1)"
    and s: "start_policy_transition g t d D1 = Inr (D2, n)"
    and e: "transition_event g t d D2 = Inr D3"
    and D': "D' = D3\<lparr>subscription_uplink_paths := map (invalidate_sub_path g t) (subscription_uplink_paths D3),
             direct_uplink_paths := map (invalidate_direct_path g t) (direct_uplink_paths D3)\<rparr>"
    using assms(1) by (rule InvalidatePathPolicy_Inr)
  have "runtime_state D1 = runtime_state D" using AllocateCounter_Inr(3)[OF c] by (simp add: int64_defs)
  with assms(2) have "extends_row r D1" by (simp add: extends_row_def)
  then have "extends_row r D2"
    by (rule update_runtime_follows[OF s[unfolded start_policy_transition_def]])
       (simp add: row_follows_def active_tuple_def)
  moreover have "runtime_state D' = runtime_state D2" using transition_event_runtime[OF e] by (simp add: D')
  ultimately show ?thesis by (simp add: extends_row_def)
qed

lemma state_step_follows: "extends_row r D \<Longrightarrow> extends_row r (state_step q D op)"
  by (cases op)
     (auto simp: activation_follows control_follows PrepareStartupRecovery_follows FinishPolicyVerification_follows
      dest: InvalidatePathPolicy_follows split: sum.splits)

interpretation state_history: operation_system "extends_row r" "\<lambda>_ _. True" "state_step q" for r q
  by unfold_locales (rule state_step_follows)

lemma state_history_legal [simp]: "state_history.legal_run q D ops"
  by (induction ops arbitrary: D) simp_all

section \<open>Properties\<close>

text \<open>
  Property C6 (runtime invariant): after every sequence of operations on the runtime state, with any arguments,
  clock readings and driver faults, the stored row satisfies the constraints of the database, a blocked row
  names no path and carries no policy transition, and a verifying or active row has an access method
  (so, by the constraints, a complete tuple).
\<close>

theorem runtime_inv_always:
  assumes "runtime_inv D"
  shows "runtime_inv (run_ops (state_step q) D ops)"
  using assms by (rule state_run_inv)

text \<open>
  Property C18 (a configuration generation names one tuple): after every sequence of operations the
  configuration generation has not decreased, and while it is the same the active tuple is the same and the path
  state has at most moved from verifying to active. In particular a blocked gateway never becomes active
  under the generation it was blocked with.
\<close>

theorem config_generation_names_tuple:
  assumes "runtime_state D = Some r"
  shows "\<exists>r'. runtime_state (run_ops (state_step q) D ops) = Some r' \<and> row_follows r r'"
proof -
  have "extends_row r (run_ops (state_step q) D ops)"
    by (rule state_history.run_inv) (simp_all add: extends_row_def assms)
  then show ?thesis by (simp add: extends_row_def)
qed

theorem runtime_inv_always_witness:
  "runtime_inv (run_ops (state_step sql0) db0
     [OpInvalidate text0, OpBlock now0 NoFault GatewayBlocked ''TEST'', OpBeginDirect now0 NoFault ''direct:path:u1'' 6 3])"
proof -
  have "runtime_inv db0" by code_simp
  then show ?thesis by (rule runtime_inv_always)
qed

theorem config_generation_names_tuple_witness:
  "\<exists>r'. runtime_state (run_ops (state_step sql0) db0 [OpBlock now0 NoFault GatewayBlocked ''TEST'']) = Some r'
      \<and> row_follows runtime0 r'"
  by (rule config_generation_names_tuple) (simp add: db0_def)

end
