(* ===== verification/State_Theorems.thy ===== *)
theory State_Theorems
  imports State_Repository
begin

text \<open>
  What the operations of \<open>internal/state\<close> achieve when the database works: \<open>Block\<close> always reaches the
  blocked row and is idempotent, an activation that was begun can be finished while its evidence is fresh and
  keeps its configuration generation, a policy verification cannot finish after its grace period, and an interrupted
  transition is blocked at startup.
\<close>

section \<open>Events and updates that succeed\<close>

definition event_ok :: "event_input \<Rightarrow> bool" where
  "event_ok ev \<longleftrightarrow> validSeverity (Severity ev) \<and> \<not> blank (EventType ev) \<and> length (EventType ev) \<le> 128
     \<and> length (marshal (Details ev)) \<le> 16 * 1024"

lemma appendEventTx_ok: "event_ok ev \<Longrightarrow> \<exists>e. appendEventTx now ev D = Inr (D\<lparr>events := events D @ [e]\<rparr>)"
  unfolding event_ok_def appendEventTx_def Let_def by (simp only: not_less[symmetric] simp_thms if_False) (rule exI, rule refl)

lemma record_state_ok:
  assumes "runtime_state D = Some r" and "runtime_row_ok D (change r)" and "event_ok ev"
  shows "\<exists>e. record_state change now ev D
           = Inr (Commit (D\<lparr>runtime_state := Some (change r), events := events D @ [e]\<rparr>))"
proof -
  let ?D1 = "D\<lparr>runtime_state := Some (change r)\<rparr>"
  obtain e where "appendEventTx now ev ?D1 = Inr (?D1\<lparr>events := events ?D1 @ [e]\<rparr>)"
    using appendEventTx_ok[OF assms(3)] by blast
  with assms(1,2) have "record_state change now ev D = Inr (Commit (?D1\<lparr>events := events D @ [e]\<rparr>))"
    by (simp add: record_state_def update_runtime_def)
  then show ?thesis by (rule exI)
qed

lemma transact_commit:
  assumes "f \<noteq> FaultTx" and "body D = Inr (Commit D')"
  shows "transact f body D = (D', bind_result (Get f D') (\<lambda>s. Inr (s, True)))"
  using assms by (simp add: transact_def)

lemma runtime_row_ok_management:
  "runtime_row_ok D r \<Longrightarrow> references (rt_management_uplink_id r) (map u_id (uplinks D))"
  by (simp add: runtime_row_ok_def runtime_foreign_keys_def)

section \<open>Blocking\<close>

definition blocked_row :: "gateway_state \<Rightarrow> runtime_row \<Rightarrow> bool" where
  "blocked_row g r \<longleftrightarrow> rt_gateway_state r = g \<and> rt_path_state r = PathBlocked \<and> clear_transition (clear_tuple r) = r"

lemma block_row_blocked [simp]: "blocked_row g (block_row g now r)"
  by (simp add: blocked_row_def row_changes)

lemma block_row_ok: "runtime_row_ok D r \<Longrightarrow> runtime_row_ok D (block_row g now r)"
  using runtime_row_ok_management[of D r]
  by (simp add: runtime_row_ok_def runtime_check_def transition_check_def runtime_foreign_keys_def row_changes)

lemma event_type_ok: "\<not> blank ''PATH_BLOCKED''" "\<not> blank ''PATH_ACTIVATED''" "\<not> blank ''DIRECT_PATH_ACTIVATED''"
  "\<not> blank ''POLICY_VERIFICATION_INTERRUPTED''"
  by code_simp+

lemma gateway_text_blocked: "validBlockedGatewayState g \<Longrightarrow> length (gateway_text g) \<le> 23"
  by (auto simp: validBlockedGatewayState_def)

lemma block_event_ok:
  assumes "validBlockedGatewayState g" and "length reason \<le> 1000"
  shows "event_ok \<lparr>Severity = ''WARNING'', EventType = ''PATH_BLOCKED'', EvUplinkID = [], EvModemID = [], EvSubscriptionID = [],
           EvPathID = [], Details = [(''reason'', JStr reason), (''gateway_state'', JStr (gateway_text g))]\<rparr>"
proof -
  have "entry_length (''reason'', JStr reason) \<le> 6041" "entry_length (''gateway_state'', JStr (gateway_text g)) \<le> 221"
    using entry_length_str[of "''reason''" reason] entry_length_str[of "''gateway_state''" "gateway_text g"]
      assms(2) gateway_text_blocked[OF assms(1)] by simp_all
  then show ?thesis by (simp add: event_ok_def validSeverity_def event_type_ok length_marshal)
qed

lemma blocked_row_already: "blocked_row g r \<Longrightarrow> already_blocked g (scanSnapshot r)"
  by (cases r) (simp add: blocked_row_def already_blocked_def scanSnapshot_def row_changes)

lemma already_blocked_row: "already_blocked g (scanSnapshot r) \<Longrightarrow> row_inv r \<Longrightarrow> blocked_row g r"
  by (simp add: already_blocked_def blocked_row_def row_inv_def scanSnapshot_def)

lemma Block_again:
  assumes "runtime_state D = Some r" and "blocked_row g r" and "validBlockedGatewayState g" and "\<not> blank reason"
  shows "Block t NoFault g reason D = (D, Inr (scanSnapshot r, False))"
  using assms blocked_row_already[OF assms(2)] by (simp add: Block_def transact_def read_runtime_def)

lemma Block_reaches:
  assumes "runtime_inv D" and "runtime_state D = Some r" and "f \<noteq> FaultTx"
    and "validBlockedGatewayState g" and "\<not> blank reason" and "length reason \<le> 1000"
  obtains r' es where "fst (Block t f g reason D) = D\<lparr>runtime_state := Some r', events := es\<rparr>" "blocked_row g r'"
    "f = NoFault \<Longrightarrow> \<exists>changed. snd (Block t f g reason D) = Inr (scanSnapshot r', changed)"
proof (cases "already_blocked g (scanSnapshot r)")
  case True
  have "D = D\<lparr>runtime_state := Some r, events := events D\<rparr>" using assms(2) by simp
  moreover have "blocked_row g r" using True assms(1,2) by (simp add: runtime_inv_def already_blocked_row)
  ultimately show ?thesis
    using that[where r' = r and es = "events D"] True assms by (auto simp: Block_def transact_def read_runtime_def)
next
  case False
  have ok: "runtime_row_ok D r" using assms(1,2) by (simp add: runtime_inv_def)
  obtain e where e: "record_state (block_row g (format_time t)) (format_time t)
     \<lparr>Severity = ''WARNING'', EventType = ''PATH_BLOCKED'', EvUplinkID = [], EvModemID = [], EvSubscriptionID = [],
         EvPathID = [], Details = [(''reason'', JStr reason), (''gateway_state'', JStr (gateway_text g))]\<rparr> D
     = Inr (Commit (D\<lparr>runtime_state := Some (block_row g (format_time t) r), events := events D @ [e]\<rparr>))"
    using record_state_ok[OF assms(2), of "block_row g (format_time t)"] block_row_ok[OF ok]
      block_event_ok[OF assms(4,6)] by blast
  have "fst (Block t f g reason D) = D\<lparr>runtime_state := Some (block_row g (format_time t) r), events := events D @ [e]\<rparr>"
    "f = NoFault \<Longrightarrow> snd (Block t f g reason D) = Inr (scanSnapshot (block_row g (format_time t) r), True)"
    using assms(2-5) False e by (simp_all add: Block_def transact_def Let_def Get_def read_runtime_def)
  with that show ?thesis by (metis block_row_blocked)
qed

text \<open>
  Property C21 (Block): from every state that satisfies the invariant, whatever path is active and whatever policy
  transition is running, blocking with one of the four blocked gateway states reaches a row that names no path,
  and repeating it with the same state changes nothing and reports no change.
\<close>

theorem Block_blocks_and_is_idempotent:
  assumes "runtime_inv D" and "runtime_state D = Some r"
    and "validBlockedGatewayState g" and "\<not> blank reason" and "length reason \<le> 1000"
  shows "\<exists>D' r'. fst (Block t NoFault g reason D) = D' \<and> runtime_state D' = Some r' \<and> blocked_row g r'
           \<and> Block t' NoFault g reason D' = (D', Inr (scanSnapshot r', False))"
proof -
  obtain r' es where b: "fst (Block t NoFault g reason D) = D\<lparr>runtime_state := Some r', events := es\<rparr>" "blocked_row g r'"
    using Block_reaches[OF assms(1,2) _ assms(3-5), of NoFault t] by blast
  let ?D' = "D\<lparr>runtime_state := Some r', events := es\<rparr>"
  have r': "runtime_state ?D' = Some r'" by simp
  from b(1) r' b(2) Block_again[OF r' b(2) assms(3,4)] show ?thesis by blast
qed

theorem Block_blocks_and_is_idempotent_witness:
  "\<exists>D' r'. fst (Block now0 NoFault GatewayBlocked ''FIREWALL_NOT_READY'' db0) = D' \<and> runtime_state D' = Some r'
      \<and> blocked_row GatewayBlocked r'
      \<and> Block now0 NoFault GatewayBlocked ''FIREWALL_NOT_READY'' D' = (D', Inr (scanSnapshot r', False))"
proof (rule Block_blocks_and_is_idempotent)
  show "runtime_inv db0" "\<not> blank ''FIREWALL_NOT_READY''" by code_simp+
  show "runtime_state db0 = Some runtime0" by (simp add: db0_def)
  show "validBlockedGatewayState GatewayBlocked" by (simp add: validBlockedGatewayState_def)
qed simp

section \<open>Activation\<close>

lemma readFreshPath_sound:
  assumes "readFreshPath pathID nodeID pg rg now D = Inr path"
  obtains p pn n v s u a where
    "p \<in> set (subscription_uplink_paths D)" "pn \<in> set (uplink_path_nodes D)" "n \<in> set (nodes D)"
    "s \<in> set (subscriptions D)" "u \<in> set (uplinks D)" "a \<in> set (access_methods D)"
    "path = fresh_path_of p pn a" "fresh_path_where pathID nodeID pg rg (format_time now) p pn n v s u a"
  using assms that unfolding readFreshPath_def
  by (auto split: option.splits if_splits dest!: first_row_mem)

lemma readFreshDirectPath_sound:
  assumes "readFreshDirectPath q pathID pg rg now D = Inr path"
  obtains p u a where "p \<in> set (direct_uplink_paths D)" "u \<in> set (uplinks D)" "a \<in> set (access_methods D)"
    "path = \<lparr>FdID = d_id p, FdUplinkID = d_uplink_id p, FdMethodID = m_id a, FdQualityClass = d_quality_class p\<rparr>"
    "fresh_direct_where q pathID pg rg (format_time now) p u a"
  using assms that unfolding readFreshDirectPath_def
  by (auto split: option.splits if_splits dest!: first_row_mem)

lemma readFreshPath_ids:
  assumes "readFreshPath pathID nodeID pg rg now D = Inr path"
  shows "FpID path = pathID" "nodeID \<noteq> [] \<Longrightarrow> FpNodeID path = nodeID"
    "pathID \<in> p_id ` set (subscription_uplink_paths D)" "FpNodeID path \<in> n_id ` set (nodes D)"
    "FpSubscriptionID path \<in> s_id ` set (subscriptions D)" "FpUplinkID path \<in> u_id ` set (uplinks D)"
proof -
  obtain p pn n v s u a where "p \<in> set (subscription_uplink_paths D)" "n \<in> set (nodes D)" "s \<in> set (subscriptions D)"
    "u \<in> set (uplinks D)" "path = fresh_path_of p pn a" "fresh_path_where pathID nodeID pg rg (format_time now) p pn n v s u a"
    using readFreshPath_sound[OF assms] by metis
  then show "FpID path = pathID" "nodeID \<noteq> [] \<Longrightarrow> FpNodeID path = nodeID"
    "pathID \<in> p_id ` set (subscription_uplink_paths D)" "FpNodeID path \<in> n_id ` set (nodes D)"
    "FpSubscriptionID path \<in> s_id ` set (subscriptions D)" "FpUplinkID path \<in> u_id ` set (uplinks D)"
    by (auto simp: fresh_path_where_def fresh_path_of_def intro: rev_image_eqI)
qed

lemma readFreshPath_frame [simp]:
  "readFreshPath pathID nodeID pg rg now (D\<lparr>runtime_state := x, events := es\<rparr>) = readFreshPath pathID nodeID pg rg now D"
  by (simp add: readFreshPath_def)

lemma runtime_row_ok_events_runtime [simp]:
  "runtime_row_ok (D\<lparr>runtime_state := x, events := es\<rparr>) r = runtime_row_ok D r"
  by (rule runtime_row_ok_frame) simp_all

lemma begin_row_ok:
  assumes "readFreshPath pathID nodeID pg rg t D = Inr path" and "runtime_row_ok D r"
  shows "runtime_row_ok D (begin_row D path now r)"
  using readFreshPath_ids[OF assms(1)] runtime_row_ok_management[OF assms(2)]
  by (simp add: runtime_row_ok_def runtime_check_def transition_check_def runtime_foreign_keys_def row_changes references_def)

lemma finish_row_ok: "runtime_row_ok D r \<Longrightarrow> runtime_row_ok D (finish_row now r)"
  by (auto simp: runtime_row_ok_def runtime_check_def transition_check_def runtime_foreign_keys_def row_changes)

lemma activation_events_ok:
  assumes "length nodeID \<le> 1000" and "is_int64 pg" and "is_int64 rg"
  shows "event_ok \<lparr>Severity = ''INFO'', EventType = ''PATH_ACTIVATION_STARTED'', EvUplinkID = a, EvModemID = [],
              EvSubscriptionID = b, EvPathID = c,
              Details = [(''node_id'', JStr nodeID), (''policy_generation'', JInt pg), (''route_generation'', JInt rg)]\<rparr>"
    and "event_ok \<lparr>Severity = ''INFO'', EventType = ''PATH_ACTIVATED'', EvUplinkID = a, EvModemID = [],
              EvSubscriptionID = b, EvPathID = c, Details = [(''node_id'', JStr nodeID)]\<rparr>"
proof -
  have "\<not> blank ''PATH_ACTIVATION_STARTED''" by code_simp
  moreover have "entry_length (''node_id'', JStr nodeID) \<le> 6047" "entry_length (''policy_generation'', JInt pg) \<le> 125"
    "entry_length (''route_generation'', JInt rg) \<le> 119"
    using entry_length_str[of "''node_id''" nodeID] entry_length_int[OF assms(2), of "''policy_generation''"]
      entry_length_int[OF assms(3), of "''route_generation''"] assms(1) by simp_all
  ultimately show
    "event_ok \<lparr>Severity = ''INFO'', EventType = ''PATH_ACTIVATION_STARTED'', EvUplinkID = a, EvModemID = [],
              EvSubscriptionID = b, EvPathID = c,
              Details = [(''node_id'', JStr nodeID), (''policy_generation'', JInt pg), (''route_generation'', JInt rg)]\<rparr>"
    "event_ok \<lparr>Severity = ''INFO'', EventType = ''PATH_ACTIVATED'', EvUplinkID = a, EvModemID = [],
              EvSubscriptionID = b, EvPathID = c, Details = [(''node_id'', JStr nodeID)]\<rparr>"
    by (simp_all add: event_ok_def validSeverity_def event_type_ok length_marshal)
qed

text \<open>The row of an activation that was begun and not yet finished.\<close>

definition verifying_tuple :: "string \<Rightarrow> string \<Rightarrow> runtime_row \<Rightarrow> bool" where
  "verifying_tuple pathID nodeID r \<longleftrightarrow> rt_path_state r = PathVerifying
     \<and> null_str (rt_active_path_id r) = pathID \<and> null_str (rt_active_node_id r) = nodeID"

lemma beginActivation_ok:
  assumes "runtime_inv D" and "runtime_state D = Some r"
    and "readFreshPath pathID nodeID pg rg t D = Inr path" and "nodeID \<noteq> []"
    and "length nodeID \<le> 1000" and "is_int64 pg" and "is_int64 rg"
  obtains r' es changed where "beginActivation t NoFault pathID nodeID pg rg D
      = (D\<lparr>runtime_state := Some r', events := es\<rparr>, Inr (scanSnapshot r', changed))"
    "verifying_tuple pathID nodeID r'" "runtime_row_ok D r'"
proof -
  have ok: "runtime_row_ok D r" using assms(1,2) by (simp add: runtime_inv_def)
  have ids: "FpID path = pathID" "FpNodeID path = nodeID" using readFreshPath_ids[OF assms(3)] assms(4) by simp_all
  show thesis
  proof (cases "verifying_tuple pathID nodeID r")
    case True
    then have "beginActivation t NoFault pathID nodeID pg rg D = (D, Inr (scanSnapshot r, False))"
      using assms(2,3) ids by (simp add: beginActivation_def transact_def read_runtime_def verifying_tuple_def scanSnapshot_def)
    moreover have "D = D\<lparr>runtime_state := Some r, events := events D\<rparr>" using assms(2) by simp
    ultimately show thesis using that[where r' = r and es = "events D" and changed = False] True ok by simp
  next
    case False
    let ?r = "begin_row D path (format_time t) r"
    let ?ev = "\<lparr>Severity = ''INFO'', EventType = ''PATH_ACTIVATION_STARTED'', EvUplinkID = FpUplinkID path, EvModemID = [],
              EvSubscriptionID = FpSubscriptionID path, EvPathID = FpID path,
              Details = [(''node_id'', JStr (FpNodeID path)), (''policy_generation'', JInt pg), (''route_generation'', JInt rg)]\<rparr>"
    have "event_ok ?ev" using activation_events_ok(1)[OF assms(5-7)] ids by simp
    then obtain e where e: "record_state (begin_row D path (format_time t)) (format_time t) ?ev D
        = Inr (Commit (D\<lparr>runtime_state := Some ?r, events := events D @ [e]\<rparr>))"
      using record_state_ok[OF assms(2), of "begin_row D path (format_time t)"] begin_row_ok[OF assms(3) ok] by blast
    have "\<not> (PathState (scanSnapshot r) = PathVerifying \<and> ActivePathID (scanSnapshot r) = FpID path
             \<and> ActiveNodeID (scanSnapshot r) = FpNodeID path)"
      using False ids by (simp add: verifying_tuple_def scanSnapshot_def)
    then have "beginActivation t NoFault pathID nodeID pg rg D
        = (D\<lparr>runtime_state := Some ?r, events := events D @ [e]\<rparr>, Inr (scanSnapshot ?r, True))"
      using assms(2,3) e unfolding beginActivation_def transact_def
      by (simp only: if_False bind_result_simps fault.distinct read_runtime_def option.case Let_def sum.case tx.case Get_def simp_thms if_True) simp
    moreover have "verifying_tuple pathID nodeID ?r" using ids by (simp add: verifying_tuple_def row_changes)
    ultimately show thesis using that begin_row_ok[OF assms(3) ok] by blast
  qed
qed

lemma finishActivation_ok:
  assumes "runtime_state D = Some r" and "runtime_row_ok D r" and "verifying_tuple pathID nodeID r"
    and "readFreshPath pathID nodeID pg rg t D = Inr path" and "nodeID \<noteq> []" and "length nodeID \<le> 1000"
  obtains es where "finishActivation t NoFault pathID nodeID pg rg D
      = (D\<lparr>runtime_state := Some (finish_row (format_time t) r), events := es\<rparr>, Inr (scanSnapshot (finish_row (format_time t) r), True))"
proof -
  have ids: "FpID path = pathID" "FpNodeID path = nodeID" using readFreshPath_ids[OF assms(4)] assms(5) by simp_all
  let ?r = "finish_row (format_time t) r"
  have "event_ok \<lparr>Severity = ''INFO'', EventType = ''PATH_ACTIVATED'', EvUplinkID = FpUplinkID path, EvModemID = [],
              EvSubscriptionID = FpSubscriptionID path, EvPathID = FpID path,
              Details = [(''node_id'', JStr (FpNodeID path))]\<rparr>"
    using activation_events_ok(2)[OF assms(6), of 0 0] ids by (simp add: int64_defs)
  then obtain e where e: "record_state (finish_row (format_time t)) (format_time t)
       \<lparr>Severity = ''INFO'', EventType = ''PATH_ACTIVATED'', EvUplinkID = FpUplinkID path, EvModemID = [],
              EvSubscriptionID = FpSubscriptionID path, EvPathID = FpID path,
              Details = [(''node_id'', JStr (FpNodeID path))]\<rparr> D
        = Inr (Commit (D\<lparr>runtime_state := Some ?r, events := events D @ [e]\<rparr>))"
    using record_state_ok[OF assms(1), of "finish_row (format_time t)"] finish_row_ok[OF assms(2)] by blast
  have "finishActivation t NoFault pathID nodeID pg rg D
        = (D\<lparr>runtime_state := Some ?r, events := events D @ [e]\<rparr>, Inr (scanSnapshot ?r, True))"
    using assms(1,3,4) e ids
    by (simp add: finishActivation_def transact_def read_runtime_def Let_def Get_def verifying_tuple_def scanSnapshot_def)
  then show thesis by (rule that)
qed

text \<open>
  Property C22 (an activation completes): from every runtime that satisfies the invariant, if the evidence for the
  path and node is fresh when the activation begins and when it finishes, both operations succeed; the gateway ends
  active on exactly that path and node, under the configuration generation that the beginning allocated
  (finishing does not allocate another one).
\<close>

theorem activation_completes:
  assumes "runtime_inv D" and "runtime_state D = Some r"
    and "readFreshPath pathID nodeID pg rg t D = Inr path" and "readFreshPath pathID nodeID pg rg t' D = Inr path'"
    and "\<not> blank nodeID" and "length nodeID \<le> 1000" and "is_int64 pg" and "is_int64 rg"
  shows "\<exists>s s' changed. snd (BeginNodeActivation t NoFault pathID nodeID pg rg D) = Inr (s, changed)
     \<and> snd (FinishNodeActivation t' NoFault pathID nodeID pg rg (fst (BeginNodeActivation t NoFault pathID nodeID pg rg D))) = Inr (s', True)
     \<and> PathState s = PathVerifying \<and> PathState s' = PathActive \<and> GatewayState s' = GatewayActive
     \<and> ActivePathID s' = pathID \<and> ActiveNodeID s' = nodeID \<and> ConfigGeneration s' = ConfigGeneration s"
proof -
  have ne: "nodeID \<noteq> []" using assms(5) by auto
  obtain r1 es changed where b: "beginActivation t NoFault pathID nodeID pg rg D
      = (D\<lparr>runtime_state := Some r1, events := es\<rparr>, Inr (scanSnapshot r1, changed))"
    and v: "verifying_tuple pathID nodeID r1" and ok: "runtime_row_ok D r1"
    using beginActivation_ok[OF assms(1-3) ne assms(6-8)] .
  let ?D1 = "D\<lparr>runtime_state := Some r1, events := es\<rparr>"
  obtain es' where f: "finishActivation t' NoFault pathID nodeID pg rg ?D1
     = (?D1\<lparr>runtime_state := Some (finish_row (format_time t') r1), events := es'\<rparr>, Inr (scanSnapshot (finish_row (format_time t') r1), True))"
    using finishActivation_ok[of ?D1 r1 pathID nodeID pg rg t' path'] v ok ne assms(4,6) by auto
  show ?thesis
    using assms(5) b f v
    by (simp add: BeginNodeActivation_def FinishNodeActivation_def verifying_tuple_def scanSnapshot_def row_changes)
qed


lemma sample_fresh:
  "readFreshPath ''p1'' ''n1'' 5 3 now0 db0 = Inr (fresh_path_of sub_path0 path_node0 sub_method0)"
  "readFreshPath ''p1'' ''n1'' 5 3 (now0 + second) db0 = Inr (fresh_path_of sub_path0 path_node0 sub_method0)"
  unfolding readFreshPath_def now0_text by code_simp+

theorem activation_completes_witness:
  "\<exists>s s' changed. snd (BeginNodeActivation now0 NoFault ''p1'' ''n1'' 5 3 db0) = Inr (s, changed)
     \<and> snd (FinishNodeActivation (now0 + second) NoFault ''p1'' ''n1'' 5 3 (fst (BeginNodeActivation now0 NoFault ''p1'' ''n1'' 5 3 db0))) = Inr (s', True)
     \<and> PathState s = PathVerifying \<and> PathState s' = PathActive \<and> GatewayState s' = GatewayActive
     \<and> ActivePathID s' = ''p1'' \<and> ActiveNodeID s' = ''n1'' \<and> ConfigGeneration s' = ConfigGeneration s"
proof -
  have inv: "runtime_inv db0" and nb: "\<not> blank ''n1''" and i5: "is_int64 5" and i3: "is_int64 3" by code_simp+
  have rt: "runtime_state db0 = Some runtime0" by (simp add: db0_def)
  have len: "length ''n1'' \<le> 1000" by simp
  show ?thesis by (rule activation_completes[OF inv rt sample_fresh nb len i5 i3])
qed


section \<open>The grace period of a policy change\<close>

lemma FinishPolicyVerification_deadline:
  assumes "FinishPolicyVerification t f g D = (D', Inr (s, changed))"
  obtains r deadline where "runtime_state D = Some r" "parse_time (null_str (rt_policy_transition_deadline r)) = Some deadline"
    "t < deadline" "rt_policy_transition_generation r = Some g"
proof -
  have g: "0 < g" using assms by (auto simp: FinishPolicyVerification_def split: if_splits)
  obtain r where r1: "runtime_state D = Some r"
    using assms g by (cases "runtime_state D") (auto simp: FinishPolicyVerification_def transact_def read_runtime_def split: if_splits)
  have r2: "PolicyTransitionGeneration (scanSnapshot r) = g"
    using assms g r1 by (auto simp: FinishPolicyVerification_def transact_def read_runtime_def split: if_splits)
  obtain deadline where r3: "parse_time (PolicyTransitionDeadline (scanSnapshot r)) = Some deadline"
    using assms g r1 r2 by (cases "parse_time (PolicyTransitionDeadline (scanSnapshot r))")
      (auto simp: FinishPolicyVerification_def transact_def read_runtime_def split: if_splits)
  have r4: "t < deadline"
    using assms g r1 r2 r3 by (auto simp: FinishPolicyVerification_def transact_def read_runtime_def split: if_splits)
  note r = r1 r2 r3 r4
  have "rt_policy_transition_generation r = Some g"
    using r(2) g by (cases "rt_policy_transition_generation r") (auto simp: scanSnapshot_def)
  with r that show thesis by (simp add: scanSnapshot_def)
qed

lemma transact_error: "transact f body D = (D', Inl e) \<Longrightarrow> f \<noteq> FaultReread \<Longrightarrow> \<exists>x. body D = Inr (Commit x) \<and> runtime_state x = None \<or> D' = D"
  by (cases f) (auto simp: transact_def Get_def read_runtime_def split: sum.splits tx.splits option.splits)

text \<open>
  Property C24 (no policy verification after the grace period): when a policy change at time \<open>t\<close> has put the
  active VPN path into verification, then from 120 seconds later on finishing that verification is refused,
  whatever evidence has arrived, and the runtime row is left as it was.
\<close>

theorem no_verification_after_grace:
  assumes "runtime_wf D" and "runtime_state D = Some r" and "subscription_active r"
    and "InvalidatePathPolicy (format_time t) D = Inr (g, D')"
    and "rfc3339_range t" and "rfc3339_range (t + PolicyGracePeriod)" and "t + PolicyGracePeriod \<le> t'"
    and "runtime_state D'' = runtime_state D'"
  shows "\<exists>e. FinishPolicyVerification t' f g D'' = (D'', Inl e)"
proof -
  obtain D1 where c: "AllocateCounter ''next_policy_generation'' 1 D = Inr (g, D1)"
    using assms(4) by (rule InvalidatePathPolicy_Inr)
  obtain X where "InvalidatePathPolicy (format_time t) D = Inr (g, X)" "runtime_state X = Some (in_transition g t r)"
    using InvalidatePathPolicy_active[OF assms(1-3) c assms(5,6)] by blast
  with assms(4,8) have r: "runtime_state D'' = Some (in_transition g t r)" by simp
  have d: "parse_time (null_str (rt_policy_transition_deadline (in_transition g t r))) = Some (t + PolicyGracePeriod)"
    using instant_codec.decode_encode[OF assms(6)] by (simp add: in_transition_def)
  have no: "snd (FinishPolicyVerification t' f g D'') \<noteq> Inr x" for x
  proof
    assume "snd (FinishPolicyVerification t' f g D'') = Inr x"
    then obtain D3 s changed where "FinishPolicyVerification t' f g D'' = (D3, Inr (s, changed))"
      by (metis prod.collapse)
    then obtain q deadline where "runtime_state D'' = Some q" "parse_time (null_str (rt_policy_transition_deadline q)) = Some deadline" "t' < deadline"
      by (rule FinishPolicyVerification_deadline)
    with r d assms(7) show False by simp
  qed
  show ?thesis
  proof (cases "snd (FinishPolicyVerification t' f g D'')")
    case (Inl e)
    have "fst (FinishPolicyVerification t' f g D'') = D''"
      using r d assms(7) by (auto simp: FinishPolicyVerification_def transact_def scanSnapshot_def read_runtime_def)
    with Inl show ?thesis by (metis prod.collapse)
  next
    case (Inr x)
    with no show ?thesis by blast
  qed
qed

theorem no_verification_after_grace_witness:
  "\<exists>D' e. InvalidatePathPolicy text0 db0 = Inr (6, D')
      \<and> FinishPolicyVerification (now0 + PolicyGracePeriod) NoFault 6 D' = (D', Inl e)"
proof -
  obtain D' where D': "InvalidatePathPolicy (format_time now0) db0 = Inr (6, D')"
    using sample_invalidation by (auto simp: now0_text)
  have act: "subscription_active runtime0" and rt: "runtime_state db0 = Some runtime0"
    by (simp_all add: subscription_active_def runtime0_def db0_def)
  have rng: "rfc3339_range (now0 + PolicyGracePeriod)" using now0_range(2) by (simp add: PolicyGracePeriod_def)
  from no_verification_after_grace[OF db0_wf rt act D' now0_range(1) rng order_refl refl, of NoFault] D'
  show ?thesis by (auto simp: now0_text)
qed

section \<open>Interrupted transitions\<close>

lemma interrupted_event_ok:
  assumes "length nodeID \<le> 500" and "length started \<le> 500" and "length deadline \<le> 500" and "is_int64 g"
  shows "event_ok \<lparr>Severity = ''WARNING'', EventType = ''POLICY_VERIFICATION_INTERRUPTED'', EvUplinkID = a,
                    EvModemID = [], EvSubscriptionID = b, EvPathID = c,
                    Details = [(''node_id'', JStr nodeID), (''policy_generation'', JInt g),
                               (''started_at'', JStr started), (''deadline'', JStr deadline),
                               (''reason'', JStr ''PROCESS_RESTART'')]\<rparr>"
proof -
  have "entry_length (''node_id'', JStr nodeID) \<le> 3047" "entry_length (''policy_generation'', JInt g) \<le> 125"
    "entry_length (''started_at'', JStr started) \<le> 3065" "entry_length (''deadline'', JStr deadline) \<le> 3053"
    "entry_length (''reason'', JStr ''PROCESS_RESTART'') \<le> 131"
    using entry_length_str[of "''node_id''" nodeID] entry_length_int[OF assms(4), of "''policy_generation''"]
      entry_length_str[of "''started_at''" started] entry_length_str[of "''deadline''" deadline]
      entry_length_str[of "''reason''" "''PROCESS_RESTART''"] assms(1-3) by simp_all
  then show ?thesis by (simp add: event_ok_def validSeverity_def event_type_ok length_marshal)
qed

text \<open>
  Startup never resumes a transition: the recovery at startup reports whether a policy transition was
  running, and afterwards none is: an interrupted one has been turned into the blocked state, anything else is
  left as it was.
\<close>

theorem interrupted_transition_is_blocked:
  assumes "runtime_inv D" and "runtime_state D = Some r" and "f \<noteq> FaultTx"
    and "length (ActiveNodeID (scanSnapshot r)) \<le> 500" and "length (PolicyTransitionStartedAt (scanSnapshot r)) \<le> 500"
    and "length (PolicyTransitionDeadline (scanSnapshot r)) \<le> 500" and "is_int64 (PolicyTransitionGeneration (scanSnapshot r))"
  shows "\<exists>D' r'. RecoverPolicyTransition t f D = (D', Inr (PolicyTransitionActive (scanSnapshot r)))
     \<and> runtime_state D' = Some r' \<and> \<not> PolicyTransitionActive (scanSnapshot r')
     \<and> (if PolicyTransitionActive (scanSnapshot r) then blocked_row GatewayBlocked r' else D' = D)"
proof (cases "PolicyTransitionActive (scanSnapshot r)")
  case False
  with assms show ?thesis by (simp add: RecoverPolicyTransition_def read_runtime_def)
next
  case True
  let ?r = "block_row GatewayBlocked (format_time t) r"
  have ok: "runtime_row_ok D r" using assms(1,2) by (simp add: runtime_inv_def)
  obtain e where "record_state (block_row GatewayBlocked (format_time t)) (format_time t)
      \<lparr>Severity = ''WARNING'', EventType = ''POLICY_VERIFICATION_INTERRUPTED'', EvUplinkID = ActiveUplinkID (scanSnapshot r),
       EvModemID = [], EvSubscriptionID = ActiveSubscriptionID (scanSnapshot r), EvPathID = ActivePathID (scanSnapshot r),
       Details = [(''node_id'', JStr (ActiveNodeID (scanSnapshot r))), (''policy_generation'', JInt (PolicyTransitionGeneration (scanSnapshot r))),
                  (''started_at'', JStr (PolicyTransitionStartedAt (scanSnapshot r))), (''deadline'', JStr (PolicyTransitionDeadline (scanSnapshot r))),
                  (''reason'', JStr ''PROCESS_RESTART'')]\<rparr> D
      = Inr (Commit (D\<lparr>runtime_state := Some ?r, events := events D @ [e]\<rparr>))"
    using record_state_ok[OF assms(2), of "block_row GatewayBlocked (format_time t)"] block_row_ok[OF ok]
      interrupted_event_ok[OF assms(4-7)] by blast
  then have "RecoverPolicyTransition t f D = (D\<lparr>runtime_state := Some ?r, events := events D @ [e]\<rparr>, Inr True)"
    using True assms(2,3) by (simp add: RecoverPolicyTransition_def read_runtime_def Let_def)
  moreover have "\<not> PolicyTransitionActive (scanSnapshot ?r)"
    by (simp add: PolicyTransitionActive_def scanSnapshot_def row_changes)
  ultimately show ?thesis using True by simp
qed

lemma grace_text: "format_time (now0 + PolicyGracePeriod) = ''2026-01-01T00:02:00Z''"
  by (simp add: PolicyGracePeriod_def now0_text)

theorem interrupted_transition_is_blocked_witness:
  "\<exists>D' r'. RecoverPolicyTransition now0 NoFault (db0\<lparr>runtime_state := Some (in_transition 6 now0 runtime0)\<rparr>)
        = (D', Inr True) \<and> runtime_state D' = Some r' \<and> blocked_row GatewayBlocked r'"
proof -
  let ?r = "in_transition 6 now0 runtime0"
  let ?D = "db0\<lparr>runtime_state := Some ?r\<rparr>"
  have "runtime_row_ok db0 runtime0" using db0_wf by (simp add: runtime_wf_def db0_def)
  moreover have "subscription_active runtime0" by (simp add: subscription_active_def runtime0_def)
  ultimately have "runtime_row_ok db0 ?r"
    using in_transition_ok[of db0 runtime0 6 now0] now0_range by (simp add: PolicyGracePeriod_def)
  moreover have "row_inv ?r" by (simp add: row_inv_def in_transition_def runtime0_def)
  ultimately have inv: "runtime_inv ?D" by (simp add: runtime_inv_def)
  have rt: "runtime_state ?D = Some ?r" by simp
  have len: "length (ActiveNodeID (scanSnapshot ?r)) \<le> 500" "length (PolicyTransitionStartedAt (scanSnapshot ?r)) \<le> 500"
    "length (PolicyTransitionDeadline (scanSnapshot ?r)) \<le> 500" "is_int64 (PolicyTransitionGeneration (scanSnapshot ?r))"
    "PolicyTransitionActive (scanSnapshot ?r)"
    using grace_text by (simp_all add: scanSnapshot_def in_transition_def runtime0_def now0_text PolicyTransitionActive_def int64_defs)
  show ?thesis
    using interrupted_transition_is_blocked[OF inv rt fault.distinct(1) len(1-4), of now0]
    unfolding eqTrueI[OF len(5)] if_True by blast
qed

end
