(* ===== verification/Inventory.thy ===== *)
theory Inventory
  imports State_Theorems
begin

text \<open>
  \<open>SQLiteInventory\<close> of \<open>internal/reconcile/reconciler.go\<close>: the queries by which the reconciler learns whether there
  are required targets and ready uplinks, and which qualified path and node are fresh. A read returns its rows or the
  driver error; \<open>sql.ErrNoRows\<close> becomes \<open>ErrNotFound\<close>.
\<close>

section \<open>The candidate of the reconciler\<close>

record rcandidate =
  RcKey :: string
  RcMethodID :: string
  RcMethodKind :: method_kind
  RcQualityClass :: quality
  RcPathID :: string
  RcUplinkID :: string
  RcModemID :: string
  RcSubscriptionID :: string
  RcNodeID :: string
  RcPolicyGeneration :: int
  RcRouteGeneration :: int
  RcConfigGeneration :: int
  RcStartupRecovery :: bool

text \<open>\<open>Candidate{}\<close>, and the fields the queries scan.\<close>

definition no_candidate :: rcandidate where
  "no_candidate = \<lparr>RcKey = [], RcMethodID = [], RcMethodKind = MethodOther [], RcQualityClass = QualityOther [], RcPathID = [],
     RcUplinkID = [], RcModemID = [], RcSubscriptionID = [], RcNodeID = [], RcPolicyGeneration = 0, RcRouteGeneration = 0,
     RcConfigGeneration = 0, RcStartupRecovery = False\<rparr>"

definition scan_candidate :: "sub_path_row \<Rightarrow> string \<Rightarrow> rcandidate" where
  "scan_candidate p nodeID = no_candidate\<lparr>RcPathID := p_id p, RcUplinkID := p_uplink_id p, RcSubscriptionID := p_subscription_id p,
     RcNodeID := nodeID, RcPolicyGeneration := p_policy_generation p, RcRouteGeneration := p_route_generation p\<rparr>"

section \<open>Counts\<close>

definition HasRequiredTargets :: "fault \<Rightarrow> db \<Rightarrow> bool result" where
  "HasRequiredTargets f D = (if f \<noteq> NoFault then Inl ErrDriver
     else Inr (0 < length (filter (\<lambda>t. t_enabled t \<and> t_target_class t = ''GLOBAL_REQUIRED'') (bypass_probe_targets D))))"

definition HasReadyUplinks :: "fault \<Rightarrow> db \<Rightarrow> bool result" where
  "HasReadyUplinks f D = (if f \<noteq> NoFault then Inl ErrDriver
     else Inr (0 < length (filter (\<lambda>u. u_enabled u \<and> u_state u = ''UPLINK_READY'') (uplinks D))))"

section \<open>Fresh candidates\<close>

definition node_candidate_where :: "string \<Rightarrow> string \<Rightarrow> string \<Rightarrow> sub_path_row \<Rightarrow> uplink_row \<Rightarrow> subscription_row \<Rightarrow> path_node_row
    \<Rightarrow> node_row \<Rightarrow> version_row \<Rightarrow> bool" where
  "node_candidate_where pathID nodeID now p u s pn n v \<longleftrightarrow>
     u_id u = p_uplink_id p \<and> s_id s = p_subscription_id p \<and> pn_path_id pn = p_id p \<and> pn_node_id pn = nodeID
   \<and> n_id n = pn_node_id pn \<and> n_enabled n \<and> v_id v = n_version_id n \<and> s_active_version_id s = Some (v_id v)
   \<and> p_id p = pathID \<and> p_state p = ''QUALIFIED'' \<and> text_after (p_expires_at p) now
   \<and> u_enabled u \<and> u_state u = ''UPLINK_READY'' \<and> s_enabled s
   \<and> pn_qualification_state pn = ''BYPASS_QUALIFIED''
   \<and> pn_qualification_generation pn = p_policy_generation p
   \<and> pn_route_generation pn = p_route_generation p \<and> text_after (pn_expires_at pn) now"

definition FreshNodeCandidate :: "instant \<Rightarrow> fault \<Rightarrow> string \<Rightarrow> string \<Rightarrow> db \<Rightarrow> rcandidate result" where
  "FreshNodeCandidate nowTime f pathID nodeID D =
     (if blank pathID \<or> blank nodeID then Inl (ErrMsg ''path and node ids are required'')
      else if f \<noteq> NoFault then Inl ErrDriver
      else case first_row [scan_candidate p (pn_node_id pn). p \<leftarrow> subscription_uplink_paths D, u \<leftarrow> uplinks D, s \<leftarrow> subscriptions D,
             pn \<leftarrow> uplink_path_nodes D, n \<leftarrow> nodes D, v \<leftarrow> subscription_versions D,
             node_candidate_where pathID nodeID (format_time nowTime) p u s pn n v] of
        None \<Rightarrow> Inl ErrNotFound | Some c \<Rightarrow> Inr c)"

text \<open>The two subqueries of the degraded query, for a path and node of the given generations.\<close>

definition live_result :: "sub_path_row \<Rightarrow> string \<Rightarrow> string \<Rightarrow> target_row \<Rightarrow> target_result_row \<Rightarrow> bool" where
  "live_result p nodeID now t r \<longleftrightarrow> r_path_id r = p_id p \<and> r_node_id r = nodeID \<and> r_target_id r = t_id t
     \<and> r_policy_generation r = p_policy_generation p \<and> r_route_generation r = p_route_generation p \<and> now < r_expires_at r"

definition required_target :: "target_row \<Rightarrow> bool" where
  "required_target t \<longleftrightarrow> t_enabled t \<and> t_target_class t = ''GLOBAL_REQUIRED''"

definition suspect_failed :: "sub_path_row \<Rightarrow> string \<Rightarrow> string \<Rightarrow> db \<Rightarrow> bool" where
  "suspect_failed p nodeID now D \<longleftrightarrow> list_ex (\<lambda>t. required_target t \<and> t_state t = ''TARGET_SUSPECT''
     \<and> list_ex (\<lambda>r. live_result p nodeID now t r \<and> r_state r \<noteq> ''PASSED'') (uplink_path_node_target_results D)) (bypass_probe_targets D)"

definition unexplained_failure :: "sub_path_row \<Rightarrow> string \<Rightarrow> string \<Rightarrow> db \<Rightarrow> bool" where
  "unexplained_failure p nodeID now D \<longleftrightarrow> list_ex (\<lambda>t. required_target t
     \<and> (case filter (live_result p nodeID now t) (uplink_path_node_target_results D) of
          [] \<Rightarrow> True
        | rs \<Rightarrow> list_ex (\<lambda>r. r_state r \<noteq> ''PASSED'' \<and> t_state t \<noteq> ''TARGET_SUSPECT'') rs)) (bypass_probe_targets D)"

definition degraded_candidate_where :: "string \<Rightarrow> string \<Rightarrow> string \<Rightarrow> db \<Rightarrow> sub_path_row \<Rightarrow> uplink_row \<Rightarrow> subscription_row \<Rightarrow> path_node_row
    \<Rightarrow> node_row \<Rightarrow> version_row \<Rightarrow> bool" where
  "degraded_candidate_where pathID nodeID now D p u s pn n v \<longleftrightarrow>
     u_id u = p_uplink_id p \<and> s_id s = p_subscription_id p \<and> pn_path_id pn = p_id p \<and> pn_node_id pn = nodeID
   \<and> n_id n = pn_node_id pn \<and> n_enabled n \<and> v_id v = n_version_id n \<and> s_active_version_id s = Some (v_id v)
   \<and> p_id p = pathID \<and> p_state p = ''DEGRADED'' \<and> p_transport_state p = ''PASSED''
   \<and> p_selected_node_id p = Some (pn_node_id pn) \<and> text_after (p_expires_at p) now
   \<and> u_enabled u \<and> u_state u = ''UPLINK_READY'' \<and> s_enabled s
   \<and> pn_qualification_state pn = ''BYPASS_FAILED''
   \<and> pn_qualification_generation pn = p_policy_generation p
   \<and> pn_route_generation pn = p_route_generation p \<and> text_after (pn_expires_at pn) now
   \<and> suspect_failed p (pn_node_id pn) now D \<and> \<not> unexplained_failure p (pn_node_id pn) now D"

definition TargetDegradedCandidate :: "instant \<Rightarrow> fault \<Rightarrow> string \<Rightarrow> string \<Rightarrow> db \<Rightarrow> rcandidate result" where
  "TargetDegradedCandidate nowTime f pathID nodeID D =
     (if blank pathID \<or> blank nodeID then Inl (ErrMsg ''path and node ids are required'')
      else if f \<noteq> NoFault then Inl ErrDriver
      else case first_row [scan_candidate p (pn_node_id pn). p \<leftarrow> subscription_uplink_paths D, u \<leftarrow> uplinks D, s \<leftarrow> subscriptions D,
             pn \<leftarrow> uplink_path_nodes D, n \<leftarrow> nodes D, v \<leftarrow> subscription_versions D,
             degraded_candidate_where pathID nodeID (format_time nowTime) D p u s pn n v] of
        None \<Rightarrow> Inl ErrNotFound | Some c \<Rightarrow> Inr c)"

definition read_candidate_where :: "string \<Rightarrow> sub_path_row \<Rightarrow> uplink_row \<Rightarrow> subscription_row \<Rightarrow> node_row \<Rightarrow> version_row
    \<Rightarrow> path_node_row \<Rightarrow> bool" where
  "read_candidate_where now p u s n v pn \<longleftrightarrow>
     u_id u = p_uplink_id p \<and> s_id s = p_subscription_id p \<and> p_selected_node_id p = Some (n_id n)
   \<and> v_id v = n_version_id n \<and> s_active_version_id s = Some (v_id v)
   \<and> pn_path_id pn = p_id p \<and> p_selected_node_id p = Some (pn_node_id pn)
   \<and> p_state p = ''QUALIFIED'' \<and> text_after (p_expires_at p) now \<and> u_enabled u \<and> u_state u = ''UPLINK_READY''
   \<and> s_enabled s \<and> pn_qualification_state pn = ''BYPASS_QUALIFIED''
   \<and> pn_qualification_generation pn = p_policy_generation p
   \<and> pn_route_generation pn = p_route_generation p \<and> text_after (pn_expires_at pn) now"

definition candidate_rows :: "string \<Rightarrow> db \<Rightarrow> (sub_path_row \<times> uplink_row \<times> subscription_row) list" where
  "candidate_rows now D = [(p, u, s). p \<leftarrow> subscription_uplink_paths D, u \<leftarrow> uplinks D, s \<leftarrow> subscriptions D, n \<leftarrow> nodes D,
     v \<leftarrow> subscription_versions D, pn \<leftarrow> uplink_path_nodes D, read_candidate_where now p u s n v pn]"

text \<open>\<open>ORDER BY u.priority, s.priority, p.latency_ms, p.id\<close>; SQLite sorts NULL before every number.\<close>

definition fresh_order :: "sub_path_row \<times> uplink_row \<times> subscription_row \<Rightarrow> sub_path_row \<times> uplink_row \<times> subscription_row \<Rightarrow> bool" where
  "fresh_order x y = (case (x, y) of ((p, u, s), (p', u', s')) \<Rightarrow>
     if u_priority u \<noteq> u_priority u' then u_priority u < u_priority u'
     else if s_priority s \<noteq> s_priority s' then s_priority s < s_priority s'
     else if p_latency_ms p \<noteq> p_latency_ms p' then
       (case (p_latency_ms p, p_latency_ms p') of (None, _) \<Rightarrow> True | (Some a, Some b) \<Rightarrow> a < b | (Some a, None) \<Rightarrow> False)
     else p_id p < p_id p')"

definition readCandidate :: "fault \<Rightarrow> (sub_path_row \<times> uplink_row \<times> subscription_row) list \<Rightarrow> rcandidate result" where
  "readCandidate f rows =
     (if f \<noteq> NoFault then Inl ErrDriver
      else case first_row rows of
        None \<Rightarrow> Inl ErrNotFound | Some (p, u, s) \<Rightarrow> Inr (scan_candidate p (null_str (p_selected_node_id p))))"

definition FreshCandidate :: "instant \<Rightarrow> fault \<Rightarrow> string \<Rightarrow> db \<Rightarrow> rcandidate result" where
  "FreshCandidate nowTime f pathID D =
     readCandidate f (filter (\<lambda>(p, u, s). p_id p = pathID) (candidate_rows (format_time nowTime) D))"

definition BestFreshCandidate :: "instant \<Rightarrow> fault \<Rightarrow> db \<Rightarrow> rcandidate result" where
  "BestFreshCandidate nowTime f D = readCandidate f (sort_stable fresh_order (candidate_rows (format_time nowTime) D))"

end
