(* ===== verification/Access_Transition.thy ===== *)
theory Access_Transition
  imports Sample_Data
begin

text \<open>
  \<open>internal/accesspolicy/transition.go\<close>: when the gateway may leave its current path for a better one
  (\<open>EvaluateTransition\<close>), the persisted state of that decision, and the reconciliation of a host boot.
\<close>

section \<open>Data\<close>

record acc_policy =
  StartupBlockUntilQualified :: bool
  DirectServiceRefresh :: bool
  FailureHoldSeconds :: int
  RecoveryStableSeconds :: int
  SwitchCooldownSeconds :: int
  RankingGeneration :: int
  PolUpdatedAt :: string

record selection_runtime =
  PendingCandidateKey :: string
  PendingCandidateSince :: string
  LastSwitchAt :: string
  LastSwitchReason :: string
  TemporaryDirectOnly :: bool
  TemporaryDirectBootID :: string
  SelUpdatedAt :: string

record transition_input =
  CurrentKey :: string
  ProposedKey :: string
  CurrentHealthy :: bool
  HardFailure :: bool
  InPolicy :: acc_policy
  InRuntime :: selection_runtime
  InNow :: instant

record transition_decision =
  Allow :: bool
  TrackPending :: bool
  ClearPending :: bool
  TrReason :: string

record boot_reconciliation =
  NewBoot :: bool
  BootStartupBlock :: bool
  TemporaryDirectOnlyReset :: bool
  QualificationInvalidated :: bool

section \<open>The decision\<close>

definition decide :: "bool \<Rightarrow> bool \<Rightarrow> bool \<Rightarrow> string \<Rightarrow> transition_decision result" where
  "decide allow track clear reason = Inr \<lparr>Allow = allow, TrackPending = track, ClearPending = clear, TrReason = reason\<rparr>"

definition EvaluateTransition :: "transition_input \<Rightarrow> transition_decision result" where
  "EvaluateTransition input =
     (if blank (ProposedKey input) \<or> is_zero (InNow input) then
        Inl (ErrMsg ''proposed access candidate and current time are required'')
      else if ProposedKey input = CurrentKey input \<and> HardFailure input then
        decide True False True ''HARD_FAILURE_REACTIVATE''
      else if ProposedKey input = CurrentKey input then
        decide False False (PendingCandidateKey (InRuntime input) \<noteq> []) ''CURRENT_PATH_REMAINS_BEST''
      else if CurrentKey input = [] then decide True False True ''NO_ACTIVE_PATH''
      else if HardFailure input then decide True False True ''HARD_FAILURE_FAST_PATH''
      else
        let wait = (if CurrentHealthy input then seconds_dur (RecoveryStableSeconds (InPolicy input))
                    else seconds_dur (FailureHoldSeconds (InPolicy input)));
            reason = (if CurrentHealthy input then ''RECOVERY_STABLE'' else ''FAILURE_HOLD'')
        in
        if PendingCandidateKey (InRuntime input) \<noteq> ProposedKey input \<or> PendingCandidateSince (InRuntime input) = [] then
          decide False True False (reason @ ''_STARTED'')
        else case parse_time (PendingCandidateSince (InRuntime input)) of
            None \<Rightarrow> Inl (ErrMsg ''stored pending access candidate time is invalid'')
          | Some since \<Rightarrow>
              if since > InNow input then Inl (ErrMsg ''stored pending access candidate time is invalid'')
              else if time_sub (InNow input) since < wait then decide False False False (reason @ ''_PENDING'')
              else if LastSwitchAt (InRuntime input) \<noteq> [] then
                (case parse_time (LastSwitchAt (InRuntime input)) of
                   None \<Rightarrow> Inl (ErrMsg ''stored access switch time is invalid'')
                 | Some lastSwitch \<Rightarrow>
                     if lastSwitch > InNow input then Inl (ErrMsg ''stored access switch time is invalid'')
                     else if time_sub (InNow input) lastSwitch < seconds_dur (SwitchCooldownSeconds (InPolicy input)) then
                       decide False False False ''SWITCH_COOLDOWN''
                     else decide True False True (reason @ ''_SATISFIED''))
              else decide True False True (reason @ ''_SATISFIED''))"

section \<open>The persisted selection state\<close>

definition GetSelectionRuntime :: "fault \<Rightarrow> db \<Rightarrow> selection_runtime result" where
  "GetSelectionRuntime f D =
     (if f \<noteq> NoFault then Inl ErrDriver
      else case access_selection_runtime D of
        None \<Rightarrow> Inl ErrNoRows
      | Some r \<Rightarrow> Inr \<lparr>PendingCandidateKey = null_str (sr_pending_candidate_key r),
           PendingCandidateSince = null_str (sr_pending_candidate_since r), LastSwitchAt = null_str (sr_last_switch_at r),
           LastSwitchReason = null_str (sr_last_switch_reason r), TemporaryDirectOnly = sr_temporary_direct_only r,
           TemporaryDirectBootID = null_str (sr_temporary_direct_boot_id r), SelUpdatedAt = sr_updated_at r\<rparr>)"

text \<open>\<open>UPDATE access_selection_runtime SET ... WHERE singleton_id=1\<close>, outside or inside a transaction.\<close>

definition update_selection :: "(selection_row \<Rightarrow> selection_row) \<Rightarrow> db \<Rightarrow> db" where
  "update_selection change D = D\<lparr>access_selection_runtime := map_option change (access_selection_runtime D)\<rparr>"

definition exec_selection :: "fault \<Rightarrow> (selection_row \<Rightarrow> selection_row) \<Rightarrow> db \<Rightarrow> db \<times> unit result" where
  "exec_selection f change D = (if f \<noteq> NoFault then (D, Inl ErrDriver) else (update_selection change D, Inr ()))"

definition TrackPendingCandidate :: "instant \<Rightarrow> fault \<Rightarrow> string \<Rightarrow> db \<Rightarrow> db \<times> unit result" where
  "TrackPendingCandidate nowTime f candidateKey D =
     (if blank candidateKey \<or> 512 < length candidateKey then (D, Inl (ErrMsg ''pending access candidate key is invalid''))
      else let now = format_time nowTime in
        exec_selection f (\<lambda>r. r\<lparr>
          sr_pending_candidate_since := (if sr_pending_candidate_key r = Some candidateKey then sr_pending_candidate_since r else Some now),
          sr_pending_candidate_key := Some candidateKey, sr_updated_at := now\<rparr>) D)"

definition ClearPendingCandidate :: "instant \<Rightarrow> fault \<Rightarrow> db \<Rightarrow> db \<times> unit result" where
  "ClearPendingCandidate nowTime f D =
     (let now = format_time nowTime in
      exec_selection f (\<lambda>r. r\<lparr>sr_pending_candidate_key := None, sr_pending_candidate_since := None, sr_updated_at := now\<rparr>) D)"

definition MarkSwitched :: "instant \<Rightarrow> fault \<Rightarrow> string \<Rightarrow> db \<Rightarrow> db \<times> unit result" where
  "MarkSwitched nowTime f reason D =
     (if blank reason \<or> 128 < length reason then (D, Inl (ErrMsg ''access switch reason is invalid''))
      else let now = format_time nowTime in
        exec_selection f (\<lambda>r. r\<lparr>sr_pending_candidate_key := None, sr_pending_candidate_since := None,
          sr_last_switch_at := Some now, sr_last_switch_reason := Some reason, sr_updated_at := now\<rparr>) D)"

section \<open>Boot reconciliation\<close>

definition appendAccessEvent :: "string \<Rightarrow> string \<Rightarrow> (string \<times> json) list \<Rightarrow> db \<Rightarrow> db" where
  "appendAccessEvent now eventType details D = D\<lparr>events := events D @
     [\<lparr>e_occurred_at = now, e_severity = ''INFO'', e_type = eventType, e_uplink_id = None, e_modem_id = None,
       e_subscription_id = None, e_path_id = None, e_details_json = marshal details\<rparr>]\<rparr>"

definition char_in :: "char \<times> char \<Rightarrow> char \<Rightarrow> bool" where
  "char_in r x = (fst r \<le> x \<and> x \<le> snd r)"

definition safe_boot_char :: "char \<Rightarrow> bool" where
  "safe_boot_char x = (list_ex (\<lambda>r. char_in r x) [(CHR ''a'', CHR ''z''), (CHR ''A'', CHR ''Z''), (CHR ''0'', CHR ''9'')] \<or> x = CHR ''-'')"

definition safeBootID :: "string \<Rightarrow> bool" where
  "safeBootID s \<longleftrightarrow> s \<noteq> [] \<and> length s \<le> 64 \<and> list_all safe_boot_char s"

definition stale_sub_path :: "string \<Rightarrow> sub_path_row \<Rightarrow> sub_path_row" where
  "stale_sub_path now p = p\<lparr>p_state := ''STALE'', p_transport_state := ''UNKNOWN'', p_selected_node_id := None,
     p_candidate_nodes := 0, p_qualified_nodes := 0, p_required_passed := 0, p_required_total := 0,
     p_optional_passed := 0, p_optional_total := 0, p_quality_class := QualityUnknown, p_functional_score := 0,
     p_latency_ms := None, p_last_checked_at := None, p_expires_at := None, p_updated_at := now\<rparr>"

definition stale_path_node :: "path_node_row \<Rightarrow> path_node_row" where
  "stale_path_node n = n\<lparr>pn_qualification_state := ''STALE'', pn_expires_at := None, pn_latency_ms := None, pn_failure_code := None\<rparr>"

definition stale_direct_path :: "string \<Rightarrow> direct_path_row \<Rightarrow> direct_path_row" where
  "stale_direct_path now p = p\<lparr>d_state := ''STALE'', d_transport_state := ''UNKNOWN'', d_quality_class := QualityUnknown,
     d_functional_score := 0, d_required_passed := 0, d_required_total := 0, d_optional_passed := 0, d_optional_total := 0,
     d_whitelist_passed := 0, d_whitelist_total := 0, d_latency_ms := None, d_last_checked_at := None, d_expires_at := None,
     d_failure_code := None, d_updated_at := now\<rparr>"

definition invalidateBootQualification :: "string \<Rightarrow> db \<Rightarrow> db" where
  "invalidateBootQualification now D =
     D\<lparr>subscription_uplink_paths := map (stale_sub_path now) (subscription_uplink_paths D),
       uplink_path_nodes := map stale_path_node (uplink_path_nodes D),
       uplink_path_node_target_results := [],
       direct_uplink_paths := map (stale_direct_path now) (direct_uplink_paths D),
       direct_uplink_path_target_results := [],
       path_health_runtime := map (\<lambda>h. h\<lparr>h_next_probe_at := now, h_last_probe_at := None, h_last_result := ''UNKNOWN'',
          h_consecutive_successes := 0, h_consecutive_failures := 0, h_deferred_reason := None, h_updated_at := now\<rparr>)
          (path_health_runtime D)\<rparr>"

definition ReconcileBoot :: "instant \<Rightarrow> fault \<Rightarrow> string \<Rightarrow> db \<Rightarrow> db \<times> boot_reconciliation result" where
  "ReconcileBoot nowTime f bootID D =
     (if \<not> safeBootID bootID then (D, Inl (ErrMsg ''boot id is invalid''))
      else if f \<noteq> NoFault then (D, Inl ErrDriver)
      else case (access_policy D, access_selection_runtime D) of
        (Some p, Some r) \<Rightarrow>
          let newBoot = (sr_observed_boot_id r \<noteq> Some bootID);
              startup = ap_startup_block_until_qualified p;
              reset = (sr_temporary_direct_only r \<and> null_str (sr_temporary_direct_boot_id r) \<noteq> bootID);
              result = (\<lambda>inv. \<lparr>NewBoot = newBoot, BootStartupBlock = startup, TemporaryDirectOnlyReset = reset, QualificationInvalidated = inv\<rparr>)
          in if \<not> newBoot \<and> \<not> reset then (D, Inr (result False))
             else let now = format_time nowTime;
                      D1 = (if reset
                            then appendAccessEvent now ''TEMPORARY_DIRECT_ONLY_RESET_AFTER_REBOOT'' []
                                   (update_selection (\<lambda>r. r\<lparr>sr_temporary_direct_only := False, sr_temporary_direct_boot_id := None, sr_updated_at := now\<rparr>) D)
                            else D);
                      D2 = (if newBoot \<and> startup then invalidateBootQualification now D1 else D1);
                      D3 = (if newBoot
                            then appendAccessEvent now ''HOST_BOOT_RECONCILED''
                                   [(''startup_block_until_qualified'', JBool startup), (''qualification_invalidated'', JBool startup)]
                                   (update_selection (\<lambda>r. r\<lparr>sr_observed_boot_id := Some bootID, sr_pending_candidate_key := None,
                                      sr_pending_candidate_since := None, sr_updated_at := now\<rparr>) D2)
                            else D2)
                  in (D3, Inr (result (newBoot \<and> startup)))
      | _ \<Rightarrow> (D, Inl ErrNoRows))"

definition SetTemporaryDirectOnly :: "instant \<Rightarrow> fault \<Rightarrow> bool \<Rightarrow> string \<Rightarrow> db \<Rightarrow> db \<times> unit result" where
  "SetTemporaryDirectOnly nowTime f enabled bootID D =
     (if enabled \<and> \<not> safeBootID bootID then (D, Inl (ErrMsg ''boot id is required for temporary direct-only mode''))
      else if f \<noteq> NoFault then (D, Inl ErrDriver)
      else let now = format_time nowTime in
        (appendAccessEvent now ''TEMPORARY_DIRECT_ONLY_CHANGED'' [(''enabled'', JBool enabled)]
           (update_selection (\<lambda>r. r\<lparr>sr_temporary_direct_only := enabled,
              sr_temporary_direct_boot_id := (if enabled then Some bootID else None), sr_updated_at := now\<rparr>) D), Inr ()))"

section \<open>Hysteresis\<close>

text \<open>The bounds of \<open>validatePolicyUpdate\<close> and of the CHECKs on \<open>access_policy\<close>.\<close>

definition policy_in_bounds :: "acc_policy \<Rightarrow> bool" where
  "policy_in_bounds p \<longleftrightarrow> 0 \<le> FailureHoldSeconds p \<and> FailureHoldSeconds p \<le> 300
     \<and> 0 \<le> RecoveryStableSeconds p \<and> RecoveryStableSeconds p \<le> 3600
     \<and> 0 \<le> SwitchCooldownSeconds p \<and> SwitchCooldownSeconds p \<le> 3600"

definition hold_time :: "transition_input \<Rightarrow> duration" where
  "hold_time input = (if CurrentHealthy input then RecoveryStableSeconds (InPolicy input) else FailureHoldSeconds (InPolicy input)) * second"

lemma time_sub_ge: "u \<le> t \<Longrightarrow> 0 \<le> d \<Longrightarrow> d \<le> max_int64 \<Longrightarrow> time_sub t u < d \<longleftrightarrow> t - u < d"
  by (auto simp: time_sub_def int64_defs)

lemma time_sub_le: "u \<le> t \<Longrightarrow> 0 \<le> d \<Longrightarrow> d \<le> max_int64 \<Longrightarrow> d \<le> time_sub t u \<longleftrightarrow> d \<le> t - u"
  using time_sub_ge[of u t d] by linarith

lemma hold_bounds:
  assumes "policy_in_bounds (InPolicy input)"
  shows "0 \<le> hold_time input" "hold_time input \<le> max_int64"
    "(if CurrentHealthy input then seconds_dur (RecoveryStableSeconds (InPolicy input)) else seconds_dur (FailureHoldSeconds (InPolicy input))) = hold_time input"
    "seconds_dur (SwitchCooldownSeconds (InPolicy input)) = SwitchCooldownSeconds (InPolicy input) * second"
    "0 \<le> SwitchCooldownSeconds (InPolicy input) * second" "SwitchCooldownSeconds (InPolicy input) * second \<le> max_int64"
  using assms by (auto simp: hold_time_def policy_in_bounds_def int64_defs second_def)

text \<open>Since when the proposed candidate is pending, and when the last switch was, when the stored texts are valid.\<close>

definition pending_since :: "transition_input \<Rightarrow> instant option" where
  "pending_since input =
     (if PendingCandidateKey (InRuntime input) = ProposedKey input \<and> PendingCandidateSince (InRuntime input) \<noteq> []
      then parse_time (PendingCandidateSince (InRuntime input)) else None)"

definition cooled_down :: "transition_input \<Rightarrow> bool" where
  "cooled_down input \<longleftrightarrow> LastSwitchAt (InRuntime input) = []
     \<or> (case parse_time (LastSwitchAt (InRuntime input)) of
          None \<Rightarrow> False
        | Some t \<Rightarrow> t \<le> InNow input \<and> SwitchCooldownSeconds (InPolicy input) * second \<le> InNow input - t)"

text \<open>
  Property C27 (hysteresis of path changes): for a policy within its bounds, a running path that has not failed hard is
  left for another candidate exactly when that candidate has been pending for the whole stabilisation time (the
  failure hold when the running path is unhealthy) and the last switch is at least the cooldown ago.
\<close>

theorem EvaluateTransition_hysteresis:
  assumes "policy_in_bounds (InPolicy input)" and "\<not> blank (ProposedKey input)" and "\<not> is_zero (InNow input)"
    and "CurrentKey input \<noteq> []" and "ProposedKey input \<noteq> CurrentKey input" and "\<not> HardFailure input"
  shows "(\<exists>d. EvaluateTransition input = Inr d \<and> Allow d) \<longleftrightarrow>
         (\<exists>since. pending_since input = Some since \<and> since \<le> InNow input \<and> hold_time input \<le> InNow input - since)
         \<and> cooled_down input"
proof (cases "PendingCandidateKey (InRuntime input) = ProposedKey input \<and> PendingCandidateSince (InRuntime input) \<noteq> []")
  case False
  then show ?thesis using assms by (auto simp: EvaluateTransition_def decide_def pending_since_def Let_def)
next
  case True
  show ?thesis
  proof (cases "parse_time (PendingCandidateSince (InRuntime input))")
    case None
    then show ?thesis using assms True by (simp add: EvaluateTransition_def pending_since_def Let_def)
  next
    case (Some since)
    note b = hold_bounds[OF assms(1)]
    show ?thesis
    proof (cases "since \<le> InNow input")
      case False
      then show ?thesis using assms True Some by (simp add: EvaluateTransition_def pending_since_def Let_def)
    next
      case le: True
      show ?thesis
        using assms(2-6) True Some le
        by (simp add: EvaluateTransition_def pending_since_def Let_def b(3,4) time_sub_ge[OF le b(1,2)] decide_def cooled_down_def
            not_less split: option.split)
           (auto simp: time_sub_ge time_sub_le b(5,6) not_less)
    qed
  qed
qed

text \<open>
  Tracking the candidate that is already pending keeps the time since which it is
  pending, so that a stable candidate is eventually taken; tracking another one restarts the timer at the current time.
\<close>

theorem TrackPendingCandidate_timer:
  assumes "access_selection_runtime D = Some r" and "\<not> blank key" and "length key \<le> 512"
  shows "\<exists>r'. access_selection_runtime (fst (TrackPendingCandidate t NoFault key D)) = Some r'
           \<and> sr_pending_candidate_key r' = Some key
           \<and> sr_pending_candidate_since r' = (if sr_pending_candidate_key r = Some key then sr_pending_candidate_since r else Some (format_time t))"
  using assms by (simp add: TrackPendingCandidate_def exec_selection_def update_selection_def Let_def)

section \<open>Boots\<close>

lemma ReconcileBoot_observed:
  assumes "access_policy D = Some p" "access_selection_runtime D = Some r" "safeBootID boot"
  shows "\<exists>r'. access_selection_runtime (fst (ReconcileBoot t NoFault boot D)) = Some r'
    \<and> access_policy (fst (ReconcileBoot t NoFault boot D)) = Some p
    \<and> sr_observed_boot_id r' = Some boot
    \<and> (sr_temporary_direct_only r' \<longrightarrow> null_str (sr_temporary_direct_boot_id r') = boot)"
  by (cases "sr_observed_boot_id r = Some boot"; cases "sr_temporary_direct_only r \<and> null_str (sr_temporary_direct_boot_id r) \<noteq> boot";
      cases "ap_startup_block_until_qualified p")
     (use assms in \<open>auto simp: ReconcileBoot_def Let_def update_selection_def appendAccessEvent_def invalidateBootQualification_def\<close>)

text \<open>
  Boot reconciliation happens once per boot: after a reconciliation the observed boot is the current
  one and a temporary direct-only mode, if still set, belongs to it; repeating it with the same boot identifier changes nothing
  and reports neither a new boot nor a reset.
\<close>

theorem ReconcileBoot_once_per_boot:
  assumes "access_policy D = Some p" and "access_selection_runtime D = Some r" and "safeBootID boot"
  shows "\<exists>D' r'. fst (ReconcileBoot t NoFault boot D) = D' \<and> access_selection_runtime D' = Some r'
     \<and> sr_observed_boot_id r' = Some boot
     \<and> (sr_temporary_direct_only r' \<longrightarrow> null_str (sr_temporary_direct_boot_id r') = boot)
     \<and> ReconcileBoot t' NoFault boot D' = (D', Inr \<lparr>NewBoot = False, BootStartupBlock = ap_startup_block_until_qualified p,
           TemporaryDirectOnlyReset = False, QualificationInvalidated = False\<rparr>)"
proof -
  obtain r' where r': "access_selection_runtime (fst (ReconcileBoot t NoFault boot D)) = Some r'"
    "access_policy (fst (ReconcileBoot t NoFault boot D)) = Some p" "sr_observed_boot_id r' = Some boot"
    "sr_temporary_direct_only r' \<longrightarrow> null_str (sr_temporary_direct_boot_id r') = boot"
    using ReconcileBoot_observed[OF assms] by blast
  then have "ReconcileBoot t' NoFault boot (fst (ReconcileBoot t NoFault boot D))
      = (fst (ReconcileBoot t NoFault boot D), Inr \<lparr>NewBoot = False, BootStartupBlock = ap_startup_block_until_qualified p,
           TemporaryDirectOnlyReset = False, QualificationInvalidated = False\<rparr>)"
    using assms(3) by (auto simp: ReconcileBoot_def[of t' NoFault boot "fst (ReconcileBoot t NoFault boot D)"] Let_def)
  with r' show ?thesis by blast
qed

section \<open>Concrete inputs\<close>

definition sample_transition :: transition_input where
  "sample_transition = \<lparr>CurrentKey = ''a'', ProposedKey = ''b'', CurrentHealthy = True, HardFailure = False,
     InPolicy = \<lparr>StartupBlockUntilQualified = True, DirectServiceRefresh = True, FailureHoldSeconds = 30,
       RecoveryStableSeconds = 120, SwitchCooldownSeconds = 60, RankingGeneration = 1, PolUpdatedAt = text0\<rparr>,
     InRuntime = \<lparr>PendingCandidateKey = ''b'', PendingCandidateSince = text0, LastSwitchAt = text0, LastSwitchReason = ''x'',
       TemporaryDirectOnly = False, TemporaryDirectBootID = [], SelUpdatedAt = text0\<rparr>,
     InNow = now0 + 120 * second\<rparr>"

theorem EvaluateTransition_hysteresis_witness:
  "(\<exists>d. EvaluateTransition sample_transition = Inr d \<and> Allow d)
   \<and> \<not> (\<exists>d. EvaluateTransition (sample_transition\<lparr>InNow := now0 + 119 * second\<rparr>) = Inr d \<and> Allow d)"
proof -
  let ?early = "sample_transition\<lparr>InNow := now0 + 119 * second\<rparr>"
  have since: "pending_since sample_transition = Some now0" "pending_since ?early = Some now0" by code_simp+
  have cool: "cooled_down sample_transition" by code_simp
  have ok: "policy_in_bounds (InPolicy sample_transition)" "\<not> blank (ProposedKey sample_transition)"
    "\<not> is_zero (InNow sample_transition)" "\<not> is_zero (InNow ?early)" by code_simp+
  have "(\<exists>d. EvaluateTransition sample_transition = Inr d \<and> Allow d)"
    using since cool ok
    by (subst EvaluateTransition_hysteresis) (auto simp: sample_transition_def hold_time_def second_def)
  moreover have "\<not> (\<exists>d. EvaluateTransition ?early = Inr d \<and> Allow d)"
    using since ok
    by (subst EvaluateTransition_hysteresis) (auto simp: sample_transition_def hold_time_def second_def)
  ultimately show ?thesis by blast
qed

theorem TrackPendingCandidate_timer_witness:
  "\<exists>r'. access_selection_runtime (fst (TrackPendingCandidate now0 NoFault ''b'' db0)) = Some r'
      \<and> sr_pending_candidate_key r' = Some ''b''
      \<and> sr_pending_candidate_since r' = (if sr_pending_candidate_key selection0 = Some ''b'' then sr_pending_candidate_since selection0 else Some (format_time now0))"
proof -
  have "\<not> blank ''b''" by code_simp
  then show ?thesis by (intro TrackPendingCandidate_timer) (simp_all add: db0_def)
qed

theorem ReconcileBoot_once_per_boot_witness:
  "\<exists>D' r'. fst (ReconcileBoot now0 NoFault ''boot-1'' db0) = D' \<and> access_selection_runtime D' = Some r'
     \<and> sr_observed_boot_id r' = Some ''boot-1''
     \<and> (sr_temporary_direct_only r' \<longrightarrow> null_str (sr_temporary_direct_boot_id r') = ''boot-1'')
     \<and> ReconcileBoot now0 NoFault ''boot-1'' D' = (D', Inr \<lparr>NewBoot = False, BootStartupBlock = ap_startup_block_until_qualified policy0,
           TemporaryDirectOnlyReset = False, QualificationInvalidated = False\<rparr>)"
proof -
  have b: "safeBootID ''boot-1''" by code_simp
  have p: "access_policy db0 = Some policy0" and r: "access_selection_runtime db0 = Some selection0" by (simp_all add: db0_def)
  show ?thesis by (rule ReconcileBoot_once_per_boot[OF p r b])
qed

end
