(* ===== verification/Access_Methods.thy ===== *)
theory Access_Methods
  imports Access_Transition
begin

text \<open>
  \<open>internal/accesspolicy/repository.go\<close> and \<open>preferences.go\<close>: the table of access methods with its
  priorities, the policy singleton and the preferred node ranks. The unique index on the priorities of enabled
  methods (migration 000014) is checked by every UPDATE, as SQLite does, so that the two-phase reordering of
  \<open>ReorderEnabled\<close> has something to prove: with priorities that are multiples of ten it never violates the index.
\<close>

section \<open>The tables\<close>

record method_item =
  MiID :: string
  MiKind :: method_kind
  MiSubscriptionID :: string
  MiName :: string
  MiEnabled :: bool
  MiPriority :: int
  MiImmutable :: bool
  MiCreatedAt :: string
  MiUpdatedAt :: string

record policy_update =
  PuStartupBlock :: bool
  PuDirectServiceRefresh :: bool
  PuFailureHoldSeconds :: int
  PuRecoveryStableSeconds :: int
  PuSwitchCooldownSeconds :: int

text \<open>The unique index over the priorities of enabled methods and the CHECK on the priority.\<close>

definition methods_ok :: "method_row list \<Rightarrow> bool" where
  "methods_ok ms \<longleftrightarrow> list_all (\<lambda>m. 0 < m_priority m) ms \<and> distinct (map m_priority (filter m_enabled ms))"

definition exec_methods :: "(method_row \<Rightarrow> bool) \<Rightarrow> (method_row \<Rightarrow> method_row) \<Rightarrow> method_row list \<Rightarrow> (method_row list \<times> nat) result" where
  "exec_methods hit change ms =
     (let ms' = map (\<lambda>m. if hit m then change m else m) ms
      in if methods_ok ms' then Inr (ms', length (filter hit ms)) else Inl ErrConstraint)"

definition max_priority :: "method_row list \<Rightarrow> int" where
  "max_priority ms = (if ms = [] then 0 else Max (set (map m_priority ms)))"

section \<open>The policy singleton\<close>

definition policy_of_row :: "access_policy_row \<Rightarrow> acc_policy" where
  "policy_of_row p = \<lparr>StartupBlockUntilQualified = ap_startup_block_until_qualified p,
     DirectServiceRefresh = ap_direct_service_refresh_enabled p, FailureHoldSeconds = ap_failure_hold_seconds p,
     RecoveryStableSeconds = ap_recovery_stable_seconds p, SwitchCooldownSeconds = ap_switch_cooldown_seconds p,
     RankingGeneration = ap_ranking_generation p, PolUpdatedAt = ap_updated_at p\<rparr>"

definition GetPolicy :: "fault \<Rightarrow> db \<Rightarrow> acc_policy result" where
  "GetPolicy f D =
     (if f \<noteq> NoFault then Inl ErrDriver
      else case access_policy D of None \<Rightarrow> Inl ErrNoRows | Some p \<Rightarrow> Inr (policy_of_row p))"

definition validatePolicyUpdate :: "policy_update \<Rightarrow> unit result" where
  "validatePolicyUpdate input = guard_err
     (PuFailureHoldSeconds input < 0 \<or> PuFailureHoldSeconds input > 300
      \<or> PuRecoveryStableSeconds input < 0 \<or> PuRecoveryStableSeconds input > 3600
      \<or> PuSwitchCooldownSeconds input < 0 \<or> PuSwitchCooldownSeconds input > 3600)
     (ErrMsg ''access policy intervals are outside safe bounds'')"

definition bumpRankingGeneration :: "string \<Rightarrow> db \<Rightarrow> db result" where
  "bumpRankingGeneration now D = (case access_policy D of
     None \<Rightarrow> Inl (ErrMsg ''access policy singleton is missing'')
   | Some p \<Rightarrow> Inr (D\<lparr>access_policy := Some (p\<lparr>ap_ranking_generation := ap_ranking_generation p + 1, ap_updated_at := now\<rparr>)\<rparr>))"

definition UpdatePolicy :: "instant \<Rightarrow> fault \<Rightarrow> policy_update \<Rightarrow> db \<Rightarrow> db \<times> acc_policy result" where
  "UpdatePolicy nowTime f input D =
     (case validatePolicyUpdate input of
        Inl e \<Rightarrow> (D, Inl e)
      | Inr _ \<Rightarrow>
          if f = FaultTx then (D, Inl ErrDriver)
          else case access_policy D of
            None \<Rightarrow> (D, Inl (ErrMsg ''access policy singleton is missing''))
          | Some p \<Rightarrow>
              let now = format_time nowTime;
                  D1 = D\<lparr>access_policy := Some (p\<lparr>ap_startup_block_until_qualified := PuStartupBlock input,
                       ap_direct_service_refresh_enabled := PuDirectServiceRefresh input,
                       ap_failure_hold_seconds := PuFailureHoldSeconds input,
                       ap_recovery_stable_seconds := PuRecoveryStableSeconds input,
                       ap_switch_cooldown_seconds := PuSwitchCooldownSeconds input,
                       ap_ranking_generation := ap_ranking_generation p + 1, ap_updated_at := now\<rparr>)\<rparr>;
                  D2 = appendAccessEvent now ''ACCESS_POLICY_UPDATED''
                         [(''startup_block_until_qualified'', JBool (PuStartupBlock input)),
                          (''direct_service_refresh_enabled'', JBool (PuDirectServiceRefresh input)),
                          (''failure_hold_seconds'', JInt (PuFailureHoldSeconds input)),
                          (''recovery_stable_seconds'', JInt (PuRecoveryStableSeconds input)),
                          (''switch_cooldown_seconds'', JInt (PuSwitchCooldownSeconds input))] D1
              in (D2, GetPolicy f D2))"

section \<open>Listing, enabling and reordering methods\<close>

definition direct_method_name :: string where
  "direct_method_name = map char_of [208, 159, 209, 128, 209, 143, 208, 188, 208, 190, 208, 185, 32,
     208, 184, 208, 189, 209, 130, 208, 181, 209, 128, 208, 189, 208, 181, 209, 130 :: nat]"

definition method_order :: "method_row \<Rightarrow> method_row \<Rightarrow> bool" where
  "method_order a b = (if m_enabled a \<noteq> m_enabled b then m_enabled a
     else if m_priority a \<noteq> m_priority b then m_priority a < m_priority b else m_id a < m_id b)"

fun scan_methods :: "subscription_row list \<Rightarrow> method_row list \<Rightarrow> method_item list result" where
  "scan_methods subs [] = Inr []"
| "scan_methods subs (m # ms) =
     (let name = (if m_kind m = MethodDirect then Some direct_method_name
                  else map_option s_name (first_row (filter (\<lambda>s. m_subscription_id m = Some (s_id s)) subs)))
      in case name of
           None \<Rightarrow> Inl ErrDriver
         | Some n \<Rightarrow> bind_result (scan_methods subs ms) (\<lambda>rest.
             Inr (\<lparr>MiID = m_id m, MiKind = m_kind m, MiSubscriptionID = null_str (m_subscription_id m), MiName = n,
                   MiEnabled = m_enabled m, MiPriority = m_priority m, MiImmutable = m_immutable m,
                   MiCreatedAt = m_created_at m, MiUpdatedAt = m_updated_at m\<rparr> # rest)))"

definition ListMethods :: "fault \<Rightarrow> db \<Rightarrow> method_item list result" where
  "ListMethods f D = (if f \<noteq> NoFault then Inl ErrDriver
     else scan_methods (subscriptions D) (sort_stable method_order (access_methods D)))"

text \<open>The two UPDATEs that follow a change of a subscription method.\<close>

definition sync_subscription :: "string \<Rightarrow> bool \<Rightarrow> string \<Rightarrow> db \<Rightarrow> db" where
  "sync_subscription now enabled subID D =
     D\<lparr>subscriptions := map (\<lambda>s. if s_id s = subID
          then s\<lparr>s_enabled := enabled, s_status := (if enabled then ''UNKNOWN'' else ''DISABLED''), s_updated_at := now\<rparr> else s)
          (subscriptions D),
       subscription_uplink_paths := map (\<lambda>p. if p_subscription_id p = subID
          then p\<lparr>p_state := (if enabled then ''UNTESTED'' else ''SUBSCRIPTION_DISABLED''), p_transport_state := ''UNKNOWN'',
                 p_selected_node_id := None, p_qualified_nodes := 0, p_required_passed := 0, p_expires_at := None, p_updated_at := now\<rparr>
          else p) (subscription_uplink_paths D)\<rparr>"

definition SetMethodEnabled :: "instant \<Rightarrow> fault \<Rightarrow> string \<Rightarrow> bool \<Rightarrow> db \<Rightarrow> db \<times> unit result" where
  "SetMethodEnabled nowTime f methodID enabled D =
     (if blank methodID then (D, Inl (ErrMsg ''access policy database and method id are required''))
      else if f \<noteq> NoFault then (D, Inl ErrDriver)
      else case first_row (filter (\<lambda>m. m_id m = methodID) (access_methods D)) of
        None \<Rightarrow> (D, Inl ErrNotFound)
      | Some row \<Rightarrow>
          if enabled = m_enabled row then (D, Inr ())
          else let priority = (if enabled then max_priority (filter m_enabled (access_methods D)) + 10 else m_priority row);
                   now = format_time nowTime
               in case exec_methods (\<lambda>m. m_id m = methodID)
                         (\<lambda>m. m\<lparr>m_enabled := enabled, m_priority := priority, m_updated_at := now\<rparr>) (access_methods D) of
                    Inl e \<Rightarrow> (D, Inl e)
                  | Inr (ms, _) \<Rightarrow>
                      let D1 = D\<lparr>access_methods := ms\<rparr>;
                          D2 = (if m_kind row = MethodSubscription then sync_subscription now enabled (null_str (m_subscription_id row)) D1 else D1)
                      in case bumpRankingGeneration now D2 of
                           Inl e \<Rightarrow> (D, Inl e)
                         | Inr D3 \<Rightarrow>
                             (appendAccessEvent now ''ACCESS_METHOD_ENABLED_CHANGED''
                                [(''method_id'', JStr methodID), (''kind'', JStr (method_text (m_kind row))),
                                 (''enabled'', JBool enabled), (''priority'', JInt priority)] D3, Inr ()))"

fun valid_id_list :: "string list \<Rightarrow> string list \<Rightarrow> bool" where
  "valid_id_list seen [] \<longleftrightarrow> True"
| "valid_id_list seen (i # ids) \<longleftrightarrow> \<not> blank i \<and> i \<notin> set seen \<and> valid_id_list (i # seen) ids"

definition validateEnabledMethods :: "string list \<Rightarrow> method_row list \<Rightarrow> unit result" where
  "validateEnabledMethods orderedIDs ms =
     (let enabled = map m_id (filter m_enabled ms)
      in guard_err (\<not> valid_id_list [] orderedIDs \<or> \<not> list_all (\<lambda>i. i \<in> set orderedIDs) enabled
                    \<or> length enabled \<noteq> length orderedIDs) ErrPrioritySetMismatch)"

text \<open>First loop: every priority is moved above all priorities in use.\<close>

fun stage_priorities :: "int \<Rightarrow> int \<Rightarrow> string list \<Rightarrow> method_row list \<Rightarrow> method_row list result" where
  "stage_priorities maximum index [] ms = Inr ms"
| "stage_priorities maximum index (i # ids) ms =
     bind_result (exec_methods (\<lambda>m. m_id m = i \<and> m_enabled m)
         (\<lambda>m. m\<lparr>m_priority := wrap64 (maximum + index + 1)\<rparr>) ms) (\<lambda>(ms', _).
       stage_priorities maximum (index + 1) ids ms')"

text \<open>Second loop: the final priorities 10, 20, and so on.\<close>

fun assign_priorities :: "string \<Rightarrow> int \<Rightarrow> string list \<Rightarrow> method_row list \<Rightarrow> method_row list result" where
  "assign_priorities now index [] ms = Inr ms"
| "assign_priorities now index (i # ids) ms =
     bind_result (exec_methods (\<lambda>m. m_id m = i \<and> m_enabled m)
         (\<lambda>m. m\<lparr>m_priority := (index + 1) * 10, m_updated_at := now\<rparr>) ms) (\<lambda>(ms', count).
       if count \<noteq> 1 then Inl ErrPrioritySetMismatch else assign_priorities now (index + 1) ids ms')"

definition ReorderEnabled :: "instant \<Rightarrow> fault \<Rightarrow> string list \<Rightarrow> db \<Rightarrow> db \<times> unit result" where
  "ReorderEnabled nowTime f orderedIDs D =
     (if f \<noteq> NoFault then (D, Inl ErrDriver)
      else let now = format_time nowTime; ms = access_methods D in
        case bind_result (validateEnabledMethods orderedIDs ms) (\<lambda>_.
             bind_result (stage_priorities (max_priority ms) 0 orderedIDs ms) (\<lambda>staged.
             bind_result (assign_priorities now 0 orderedIDs staged) (\<lambda>final.
             bind_result (bumpRankingGeneration now (D\<lparr>access_methods := final\<rparr>)) (\<lambda>D1.
               Inr (appendAccessEvent now ''ACCESS_METHODS_REORDERED'' [(''ordered_method_ids'', JStrs orderedIDs)] D1))))) of
          Inl e \<Rightarrow> (D, Inl e)
        | Inr D' \<Rightarrow> (D', Inr ()))"

section \<open>Preferred nodes\<close>

definition rankable_preferences :: "string \<Rightarrow> string \<Rightarrow> db \<Rightarrow> nat" where
  "rankable_preferences subscriptionID fingerprint D = length
     [() . p \<leftarrow> subscription_node_preferences D, s \<leftarrow> subscriptions D, s_id s = f_subscription_id p,
        n \<leftarrow> nodes D, s_active_version_id s = Some (n_version_id n) \<and> n_fingerprint n = f_fingerprint p,
        f_subscription_id p = subscriptionID \<and> f_fingerprint p = fingerprint
        \<and> f_selection_override p \<noteq> ''exclude'' \<and> n_enabled n \<and> n_selection_override n \<noteq> ''exclude'']"

text \<open>The CHECK on the rank and the unique index over (subscription, rank).\<close>

definition preferences_ok :: "preference_row list \<Rightarrow> bool" where
  "preferences_ok ps \<longleftrightarrow> list_all (\<lambda>p. case f_preferred_rank p of None \<Rightarrow> True | Some r \<Rightarrow> 0 < r) ps
     \<and> distinct (map (\<lambda>p. (f_subscription_id p, f_preferred_rank p)) (filter (\<lambda>p. f_preferred_rank p \<noteq> None) ps))"

fun assign_ranks :: "string \<Rightarrow> string \<Rightarrow> int \<Rightarrow> string list \<Rightarrow> preference_row list \<Rightarrow> preference_row list result" where
  "assign_ranks now sub index [] ps = Inr ps"
| "assign_ranks now sub index (x # xs) ps =
     (let hit = (\<lambda>p. f_subscription_id p = sub \<and> f_fingerprint p = x);
          ps' = map (\<lambda>p. if hit p then p\<lparr>f_preferred_rank := Some ((index + 1) * 10), f_updated_at := now\<rparr> else p) ps
      in if \<not> preferences_ok ps' then Inl ErrConstraint
         else if length (filter hit ps) \<noteq> 1 then Inl ErrPrioritySetMismatch
         else assign_ranks now sub (index + 1) xs ps')"

definition ReorderPreferred :: "instant \<Rightarrow> fault \<Rightarrow> string \<Rightarrow> string list \<Rightarrow> db \<Rightarrow> db \<times> unit result" where
  "ReorderPreferred nowTime f subscriptionID fingerprints D =
     (if blank subscriptionID then (D, Inl (ErrMsg ''preference database and subscription id are required''))
      else if \<not> valid_id_list [] fingerprints then (D, Inl ErrPrioritySetMismatch)
      else if f \<noteq> NoFault then (D, Inl ErrDriver)
      else if length (filter (\<lambda>s. s_id s = subscriptionID) (subscriptions D)) \<noteq> 1 then (D, Inl ErrNotFound)
      else if \<not> list_all (\<lambda>x. rankable_preferences subscriptionID x D = 1) fingerprints then (D, Inl ErrPrioritySetMismatch)
      else let now = format_time nowTime;
               cleared = map (\<lambda>p. if f_subscription_id p = subscriptionID \<and> f_preferred_rank p \<noteq> None
                                  then p\<lparr>f_preferred_rank := None, f_updated_at := now\<rparr> else p) (subscription_node_preferences D)
           in case bind_result (assign_ranks now subscriptionID 0 fingerprints cleared) (\<lambda>ps.
                   bind_result (bumpRankingGeneration now (D\<lparr>subscription_node_preferences := ps\<rparr>)) (\<lambda>D1.
                     Inr (appendAccessEvent now ''SUBSCRIPTION_NODE_PRIORITY_REORDERED''
                            [(''subscription_id'', JStr subscriptionID), (''fingerprints'', JStrs fingerprints)] D1))) of
                Inl e \<Rightarrow> (D, Inl e)
              | Inr D' \<Rightarrow> (D', Inr ()))"

section \<open>Facts about updates by id\<close>

lemma valid_id_list_iff: "valid_id_list seen ids \<longleftrightarrow> list_all (\<lambda>i. \<not> blank i) ids \<and> distinct ids \<and> set ids \<inter> set seen = {}"
  by (induction ids arbitrary: seen) auto

lemma distinct_key_update:
  assumes "distinct (map key xs)" and "distinct (map val (filter sel xs))"
    and "\<And>x. x \<in> set xs \<Longrightarrow> key (change x) = key x \<and> sel (change x) = sel x"
    and "\<And>x. x \<in> set xs \<Longrightarrow> key x = k \<Longrightarrow> sel x \<Longrightarrow> val (change x) = v"
    and "\<And>x. x \<in> set xs \<Longrightarrow> sel x \<Longrightarrow> key x \<noteq> k \<Longrightarrow> val x \<noteq> v"
  shows "distinct (map val (filter sel (map (\<lambda>x. if key x = k \<and> sel x then change x else x) xs)))"
  using assms
proof (induction xs)
  case (Cons x xs)
  let ?f = "\<lambda>x. if key x = k \<and> sel x then change x else x"
  have ih: "distinct (map val (filter sel (map ?f xs)))" using Cons by (intro Cons.IH) (auto split: if_splits)
  have sel: "sel (?f y) = sel y" if "y \<in> set (x # xs)" for y using Cons.prems(3)[OF that] by simp
  show ?case
  proof (cases "sel x")
    case False
    then show ?thesis using ih by simp
  next
    case True
    have "val (?f x) \<noteq> val (?f y)" if y: "y \<in> set xs" "sel y" for y
    proof -
      have ne: "key x \<noteq> key y" using Cons.prems(1) y by (auto simp: image_iff)
      have vne: "val x \<noteq> val y" using Cons.prems(2) True y by (auto simp: image_iff)
      show ?thesis
        using ne vne True y Cons.prems(4)[of x] Cons.prems(4)[of y] Cons.prems(5)[of x] Cons.prems(5)[of y]
        by (auto split: if_splits)
    qed
    moreover have "set (map val (filter sel (map ?f xs))) \<subseteq> (\<lambda>y. val (?f y)) ` {y \<in> set xs. sel y}"
      using sel by (auto simp: image_iff)
    ultimately have "val (?f x) \<notin> set (map val (filter sel (map ?f xs)))" by (blast dest: subsetD)
    then show ?thesis using ih True sel[of x] by (simp del: set_map)
  qed
qed simp

definition static_of :: "method_row \<Rightarrow> string \<times> bool" where "static_of m = (m_id m, m_enabled m)"

lemma exec_methods_priority:
  assumes "distinct (map m_id ms)" and "methods_ok ms" and "0 < x"
    and "\<And>m. m \<in> set ms \<Longrightarrow> m_enabled m \<Longrightarrow> m_id m \<noteq> i \<Longrightarrow> m_priority m \<noteq> x"
    and "\<And>m. m_priority (change m) = x \<and> m_id (change m) = m_id m \<and> m_enabled (change m) = m_enabled m"
  shows "exec_methods (\<lambda>m. m_id m = i \<and> m_enabled m) change ms
       = Inr (map (\<lambda>m. if m_id m = i \<and> m_enabled m then change m else m) ms, length (filter (\<lambda>m. m_id m = i \<and> m_enabled m) ms))"
proof -
  let ?ms = "map (\<lambda>m. if m_id m = i \<and> m_enabled m then change m else m) ms"
  have "distinct (map m_priority (filter m_enabled ?ms))"
    using assms by (intro distinct_key_update[where v = x]) (auto simp: methods_ok_def)
  moreover have "list_all (\<lambda>m. 0 < m_priority m) ?ms"
    using assms(2,3,5) by (auto simp: methods_ok_def list_all_iff)
  ultimately show ?thesis by (simp add: exec_methods_def methods_ok_def)
qed

lemma enabled_ids: "m_id ` {m \<in> set ms. m_enabled m} = fst ` {s \<in> set (map static_of ms). snd s}"
  by (force simp: static_of_def)

lemma static_distinct: "distinct (map m_id ms) = distinct (map fst (map static_of ms))"
  by (simp add: static_of_def comp_def)

lemma count_unique_id:
  assumes "distinct (map m_id ms)" and "i \<in> m_id ` {m \<in> set ms. m_enabled m}"
  shows "length (filter (\<lambda>m. m_id m = i \<and> m_enabled m) ms) = 1"
proof -
  obtain m where m: "m \<in> set ms" "m_enabled m" "m_id m = i" using assms(2) by auto
  have "filter (\<lambda>m. m_id m = i \<and> m_enabled m) ms = [m]"
    using assms(1) m
  proof (induction ms)
    case (Cons y ys)
    show ?case
    proof (cases "y = m")
      case True
      have "filter (\<lambda>m. m_id m = i \<and> m_enabled m) ys = []"
        using Cons.prems True by (auto simp: filter_empty_conv image_iff)
      with True m show ?thesis by simp
    next
      case False
      with Cons have "m_id y \<noteq> i" by (auto simp: image_iff)
      with False Cons show ?thesis by auto
    qed
  qed simp
  then show ?thesis by simp
qed

section \<open>Reordering succeeds\<close>

lemma stage_priorities_ok:
  assumes "distinct (map m_id ms)" and "methods_ok ms" and "0 \<le> M" and "0 \<le> k"
    and "M + k + int (length ids) \<le> max_int64"
    and "\<And>m. m \<in> set ms \<Longrightarrow> m_enabled m \<Longrightarrow> m_priority m \<le> M + k"
    and "\<And>m. m \<in> set ms \<Longrightarrow> m_enabled m \<Longrightarrow> m_id m \<notin> set ids \<Longrightarrow> M < m_priority m"
  shows "\<exists>ms'. stage_priorities M k ids ms = Inr ms' \<and> map static_of ms' = map static_of ms \<and> methods_ok ms'
           \<and> (\<forall>m\<in>set ms'. m_enabled m \<longrightarrow> M < m_priority m)"
  using assms
proof (induction ids arbitrary: ms k)
  case Nil
  then show ?case by auto
next
  case (Cons i ids)
  define x where "x = wrap64 (M + k + 1)"
  have x: "x = M + k + 1" unfolding x_def using Cons.prems(3-5) by (intro wrap64_id) (simp add: int64_defs)
  let ?change = "\<lambda>m. m\<lparr>m_priority := x\<rparr>"
  let ?ms = "map (\<lambda>m. if m_id m = i \<and> m_enabled m then ?change m else m) ms"
  have e: "exec_methods (\<lambda>m. m_id m = i \<and> m_enabled m) ?change ms = Inr (?ms, length (filter (\<lambda>m. m_id m = i \<and> m_enabled m) ms))"
    using Cons.prems(1-4,6) x by (intro exec_methods_priority) (auto dest!: Cons.prems(6))
  have ok: "methods_ok ?ms" using e by (auto simp: exec_methods_def Let_def split: if_splits)
  have st: "map static_of ?ms = map static_of ms" by (simp add: static_of_def)
  then have d: "distinct (map m_id ?ms)" using Cons.prems(1) by (simp only: static_distinct)
  have "\<exists>ms'. stage_priorities M (k + 1) ids ?ms = Inr ms' \<and> map static_of ms' = map static_of ?ms \<and> methods_ok ms'
           \<and> (\<forall>m\<in>set ms'. m_enabled m \<longrightarrow> M < m_priority m)"
  proof (rule Cons.IH[OF d ok Cons.prems(3)])
    show "0 \<le> k + 1" "M + (k + 1) + int (length ids) \<le> max_int64" using Cons.prems(4,5) by simp_all
    show "m_priority m \<le> M + (k + 1)" if "m \<in> set ?ms" "m_enabled m" for m
      using that x Cons.prems(6) by (force split: if_splits)
    show "M < m_priority m" if "m \<in> set ?ms" "m_enabled m" "m_id m \<notin> set ids" for m
      using that x Cons.prems(4,7) by (auto split: if_splits)
  qed
  with st e show ?case by (auto simp: x_def)
qed

text \<open>Where the second loop is: the processed ids have their final priority, the others are above all of them.\<close>

definition assign_inv :: "string list \<Rightarrow> string list \<Rightarrow> method_row list \<Rightarrow> bool" where
  "assign_inv done todo ms \<longleftrightarrow> (\<forall>m\<in>set ms. m_enabled m \<longrightarrow>
     (\<exists>j<length done. m_id m = done ! j \<and> m_priority m = (int j + 1) * 10)
     \<or> m_id m \<in> set todo \<and> int (length done + length todo) * 10 < m_priority m)"

lemma assign_priorities_ok:
  assumes "distinct (map m_id ms)" and "methods_ok ms" and "distinct (done @ todo)"
    and "set todo \<subseteq> m_id ` {m \<in> set ms. m_enabled m}" and "assign_inv done todo ms"
  shows "\<exists>ms'. assign_priorities now (int (length done)) todo ms = Inr ms' \<and> map static_of ms' = map static_of ms
           \<and> methods_ok ms' \<and> assign_inv (done @ todo) [] ms'"
  using assms
proof (induction todo arbitrary: ms "done")
  case Nil
  then show ?case by auto
next
  case (Cons i todo)
  define x where "x = (int (length done) + 1) * 10"
  let ?change = "\<lambda>m. m\<lparr>m_priority := x, m_updated_at := now\<rparr>"
  let ?hit = "\<lambda>m. m_id m = i \<and> m_enabled m"
  let ?ms = "map (\<lambda>m. if ?hit m then ?change m else m) ms"
  have fresh: "m_priority m \<noteq> x" if "m \<in> set ms" "m_enabled m" "m_id m \<noteq> i" for m
    using Cons.prems(5) that by (auto simp: assign_inv_def x_def)
  have e: "exec_methods ?hit ?change ms = Inr (?ms, length (filter ?hit ms))"
    using Cons.prems(1,2) fresh by (intro exec_methods_priority) (auto simp: x_def)
  have ok: "methods_ok ?ms" using e by (auto simp: exec_methods_def Let_def split: if_splits)
  have one: "length (filter ?hit ms) = 1" using Cons.prems(1,4) by (intro count_unique_id) auto
  have "assign_inv (done @ [i]) todo ?ms"
    unfolding assign_inv_def
  proof (intro ballI impI)
    fix m assume "m \<in> set ?ms" "m_enabled m"
    then obtain m0 where m0: "m0 \<in> set ms" "m = (if ?hit m0 then ?change m0 else m0)" "m_enabled m0"
      by (auto split: if_splits)
    show "(\<exists>j<length (done @ [i]). m_id m = (done @ [i]) ! j \<and> m_priority m = (int j + 1) * 10)
       \<or> m_id m \<in> set todo \<and> int (length (done @ [i]) + length todo) * 10 < m_priority m"
    proof (cases "m_id m0 = i")
      case True
      then show ?thesis using m0 by (intro disjI1 exI[of _ "length done"]) (auto simp: x_def)
    next
      case False
      from Cons.prems(5) m0(1,3) consider
          j where "j < length done" "m_id m0 = done ! j" "m_priority m0 = (int j + 1) * 10"
        | "m_id m0 \<in> set (i # todo)" "int (length done + length (i # todo)) * 10 < m_priority m0"
        unfolding assign_inv_def by blast
      then show ?thesis
      proof cases
        case 1
        then show ?thesis using False m0 by (intro disjI1 exI[of _ j]) (auto simp: nth_append)
      next
        case 2
        then show ?thesis using False m0 by auto
      qed
    qed
  qed
  note inv = this
  have st: "map static_of ?ms = map static_of ms" by (simp add: static_of_def)
  then have d: "distinct (map m_id ?ms)" and en: "m_id ` {m \<in> set ?ms. m_enabled m} = m_id ` {m \<in> set ms. m_enabled m}"
    using Cons.prems(1) by (simp_all only: static_distinct enabled_ids)
  have "\<exists>ms'. assign_priorities now (int (length (done @ [i]))) todo ?ms = Inr ms' \<and> map static_of ms' = map static_of ?ms
           \<and> methods_ok ms' \<and> assign_inv ((done @ [i]) @ todo) [] ms'"
    using Cons.prems(3,4) by (intro Cons.IH[OF d ok _ _ inv]) (auto simp only: en distinct_append append_assoc append_Cons append_Nil list.set insert_subset)
  with st e one show ?case by (auto simp: x_def add.commute)
qed

section \<open>The method table\<close>

definition methods_inv :: "method_row list \<Rightarrow> bool" where
  "methods_inv ms \<longleftrightarrow> distinct (map m_id ms) \<and> methods_ok ms \<and> (\<forall>m\<in>set ms. m_enabled m \<longrightarrow> 10 dvd m_priority m)"

lemma max_priority_ge: "m \<in> set ms \<Longrightarrow> m_priority m \<le> max_priority ms"
  by (auto simp: max_priority_def)

lemma max_priority_nonneg: "methods_ok ms \<Longrightarrow> 0 \<le> max_priority ms"
  by (cases ms) (auto simp: max_priority_def methods_ok_def intro: order_trans[OF less_imp_le max.cobounded1] order_trans[OF less_imp_le Max_ge])

lemma card_tens: "finite S \<Longrightarrow> \<forall>x\<in>S. 0 < x \<and> x \<le> M \<and> 10 dvd x \<Longrightarrow> 10 * int (card S) \<le> (M :: int)" if "0 \<le> M"
proof -
  assume "finite S" and S: "\<forall>x\<in>S. 0 < x \<and> x \<le> M \<and> 10 dvd x"
  have "inj_on (\<lambda>x. x div 10) S" using S by (intro inj_onI) (metis dvd_div_eq_iff)
  then have "card S = card ((\<lambda>x. x div 10) ` S)" by (simp add: card_image)
  also have "\<dots> \<le> card {1..M div 10}"
    using S by (intro card_mono) (auto simp: zdiv_mono1 elim!: dvdE)
  finally show ?thesis using that by simp
qed

lemma enabled_count_bound:
  assumes "methods_inv ms"
  shows "10 * int (length (filter m_enabled ms)) \<le> max_priority ms"
proof -
  let ?S = "m_priority ` {m \<in> set ms. m_enabled m}"
  have "card ?S = length (filter m_enabled ms)"
    using assms distinct_card[of "map m_priority (filter m_enabled ms)"] by (simp add: methods_inv_def methods_ok_def)
  moreover have "\<forall>x\<in>?S. 0 < x \<and> x \<le> max_priority ms \<and> 10 dvd x"
    using assms max_priority_ge by (auto simp: methods_inv_def methods_ok_def list_all_iff)
  ultimately show ?thesis
    using card_tens[of "max_priority ms" ?S] max_priority_nonneg assms by (auto simp: methods_inv_def)
qed

lemma reorder_loops:
  assumes "methods_inv ms" and "validateEnabledMethods ids ms = Inr ()" and "max_priority ms + int (length ids) \<le> max_int64"
  obtains staged final where "stage_priorities (max_priority ms) 0 ids ms = Inr staged" "assign_priorities now 0 ids staged = Inr final"
    "map static_of final = map static_of ms" "methods_ok final" "assign_inv ids [] final" "distinct ids"
    "set ids = m_id ` {m \<in> set ms. m_enabled m}"
proof -
  have v: "distinct ids" "\<forall>m\<in>set ms. m_enabled m \<longrightarrow> m_id m \<in> set ids" "length (filter m_enabled ms) = length ids"
    using assms(2) by (auto simp: validateEnabledMethods_def Let_def guard_err_def valid_id_list_iff list_all_iff split: if_splits)
  let ?E = "m_id ` {m \<in> set ms. m_enabled m}"
  have "distinct (map m_id (filter m_enabled ms))" using assms(1) by (simp add: methods_inv_def distinct_map_filter)
  then have "card ?E = length ids" using v(3) distinct_card[of "map m_id (filter m_enabled ms)"] by simp
  moreover have "?E \<subseteq> set ids" using v(2) by auto
  ultimately have E: "set ids = ?E" using v(1) by (metis card_subset_eq List.finite_set distinct_card)
  have d: "distinct (map m_id ms)" and ok: "methods_ok ms" using assms(1) by (simp_all add: methods_inv_def)
  obtain staged where st: "stage_priorities (max_priority ms) 0 ids ms = Inr staged" "map static_of staged = map static_of ms"
    "methods_ok staged" "\<forall>m\<in>set staged. m_enabled m \<longrightarrow> max_priority ms < m_priority m"
    using stage_priorities_ok[OF d ok max_priority_nonneg[OF ok] order_refl, of ids] assms(3) max_priority_ge v(2) by auto
  have en: "m_id ` {m \<in> set staged. m_enabled m} = ?E" using st(2) by (simp only: enabled_ids)
  have bound: "10 * int (length ids) \<le> max_priority ms" using enabled_count_bound[OF assms(1)] v(3) by simp
  have "assign_inv [] ids staged"
    unfolding assign_inv_def using st(4) en E bound by fastforce
  moreover have "distinct (map m_id staged)" using d st(2) by (simp only: static_distinct)
  ultimately obtain final where "assign_priorities now 0 ids staged = Inr final" "map static_of final = map static_of staged"
    "methods_ok final" "assign_inv ids [] final"
    using assign_priorities_ok[of staged "[]" ids now] st(3) v(1) en E by auto
  with st that v(1) E show thesis by simp
qed

lemma assign_inv_final:
  assumes "assign_inv ids [] ms" and "distinct ids" and "set ids = m_id ` {m \<in> set ms. m_enabled m}"
  shows "\<forall>m\<in>set ms. m_enabled m \<longrightarrow> 10 dvd m_priority m"
    and "j < length ids \<Longrightarrow> \<exists>m\<in>set ms. m_id m = ids ! j \<and> m_enabled m \<and> m_priority m = 10 * (int j + 1)"
proof -
  show "\<forall>m\<in>set ms. m_enabled m \<longrightarrow> 10 dvd m_priority m" using assms(1) by (fastforce simp: assign_inv_def)
  assume j: "j < length ids"
  then obtain m where m: "m \<in> set ms" "m_enabled m" "m_id m = ids ! j" using assms(3) by (metis (no_types, lifting) imageE mem_Collect_eq nth_mem)
  then obtain k where "k < length ids" "m_id m = ids ! k" "m_priority m = (int k + 1) * 10"
    using assms(1) unfolding assign_inv_def by (metis empty_iff list.set(1))
  with m j assms(2) show "\<exists>m\<in>set ms. m_id m = ids ! j \<and> m_enabled m \<and> m_priority m = 10 * (int j + 1)"
    by (metis mult.commute nth_eq_iff_index_eq)
qed

text \<open>
  Reordering is total on valid input: for a method table whose enabled priorities are multiples of ten (what
  every allocation in the code produces), \<open>ReorderEnabled\<close> with a list that names each enabled method once never violates the
  unique priority index in either of its two loops; it assigns 10, 20, 30, ... in the order of the list, keeps the
  table well-formed and raises the ranking generation by one.
\<close>

theorem ReorderEnabled_succeeds:
  assumes "methods_inv (access_methods D)" and "access_policy D = Some p"
    and "validateEnabledMethods ids (access_methods D) = Inr ()"
    and "max_priority (access_methods D) + int (length ids) \<le> max_int64"
  shows "\<exists>D'. ReorderEnabled t NoFault ids D = (D', Inr ()) \<and> methods_inv (access_methods D')
     \<and> (\<forall>j<length ids. \<exists>m\<in>set (access_methods D'). m_id m = ids ! j \<and> m_enabled m \<and> m_priority m = 10 * (int j + 1))
     \<and> (\<exists>p'. access_policy D' = Some p' \<and> ap_ranking_generation p' = ap_ranking_generation p + 1)"
proof -
  obtain staged final where l: "stage_priorities (max_priority (access_methods D)) 0 ids (access_methods D) = Inr staged"
    "assign_priorities (format_time t) 0 ids staged = Inr final" "map static_of final = map static_of (access_methods D)"
    "methods_ok final" "assign_inv ids [] final" "distinct ids" "set ids = m_id ` {m \<in> set (access_methods D). m_enabled m}"
    by (rule reorder_loops[OF assms(1,3,4), where now = "format_time t"])
  have E: "set ids = m_id ` {m \<in> set final. m_enabled m}" using l(3,7) by (simp only: enabled_ids)
  have "distinct (map m_id final)" using assms(1) l(3) by (simp only: static_distinct methods_inv_def)
  then have inv: "methods_inv final" using l(4) assign_inv_final(1)[OF l(5,6) E] by (simp add: methods_inv_def)
  have run: "ReorderEnabled t NoFault ids D = (appendAccessEvent (format_time t) ''ACCESS_METHODS_REORDERED'' [(''ordered_method_ids'', JStrs ids)]
      (D\<lparr>access_methods := final, access_policy := Some (p\<lparr>ap_ranking_generation := ap_ranking_generation p + 1, ap_updated_at := format_time t\<rparr>)\<rparr>), Inr ())"
    using assms(2,3) l(1,2) by (simp add: ReorderEnabled_def Let_def bumpRankingGeneration_def)
  show ?thesis
    unfolding run using inv assign_inv_final(2)[OF l(5,6) E] by (simp add: appendAccessEvent_def)
qed

lemma sample_methods: "methods_inv [sub_method0, direct_method0]"
  "validateEnabledMethods [''access:direct'', ''access:subscription:s1''] [sub_method0, direct_method0] = Inr ()"
  by code_simp+

theorem ReorderEnabled_succeeds_witness:
  "\<exists>D'. ReorderEnabled now0 NoFault [''access:direct'', ''access:subscription:s1''] db0 = (D', Inr ()) \<and> methods_inv (access_methods D')
     \<and> (\<exists>p'. access_policy D' = Some p' \<and> ap_ranking_generation p' = ap_ranking_generation policy0 + 1)"
proof -
  have m: "access_methods db0 = [sub_method0, direct_method0]" and p: "access_policy db0 = Some policy0" by (simp_all add: db0_def)
  have "max_priority (access_methods db0) + int (length [''access:direct'', ''access:subscription:s1'']) \<le> max_int64"
    by (simp add: m max_priority_def sub_method0_def direct_method0_def int64_defs)
  from ReorderEnabled_succeeds[OF _ p _ this, of now0] sample_methods show ?thesis by (auto simp: m)
qed

end
