(* ===== verification/Access_Paths.thy ===== *)
theory Access_Paths
  imports Access_Methods Store
begin

text \<open>
  \<open>internal/accesspolicy/direct_paths.go\<close>: the direct paths (one per uplink), the publication of their probe
  results, and \<open>Candidates\<close>, the snapshot of fresh direct and VPN paths that \<open>Rank\<close> chooses from.
\<close>

section \<open>Data\<close>

record direct_path =
  DpID :: string
  DpUplinkID :: string
  DpUplinkNumber :: int
  DpUplinkType :: string
  DpUplinkName :: string
  DpUplinkPriority :: int
  DpMethodEnabled :: bool
  DpMethodPriority :: int
  DpState :: string
  DpTransportState :: string
  DpQualityClass :: quality
  DpFunctionalScore :: int
  DpRequiredPassed :: int
  DpRequiredTotal :: int
  DpOptionalPassed :: int
  DpOptionalTotal :: int
  DpWhitelistPassed :: int
  DpWhitelistTotal :: int
  DpLatencyMS :: int
  DpPolicyGeneration :: int
  DpRouteGeneration :: int
  DpLastCheckedAt :: string
  DpExpiresAt :: string
  DpFailureCode :: string
  DpUpdatedAt :: string

record direct_target_result =
  DtTargetID :: string
  DtTargetClass :: string
  DtState :: string
  DtLatencyMS :: int
  DtHTTPStatus :: int
  DtErrorCode :: string
  DtCheckedAt :: instant
  DtExpiresAt :: instant

record direct_result_update =
  DuPathID :: string
  ExpectedPolicyGeneration :: int
  ExpectedRouteGeneration :: int
  DuTransportState :: string
  DuQualityClass :: quality
  DuFunctionalScore :: int
  RequiredTargetsPassed :: int
  RequiredTargetsTotal :: int
  OptionalTargetsPassed :: int
  OptionalTargetsTotal :: int
  WhitelistTargetsPassed :: int
  WhitelistTargetsTotal :: int
  DuLatencyMS :: int
  DuFailureCode :: string
  DuCheckedAt :: instant
  DuExpiresAt :: instant
  DuTargets :: "direct_target_result list"

definition nullInt :: "int \<Rightarrow> int option" where
  "nullInt n = (if n = 0 then None else Some n)"

definition nullText :: "string \<Rightarrow> string option" where
  "nullText s = (if blank s then None else Some s)"

definition currentPolicyGeneration :: "db \<Rightarrow> int result" where
  "currentPolicyGeneration D = (case settings D ''next_policy_generation'' of
     None \<Rightarrow> Inr 0
   | Some v \<Rightarrow> (case parse_int64 v of
       None \<Rightarrow> Inl (ErrMsg ''stored direct policy generation is invalid'')
     | Some n \<Rightarrow> if n < 1 then Inl (ErrMsg ''stored direct policy generation is invalid'') else Inr (n - 1)))"

section \<open>Reconciling the direct paths with the uplinks\<close>

definition uplink_path_state :: "uplink_row \<Rightarrow> string option" where
  "uplink_path_state u =
     (if \<not> u_enabled u then Some ''UPLINK_DISABLED''
      else if u_state u = ''UPLINK_SUBNET_CONFLICT'' then Some ''SUBNET_CONFLICT''
      else if u_state u \<noteq> ''UPLINK_READY'' then Some ''UPLINK_OFFLINE'' else None)"

definition new_direct_path :: "int \<Rightarrow> string \<Rightarrow> uplink_row \<Rightarrow> direct_path_row" where
  "new_direct_path policyGeneration now u =
     \<lparr>d_id = ''direct:path:'' @ u_id u, d_uplink_id = u_id u,
      d_state = (case uplink_path_state u of Some s \<Rightarrow> s | None \<Rightarrow> ''UNTESTED''), d_transport_state = ''UNKNOWN'',
      d_quality_class = QualityUnknown, d_functional_score = 0, d_required_passed = 0, d_required_total = 0,
      d_optional_passed = 0, d_optional_total = 0, d_whitelist_passed = 0, d_whitelist_total = 0, d_latency_ms = None,
      d_policy_generation = policyGeneration, d_route_generation = u_route_generation u, d_last_checked_at = None,
      d_expires_at = None, d_failure_code = None, d_created_at = now, d_updated_at = now\<rparr>"

text \<open>
  \<open>INSERT ... SELECT ... ON CONFLICT(uplink_id) DO NOTHING\<close>; a clash of the primary key with the path of another
  uplink is a constraint error.
\<close>

fun insert_direct_paths :: "int \<Rightarrow> string \<Rightarrow> uplink_row list \<Rightarrow> direct_path_row list \<Rightarrow> direct_path_row list result" where
  "insert_direct_paths g now [] ps = Inr ps"
| "insert_direct_paths g now (u # us) ps =
     (if u_id u \<in> set (map d_uplink_id ps) then insert_direct_paths g now us ps
      else if d_id (new_direct_path g now u) \<in> set (map d_id ps) then Inl ErrConstraint
      else insert_direct_paths g now us (ps @ [new_direct_path g now u]))"

definition refresh_direct_path :: "int \<Rightarrow> string \<Rightarrow> uplink_row \<Rightarrow> direct_path_row \<Rightarrow> direct_path_row" where
  "refresh_direct_path g now u p =
     (let moved = (d_policy_generation p \<noteq> g \<or> d_route_generation p \<noteq> u_route_generation u);
          drop = (\<not> u_enabled u \<or> u_state u \<noteq> ''UPLINK_READY'' \<or> moved)
      in p\<lparr>d_state := (case uplink_path_state u of
               Some s \<Rightarrow> s
             | None \<Rightarrow> if moved then ''STALE''
                       else if d_state p \<in> {''UPLINK_DISABLED'', ''SUBNET_CONFLICT'', ''UPLINK_OFFLINE''} then ''UNTESTED'' else d_state p),
           d_transport_state := (if drop then ''UNKNOWN'' else d_transport_state p),
           d_quality_class := (if drop then QualityUnknown else d_quality_class p),
           d_functional_score := (if drop then 0 else d_functional_score p),
           d_required_passed := (if drop then 0 else d_required_passed p),
           d_optional_passed := (if drop then 0 else d_optional_passed p),
           d_whitelist_passed := (if drop then 0 else d_whitelist_passed p),
           d_latency_ms := (if drop then None else d_latency_ms p),
           d_last_checked_at := (if drop then None else d_last_checked_at p),
           d_expires_at := (if drop then None else d_expires_at p),
           d_failure_code := (if moved then None else d_failure_code p),
           d_policy_generation := g, d_route_generation := u_route_generation u, d_updated_at := now\<rparr>)"

definition ReconcileDirect :: "instant \<Rightarrow> fault \<Rightarrow> db \<Rightarrow> db \<times> unit result" where
  "ReconcileDirect nowTime f D =
     (if f \<noteq> NoFault then (D, Inl ErrDriver)
      else case currentPolicyGeneration D of
        Inl e \<Rightarrow> (D, Inl e)
      | Inr g \<Rightarrow>
          let now = format_time nowTime in
          case insert_direct_paths g now (uplinks D) (direct_uplink_paths D) of
            Inl e \<Rightarrow> (D, Inl e)
          | Inr ps \<Rightarrow>
              (D\<lparr>direct_uplink_paths := map (\<lambda>p. case first_row (filter (\<lambda>u. u_id u = d_uplink_id p) (uplinks D)) of
                   None \<Rightarrow> p | Some u \<Rightarrow> refresh_direct_path g now u p) ps\<rparr>, Inr ()))"

section \<open>Reading direct paths\<close>

definition scanDirectPath :: "direct_path_row \<Rightarrow> uplink_row \<Rightarrow> method_row \<Rightarrow> direct_path" where
  "scanDirectPath p u a =
     \<lparr>DpID = d_id p, DpUplinkID = d_uplink_id p, DpUplinkNumber = u_display_number u, DpUplinkType = u_type u,
      DpUplinkName = u_name u, DpUplinkPriority = u_priority u, DpMethodEnabled = m_enabled a, DpMethodPriority = m_priority a,
      DpState = d_state p, DpTransportState = d_transport_state p, DpQualityClass = d_quality_class p,
      DpFunctionalScore = d_functional_score p, DpRequiredPassed = d_required_passed p, DpRequiredTotal = d_required_total p,
      DpOptionalPassed = d_optional_passed p, DpOptionalTotal = d_optional_total p,
      DpWhitelistPassed = d_whitelist_passed p, DpWhitelistTotal = d_whitelist_total p,
      DpLatencyMS = (case d_latency_ms p of None \<Rightarrow> 0 | Some l \<Rightarrow> l), DpPolicyGeneration = d_policy_generation p,
      DpRouteGeneration = d_route_generation p, DpLastCheckedAt = null_str (d_last_checked_at p),
      DpExpiresAt = null_str (d_expires_at p), DpFailureCode = null_str (d_failure_code p), DpUpdatedAt = d_updated_at p\<rparr>"

definition direct_path_rows :: "db \<Rightarrow> (direct_path_row \<times> uplink_row \<times> method_row) list" where
  "direct_path_rows D = [(p, u, a). p \<leftarrow> direct_uplink_paths D, u \<leftarrow> uplinks D, a \<leftarrow> access_methods D,
     u_id u = d_uplink_id p \<and> m_id a = ''access:direct'']"

definition uplink_order :: "direct_path_row \<times> uplink_row \<times> method_row \<Rightarrow> direct_path_row \<times> uplink_row \<times> method_row \<Rightarrow> bool" where
  "uplink_order x y = (let u = fst (snd x); v = fst (snd y) in
     if u_enabled u \<noteq> u_enabled v then u_enabled u
     else if u_priority u \<noteq> u_priority v then u_priority u < u_priority v else u_display_number u < u_display_number v)"

definition ListDirect :: "fault \<Rightarrow> db \<Rightarrow> direct_path list result" where
  "ListDirect f D = (if f \<noteq> NoFault then Inl ErrDriver
     else Inr (map (\<lambda>(p, u, a). scanDirectPath p u a) (sort_stable uplink_order (direct_path_rows D))))"

definition GetDirect :: "fault \<Rightarrow> string \<Rightarrow> db \<Rightarrow> direct_path result" where
  "GetDirect f pathID D =
     (if blank pathID then Inl (ErrMsg ''direct path database and id are required'')
      else if f \<noteq> NoFault then Inl ErrDriver
      else case first_row (filter (\<lambda>(p, u, a). d_id p = pathID) (direct_path_rows D)) of
        None \<Rightarrow> Inl ErrNotFound | Some (p, u, a) \<Rightarrow> Inr (scanDirectPath p u a))"

section \<open>Publishing a result\<close>

definition global_class :: "string \<Rightarrow> bool" where
  "global_class c \<longleftrightarrow> c = ''GLOBAL_REQUIRED'' \<or> c = ''GLOBAL_OPTIONAL'' \<or> c = ''WHITELIST_INDICATOR''"

definition validateDirectResult :: "direct_result_update \<Rightarrow> unit result" where
  "validateDirectResult x =
     (if blank (DuPathID x) \<or> ExpectedPolicyGeneration x < 0 \<or> ExpectedRouteGeneration x < 0 \<or> is_zero (DuCheckedAt x)
         \<or> \<not> DuExpiresAt x > DuCheckedAt x then
        Inl (ErrMsg ''direct result identity, generations, or freshness is invalid'')
      else if DuTransportState x \<noteq> ''PASSED'' \<and> DuTransportState x \<noteq> ''FAILED'' then
        Inl (ErrMsg ''direct result transport state is invalid'')
      else if DuQualityClass x \<noteq> QualityFull \<and> DuQualityClass x \<noteq> QualityLimited \<and> DuQualityClass x \<noteq> QualityWhitelistOnly
              \<and> DuQualityClass x \<noteq> QualityFailed then
        Inl (ErrMsg ''direct result quality class is invalid'')
      else if DuFunctionalScore x < 0 \<or> RequiredTargetsPassed x < 0 \<or> RequiredTargetsTotal x < 0 \<or> OptionalTargetsPassed x < 0
              \<or> OptionalTargetsTotal x < 0 \<or> WhitelistTargetsPassed x < 0 \<or> WhitelistTargetsTotal x < 0 \<or> DuLatencyMS x < 0
              \<or> RequiredTargetsPassed x > RequiredTargetsTotal x \<or> OptionalTargetsPassed x > OptionalTargetsTotal x
              \<or> WhitelistTargetsPassed x > WhitelistTargetsTotal x then
        Inl (ErrMsg ''direct result counters are invalid'')
      else if int (length (DuTargets x)) \<noteq> wrap64 (RequiredTargetsTotal x + OptionalTargetsTotal x + WhitelistTargetsTotal x) then
        Inl (ErrMsg ''direct target evidence count does not match result totals'')
      else if DuQualityClass x = QualityFull \<and> (DuTransportState x \<noteq> ''PASSED'' \<or> RequiredTargetsTotal x = 0
              \<or> RequiredTargetsPassed x \<noteq> RequiredTargetsTotal x) then
        Inl (ErrMsg ''FULL direct result requires passed transport and every required target'')
      else if DuQualityClass x = QualityLimited \<and> (DuTransportState x \<noteq> ''PASSED'' \<or> DuFunctionalScore x \<le> 0
              \<or> RequiredTargetsTotal x > 0 \<and> RequiredTargetsPassed x = RequiredTargetsTotal x) then
        Inl (ErrMsg ''LIMITED direct result requires partial target access and positive score'')
      else if DuQualityClass x = QualityWhitelistOnly \<and> (DuTransportState x \<noteq> ''PASSED'' \<or> DuFunctionalScore x \<le> 0
              \<or> RequiredTargetsPassed x \<noteq> 0 \<or> OptionalTargetsPassed x \<noteq> 0 \<or> WhitelistTargetsPassed x \<le> 0) then
        Inl (ErrMsg ''WHITELIST_ONLY direct result requires whitelist evidence and no passed global target'')
      else guard_err (\<not> list_all (\<lambda>t. DtTargetID t \<noteq> [] \<and> global_class (DtTargetClass t)
              \<and> (DtState t = ''PASSED'' \<or> DtState t = ''FAILED'') \<and> 0 \<le> DtLatencyMS t \<and> \<not> is_zero (DtCheckedAt t)
              \<and> DtExpiresAt t > DtCheckedAt t) (DuTargets x))
             (ErrMsg ''direct target evidence is invalid''))"

definition published_state :: "quality \<Rightarrow> string" where
  "published_state q = (case q of QualityFull \<Rightarrow> ''QUALIFIED'' | QualityLimited \<Rightarrow> ''DEGRADED''
     | QualityWhitelistOnly \<Rightarrow> ''DEGRADED'' | _ \<Rightarrow> ''FAILED'')"

text \<open>The WHERE condition of the UPDATE; a missing uplink makes the comparison with the subquery NULL.\<close>

definition publish_hit :: "direct_result_update \<Rightarrow> db \<Rightarrow> direct_path_row \<Rightarrow> bool" where
  "publish_hit x D p \<longleftrightarrow> d_id p = DuPathID x \<and> d_policy_generation p = ExpectedPolicyGeneration x
     \<and> d_route_generation p = ExpectedRouteGeneration x
     \<and> map_option u_route_generation (first_row (filter (\<lambda>u. u_id u = d_uplink_id p) (uplinks D))) = Some (d_route_generation p)"

definition published_row :: "direct_result_update \<Rightarrow> string \<Rightarrow> direct_path_row \<Rightarrow> direct_path_row" where
  "published_row x now p = p\<lparr>d_state := published_state (DuQualityClass x), d_transport_state := DuTransportState x,
     d_quality_class := DuQualityClass x, d_functional_score := DuFunctionalScore x,
     d_required_passed := RequiredTargetsPassed x, d_required_total := RequiredTargetsTotal x,
     d_optional_passed := OptionalTargetsPassed x, d_optional_total := OptionalTargetsTotal x,
     d_whitelist_passed := WhitelistTargetsPassed x, d_whitelist_total := WhitelistTargetsTotal x,
     d_latency_ms := nullInt (DuLatencyMS x), d_last_checked_at := Some (format_time (DuCheckedAt x)),
     d_expires_at := Some (format_time (DuExpiresAt x)), d_failure_code := nullText (DuFailureCode x), d_updated_at := now\<rparr>"

fun insert_target_results :: "direct_result_update \<Rightarrow> target_row list \<Rightarrow> string list \<Rightarrow> direct_target_result list \<Rightarrow> direct_result_row list \<Rightarrow> direct_result_row list result" where
  "insert_target_results x targets seen [] rs = Inr rs"
| "insert_target_results x targets seen (t # ts) rs =
     (if DtTargetID t \<in> set seen then Inl (ErrMsg ''duplicate direct target result'')
      else let rows = [\<lparr>dr_path_id = DuPathID x, dr_target_id = t_id g, dr_target_class = t_target_class g, dr_state = DtState t,
                        dr_latency_ms = nullInt (DtLatencyMS t), dr_http_status = nullInt (DtHTTPStatus t), dr_error_code = nullText (DtErrorCode t),
                        dr_checked_at = format_time (DtCheckedAt t), dr_expires_at = format_time (DtExpiresAt t),
                        dr_policy_generation = ExpectedPolicyGeneration x, dr_route_generation = ExpectedRouteGeneration x\<rparr>.
                        g \<leftarrow> targets, t_id g = DtTargetID t \<and> t_enabled g \<and> t_target_class g = DtTargetClass t \<and> global_class (t_target_class g)]
           in if length rows \<noteq> 1 then Inl (ErrMsg ''direct target evidence does not match an enabled direct target'')
              else insert_target_results x targets (DtTargetID t # seen) ts (rs @ rows))"

text \<open>The six sums of the verification query, for one target class.\<close>

definition count_results :: "direct_result_update \<Rightarrow> db \<Rightarrow> direct_result_row list \<Rightarrow> string \<Rightarrow> bool \<Rightarrow> int" where
  "count_results x D rs c passedOnly = int (length
     [() . r \<leftarrow> rs, t \<leftarrow> bypass_probe_targets D, t_id t = dr_target_id r \<and> t_enabled t,
        dr_path_id r = DuPathID x \<and> dr_policy_generation r = ExpectedPolicyGeneration x
        \<and> dr_route_generation r = ExpectedRouteGeneration x \<and> dr_target_class r = c \<and> (passedOnly \<longrightarrow> dr_state r = ''PASSED'')])"

definition count_active_targets :: "db \<Rightarrow> string \<Rightarrow> int" where
  "count_active_targets D c = int (length (filter (\<lambda>t. t_enabled t \<and> t_target_class t = c) (bypass_probe_targets D)))"

definition Publish :: "instant \<Rightarrow> fault \<Rightarrow> direct_result_update \<Rightarrow> db \<Rightarrow> db \<times> unit result" where
  "Publish nowTime f x D =
     (case validateDirectResult x of
        Inl e \<Rightarrow> (D, Inl e)
      | Inr _ \<Rightarrow>
        if f \<noteq> NoFault then (D, Inl ErrDriver)
        else case currentPolicyGeneration D of
          Inl e \<Rightarrow> (D, Inl e)
        | Inr g \<Rightarrow>
          if ExpectedPolicyGeneration x \<noteq> g then (D, Inl ErrStaleGeneration)
          else let now = format_time nowTime;
                   ps = map (\<lambda>p. if publish_hit x D p then published_row x now p else p) (direct_uplink_paths D)
            in if length (filter (publish_hit x D) (direct_uplink_paths D)) \<noteq> 1 then (D, Inl ErrStaleGeneration)
               else let kept = filter (\<lambda>r. \<not> (dr_path_id r = DuPathID x \<and> global_class (dr_target_class r))) (direct_uplink_path_target_results D)
                 in case insert_target_results x (bypass_probe_targets D) [] (DuTargets x) kept of
                      Inl e \<Rightarrow> (D, Inl e)
                    | Inr rs \<Rightarrow>
                      let total = (\<lambda>c. count_results x D rs c False); passed = (\<lambda>c. count_results x D rs c True)
                      in if passed ''GLOBAL_REQUIRED'' \<noteq> RequiredTargetsPassed x \<or> total ''GLOBAL_REQUIRED'' \<noteq> RequiredTargetsTotal x
                            \<or> passed ''GLOBAL_OPTIONAL'' \<noteq> OptionalTargetsPassed x \<or> total ''GLOBAL_OPTIONAL'' \<noteq> OptionalTargetsTotal x
                            \<or> passed ''WHITELIST_INDICATOR'' \<noteq> WhitelistTargetsPassed x \<or> total ''WHITELIST_INDICATOR'' \<noteq> WhitelistTargetsTotal x
                         then (D, Inl (ErrMsg ''direct target evidence does not match the active target policy''))
                         else if total ''GLOBAL_REQUIRED'' \<noteq> count_active_targets D ''GLOBAL_REQUIRED''
                                 \<or> total ''GLOBAL_OPTIONAL'' \<noteq> count_active_targets D ''GLOBAL_OPTIONAL''
                                 \<or> total ''WHITELIST_INDICATOR'' \<noteq> count_active_targets D ''WHITELIST_INDICATOR''
                         then (D, Inl (ErrMsg ''direct target evidence does not cover every active target''))
                         else (D\<lparr>direct_uplink_paths := ps, direct_uplink_path_target_results := rs\<rparr>, Inr ()))"

section \<open>Candidates for the ranking\<close>

text \<open>
  \<open>Candidates\<close> joins the tables of one database: the query of the generation, the direct query and the VPN
  query see the same content. The flags of the result are constants because the WHERE clauses already state them.
\<close>

definition direct_candidate_where :: "sql_fns \<Rightarrow> string \<Rightarrow> int \<Rightarrow> direct_path_row \<Rightarrow> uplink_row \<Rightarrow> method_row \<Rightarrow> bool" where
  "direct_candidate_where q now g p u a \<longleftrightarrow>
     u_id u = d_uplink_id p \<and> m_id a = ''access:direct''
   \<and> m_enabled a \<and> u_enabled u \<and> u_state u = ''UPLINK_READY''
   \<and> (d_quality_class p = QualityFull \<and> d_state p = ''QUALIFIED''
      \<or> (d_quality_class p = QualityLimited \<or> d_quality_class p = QualityWhitelistOnly) \<and> d_state p = ''DEGRADED'')
   \<and> d_transport_state p = ''PASSED'' \<and> julian_after q (d_expires_at p) now
   \<and> d_policy_generation p = g \<and> d_route_generation p = u_route_generation u"

definition direct_candidate :: "direct_path_row \<Rightarrow> uplink_row \<Rightarrow> method_row \<Rightarrow> candidate" where
  "direct_candidate p u a =
     \<lparr>Key = d_id p, PathID = d_id p, MethodID = m_id a, MethodKind = MethodDirect, UplinkID = d_uplink_id p,
      SubscriptionID = [], NodeID = [], Quality = d_quality_class p, FunctionalScore = d_functional_score p,
      MethodPriority = m_priority a, UplinkPriority = u_priority u, NodePriority = 0, MethodEnabled = True,
      UplinkReady = True, NodeAllowed = True, Fresh = True, CandPolicyGeneration = d_policy_generation p,
      CandRouteGeneration = d_route_generation p\<rparr>"

definition direct_candidates :: "sql_fns \<Rightarrow> string \<Rightarrow> int \<Rightarrow> db \<Rightarrow> candidate list" where
  "direct_candidates q now g D = [direct_candidate p u a. p \<leftarrow> direct_uplink_paths D, u \<leftarrow> uplinks D, a \<leftarrow> access_methods D,
     direct_candidate_where q now g p u a]"

definition vpn_candidate_where :: "sql_fns \<Rightarrow> string \<Rightarrow> int \<Rightarrow> sub_path_row \<Rightarrow> uplink_row \<Rightarrow> subscription_row \<Rightarrow> method_row
    \<Rightarrow> node_row \<Rightarrow> path_node_row \<Rightarrow> bool" where
  "vpn_candidate_where q now g p u s a n pn \<longleftrightarrow>
     u_id u = p_uplink_id p \<and> s_id s = p_subscription_id p
   \<and> m_subscription_id a = Some (s_id s) \<and> m_kind a = MethodSubscription
   \<and> p_selected_node_id p = Some (n_id n) \<and> s_active_version_id s = Some (n_version_id n)
   \<and> pn_path_id pn = p_id p \<and> pn_node_id pn = n_id n
   \<and> m_enabled a \<and> s_enabled s \<and> u_enabled u \<and> u_state u = ''UPLINK_READY''
   \<and> n_enabled n \<and> n_selection_override n \<noteq> ''exclude''
   \<and> p_transport_state p = ''PASSED'' \<and> julian_after q (p_expires_at p) now
   \<and> pn_qualification_generation pn = p_policy_generation p
   \<and> pn_route_generation pn = p_route_generation p \<and> julian_after q (pn_expires_at pn) now
   \<and> (p_quality_class p = QualityFull \<and> p_state p = ''QUALIFIED'' \<and> pn_qualification_state pn = ''BYPASS_QUALIFIED''
      \<or> p_quality_class p = QualityLimited \<and> p_state p = ''DEGRADED'' \<and> pn_qualification_state pn = ''BYPASS_LIMITED'')
   \<and> p_policy_generation p = g \<and> p_route_generation p = u_route_generation u"

text \<open>\<open>LEFT JOIN subscription_node_preferences\<close> with \<open>COALESCE(pref.preferred_rank, 1000000000)\<close>.\<close>

definition preferred_ranks :: "subscription_row \<Rightarrow> node_row \<Rightarrow> db \<Rightarrow> int list" where
  "preferred_ranks s n D =
     (case filter (\<lambda>f. f_subscription_id f = s_id s \<and> f_fingerprint f = n_fingerprint n) (subscription_node_preferences D) of
        [] \<Rightarrow> [1000000000]
      | fs \<Rightarrow> map (\<lambda>f. case f_preferred_rank f of None \<Rightarrow> 1000000000 | Some r \<Rightarrow> r) fs)"

definition vpn_candidate :: "sub_path_row \<Rightarrow> uplink_row \<Rightarrow> method_row \<Rightarrow> node_row \<Rightarrow> int \<Rightarrow> candidate" where
  "vpn_candidate p u a n rank =
     \<lparr>Key = p_id p @ '':'' @ n_id n, PathID = p_id p, MethodID = m_id a, MethodKind = MethodSubscription,
      UplinkID = p_uplink_id p, SubscriptionID = p_subscription_id p, NodeID = n_id n, Quality = p_quality_class p,
      FunctionalScore = p_functional_score p, MethodPriority = m_priority a, UplinkPriority = u_priority u,
      NodePriority = rank, MethodEnabled = True, UplinkReady = True, NodeAllowed = True, Fresh = True,
      CandPolicyGeneration = p_policy_generation p, CandRouteGeneration = p_route_generation p\<rparr>"

definition vpn_candidates :: "sql_fns \<Rightarrow> string \<Rightarrow> int \<Rightarrow> db \<Rightarrow> candidate list" where
  "vpn_candidates q now g D = [vpn_candidate p u a n rank.
     p \<leftarrow> subscription_uplink_paths D, u \<leftarrow> uplinks D, s \<leftarrow> subscriptions D, a \<leftarrow> access_methods D, n \<leftarrow> nodes D,
     pn \<leftarrow> uplink_path_nodes D, vpn_candidate_where q now g p u s a n pn, rank \<leftarrow> preferred_ranks s n D]"

definition Candidates :: "sql_fns \<Rightarrow> instant \<Rightarrow> fault \<Rightarrow> bool \<Rightarrow> db \<Rightarrow> candidate list result" where
  "Candidates q nowTime f directOnly D =
     (if f \<noteq> NoFault then Inl ErrDriver
      else case currentPolicyGeneration D of
        Inl e \<Rightarrow> Inl e
      | Inr g \<Rightarrow>
          let now = format_time nowTime; direct = direct_candidates q now g D
          in if directOnly then Inr direct else Inr (direct @ vpn_candidates q now g D))"

definition BestCandidate :: "sql_fns \<Rightarrow> instant \<Rightarrow> fault \<Rightarrow> bool \<Rightarrow> string \<Rightarrow> db \<Rightarrow> decision result" where
  "BestCandidate q nowTime f directOnly currentKey D =
     (case Candidates q nowTime f directOnly D of
        Inl e \<Rightarrow> Inl e
      | Inr items \<Rightarrow> Rank items currentKey)"

section \<open>No candidate without current evidence\<close>

lemma julian_after_None [simp]: "\<not> julian_after q None t"
  by (simp add: julian_after_def)

definition no_evidence :: "db \<Rightarrow> bool" where
  "no_evidence D \<longleftrightarrow> list_all (\<lambda>p. p_expires_at p = None) (subscription_uplink_paths D)
     \<and> list_all (\<lambda>p. d_expires_at p = None) (direct_uplink_paths D)"

lemma no_evidence_no_candidates:
  assumes "no_evidence D"
  shows "direct_candidates q now g D = []" and "vpn_candidates q now g D = []"
proof -
  have d: "\<not> direct_candidate_where q now g p u a" if "p \<in> set (direct_uplink_paths D)" for p u a
    using assms that by (auto simp: no_evidence_def list_all_iff direct_candidate_where_def)
  have v: "\<not> vpn_candidate_where q now g p u s a n pn" if "p \<in> set (subscription_uplink_paths D)" for p u s a n pn
    using assms that by (auto simp: no_evidence_def list_all_iff vpn_candidate_where_def)
  show "direct_candidates q now g D = []" using d by (auto simp: direct_candidates_def concat_eq_Nil_conv)
  show "vpn_candidates q now g D = []" using v by (auto simp: vpn_candidates_def concat_eq_Nil_conv)
qed

lemma no_evidence_Candidates:
  assumes "no_evidence D" and "currentPolicyGeneration D = Inr g"
  shows "Candidates q t NoFault directOnly D = Inr []"
  using assms(2) no_evidence_no_candidates[OF assms(1)] by (simp add: Candidates_def Let_def)

lemma Rank_Nil: "Rank [] k = Inl ErrNoCandidate"
  by (simp add: Rank_def)

lemma no_evidence_BestCandidate:
  "no_evidence D \<Longrightarrow> currentPolicyGeneration D = Inr g \<Longrightarrow> BestCandidate q t NoFault directOnly k D = Inl ErrNoCandidate"
  by (simp add: BestCandidate_def no_evidence_Candidates Rank_Nil)

lemma InvalidatePathPolicy_no_evidence: "InvalidatePathPolicy t D = Inr (g, D') \<Longrightarrow> no_evidence D'"
  by (simp add: no_evidence_def InvalidatePathPolicy_frame list_all_iff)

lemma InvalidatePathPolicy_generation:
  assumes "InvalidatePathPolicy t D = Inr (g, D')" and "g < max_int64"
  shows "currentPolicyGeneration D' = Inr g"
proof -
  obtain D1 where "AllocateCounter ''next_policy_generation'' 1 D = Inr (g, D1)"
    using assms(1) by (rule InvalidatePathPolicy_Inr)
  note c = AllocateCounter_Inr(1,2)[OF this]
  have "1 \<le> g" "is_int64 (g + 1)" using c assms(2) by (simp_all add: int64_defs)
  then show ?thesis by (simp add: currentPolicyGeneration_def InvalidatePathPolicy_frame(3)[OF assms(1)])
qed

lemma currentPolicyGeneration_frame: "settings D' = settings D \<Longrightarrow> currentPolicyGeneration D' = currentPolicyGeneration D"
  by (simp add: currentPolicyGeneration_def)

lemma ReconcileBoot_new_boot:
  assumes "access_policy D = Some p" "access_selection_runtime D = Some r" "safeBootID boot"
    and "sr_observed_boot_id r \<noteq> Some boot" "ap_startup_block_until_qualified p"
  shows "no_evidence (fst (ReconcileBoot t NoFault boot D))"
    and "settings (fst (ReconcileBoot t NoFault boot D)) = settings D"
  by (cases "sr_temporary_direct_only r \<and> null_str (sr_temporary_direct_boot_id r) \<noteq> boot";
      use assms in \<open>simp add: ReconcileBoot_def Let_def update_selection_def appendAccessEvent_def invalidateBootQualification_def
        no_evidence_def list_all_iff stale_sub_path_def stale_direct_path_def\<close>)+


text \<open>
  Property C25 (a new host boot discards every candidate): when the access policy asks for a qualification before
  the first path, a boot that was not yet observed leaves no candidate, so nothing measured before the boot can be activated.
\<close>

theorem no_candidate_after_new_boot:
  assumes "access_policy D = Some p" "access_selection_runtime D = Some r" "safeBootID boot"
    and "sr_observed_boot_id r \<noteq> Some boot" "ap_startup_block_until_qualified p" "currentPolicyGeneration D = Inr g"
  shows "BestCandidate q t' NoFault directOnly currentKey (fst (ReconcileBoot t NoFault boot D)) = Inl ErrNoCandidate"
proof -
  note n = ReconcileBoot_new_boot[OF assms(1-5), of t]
  have "currentPolicyGeneration (fst (ReconcileBoot t NoFault boot D)) = Inr g"
    using currentPolicyGeneration_frame[OF n(2)] assms(6) by simp
  then show ?thesis by (rule no_evidence_BestCandidate[OF n(1)])
qed

section \<open>What a candidate stands for\<close>

lemma direct_candidates_mem:
  assumes "c \<in> set (direct_candidates q now g D)"
  obtains p u a where "p \<in> set (direct_uplink_paths D)" "u \<in> set (uplinks D)" "a \<in> set (access_methods D)"
    "direct_candidate_where q now g p u a" "c = direct_candidate p u a"
  using assms by (auto simp: direct_candidates_def split: if_splits)

lemma vpn_candidates_mem:
  assumes "c \<in> set (vpn_candidates q now g D)"
  obtains p u s a n pn rank where "p \<in> set (subscription_uplink_paths D)" "u \<in> set (uplinks D)"
    "s \<in> set (subscriptions D)" "a \<in> set (access_methods D)" "n \<in> set (nodes D)" "pn \<in> set (uplink_path_nodes D)"
    "vpn_candidate_where q now g p u s a n pn" "rank \<in> set (preferred_ranks s n D)" "c = vpn_candidate p u a n rank"
  using assms by (auto simp: vpn_candidates_def split: if_splits) blast

lemma Candidates_Inr:
  assumes "Candidates q t f directOnly D = Inr cs" and "c \<in> set cs"
  obtains g where "currentPolicyGeneration D = Inr g"
    "c \<in> set (direct_candidates q (format_time t) g D) \<or> \<not> directOnly \<and> c \<in> set (vpn_candidates q (format_time t) g D)"
  using assms by (auto simp: Candidates_def Let_def split: if_splits sum.splits)

lemma direct_candidate_eligible:
  "direct_candidate_where q now g p u a \<Longrightarrow> eligible_candidate (direct_candidate p u a)"
  by (auto simp: direct_candidate_where_def direct_candidate_def eligible_candidate_def)

lemma direct_candidate_kind: "MethodKind (direct_candidate p u a) = MethodDirect"
  by (simp add: direct_candidate_def)

lemma vpn_candidate_eligible:
  "vpn_candidate_where q now g p u s a n pn \<Longrightarrow> eligible_candidate (vpn_candidate p u a n r)"
  by (auto simp: vpn_candidate_where_def vpn_candidate_def eligible_candidate_def)

lemma best_is_candidate:
  assumes "BestCandidate q t f directOnly k D = Inr d"
  obtains cs where "Candidates q t f directOnly D = Inr cs" "DecCandidate d \<in> set cs" "Rank cs k = Inr d"
  using assms Rank_winner(1) by (auto simp: BestCandidate_def split: sum.splits)

text \<open>
  What a candidate must rest on: a row of its kind with the current generations, a passed transport and unexpired
  evidence, on a ready uplink; for a VPN path also an active, allowed node whose own evidence belongs to the same generations.
\<close>

definition candidate_proven :: "sql_fns \<Rightarrow> string \<Rightarrow> db \<Rightarrow> candidate \<Rightarrow> bool" where
  "candidate_proven q now D c \<longleftrightarrow>
     currentPolicyGeneration D = Inr (CandPolicyGeneration c)
   \<and> (\<exists>u\<in>set (uplinks D). u_id u = UplinkID c \<and> u_enabled u \<and> u_state u = ''UPLINK_READY''
        \<and> u_route_generation u = CandRouteGeneration c)
   \<and> (\<exists>a\<in>set (access_methods D). m_id a = MethodID c \<and> m_enabled a)
   \<and> (case MethodKind c of
        MethodDirect \<Rightarrow> \<exists>p\<in>set (direct_uplink_paths D). d_id p = PathID c \<and> d_uplink_id p = UplinkID c
          \<and> d_transport_state p = ''PASSED'' \<and> julian_after q (d_expires_at p) now \<and> d_quality_class p = Quality c
          \<and> d_policy_generation p = CandPolicyGeneration c \<and> d_route_generation p = CandRouteGeneration c
      | MethodSubscription \<Rightarrow> \<exists>p\<in>set (subscription_uplink_paths D). p_id p = PathID c \<and> p_uplink_id p = UplinkID c
          \<and> p_transport_state p = ''PASSED'' \<and> julian_after q (p_expires_at p) now \<and> p_quality_class p = Quality c
          \<and> p_policy_generation p = CandPolicyGeneration c \<and> p_route_generation p = CandRouteGeneration c
          \<and> p_selected_node_id p = Some (NodeID c)
          \<and> (\<exists>n\<in>set (nodes D). n_id n = NodeID c \<and> n_enabled n \<and> n_selection_override n \<noteq> ''exclude'')
          \<and> (\<exists>pn\<in>set (uplink_path_nodes D). pn_path_id pn = PathID c \<and> pn_node_id pn = NodeID c
               \<and> julian_after q (pn_expires_at pn) now \<and> pn_qualification_generation pn = CandPolicyGeneration c
               \<and> pn_route_generation pn = CandRouteGeneration c)
      | MethodOther _ \<Rightarrow> False)"

lemma direct_candidate_proven:
  assumes "currentPolicyGeneration D = Inr g" "p \<in> set (direct_uplink_paths D)" "u \<in> set (uplinks D)" "a \<in> set (access_methods D)"
    "direct_candidate_where q now g p u a"
  shows "candidate_proven q now D (direct_candidate p u a)"
proof -
  let ?c = "direct_candidate p u a"
  have "u_id u = UplinkID ?c \<and> u_enabled u \<and> u_state u = ''UPLINK_READY'' \<and> u_route_generation u = CandRouteGeneration ?c"
    "m_id a = MethodID ?c \<and> m_enabled a" "CandPolicyGeneration ?c = g" "MethodKind ?c = MethodDirect"
    using assms(5) by (simp_all add: direct_candidate_where_def direct_candidate_def)
  moreover have "d_id p = PathID ?c \<and> d_uplink_id p = UplinkID ?c \<and> d_transport_state p = ''PASSED''
      \<and> julian_after q (d_expires_at p) now \<and> d_quality_class p = Quality ?c
      \<and> d_policy_generation p = CandPolicyGeneration ?c \<and> d_route_generation p = CandRouteGeneration ?c"
    using assms(5) by (simp add: direct_candidate_where_def direct_candidate_def)
  ultimately show ?thesis using assms(1-4) unfolding candidate_proven_def by auto
qed

lemma vpn_candidate_proven:
  assumes "currentPolicyGeneration D = Inr g" "p \<in> set (subscription_uplink_paths D)" "u \<in> set (uplinks D)"
    "a \<in> set (access_methods D)" "n \<in> set (nodes D)" "pn \<in> set (uplink_path_nodes D)"
    "vpn_candidate_where q now g p u s a n pn"
  shows "candidate_proven q now D (vpn_candidate p u a n r)"
proof -
  let ?c = "vpn_candidate p u a n r"
  have "u_id u = UplinkID ?c \<and> u_enabled u \<and> u_state u = ''UPLINK_READY'' \<and> u_route_generation u = CandRouteGeneration ?c"
    "m_id a = MethodID ?c \<and> m_enabled a" "CandPolicyGeneration ?c = g" "MethodKind ?c = MethodSubscription"
    using assms(7) by (simp_all add: vpn_candidate_where_def vpn_candidate_def)
  moreover have "p_id p = PathID ?c \<and> p_uplink_id p = UplinkID ?c \<and> p_transport_state p = ''PASSED''
      \<and> julian_after q (p_expires_at p) now \<and> p_quality_class p = Quality ?c
      \<and> p_policy_generation p = CandPolicyGeneration ?c \<and> p_route_generation p = CandRouteGeneration ?c
      \<and> p_selected_node_id p = Some (NodeID ?c)"
    "n_id n = NodeID ?c \<and> n_enabled n \<and> n_selection_override n \<noteq> ''exclude''"
    "pn_path_id pn = PathID ?c \<and> pn_node_id pn = NodeID ?c \<and> julian_after q (pn_expires_at pn) now
      \<and> pn_qualification_generation pn = CandPolicyGeneration ?c \<and> pn_route_generation pn = CandRouteGeneration ?c"
    using assms(7) by (simp_all add: vpn_candidate_where_def vpn_candidate_def)
  ultimately show ?thesis using assms(1-6) unfolding candidate_proven_def by auto
qed

lemma Candidates_sound:
  assumes "Candidates q t f directOnly D = Inr cs" and "c \<in> set cs"
  shows "candidate_proven q (format_time t) D c" and "eligible_candidate c"
    and "directOnly \<Longrightarrow> MethodKind c = MethodDirect"
proof -
  obtain g where g: "currentPolicyGeneration D = Inr g"
    and m: "c \<in> set (direct_candidates q (format_time t) g D) \<or> \<not> directOnly \<and> c \<in> set (vpn_candidates q (format_time t) g D)"
    by (rule Candidates_Inr[OF assms])
  have d: "candidate_proven q (format_time t) D c \<and> eligible_candidate c \<and> MethodKind c = MethodDirect"
    if "c \<in> set (direct_candidates q (format_time t) g D)"
    using that by (rule direct_candidates_mem) (use direct_candidate_proven[OF g] direct_candidate_eligible direct_candidate_kind in blast)
  have v: "candidate_proven q (format_time t) D c \<and> eligible_candidate c" if "c \<in> set (vpn_candidates q (format_time t) g D)"
    using that by (rule vpn_candidates_mem) (blast intro: vpn_candidate_proven[OF g] vpn_candidate_eligible)
  show "candidate_proven q (format_time t) D c" "eligible_candidate c" "directOnly \<Longrightarrow> MethodKind c = MethodDirect"
    using m d v by blast+
qed

text \<open>
  Property C8 (the selected path is proven and best): when the selection returns a decision, the chosen path rests on
  unexpired evidence of the current policy and route generation on a ready uplink, it is direct when only
  direct access is allowed, and no other candidate precedes it in the ranking.
\<close>

theorem BestCandidate_proven_and_best:
  assumes "BestCandidate q t f directOnly k D = Inr d"
  shows "candidate_proven q (format_time t) D (DecCandidate d)
       \<and> (directOnly \<longrightarrow> MethodKind (DecCandidate d) = MethodDirect)
       \<and> (\<exists>cs. Candidates q t f directOnly D = Inr cs \<and> DecCandidate d \<in> set cs
            \<and> (\<forall>c\<in>set cs. \<not> candidateLess k c (DecCandidate d)))"
proof -
  obtain cs where cs: "Candidates q t f directOnly D = Inr cs" "DecCandidate d \<in> set cs" "Rank cs k = Inr d"
    by (rule best_is_candidate[OF assms])
  have "\<forall>c\<in>set cs. \<not> candidateLess k c (DecCandidate d)"
    using Candidates_sound(2)[OF cs(1)] Rank_winner(3)[OF cs(3)] by blast
  then show ?thesis using Candidates_sound(1,3)[OF cs(1,2)] cs(1,2) by blast
qed

lemma distinct_length_filter_one: "distinct xs \<Longrightarrow> x \<in> set xs \<Longrightarrow> length (filter (\<lambda>y. y = x) xs) = 1"
  by (induction xs) (auto simp: filter_empty_conv)

lemma sum_list_indicator: "sum_list (map (\<lambda>r. if P r then 1 else 0) xs) = length (filter P xs)"
  by (induction xs) auto

lemma unique_hit:
  assumes "distinct (map f xs)" "x \<in> set xs" "P x" "\<And>y. P y \<Longrightarrow> f y = f x"
  shows "length (filter P xs) = 1"
proof -
  have "filter P xs = filter (\<lambda>y. y = x) xs"
    using assms by (intro filter_cong refl) (metis distinct_map inj_onD)
  also have "length (filter (\<lambda>y. y = x) xs) = 1"
    using assms(1)[THEN distinct_map[THEN iffD1], THEN conjunct1] assms(2) by (metis distinct_length_filter_one)
  finally show ?thesis by simp
qed

lemma length_concat_guard:
  "length (concat (map (\<lambda>t. if P t then (if b then [()] else []) else []) ts)) = (if b then length (filter P ts) else 0)"
  by (induction ts) auto

section \<open>What a publication records\<close>

definition result_of_target :: "direct_result_update \<Rightarrow> target_row list \<Rightarrow> direct_result_row \<Rightarrow> bool" where
  "result_of_target x targets r \<longleftrightarrow> dr_path_id r = DuPathID x \<and> dr_policy_generation r = ExpectedPolicyGeneration x
     \<and> dr_route_generation r = ExpectedRouteGeneration x \<and> global_class (dr_target_class r)
     \<and> (\<exists>g\<in>set targets. t_id g = dr_target_id r \<and> t_enabled g \<and> t_target_class g = dr_target_class r)"

lemma insert_target_results_Inr:
  "insert_target_results x targets seen ts rs = Inr rs' \<Longrightarrow>
     \<exists>new. rs' = rs @ new \<and> distinct (map dr_target_id new) \<and> set (map dr_target_id new) \<inter> set seen = {}
       \<and> list_all (result_of_target x targets) new"
proof (induction x targets seen ts rs rule: insert_target_results.induct)
  case (2 x targets seen t ts rs)
  define rows where "rows = [\<lparr>dr_path_id = DuPathID x, dr_target_id = t_id g, dr_target_class = t_target_class g, dr_state = DtState t,
      dr_latency_ms = nullInt (DtLatencyMS t), dr_http_status = nullInt (DtHTTPStatus t), dr_error_code = nullText (DtErrorCode t),
      dr_checked_at = format_time (DtCheckedAt t), dr_expires_at = format_time (DtExpiresAt t),
      dr_policy_generation = ExpectedPolicyGeneration x, dr_route_generation = ExpectedRouteGeneration x\<rparr>.
      g \<leftarrow> targets, t_id g = DtTargetID t \<and> t_enabled g \<and> t_target_class g = DtTargetClass t \<and> global_class (t_target_class g)]"
  have unseen: "DtTargetID t \<notin> set seen" and one: "length rows = 1"
    and rest: "insert_target_results x targets (DtTargetID t # seen) ts (rs @ rows) = Inr rs'"
    using 2(2) by (auto simp: Let_def rows_def split: if_splits)
  obtain r where r: "rows = [r]" using one by (cases rows) auto
  then have "r \<in> set rows" by simp
  then have rid: "dr_target_id r = DtTargetID t" and rok: "result_of_target x targets r"
    by (auto simp: rows_def result_of_target_def split: if_splits)
  have "\<exists>new. rs' = (rs @ rows) @ new \<and> distinct (map dr_target_id new) \<and> set (map dr_target_id new) \<inter> set (DtTargetID t # seen) = {}
      \<and> list_all (result_of_target x targets) new"
    using 2(1)[OF unseen refl, folded rows_def] one rest by simp
  then show ?case using r rid rok unseen by fastforce
qed auto

lemma count_results_new:
  assumes "distinct (map t_id (bypass_probe_targets D))" "global_class c"
    and "list_all (\<lambda>r. \<not> (dr_path_id r = DuPathID x \<and> global_class (dr_target_class r))) kept"
    and "list_all (result_of_target x (bypass_probe_targets D)) new"
  shows "count_results x D (kept @ new) c passedOnly
       = int (length (filter (\<lambda>r. dr_target_class r = c \<and> (passedOnly \<longrightarrow> dr_state r = ''PASSED'')) new))"
proof -
  let ?ts = "bypass_probe_targets D"
  let ?m = "\<lambda>r. dr_path_id r = DuPathID x \<and> dr_policy_generation r = ExpectedPolicyGeneration x
        \<and> dr_route_generation r = ExpectedRouteGeneration x \<and> dr_target_class r = c \<and> (passedOnly \<longrightarrow> dr_state r = ''PASSED'')"
  let ?n = "\<lambda>r. length [() . t \<leftarrow> ?ts, t_id t = dr_target_id r \<and> t_enabled t, ?m r]"
  have old: "?n r = 0" if "r \<in> set kept" for r using assms(2,3) that by (auto simp: list_all_iff)
  have new: "?n r = (if dr_target_class r = c \<and> (passedOnly \<longrightarrow> dr_state r = ''PASSED'') then 1 else 0)" if "r \<in> set new" for r
  proof -
    have ok: "result_of_target x ?ts r" using assms(4) that by (simp add: list_all_iff)
    then obtain g where g: "g \<in> set ?ts" "t_id g = dr_target_id r" "t_enabled g" by (auto simp: result_of_target_def)
    have "length (filter (\<lambda>t. t_id t = dr_target_id r \<and> t_enabled t) ?ts) = 1"
      using unique_hit[OF assms(1) g(1), of "\<lambda>t. t_id t = dr_target_id r \<and> t_enabled t"] g by simp
    moreover have "?m r \<longleftrightarrow> dr_target_class r = c \<and> (passedOnly \<longrightarrow> dr_state r = ''PASSED'')"
      using ok by (auto simp: result_of_target_def)
    ultimately show ?thesis unfolding length_concat_guard by simp
  qed
  have "count_results x D (kept @ new) c passedOnly = int (sum_list (map ?n (kept @ new)))"
    unfolding count_results_def length_concat map_map comp_def by (rule refl)
  also have "map ?n (kept @ new) = map (\<lambda>_. 0) kept
      @ map (\<lambda>r. if dr_target_class r = c \<and> (passedOnly \<longrightarrow> dr_state r = ''PASSED'') then 1 else 0) new"
    unfolding map_append using old new by (intro arg_cong2[where f = append] map_cong refl)
  finally show ?thesis by (simp add: sum_list_indicator)
qed

lemma Publish_Inr:
  assumes "Publish t f x D = (D', Inr ())"
  obtains kept where "validateDirectResult x = Inr ()" "currentPolicyGeneration D = Inr (ExpectedPolicyGeneration x)"
    "list_all (\<lambda>r. \<not> (dr_path_id r = DuPathID x \<and> global_class (dr_target_class r))) kept"
    "insert_target_results x (bypass_probe_targets D) [] (DuTargets x) kept = Inr (direct_uplink_path_target_results D')"
    "count_results x D (direct_uplink_path_target_results D') ''GLOBAL_REQUIRED'' True = RequiredTargetsPassed x"
    "count_results x D (direct_uplink_path_target_results D') ''GLOBAL_REQUIRED'' False = RequiredTargetsTotal x"
    "count_results x D (direct_uplink_path_target_results D') ''GLOBAL_REQUIRED'' False = count_active_targets D ''GLOBAL_REQUIRED''"
proof (rule that[of "filter (\<lambda>r. \<not> (dr_path_id r = DuPathID x \<and> global_class (dr_target_class r))) (direct_uplink_path_target_results D)"])
qed (use assms in \<open>auto simp: Publish_def list_all_iff Let_def split: sum.splits if_splits\<close>)

lemma validateDirectResult_full:
  "validateDirectResult x = Inr () \<Longrightarrow> DuQualityClass x = QualityFull
    \<Longrightarrow> DuTransportState x = ''PASSED'' \<and> RequiredTargetsTotal x \<noteq> 0 \<and> RequiredTargetsPassed x = RequiredTargetsTotal x"
  by (simp add: validateDirectResult_def split: if_splits)

lemma results_cover:
  assumes "distinct (map t_id ts)" "distinct (map dr_target_id new)" "list_all (result_of_target x ts) new"
    and "length (filter (\<lambda>r. dr_target_class r = c) new) = length (filter (\<lambda>t. t_enabled t \<and> t_target_class t = c) ts)"
    and "g \<in> set ts" "t_enabled g" "t_target_class g = c"
  shows "\<exists>r\<in>set new. dr_target_class r = c \<and> dr_target_id r = t_id g"
proof -
  let ?R = "set (map dr_target_id (filter (\<lambda>r. dr_target_class r = c) new))"
  let ?T = "set (map t_id (filter (\<lambda>t. t_enabled t \<and> t_target_class t = c) ts))"
  have dt: "distinct (map t_id (filter (\<lambda>t. t_enabled t \<and> t_target_class t = c) ts))" using assms(1) by (rule distinct_map_filter)
  have dr: "distinct (map dr_target_id (filter (\<lambda>r. dr_target_class r = c) new))" using assms(2) by (rule distinct_map_filter)
  have "card ?R = card ?T" unfolding distinct_card[OF dt] distinct_card[OF dr] using assms(4) by simp
  moreover have "?R \<subseteq> ?T"
  proof
    fix i assume "i \<in> ?R"
    then obtain r where "r \<in> set new" "dr_target_class r = c" "i = dr_target_id r" by auto
    moreover then obtain h where "h \<in> set ts" "t_id h = i" "t_enabled h" "t_target_class h = c"
      using assms(3) by (auto simp: list_all_iff result_of_target_def)
    ultimately show "i \<in> ?T" by (auto simp: image_iff intro: bexI[of _ h])
  qed
  ultimately have "?R = ?T" by (intro card_subset_eq) auto
  moreover have "t_id g \<in> ?T" using assms(5-7) by auto
  ultimately have "t_id g \<in> ?R" by simp
  then show ?thesis by auto
qed


section \<open>Concrete inputs\<close>

lemma sample_julian: "julianday sql0 text0 = Some now0" "julianday sql0 expiry0 = Some (now0 + 3600 * second)"
  using parse_format_time[OF now0_range(1)] parse_format_time[OF now0_range(3)] by (simp_all add: sql0_def now0_text)

lemma sample_direct_candidates:
  "Candidates sql0 now0 NoFault True db0 = Inr [direct_candidate direct_path0 uplink0 direct_method0]"
proof -
  have "parse_int64 ''6'' = Some 6" by code_simp
  then show ?thesis
    by (simp add: Candidates_def currentPolicyGeneration_def db0_def direct_candidates_def direct_candidate_where_def now0_text
        julian_after_def sample_julian direct_path0_def uplink0_def direct_method0_def sub_method0_def second_def)
qed

lemma sample_best: "\<exists>d. BestCandidate sql0 now0 NoFault True ''p1:n1'' db0 = Inr d"
proof -
  have "\<exists>d. Rank [direct_candidate direct_path0 uplink0 direct_method0] ''p1:n1'' = Inr d"
  proof (rule Rank_valid[of _ "direct_candidate direct_path0 uplink0 direct_method0"])
    show "valid_candidates [direct_candidate direct_path0 uplink0 direct_method0]" by code_simp
    show "eligible_candidate (direct_candidate direct_path0 uplink0 direct_method0)" by code_simp
  qed simp
  then show ?thesis by (simp add: BestCandidate_def sample_direct_candidates)
qed

theorem BestCandidate_proven_and_best_witness:
  "\<exists>d. BestCandidate sql0 now0 NoFault True ''p1:n1'' db0 = Inr d \<and> candidate_proven sql0 text0 db0 (DecCandidate d)
     \<and> MethodKind (DecCandidate d) = MethodDirect"
  using sample_best BestCandidate_proven_and_best[of sql0 now0 NoFault True "''p1:n1''" db0] by (auto simp: now0_text)


theorem no_candidate_after_new_boot_witness:
  "BestCandidate sql0 now0 NoFault False [] (fst (ReconcileBoot now0 NoFault ''boot-1'' db0)) = Inl ErrNoCandidate"
proof -
  have "safeBootID ''boot-1''" and "parse_int64 ''6'' = Some 6" by code_simp+
  then show ?thesis
    by (intro no_candidate_after_new_boot[of db0 policy0 selection0 _ 5])
       (simp_all add: db0_def policy0_def selection0_def currentPolicyGeneration_def)
qed

definition sample_update :: direct_result_update where
  "sample_update = \<lparr>DuPathID = ''direct:path:u1'', ExpectedPolicyGeneration = 5, ExpectedRouteGeneration = 3,
     DuTransportState = ''PASSED'', DuQualityClass = QualityFull, DuFunctionalScore = 1000, RequiredTargetsPassed = 1,
     RequiredTargetsTotal = 1, OptionalTargetsPassed = 0, OptionalTargetsTotal = 0, WhitelistTargetsPassed = 0,
     WhitelistTargetsTotal = 0, DuLatencyMS = 10, DuFailureCode = [], DuCheckedAt = now0, DuExpiresAt = now0 + 3600 * second,
     DuTargets = [\<lparr>DtTargetID = ''t1'', DtTargetClass = ''GLOBAL_REQUIRED'', DtState = ''PASSED'', DtLatencyMS = 10,
       DtHTTPStatus = 204, DtErrorCode = [], DtCheckedAt = now0, DtExpiresAt = now0 + 3600 * second\<rparr>]\<rparr>"

lemma not_blank_sample: "\<not> blank ''direct:path:u1''"
  by code_simp

definition sample_result :: direct_result_row where
  "sample_result = \<lparr>dr_path_id = ''direct:path:u1'', dr_target_id = ''t1'', dr_target_class = ''GLOBAL_REQUIRED'', dr_state = ''PASSED'',
     dr_latency_ms = Some 10, dr_http_status = Some 204, dr_error_code = None, dr_checked_at = format_time now0,
     dr_expires_at = format_time (now0 + 3600 * second), dr_policy_generation = 5, dr_route_generation = 3\<rparr>"

lemma sample_publish_steps:
  "validateDirectResult sample_update = Inr ()"
  "insert_target_results sample_update [target0] [] (DuTargets sample_update) [] = Inr [sample_result]"
  "count_results sample_update db0 [sample_result] ''GLOBAL_REQUIRED'' b = 1"
  "count_results sample_update db0 [sample_result] ''GLOBAL_OPTIONAL'' b = 0"
  "count_results sample_update db0 [sample_result] ''WHITELIST_INDICATOR'' b = 0"
  "count_active_targets db0 ''GLOBAL_REQUIRED'' = 1" "count_active_targets db0 ''GLOBAL_OPTIONAL'' = 0"
  "count_active_targets db0 ''WHITELIST_INDICATOR'' = 0"
  "publish_hit sample_update db0 direct_path0"
proof -
  show "validateDirectResult sample_update = Inr ()"
    by (simp add: validateDirectResult_def sample_update_def global_class_def is_zero_def zero_time_def now0_def second_def
        not_blank_sample int64_defs)
  show "insert_target_results sample_update [target0] [] (DuTargets sample_update) [] = Inr [sample_result]"
    by (simp add: sample_update_def target0_def global_class_def nullInt_def nullText_def sample_result_def)
  show "count_results sample_update db0 [sample_result] ''GLOBAL_REQUIRED'' b = 1"
    "count_results sample_update db0 [sample_result] ''GLOBAL_OPTIONAL'' b = 0"
    "count_results sample_update db0 [sample_result] ''WHITELIST_INDICATOR'' b = 0"
    by (simp_all add: count_results_def sample_result_def sample_update_def db0_def target0_def)
  show "count_active_targets db0 ''GLOBAL_REQUIRED'' = 1" "count_active_targets db0 ''GLOBAL_OPTIONAL'' = 0"
    "count_active_targets db0 ''WHITELIST_INDICATOR'' = 0"
    by (simp_all add: count_active_targets_def db0_def target0_def)
  show "publish_hit sample_update db0 direct_path0"
    by (simp add: publish_hit_def sample_update_def direct_path0_def db0_def uplink0_def first_row_def)
qed

lemma sample_publish: "\<exists>D'. Publish now0 NoFault sample_update db0 = (D', Inr ())"
proof -
  have tables: "direct_uplink_paths db0 = [direct_path0]" "direct_uplink_path_target_results db0 = []"
    "bypass_probe_targets db0 = [target0]" by (simp_all add: db0_def)
  have "parse_int64 ''6'' = Some 6" by code_simp
  then have g: "currentPolicyGeneration db0 = Inr 5" by (simp add: currentPolicyGeneration_def db0_def)
  have totals: "ExpectedPolicyGeneration sample_update = 5" "RequiredTargetsPassed sample_update = 1" "RequiredTargetsTotal sample_update = 1"
    "OptionalTargetsPassed sample_update = 0" "OptionalTargetsTotal sample_update = 0" "WhitelistTargetsPassed sample_update = 0"
    "WhitelistTargetsTotal sample_update = 0" by (simp_all add: sample_update_def)
  show ?thesis
    unfolding Publish_def Let_def sample_publish_steps g tables sum.case filter.simps totals
    by (simp add: totals sample_publish_steps)
qed


end
