(* ===== verification/Reconciler.thy ===== *)
theory Reconciler
  imports Inventory Access_Paths "HOL-Library.State_Monad"
begin

text \<open>
  \<open>internal/reconcile/reconciler.go\<close>: the loop body that converges the persisted state and the data plane.

  The world is the database, the flag \<open>StartupRecovery\<close>, the calls the reconciler made on the actuator, and the
  number of calls made so far. What is outside the package is the environment, indexed by that number: what the
  observer reports, whether the actuator succeeds, the clock, the faults of the database driver, and what other
  goroutines do to the database before the call (the mutex of the reconciler excludes only another reconciliation).
  A reconciliation is a program in the state monad; its result is the Go pair of a \<open>Result\<close> and an error.
\<close>

section \<open>Data\<close>

record observed =
  FirewallReady :: bool
  MihomoReady :: bool
  TUNReady :: bool
  ObsMethodKind :: method_kind
  ObsActivePathID :: string
  ObsActiveDirectPathID :: string
  ObsActiveNodeID :: string

record rc_result =
  Action :: string
  ResCandidate :: rcandidate

datatype act = DidBlock string bool | DidActivate rcandidate bool db

record world =
  wdb :: db
  StartupRecovery :: bool
  acts :: "act list"
  calls :: nat

record rc_env =
  env_sql :: sql_fns
  env_complete :: bool
  env_access_paths :: bool
  env_access_policy :: bool
  env_observe :: "nat \<Rightarrow> observed result"
  env_block :: "nat \<Rightarrow> string \<Rightarrow> go_error option"
  env_activate :: "nat \<Rightarrow> rcandidate \<Rightarrow> go_error option"
  env_now :: "nat \<Rightarrow> instant"
  env_fault :: "nat \<Rightarrow> fault"
  env_other :: "nat \<Rightarrow> db \<Rightarrow> db"

type_synonym 'a rc = "(world, 'a) state"
type_synonym outcome = "rc_result \<times> go_error option"

section \<open>Calls\<close>

definition db_op :: "rc_env \<Rightarrow> (instant \<Rightarrow> fault \<Rightarrow> db \<Rightarrow> db \<times> 'a) \<Rightarrow> 'a rc" where
  "db_op E oper = State (\<lambda>w. let i = calls w; (D, r) = oper (env_now E i) (env_fault E i) (env_other E i (wdb w))
     in (r, w\<lparr>wdb := D, calls := i + 1\<rparr>))"

definition db_read :: "rc_env \<Rightarrow> (instant \<Rightarrow> fault \<Rightarrow> db \<Rightarrow> 'a) \<Rightarrow> 'a rc" where
  "db_read E q = db_op E (\<lambda>t f D. (D, q t f D))"

definition rc_now :: "rc_env \<Rightarrow> instant rc" where
  "rc_now E = State (\<lambda>w. (env_now E (calls w), w\<lparr>calls := calls w + 1\<rparr>))"

definition Observe :: "rc_env \<Rightarrow> observed result rc" where
  "Observe E = State (\<lambda>w. (env_observe E (calls w), w\<lparr>calls := calls w + 1\<rparr>))"

definition get_startup :: "bool rc" where
  "get_startup = State (\<lambda>w. (StartupRecovery w, w))"

definition set_startup :: "bool \<Rightarrow> unit rc" where
  "set_startup b = State (\<lambda>w. ((), w\<lparr>StartupRecovery := b\<rparr>))"

definition Actuator_Block :: "rc_env \<Rightarrow> string \<Rightarrow> go_error option rc" where
  "Actuator_Block E reason = State (\<lambda>w. let r = env_block E (calls w) reason
     in (r, w\<lparr>acts := acts w @ [DidBlock reason (r = None)], calls := calls w + 1\<rparr>))"

definition Actuator_Activate :: "rc_env \<Rightarrow> rcandidate \<Rightarrow> go_error option rc" where
  "Actuator_Activate E c = State (\<lambda>w. let r = env_activate E (calls w) c
     in (r, w\<lparr>acts := acts w @ [DidActivate c (r = None) (wdb w)], calls := calls w + 1\<rparr>))"

section \<open>Blocking and activating\<close>

definition finish_with :: "string \<Rightarrow> rcandidate \<Rightarrow> outcome rc" where
  "finish_with a c = State_Monad.return (\<lparr>Action = a, ResCandidate = c\<rparr>, None)"

definition refuse :: "go_error \<Rightarrow> outcome rc" where
  "refuse e = State_Monad.return (\<lparr>Action = [], ResCandidate = no_candidate\<rparr>, Some e)"

definition opt_list :: "'a option \<Rightarrow> 'a list" where
  "opt_list x = (case x of None \<Rightarrow> [] | Some y \<Rightarrow> [y])"

definition block :: "rc_env \<Rightarrow> gateway_state \<Rightarrow> string \<Rightarrow> go_error option \<Rightarrow> outcome rc" where
  "block E gatewayState reason cause = do {
     set_startup False;
     actuatorErr \<leftarrow> Actuator_Block E reason;
     stateRes \<leftarrow> db_op E (\<lambda>t f. Block t f gatewayState reason);
     let errs = opt_list cause @ opt_list actuatorErr @ (case stateRes of Inl e \<Rightarrow> [e] | Inr _ \<Rightarrow> []);
     State_Monad.return (\<lparr>Action = ''PATH_BLOCKED'', ResCandidate = no_candidate\<rparr>, if errs = [] then None else Some (ErrJoin errs)) }"

definition activate :: "rc_env \<Rightarrow> rcandidate \<Rightarrow> outcome rc" where
  "activate E candidate = do {
     intent \<leftarrow> (if RcMethodKind candidate = MethodDirect
        then db_op E (\<lambda>t f. BeginDirectActivation (env_sql E) t f (RcPathID candidate) (RcPolicyGeneration candidate) (RcRouteGeneration candidate))
        else db_op E (\<lambda>t f. BeginNodeActivation t f (RcPathID candidate) (RcNodeID candidate) (RcPolicyGeneration candidate) (RcRouteGeneration candidate)));
     (case intent of
        Inl e \<Rightarrow> block E GatewayBlocked ''ACTIVATION_INTENT_REJECTED'' (Some e)
      | Inr (s, _) \<Rightarrow> do {
          let candidate = candidate\<lparr>RcConfigGeneration := ConfigGeneration s\<rparr>;
          activated \<leftarrow> Actuator_Activate E candidate;
          (case activated of
             Some e \<Rightarrow> block E GatewayBlocked ''PATH_ACTIVATION_FAILED'' (Some e)
           | None \<Rightarrow> do {
               finished \<leftarrow> (if RcMethodKind candidate = MethodDirect
                  then db_op E (\<lambda>t f. FinishDirectActivation (env_sql E) t f (RcPathID candidate) (RcPolicyGeneration candidate) (RcRouteGeneration candidate))
                  else db_op E (\<lambda>t f. FinishNodeActivation t f (RcPathID candidate) (RcNodeID candidate) (RcPolicyGeneration candidate) (RcRouteGeneration candidate)));
               (case finished of
                  Inl e \<Rightarrow> block E GatewayBlocked ''ACTIVATION_COMMIT_REJECTED'' (Some e)
                | Inr _ \<Rightarrow> finish_with ''PATH_ACTIVATED'' candidate) }) }) }"

section \<open>What is observed and what is desired\<close>

definition activeCandidateKey :: "snapshot \<Rightarrow> string" where
  "activeCandidateKey s = (case ActiveMethodKind s of
     MethodDirect \<Rightarrow> ActiveDirectPathID s
   | MethodSubscription \<Rightarrow> if ActivePathID s \<noteq> [] \<and> ActiveNodeID s \<noteq> [] then ActivePathID s @ '':'' @ ActiveNodeID s else []
   | MethodOther _ \<Rightarrow> [])"

definition observedRuntimeMatches :: "observed \<Rightarrow> snapshot \<Rightarrow> bool" where
  "observedRuntimeMatches obs s \<longleftrightarrow> PathState s = PathActive \<and> ObsMethodKind obs = ActiveMethodKind s
     \<and> (case ActiveMethodKind s of
          MethodDirect \<Rightarrow> ObsActiveDirectPathID obs = ActiveDirectPathID s
        | MethodSubscription \<Rightarrow> ObsActivePathID obs = ActivePathID s \<and> ObsActiveNodeID obs = ActiveNodeID s
        | MethodOther _ \<Rightarrow> False)"

definition observedCandidateMatches :: "observed \<Rightarrow> snapshot \<Rightarrow> candidate \<Rightarrow> bool" where
  "observedCandidateMatches obs s c \<longleftrightarrow> observedRuntimeMatches obs s \<and> Key c = activeCandidateKey s"

definition candidateFromAccess :: "candidate \<Rightarrow> rcandidate" where
  "candidateFromAccess c = no_candidate\<lparr>RcKey := Key c, RcMethodID := MethodID c, RcMethodKind := MethodKind c,
     RcQualityClass := Quality c, RcPathID := PathID c, RcUplinkID := UplinkID c, RcSubscriptionID := SubscriptionID c,
     RcNodeID := NodeID c, RcPolicyGeneration := CandPolicyGeneration c, RcRouteGeneration := CandRouteGeneration c\<rparr>"

definition vpn_unavailable :: "observed \<Rightarrow> candidate \<Rightarrow> bool" where
  "vpn_unavailable obs c \<longleftrightarrow> MethodKind c = MethodSubscription \<and> (\<not> MihomoReady obs \<or> \<not> TUNReady obs)"

text \<open>The loop of \<open>reconcileUnified\<close> over the candidates.\<close>

fun filter_items :: "observed \<Rightarrow> snapshot \<Rightarrow> string \<Rightarrow> candidate list \<Rightarrow> bool \<Rightarrow> candidate list \<Rightarrow> candidate list \<times> bool" where
  "filter_items obs s currentKey filtered healthy [] = (filtered, healthy)"
| "filter_items obs s currentKey filtered healthy (c # cs) =
     (if vpn_unavailable obs c then filter_items obs s currentKey filtered healthy cs
      else filter_items obs s currentKey (filtered @ [c])
             (if Key c = currentKey then observedCandidateMatches obs s c else healthy) cs)"

text \<open>The loop of \<open>reconcileUnifiedPolicyTransition\<close>: the candidate that completes the verification, or the eligible ones.\<close>

fun policy_items :: "observed \<Rightarrow> snapshot \<Rightarrow> string \<Rightarrow> candidate list \<Rightarrow> candidate list \<Rightarrow> candidate + candidate list" where
  "policy_items obs s currentKey eligible [] = Inr eligible"
| "policy_items obs s currentKey eligible (c # cs) =
     (if vpn_unavailable obs c then policy_items obs s currentKey eligible cs
      else if Key c = currentKey \<and> MethodKind c = MethodSubscription \<and> CandPolicyGeneration c = PolicyTransitionGeneration s then Inl c
      else policy_items obs s currentKey (eligible @ [c]) cs)"

section \<open>A reconciliation under the unified access policy\<close>

definition mark_switched :: "rc_env \<Rightarrow> string \<Rightarrow> outcome rc \<Rightarrow> outcome rc" where
  "mark_switched E reason next = do {
     marked \<leftarrow> db_op E (\<lambda>t f. MarkSwitched t f reason);
     (case marked of
        Inl e \<Rightarrow> block E GatewayBlocked ''ACCESS_SWITCH_RECORD_FAILED'' (Some e)
      | Inr _ \<Rightarrow> next) }"

text \<open>The replacement of the active path during a policy transition.\<close>

definition replace_active :: "rc_env \<Rightarrow> rcandidate \<Rightarrow> outcome rc" where
  "replace_active E candidate = do {
     (result, err) \<leftarrow> activate E candidate;
     (case err of
        Some e \<Rightarrow> State_Monad.return (result, Some e)
      | None \<Rightarrow> mark_switched E ''POLICY_REPLACEMENT''
          (State_Monad.return (result\<lparr>Action := ''ACCESS_METHOD_ACTIVATED''\<rparr>, None))) }"

definition reconcileUnifiedPolicyTransition :: "rc_env \<Rightarrow> observed \<Rightarrow> snapshot \<Rightarrow> bool \<Rightarrow> outcome rc" where
  "reconcileUnifiedPolicyTransition E obs desired hasTargets =
     (case parse_time (PolicyTransitionDeadline desired) of
        None \<Rightarrow> block E GatewayBlocked ''POLICY_DEADLINE_INVALID'' (Some (ErrFmt ''parse time'' [PolicyTransitionDeadline desired]))
      | Some deadline \<Rightarrow> do {
          now \<leftarrow> rc_now E;
          let expired = (\<not> now < deadline);
          if \<not> observedRuntimeMatches obs desired then block E GatewayBlocked ''POLICY_ACTIVE_TUPLE_LOST'' None
          else if \<not> hasTargets then
            (if \<not> expired then finish_with ''POLICY_VERIFICATION_PENDING'' no_candidate
             else block E GatewayNoBypassTargets ''NO_BYPASS_TARGETS_AFTER_POLICY_GRACE'' None)
          else do {
            runtimeRes \<leftarrow> db_read E (\<lambda>t f. GetSelectionRuntime f);
            (case runtimeRes of
               Inl e \<Rightarrow> block E GatewayBlocked ''ACCESS_SELECTION_RUNTIME_UNAVAILABLE'' (Some e)
             | Inr runtimeState \<Rightarrow> do {
                 itemsRes \<leftarrow> db_read E (\<lambda>t f. Candidates (env_sql E) t f (TemporaryDirectOnly runtimeState));
                 (case itemsRes of
                    Inl e \<Rightarrow> block E GatewayBlocked ''ACCESS_CANDIDATE_INVENTORY_FAILED'' (Some e)
                  | Inr items \<Rightarrow>
                    (case policy_items obs desired (activeCandidateKey desired) [] items of
                       Inl item \<Rightarrow> do {
                         finished \<leftarrow> db_op E (\<lambda>t f. FinishPolicyVerification t f (PolicyTransitionGeneration desired));
                         (case finished of
                            Inl e \<Rightarrow> block E GatewayBlocked ''POLICY_VERIFICATION_COMMIT_FAILED'' (Some e)
                          | Inr _ \<Rightarrow> finish_with ''POLICY_VERIFIED'' (candidateFromAccess item)) }
                     | Inr eligible \<Rightarrow>
                       (case Rank eligible (activeCandidateKey desired) of
                          Inr decision \<Rightarrow> replace_active E (candidateFromAccess (DecCandidate decision))
                        | Inl rankErr \<Rightarrow>
                          if rankErr \<noteq> ErrNoCandidate then block E GatewayBlocked ''ACCESS_RANKING_FAILED'' (Some rankErr)
                          else if \<not> expired then finish_with ''POLICY_VERIFICATION_PENDING'' no_candidate
                          else block E GatewayNoWorkingSubscription ''POLICY_GRACE_EXPIRED'' None))) }) } })"

text \<open>The activation at the end of \<open>reconcileUnified\<close>.\<close>

definition switch_to :: "rc_env \<Rightarrow> rcandidate \<Rightarrow> bool \<Rightarrow> string \<Rightarrow> outcome rc" where
  "switch_to E activationCandidate startup reason = do {
     (result, err) \<leftarrow> activate E activationCandidate;
     (case err of
        Some e \<Rightarrow> do { set_startup False; State_Monad.return (result, Some e) }
      | None \<Rightarrow> mark_switched E (if startup then ''STARTUP_MINIMAL_RECOVERY'' else reason) (do {
          set_startup False;
          State_Monad.return (result\<lparr>Action := (if startup then ''STARTUP_MINIMAL_PATH_RESTORED'' else ''ACCESS_METHOD_ACTIVATED'')\<rparr>, None) })) }"

text \<open>The part of \<open>reconcileUnified\<close> from the ranking on; \<open>startup\<close> is the local variable \<open>startupRecovery\<close>.\<close>

definition apply_decision :: "rc_env \<Rightarrow> string \<Rightarrow> bool \<Rightarrow> bool \<Rightarrow> transition_decision \<Rightarrow> decision \<Rightarrow> outcome rc" where
  "apply_decision E currentKey currentHealthy startup transition decision =
     (let chosen = candidateFromAccess (DecCandidate decision); key = Key (DecCandidate decision) in
      if TrackPending transition then do {
        tracked \<leftarrow> db_op E (\<lambda>t f. TrackPendingCandidate t f key);
        (case tracked of
           Inl e \<Rightarrow> block E GatewayBlocked ''ACCESS_PENDING_STATE_FAILED'' (Some e)
         | Inr _ \<Rightarrow> finish_with (TrReason transition) chosen) }
      else do {
        cleared \<leftarrow> (if ClearPending transition then db_op E (\<lambda>t f. ClearPendingCandidate t f) else State_Monad.return (Inr ()));
        (case cleared of
           Inl e \<Rightarrow> block E GatewayBlocked ''ACCESS_PENDING_CLEAR_FAILED'' (Some e)
         | Inr _ \<Rightarrow>
           if key = currentKey \<and> currentHealthy then finish_with ''NO_CHANGE'' chosen
           else if \<not> Allow transition then finish_with (TrReason transition) chosen
           else switch_to E (chosen\<lparr>RcStartupRecovery := startup\<rparr>) startup (TrReason transition)) })"

definition reconcileUnified :: "rc_env \<Rightarrow> observed \<Rightarrow> snapshot \<Rightarrow> bool \<Rightarrow> outcome rc" where
  "reconcileUnified E obs desired hasTargets =
     (if PolicyTransitionActive desired then do {
        set_startup False;
        reconcileUnifiedPolicyTransition E obs desired hasTargets }
      else if \<not> hasTargets then block E GatewayNoBypassTargets ''NO_BYPASS_TARGETS'' None
      else do {
        policyRes \<leftarrow> db_read E (\<lambda>t f. GetPolicy f);
        (case policyRes of
           Inl e \<Rightarrow> block E GatewayBlocked ''ACCESS_POLICY_UNAVAILABLE'' (Some e)
         | Inr policy \<Rightarrow> do {
             runtimeRes \<leftarrow> db_read E (\<lambda>t f. GetSelectionRuntime f);
             (case runtimeRes of
                Inl e \<Rightarrow> block E GatewayBlocked ''ACCESS_SELECTION_RUNTIME_UNAVAILABLE'' (Some e)
              | Inr runtimeState \<Rightarrow> do {
                  itemsRes \<leftarrow> db_read E (\<lambda>t f. Candidates (env_sql E) t f (TemporaryDirectOnly runtimeState));
                  (case itemsRes of
                     Inl e \<Rightarrow> block E GatewayBlocked ''ACCESS_CANDIDATE_INVENTORY_FAILED'' (Some e)
                   | Inr items \<Rightarrow> do {
                       let currentKey = activeCandidateKey desired;
                       allowed \<leftarrow> get_startup;
                       let startup = (allowed \<and> PathState desired = PathVerifying \<and> currentKey \<noteq> []);
                       (if allowed \<and> \<not> startup then set_startup False else State_Monad.return ());
                       let (filtered, currentHealthy) = filter_items obs desired currentKey [] False items;
                       let hardFailure = (currentKey \<noteq> [] \<and> (PathState desired = PathVerifying
                             \<or> PathState desired = PathActive \<and> \<not> observedRuntimeMatches obs desired));
                       (case Rank filtered currentKey of
                          Inl e \<Rightarrow>
                            if e = ErrNoCandidate then do {
                              set_startup False;
                              block E GatewayNoWorkingSubscription ''NO_FRESH_ACCESS_METHOD'' None }
                            else block E GatewayBlocked ''ACCESS_RANKING_FAILED'' (Some e)
                        | Inr decision \<Rightarrow> do {
                            let kept = (startup \<and> Key (DecCandidate decision) = currentKey);
                            (if startup \<and> \<not> kept then set_startup False else State_Monad.return ());
                            now \<leftarrow> rc_now E;
                            (case EvaluateTransition \<lparr>CurrentKey = currentKey, ProposedKey = Key (DecCandidate decision),
                                CurrentHealthy = currentHealthy, HardFailure = hardFailure, InPolicy = policy,
                                InRuntime = runtimeState, InNow = now\<rparr> of
                               Inl e \<Rightarrow> block E GatewayBlocked ''ACCESS_TRANSITION_FAILED'' (Some e)
                             | Inr transition \<Rightarrow> apply_decision E currentKey currentHealthy kept transition decision) }) }) }) }) })"

section \<open>A reconciliation without the unified access policy\<close>

text \<open>The end of \<open>reconcilePolicyTransition\<close>: another fresh path replaces the active one, or the grace period decides.\<close>

definition replace_or_wait :: "rc_env \<Rightarrow> bool \<Rightarrow> outcome rc" where
  "replace_or_wait E expired = do {
     best \<leftarrow> db_read E (\<lambda>t f. BestFreshCandidate t f);
     (case best of
        Inr candidate \<Rightarrow> activate E candidate
      | Inl e \<Rightarrow>
        if e \<noteq> ErrNotFound then block E GatewayBlocked ''PATH_INVENTORY_FAILED'' (Some e)
        else if \<not> expired then finish_with ''POLICY_VERIFICATION_PENDING'' no_candidate
        else block E GatewayNoWorkingSubscription ''POLICY_GRACE_EXPIRED'' None) }"

definition reconcilePolicyTransition :: "rc_env \<Rightarrow> observed \<Rightarrow> snapshot \<Rightarrow> bool \<Rightarrow> outcome rc" where
  "reconcilePolicyTransition E obs desired hasTargets =
     (case parse_time (PolicyTransitionDeadline desired) of
        None \<Rightarrow> block E GatewayBlocked ''POLICY_DEADLINE_INVALID'' (Some (ErrFmt ''parse time'' [PolicyTransitionDeadline desired]))
      | Some deadline \<Rightarrow> do {
          now \<leftarrow> rc_now E;
          let expired = (\<not> now < deadline);
          if ObsActivePathID obs \<noteq> ActivePathID desired \<or> ObsActiveNodeID obs \<noteq> ActiveNodeID desired
          then block E GatewayBlocked ''POLICY_ACTIVE_TUPLE_LOST'' None
          else if \<not> hasTargets then
            (if \<not> expired then finish_with ''POLICY_VERIFICATION_PENDING'' no_candidate
             else block E GatewayNoBypassTargets ''NO_BYPASS_TARGETS_AFTER_POLICY_GRACE'' None)
          else do {
            activeRes \<leftarrow> db_read E (\<lambda>t f. FreshNodeCandidate t f (ActivePathID desired) (ActiveNodeID desired));
            if (case activeRes of Inl _ \<Rightarrow> False | Inr active \<Rightarrow> RcPolicyGeneration active = PolicyTransitionGeneration desired) then do {
              finished \<leftarrow> db_op E (\<lambda>t f. FinishPolicyVerification t f (PolicyTransitionGeneration desired));
              (case finished of
                 Inl e \<Rightarrow>
                   if e = ErrPolicyGraceExpired then block E GatewayNoWorkingSubscription ''POLICY_GRACE_EXPIRED'' None
                   else block E GatewayBlocked ''POLICY_VERIFICATION_COMMIT_FAILED'' (Some e)
               | Inr _ \<Rightarrow> finish_with ''POLICY_VERIFIED''
                   ((case activeRes of Inl _ \<Rightarrow> no_candidate | Inr active \<Rightarrow> active)\<lparr>RcConfigGeneration := ConfigGeneration desired\<rparr>)) }
            else (case activeRes of
                Inl e \<Rightarrow> if e \<noteq> ErrNotFound then block E GatewayBlocked ''ACTIVE_POLICY_INVENTORY_FAILED'' (Some e)
                         else replace_or_wait E expired
              | Inr _ \<Rightarrow> replace_or_wait E expired) } })"

definition degraded_step :: "rc_env \<Rightarrow> snapshot \<Rightarrow> outcome rc \<Rightarrow> outcome rc" where
  "degraded_step E desired next = do {
     freshRes \<leftarrow> db_read E (\<lambda>t f. FreshNodeCandidate t f (ActivePathID desired) (ActiveNodeID desired));
     (case freshRes of
        Inr fresh \<Rightarrow> do {
          recovered \<leftarrow> db_op E (\<lambda>t f. RecoverTargetDegraded t f (RcPathID fresh) (RcNodeID fresh) (RcPolicyGeneration fresh) (RcRouteGeneration fresh));
          (case recovered of
             Inl e \<Rightarrow> block E GatewayBlocked ''TARGET_DEGRADED_RECOVERY_FAILED'' (Some e)
           | Inr _ \<Rightarrow> finish_with ''TARGET_DEGRADED_RECOVERED'' fresh) }
      | Inl freshErr \<Rightarrow>
        if freshErr \<noteq> ErrNotFound then block E GatewayBlocked ''TARGET_DEGRADED_VALIDATION_FAILED'' (Some freshErr)
        else do {
          degradedRes \<leftarrow> db_read E (\<lambda>t f. TargetDegradedCandidate t f (ActivePathID desired) (ActiveNodeID desired));
          (case degradedRes of
             Inr degraded \<Rightarrow> finish_with ''NO_CHANGE_DEGRADED_TARGET'' degraded
           | Inl degradedErr \<Rightarrow>
             if degradedErr \<noteq> ErrNotFound then block E GatewayBlocked ''TARGET_DEGRADED_VALIDATION_FAILED'' (Some degradedErr)
             else next) }) }"

text \<open>The last part of \<open>reconcile\<close>: the candidate of a pending verification if it is still fresh, else the best one.\<close>

definition activate_best :: "rc_env \<Rightarrow> snapshot \<Rightarrow> outcome rc" where
  "activate_best E desired = do {
     pending \<leftarrow> (if PathState desired = PathVerifying \<and> ActivePathID desired \<noteq> []
        then db_read E (\<lambda>t f. FreshNodeCandidate t f (ActivePathID desired) (ActiveNodeID desired))
        else State_Monad.return (Inr no_candidate));
     best \<leftarrow> (if (case pending of Inl _ \<Rightarrow> True | Inr c \<Rightarrow> RcPathID c = []) then db_read E (\<lambda>t f. BestFreshCandidate t f)
        else State_Monad.return pending);
     (case best of
        Inl e \<Rightarrow>
          if e = ErrNotFound then block E GatewayNoWorkingSubscription ''NO_FRESH_QUALIFIED_PATH'' None
          else block E GatewayBlocked ''PATH_INVENTORY_FAILED'' (Some e)
      | Inr candidate \<Rightarrow> activate E candidate) }"

definition reconcileLegacy :: "rc_env \<Rightarrow> observed \<Rightarrow> snapshot \<Rightarrow> outcome rc" where
  "reconcileLegacy E obs desired =
     (let same = (ObsActivePathID obs = ActivePathID desired \<and> ObsActiveNodeID obs = ActiveNodeID desired);
          keep_or_activate =
            (if PathState desired = PathActive \<and> ActivePathID desired \<noteq> [] \<and> same then do {
               res \<leftarrow> db_read E (\<lambda>t f. FreshNodeCandidate t f (ActivePathID desired) (ActiveNodeID desired));
               (case res of
                  Inr candidate \<Rightarrow> finish_with ''NO_CHANGE'' candidate
                | Inl e \<Rightarrow>
                  if e \<noteq> ErrNotFound then block E GatewayBlocked ''ACTIVE_PATH_VALIDATION_FAILED'' (Some e)
                  else activate_best E desired) }
             else activate_best E desired)
      in if GatewayState desired = GatewayDegradedTarget \<and> PathState desired = PathActive
            \<and> ActivePathID desired \<noteq> [] \<and> ActiveNodeID desired \<noteq> [] \<and> same
         then degraded_step E desired keep_or_activate
         else keep_or_activate)"

section \<open>The entry points\<close>

text \<open>\<open>reconcile\<close> after a successful observation.\<close>

definition reconcile_observed :: "rc_env \<Rightarrow> observed \<Rightarrow> outcome rc" where
  "reconcile_observed E obs =
          (if \<not> FirewallReady obs then block E GatewayBlocked ''FIREWALL_NOT_READY'' None
           else do {
             desiredRes \<leftarrow> db_read E (\<lambda>t f. Get f);
             (case desiredRes of
                Inl e \<Rightarrow> block E GatewayBlocked ''RUNTIME_STATE_UNAVAILABLE'' (Some e)
              | Inr desired \<Rightarrow> do {
                  targetsRes \<leftarrow> db_read E (\<lambda>t f. HasRequiredTargets f);
                  (case targetsRes of
                     Inl e \<Rightarrow> block E GatewayBlocked ''TARGET_INVENTORY_FAILED'' (Some e)
                   | Inr hasTargets \<Rightarrow> do {
                       uplinksRes \<leftarrow> db_read E (\<lambda>t f. HasReadyUplinks f);
                       (case uplinksRes of
                          Inl e \<Rightarrow> block E GatewayBlocked ''UPLINK_INVENTORY_FAILED'' (Some e)
                        | Inr hasUplinks \<Rightarrow>
                          if \<not> hasUplinks then block E GatewayAllUplinksOffline ''ALL_UPLINKS_OFFLINE'' None
                          else if env_access_paths E \<or> env_access_policy E then
                            (if \<not> env_access_paths E \<or> \<not> env_access_policy E
                             then block E GatewayBlocked ''UNIFIED_POLICY_UNAVAILABLE'' (Some (ErrMsg ''both unified access repositories are required''))
                             else reconcileUnified E obs desired hasTargets)
                          else if \<not> MihomoReady obs \<or> \<not> TUNReady obs
                          then block E GatewayBlocked ''MIHOMO_OR_TUN_NOT_READY'' None
                          else if PolicyTransitionActive desired then reconcilePolicyTransition E obs desired hasTargets
                          else if \<not> hasTargets then block E GatewayNoBypassTargets ''NO_BYPASS_TARGETS'' None
                          else reconcileLegacy E obs desired) }) }) })"

definition reconcile :: "rc_env \<Rightarrow> outcome rc" where
  "reconcile E =
     (if \<not> env_complete E then refuse (ErrMsg ''complete reconciler dependencies are required'')
      else do {
        observedRes \<leftarrow> Observe E;
        (case observedRes of
           Inl e \<Rightarrow> block E GatewayBlocked ''OBSERVATION_FAILED'' (Some e)
         | Inr obs \<Rightarrow> reconcile_observed E obs) })"

definition ActivateExact :: "rc_env \<Rightarrow> string \<Rightarrow> string \<Rightarrow> outcome rc" where
  "ActivateExact E pathID nodeID =
     (if \<not> env_complete E then refuse (ErrMsg ''complete reconciler dependencies are required'')
      else if blank pathID \<or> blank nodeID then refuse (ErrMsg ''path and node ids are required for manual activation'')
      else do {
        targetsRes \<leftarrow> db_read E (\<lambda>t f. HasRequiredTargets f);
        (case targetsRes of
           Inl e \<Rightarrow> refuse e
         | Inr hasTargets \<Rightarrow>
           if \<not> hasTargets then refuse (ErrMsg ''manual activation requires at least one enabled required target'')
           else do {
             candidateRes \<leftarrow> db_read E (\<lambda>t f. FreshNodeCandidate t f pathID nodeID);
             (case candidateRes of
                Inl e \<Rightarrow> refuse e
              | Inr candidate \<Rightarrow> do {
                  observedRes \<leftarrow> Observe E;
                  (case observedRes of
                     Inl e \<Rightarrow> refuse e
                   | Inr obs \<Rightarrow>
                     if \<not> FirewallReady obs \<or> \<not> MihomoReady obs \<or> \<not> TUNReady obs
                     then refuse (ErrMsg ''manual activation is unavailable until firewall, Mihomo, and TUN are ready'')
                     else do {
                       desiredRes \<leftarrow> db_read E (\<lambda>t f. Get f);
                       (case desiredRes of
                          Inl e \<Rightarrow> refuse e
                        | Inr desired \<Rightarrow>
                          if PathState desired = PathActive \<and> ActivePathID desired = pathID \<and> ActiveNodeID desired = nodeID
                             \<and> ObsActivePathID obs = pathID \<and> ObsActiveNodeID obs = nodeID
                          then finish_with ''NO_CHANGE'' candidate
                          else do {
                            audited \<leftarrow> db_op E (\<lambda>t f. AppendEvent t f
                              \<lparr>Severity = ''INFO'', EventType = ''MANUAL_PATH_ACTIVATION_REQUESTED'', EvUplinkID = RcUplinkID candidate,
                               EvModemID = [], EvSubscriptionID = RcSubscriptionID candidate, EvPathID = RcPathID candidate,
                               Details = [(''node_id'', JStr (RcNodeID candidate)), (''policy_generation'', JInt (RcPolicyGeneration candidate)),
                                          (''route_generation'', JInt (RcRouteGeneration candidate))]\<rparr>);
                            (case audited of
                               Inl e \<Rightarrow> refuse e
                             | Inr _ \<Rightarrow> activate E candidate) }) }) }) }) })"

end
