(* ===== verification/Reconciler_Theorems.thy ===== *)
theory Reconciler_Theorems
  imports Reconciler Program_Logic
begin

text \<open>
  The safety of a reconciliation. \<open>silent\<close> programs do not touch the actuator; a \<open>good\<close> program ends
  with the path blocked whenever it returns an error, never leaves a failed activation behind, and activates only
  candidates that the database names as being verified and that satisfy a condition \<open>P\<close>. Both properties compose, so
  that a reconciliation is good because its branches are.
\<close>

section \<open>Running a program\<close>

lemma wp_prims [simp]:
  "wp (rc_now E) Q1 w = Q1 (env_now E (calls w)) (w\<lparr>calls := calls w + 1\<rparr>)"
  "wp (Observe E) Q2 w = Q2 (env_observe E (calls w)) (w\<lparr>calls := calls w + 1\<rparr>)"
  "wp get_startup Q3 w = Q3 (StartupRecovery w) w"
  "wp (set_startup b) Q4 w = Q4 () (w\<lparr>StartupRecovery := b\<rparr>)"
  "wp (Actuator_Block E reason) Q5 w = Q5 (env_block E (calls w) reason)
     (w\<lparr>acts := acts w @ [DidBlock reason (env_block E (calls w) reason = None)], calls := calls w + 1\<rparr>)"
  "wp (Actuator_Activate E c) Q6 w = Q6 (env_activate E (calls w) c)
     (w\<lparr>acts := acts w @ [DidActivate c (env_activate E (calls w) c = None) (wdb w)], calls := calls w + 1\<rparr>)"
  by (simp_all add: wp_def rc_now_def Observe_def get_startup_def set_startup_def Actuator_Block_def Actuator_Activate_def Let_def)

lemma wp_db_op [simp]:
  "wp (db_op E oper) Q w = (case oper (env_now E (calls w)) (env_fault E (calls w)) (env_other E (calls w) (wdb w)) of
     (D, r) \<Rightarrow> Q r (w\<lparr>wdb := D, calls := calls w + 1\<rparr>))"
  by (simp add: wp_def db_op_def Let_def split: prod.splits)

section \<open>The environment keeps the runtime invariant\<close>

definition live :: "db \<Rightarrow> bool" where
  "live D \<longleftrightarrow> runtime_inv D \<and> runtime_state D \<noteq> None"

definition sane_env :: "rc_env \<Rightarrow> bool" where
  "sane_env E \<longleftrightarrow> (\<forall>i D. live D \<longrightarrow> live (env_other E i D))"

lemma live_step: "live D \<Longrightarrow> live (state_step q D op)"
proof -
  assume "live D"
  then obtain r where "runtime_inv D" "runtime_state D = Some r" by (auto simp: live_def)
  then show "live (state_step q D op)"
    using state_step_inv[of D q op] state_step_follows[of r D q op] by (auto simp: live_def extends_row_def)
qed

lemma live_ops:
  assumes "live D"
  shows "live (fst (BeginNodeActivation t f p n pg rg D))" "live (fst (FinishNodeActivation t f p n pg rg D))"
    "live (fst (BeginDirectActivation q t f p pg rg D))" "live (fst (FinishDirectActivation q t f p pg rg D))"
    "live (fst (Block t f g reason D))" "live (fst (FinishPolicyVerification t f gen D))"
    "live (fst (RecoverTargetDegraded t f p n pg rg D))" "live (fst (AppendEvent t f ev D))"
  using assms live_step[OF assms, of q "OpBegin t f p n pg rg"] live_step[OF assms, of q "OpFinish t f p n pg rg"]
    live_step[OF assms, of q "OpBeginDirect t f p pg rg"] live_step[OF assms, of q "OpFinishDirect t f p pg rg"]
    live_step[OF assms, of q "OpBlock t f g reason"] live_step[OF assms, of q "OpFinishPolicy t f gen"]
    live_step[OF assms, of q "OpRecoverDegraded t f p n pg rg"] live_step[OF assms, of q "OpAppendEvent t f ev"]
  by (simp_all add: BeginNodeActivation_def FinishNodeActivation_def)

lemma live_selection [simp]: "live (D\<lparr>access_selection_runtime := x\<rparr>) = live D"
  unfolding live_def by (subst runtime_inv_frame[of _ D]) simp_all

lemma live_selection_ops:
  assumes "live D"
  shows "live (fst (MarkSwitched t f reason D))" "live (fst (TrackPendingCandidate t f key D))"
    "live (fst (ClearPendingCandidate t f D))"
  using assms
  by (simp_all add: MarkSwitched_def TrackPendingCandidate_def ClearPendingCandidate_def exec_selection_def update_selection_def Let_def)

definition keeps_live :: "(instant \<Rightarrow> fault \<Rightarrow> db \<Rightarrow> db \<times> 'a) \<Rightarrow> bool" where
  "keeps_live oper \<longleftrightarrow> (\<forall>t f D. live D \<longrightarrow> live (fst (oper t f D)))"

lemma keeps_live_ops [simp, intro]:
  "keeps_live (\<lambda>t f. BeginNodeActivation t f p n pg rg)" "keeps_live (\<lambda>t f. FinishNodeActivation t f p n pg rg)"
  "keeps_live (\<lambda>t f. BeginDirectActivation q t f p pg rg)" "keeps_live (\<lambda>t f. FinishDirectActivation q t f p pg rg)"
  "keeps_live (\<lambda>t f. Block t f g reason)" "keeps_live (\<lambda>t f. FinishPolicyVerification t f gen)"
  "keeps_live (\<lambda>t f. RecoverTargetDegraded t f p n pg rg)" "keeps_live (\<lambda>t f. AppendEvent t f ev)"
  "keeps_live (\<lambda>t f. MarkSwitched t f reason)" "keeps_live (\<lambda>t f. TrackPendingCandidate t f key)"
  "keeps_live (\<lambda>t f. ClearPendingCandidate t f)"
  by (simp_all add: keeps_live_def live_ops live_selection_ops)

section \<open>Silent programs\<close>

definition silent :: "'a rc \<Rightarrow> bool" where
  "silent m \<longleftrightarrow> (\<forall>w. live (wdb w) \<longrightarrow> wp m (\<lambda>_ w'. live (wdb w') \<and> acts w' = acts w) w)"

lemma silent_db_op: "sane_env E \<Longrightarrow> keeps_live oper \<Longrightarrow> silent (db_op E oper)"
  by (auto simp: silent_def sane_env_def keeps_live_def split: prod.splits) (metis fst_conv)

lemma silent_db_read: "sane_env E \<Longrightarrow> silent (db_read E q)"
  unfolding db_read_def by (rule silent_db_op) (simp_all add: keeps_live_def)

lemma silent_prims [simp, intro]:
  "silent (rc_now E)" "silent (Observe E)" "silent get_startup" "silent (set_startup b)" "silent (State_Monad.return x)"
  by (simp_all add: silent_def)

section \<open>What a good program guarantees\<close>

definition begun :: "rcandidate \<Rightarrow> db \<Rightarrow> bool" where
  "begun c D \<longleftrightarrow> (\<exists>r. runtime_state D = Some r \<and> rt_path_state r = PathVerifying \<and> rt_config_generation r = RcConfigGeneration c
     \<and> (if RcMethodKind c = MethodDirect then null_str (rt_active_direct_path_id r) = RcPathID c
        else null_str (rt_active_path_id r) = RcPathID c \<and> null_str (rt_active_node_id r) = RcNodeID c))"

fun act_ok :: "(rcandidate \<Rightarrow> bool) \<Rightarrow> act \<Rightarrow> bool" where
  "act_ok P (DidBlock reason ok) \<longleftrightarrow> True"
| "act_ok P (DidActivate c ok D) \<longleftrightarrow> P c \<and> begun c D"

fun blocking :: "act \<Rightarrow> bool" where
  "blocking (DidBlock reason ok) \<longleftrightarrow> True"
| "blocking (DidActivate c ok D) \<longleftrightarrow> False"

fun unsettled :: "act \<Rightarrow> bool" where
  "unsettled (DidBlock reason ok) \<longleftrightarrow> False"
| "unsettled (DidActivate c ok D) \<longleftrightarrow> \<not> ok"

definition row_blocked :: "db \<Rightarrow> bool" where
  "row_blocked D \<longleftrightarrow> (\<exists>r g. runtime_state D = Some r \<and> blocked_row g r)"

definition safe_end :: "rc_env \<Rightarrow> (rcandidate \<Rightarrow> bool) \<Rightarrow> act list \<Rightarrow> outcome \<Rightarrow> world \<Rightarrow> bool" where
  "safe_end E P before out w' \<longleftrightarrow> live (wdb w') \<and>
     (\<exists>new. acts w' = before @ new \<and> list_all (act_ok P) new \<and> (new \<noteq> [] \<longrightarrow> \<not> unsettled (last new))
        \<and> (snd out \<noteq> None \<longrightarrow> new \<noteq> [] \<and> blocking (last new)
             \<and> (env_fault E (calls w' - 1) \<noteq> FaultTx \<longrightarrow> row_blocked (wdb w'))))"

definition good :: "rc_env \<Rightarrow> (rcandidate \<Rightarrow> bool) \<Rightarrow> outcome rc \<Rightarrow> bool" where
  "good E P m \<longleftrightarrow> (\<forall>w. live (wdb w) \<longrightarrow> wp m (safe_end E P (acts w)) w)"

lemma good_silent_bind: "silent m \<Longrightarrow> (\<And>r. good E P (k r)) \<Longrightarrow> good E P (State_Monad.bind m k)"
  unfolding good_def silent_def by (fastforce elim: wp_mono)

lemma good_finish [simp, intro]: "good E P (finish_with a c)" "good E P (State_Monad.return (r, None))"
  by (simp_all add: good_def finish_with_def safe_end_def)

section \<open>Blocking is good\<close>

definition reason_ok :: "string \<Rightarrow> bool" where
  "reason_ok s \<longleftrightarrow> \<not> blank s \<and> length s \<le> 1000"

lemma not_blank_capital: "65 \<le> (of_char c :: nat) \<Longrightarrow> (of_char c :: nat) \<le> 90 \<Longrightarrow> \<not> blank (c # s)"
proof -
  assume "65 \<le> (of_char c :: nat)" "(of_char c :: nat) \<le> 90"
  then have "space_len (c # s) = 0" by (auto simp: space_len_def split: list.splits)
  then show ?thesis by (simp add: blank_def trim_left.simps[of "c # s"])
qed

lemma reason_ok_capital [simp]:
  "reason_ok (c # s) \<longleftrightarrow> length s \<le> 999" if "65 \<le> (of_char c :: nat) \<and> (of_char c :: nat) \<le> 90"
  using that by (auto simp: reason_ok_def not_blank_capital)

lemma good_block:
  assumes "sane_env E" and "validBlockedGatewayState g" and "reason_ok reason"
  shows "good E P (block E g reason cause)"
proof -
  have "safe_end E P (acts w) out w'"
    if w': "wdb w' = D" "acts w' = acts w @ [DidBlock reason ok]" "calls w' = Suc (Suc (calls w))" and l: "live (wdb w)" and D: "Block t (env_fault E (Suc (calls w))) g reason (env_other E i (wdb w)) = (D, res)"
    for w w' out D ok t i res
  proof -
    obtain r where r: "runtime_state (env_other E i (wdb w)) = Some r" "runtime_inv (env_other E i (wdb w))"
      using assms(1) l by (auto simp: sane_env_def live_def)
    have "live D" using live_ops(5)[of "env_other E i (wdb w)" t "env_fault E (Suc (calls w))" g reason] D r by (simp add: live_def)
    moreover have "row_blocked D" if "env_fault E (Suc (calls w)) \<noteq> FaultTx"
      using Block_reaches[OF r(2,1) that assms(2), of reason t] assms(3) D by (fastforce simp: row_blocked_def reason_ok_def)
    ultimately show ?thesis using w' by (simp add: safe_end_def)
  qed
  note step = this
  show ?thesis
    unfolding good_def block_def by (auto simp: Let_def split: prod.splits intro!: step)
qed

lemma valid_blocked [simp]:
  "validBlockedGatewayState GatewayBlocked" "validBlockedGatewayState GatewayAllUplinksOffline"
  "validBlockedGatewayState GatewayNoBypassTargets" "validBlockedGatewayState GatewayNoWorkingSubscription"
  by (simp_all add: validBlockedGatewayState_def)

section \<open>Activating is good\<close>

lemma begin_begun:
  assumes "BeginNodeActivation t f pathID nodeID pg rg D = (D', Inr (s, changed))"
    and "RcMethodKind c \<noteq> MethodDirect" "RcPathID c = pathID" "RcNodeID c = nodeID"
  shows "begun (c\<lparr>RcConfigGeneration := ConfigGeneration s\<rparr>) D'"
proof -
  have ne: "nodeID \<noteq> []" and b: "beginActivation t f pathID nodeID pg rg D = (D', Inr (s, changed))"
    using assms(1) by (auto simp: BeginNodeActivation_def split: if_splits)
  have "\<exists>r path. runtime_state D' = Some r \<and> s = scanSnapshot r \<and> readFreshPath pathID nodeID pg rg t D = Inr path
      \<and> PathState s = PathVerifying \<and> ActivePathID s = FpID path \<and> ActiveNodeID s = FpNodeID path"
    using b unfolding beginActivation_def
  proof (cases rule: transact_outcome)
    case (kept s')
    then show ?thesis by (auto simp: Let_def record_state_def split: if_splits)
  next
    case committed
    then show ?thesis
      by (auto simp: Let_def Get_def scanSnapshot_def row_changes update_runtime_def read_runtime_def
          split: if_splits option.splits elim!: record_state_Commit)
  qed simp
  then obtain r path where "runtime_state D' = Some r" "s = scanSnapshot r" "readFreshPath pathID nodeID pg rg t D = Inr path"
    "PathState s = PathVerifying" "ActivePathID s = FpID path" "ActiveNodeID s = FpNodeID path" by blast
  then show ?thesis using readFreshPath_ids[of pathID nodeID pg rg t D path] ne assms(2-4) by (auto simp: begun_def scanSnapshot_def)
qed

lemma readFreshDirectPath_id: "readFreshDirectPath q pathID pg rg now D = Inr path \<Longrightarrow> FdID path = pathID"
  using readFreshDirectPath_sound[of q pathID pg rg now D path] by (fastforce simp: fresh_direct_where_def)

lemma begin_direct_begun:
  assumes "BeginDirectActivation q t f pathID pg rg D = (D', Inr (s, changed))"
    and "RcMethodKind c = MethodDirect" "RcPathID c = pathID"
  shows "begun (c\<lparr>RcConfigGeneration := ConfigGeneration s\<rparr>) D'"
proof -
  have "\<exists>r path. runtime_state D' = Some r \<and> s = scanSnapshot r \<and> readFreshDirectPath q pathID pg rg t D = Inr path
      \<and> PathState s = PathVerifying \<and> ActiveDirectPathID s = FdID path"
    using assms(1) unfolding BeginDirectActivation_def
  proof (cases rule: transact_outcome)
    case (kept s')
    then show ?thesis by (auto simp: Let_def record_state_def split: if_splits)
  next
    case committed
    then show ?thesis
      by (auto simp: Let_def Get_def scanSnapshot_def row_changes update_runtime_def read_runtime_def
          split: if_splits option.splits elim!: record_state_Commit)
  qed simp
  then obtain r path where "runtime_state D' = Some r" "s = scanSnapshot r" "readFreshDirectPath q pathID pg rg t D = Inr path"
    "PathState s = PathVerifying" "ActiveDirectPathID s = FdID path" by blast
  then show ?thesis using readFreshDirectPath_id[of q pathID pg rg t D path] assms(2,3) by (auto simp: begun_def scanSnapshot_def)
qed

lemma safe_end_prepend:
  assumes "safe_end E P (before @ [a]) out w'" "act_ok P a" "unsettled a \<Longrightarrow> snd out \<noteq> None"
  shows "safe_end E P before out w'"
proof -
  obtain new where n: "live (wdb w')" "acts w' = (before @ [a]) @ new" "list_all (act_ok P) new" "new \<noteq> [] \<longrightarrow> \<not> unsettled (last new)"
    "snd out \<noteq> None \<longrightarrow> new \<noteq> [] \<and> blocking (last new) \<and> (env_fault E (calls w' - 1) \<noteq> FaultTx \<longrightarrow> row_blocked (wdb w'))"
    using assms(1) by (auto simp: safe_end_def)
  show ?thesis unfolding safe_end_def using n assms(2,3) by (intro conjI exI[of _ "a # new"]) auto
qed

lemma block_error: "wp (block E g reason (Some e)) (\<lambda>out w'. snd out \<noteq> None) w"
  by (simp add: block_def Let_def opt_list_def split: prod.splits)

lemma blocked_error:
  assumes "sane_env E" "reason_ok reason" "live (wdb w)"
  shows "wp (block E GatewayBlocked reason (Some e)) (\<lambda>out w'. safe_end E P (acts w) out w' \<and> snd out \<noteq> None) w"
  using good_block[OF assms(1) valid_blocked(1) assms(2)] assms(3) by (intro wp_conj block_error) (simp add: good_def)

lemma wp_begin:
  assumes "sane_env E" "live (wdb w)"
  shows "wp (if RcMethodKind c = MethodDirect
        then db_op E (\<lambda>t f. BeginDirectActivation (env_sql E) t f (RcPathID c) (RcPolicyGeneration c) (RcRouteGeneration c))
        else db_op E (\<lambda>t f. BeginNodeActivation t f (RcPathID c) (RcNodeID c) (RcPolicyGeneration c) (RcRouteGeneration c)))
      (\<lambda>r w1. live (wdb w1) \<and> acts w1 = acts w \<and> (\<forall>s ch. r = Inr (s, ch) \<longrightarrow> begun (c\<lparr>RcConfigGeneration := ConfigGeneration s\<rparr>) (wdb w1))) w"
proof (cases "RcMethodKind c = MethodDirect")
  case True
  have "silent (db_op E (\<lambda>t f. BeginDirectActivation (env_sql E) t f (RcPathID c) (RcPolicyGeneration c) (RcRouteGeneration c)))"
    using assms(1) by (rule silent_db_op) simp
  with assms(2) True show ?thesis
    by (auto simp: silent_def split: prod.splits intro: begin_direct_begun)
next
  case False
  have "silent (db_op E (\<lambda>t f. BeginNodeActivation t f (RcPathID c) (RcNodeID c) (RcPolicyGeneration c) (RcRouteGeneration c)))"
    using assms(1) by (rule silent_db_op) simp
  with assms(2) False show ?thesis
    by (auto simp: silent_def split: prod.splits intro: begin_begun)
qed

lemma good_if [intro]: "(b \<Longrightarrow> good E P m) \<Longrightarrow> (\<not> b \<Longrightarrow> good E P m') \<Longrightarrow> good E P (if b then m else m')"
  by simp

lemma silent_if [intro]: "(b \<Longrightarrow> silent m) \<Longrightarrow> (\<not> b \<Longrightarrow> silent m') \<Longrightarrow> silent (if b then m else m')"
  by simp

lemma good_activate:
  assumes "sane_env E" and "\<And>g. P (c\<lparr>RcConfigGeneration := g\<rparr>)"
  shows "good E P (activate E c)"
  unfolding good_def activate_def wp_bind
proof (intro allI impI, rule wp_mono[OF wp_begin[OF assms(1)]], assumption, elim conjE)
  fix w :: world and r :: "(snapshot \<times> bool) result" and w1 :: world
  assume w1: "live (wdb w1)" "acts w1 = acts w" and b: "\<forall>s ch. r = Inr (s, ch) \<longrightarrow> begun (c\<lparr>RcConfigGeneration := ConfigGeneration s\<rparr>) (wdb w1)"
  let ?finish = "\<lambda>c. (if RcMethodKind c = MethodDirect
        then db_op E (\<lambda>t f. FinishDirectActivation (env_sql E) t f (RcPathID c) (RcPolicyGeneration c) (RcRouteGeneration c))
        else db_op E (\<lambda>t f. FinishNodeActivation t f (RcPathID c) (RcNodeID c) (RcPolicyGeneration c) (RcRouteGeneration c)))"
  have fin: "good E P (State_Monad.bind (?finish c) (\<lambda>fin. case fin of Inl e \<Rightarrow> block E GatewayBlocked ''ACTIVATION_COMMIT_REJECTED'' (Some e)
       | Inr x \<Rightarrow> finish_with ''PATH_ACTIVATED'' c'))" for c c'
    by (intro good_silent_bind silent_if silent_db_op assms(1) keeps_live_ops) (simp add: good_block assms(1) split: sum.splits)
  have post: "wp (case env_activate E i c' of Some e \<Rightarrow> block E GatewayBlocked ''PATH_ACTIVATION_FAILED'' (Some e)
       | None \<Rightarrow> State_Monad.bind (?finish c') (\<lambda>fin. case fin of Inl e \<Rightarrow> block E GatewayBlocked ''ACTIVATION_COMMIT_REJECTED'' (Some e)
           | Inr x \<Rightarrow> finish_with ''PATH_ACTIVATED'' c')) (safe_end E P (acts w)) w2"
    if "P c'" "begun c' (wdb w1)" "live (wdb w2)" "acts w2 = acts w @ [DidActivate c' (env_activate E i c' = None) (wdb w1)]" for c' w2 i
  proof (cases "env_activate E i c'")
    case None
    have "wp (State_Monad.bind (?finish c') (\<lambda>fin. case fin of Inl e \<Rightarrow> block E GatewayBlocked ''ACTIVATION_COMMIT_REJECTED'' (Some e)
           | Inr x \<Rightarrow> finish_with ''PATH_ACTIVATED'' c')) (safe_end E P (acts w2)) w2"
      using fin[of c' c'] that(3) unfolding good_def by blast
    then show ?thesis using None that(1,2) by (simp only: option.case) (erule wp_mono, rule safe_end_prepend[where a = "DidActivate c' True (wdb w1)"], simp_all add: that(4) None)
  next
    case (Some e)
    have "wp (block E GatewayBlocked ''PATH_ACTIVATION_FAILED'' (Some e)) (\<lambda>out w'. safe_end E P (acts w2) out w' \<and> snd out \<noteq> None) w2"
      using assms(1) _ that(3) by (rule blocked_error) simp
    then show ?thesis using Some that(1,2) by (simp only: option.case) (erule wp_mono, rule safe_end_prepend[where a = "DidActivate c' False (wdb w1)"], simp_all add: that(4) Some)
  qed
  show "wp (case r of Inl e \<Rightarrow> block E GatewayBlocked ''ACTIVATION_INTENT_REJECTED'' (Some e)
      | Inr (s, _) \<Rightarrow> let candidate = c\<lparr>RcConfigGeneration := ConfigGeneration s\<rparr>
          in State_Monad.bind (Actuator_Activate E candidate) (\<lambda>activated. case activated of
              None \<Rightarrow> State_Monad.bind (?finish candidate) (\<lambda>fin. case fin of
                Inl e \<Rightarrow> block E GatewayBlocked ''ACTIVATION_COMMIT_REJECTED'' (Some e) | Inr x \<Rightarrow> finish_with ''PATH_ACTIVATED'' candidate)
            | Some e \<Rightarrow> block E GatewayBlocked ''PATH_ACTIVATION_FAILED'' (Some e)))
     (safe_end E P (acts w)) w1"
  proof (cases r)
    case (Inl e)
    have "good E P (block E GatewayBlocked ''ACTIVATION_INTENT_REJECTED'' (Some e))" by (simp add: good_block assms(1))
    then have "wp (block E GatewayBlocked ''ACTIVATION_INTENT_REJECTED'' (Some e)) (safe_end E P (acts w1)) w1"
      using w1(1) unfolding good_def by blast
    then show ?thesis using w1(2) Inl by simp
  next
    case (Inr x)
    obtain s ch where r: "r = Inr (s, ch)" using Inr by (cases x) auto
    have "begun (c\<lparr>RcConfigGeneration := ConfigGeneration s\<rparr>) (wdb w1)" using b r by simp
    then show ?thesis
      unfolding r sum.case prod.case Let_def wp_bind wp_prims by (intro post assms(2)) (simp_all add: w1)
  qed
qed

section \<open>Every reconciliation is good\<close>

lemma good_mark_switched: "sane_env E \<Longrightarrow> good E P next \<Longrightarrow> good E P (mark_switched E reason next)"
  unfolding mark_switched_def
  by (intro good_silent_bind silent_db_op keeps_live_ops) (simp_all add: good_block split: sum.splits)

lemma safe_end_append:
  assumes "safe_end E P before (r, None) w1" "safe_end E P (acts w1) out w'"
  shows "safe_end E P before out w'"
proof -
  obtain new1 where n1: "acts w1 = before @ new1" "list_all (act_ok P) new1" "new1 \<noteq> [] \<longrightarrow> \<not> unsettled (last new1)"
    using assms(1) by (auto simp: safe_end_def)
  obtain new2 where n2: "live (wdb w')" "acts w' = acts w1 @ new2" "list_all (act_ok P) new2" "new2 \<noteq> [] \<longrightarrow> \<not> unsettled (last new2)"
    "snd out \<noteq> None \<longrightarrow> new2 \<noteq> [] \<and> blocking (last new2) \<and> (env_fault E (calls w' - 1) \<noteq> FaultTx \<longrightarrow> row_blocked (wdb w'))"
    using assms(2) by (auto simp: safe_end_def)
  show ?thesis unfolding safe_end_def using n1 n2 by (intro conjI exI[of _ "new1 @ new2"]) (auto simp: last_append split: if_splits)
qed

lemma good_activate_then:
  assumes "good E P m" and "\<And>result. good E P (k result)"
    and "\<And>result e before w. safe_end E P before (result, Some e) w \<Longrightarrow> wp (h result e) (safe_end E P before) w"
  shows "good E P (State_Monad.bind m (\<lambda>(result, err). case err of Some e \<Rightarrow> h result e | None \<Rightarrow> k result))"
  unfolding good_def wp_bind
proof (intro allI impI)
  fix w :: world assume l: "live (wdb w)"
  then have "wp m (safe_end E P (acts w)) w" using assms(1) by (simp add: good_def)
  then show "wp m (\<lambda>r. wp (case r of (result, err) \<Rightarrow> case err of None \<Rightarrow> k result | Some e \<Rightarrow> h result e) (safe_end E P (acts w))) w"
  proof (rule wp_mono)
    fix r w1 assume s: "safe_end E P (acts w) r w1"
    obtain result err where r: "r = (result, err)" by (cases r)
    show "wp (case r of (result, err) \<Rightarrow> case err of None \<Rightarrow> k result | Some e \<Rightarrow> h result e) (safe_end E P (acts w)) w1"
    proof (cases err)
      case None
      have "live (wdb w1)" using s by (simp add: safe_end_def)
      then have "wp (k result) (safe_end E P (acts w1)) w1" using assms(2) by (simp add: good_def)
      then show ?thesis using s None r by (auto elim: wp_mono safe_end_append)
    next
      case (Some e)
      then show ?thesis using assms(3) s r by simp
    qed
  qed
qed

lemma good_return_error: "safe_end E P before (result, Some e) w \<Longrightarrow> wp (State_Monad.return (result, Some e)) (safe_end E P before) w"
  by simp

lemma good_reset_error:
  "safe_end E P before (result, Some e) w
     \<Longrightarrow> wp (State_Monad.bind (set_startup False) (\<lambda>_. State_Monad.return (result, Some e))) (safe_end E P before) w"
  by (simp add: safe_end_def)

text \<open>Which candidates a reconciliation may activate when it observed \<open>obs\<close>.\<close>

definition plane_ready :: "observed \<Rightarrow> rcandidate \<Rightarrow> bool" where
  "plane_ready obs c \<longleftrightarrow> FirewallReady obs \<and> (RcMethodKind c = MethodDirect \<or> MihomoReady obs \<and> TUNReady obs)"

lemma plane_ready_generation [simp]:
  "plane_ready obs (c\<lparr>RcConfigGeneration := g\<rparr>) = plane_ready obs c" "plane_ready obs (c\<lparr>RcStartupRecovery := b\<rparr>) = plane_ready obs c"
  by (simp_all add: plane_ready_def)

lemma filter_items_available:
  "filter_items obs s k acc h cs = (filtered, healthy) \<Longrightarrow> c \<in> set filtered \<Longrightarrow> c \<in> set acc \<or> \<not> vpn_unavailable obs c"
  by (induction obs s k acc h cs rule: filter_items.induct) (fastforce split: if_splits)+

lemma policy_items_available:
  "policy_items obs s k acc cs = Inr eligible \<Longrightarrow> c \<in> set eligible \<Longrightarrow> c \<in> set acc \<or> \<not> vpn_unavailable obs c"
  by (induction obs s k acc cs rule: policy_items.induct) (fastforce split: if_splits)+

lemma Rank_winner_kind:
  assumes "Rank cs k = Inr d"
  shows "MethodKind (DecCandidate d) = MethodDirect \<or> MethodKind (DecCandidate d) = MethodSubscription"
proof -
  have "validateCandidate (DecCandidate d) = Inr ()"
    using Rank_Inr(1)[OF assms] Rank_winner(1)[OF assms] by (simp add: valid_candidates_def)
  then show ?thesis by (cases "MethodKind (DecCandidate d)") (auto simp: validateCandidate_def split: if_splits quality.splits)
qed

lemma winner_ready:
  assumes "Rank cs k = Inr d" "\<And>c. c \<in> set cs \<Longrightarrow> \<not> vpn_unavailable obs c" "FirewallReady obs"
  shows "plane_ready obs (candidateFromAccess (DecCandidate d))"
  using Rank_winner_kind[OF assms(1)] assms(2)[OF Rank_winner(1)[OF assms(1)]] assms(3)
  by (auto simp: plane_ready_def candidateFromAccess_def vpn_unavailable_def)

lemma good_replace_active:
  assumes "sane_env E" "plane_ready obs c"
  shows "good E (plane_ready obs) (replace_active E c)"
  unfolding replace_active_def
  by (intro good_activate_then good_activate good_mark_switched good_return_error assms(1) good_finish) (simp add: assms(2))

lemma good_policy_transition:
  assumes "sane_env E" "FirewallReady obs"
  shows "good E (plane_ready obs) (reconcileUnifiedPolicyTransition E obs desired hasTargets)"
proof -
  have ready: "plane_ready obs (candidateFromAccess (DecCandidate d))"
    if "policy_items obs desired k [] items = Inr cs" "Rank cs k = Inr d" for k items cs d
    using policy_items_available[OF that(1)] by (intro winner_ready[OF that(2) _ assms(2)]) auto
  show ?thesis
    unfolding reconcileUnifiedPolicyTransition_def Let_def
    by (auto intro!: good_silent_bind good_block silent_db_op silent_db_read good_replace_active ready
        simp: assms(1) split: option.splits sum.splits)
qed

lemma good_switch_to:
  assumes "sane_env E" "plane_ready obs c"
  shows "good E (plane_ready obs) (switch_to E c startup reason)"
  unfolding switch_to_def
  by (intro good_activate_then good_activate good_mark_switched good_reset_error good_silent_bind silent_prims assms(1) good_finish)
     (simp add: assms(2))

lemma good_apply_decision:
  assumes "sane_env E" "plane_ready obs (candidateFromAccess (DecCandidate d))"
  shows "good E (plane_ready obs) (apply_decision E k h startup tr d)"
  unfolding apply_decision_def Let_def
  by (auto intro!: good_silent_bind good_block silent_db_op good_switch_to simp: assms split: sum.splits)

lemma good_unified:
  assumes "sane_env E" "FirewallReady obs"
  shows "good E (plane_ready obs) (reconcileUnified E obs desired hasTargets)"
proof -
  have ready: "plane_ready obs (candidateFromAccess (DecCandidate d))"
    if "filter_items obs desired k [] False items = (filtered, healthy)" "Rank filtered k = Inr d" for k items filtered healthy d
    using filter_items_available[OF that(1)] by (intro winner_ready[OF that(2) _ assms(2)]) auto
  show ?thesis
    unfolding reconcileUnified_def Let_def
    by (auto intro!: good_silent_bind good_block silent_db_op silent_db_read good_apply_decision good_policy_transition ready
        simp: assms split: option.splits sum.splits prod.splits)
qed

lemma good_legacy:
  assumes "sane_env E" "\<And>c. P c"
  shows "good E P (reconcilePolicyTransition E obs desired hasTargets)" "good E P (reconcileLegacy E obs desired)"
proof -
  note rules = good_silent_bind good_block silent_db_op silent_db_read good_activate
  have wait: "good E P (replace_or_wait E expired)" for expired
    unfolding replace_or_wait_def by (auto intro!: rules simp: assms split: sum.splits)
  have best: "good E P (activate_best E desired)"
    unfolding activate_best_def by (auto intro!: rules simp: assms split: sum.splits)
  have step: "good E P (degraded_step E desired next)" if "good E P next" for "next"
    unfolding degraded_step_def by (auto intro!: rules that simp: assms split: sum.splits)
  show "good E P (reconcilePolicyTransition E obs desired hasTargets)"
    unfolding reconcilePolicyTransition_def Let_def
    by (auto intro!: rules wait simp: assms split: option.splits sum.splits)
  have keep: "good E P (if b then State_Monad.bind (db_read E (\<lambda>t f. FreshNodeCandidate t f p n)) (\<lambda>res. case res of
        Inr candidate \<Rightarrow> finish_with ''NO_CHANGE'' candidate
      | Inl e \<Rightarrow> if e \<noteq> ErrNotFound then block E GatewayBlocked ''ACTIVE_PATH_VALIDATION_FAILED'' (Some e) else activate_best E desired)
     else activate_best E desired)" for b p n
    by (auto intro!: rules best simp: assms split: sum.splits)
  show "good E P (reconcileLegacy E obs desired)"
    unfolding reconcileLegacy_def Let_def by (intro good_if step keep)
qed

definition may_activate :: "rc_env \<Rightarrow> nat \<Rightarrow> rcandidate \<Rightarrow> bool" where
  "may_activate E i c \<longleftrightarrow> (case env_observe E i of Inl _ \<Rightarrow> False | Inr obs \<Rightarrow> plane_ready obs c)"

lemma safe_end_weaken: "safe_end E P before out w' \<Longrightarrow> (\<And>c. P c \<Longrightarrow> Q c) \<Longrightarrow> safe_end E Q before out w'"
proof -
  assume s: "safe_end E P before out w'" and i: "\<And>c. P c \<Longrightarrow> Q c"
  have "act_ok P a \<Longrightarrow> act_ok Q a" for a using i by (cases a) auto
  then have "list_all (act_ok P) new \<Longrightarrow> list_all (act_ok Q) new" for new by (auto simp: list_all_iff)
  with s show ?thesis by (fastforce simp: safe_end_def)
qed

lemma good_observed:
  assumes "sane_env E"
  shows "good E (plane_ready obs) (reconcile_observed E obs)"
proof -
  have legacy: "good E (plane_ready obs) (reconcilePolicyTransition E obs desired hasTargets)"
    "good E (plane_ready obs) (reconcileLegacy E obs desired)"
    if "FirewallReady obs" "MihomoReady obs" "TUNReady obs" for desired hasTargets
    using that by (auto intro!: good_legacy simp: assms plane_ready_def)
  show ?thesis
    unfolding reconcile_observed_def
    by (auto intro!: good_silent_bind good_block silent_db_read good_unified legacy simp: assms split: sum.splits)
qed

lemma reconcile_safe:
  assumes "sane_env E" "env_complete E" "live (wdb w)"
  shows "wp (reconcile E) (safe_end E (may_activate E (calls w)) (acts w)) w"
proof -
  let ?w1 = "w\<lparr>calls := calls w + 1\<rparr>"
  have run: "wp m (safe_end E Q (acts w)) ?w1" if "good E Q m" for Q m
    using that[unfolded good_def, rule_format, of ?w1] assms(3) by simp
  show ?thesis
  proof (cases "env_observe E (calls w)")
    case (Inl e)
    have "good E (may_activate E (calls w)) (block E GatewayBlocked ''OBSERVATION_FAILED'' (Some e))" by (simp add: good_block assms(1))
    then show ?thesis using assms(2) Inl run by (simp add: reconcile_def)
  next
    case (Inr obs)
    have "wp (reconcile_observed E obs) (safe_end E (may_activate E (calls w)) (acts w)) ?w1"
      using run[OF good_observed[OF assms(1)]] by (rule wp_mono) (auto elim!: safe_end_weaken simp: may_activate_def Inr)
    then show ?thesis using assms(2) Inr by (simp add: reconcile_def)
  qed
qed

text \<open>
  Property C1 (fail closed): whatever the observer reports, whichever driver and actuator calls fail, and whatever other
  goroutines do to the database in between (as long as they keep the runtime row and its invariant), a reconciliation
  that returns an error has asked the actuator to block as its last action, and unless the final database call itself failed the
  runtime row is blocked and names no path. Whether it returns an error or not, it never ends on a failed activation.
\<close>

theorem reconcile_fails_closed:
  assumes "sane_env E" "env_complete E" "live (wdb w)" and "run_state (reconcile E) w = ((res, err), w')"
  shows "\<exists>new. acts w' = acts w @ new \<and> (new \<noteq> [] \<longrightarrow> \<not> unsettled (last new))
     \<and> (err \<noteq> None \<longrightarrow> new \<noteq> [] \<and> blocking (last new)
          \<and> (env_fault E (calls w' - 1) \<noteq> FaultTx \<longrightarrow> row_blocked (wdb w')))"
  using reconcile_safe[OF assms(1-3)] assms(4) by (auto simp: wp_def safe_end_def)

text \<open>
  Property C5 (what may be activated): every activation a reconciliation asks of the actuator happens when the firewall was
  observed ready (and Mihomo and the TUN device, unless the path is direct), and after the database has committed the
  intention: its runtime row is verifying exactly the activated path and node under the configuration generation passed to the actuator.
\<close>

theorem activations_are_begun:
  assumes "sane_env E" "env_complete E" "live (wdb w)" and "run_state (reconcile E) w = ((res, err), w')"
  shows "\<exists>new. acts w' = acts w @ new
     \<and> (\<forall>c ok D. DidActivate c ok D \<in> set new \<longrightarrow> may_activate E (calls w) c \<and> begun c D)"
proof -
  obtain new where "acts w' = acts w @ new" "list_all (act_ok (may_activate E (calls w))) new"
    using reconcile_safe[OF assms(1-3)] assms(4) by (auto simp: wp_def safe_end_def)
  moreover have "act_ok P (DidActivate c ok D) \<Longrightarrow> P c \<and> begun c D" for P c ok D by simp
  ultimately show ?thesis unfolding list_all_iff by blast
qed

section \<open>A successful activation\<close>

definition confirmed :: "rcandidate \<Rightarrow> db \<Rightarrow> bool" where
  "confirmed c D \<longleftrightarrow> (\<exists>r. runtime_state D = Some r \<and> rt_path_state r = PathActive
     \<and> (if RcMethodKind c = MethodDirect then null_str (rt_active_direct_path_id r) = RcPathID c
        else null_str (rt_active_path_id r) = RcPathID c \<and> null_str (rt_active_node_id r) = RcNodeID c))"

lemma confirmed_startup [simp]: "confirmed (c\<lparr>RcStartupRecovery := b\<rparr>) D = confirmed c D"
  by (simp add: confirmed_def)

lemma finish_confirmed:
  assumes "FinishNodeActivation t f pathID nodeID pg rg D = (D', Inr (s, changed))"
    and "RcMethodKind c \<noteq> MethodDirect" "RcPathID c = pathID" "RcNodeID c = nodeID"
  shows "confirmed c D'"
proof -
  have ne: "nodeID \<noteq> []" and b: "finishActivation t f pathID nodeID pg rg D = (D', Inr (s, changed))"
    using assms(1) by (auto simp: FinishNodeActivation_def split: if_splits)
  have "\<exists>r path. runtime_state D' = Some r \<and> readFreshPath pathID nodeID pg rg t D = Inr path \<and> rt_path_state r = PathActive
      \<and> null_str (rt_active_path_id r) = FpID path \<and> null_str (rt_active_node_id r) = FpNodeID path"
    using b unfolding finishActivation_def
  proof (cases rule: transact_outcome)
    case (kept s')
    then show ?thesis by (auto simp: Let_def record_state_def scanSnapshot_def split: if_splits)
  next
    case committed
    then show ?thesis
      by (auto simp: Let_def Get_def scanSnapshot_def row_changes update_runtime_def read_runtime_def
          split: if_splits option.splits elim!: record_state_Commit)
  qed simp
  then show ?thesis using readFreshPath_ids(1,2)[of pathID nodeID pg rg t D] ne assms(2-4) by (fastforce simp: confirmed_def)
qed

lemma finish_direct_confirmed:
  assumes "FinishDirectActivation q t f pathID pg rg D = (D', Inr (s, changed))"
    and "RcMethodKind c = MethodDirect" "RcPathID c = pathID"
  shows "confirmed c D'"
proof -
  have "\<exists>r path. runtime_state D' = Some r \<and> readFreshDirectPath q pathID pg rg t D = Inr path \<and> rt_path_state r = PathActive
      \<and> null_str (rt_active_direct_path_id r) = FdID path"
    using assms(1) unfolding FinishDirectActivation_def
  proof (cases rule: transact_outcome)
    case (kept s')
    then show ?thesis by (auto simp: Let_def record_state_def scanSnapshot_def split: if_splits)
  next
    case committed
    then show ?thesis
      by (auto simp: Let_def Get_def scanSnapshot_def row_changes update_runtime_def read_runtime_def
          split: if_splits option.splits elim!: record_state_Commit)
  qed simp
  then show ?thesis using readFreshDirectPath_id[of q pathID pg rg t D] assms(2,3) by (fastforce simp: confirmed_def)
qed

lemma activate_confirms:
  "wp (activate E c) (\<lambda>out w'. snd out = None \<longrightarrow> confirmed c (wdb w')
     \<and> (\<exists>g D. acts w' = acts w @ [DidActivate (c\<lparr>RcConfigGeneration := g\<rparr>) True D])) w"
proof -
  have err: "wp (block E g reason (Some e)) (\<lambda>out w'. snd out = None \<longrightarrow> Q out w') w1" for g reason e w1 and Q :: "outcome \<Rightarrow> world \<Rightarrow> bool"
    by (rule wp_mono[OF block_error]) auto
  show ?thesis
    unfolding activate_def
    by (auto simp: Let_def finish_with_def err intro: finish_confirmed finish_direct_confirmed
        split: prod.splits sum.splits option.splits)
qed

text \<open>
  A reported activation is real: when \<open>activate\<close> returns without an error, its only actuator call was a
  successful activation of the requested path, and the runtime row is active on exactly that path and node; when it returns an
  error, the last actuator call is a block and the row is blocked unless the final database call failed.
\<close>

theorem activate_succeeds_or_blocks:
  assumes "sane_env E" "live (wdb w)" and "run_state (activate E c) w = ((res, err), w')"
  shows "case err of
      None \<Rightarrow> confirmed c (wdb w') \<and> (\<exists>g D. acts w' = acts w @ [DidActivate (c\<lparr>RcConfigGeneration := g\<rparr>) True D])
    | Some e \<Rightarrow> (\<exists>new. acts w' = acts w @ new \<and> new \<noteq> [] \<and> blocking (last new))
        \<and> (env_fault E (calls w' - 1) \<noteq> FaultTx \<longrightarrow> row_blocked (wdb w'))"
proof (cases err)
  case None
  then show ?thesis using activate_confirms[of E c w] assms(3) by (simp add: wp_def)
next
  case (Some e)
  have "good E (\<lambda>_. True) (activate E c)" using assms(1) by (rule good_activate) simp
  then show ?thesis using assms(2,3) Some by (auto simp: good_def wp_def safe_end_def)
qed

section \<open>Recovery from the blocked state\<close>

text \<open>Nothing fails and nobody interferes.\<close>

definition quiet_env :: "rc_env \<Rightarrow> bool" where
  "quiet_env E \<longleftrightarrow> env_complete E \<and> env_access_paths E \<and> env_access_policy E
     \<and> (\<forall>i. env_fault E i = NoFault) \<and> (\<forall>i D. env_other E i D = D) \<and> (\<forall>i c. env_activate E i c = None) \<and> (\<forall>i. \<not> is_zero (env_now E i))"

lemma readFreshPath_selection [simp]:
  "readFreshPath pathID nodeID pg rg now (D\<lparr>access_selection_runtime := x\<rparr>) = readFreshPath pathID nodeID pg rg now D"
  by (simp add: readFreshPath_def)

lemma activate_fresh:
  assumes "quiet_env E" "live (wdb w)" "RcMethodKind c = MethodSubscription"
    and "\<And>i. readFreshPath (RcPathID c) (RcNodeID c) (RcPolicyGeneration c) (RcRouteGeneration c) (env_now E i) (wdb w) = Inr (fp i)"
    and "\<not> blank (RcNodeID c)" "length (RcNodeID c) \<le> 1000" "is_int64 (RcPolicyGeneration c)" "is_int64 (RcRouteGeneration c)"
  shows "wp (activate E c) (\<lambda>out w'. snd out = None \<and> Action (fst out) = ''PATH_ACTIVATED'' \<and> confirmed c (wdb w')
      \<and> (\<exists>r es. wdb w' = (wdb w)\<lparr>runtime_state := Some r, events := es\<rparr> \<and> rt_gateway_state r = GatewayActive)) w"
proof -
  let ?D = "wdb w" and ?p = "RcPathID c" and ?n = "RcNodeID c" and ?pg = "RcPolicyGeneration c" and ?rg = "RcRouteGeneration c"
  note q = assms(1)[unfolded quiet_env_def]
  obtain r where inv: "runtime_inv ?D" and r: "runtime_state ?D = Some r" using assms(2) by (auto simp: live_def)
  have ne: "?n \<noteq> []" using assms(5) by auto
  obtain r1 es ch where b: "beginActivation (env_now E (calls w)) NoFault ?p ?n ?pg ?rg ?D
      = (?D\<lparr>runtime_state := Some r1, events := es\<rparr>, Inr (scanSnapshot r1, ch))"
    and r1: "verifying_tuple ?p ?n r1" "runtime_row_ok ?D r1"
    using beginActivation_ok[OF inv r assms(4) ne assms(6-8)] by metis
  let ?D1 = "?D\<lparr>runtime_state := Some r1, events := es\<rparr>"
  let ?t2 = "env_now E (Suc (Suc (calls w)))"
  have rt1: "runtime_state ?D1 = Some r1" "runtime_row_ok ?D1 r1"
    and fresh2: "readFreshPath ?p ?n ?pg ?rg ?t2 ?D1 = Inr (fp (Suc (Suc (calls w))))" using r1(2) assms(4) by simp_all
  obtain es2 where f: "finishActivation ?t2 NoFault ?p ?n ?pg ?rg ?D1
      = (?D1\<lparr>runtime_state := Some (finish_row (format_time ?t2) r1), events := es2\<rparr>, Inr (scanSnapshot (finish_row (format_time ?t2) r1), True))"
    using finishActivation_ok[OF rt1(1,2) r1(1) fresh2 ne assms(6)] by metis
  have "confirmed c (?D\<lparr>runtime_state := Some (finish_row (format_time ?t2) r1), events := es2\<rparr>)"
    using r1(1) assms(3) by (simp add: confirmed_def row_changes verifying_tuple_def)
  then show ?thesis
    using q assms(3,5) b f by (auto simp: activate_def Let_def BeginNodeActivation_def FinishNodeActivation_def finish_with_def row_changes)
qed

lemma blocked_key: "live D \<Longrightarrow> runtime_state D = Some r \<Longrightarrow> rt_path_state r = PathBlocked \<Longrightarrow> activeCandidateKey (scanSnapshot r) = []
    \<and> \<not> PolicyTransitionActive (scanSnapshot r)"
proof -
  assume "live D" and r: "runtime_state D = Some r" and b: "rt_path_state r = PathBlocked"
  then have "clear_transition (clear_tuple r) = r" by (simp add: live_def runtime_inv_def row_inv_def)
  then have "rt_active_method_kind r = None" by (cases r) (simp add: clear_transition_def clear_tuple_def)
  then show ?thesis using b by (simp add: activeCandidateKey_def scanSnapshot_def PolicyTransitionActive_def)
qed

lemma no_active_path:
  "\<not> blank key \<Longrightarrow> \<not> is_zero t \<Longrightarrow> EvaluateTransition \<lparr>CurrentKey = [], ProposedKey = key, CurrentHealthy = h, HardFailure = x,
     InPolicy = p, InRuntime = s, InNow = t\<rparr> = Inr \<lparr>Allow = True, TrackPending = False, ClearPending = True, TrReason = ''NO_ACTIVE_PATH''\<rparr>"
  using not_blank_nonempty[of key] by (simp add: EvaluateTransition_def decide_def)

lemma filter_items_all:
  "MihomoReady obs \<Longrightarrow> TUNReady obs \<Longrightarrow> fst (filter_items obs s k acc h items) = acc @ items"
  by (induction obs s k acc h items rule: filter_items.induct) (simp_all add: vpn_unavailable_def)

lemma wp_apply_no_active:
  assumes "quiet_env E" "live (wdb w)" "c = candidateFromAccess (DecCandidate d)" "RcMethodKind c = MethodSubscription" "RcKey c \<noteq> []"
    and "\<And>i. readFreshPath (RcPathID c) (RcNodeID c) (RcPolicyGeneration c) (RcRouteGeneration c) (env_now E i) (wdb w) = Inr (fp i)"
    and "\<not> blank (RcNodeID c)" "length (RcNodeID c) \<le> 1000" "is_int64 (RcPolicyGeneration c)" "is_int64 (RcRouteGeneration c)"
  shows "wp (apply_decision E [] h False \<lparr>Allow = True, TrackPending = False, ClearPending = True, TrReason = ''NO_ACTIVE_PATH''\<rparr> d)
     (\<lambda>out w'. snd out = None \<and> Action (fst out) = ''ACCESS_METHOD_ACTIVATED'' \<and> confirmed c (wdb w')) w"
proof -
  note q = assms(1)[unfolded quiet_env_def]
  let ?w1 = "w\<lparr>wdb := update_selection (\<lambda>r. r\<lparr>sr_pending_candidate_key := None, sr_pending_candidate_since := None,
      sr_updated_at := format_time (env_now E (calls w))\<rparr>) (wdb w), calls := Suc (calls w)\<rparr>"
  let ?c = "c\<lparr>RcStartupRecovery := False\<rparr>"
  have key: "Key (DecCandidate d) \<noteq> []" using assms(3,5) by (simp add: candidateFromAccess_def)
  have "wp (activate E ?c) (\<lambda>out w'. snd out = None \<and> Action (fst out) = ''PATH_ACTIVATED'' \<and> confirmed ?c (wdb w')
      \<and> (\<exists>r es. wdb w' = (wdb ?w1)\<lparr>runtime_state := Some r, events := es\<rparr> \<and> rt_gateway_state r = GatewayActive)) ?w1"
    using assms(2,4,6-10) by (intro activate_fresh[OF assms(1), of _ _ fp]) (simp_all add: update_selection_def)
  then have act: "wp (activate E ?c) (\<lambda>out w'. snd out = None \<and> confirmed c (wdb w')) ?w1"
    by (rule wp_mono) simp
  have mark: "wp (mark_switched E ''NO_ACTIVE_PATH'' (State_Monad.bind (set_startup False) (\<lambda>_. State_Monad.return (res\<lparr>Action := a\<rparr>, None))))
      (\<lambda>out w'. snd out = None \<and> Action (fst out) = a \<and> confirmed c (wdb w')) w2" if "confirmed c (wdb w2)" for res a w2
    using q that not_blank_capital[of "CHR ''N''"]
    by (simp add: mark_switched_def MarkSwitched_def exec_selection_def update_selection_def Let_def confirmed_def)
  have "wp (switch_to E ?c False ''NO_ACTIVE_PATH'') (\<lambda>out w'. snd out = None \<and> Action (fst out) = ''ACCESS_METHOD_ACTIVATED'' \<and> confirmed c (wdb w')) ?w1"
    unfolding switch_to_def wp_bind using act by (rule wp_mono) (auto split: prod.splits intro!: mark)
  then show ?thesis
    using q key assms(3) by (simp add: apply_decision_def Let_def ClearPendingCandidate_def exec_selection_def)
qed


section \<open>Manual activation\<close>

lemma wp_db_read: "wp (db_read E q) Q w = Q (q (env_now E (calls w)) (env_fault E (calls w)) (env_other E (calls w) (wdb w)))
    (w\<lparr>wdb := env_other E (calls w) (wdb w), calls := calls w + 1\<rparr>)"
  by (simp add: db_read_def)

lemma AppendEvent_runtime: "runtime_state (fst (AppendEvent t f ev D)) = runtime_state D"
  by (auto simp: AppendEvent_def split: sum.splits dest: appendEventTx_Inr)

definition manual_end :: "rc_env \<Rightarrow> world \<Rightarrow> outcome \<Rightarrow> world \<Rightarrow> bool" where
  "manual_end E w out w' \<longleftrightarrow> (snd out \<noteq> None \<longrightarrow>
     acts w' = acts w \<and> runtime_state (wdb w') = runtime_state (wdb w)
   \<or> (\<exists>new. acts w' = acts w @ new \<and> new \<noteq> [] \<and> blocking (last new))
     \<and> (env_fault E (calls w' - 1) \<noteq> FaultTx \<longrightarrow> row_blocked (wdb w')))"

lemma manual_refuse: "acts w1 = acts w \<Longrightarrow> runtime_state (wdb w1) = runtime_state (wdb w) \<Longrightarrow> wp (refuse e) (manual_end E w) w1"
  by (simp add: refuse_def manual_end_def)

lemma manual_finish: "wp (finish_with a c) (manual_end E w) w1"
  by (simp add: finish_with_def manual_end_def)

lemma manual_activate:
  assumes "sane_env E" "live (wdb w1)" "acts w1 = acts w"
  shows "wp (activate E c) (manual_end E w) w1"
proof -
  have "good E (\<lambda>_. True) (activate E c)" using assms(1) by (rule good_activate) simp
  then have "wp (activate E c) (safe_end E (\<lambda>_. True) (acts w1)) w1" using assms(2) unfolding good_def by blast
  then show ?thesis using assms(3) by (elim wp_mono) (auto simp: safe_end_def manual_end_def)
qed

lemma ActivateExact_end:
  assumes "sane_env E" "live (wdb w)" "\<And>i D. env_other E i D = D"
  shows "wp (ActivateExact E pathID nodeID) (manual_end E w) w"
proof -
  have audit: "wp (db_op E (\<lambda>t f. AppendEvent t f ev)) (\<lambda>r. wp (case r of Inl e \<Rightarrow> refuse e | Inr _ \<Rightarrow> activate E c) (manual_end E w)) w1"
    if "acts w1 = acts w" "wdb w1 = wdb w" for ev c w1
  proof -
    obtain D r where D: "AppendEvent (env_now E (calls w1)) (env_fault E (calls w1)) ev (wdb w) = (D, r)" by fastforce
    have "live D" "runtime_state D = runtime_state (wdb w)"
      using live_ops(8)[OF assms(2), of "env_now E (calls w1)" "env_fault E (calls w1)" ev]
        AppendEvent_runtime[of "env_now E (calls w1)" "env_fault E (calls w1)" ev "wdb w"] D by simp_all
    then show ?thesis
      using that D by (auto simp: assms(3) split: sum.splits intro!: manual_refuse manual_activate assms(1))
  qed
  show ?thesis
    unfolding ActivateExact_def
    by (auto simp: wp_db_read assms(3) simp del: wp_db_op intro!: manual_refuse manual_finish audit split: sum.splits)
qed

text \<open>
  Property C28 (a manual activation is all or nothing): without interference, a manual activation that returns an error has either
  not touched the data plane and the runtime row at all, or has blocked: its last actuator call is a block and, unless the final database
  call failed, the row names no path. There is no error that leaves a half-activated path.
\<close>

theorem ActivateExact_all_or_nothing:
  assumes "sane_env E" "live (wdb w)" "\<And>i D. env_other E i D = D"
    and "run_state (ActivateExact E pathID nodeID) w = ((res, Some e), w')"
  shows "acts w' = acts w \<and> runtime_state (wdb w') = runtime_state (wdb w)
   \<or> (\<exists>new. acts w' = acts w @ new \<and> new \<noteq> [] \<and> blocking (last new))
     \<and> (env_fault E (calls w' - 1) \<noteq> FaultTx \<longrightarrow> row_blocked (wdb w'))"
  using ActivateExact_end[OF assms(1,2,3), of pathID nodeID] assms(4) by (simp add: wp_def manual_end_def)

section \<open>Concrete inputs\<close>

definition obs0 :: observed where
  "obs0 = \<lparr>FirewallReady = True, MihomoReady = True, TUNReady = True, ObsMethodKind = MethodOther [], ObsActivePathID = [],
     ObsActiveDirectPathID = [], ObsActiveNodeID = []\<rparr>"

definition env0 :: rc_env where
  "env0 = \<lparr>env_sql = sql0, env_complete = True, env_access_paths = True, env_access_policy = True, env_observe = (\<lambda>_. Inr obs0),
     env_block = (\<lambda>_ _. None), env_activate = (\<lambda>_ _. None), env_now = (\<lambda>_. now0), env_fault = (\<lambda>_. NoFault), env_other = (\<lambda>_ D. D)\<rparr>"

definition world0 :: world where
  "world0 = \<lparr>wdb = db0\<lparr>runtime_state := Some (block_row GatewayBlocked text0 runtime0)\<rparr>, StartupRecovery = False, acts = [], calls = 0\<rparr>"

lemma env0_sane: "sane_env env0" "sane_env (env0\<lparr>env_observe := x\<rparr>)" "env_complete env0" "env_complete (env0\<lparr>env_observe := x\<rparr>)"
  by (simp_all add: sane_env_def env0_def)

lemma db0_live: "live db0"
proof -
  have "runtime_inv db0" by code_simp
  then show ?thesis by (simp add: live_def db0_def)
qed

lemma world0_live: "live (wdb world0)"
proof -
  have "runtime_row_ok db0 runtime0" using db0_live by (simp add: live_def runtime_inv_def db0_def)
  then have "runtime_row_ok db0 (block_row GatewayBlocked text0 runtime0)" by (rule block_row_ok)
  then show ?thesis by (simp add: world0_def live_def runtime_inv_def)
qed

theorem reconcile_fails_closed_witness:
  "\<exists>res e w'. run_state (reconcile (env0\<lparr>env_observe := (\<lambda>_. Inl ErrDriver)\<rparr>)) world0 = ((res, Some e), w') \<and> row_blocked (wdb w')
     \<and> (\<exists>new. acts w' = new \<and> new \<noteq> [] \<and> blocking (last new))"
proof -
  let ?E = "env0\<lparr>env_observe := (\<lambda>_. Inl ErrDriver)\<rparr>"
  obtain res err w' where run: "run_state (reconcile ?E) world0 = ((res, err), w')" by (metis prod.collapse)
  have "wp (reconcile ?E) (\<lambda>out w'. snd out \<noteq> None) world0"
    using block_error[of ?E GatewayBlocked "''OBSERVATION_FAILED''" ErrDriver "world0\<lparr>calls := Suc (calls world0)\<rparr>"]
    by (simp add: reconcile_def env0_def)
  then obtain e where "err = Some e" using run by (auto simp: wp_def)
  then show ?thesis
    using reconcile_fails_closed[OF env0_sane(2,4) world0_live run] run by (auto simp: env0_def world0_def)
qed

lemma world0_tables: "subscription_uplink_paths (wdb world0) = subscription_uplink_paths db0" "uplinks (wdb world0) = uplinks db0"
  "bypass_probe_targets (wdb world0) = bypass_probe_targets db0" "access_policy (wdb world0) = Some policy0"
  "access_selection_runtime (wdb world0) = Some selection0"
  by (simp_all add: world0_def db0_def)

lemma world0_fresh: "readFreshPath ''p1'' ''n1'' 5 3 now0 (wdb world0) = Inr (fresh_path_of sub_path0 path_node0 sub_method0)"
  using sample_fresh(1) by (simp add: readFreshPath_def world0_def)

theorem activations_are_begun_witness:
  "\<exists>res err w' new. run_state (reconcile env0) world0 = ((res, err), w') \<and> acts w' = acts world0 @ new
     \<and> (\<forall>c ok D. DidActivate c ok D \<in> set new \<longrightarrow> may_activate env0 (calls world0) c \<and> begun c D)"
proof -
  obtain res err w' where run: "run_state (reconcile env0) world0 = ((res, err), w')" by (metis prod.collapse)
  from activations_are_begun[OF env0_sane(1,3) world0_live this] run show ?thesis by blast
qed

definition cand0 :: rcandidate where
  "cand0 = no_candidate\<lparr>RcMethodKind := MethodSubscription, RcPathID := ''p1'', RcNodeID := ''n1'', RcPolicyGeneration := 5, RcRouteGeneration := 3\<rparr>"

theorem activate_succeeds_or_blocks_witness:
  "\<exists>res w'. run_state (activate env0 cand0) world0 = ((res, None), w') \<and> confirmed cand0 (wdb w')"
proof -
  have q: "quiet_env env0" by (simp add: quiet_env_def env0_def is_zero_def zero_time_def now0_def second_def)
  have nb: "\<not> blank ''n1''" by code_simp
  have "wp (activate env0 cand0) (\<lambda>out w'. snd out = None \<and> Action (fst out) = ''PATH_ACTIVATED'' \<and> confirmed cand0 (wdb w')
      \<and> (\<exists>r es. wdb w' = (wdb world0)\<lparr>runtime_state := Some r, events := es\<rparr> \<and> rt_gateway_state r = GatewayActive)) world0"
    by (rule activate_fresh[OF q world0_live, where fp = "\<lambda>_. fresh_path_of sub_path0 path_node0 sub_method0"])
       (simp_all add: cand0_def no_candidate_def env0_def world0_fresh nb int64_defs)
  then obtain res w' where run: "run_state (activate env0 cand0) world0 = ((res, None), w')" by (auto simp: wp_def split: prod.splits)
  from activate_succeeds_or_blocks[OF env0_sane(1) world0_live run] run show ?thesis by auto
qed

theorem ActivateExact_all_or_nothing_witness:
  "\<exists>res e w'. run_state (ActivateExact env0 [] ''n1'') world0 = ((res, Some e), w')
     \<and> runtime_state (wdb w') = runtime_state (wdb world0)"
proof -
  have other: "env_other env0 i D = D" for i D by (simp add: env0_def)
  obtain res e w' where run: "run_state (ActivateExact env0 [] ''n1'') world0 = ((res, Some e), w')" and w': "acts w' = []"
    by (simp add: ActivateExact_def env0_def refuse_def world0_def)
  from ActivateExact_all_or_nothing[OF env0_sane(1) world0_live other run] run w' show ?thesis by auto
qed

lemma world0_candidates: "Candidates sql0 now0 NoFault b (wdb world0) = Candidates sql0 now0 NoFault b db0"
proof -
  have ranks: "preferred_ranks x n (db0\<lparr>runtime_state := r\<rparr>) = preferred_ranks x n db0" for x n r by (simp add: preferred_ranks_def)
  have "direct_candidates sql0 now g (wdb world0) = direct_candidates sql0 now g db0"
    "vpn_candidates sql0 now g (wdb world0) = vpn_candidates sql0 now g db0" for now g
    by (simp_all add: world0_def direct_candidates_def vpn_candidates_def ranks cong: if_cong)
  moreover have "currentPolicyGeneration (wdb world0) = currentPolicyGeneration db0"
    by (rule currentPolicyGeneration_frame) (simp add: world0_def)
  ultimately show ?thesis by (simp add: Candidates_def Let_def split: sum.splits)
qed

lemma sample_vpn_candidate:
  "vpn_candidates sql0 text0 5 db0 = [vpn_candidate sub_path0 uplink0 sub_method0 node0 1000000000]"
  by (simp add: vpn_candidates_def db0_def vpn_candidate_where_def sub_path0_def uplink0_def subscription0_def sub_method0_def
      direct_method0_def node0_def path_node0_def julian_after_def sample_julian preferred_ranks_def second_def)

lemma sample_candidates: "Candidates sql0 now0 NoFault False db0 = Inr
   [direct_candidate direct_path0 uplink0 direct_method0, vpn_candidate sub_path0 uplink0 sub_method0 node0 1000000000]"
proof -
  have "direct_candidates sql0 text0 5 db0 = [direct_candidate direct_path0 uplink0 direct_method0]"
    by (simp add: db0_def direct_candidates_def direct_candidate_where_def
        julian_after_def sample_julian direct_path0_def uplink0_def direct_method0_def sub_method0_def second_def)
  moreover have "currentPolicyGeneration db0 = Inr 5"
  proof -
    have "parse_int64 ''6'' = Some 6" by code_simp
    then show ?thesis by (simp add: currentPolicyGeneration_def db0_def)
  qed
  ultimately show ?thesis by (simp add: Candidates_def sample_vpn_candidate now0_text)
qed

lemma world0_rank: "\<exists>d. Rank [direct_candidate direct_path0 uplink0 direct_method0, vpn_candidate sub_path0 uplink0 sub_method0 node0 1000000000] [] = Inr d
    \<and> DecCandidate d = vpn_candidate sub_path0 uplink0 sub_method0 node0 1000000000"
proof -
  let ?a = "direct_candidate direct_path0 uplink0 direct_method0" and ?b = "vpn_candidate sub_path0 uplink0 sub_method0 node0 1000000000"
  have ne: "\<not> blank ''direct:path:u1''" "\<not> blank ''access:direct''" "\<not> blank ''u1''" "\<not> blank ''p1:n1''" "\<not> blank ''access:subscription:s1''"
    "\<not> blank ''s1''" "\<not> blank ''n1''" by code_simp+
  have c: "?a = \<lparr>Key = ''direct:path:u1'', PathID = ''direct:path:u1'', MethodID = ''access:direct'', MethodKind = MethodDirect, UplinkID = ''u1'',
      SubscriptionID = [], NodeID = [], Quality = QualityFull, FunctionalScore = 1000, MethodPriority = 20, UplinkPriority = 1, NodePriority = 0,
      MethodEnabled = True, UplinkReady = True, NodeAllowed = True, Fresh = True, CandPolicyGeneration = 5, CandRouteGeneration = 3\<rparr>"
    "?b = \<lparr>Key = ''p1:n1'', PathID = ''p1'', MethodID = ''access:subscription:s1'', MethodKind = MethodSubscription, UplinkID = ''u1'',
      SubscriptionID = ''s1'', NodeID = ''n1'', Quality = QualityFull, FunctionalScore = 1000, MethodPriority = 10, UplinkPriority = 1,
      NodePriority = 1000000000, MethodEnabled = True, UplinkReady = True, NodeAllowed = True, Fresh = True, CandPolicyGeneration = 5, CandRouteGeneration = 3\<rparr>"
    by (simp_all add: direct_candidate_def direct_path0_def direct_method0_def uplink0_def vpn_candidate_def sub_path0_def sub_method0_def node0_def)
  have "valid_candidates [?a, ?b]" by (simp add: valid_candidates_def c validateCandidate_def ne limited_quality_def)
  moreover have "eligible_candidate ?a" "eligible_candidate ?b" "candidateLess [] ?b ?a"
    by (simp_all add: c eligible_candidate_def candidateLess_def Let_def)
  ultimately show ?thesis
    using Rank_valid[of "[?a, ?b]" ?b "[]"] Rank_winner(1,3)[of "[?a, ?b]" "[]"] by fastforce
qed


end
