(* ===== verification/Watchdog_Policy.thy ===== *)
theory Watchdog_Policy
  imports Go_Time "HOL-Library.AList"
begin

text \<open>
  \<open>internal/watchdog/policy.go\<close> and the fixed component table of \<open>status.go\<close>: the recovery policy of the
  watchdog, its validation, and the recovery mode of each component.

  A Go map from strings is an association list with distinct keys: \<open>map_of\<close> reads it, \<open>AList.update\<close> and
  \<open>AList.delete\<close> change it and \<open>length\<close> is \<open>len\<close>; the list order stands for the (unspecified) order of \<open>range\<close>.
  The integers of the policy are Go's 64-bit \<open>int\<close> and \<open>int64\<close>, which the model reads as \<open>int\<close>: a durations' product
  wraps (\<open>seconds_dur\<close>), nothing else is computed from them.
\<close>

section \<open>Components\<close>

definition bytes :: "nat list \<Rightarrow> string" where "bytes = map char_of"

abbreviation ComponentControl :: string where "ComponentControl \<equiv> ''control_plane''"
abbreviation ComponentSQLite :: string where "ComponentSQLite \<equiv> ''sqlite''"
abbreviation ComponentFirewallGuard :: string where "ComponentFirewallGuard \<equiv> ''firewall_guard''"
abbreviation ComponentFirewallRuleset :: string where "ComponentFirewallRuleset \<equiv> ''firewall_ruleset''"
abbreviation ComponentNetworkBroker :: string where "ComponentNetworkBroker \<equiv> ''network_broker''"
abbreviation ComponentNetworkd :: string where "ComponentNetworkd \<equiv> ''systemd_networkd''"
abbreviation ComponentDNSMasq :: string where "ComponentDNSMasq \<equiv> ''dnsmasq''"
abbreviation ComponentSSH :: string where "ComponentSSH \<equiv> ''openssh_sftp''"
abbreviation ComponentMihomo :: string where "ComponentMihomo \<equiv> ''mihomo''"
abbreviation ComponentWireGuardMgmt :: string where "ComponentWireGuardMgmt \<equiv> ''wireguard_management''"
abbreviation ComponentManagementFabric :: string where "ComponentManagementFabric \<equiv> ''management_fabric_routes''"
abbreviation ComponentWireGuardAdmin :: string where "ComponentWireGuardAdmin \<equiv> ''wireguard_admin''"
abbreviation ComponentWireGuardIngress :: string where "ComponentWireGuardIngress \<equiv> ''wireguard_ingress''"
abbreviation ComponentPolicyRouting :: string where "ComponentPolicyRouting \<equiv> ''policy_routing''"
abbreviation ComponentWorkerRuntime :: string where "ComponentWorkerRuntime \<equiv> ''worker_runtime''"
abbreviation ComponentConvergence :: string where "ComponentConvergence \<equiv> ''configuration_convergence''"
abbreviation ComponentBackup :: string where "ComponentBackup \<equiv> ''database_backup''"
abbreviation ComponentResources :: string where "ComponentResources \<equiv> ''resources''"
abbreviation ComponentLogging :: string where "ComponentLogging \<equiv> ''logging_pipeline''"

text \<open>The labels shown to the operator, in UTF-8.\<close>

definition LabelControl :: string where
  "LabelControl = bytes [87, 101, 98, 85, 73, 47, 65, 80, 73, 32, 208, 184, 32, 99, 111, 110, 116, 114, 111, 108,
     32, 112, 108, 97, 110, 101]"

definition LabelSQLite :: string where
  "LabelSQLite = ''SQLite''"

definition LabelFirewallGuard :: string where
  "LabelFirewallGuard = ''Firewall guard''"

definition LabelFirewallRuleset :: string where
  "LabelFirewallRuleset = bytes [208, 159, 209, 128, 208, 176, 208, 178, 208, 184, 208, 187, 208, 176, 32, 102,
     105, 114, 101, 119, 97, 108, 108]"

definition LabelNetworkBroker :: string where
  "LabelNetworkBroker = bytes [208, 159, 209, 128, 208, 184, 208, 178, 208, 184, 208, 187, 208, 181, 208, 179,
     208, 184, 209, 128, 208, 190, 208, 178, 208, 176, 208, 189, 208, 189, 209, 139, 208, 185, 32, 110, 101, 116,
     119, 111, 114, 107, 32, 98, 114, 111, 107, 101, 114]"

definition LabelNetworkd :: string where
  "LabelNetworkd = bytes [208, 161, 208, 181, 209, 130, 208, 181, 208, 178, 209, 139, 208, 181, 32, 208, 184,
     208, 189, 209, 130, 208, 181, 209, 128, 209, 132, 208, 181, 208, 185, 209, 129, 209, 139, 32, 115, 121, 115,
     116, 101, 109, 100, 45, 110, 101, 116, 119, 111, 114, 107, 100]"

definition LabelDNSMasq :: string where
  "LabelDNSMasq = ''LAN DNS/DHCP''"

definition LabelSSH :: string where
  "LabelSSH = ''SSH/SFTP''"

definition LabelMihomo :: string where
  "LabelMihomo = ''Mihomo/TUN''"

definition LabelWireGuardMgmt :: string where
  "LabelWireGuardMgmt = bytes [87, 105, 114, 101, 71, 117, 97, 114, 100, 32, 209, 131, 208, 180, 208, 176, 208,
     187, 209, 145, 208, 189, 208, 189, 208, 190, 208, 179, 208, 190, 32, 209, 131, 208, 191, 209, 128, 208, 176,
     208, 178, 208, 187, 208, 181, 208, 189, 208, 184, 209, 143]"

definition LabelManagementFabric :: string where
  "LabelManagementFabric = bytes [208, 156, 208, 176, 209, 128, 209, 136, 209, 128, 209, 131, 209, 130, 209, 139,
     32, 208, 184, 32, 65, 67, 76, 32, 77, 97, 110, 97, 103, 101, 109, 101, 110, 116, 32, 70, 97, 98, 114, 105,
     99]"

definition LabelWireGuardAdmin :: string where
  "LabelWireGuardAdmin = bytes [87, 105, 114, 101, 71, 117, 97, 114, 100, 32, 71, 97, 116, 101, 119, 97, 121,
     226, 134, 148, 86, 80, 83, 32, 208, 184, 32, 208, 178, 208, 189, 209, 131, 209, 130, 209, 128, 208, 181, 208,
     189, 208, 189, 208, 184, 208, 185, 32, 119, 103, 45, 97, 100, 109, 105, 110]"

definition LabelWireGuardIngress :: string where
  "LabelWireGuardIngress = bytes [87, 105, 114, 101, 71, 117, 97, 114, 100, 32, 208, 178, 209, 133, 208, 190,
     208, 180, 209, 143, 209, 137, 208, 181, 208, 179, 208, 190, 32, 209, 130, 209, 128, 208, 176, 209, 132, 208,
     184, 208, 186, 208, 176]"

definition LabelPolicyRouting :: string where
  "LabelPolicyRouting = bytes [80, 111, 108, 105, 99, 121, 32, 114, 111, 117, 116, 105, 110, 103, 32, 209, 132,
     208, 184, 208, 183, 208, 184, 209, 135, 208, 181, 209, 129, 208, 186, 208, 184, 209, 133, 32, 208, 178, 209,
     139, 209, 133, 208, 190, 208, 180, 208, 190, 208, 178]"

definition LabelWorkerRuntime :: string where
  "LabelWorkerRuntime = bytes [208, 164, 208, 190, 208, 189, 208, 190, 208, 178, 209, 139, 208, 181, 32, 209,
     134, 208, 184, 208, 186, 208, 187, 209, 139, 32, 208, 184, 32, 208, 191, 208, 187, 208, 176, 208, 189, 208,
     184, 209, 128, 208, 190, 208, 178, 209, 137, 208, 184, 208, 186, 208, 184]"

definition LabelConvergence :: string where
  "LabelConvergence = bytes [208, 161, 208, 190, 208, 179, 208, 187, 208, 176, 209, 129, 208, 190, 208, 178, 208,
     176, 208, 189, 208, 184, 208, 181, 32, 208, 189, 208, 176, 209, 129, 209, 130, 209, 128, 208, 190, 208, 181,
     208, 186, 32, 208, 184, 32, 114, 117, 110, 116, 105, 109, 101]"

definition LabelBackup :: string where
  "LabelBackup = bytes [208, 159, 209, 128, 208, 190, 208, 178, 208, 181, 209, 128, 208, 181, 208, 189, 208, 189,
     209, 139, 208, 181, 32, 209, 128, 208, 181, 208, 183, 208, 181, 209, 128, 208, 178, 208, 189, 209, 139, 208,
     181, 32, 208, 186, 208, 190, 208, 191, 208, 184, 208, 184, 32, 83, 81, 76, 105, 116, 101]"

definition LabelResources :: string where
  "LabelResources = bytes [208, 148, 208, 184, 209, 129, 208, 186, 44, 32, 208, 191, 208, 176, 208, 188, 209,
     143, 209, 130, 209, 140, 32, 208, 184, 32, 102, 105, 108, 101, 32, 100, 101, 115, 99, 114, 105, 112, 116, 111,
     114, 115]"

definition LabelLogging :: string where
  "LabelLogging = bytes [74, 111, 117, 114, 110, 97, 108, 100, 32, 208, 184, 32, 83, 70, 84, 80, 45, 208, 178,
     209, 139, 208, 179, 209, 128, 209, 131, 208, 183, 208, 186, 208, 184, 32, 208, 187, 208, 190, 208, 179, 208,
     190, 208, 178]"

record component_spec =
  ID :: string
  Label :: string
  Reconcileable :: bool
  Restartable :: bool
  RebootEligible :: bool
  RestartWithoutPathBlock :: bool

definition component_spec :: "string \<Rightarrow> string \<Rightarrow> bool \<Rightarrow> bool \<Rightarrow> bool \<Rightarrow> bool \<Rightarrow> component_spec" where
  "component_spec i l rc rs rb nb = \<lparr>ID = i, Label = l, Reconcileable = rc, Restartable = rs,
     RebootEligible = rb, RestartWithoutPathBlock = nb\<rparr>"

definition fixedComponentSpecs :: "component_spec list" where
  "fixedComponentSpecs =
     [component_spec ComponentControl LabelControl True True True False,
      component_spec ComponentSQLite LabelSQLite True True False False,
      component_spec ComponentFirewallGuard LabelFirewallGuard True True True False,
      component_spec ComponentFirewallRuleset LabelFirewallRuleset True True True False,
      component_spec ComponentNetworkBroker LabelNetworkBroker True True True False,
      component_spec ComponentNetworkd LabelNetworkd True True True False,
      component_spec ComponentDNSMasq LabelDNSMasq True True True False,
      component_spec ComponentSSH LabelSSH True True False False,
      component_spec ComponentMihomo LabelMihomo True True True False,
      component_spec ComponentWireGuardMgmt LabelWireGuardMgmt True True False False,
      component_spec ComponentManagementFabric LabelManagementFabric True True False True,
      component_spec ComponentWireGuardAdmin LabelWireGuardAdmin True True False True,
      component_spec ComponentWireGuardIngress LabelWireGuardIngress True True False False,
      component_spec ComponentPolicyRouting LabelPolicyRouting True True True False,
      component_spec ComponentWorkerRuntime LabelWorkerRuntime True True True False,
      component_spec ComponentConvergence LabelConvergence True True True False,
      component_spec ComponentBackup LabelBackup True True False False,
      component_spec ComponentResources LabelResources False False False False,
      component_spec ComponentLogging LabelLogging True True False False]"

definition validComponentID :: "string \<Rightarrow> bool" where
  "validComponentID i \<longleftrightarrow> list_ex (\<lambda>spec. ID spec = i) fixedComponentSpecs"

section \<open>The policy\<close>

abbreviation RecoveryModeMonitorOnly :: string where "RecoveryModeMonitorOnly \<equiv> ''MONITOR_ONLY''"
abbreviation RecoveryModeReconcile :: string where "RecoveryModeReconcile \<equiv> ''RECONCILE''"
abbreviation RecoveryModeRestart :: string where "RecoveryModeRestart \<equiv> ''RESTART''"

abbreviation PolicySchemaVersion :: int where "PolicySchemaVersion \<equiv> 2"

record wd_policy =
  SchemaVersion :: int
  Enabled :: bool
  CheckIntervalSeconds :: int
  FailureThreshold :: int
  SuccessThreshold :: int
  ReconcileEnabled :: bool
  ComponentRestartEnabled :: bool
  RestartCooldownSeconds :: int
  MaxRestartsPerComponent :: int
  RestartWindowSeconds :: int
  HostRebootEnabled :: bool
  RebootAfterCriticalSeconds :: int
  MaxRebootsPer24h :: int
  RebootGraceSeconds :: int
  WorkerStaleSeconds :: int
  WireGuardHandshakeStaleSeconds :: int
  BackupMaxAgeHours :: int
  DatabaseWALMaxBytes :: int
  MinimumDiskFreeBytes :: int
  MinimumDiskFreePercent :: int
  MinimumMemoryAvailableBytes :: int
  MinimumMemoryAvailablePercent :: int
  ComponentRecoveryModes :: "(string \<times> string) list"
  UpdatedAt :: string

record update_input =
  InEnabled :: bool
  InCheckIntervalSeconds :: int
  InFailureThreshold :: int
  InSuccessThreshold :: int
  InReconcileEnabled :: bool
  InComponentRestartEnabled :: bool
  InRestartCooldownSeconds :: int
  InMaxRestartsPerComponent :: int
  InRestartWindowSeconds :: int
  InHostRebootEnabled :: bool
  InRebootAfterCriticalSeconds :: int
  InMaxRebootsPer24h :: int
  InRebootGraceSeconds :: int
  InWorkerStaleSeconds :: int
  InWireGuardHandshakeStaleSeconds :: int
  InBackupMaxAgeHours :: int
  InDatabaseWALMaxBytes :: int
  InMinimumDiskFreeBytes :: int
  InMinimumDiskFreePercent :: int
  InMinimumMemoryAvailableBytes :: int
  InMinimumMemoryAvailablePercent :: int
  InComponentRecoveryModes :: "(string \<times> string) list"

definition defaultRecoveryModes :: "(string \<times> string) list" where
  "defaultRecoveryModes = map (\<lambda>spec. (ID spec,
     if Restartable spec then RecoveryModeRestart
     else if Reconcileable spec then RecoveryModeReconcile
     else RecoveryModeMonitorOnly)) fixedComponentSpecs"

definition mib :: "int \<Rightarrow> int" where "mib n = n * 2 ^ 20"

definition DefaultPolicy :: wd_policy where
  "DefaultPolicy = \<lparr>
     SchemaVersion = PolicySchemaVersion, Enabled = True, CheckIntervalSeconds = 15,
     FailureThreshold = 3, SuccessThreshold = 2, ReconcileEnabled = True,
     ComponentRestartEnabled = True, RestartCooldownSeconds = 30,
     MaxRestartsPerComponent = 5, RestartWindowSeconds = 900,
     HostRebootEnabled = False, RebootAfterCriticalSeconds = 900,
     MaxRebootsPer24h = 1, RebootGraceSeconds = 60,
     WorkerStaleSeconds = 120, WireGuardHandshakeStaleSeconds = 180,
     BackupMaxAgeHours = 36, DatabaseWALMaxBytes = mib 256,
     MinimumDiskFreeBytes = mib 512, MinimumDiskFreePercent = 5,
     MinimumMemoryAvailableBytes = mib 128, MinimumMemoryAvailablePercent = 5,
     ComponentRecoveryModes = defaultRecoveryModes, UpdatedAt = []\<rparr>"

text \<open>Checks made one after the other: the first that fails is the error.\<close>

fun first_error :: "(bool \<times> go_error) list \<Rightarrow> unit result" where
  "first_error [] = Inr ()"
| "first_error ((bad, e) # rest) = (if bad then Inl e else first_error rest)"

definition outside :: "int \<Rightarrow> int \<Rightarrow> int \<Rightarrow> bool" where
  "outside lo hi x \<longleftrightarrow> x < lo \<or> hi < x"

text \<open>One pass of the first loop of \<open>validateRecoveryModes\<close>.\<close>

definition recovery_mode_error :: "(string \<times> string) list \<Rightarrow> component_spec \<Rightarrow> go_error option" where
  "recovery_mode_error modes spec =
     (case map_of modes (ID spec) of
        None \<Rightarrow> Some (ErrFmt ''watchdog recovery mode for %s is missing'' [ID spec])
      | Some mode \<Rightarrow>
          if mode = RecoveryModeMonitorOnly then None
          else if mode = RecoveryModeReconcile then
            (if \<not> Reconcileable spec then Some (ErrFmt ''component %s does not support reconcile'' [ID spec]) else None)
          else if mode = RecoveryModeRestart then
            (if \<not> Restartable spec then Some (ErrFmt ''component %s does not support restart'' [ID spec]) else None)
          else Some (ErrFmt ''component %s has invalid recovery mode'' [ID spec]))"

definition validateRecoveryModes :: "(string \<times> string) list \<Rightarrow> unit result" where
  "validateRecoveryModes modes =
     (if length modes \<noteq> length fixedComponentSpecs
      then Inl (ErrMsg ''watchdog recovery modes must cover every fixed component'')
      else (case List.map_filter (recovery_mode_error modes) fixedComponentSpecs of
              e # _ \<Rightarrow> Inl e
            | [] \<Rightarrow>
                if list_ex (\<lambda>(i, _). \<not> validComponentID i) modes
                then Inl (ErrMsg ''watchdog recovery modes contain an unknown component'')
                else Inr ()))"

definition number_checks :: "wd_policy \<Rightarrow> (bool \<times> go_error) list" where
  "number_checks p =
     [(SchemaVersion p \<noteq> PolicySchemaVersion, ErrMsg ''watchdog policy schema version must be 2''),
      (outside 5 300 (CheckIntervalSeconds p), ErrMsg ''watchdog check interval must be 5..300 seconds''),
      (outside 1 10 (FailureThreshold p), ErrMsg ''watchdog failure threshold must be 1..10''),
      (outside 1 10 (SuccessThreshold p), ErrMsg ''watchdog success threshold must be 1..10''),
      (outside 5 3600 (RestartCooldownSeconds p), ErrMsg ''watchdog restart cooldown must be 5..3600 seconds''),
      (outside 1 20 (MaxRestartsPerComponent p), ErrMsg ''watchdog restart budget must be 1..20''),
      (outside 60 86400 (RestartWindowSeconds p) \<or> RestartWindowSeconds p < RestartCooldownSeconds p,
       ErrMsg ''watchdog restart window is outside the supported range or shorter than cooldown''),
      (outside 300 86400 (RebootAfterCriticalSeconds p), ErrMsg ''watchdog critical reboot delay must be 300..86400 seconds''),
      (outside 1 3 (MaxRebootsPer24h p), ErrMsg ''watchdog reboot budget must be 1..3 per 24 hours''),
      (outside 10 600 (RebootGraceSeconds p), ErrMsg ''watchdog reboot grace must be 10..600 seconds''),
      (outside 30 900 (WorkerStaleSeconds p), ErrMsg ''watchdog worker stale threshold must be 30..900 seconds''),
      (outside 60 3600 (WireGuardHandshakeStaleSeconds p),
       ErrMsg ''watchdog WireGuard handshake stale threshold must be 60..3600 seconds''),
      (outside 24 168 (BackupMaxAgeHours p), ErrMsg ''watchdog backup maximum age must be 24..168 hours''),
      (outside (mib 64) (mib 4096) (DatabaseWALMaxBytes p),
       ErrMsg ''watchdog database WAL threshold is outside the supported range''),
      (outside (mib 128) (mib 16384) (MinimumDiskFreeBytes p) \<or> outside (mib 64) (mib 8192) (MinimumMemoryAvailableBytes p),
       ErrMsg ''watchdog disk or memory byte floor is outside the supported range''),
      (outside 1 25 (MinimumDiskFreePercent p) \<or> outside 1 25 (MinimumMemoryAvailablePercent p),
       ErrMsg ''watchdog disk or memory percent floor is outside the supported range'')]"

definition Validate :: "wd_policy \<Rightarrow> unit result" where
  "Validate p =
     bind_result (first_error (number_checks p)) (\<lambda>_.
     bind_result (validateRecoveryModes (ComponentRecoveryModes p)) (\<lambda>_.
     guard_err (UpdatedAt p \<noteq> [] \<and> parse_time (UpdatedAt p) = None)
       (ErrMsg ''watchdog policy update timestamp is invalid'')))"

definition NormalizeUpdate :: "update_input \<Rightarrow> instant \<Rightarrow> wd_policy result" where
  "NormalizeUpdate input now =
     (let modes = (if InComponentRecoveryModes input = [] then defaultRecoveryModes else InComponentRecoveryModes input);
          p = \<lparr>SchemaVersion = PolicySchemaVersion,
       Enabled = InEnabled input, CheckIntervalSeconds = InCheckIntervalSeconds input, FailureThreshold =
       InFailureThreshold input, SuccessThreshold = InSuccessThreshold input, ReconcileEnabled =
       InReconcileEnabled input, ComponentRestartEnabled = InComponentRestartEnabled input,
       RestartCooldownSeconds = InRestartCooldownSeconds input, MaxRestartsPerComponent =
       InMaxRestartsPerComponent input, RestartWindowSeconds = InRestartWindowSeconds input, HostRebootEnabled
       = InHostRebootEnabled input, RebootAfterCriticalSeconds = InRebootAfterCriticalSeconds input,
       MaxRebootsPer24h = InMaxRebootsPer24h input, RebootGraceSeconds = InRebootGraceSeconds input,
       WorkerStaleSeconds = InWorkerStaleSeconds input, WireGuardHandshakeStaleSeconds =
       InWireGuardHandshakeStaleSeconds input, BackupMaxAgeHours = InBackupMaxAgeHours input,
       DatabaseWALMaxBytes = InDatabaseWALMaxBytes input, MinimumDiskFreeBytes = InMinimumDiskFreeBytes input,
       MinimumDiskFreePercent = InMinimumDiskFreePercent input, MinimumMemoryAvailableBytes =
       InMinimumMemoryAvailableBytes input, MinimumMemoryAvailablePercent = InMinimumMemoryAvailablePercent
       input,
       ComponentRecoveryModes = modes, UpdatedAt = format_time now\<rparr>
      in bind_result (Validate p) (\<lambda>_. Inr p))"

definition CheckInterval :: "wd_policy \<Rightarrow> duration" where
  "CheckInterval p = seconds_dur (CheckIntervalSeconds p)"

definition RestartWindow :: "wd_policy \<Rightarrow> duration" where
  "RestartWindow p = seconds_dur (RestartWindowSeconds p)"

definition RecoveryMode :: "wd_policy \<Rightarrow> string \<Rightarrow> string" where
  "RecoveryMode p i = (case map_of (ComponentRecoveryModes p) i of
     Some mode \<Rightarrow> if mode \<noteq> [] then mode else RecoveryModeMonitorOnly
   | None \<Rightarrow> RecoveryModeMonitorOnly)"

section \<open>What validation accepts\<close>

lemma first_error_Inr: "first_error cs = Inr u \<longleftrightarrow> (\<forall>c\<in>set cs. \<not> fst c)"
  by (induction cs rule: first_error.induct) auto

definition in_bounds :: "wd_policy \<Rightarrow> bool" where
  "in_bounds p \<longleftrightarrow> SchemaVersion p = 2 \<and> CheckIntervalSeconds p \<in> {5..300}
     \<and> FailureThreshold p \<in> {1..10} \<and> SuccessThreshold p \<in> {1..10}
     \<and> RestartCooldownSeconds p \<in> {5..3600} \<and> MaxRestartsPerComponent p \<in> {1..20}
     \<and> RestartWindowSeconds p \<in> {60..86400} \<and> RestartCooldownSeconds p \<le> RestartWindowSeconds p
     \<and> RebootAfterCriticalSeconds p \<in> {300..86400} \<and> MaxRebootsPer24h p \<in> {1..3} \<and> RebootGraceSeconds p \<in> {10..600}
     \<and> WorkerStaleSeconds p \<in> {30..900} \<and> WireGuardHandshakeStaleSeconds p \<in> {60..3600} \<and> BackupMaxAgeHours p \<in> {24..168}
     \<and> DatabaseWALMaxBytes p \<in> {mib 64..mib 4096} \<and> MinimumDiskFreeBytes p \<in> {mib 128..mib 16384}
     \<and> MinimumMemoryAvailableBytes p \<in> {mib 64..mib 8192}
     \<and> MinimumDiskFreePercent p \<in> {1..25} \<and> MinimumMemoryAvailablePercent p \<in> {1..25}"

text \<open>The mode is one the component supports.\<close>

definition supported :: "component_spec \<Rightarrow> string \<Rightarrow> bool" where
  "supported spec mode \<longleftrightarrow> mode = RecoveryModeMonitorOnly \<or> mode = RecoveryModeReconcile \<and> Reconcileable spec
     \<or> mode = RecoveryModeRestart \<and> Restartable spec"

lemma number_checks_Inr: "first_error (number_checks p) = Inr u \<longleftrightarrow> in_bounds p"
  unfolding first_error_Inr number_checks_def in_bounds_def outside_def by auto

lemma recovery_mode_error_None:
  "recovery_mode_error modes spec = None \<longleftrightarrow> (\<exists>m. map_of modes (ID spec) = Some m \<and> supported spec m)"
  by (auto simp: recovery_mode_error_def supported_def split: option.splits)

lemma validateRecoveryModes_Inr:
  "validateRecoveryModes modes = Inr u \<longleftrightarrow> length modes = length fixedComponentSpecs
     \<and> (\<forall>spec\<in>set fixedComponentSpecs. \<exists>m. map_of modes (ID spec) = Some m \<and> supported spec m)
     \<and> (\<forall>(i, _)\<in>set modes. validComponentID i)"
proof -
  have "List.map_filter (recovery_mode_error modes) xs = [] \<longleftrightarrow> (\<forall>spec\<in>set xs. recovery_mode_error modes spec = None)" for xs
    by (induction xs) (auto simp: List.map_filter_def)
  from this[of fixedComponentSpecs] show ?thesis
    by (cases "List.map_filter (recovery_mode_error modes) fixedComponentSpecs")
      (auto simp: validateRecoveryModes_def recovery_mode_error_None list_ex_iff)
qed

lemma Validate_Inr:
  "Validate p = Inr u \<longleftrightarrow> in_bounds p \<and> validateRecoveryModes (ComponentRecoveryModes p) = Inr ()
     \<and> (UpdatedAt p = [] \<or> parse_time (UpdatedAt p) \<noteq> None)"
  by (auto simp: Validate_def number_checks_Inr)

lemma Validate_mode:
  assumes "Validate p = Inr ()" "spec \<in> set fixedComponentSpecs"
  shows "supported spec (RecoveryMode p (ID spec))"
  using assms by (fastforce simp: Validate_Inr validateRecoveryModes_Inr RecoveryMode_def supported_def split: option.splits)

lemma fixed_distinct: "distinct (map ID fixedComponentSpecs)"
  by (simp add: fixedComponentSpecs_def component_spec_def)

lemma defaultRecoveryModes_valid: "validateRecoveryModes defaultRecoveryModes = Inr ()"
proof -
  define mode where "mode spec = (if Restartable spec then RecoveryModeRestart
    else if Reconcileable spec then RecoveryModeReconcile else RecoveryModeMonitorOnly)" for spec :: component_spec
  have eq: "defaultRecoveryModes = map (\<lambda>spec. (ID spec, mode spec)) fixedComponentSpecs"
    by (simp add: defaultRecoveryModes_def mode_def)
  have "map_of defaultRecoveryModes (ID spec) = Some (mode spec)" if "spec \<in> set fixedComponentSpecs" for spec
    using that fixed_distinct by (intro map_of_is_SomeI) (auto simp: eq comp_def)
  moreover have "supported spec (mode spec)" for spec :: component_spec by (simp add: supported_def mode_def)
  moreover have "\<forall>(i, _)\<in>set defaultRecoveryModes. validComponentID i"
    by (auto simp: eq validComponentID_def list_ex_iff)
  ultimately show ?thesis by (auto simp: validateRecoveryModes_Inr eq)
qed

lemma DefaultPolicy_valid: "Validate DefaultPolicy = Inr ()"
proof -
  have "in_bounds DefaultPolicy" by (simp add: in_bounds_def DefaultPolicy_def mib_def)
  then show ?thesis using defaultRecoveryModes_valid by (simp add: Validate_Inr) (simp add: DefaultPolicy_def)
qed

text \<open>
  Property C31 (accepted policies are bounded). A policy that an update is accepted with keeps every number in its
  range, so that its durations do not overflow and the restart window is never shorter than the cooldown; it gives each
  component a recovery mode the component supports; and its update time reads back as the time of the update.
\<close>

theorem accepted_policy_is_bounded:
  assumes "NormalizeUpdate input now = Inr p" and "rfc3339_range now"
  shows "in_bounds p \<and> CheckInterval p = CheckIntervalSeconds p * second \<and> RestartWindow p = RestartWindowSeconds p * second
    \<and> (\<forall>spec\<in>set fixedComponentSpecs. supported spec (RecoveryMode p (ID spec))) \<and> parse_time (UpdatedAt p) = Some now"
proof -
  from assms(1) have v: "Validate p = Inr ()" and u: "UpdatedAt p = format_time now"
    by (auto simp: NormalizeUpdate_def Let_def)
  then have b: "in_bounds p" by (simp add: Validate_Inr)
  then have "CheckInterval p = CheckIntervalSeconds p * second" "RestartWindow p = RestartWindowSeconds p * second"
    by (simp_all add: in_bounds_def CheckInterval_def RestartWindow_def)
  with b u Validate_mode[OF v] show ?thesis by (simp add: parse_format_time[OF assms(2)])
qed

end
