(* ===== verification/Watchdog_History.thy ===== *)
theory Watchdog_History
  imports Watchdog_Policy
begin

text \<open>
  \<open>internal/watchdog/durable.go\<close>: the recovery attempts the watchdog remembers over its own crashes and over host
  reboots, and the budgets computed from them. The attempts are kept as RFC 3339 texts; \<open>stamps\<close> reads them back as
  instants, and the lemmas of this theory show that every operation on the texts is the operation of a budget on
  instants (\<open>budget\<close>).
\<close>

section \<open>Operations\<close>

record durable_history =
  HistorySchemaVersion :: int
  RestartAttempts :: "(string \<times> string list) list"
  RebootAttempts :: "string list"
  CriticalSince :: "(string \<times> string) list"
  PendingRebootAt :: string

definition NewDurableHistory :: durable_history where
  "NewDurableHistory = \<lparr>HistorySchemaVersion = 1, RestartAttempts = [], RebootAttempts = [],
     CriticalSince = [], PendingRebootAt = []\<rparr>"

definition bad_stamp :: "string \<Rightarrow> bool" where "bad_stamp s \<longleftrightarrow> parse_time s = None"

definition restart_checks :: "string \<times> string list \<Rightarrow> (bool \<times> go_error) list" where
  "restart_checks = (\<lambda>(i, attempts).
     [(\<not> validComponentID i, ErrMsg ''watchdog durable history contains an unknown component''),
      (length attempts > 1000, ErrMsg ''watchdog durable restart history is unbounded''),
      (list_ex bad_stamp attempts, ErrMsg ''watchdog durable restart timestamp is invalid'')])"

definition critical_checks :: "string \<times> string \<Rightarrow> (bool \<times> go_error) list" where
  "critical_checks = (\<lambda>(i, since).
     [(\<not> validComponentID i, ErrMsg ''watchdog durable critical history contains an unknown component''),
      (bad_stamp since, ErrMsg ''watchdog durable critical timestamp is invalid'')])"

text \<open>A nil map of the file is the empty association list, so that \<open>normalize\<close> only checks.\<close>

definition normalize :: "durable_history \<Rightarrow> unit result" where
  "normalize h = first_error (
     [(HistorySchemaVersion h \<noteq> 1, ErrMsg ''watchdog durable history schema is unsupported'')]
     @ concat (map restart_checks (RestartAttempts h))
     @ [(length (RebootAttempts h) > 1000, ErrMsg ''watchdog durable reboot history is unbounded''),
        (list_ex bad_stamp (RebootAttempts h), ErrMsg ''watchdog durable reboot timestamp is invalid'')]
     @ concat (map critical_checks (CriticalSince h))
     @ [(PendingRebootAt h \<noteq> [] \<and> bad_stamp (PendingRebootAt h), ErrMsg ''watchdog pending reboot timestamp is invalid'')])"

fun recentTimestamps :: "string list \<Rightarrow> instant \<Rightarrow> string list" where
  "recentTimestamps [] cutoff = []"
| "recentTimestamps (v # vs) cutoff =
     (case parse_time v of
        None \<Rightarrow> recentTimestamps vs cutoff
      | Some t \<Rightarrow> if \<not> t < cutoff then format_time t # recentTimestamps vs cutoff else recentTimestamps vs cutoff)"

definition day :: duration where "day = 86400 * second"

definition Prune :: "instant \<Rightarrow> wd_policy \<Rightarrow> durable_history \<Rightarrow> durable_history" where
  "Prune now p h =
     (let restartCutoff = now + wrap64 (- RestartWindow p)
      in h\<lparr>RestartAttempts := map (\<lambda>(i, attempts). (i, recentTimestamps attempts restartCutoff)) (RestartAttempts h),
           RebootAttempts := recentTimestamps (RebootAttempts h) (now - day)\<rparr>)"

text \<open>A Go map read of an absent key is the zero value.\<close>

definition attempts_of :: "durable_history \<Rightarrow> string \<Rightarrow> string list" where
  "attempts_of h i = (case map_of (RestartAttempts h) i of None \<Rightarrow> [] | Some xs \<Rightarrow> xs)"

definition parsed_or_zero :: "string \<Rightarrow> instant" where
  "parsed_or_zero s = (case parse_time s of None \<Rightarrow> zero_time | Some t \<Rightarrow> t)"

definition RestartAllowed :: "string \<Rightarrow> wd_policy \<Rightarrow> instant \<Rightarrow> durable_history \<Rightarrow> durable_history \<times> bool \<times> string" where
  "RestartAllowed componentID p now h =
     (if \<not> validComponentID componentID then (h, False, ''UNKNOWN_COMPONENT'')
      else let h = Prune now p h; attempts = attempts_of h componentID
        in if MaxRestartsPerComponent p \<le> int (length attempts) then (h, False, ''RESTART_BUDGET_EXHAUSTED'')
           else if attempts \<noteq> [] \<and> now < parsed_or_zero (last attempts) + seconds_dur (RestartCooldownSeconds p)
           then (h, False, ''RESTART_COOLDOWN'')
           else (h, True, []))"

definition RecordRestart :: "string \<Rightarrow> instant \<Rightarrow> durable_history \<Rightarrow> durable_history" where
  "RecordRestart componentID now h =
     h\<lparr>RestartAttempts := AList.update componentID (attempts_of h componentID @ [format_time now]) (RestartAttempts h)\<rparr>"

definition RebootAllowed :: "wd_policy \<Rightarrow> instant \<Rightarrow> durable_history \<Rightarrow> durable_history \<times> bool \<times> string" where
  "RebootAllowed p now h =
     (let h = Prune now p h
      in if \<not> HostRebootEnabled p then (h, False, ''HOST_REBOOT_DISABLED'')
         else if MaxRebootsPer24h p \<le> int (length (RebootAttempts h)) then (h, False, ''REBOOT_BUDGET_EXHAUSTED'')
         else (h, True, []))"

definition RecordReboot :: "instant \<Rightarrow> durable_history \<Rightarrow> durable_history" where
  "RecordReboot now h = h\<lparr>RebootAttempts := RebootAttempts h @ [format_time now], PendingRebootAt := []\<rparr>"

section \<open>Attempts as instants\<close>

definition stamps :: "string list \<Rightarrow> instant list" where
  "stamps xs = List.map_filter parse_time xs"

definition stamps_ok :: "string list \<Rightarrow> bool" where
  "stamps_ok xs \<longleftrightarrow> (\<forall>x\<in>set xs. \<exists>t. parse_time x = Some t \<and> rfc3339_range t)"

definition restarts :: "durable_history \<Rightarrow> string \<Rightarrow> instant list" where
  "restarts h i = stamps (attempts_of h i)"

definition reboots :: "durable_history \<Rightarrow> instant list" where
  "reboots h = stamps (RebootAttempts h)"

text \<open>The attempts of a history are texts of instants in the years 0 to 9999, and its keys are distinct.\<close>

definition attempts_ok :: "durable_history \<Rightarrow> bool" where
  "attempts_ok h \<longleftrightarrow> distinct (map fst (RestartAttempts h)) \<and> (\<forall>(i, xs)\<in>set (RestartAttempts h). stamps_ok xs)
     \<and> stamps_ok (RebootAttempts h)"

lemma stamps_simps [simp]:
  "stamps [] = []"
  "stamps (xs @ ys) = stamps xs @ stamps ys"
  "stamps (x # xs) = (case parse_time x of None \<Rightarrow> stamps xs | Some t \<Rightarrow> t # stamps xs)"
  by (simp_all add: stamps_def List.map_filter_def split: option.splits)

lemma stamps_ok_simps [simp]:
  "stamps_ok []"
  "stamps_ok (xs @ ys) \<longleftrightarrow> stamps_ok xs \<and> stamps_ok ys"
  "stamps_ok (x # xs) \<longleftrightarrow> (\<exists>t. parse_time x = Some t \<and> rfc3339_range t) \<and> stamps_ok xs"
  by (auto simp: stamps_ok_def)

lemma length_stamps: "stamps_ok xs \<Longrightarrow> length (stamps xs) = length xs"
  by (induction xs) auto

lemma last_stamps: "stamps_ok xs \<Longrightarrow> xs \<noteq> [] \<Longrightarrow> last (stamps xs) = parsed_or_zero (last xs)"
proof (induction xs)
  case (Cons x xs)
  then show ?case
    using length_stamps[of xs] by (cases "xs = []") (auto simp: parsed_or_zero_def)
qed simp

lemma recent_stamps:
  "stamps_ok xs \<Longrightarrow> stamps_ok (recentTimestamps xs c) \<and> stamps (recentTimestamps xs c) = filter (\<lambda>t. c \<le> t) (stamps xs)"
  by (induction xs) (auto simp: parse_format_time not_less)

lemma recent_idem: "stamps_ok xs \<Longrightarrow> recentTimestamps (recentTimestamps xs c) c = recentTimestamps xs c"
  by (induction xs) (auto simp: parse_format_time)

lemma map_of_map_snd: "map_of (map (\<lambda>(k, v). (k, f v)) xs) k = map_option f (map_of xs k)"
  by (induction xs) auto

lemma attempts_ok_of: "attempts_ok h \<Longrightarrow> stamps_ok (attempts_of h i)"
  by (auto simp: attempts_ok_def attempts_of_def split: option.splits dest!: map_of_SomeD)

lemma attempts_of_Prune:
  "attempts_of (Prune now p h) i = recentTimestamps (attempts_of h i) (now + wrap64 (- RestartWindow p))"
  by (simp add: attempts_of_def Prune_def map_of_map_snd split: option.splits)

lemma attempts_of_Record:
  "attempts_of (RecordRestart j now h) i = (if i = j then attempts_of h j @ [format_time now] else attempts_of h i)"
  by (simp add: attempts_of_def RecordRestart_def update_conv' split: option.splits)

lemma Prune_ok:
  assumes "attempts_ok h"
  shows "attempts_ok (Prune now p h)"
    and "restarts (Prune now p h) i = filter (\<lambda>t. now + wrap64 (- RestartWindow p) \<le> t) (restarts h i)"
    and "reboots (Prune now p h) = filter (\<lambda>t. now - day \<le> t) (reboots h)"
proof -
  show "restarts (Prune now p h) i = filter (\<lambda>t. now + wrap64 (- RestartWindow p) \<le> t) (restarts h i)"
    using recent_stamps[OF attempts_ok_of[OF assms, of i]] by (simp add: restarts_def attempts_of_Prune)
  show "attempts_ok (Prune now p h)" "reboots (Prune now p h) = filter (\<lambda>t. now - day \<le> t) (reboots h)"
    using assms recent_stamps by (auto simp: reboots_def attempts_ok_def Prune_def comp_def case_prod_unfold)
qed

lemma set_update_subset: "set (AList.update k v xs) \<subseteq> insert (k, v) (set xs)"
  by (induction xs) auto

lemma RecordRestart_ok:
  assumes "attempts_ok h" "rfc3339_range now"
  shows "attempts_ok (RecordRestart j now h)"
    and "restarts (RecordRestart j now h) i = (if i = j then restarts h j @ [now] else restarts h i)"
    and "reboots (RecordRestart j now h) = reboots h"
proof -
  show "restarts (RecordRestart j now h) i = (if i = j then restarts h j @ [now] else restarts h i)"
    using assms by (simp add: restarts_def attempts_of_Record parse_format_time)
  show "reboots (RecordRestart j now h) = reboots h"
    by (simp add: reboots_def RecordRestart_def)
  have "stamps_ok (attempts_of h j @ [format_time now])"
    using assms attempts_ok_of by (auto simp: parse_format_time)
  then show "attempts_ok (RecordRestart j now h)"
    using assms(1) by (auto simp: attempts_ok_def RecordRestart_def distinct_update dest!: subsetD[OF set_update_subset])
qed


lemma RecordReboot_ok:
  assumes "attempts_ok h" "rfc3339_range now"
  shows "attempts_ok (RecordReboot now h)" and "restarts (RecordReboot now h) i = restarts h i"
    and "reboots (RecordReboot now h) = reboots h @ [now]"
  using assms by (auto simp: attempts_ok_def RecordReboot_def restarts_def reboots_def attempts_of_def parse_format_time)

section \<open>The budget\<close>

text \<open>
  What the history promises, on instants: an attempt at \<open>now\<close> is within the budget when fewer than \<open>most\<close> attempts
  lie in the window that ends now and the last of them is at least \<open>cooldown\<close> old.
\<close>

definition budget :: "duration \<Rightarrow> int \<Rightarrow> duration \<Rightarrow> instant \<Rightarrow> instant list \<Rightarrow> bool" where
  "budget window most cooldown now ts \<longleftrightarrow>
     (let recent = filter (\<lambda>t. now - window \<le> t) ts
      in int (length recent) < most \<and> (recent \<noteq> [] \<longrightarrow> last recent + cooldown \<le> now))"

text \<open>The durations of a policy whose numbers are in range do not overflow.\<close>

definition durations_ok :: "wd_policy \<Rightarrow> bool" where
  "durations_ok p \<longleftrightarrow> 60 \<le> RestartWindowSeconds p \<and> RestartWindowSeconds p \<le> 86400
     \<and> 5 \<le> RestartCooldownSeconds p \<and> RestartCooldownSeconds p \<le> RestartWindowSeconds p"

lemma durations:
  assumes "durations_ok p"
  shows "RestartWindow p = RestartWindowSeconds p * second" "now + wrap64 (- RestartWindow p) = now - RestartWindow p"
    "seconds_dur (RestartCooldownSeconds p) = RestartCooldownSeconds p * second"
  using assms by (simp_all add: durations_ok_def RestartWindow_def second_def int64_defs)

lemma RestartAllowed_budget:
  assumes "attempts_ok h" and "durations_ok p" and "validComponentID i"
  shows "fst (RestartAllowed i p now h) = Prune now p h"
    and "fst (snd (RestartAllowed i p now h)) \<longleftrightarrow>
      budget (RestartWindow p) (MaxRestartsPerComponent p) (seconds_dur (RestartCooldownSeconds p)) now (restarts h i)"
proof -
  let ?h = "Prune now p h" and ?c = "now - RestartWindow p"
  have ok: "stamps_ok (attempts_of ?h i)" using Prune_ok(1)[OF assms(1)] attempts_ok_of by blast
  have st: "stamps (attempts_of ?h i) = filter (\<lambda>t. ?c \<le> t) (restarts h i)"
    using Prune_ok(2)[OF assms(1), of now p i] durations(2)[OF assms(2)] by (simp add: restarts_def)
  have len: "length (attempts_of ?h i) = length (filter (\<lambda>t. ?c \<le> t) (restarts h i))"
    using length_stamps[OF ok] st by simp
  have last: "attempts_of ?h i \<noteq> [] \<Longrightarrow> parsed_or_zero (last (attempts_of ?h i)) = last (filter (\<lambda>t. ?c \<le> t) (restarts h i))"
    using last_stamps[OF ok] st by simp
  have nil: "attempts_of ?h i = [] \<longleftrightarrow> filter (\<lambda>t. ?c \<le> t) (restarts h i) = []"
    using len by (metis length_0_conv)
  show "fst (RestartAllowed i p now h) = ?h"
    and "fst (snd (RestartAllowed i p now h)) \<longleftrightarrow>
      budget (RestartWindow p) (MaxRestartsPerComponent p) (seconds_dur (RestartCooldownSeconds p)) now (restarts h i)"
    using assms(3) by (auto simp: RestartAllowed_def budget_def Let_def len nil last not_less not_le)
qed

lemma RebootAllowed_budget:
  assumes "attempts_ok h"
  shows "fst (RebootAllowed p now h) = Prune now p h"
    and "fst (snd (RebootAllowed p now h)) \<longleftrightarrow>
      HostRebootEnabled p \<and> int (length (filter (\<lambda>t. now - day \<le> t) (reboots h))) < MaxRebootsPer24h p"
proof -
  let ?h = "Prune now p h"
  have "length (RebootAttempts ?h) = length (filter (\<lambda>t. now - day \<le> t) (reboots h))"
    using Prune_ok(1,3)[OF assms, of now p] length_stamps[of "RebootAttempts ?h"] by (simp add: reboots_def attempts_ok_def)
  then show "fst (RebootAllowed p now h) = ?h" and "fst (snd (RebootAllowed p now h)) \<longleftrightarrow>
      HostRebootEnabled p \<and> int (length (filter (\<lambda>t. now - day \<le> t) (reboots h))) < MaxRebootsPer24h p"
    by (auto simp: RebootAllowed_def Let_def not_le)
qed

section \<open>Histories that can be saved\<close>

definition restart_entry_ok :: "string \<times> string list \<Rightarrow> bool" where
  "restart_entry_ok = (\<lambda>(i, xs). validComponentID i \<and> length xs \<le> 1000 \<and> \<not> list_ex bad_stamp xs)"

definition critical_entry_ok :: "string \<times> string \<Rightarrow> bool" where
  "critical_entry_ok = (\<lambda>(i, v). validComponentID i \<and> \<not> bad_stamp v)"

lemma normalize_Inr:
  "normalize h = Inr u \<longleftrightarrow> HistorySchemaVersion h = 1 \<and> (\<forall>e\<in>set (RestartAttempts h). restart_entry_ok e)
     \<and> length (RebootAttempts h) \<le> 1000 \<and> \<not> list_ex bad_stamp (RebootAttempts h)
     \<and> (\<forall>e\<in>set (CriticalSince h). critical_entry_ok e) \<and> (PendingRebootAt h = [] \<or> \<not> bad_stamp (PendingRebootAt h))"
proof -
  have "(\<forall>c\<in>set (restart_checks e). \<not> fst c) \<longleftrightarrow> restart_entry_ok e" for e
    by (cases e) (simp add: restart_checks_def restart_entry_ok_def not_less)
  moreover have "(\<forall>c\<in>set (critical_checks e). \<not> fst c) \<longleftrightarrow> critical_entry_ok e" for e
    by (cases e) (simp add: critical_checks_def critical_entry_ok_def)
  ultimately show ?thesis
    unfolding normalize_def first_error_Inr set_append ball_Un set_concat set_map ball_UN by (simp add: not_less)
qed

lemma stamps_ok_parse: "stamps_ok xs \<Longrightarrow> \<not> list_ex bad_stamp xs"
  by (auto simp: stamps_ok_def bad_stamp_def list_ex_iff)

lemma length_recent: "length (recentTimestamps xs c) \<le> length xs"
  by (induction xs) (auto split: option.splits)

lemma recent_parse: "stamps_ok xs \<Longrightarrow> \<not> list_ex bad_stamp (recentTimestamps xs c)"
  using recent_stamps stamps_ok_parse by blast

lemma normalize_Prune:
  assumes "normalize h = Inr ()" "attempts_ok h"
  shows "normalize (Prune now p h) = Inr ()"
proof -
  have "restart_entry_ok (i, recentTimestamps xs c)" if "(i, xs) \<in> set (RestartAttempts h)" for i xs c
    using that assms length_recent[of xs c] by (fastforce simp: normalize_Inr restart_entry_ok_def attempts_ok_def recent_parse)
  moreover have "length (recentTimestamps (RebootAttempts h) (now - day)) \<le> 1000"
    using assms length_recent[of "RebootAttempts h" "now - day"] by (simp add: normalize_Inr)
  ultimately show ?thesis
    using assms by (auto simp: normalize_Inr Prune_def Let_def recent_parse attempts_ok_def)
qed

lemma normalize_RecordRestart:
  assumes "normalize h = Inr ()" "validComponentID i" "length (attempts_of h i) < 1000" "rfc3339_range now"
  shows "normalize (RecordRestart i now h) = Inr ()"
proof -
  have "\<not> list_ex bad_stamp (attempts_of h i)"
    using assms(1) by (auto simp: normalize_Inr attempts_of_def restart_entry_ok_def split: option.splits dest!: map_of_SomeD)
  then have "restart_entry_ok (i, attempts_of h i @ [format_time now])"
    using assms by (simp add: restart_entry_ok_def bad_stamp_def parse_format_time)
  then show ?thesis
    using assms(1) set_update_subset by (fastforce simp: normalize_Inr RecordRestart_def)
qed

end
