(* ===== verification/Watchdog_Supervisor.thy ===== *)
theory Watchdog_Supervisor
  imports Watchdog_History Go_Json "HOL-Library.State_Monad"
begin

text \<open>
  \<open>internal/watchdog/supervisor.go\<close>, with the status types of \<open>status.go\<close> and \<open>HistoryStore\<close> of \<open>durable.go\<close>: one
  cycle of the root watchdog.

  The world holds the supervisor's memory, the history file, the calls made so far, and whether the process is alive.
  What the program does not decide is the environment, indexed by the number of the call: the clock, the policy the
  database yields, what the probe observes and whether its actions succeed, faults of the file system, and when the
  process dies. A process that died makes no further call: nothing it still computes reaches the file or the probe.
  \<open>next_process\<close> is its successor, which has an empty memory and the same file.

  The history file is modelled by the value it encodes: \<open>Save\<close> writes only histories \<open>normalize\<close> accepts, whose
  strings are component names and RFC 3339 texts, which JSON returns unchanged. Logging is left out.
\<close>

section \<open>Data\<close>

abbreviation ComponentHealthy :: string where "ComponentHealthy \<equiv> ''HEALTHY''"
abbreviation ComponentDegraded :: string where "ComponentDegraded \<equiv> ''DEGRADED''"
abbreviation ComponentFailed :: string where "ComponentFailed \<equiv> ''FAILED''"
abbreviation ComponentNotApplicable :: string where "ComponentNotApplicable \<equiv> ''NOT_APPLICABLE''"
abbreviation OverallHealthy :: string where "OverallHealthy \<equiv> ''HEALTHY''"
abbreviation OverallDegraded :: string where "OverallDegraded \<equiv> ''DEGRADED''"
abbreviation OverallCriticalLocal :: string where "OverallCriticalLocal \<equiv> ''CRITICAL_LOCAL''"
abbreviation OverallRecoverySuppressed :: string where "OverallRecoverySuppressed \<equiv> ''RECOVERY_SUPPRESSED''"
abbreviation ClassificationLocal :: string where "ClassificationLocal \<equiv> ''LOCAL_COMPONENT_FAILURE''"
abbreviation ClassificationExternal :: string where "ClassificationExternal \<equiv> ''EXTERNAL_CONNECTIVITY_FAILURE''"
abbreviation ClassificationMaintenance :: string where "ClassificationMaintenance \<equiv> ''MAINTENANCE_TRANSACTION''"

record observation =
  ComponentID :: string
  Applicable :: bool
  Healthy :: bool
  ObClassification :: string
  ObErrorCode :: string
  ObDetails :: "(string \<times> json) list"

record probe_snapshot =
  ObservedAt :: instant
  Maintenance :: bool
  MaintenanceCode :: string
  Connectivity :: string
  Components :: "observation list"

record component_status =
  StID :: string
  StLabel :: string
  StState :: string
  StApplicable :: bool
  Classification :: string
  ErrorCode :: string
  Details :: "(string \<times> json) list"
  ConsecutiveFailures :: int
  ConsecutiveSuccesses :: int
  RestartsInWindow :: nat
  LastSuccessAt :: string
  LastFailureAt :: string
  LastRecoveryAt :: string
  LastRecoveryAction :: string
  RecoverySuppressed :: bool
  SuppressionReason :: string

record wd_status =
  StatusSchemaVersion :: int
  SupervisorStartedAt :: string
  StatusObservedAt :: string
  OverallState :: string
  ConnectivityState :: string
  ConnectivityClass :: string
  StatusMaintenance :: bool
  StatusMaintenanceCode :: string
  PolicySource :: string
  PolicyErrorCode :: string
  HostReboots24h :: nat
  StatusPendingRebootAt :: string
  StatusComponents :: "component_status list"

record component_runtime =
  failures :: int
  successes :: int
  reconciled :: bool
  lastSuccess :: string
  lastFailure :: string
  lastRecovery :: string
  lastAction :: string

definition new_runtime :: component_runtime where
  "new_runtime = \<lparr>failures = 0, successes = 0, reconciled = False, lastSuccess = [], lastFailure = [],
     lastRecovery = [], lastAction = []\<rparr>"

record supervisor =
  startedAt :: instant
  policy :: wd_policy
  durable :: durable_history
  runtime :: "string \<Rightarrow> component_runtime"
  loaded :: bool
  lastStatusWritten :: bool

datatype wd_act =
    DidReconcile string
  | DidFailClosed bool
  | DidSave bool
  | DidRestart string instant "durable_history option"
  | DidReboot instant "durable_history option"
  | DidWrite wd_status bool

record wd_world =
  sup :: supervisor
  disk :: "durable_history option"
  alive :: bool
  trace :: "wd_act list"
  wcalls :: nat

datatype save_fault = Saved | NotWritten go_error | NotSynced go_error

record wd_env =
  w_complete :: bool
  w_dies :: "nat \<Rightarrow> bool"
  w_now :: "nat \<Rightarrow> instant"
  w_policy :: "nat \<Rightarrow> wd_policy result"
  w_snapshot :: "nat \<Rightarrow> wd_policy \<Rightarrow> probe_snapshot result"
  w_reconcile :: "nat \<Rightarrow> string \<Rightarrow> go_error option"
  w_failclosed :: "nat \<Rightarrow> go_error option"
  w_restart :: "nat \<Rightarrow> string \<Rightarrow> go_error option"
  w_reboot :: "nat \<Rightarrow> go_error option"
  w_load :: "nat \<Rightarrow> go_error option"
  w_save :: "nat \<Rightarrow> save_fault"
  w_write :: "nat \<Rightarrow> go_error option"

type_synonym 'a wd = "(wd_world, 'a) state"

section \<open>Calls\<close>

definition wd_call :: "wd_env \<Rightarrow> 'a \<Rightarrow> (nat \<Rightarrow> wd_world \<Rightarrow> 'a \<times> wd_world) \<Rightarrow> 'a wd" where
  "wd_call E unborn f = State (\<lambda>w.
     if \<not> alive w \<or> w_dies E (wcalls w) then (unborn, w\<lparr>alive := False\<rparr>)
     else let (r, w') = f (wcalls w) w in (r, w'\<lparr>wcalls := wcalls w + 1\<rparr>))"

definition acted :: "wd_act \<Rightarrow> wd_world \<Rightarrow> wd_world" where
  "acted a w = w\<lparr>trace := trace w @ [a]\<rparr>"

definition Now :: "wd_env \<Rightarrow> instant wd" where
  "Now E = State (\<lambda>w. (w_now E (wcalls w),
     if \<not> alive w \<or> w_dies E (wcalls w) then w\<lparr>alive := False\<rparr> else w\<lparr>wcalls := wcalls w + 1\<rparr>))"

definition Policies_Get :: "wd_env \<Rightarrow> wd_policy result wd" where
  "Policies_Get E = wd_call E (Inl ErrDriver) (\<lambda>n w. (w_policy E n, w))"

definition Probe_Snapshot :: "wd_env \<Rightarrow> wd_policy \<Rightarrow> probe_snapshot result wd" where
  "Probe_Snapshot E p = wd_call E (Inl ErrDriver) (\<lambda>n w. (w_snapshot E n p, w))"

definition Probe_Reconcile :: "wd_env \<Rightarrow> string \<Rightarrow> go_error option wd" where
  "Probe_Reconcile E i = wd_call E (Some ErrDriver) (\<lambda>n w. (w_reconcile E n i, acted (DidReconcile i) w))"

definition Probe_FailClosed :: "wd_env \<Rightarrow> go_error option wd" where
  "Probe_FailClosed E = wd_call E (Some ErrDriver) (\<lambda>n w.
     (w_failclosed E n, acted (DidFailClosed (w_failclosed E n = None)) w))"

definition Probe_Restart :: "wd_env \<Rightarrow> string \<Rightarrow> instant \<Rightarrow> go_error option wd" where
  "Probe_Restart E i now = wd_call E (Some ErrDriver) (\<lambda>n w. (w_restart E n i, acted (DidRestart i now (disk w)) w))"

definition Probe_Reboot :: "wd_env \<Rightarrow> instant \<Rightarrow> go_error option wd" where
  "Probe_Reboot E now = wd_call E (Some ErrDriver) (\<lambda>n w. (w_reboot E n, acted (DidReboot now (disk w)) w))"

definition Status_Write :: "wd_env \<Rightarrow> wd_status \<Rightarrow> go_error option wd" where
  "Status_Write E st = wd_call E (Some ErrDriver) (\<lambda>n w. (w_write E n, acted (DidWrite st (w_write E n = None)) w))"

definition Load :: "wd_env \<Rightarrow> durable_history result wd" where
  "Load E = wd_call E (Inl ErrDriver) (\<lambda>n w.
     (case w_load E n of
        Some e \<Rightarrow> Inl e
      | None \<Rightarrow> (case disk w of
          None \<Rightarrow> Inr NewDurableHistory
        | Some h \<Rightarrow> bind_result (normalize h) (\<lambda>_. Inr h)), w))"

definition Save :: "wd_env \<Rightarrow> durable_history \<Rightarrow> go_error option wd" where
  "Save E h = wd_call E (Some ErrDriver) (\<lambda>n w.
     (case w_save E n of
        NotWritten e \<Rightarrow> (Some e, acted (DidSave False) w)
      | fault \<Rightarrow>
        (case normalize h of
           Inl e \<Rightarrow> (Some e, acted (DidSave False) w)
         | Inr _ \<Rightarrow>
           (case fault of
              NotSynced e \<Rightarrow> (Some e, acted (DidSave False) (w\<lparr>disk := Some h\<rparr>))
            | _ \<Rightarrow> (None, acted (DidSave True) (w\<lparr>disk := Some h\<rparr>))))))"

definition get_sup :: "supervisor wd" where
  "get_sup = State (\<lambda>w. (sup w, w))"

definition modify_sup :: "(supervisor \<Rightarrow> supervisor) \<Rightarrow> unit wd" where
  "modify_sup f = State (\<lambda>w. ((), w\<lparr>sup := f (sup w)\<rparr>))"

section \<open>Codes and summaries\<close>

definition space_suffix :: "string \<Rightarrow> nat" where
  "space_suffix s = (let n = length s in
     if s = [] then 0
     else if space_len (drop (n - 1) s) = 1 then 1
     else if 2 \<le> n \<and> space_len (drop (n - 2) s) = 2 then 2
     else if 3 \<le> n \<and> space_len (drop (n - 3) s) = 3 then 3
     else 0)"

function trim_right :: "string \<Rightarrow> string" where
  "trim_right s = (if space_suffix s = 0 then s else trim_right (take (length s - space_suffix s) s))"
  by pat_completeness auto
termination
  by (relation "measure length") (auto simp: space_suffix_def Let_def split: if_splits)

declare trim_right.simps [simp del]

definition trim_space :: "string \<Rightarrow> string" where
  "trim_space s = trim_right (trim_left s)"

text \<open>
  \<open>strings.ToUpper\<close> as far as \<open>safeCode\<close> can see it: besides a-z, the dotless i (U+0131) and the long s (U+017F) have
  ASCII capitals; every other non-ASCII rune stays non-ASCII.
\<close>

fun to_upper :: "string \<Rightarrow> string" where
  "to_upper [] = []"
| "to_upper (a # r) =
     (case r of
        b # r' \<Rightarrow>
          if byte_val a = 196 \<and> byte_val b = 177 then CHR ''I'' # to_upper r'
          else if byte_val a = 197 \<and> byte_val b = 191 then CHR ''S'' # to_upper r'
          else (if 97 \<le> byte_val a \<and> byte_val a \<le> 122 then char_of (byte_val a - 32) else a) # to_upper r
      | [] \<Rightarrow> [if 97 \<le> byte_val a \<and> byte_val a \<le> 122 then char_of (byte_val a - 32) else a])"

definition code_char :: "char \<Rightarrow> bool" where
  "code_char c \<longleftrightarrow> c = CHR ''_'' \<or> 65 \<le> byte_val c \<and> byte_val c \<le> 90 \<or> 48 \<le> byte_val c \<and> byte_val c \<le> 57"

definition safeCode :: "string \<Rightarrow> string" where
  "safeCode v = (let v = to_upper (trim_space v)
     in if v = [] \<or> length v > 64 then ''UNKNOWN''
        else if list_ex (\<lambda>c. \<not> code_char c) v then ''UNKNOWN'' else v)"

definition safeOptionalCode :: "string \<Rightarrow> string" where
  "safeOptionalCode v = (if v = [] then [] else safeCode v)"

definition mergeCode :: "string \<Rightarrow> string \<Rightarrow> string" where
  "mergeCode left right = (if left = [] then right else left @ ''+'' @ right)"

fun derive_overall :: "string \<Rightarrow> component_status list \<Rightarrow> string" where
  "derive_overall r [] = r"
| "derive_overall r (st # sts) =
     (if RecoverySuppressed st \<and> StState st = ComponentFailed then OverallRecoverySuppressed
      else if StState st = ComponentFailed then derive_overall OverallCriticalLocal sts
      else if StState st = ComponentDegraded \<and> r = OverallHealthy then derive_overall OverallDegraded sts
      else derive_overall r sts)"

definition deriveOverall :: "component_status list \<Rightarrow> string" where
  "deriveOverall sts = derive_overall OverallHealthy sts"

definition missingProbeSnapshot :: "instant \<Rightarrow> probe_snapshot" where
  "missingProbeSnapshot now = \<lparr>ObservedAt = now, Maintenance = False, MaintenanceCode = [], Connectivity = ''UNKNOWN'',
     Components = map (\<lambda>spec. \<lparr>ComponentID = ID spec, Applicable = True, Healthy = False, ObClassification = [],
       ObErrorCode = ''LOCAL_PROBE_FAILED'', ObDetails = []\<rparr>) fixedComponentSpecs\<rparr>"

section \<open>One component\<close>

definition set_runtime :: "string \<Rightarrow> (component_runtime \<Rightarrow> component_runtime) \<Rightarrow> supervisor \<Rightarrow> supervisor" where
  "set_runtime i f s = s\<lparr>runtime := (runtime s)(i := f (runtime s i))\<rparr>"

text \<open>\<open>if _, exists := CriticalSince[id]; exists { delete(...); changed = true }\<close>\<close>

definition is_critical :: "string \<Rightarrow> supervisor \<Rightarrow> bool" where
  "is_critical i s \<longleftrightarrow> map_of (CriticalSince (durable s)) i \<noteq> None"

definition clear_critical :: "string \<Rightarrow> supervisor \<Rightarrow> supervisor" where
  "clear_critical i s = s\<lparr>durable := (durable s)\<lparr>CriticalSince := AList.delete i (CriticalSince (durable s))\<rparr>\<rparr>"

definition mark_critical :: "string \<Rightarrow> instant \<Rightarrow> supervisor \<Rightarrow> supervisor" where
  "mark_critical i now s =
     (if is_critical i s then s
      else s\<lparr>durable := (durable s)\<lparr>CriticalSince := AList.update i (format_time now) (CriticalSince (durable s))\<rparr>\<rparr>)"

definition new_status :: "component_spec \<Rightarrow> observation \<Rightarrow> component_status" where
  "new_status spec ob = \<lparr>StID = ID spec, StLabel = Label spec, StState = [], StApplicable = Applicable ob, Classification = [],
     ErrorCode = [], Details = ObDetails ob, ConsecutiveFailures = 0, ConsecutiveSuccesses = 0, RestartsInWindow = 0,
     LastSuccessAt = [], LastFailureAt = [], LastRecoveryAt = [], LastRecoveryAction = [], RecoverySuppressed = False,
     SuppressionReason = []\<rparr>"

definition componentStatus :: "supervisor \<Rightarrow> component_status \<Rightarrow> component_status" where
  "componentStatus s st = (let rt = runtime s (StID st) in
     st\<lparr>ConsecutiveFailures := failures rt, ConsecutiveSuccesses := successes rt, LastSuccessAt := lastSuccess rt,
        LastFailureAt := lastFailure rt, LastRecoveryAt := lastRecovery rt, LastRecoveryAction := lastAction rt,
        RestartsInWindow := length (attempts_of (durable s) (StID st))\<rparr>)"

definition suppressed :: "string \<Rightarrow> component_status \<Rightarrow> component_status" where
  "suppressed reason st = st\<lparr>RecoverySuppressed := True, SuppressionReason := reason\<rparr>"

text \<open>
  \<open>evaluateComponent\<close> up to its first call: the new memory, the status, whether the history changed, and whether the
  component is to be recovered (otherwise the function returns here).
\<close>

definition reset_component :: "component_spec \<Rightarrow> supervisor \<Rightarrow> supervisor" where
  "reset_component spec s = set_runtime (ID spec) (\<lambda>rt. rt\<lparr>failures := 0, successes := 0, reconciled := False\<rparr>)
     (clear_critical (ID spec) s)"

definition seen_healthy :: "component_spec \<Rightarrow> instant \<Rightarrow> supervisor \<Rightarrow> supervisor" where
  "seen_healthy spec now s =
     (let s = set_runtime (ID spec) (\<lambda>rt. rt\<lparr>successes := successes rt + 1, failures := 0, lastSuccess := format_time now\<rparr>) s
      in if SuccessThreshold (policy s) \<le> successes (runtime s (ID spec))
         then clear_critical (ID spec) (set_runtime (ID spec) (\<lambda>rt. rt\<lparr>reconciled := False\<rparr>) s)
         else s)"

definition seen_failed :: "component_spec \<Rightarrow> instant \<Rightarrow> supervisor \<Rightarrow> supervisor" where
  "seen_failed spec now s =
     set_runtime (ID spec) (\<lambda>rt. rt\<lparr>failures := failures rt + 1, successes := 0, lastFailure := format_time now\<rparr>) s"

definition classify :: "component_spec \<Rightarrow> observation \<Rightarrow> bool \<Rightarrow> instant \<Rightarrow> supervisor \<Rightarrow> supervisor \<times> component_status \<times> bool \<times> bool" where
  "classify spec ob maintenance now s =
     (let st = new_status spec ob; i = ID spec; rt = runtime s i; critical = is_critical i s in
      if \<not> Applicable ob then (reset_component spec s, st\<lparr>StState := ComponentNotApplicable\<rparr>, critical, False)
      else if Healthy ob then
        (let wasRecovering = (failures rt > 0 \<or> reconciled rt \<or> critical);
             s' = seen_healthy spec now s;
             short = (successes (runtime s' i) < SuccessThreshold (policy s));
             changed = (critical \<and> \<not> short)
         in if wasRecovering \<and> short
            then (s', componentStatus s' (st\<lparr>StState := ComponentDegraded, Classification := ClassificationLocal\<rparr>), changed, False)
            else (s', componentStatus s' (st\<lparr>StState := ComponentHealthy\<rparr>), changed, False))
      else if ObClassification ob = ClassificationExternal then
        (let s' = reset_component spec s
         in (s', componentStatus s' (suppressed ''EXTERNAL_OUTAGE_NO_LOCAL_RECOVERY''
               (st\<lparr>StState := ComponentDegraded, Classification := ClassificationExternal, ErrorCode := safeCode (ObErrorCode ob)\<rparr>)),
             critical, False))
      else
        (let s' = seen_failed spec now s;
             st = st\<lparr>ErrorCode := safeCode (ObErrorCode ob), Classification := ClassificationLocal\<rparr>
         in if failures (runtime s' i) < FailureThreshold (policy s')
            then (s', componentStatus s' (st\<lparr>StState := ComponentDegraded\<rparr>), False, False)
            else
              (let s'' = mark_critical i now s'; st = st\<lparr>StState := ComponentFailed\<rparr>; changed = (\<not> critical)
               in if maintenance then (s'', componentStatus s'' (suppressed ClassificationMaintenance st), changed, False)
                  else if \<not> Enabled (policy s'') then (s'', componentStatus s'' (suppressed ''WATCHDOG_DISABLED'' st), changed, False)
                  else if RecoveryMode (policy s'') i = RecoveryModeMonitorOnly
                  then (s'', componentStatus s'' (suppressed ''COMPONENT_MONITOR_ONLY'' st), changed, False)
                  else (s'', st, changed, True))))"

definition recovery_action :: "string \<Rightarrow> string \<Rightarrow> instant \<Rightarrow> supervisor \<Rightarrow> supervisor" where
  "recovery_action i action now s = set_runtime i (\<lambda>rt. rt\<lparr>lastAction := action, lastRecovery := format_time now\<rparr>) s"

text \<open>The result of every return of \<open>evaluateComponent\<close>: \<open>supervisor.componentStatus(status, runtimeState, now), changed\<close>.\<close>

definition settle :: "component_status \<Rightarrow> bool \<Rightarrow> (component_status \<times> bool) wd" where
  "settle st changed = do { s \<leftarrow> get_sup; State_Monad.return (componentStatus s st, changed) }"

definition do_restart :: "wd_env \<Rightarrow> component_spec \<Rightarrow> component_status \<Rightarrow> instant \<Rightarrow> (component_status \<times> bool) wd" where
  "do_restart E spec st now = do {
     modify_sup (\<lambda>s. s\<lparr>durable := RecordRestart (ID spec) now (durable s)\<rparr>);
     s \<leftarrow> get_sup;
     saved \<leftarrow> Save E (durable s);
     (case saved of
        Some e \<Rightarrow> settle ((suppressed ''HISTORY_PERSIST_FAILED'' st)\<lparr>ErrorCode := ''HISTORY_PERSIST_FAILED''\<rparr>) True
      | None \<Rightarrow> do {
          modify_sup (recovery_action (ID spec) ''COMPONENT_RESTART'' now);
          restarted \<leftarrow> Probe_Restart E (ID spec) now;
          settle (if restarted = None then st else st\<lparr>ErrorCode := ''COMPONENT_RESTART_FAILED''\<rparr>) True }) }"

definition try_restart :: "wd_env \<Rightarrow> component_spec \<Rightarrow> component_status \<Rightarrow> bool \<Rightarrow> instant \<Rightarrow> (component_status \<times> bool) wd" where
  "try_restart E spec st changed now = do {
     s \<leftarrow> get_sup;
     let (h, allowed, reason) = RestartAllowed (ID spec) (policy s) now (durable s);
     modify_sup (\<lambda>s. s\<lparr>durable := h\<rparr>);
     if \<not> allowed then settle (suppressed reason st) changed
     else if \<not> RestartWithoutPathBlock spec then do {
       closed \<leftarrow> Probe_FailClosed E;
       (case closed of
          Some e \<Rightarrow> settle ((suppressed ''FAIL_CLOSED_FAILED'' st)\<lparr>ErrorCode := ''FAIL_CLOSED_FAILED''\<rparr>) changed
        | None \<Rightarrow> do_restart E spec st now) }
     else do_restart E spec st now }"

definition recover_component :: "wd_env \<Rightarrow> component_spec \<Rightarrow> component_status \<Rightarrow> bool \<Rightarrow> instant \<Rightarrow> (component_status \<times> bool) wd" where
  "recover_component E spec st changed now = do {
     s \<leftarrow> get_sup;
     let mode = RecoveryMode (policy s) (ID spec);
     if ReconcileEnabled (policy s) \<and> Reconcileable spec \<and> \<not> reconciled (runtime s (ID spec)) then do {
       modify_sup (\<lambda>s. recovery_action (ID spec) ''RECONCILE'' now (set_runtime (ID spec) (\<lambda>rt. rt\<lparr>reconciled := True\<rparr>) s));
       r \<leftarrow> Probe_Reconcile E (ID spec);
       settle (if r = None then st else st\<lparr>ErrorCode := ''RECONCILE_FAILED''\<rparr>) changed }
     else if mode \<noteq> RecoveryModeRestart \<or> \<not> Restartable spec \<or> \<not> ComponentRestartEnabled (policy s) then
       settle (suppressed (if mode = RecoveryModeReconcile then ''COMPONENT_RECONCILE_ONLY''
                           else if \<not> Restartable spec then ''COMPONENT_NOT_RESTARTABLE''
                           else ''COMPONENT_RESTART_DISABLED'') st) changed
     else try_restart E spec st changed now }"

definition evaluateComponent :: "wd_env \<Rightarrow> component_spec \<Rightarrow> observation \<Rightarrow> bool \<Rightarrow> instant \<Rightarrow> (component_status \<times> bool) wd" where
  "evaluateComponent E spec ob maintenance now = do {
     s \<leftarrow> get_sup;
     let (s', st, changed, recover) = classify spec ob maintenance now s;
     modify_sup (\<lambda>_. s');
     if recover then recover_component E spec st changed now else State_Monad.return (st, changed) }"

section \<open>Host reboot\<close>

definition mark_statuses :: "string list \<Rightarrow> bool \<Rightarrow> string \<Rightarrow> component_status list \<Rightarrow> component_status list" where
  "mark_statuses critical only_open reason sts =
     map (\<lambda>st. if StID st \<in> set critical \<and> (only_open \<longrightarrow> \<not> RecoverySuppressed st) then suppressed reason st else st) sts"

definition clear_pending :: "bool wd" where
  "clear_pending = do {
     s \<leftarrow> get_sup;
     if PendingRebootAt (durable s) \<noteq> [] then do {
       modify_sup (\<lambda>s. s\<lparr>durable := (durable s)\<lparr>PendingRebootAt := []\<rparr>\<rparr>);
       State_Monad.return True }
     else State_Monad.return False }"

definition oldest_critical :: "durable_history \<Rightarrow> instant \<Rightarrow> string list \<Rightarrow> instant" where
  "oldest_critical h now critical = foldl (\<lambda>oldest i.
     case map_of (CriticalSince h) i of
       None \<Rightarrow> oldest
     | Some v \<Rightarrow> (case parse_time v of None \<Rightarrow> oldest | Some t \<Rightarrow> if t < oldest then t else oldest)) now critical"

definition do_reboot :: "wd_env \<Rightarrow> instant \<Rightarrow> go_error option wd" where
  "do_reboot E now = do {
     modify_sup (\<lambda>s. s\<lparr>durable := RecordReboot now (durable s)\<rparr>);
     s \<leftarrow> get_sup;
     saved \<leftarrow> Save E (durable s);
     (case saved of
        Some e \<Rightarrow> State_Monad.return (Some e)
      | None \<Rightarrow> do {
          closed \<leftarrow> Probe_FailClosed E;
          (case closed of
             Some e \<Rightarrow> State_Monad.return (Some e)
           | None \<Rightarrow> Probe_Reboot E now) }) }"

definition schedule_reboot :: "wd_env \<Rightarrow> instant \<Rightarrow> (bool \<times> go_error option) wd" where
  "schedule_reboot E now = do {
     s \<leftarrow> get_sup;
     if PendingRebootAt (durable s) = [] then do {
       modify_sup (\<lambda>s. s\<lparr>durable := (durable s)\<lparr>PendingRebootAt := format_time (now + seconds_dur (RebootGraceSeconds (policy s)))\<rparr>\<rparr>);
       State_Monad.return (True, None) }
     else (case parse_time (PendingRebootAt (durable s)) of
         None \<Rightarrow> State_Monad.return (False, None)
       | Some deadline \<Rightarrow>
           if now < deadline then State_Monad.return (False, None)
           else do { e \<leftarrow> do_reboot E now; State_Monad.return (False, e) }) }"

definition evaluateReboot :: "wd_env \<Rightarrow> string list \<Rightarrow> bool \<Rightarrow> instant \<Rightarrow> component_status list \<Rightarrow> (bool \<times> go_error option \<times> component_status list) wd" where
  "evaluateReboot E critical maintenance now sts = do {
     s \<leftarrow> get_sup;
     if critical = [] \<or> maintenance \<or> \<not> Enabled (policy s) then do {
       changed \<leftarrow> clear_pending;
       State_Monad.return (changed, None, sts) }
     else if \<not> HostRebootEnabled (policy s) then do {
       changed \<leftarrow> clear_pending;
       State_Monad.return (changed, None, mark_statuses critical True ''HOST_REBOOT_DISABLED'' sts) }
     else if now < oldest_critical (durable s) now critical + seconds_dur (RebootAfterCriticalSeconds (policy s))
     then State_Monad.return (False, None, sts)
     else do {
       let (h, allowed, reason) = RebootAllowed (policy s) now (durable s);
       modify_sup (\<lambda>s. s\<lparr>durable := h\<rparr>);
       if \<not> allowed then State_Monad.return (False, None, mark_statuses critical False reason sts)
       else do {
         r \<leftarrow> schedule_reboot E now;
         State_Monad.return (fst r, snd r, sts) } } }"

section \<open>The cycle\<close>

definition initialize :: "wd_env \<Rightarrow> go_error option wd" where
  "initialize E =
     (if \<not> w_complete E then State_Monad.return (Some (ErrMsg ''complete watchdog supervisor dependencies are required''))
      else do {
        s \<leftarrow> get_sup;
        if loaded s then State_Monad.return None
        else do {
          started \<leftarrow> Now E;
          modify_sup (\<lambda>s. s\<lparr>startedAt := started, policy := DefaultPolicy\<lparr>HostRebootEnabled := False\<rparr>\<rparr>);
          history \<leftarrow> Load E;
          (case history of
             Inl e \<Rightarrow> State_Monad.return (Some e)
           | Inr h \<Rightarrow> do {
               modify_sup (\<lambda>s. s\<lparr>durable := h, runtime := (\<lambda>_. new_runtime), loaded := True\<rparr>);
               State_Monad.return None }) } })"

text \<open>The observation of a component: the last one the snapshot has for it, or a failure when it has none.\<close>

definition observation_of :: "probe_snapshot \<Rightarrow> component_spec \<Rightarrow> observation" where
  "observation_of snap spec =
     (case filter (\<lambda>ob. ComponentID ob = ID spec \<and> validComponentID (ComponentID ob)) (rev (Components snap)) of
        ob # _ \<Rightarrow> ob
      | [] \<Rightarrow> \<lparr>ComponentID = ID spec, Applicable = True, Healthy = False, ObClassification = [],
          ObErrorCode = ''PROBE_RESULT_MISSING'', ObDetails = []\<rparr>)"

fun evaluate_all :: "wd_env \<Rightarrow> probe_snapshot \<Rightarrow> instant \<Rightarrow> component_spec list \<Rightarrow> (component_status list \<times> string list \<times> bool) wd" where
  "evaluate_all E snap now [] = State_Monad.return ([], [], False)"
| "evaluate_all E snap now (spec # specs) = do {
     r \<leftarrow> evaluateComponent E spec (observation_of snap spec) (Maintenance snap) now;
     s \<leftarrow> get_sup;
     rest \<leftarrow> evaluate_all E snap now specs;
     let (st, changed) = r;
     let (sts, critical, changed') = rest;
     State_Monad.return (st # sts,
       (if StState st = ComponentFailed \<and> RebootEligible spec \<and> RecoveryMode (policy s) (ID spec) = RecoveryModeRestart
        then [ID spec] else []) @ critical,
       changed \<or> changed') }"

definition build_status :: "supervisor \<Rightarrow> probe_snapshot \<Rightarrow> string \<Rightarrow> string \<Rightarrow> component_status list \<Rightarrow> wd_status" where
  "build_status s snap source code sts =
     (let connectivity = (if Connectivity snap = [] then ''UNKNOWN'' else Connectivity snap)
      in \<lparr>StatusSchemaVersion = 1, SupervisorStartedAt = format_time (startedAt s), StatusObservedAt = format_time (ObservedAt snap),
          OverallState = deriveOverall sts, ConnectivityState = connectivity,
          ConnectivityClass = (if connectivity \<noteq> ''AVAILABLE'' then ClassificationExternal else []),
          StatusMaintenance = Maintenance snap, StatusMaintenanceCode = safeOptionalCode (MaintenanceCode snap),
          PolicySource = source, PolicyErrorCode = code, HostReboots24h = length (RebootAttempts (durable s)),
          StatusPendingRebootAt = PendingRebootAt (durable s), StatusComponents = sts\<rparr>)"

text \<open>\<open>errors.Join\<close> of two errors that may be nil.\<close>

definition join_errors :: "go_error option \<Rightarrow> go_error option \<Rightarrow> go_error option" where
  "join_errors a b =
     (let es = (case a of None \<Rightarrow> [] | Some e \<Rightarrow> [e]) @ (case b of None \<Rightarrow> [] | Some e \<Rightarrow> [e])
      in if es = [] then None else Some (ErrJoin es))"

text \<open>\<open>Tick\<close> after the reboot decision: the history is saved when it changed, then the status is written.\<close>

definition publish_tick :: "wd_env \<Rightarrow> probe_snapshot \<Rightarrow> string \<Rightarrow> string \<Rightarrow> go_error option \<Rightarrow> go_error option \<Rightarrow> bool \<Rightarrow> component_status list \<Rightarrow> (duration \<times> go_error option) wd" where
  "publish_tick E snap source code probeErr rebootErr changed sts = do {
     s \<leftarrow> get_sup;
     saved \<leftarrow> (if changed then Save E (durable s) else State_Monad.return None);
     (case saved of
        Some e \<Rightarrow> State_Monad.return (CheckInterval (policy s), Some e)
      | None \<Rightarrow> do {
          written \<leftarrow> Status_Write E (build_status s snap source code sts);
          (case written of
             Some e \<Rightarrow> State_Monad.return (CheckInterval (policy s), Some e)
           | None \<Rightarrow> do {
               modify_sup (\<lambda>s. s\<lparr>lastStatusWritten := True\<rparr>);
               State_Monad.return (CheckInterval (policy s), join_errors probeErr rebootErr) }) }) }"

definition tick_observed :: "wd_env \<Rightarrow> instant \<Rightarrow> probe_snapshot \<Rightarrow> string \<Rightarrow> string \<Rightarrow> go_error option \<Rightarrow> (duration \<times> go_error option) wd" where
  "tick_observed E now snap source code probeErr = do {
     r \<leftarrow> evaluate_all E snap now fixedComponentSpecs;
     let (sts, critical, changed) = r;
     dropped \<leftarrow> (if Maintenance snap then clear_pending else State_Monad.return False);
     reboot \<leftarrow> evaluateReboot E critical (Maintenance snap) now sts;
     let (rebootChanged, rebootErr, sts) = reboot;
     publish_tick E snap source (if rebootErr = None then code else mergeCode code ''HOST_REBOOT_FAILED'')
       probeErr rebootErr (changed \<or> dropped \<or> rebootChanged) sts }"

definition tick_loaded :: "wd_env \<Rightarrow> (duration \<times> go_error option) wd" where
  "tick_loaded E = do {
     now \<leftarrow> Now E;
     got \<leftarrow> Policies_Get E;
     (case got of Inl _ \<Rightarrow> State_Monad.return () | Inr p \<Rightarrow> modify_sup (\<lambda>s. s\<lparr>policy := p\<rparr>));
     let source = (case got of Inl _ \<Rightarrow> ''LAST_KNOWN_GOOD'' | Inr _ \<Rightarrow> ''SQLITE'');
     let code = (case got of Inl _ \<Rightarrow> ''POLICY_READ_FAILED'' | Inr _ \<Rightarrow> []);
     modify_sup (\<lambda>s. s\<lparr>durable := Prune now (policy s) (durable s)\<rparr>);
     s \<leftarrow> get_sup;
     probed \<leftarrow> Probe_Snapshot E (policy s);
     let snap = (case probed of Inl _ \<Rightarrow> missingProbeSnapshot now
       | Inr sn \<Rightarrow> if is_zero (ObservedAt sn) then sn\<lparr>ObservedAt := now\<rparr> else sn);
     tick_observed E now snap source (case probed of Inl _ \<Rightarrow> mergeCode code ''LOCAL_PROBE_FAILED'' | Inr _ \<Rightarrow> code)
       (case probed of Inl e \<Rightarrow> Some e | Inr _ \<Rightarrow> None) }"

definition Tick :: "wd_env \<Rightarrow> (duration \<times> go_error option) wd" where
  "Tick E = do {
     modify_sup (\<lambda>s. s\<lparr>lastStatusWritten := False\<rparr>);
     started \<leftarrow> initialize E;
     (case started of
        Some e \<Rightarrow> State_Monad.return (CheckInterval DefaultPolicy, Some e)
      | None \<Rightarrow> tick_loaded E) }"

section \<open>The life of the watchdog\<close>

definition unborn_supervisor :: supervisor where
  "unborn_supervisor = \<lparr>startedAt = zero_time, policy = DefaultPolicy, durable = NewDurableHistory,
     runtime = (\<lambda>_. new_runtime), loaded = False, lastStatusWritten = False\<rparr>"

definition next_process :: "wd_world \<Rightarrow> wd_world" where
  "next_process w = w\<lparr>sup := unborn_supervisor, alive := True, wcalls := wcalls w + 1\<rparr>"

text \<open>A cycle of \<open>Run\<close>: a tick, or the start of a new process after the last one died or was stopped.\<close>

datatype wd_event = Cycle | Respawn

definition wd_step :: "wd_env \<Rightarrow> wd_world \<Rightarrow> wd_event \<Rightarrow> wd_world" where
  "wd_step E w ev = (case ev of Cycle \<Rightarrow> snd (run_state (Tick E) w) | Respawn \<Rightarrow> next_process w)"

definition jitterInterval :: "duration \<Rightarrow> int \<Rightarrow> duration" where
  "jitterInterval interval random =
     (if interval \<le> 0 then second
      else let span = go_div interval 10
        in if span \<le> 0 then interval else wrap64 (wrap64 (interval - span) + random))"

end
