(* ===== verification/Watchdog_Theorems.thy ===== *)
theory Watchdog_Theorems
  imports Watchdog_Supervisor Program_Logic
begin

text \<open>
  What the recovery budgets of the watchdog guarantee over its whole life, with crashes at any call and with new
  processes: \<open>attempt_log\<close> is the argument about a log of attempts, once for component restarts and once for host
  reboots; the invariant \<open>safe\<close> carries it through a cycle.
\<close>

section \<open>A log of attempts that covers what was done\<close>

definition covers :: "duration \<Rightarrow> instant \<Rightarrow> instant list \<Rightarrow> instant list \<Rightarrow> bool" where
  "covers window now did recorded \<longleftrightarrow> sorted recorded \<and> (\<forall>t\<in>set recorded. t \<le> now)
     \<and> mset (filter (\<lambda>t. now - window \<le> t) did) \<subseteq># mset recorded"

text \<open>Every attempt was within the budget when it was made.\<close>

definition paced :: "duration \<Rightarrow> int \<Rightarrow> duration \<Rightarrow> instant list \<Rightarrow> bool" where
  "paced window most cooldown ts \<longleftrightarrow> (\<forall>k<length ts. budget window most cooldown (ts ! k) (take k ts))"

definition log_ok :: "duration \<Rightarrow> int \<Rightarrow> duration \<Rightarrow> instant \<Rightarrow> instant list \<Rightarrow> bool" where
  "log_ok window most cooldown now ts \<longleftrightarrow> sorted ts \<and> (\<forall>t\<in>set ts. t \<le> now) \<and> paced window most cooldown ts"

lemma filter_mset_weaken: "(\<And>x. P x \<Longrightarrow> Q x) \<Longrightarrow> filter_mset P M = filter_mset P (filter_mset Q M)"
  unfolding filter_filter_mset by (rule filter_mset_cong) auto

lemma paced_snoc: "paced window most cooldown (ts @ [t]) \<longleftrightarrow> paced window most cooldown ts \<and> budget window most cooldown t ts"
  by (auto simp: paced_def nth_append less_Suc_eq)

lemma log_ok_Nil [simp]: "log_ok window most cooldown now []"
  by (simp add: log_ok_def paced_def)

lemma log_ok_later: "log_ok window most cooldown t ts \<Longrightarrow> t \<le> now \<Longrightarrow> log_ok window most cooldown now ts"
  by (auto simp: log_ok_def)

lemma covers_later:
  assumes "covers window t did recorded" "t \<le> now"
  shows "covers window now did recorded"
proof -
  have "filter_mset (\<lambda>u. now - window \<le> u) (mset did) \<subseteq># filter_mset (\<lambda>u. t - window \<le> u) (mset did)"
    using assms(2) by (subst filter_mset_weaken[where Q = "\<lambda>u. t - window \<le> u"]) simp_all
  then show ?thesis using assms by (auto simp: covers_def)
qed

lemma covers_prune:
  assumes "covers window now did recorded" "window \<le> w"
  shows "covers window now did (filter (\<lambda>t. now - w \<le> t) recorded)"
proof -
  have "filter_mset (\<lambda>t. now - window \<le> t) (mset did) = filter_mset (\<lambda>t. now - w \<le> t) (filter_mset (\<lambda>t. now - window \<le> t) (mset did))"
    unfolding filter_filter_mset using assms(2) by (intro filter_mset_cong) auto
  also have "\<dots> \<subseteq># filter_mset (\<lambda>t. now - w \<le> t) (mset recorded)"
    using assms(1) by (intro multiset_filter_mono) (simp add: covers_def)
  finally show ?thesis using assms(1) by (auto simp: covers_def sorted_filter[of id, simplified])
qed

lemma sorted_last: "sorted xs \<Longrightarrow> x \<in> set xs \<Longrightarrow> x \<le> last xs" for xs :: "'a :: linorder list"
  by (induction xs rule: rev_induct) (auto simp: sorted_append)

lemma covers_budget:
  assumes "covers window now did recorded" and "sorted did" "\<forall>t\<in>set did. t \<le> now"
    and "budget w m c now recorded" and "window \<le> w" "m \<le> most" "cooldown \<le> c"
  shows "budget window most cooldown now did"
proof -
  let ?d = "filter (\<lambda>t. now - window \<le> t) did" and ?r = "filter (\<lambda>t. now - w \<le> t) recorded"
  have sub: "mset ?d \<subseteq># mset ?r"
    using covers_prune[OF assms(1,5)] by (simp add: covers_def)
  have "length ?d \<le> length ?r" using size_mset_mono[OF sub] by (simp only: size_mset)
  moreover have "last ?d + cooldown \<le> now" if "?d \<noteq> []"
  proof -
    have mem: "last ?d \<in> set ?r" using that sub mset_subset_eqD[OF sub, of "last ?d"] by (metis last_in_set set_mset_mset)
    then have ne: "?r \<noteq> []" by (metis empty_iff empty_set)
    have "sorted ?r" using assms(1) by (simp add: covers_def sorted_filter[of id, simplified])
    then have "last ?d \<le> last ?r" using sorted_last[OF _ mem] by blast
    then show ?thesis using assms(4,7) ne by (simp add: budget_def Let_def)
  qed
  ultimately show ?thesis using assms(4,6) by (simp add: budget_def Let_def)
qed

lemma subseteq_add_mset: "M \<subseteq># N \<Longrightarrow> M \<subseteq># add_mset x N"
  by (metis add_mset_add_single mset_subset_eq_add_left subset_mset.order_trans)

lemma covers_record: "covers window now did recorded \<Longrightarrow> covers window now did (recorded @ [now])"
  by (auto simp: covers_def sorted_append intro: subseteq_add_mset)

lemma covers_act: "covers window now did recorded \<Longrightarrow> covers window now (did @ [now]) (recorded @ [now])"
  by (auto simp: covers_def sorted_append intro: subseteq_add_mset)

text \<open>A history with a log of attempts: pruning keeps the window, recording appends.\<close>

locale attempt_log =
  fixes ok :: "'h \<Rightarrow> bool"
    and entries :: "'h \<Rightarrow> instant list"
    and fits :: "wd_policy \<Rightarrow> bool"
    and window :: "wd_policy \<Rightarrow> duration"
    and prune :: "instant \<Rightarrow> wd_policy \<Rightarrow> 'h \<Rightarrow> 'h"
    and enter :: "instant \<Rightarrow> 'h \<Rightarrow> 'h"
  assumes prune_entries: "ok h \<Longrightarrow> fits p \<Longrightarrow> entries (prune now p h) = filter (\<lambda>t. now - window p \<le> t) (entries h)"
    and enter_entries: "ok h \<Longrightarrow> rfc3339_range now \<Longrightarrow> entries (enter now h) = entries h @ [now]"
begin

lemma prune_covers:
  "ok h \<Longrightarrow> fits p \<Longrightarrow> w \<le> window p \<Longrightarrow> covers w now did (entries h) \<Longrightarrow> covers w now did (entries (prune now p h))"
  using covers_prune by (simp add: prune_entries)

lemma enter_covers:
  "ok h \<Longrightarrow> rfc3339_range now \<Longrightarrow> covers w now did (entries h) \<Longrightarrow> covers w now did (entries (enter now h))"
  using covers_record by (simp add: enter_entries)

lemma act_covers:
  "ok h \<Longrightarrow> rfc3339_range now \<Longrightarrow> covers w now did (entries h) \<Longrightarrow> covers w now (did @ [now]) (entries (enter now h))"
  using covers_act by (simp add: enter_entries)

lemma enter_mem: "ok h \<Longrightarrow> rfc3339_range now \<Longrightarrow> now \<in> set (entries (enter now h))"
  by (simp add: enter_entries)

end

interpretation restart_log: attempt_log attempts_ok "\<lambda>h. restarts h i" durations_ok RestartWindow Prune "RecordRestart i" for i
  by unfold_locales (simp_all add: Prune_ok RecordRestart_ok durations(2))

interpretation reboot_log: attempt_log attempts_ok reboots durations_ok "\<lambda>_. day" Prune RecordReboot
  by unfold_locales (simp_all add: Prune_ok RecordReboot_ok)

section \<open>The invariant of a cycle\<close>

definition restart_times :: "string \<Rightarrow> wd_act list \<Rightarrow> instant list" where
  "restart_times i tr = List.map_filter (\<lambda>a. case a of DidRestart j t _ \<Rightarrow> if j = i then Some t else None | _ \<Rightarrow> None) tr"

definition reboot_times :: "wd_act list \<Rightarrow> instant list" where
  "reboot_times tr = List.map_filter (\<lambda>a. case a of DidReboot t _ \<Rightarrow> Some t | _ \<Rightarrow> None) tr"

text \<open>The attempt was in the history file when the action was started.\<close>

fun on_file :: "wd_act \<Rightarrow> bool" where
  "on_file (DidRestart i t d) = (case d of None \<Rightarrow> False | Some h \<Rightarrow> t \<in> set (restarts h i))"
| "on_file (DidReboot t d) = (case d of None \<Rightarrow> False | Some h \<Rightarrow> t \<in> set (reboots h))"
| "on_file _ = True"

fun attempt :: "wd_act \<Rightarrow> bool" where
  "attempt (DidRestart i t d) = True"
| "attempt (DidReboot t d) = True"
| "attempt _ = False"

text \<open>The weakest limits of the policies the watchdog runs under.\<close>

record limits =
  lim_window :: duration
  lim_restarts :: int
  lim_cooldown :: duration
  lim_reboots :: int

definition within :: "limits \<Rightarrow> wd_policy \<Rightarrow> bool" where
  "within L p \<longleftrightarrow> durations_ok p \<and> lim_window L \<le> RestartWindow p \<and> MaxRestartsPerComponent p \<le> lim_restarts L
     \<and> lim_cooldown L \<le> seconds_dur (RestartCooldownSeconds p) \<and> MaxRebootsPer24h p \<le> lim_reboots L"

definition logs_ok :: "limits \<Rightarrow> instant \<Rightarrow> wd_act list \<Rightarrow> bool" where
  "logs_ok L now tr \<longleftrightarrow>
     (\<forall>i. log_ok (lim_window L) (lim_restarts L) (lim_cooldown L) now (restart_times i tr))
     \<and> log_ok day (lim_reboots L) 0 now (reboot_times tr) \<and> (\<forall>a\<in>set tr. on_file a)"

definition history_ok :: "limits \<Rightarrow> instant \<Rightarrow> wd_act list \<Rightarrow> durable_history \<Rightarrow> bool" where
  "history_ok L now tr h \<longleftrightarrow> attempts_ok h \<and> (\<forall>i. covers (lim_window L) now (restart_times i tr) (restarts h i))
     \<and> covers day now (reboot_times tr) (reboots h)"

definition on_disk :: "wd_world \<Rightarrow> durable_history" where
  "on_disk w = (case disk w of None \<Rightarrow> NewDurableHistory | Some h \<Rightarrow> h)"

definition memory_ok :: "limits \<Rightarrow> instant \<Rightarrow> wd_world \<Rightarrow> bool" where
  "memory_ok L now w \<longleftrightarrow> within L (policy (sup w)) \<and> history_ok L now (trace w) (durable (sup w))"

definition stored_ok :: "limits \<Rightarrow> instant \<Rightarrow> wd_world \<Rightarrow> bool" where
  "stored_ok L now w \<longleftrightarrow> logs_ok L now (trace w) \<and> history_ok L now (trace w) (on_disk w)"

definition safe :: "limits \<Rightarrow> instant \<Rightarrow> nat \<Rightarrow> wd_world \<Rightarrow> bool" where
  "safe L now n w \<longleftrightarrow> rfc3339_range now \<and> n \<le> wcalls w \<and> stored_ok L now w
     \<and> (alive w \<longrightarrow> loaded (sup w) \<and> memory_ok L now w)"

lemma times_simps [simp]:
  "restart_times i [] = []" "reboot_times [] = []"
  "restart_times i (tr @ [DidRestart j t d]) = restart_times i tr @ (if j = i then [t] else [])"
  "restart_times i (tr @ [DidReboot t d]) = restart_times i tr"
  "reboot_times (tr @ [DidReboot t d]) = reboot_times tr @ [t]"
  "reboot_times (tr @ [DidRestart j t d]) = reboot_times tr"
  "\<not> attempt a \<Longrightarrow> restart_times i (tr @ [a]) = restart_times i tr"
  "\<not> attempt a \<Longrightarrow> reboot_times (tr @ [a]) = reboot_times tr"
  by (auto simp: restart_times_def reboot_times_def List.map_filter_def split: wd_act.splits)

lemma on_file_other [simp]: "\<not> attempt a \<Longrightarrow> on_file a"
  by (cases a) auto

lemma other_act [simp]:
  "\<not> attempt a \<Longrightarrow> logs_ok L now (tr @ [a]) = logs_ok L now tr"
  "\<not> attempt a \<Longrightarrow> history_ok L now (tr @ [a]) h = history_ok L now tr h"
  by (simp_all add: logs_ok_def history_ok_def)

lemma history_ok_frame:
  "RestartAttempts h' = RestartAttempts h \<Longrightarrow> RebootAttempts h' = RebootAttempts h \<Longrightarrow> history_ok L now tr h' = history_ok L now tr h"
  by (simp add: history_ok_def attempts_ok_def restarts_def reboots_def attempts_of_def)

lemma history_ok_Prune: "history_ok L now tr h \<Longrightarrow> within L p \<Longrightarrow> history_ok L now tr (Prune now p h)"
  by (simp add: history_ok_def within_def Prune_ok(1) restart_log.prune_covers reboot_log.prune_covers)

lemma history_ok_RecordRestart:
  "history_ok L now tr h \<Longrightarrow> rfc3339_range now \<Longrightarrow> history_ok L now tr (RecordRestart i now h)"
  by (simp add: history_ok_def RecordRestart_ok covers_record)

lemma history_ok_RecordReboot:
  "history_ok L now tr h \<Longrightarrow> rfc3339_range now \<Longrightarrow> history_ok L now tr (RecordReboot now h)"
  by (simp add: history_ok_def RecordReboot_ok covers_record)

lemma wp_wd [simp]:
  "wp (wd_call E u f) Q w = (if \<not> alive w \<or> w_dies E (wcalls w) then Q u (w\<lparr>alive := False\<rparr>)
     else case f (wcalls w) w of (r, w') \<Rightarrow> Q r (w'\<lparr>wcalls := Suc (wcalls w)\<rparr>))"
  "wp (Now E) Q1 w = Q1 (w_now E (wcalls w))
     (if \<not> alive w \<or> w_dies E (wcalls w) then w\<lparr>alive := False\<rparr> else w\<lparr>wcalls := Suc (wcalls w)\<rparr>)"
  "wp get_sup Q2 w = Q2 (sup w) w"
  "wp (modify_sup g) Q3 w = Q3 () (w\<lparr>sup := g (sup w)\<rparr>)"
  by (simp_all add: wp_def wd_call_def Now_def get_sup_def modify_sup_def split: prod.splits)

text \<open>Steps on the memory that leave the policy and the attempts alone.\<close>

definition same_attempts :: "supervisor \<Rightarrow> supervisor \<Rightarrow> bool" where
  "same_attempts s' s \<longleftrightarrow> policy s' = policy s \<and> loaded s' = loaded s
     \<and> RestartAttempts (durable s') = RestartAttempts (durable s) \<and> RebootAttempts (durable s') = RebootAttempts (durable s)"

lemma same_attempts_steps [simp]:
  "same_attempts s s" "same_attempts (set_runtime i f s) s" "same_attempts (clear_critical i s) s"
  "same_attempts (mark_critical i now s) s" "same_attempts (recovery_action i a now s) s"
  "same_attempts (s\<lparr>durable := (durable s)\<lparr>PendingRebootAt := t\<rparr>\<rparr>) s"
  "same_attempts (s\<lparr>lastStatusWritten := b\<rparr>) s"
  by (simp_all add: same_attempts_def set_runtime_def clear_critical_def mark_critical_def recovery_action_def)

lemma same_attempts_trans: "same_attempts s'' s' \<Longrightarrow> same_attempts s' s \<Longrightarrow> same_attempts s'' s"
  by (simp add: same_attempts_def)

lemma same_attempts_compose [simp]:
  "same_attempts (set_runtime i f s') s = same_attempts s' s" "same_attempts (clear_critical i s') s = same_attempts s' s"
  "same_attempts (mark_critical i now s') s = same_attempts s' s"
  "same_attempts (recovery_action i a now s') s = same_attempts s' s"
  by (simp_all add: same_attempts_def set_runtime_def clear_critical_def mark_critical_def recovery_action_def)

lemma same_attempts_classify: "same_attempts (fst (classify spec ob m now s)) s"
  by (simp add: classify_def reset_component_def seen_healthy_def seen_failed_def Let_def split: if_split)

lemma safe_sup:
  assumes "safe L now n w" "same_attempts s' (sup w)"
  shows "safe L now n (w\<lparr>sup := s'\<rparr>)"
  using assms history_ok_frame[of "durable s'" "durable (sup w)" L now "trace w"]
  by (simp add: safe_def stored_ok_def memory_ok_def on_disk_def same_attempts_def)

lemma safe_policy_free: "safe L now n w \<Longrightarrow> alive w \<Longrightarrow> within L (policy (sup w))"
  by (simp add: safe_def memory_ok_def)

lemma safe_dead [simp]: "safe L now n w \<Longrightarrow> safe L now n (w\<lparr>alive := False\<rparr>)"
  by (simp add: safe_def stored_ok_def on_disk_def)

lemma safe_called [simp]: "safe L now n w \<Longrightarrow> safe L now n (w\<lparr>wcalls := Suc (wcalls w)\<rparr>)"
  by (simp add: safe_def stored_ok_def memory_ok_def on_disk_def)

lemma safe_other [simp]: "safe L now n w \<Longrightarrow> \<not> attempt a \<Longrightarrow> safe L now n (acted a w)"
  by (simp add: safe_def stored_ok_def memory_ok_def on_disk_def acted_def)

lemma acted_simps [simp]:
  "alive (acted a w) = alive w" "sup (acted a w) = sup w" "disk (acted a w) = disk w"
  "wcalls (acted a w) = wcalls w" "trace (acted a w) = trace w @ [a]"
  by (simp_all add: acted_def)

lemma safe_saved:
  "safe L now n w \<Longrightarrow> history_ok L now (trace w) h \<Longrightarrow> safe L now n (w\<lparr>disk := Some h\<rparr>)"
  by (simp add: safe_def stored_ok_def memory_ok_def on_disk_def)

lemma keeps_call:
  assumes "\<And>k w. I w \<Longrightarrow> alive w \<Longrightarrow> I ((snd (f k w))\<lparr>wcalls := Suc (wcalls w)\<rparr>)"
    and "\<And>w. I w \<Longrightarrow> I (w\<lparr>alive := False\<rparr>)"
  shows "keeps I (wd_call E u f)"
  using assms by (auto intro!: keepsI split: prod.splits) (metis snd_conv)

lemma safe_acted_called:
  "safe L now n w \<Longrightarrow> \<not> attempt a \<Longrightarrow> safe L now n ((acted a w)\<lparr>wcalls := Suc (wcalls w)\<rparr>)"
  using safe_called[OF safe_other[of L now n w a]] by simp

lemma keeps_safe_calls [intro]:
  "keeps (safe L now n) (Policies_Get E)" "keeps (safe L now n) (Probe_Snapshot E p)"
  "keeps (safe L now n) (Probe_Reconcile E i)" "keeps (safe L now n) (Probe_FailClosed E)"
  "keeps (safe L now n) (Status_Write E st)" "keeps (safe L now n) (Load E)"
  unfolding Policies_Get_def Probe_Snapshot_def Probe_Reconcile_def Probe_FailClosed_def Status_Write_def Load_def
  by (rule keeps_call; simp add: safe_acted_called)+

lemma keeps_safe_sup [intro]: "keeps (safe L now n) get_sup"
  by (rule keepsI) simp

lemma keeps_safe_modify: "(\<And>s. same_attempts (g s) s) \<Longrightarrow> keeps (safe L now n) (modify_sup g)"
  by (rule keepsI) (simp add: safe_sup)

lemma keeps_settle [intro]: "keeps (safe L now n) (settle st changed)"
  unfolding settle_def by (intro keeps_bind keeps_safe_sup keeps_return)

text \<open>Saving the history in memory, and what a successful save leaves behind.\<close>

lemma wp_Save:
  assumes "safe L now n w" "alive w \<Longrightarrow> history_ok L now (trace w) h"
    and "\<And>e w'. safe L now n w' \<Longrightarrow> Q (Some e) w'"
    and "\<And>w'. safe L now n w' \<Longrightarrow> sup w' = sup w \<Longrightarrow> disk w' = Some h \<Longrightarrow> trace w' = trace w @ [DidSave True] \<Longrightarrow> Q None w'"
  shows "wp (Save E h) Q w"
proof -
  have s: "safe L now n ((acted (DidSave b) w)\<lparr>wcalls := Suc (wcalls w)\<rparr>)" for b
    using safe_acted_called[OF assms(1), of "DidSave b"] by simp
  have d: "alive w \<Longrightarrow> safe L now n ((acted (DidSave b) (w\<lparr>disk := Some h\<rparr>))\<lparr>wcalls := Suc (wcalls w)\<rparr>)" for b
    using safe_acted_called[OF safe_saved[OF assms(1,2)], of "DidSave b"] by simp
  show ?thesis
    unfolding Save_def using s d assms(3,4) safe_dead[OF assms(1)] by (auto split: save_fault.splits sum.splits)
qed

text \<open>The action itself: an attempt within the budget that the file already has.\<close>

lemma safe_restart:
  assumes "safe L now n w" "disk w = Some (RecordRestart i now h)"
    and "alive w \<Longrightarrow> durable (sup w) = RecordRestart i now h"
    and "history_ok L now (trace w) h"
    and "within L p" "budget (RestartWindow p) (MaxRestartsPerComponent p) (seconds_dur (RestartCooldownSeconds p)) now (restarts h i)"
  shows "safe L now n (acted (DidRestart i now (disk w)) w)"
proof -
  let ?tr = "trace w @ [DidRestart i now (disk w)]" and ?h = "RecordRestart i now h"
  have now: "rfc3339_range now" and ok: "attempts_ok h" and log: "logs_ok L now (trace w)"
    using assms(1,4) by (simp_all add: safe_def stored_ok_def history_ok_def)
  have h': "history_ok L now ?tr ?h"
    using assms(4) now covers_act covers_record by (simp add: history_ok_def RecordRestart_ok)
  have "budget (lim_window L) (lim_restarts L) (lim_cooldown L) now (restart_times i (trace w))"
    by (rule covers_budget[OF _ _ _ assms(6)]) (use assms(4,5) log in \<open>auto simp: history_ok_def within_def logs_ok_def log_ok_def\<close>)
  moreover have "on_file (DidRestart i now (disk w))"
    using restart_log.enter_mem[OF ok now] by (simp add: assms(2))
  ultimately have "logs_ok L now ?tr"
    using log by (auto simp: logs_ok_def log_ok_def paced_snoc sorted_append)
  with h' assms(1-3) show ?thesis
    by (simp add: safe_def stored_ok_def memory_ok_def on_disk_def)
qed

lemma safe_reboot:
  assumes "safe L now n w" and d: "disk w = Some (RecordReboot now h)" and h: "history_ok L now (trace w) h"
    and mem: "alive w \<Longrightarrow> durable (sup w) = RecordReboot now h"
    and few: "int (length (filter (\<lambda>t. now - day \<le> t) (reboots h))) < lim_reboots L"
  shows "safe L now n (acted (DidReboot now (disk w)) w)"
proof -
  let ?tr = "trace w @ [DidReboot now (disk w)]" and ?h = "RecordReboot now h"
  have now: "rfc3339_range now" and ok: "attempts_ok h" and log: "logs_ok L now (trace w)"
    using assms(1) h by (simp_all add: safe_def stored_ok_def history_ok_def)
  have h': "history_ok L now ?tr ?h"
    using h now covers_act covers_record by (simp add: history_ok_def RecordReboot_ok)
  have le: "\<forall>t\<in>set (reboots h). t \<le> now" using h by (simp add: history_ok_def covers_def)
  have "budget day (lim_reboots L) 0 now (reboots h)"
  proof -
    have "last (filter (\<lambda>t. now - day \<le> t) (reboots h)) \<le> now" if "filter (\<lambda>t. now - day \<le> t) (reboots h) \<noteq> []"
      using last_in_set[OF that] le by simp
    then show ?thesis using few by (simp add: budget_def Let_def)
  qed
  then have "budget day (lim_reboots L) 0 now (reboot_times (trace w))"
    by (rule covers_budget[rotated 3]) (use h log in \<open>auto simp: history_ok_def logs_ok_def log_ok_def\<close>)
  moreover have "on_file (DidReboot now (disk w))"
    using reboot_log.enter_mem[OF ok now] by (simp add: d)
  ultimately have "logs_ok L now ?tr"
    using log by (auto simp: logs_ok_def log_ok_def paced_snoc sorted_append)
  with h' assms(1) mem d show ?thesis
    by (simp add: safe_def stored_ok_def memory_ok_def on_disk_def)
qed

section \<open>A cycle keeps the invariant\<close>

lemma wp_do_restart:
  assumes "safe L now n w" "alive w \<Longrightarrow> budget (RestartWindow (policy (sup w))) (MaxRestartsPerComponent (policy (sup w)))
      (seconds_dur (RestartCooldownSeconds (policy (sup w)))) now (restarts (durable (sup w)) (ID spec))"
  shows "wp (do_restart E spec st now) (\<lambda>_. safe L now n) w"
proof (cases "alive w")
  case False
  then show ?thesis
    using assms(1) by (simp add: do_restart_def Save_def settle_def safe_def stored_ok_def on_disk_def)
next
  case True
  let ?h = "durable (sup w)" and ?p = "policy (sup w)" and ?i = "ID spec"
  let ?w = "w\<lparr>sup := (sup w)\<lparr>durable := RecordRestart ?i now ?h\<rparr>\<rparr>"
  have h: "history_ok L now (trace w) ?h" and p: "within L ?p" and now: "rfc3339_range now"
    using assms(1) True by (simp_all add: safe_def memory_ok_def)
  have s: "safe L now n ?w"
    using assms(1) history_ok_RecordRestart[OF h now] by (simp add: safe_def stored_ok_def memory_ok_def on_disk_def)
  have act: "wp (Probe_Restart E ?i now) (\<lambda>_. safe L now n) (w'\<lparr>sup := recovery_action ?i ''COMPONENT_RESTART'' now (sup w')\<rparr>)"
    if w': "safe L now n w'" "sup w' = sup ?w" "disk w' = Some (RecordRestart ?i now ?h)" "trace w' = trace w @ [DidSave True]" for w'
  proof -
    let ?v = "w'\<lparr>sup := recovery_action ?i ''COMPONENT_RESTART'' now (sup w')\<rparr>"
    have "safe L now n ?v" using w'(1) by (intro safe_sup) simp_all
    moreover have "safe L now n (acted (DidRestart ?i now (disk ?v)) ?v)"
      by (rule safe_restart[OF \<open>safe L now n ?v\<close> _ _ _ p assms(2)[OF True]])
        (use w' h in \<open>simp_all add: recovery_action_def set_runtime_def\<close>)
    ultimately show ?thesis
      using safe_called[of L now n "acted (DidRestart ?i now (disk ?v)) ?v"] by (simp add: Probe_Restart_def)
  qed
  have tail: "wp (Probe_Restart E ?i now) (\<lambda>r. wp (settle (f r) True) (\<lambda>_. safe L now n))
      (w'\<lparr>sup := recovery_action ?i ''COMPONENT_RESTART'' now (sup w')\<rparr>)"
    if w': "safe L now n w'" "sup w' = sup ?w" "disk w' = Some (RecordRestart ?i now ?h)" "trace w' = trace w @ [DidSave True]" for w' f
    using act[OF w'] by (rule wp_mono) (rule keepsD[OF keeps_settle])
  show ?thesis
    unfolding do_restart_def
  proof (simp, rule wp_Save[OF s], goal_cases)
    case 1
    show ?case using history_ok_RecordRestart[OF h now] by simp
  next
    case (2 e w')
    then show ?case by (simp add: keepsD[OF keeps_settle])
  next
    case (3 w')
    then show ?case using tail[of w'] by simp
  qed
qed

lemma keeps_try_restart:
  assumes "validComponentID (ID spec)"
  shows "keeps (safe L now n) (try_restart E spec st changed now)"
proof (rule keepsI)
  fix w assume w: "safe L now n w"
  let ?p = "policy (sup w)" and ?h = "durable (sup w)" and ?i = "ID spec"
  obtain h b r where a: "RestartAllowed ?i ?p now ?h = (h, b, r)" by (metis prod_cases3)
  let ?w = "w\<lparr>sup := (sup w)\<lparr>durable := h\<rparr>\<rparr>"
  let ?B = "\<lambda>s. budget (RestartWindow (policy s)) (MaxRestartsPerComponent (policy s))
      (seconds_dur (RestartCooldownSeconds (policy s))) now (restarts (durable s) ?i)"
  have mem: "h = Prune now ?p ?h \<and> (b \<longrightarrow> ?B (sup ?w)) \<and> history_ok L now (trace w) h" if "alive w"
  proof -
    have ok: "attempts_ok ?h" "durations_ok ?p" and within: "within L ?p" "history_ok L now (trace w) ?h"
      using w that by (simp_all add: safe_def memory_ok_def history_ok_def within_def)
    from RestartAllowed_budget[OF ok assms, of now] a have "h = Prune now ?p ?h"
      and "b \<longleftrightarrow> budget (RestartWindow ?p) (MaxRestartsPerComponent ?p) (seconds_dur (RestartCooldownSeconds ?p)) now (restarts ?h ?i)"
      by simp_all
    moreover have "restarts (Prune now ?p ?h) ?i = filter (\<lambda>t. now - RestartWindow ?p \<le> t) (restarts ?h ?i)"
      by (rule restart_log.prune_entries[OF ok])
    ultimately show ?thesis using history_ok_Prune[OF within(2,1)] by (simp add: budget_def Let_def)
  qed
  have s: "safe L now n ?w"
    using w mem by (cases "alive w") (auto simp: safe_def stored_ok_def memory_ok_def on_disk_def)
  have restart: "wp (do_restart E spec st now) (\<lambda>_. safe L now n) w'" if "safe L now n w'" "alive w' \<Longrightarrow> alive w" "sup w' = sup ?w" "b" for w'
    using that mem by (intro wp_do_restart) auto
  have closed: "wp (Probe_FailClosed E) (\<lambda>r w'. safe L now n w' \<and> (alive w' \<longrightarrow> alive w) \<and> sup w' = sup ?w) ?w"
    using safe_acted_called[OF s, of "DidFailClosed (w_failclosed E (wcalls w) = None)"] safe_dead[OF s]
    by (auto simp: Probe_FailClosed_def)
  show "wp (try_restart E spec st changed now) (\<lambda>_. safe L now n) w"
    unfolding try_restart_def using a s restart[of ?w] keepsD[OF keeps_settle]
    by (auto split: option.splits intro!: wp_mono[OF closed] restart)
qed

lemma keeps_let [intro]: "keeps I (f v) \<Longrightarrow> keeps I (Let v f)"
  by simp

lemma keeps_evaluateComponent:
  assumes "validComponentID (ID spec)"
  shows "keeps (safe L now n) (evaluateComponent E spec ob m now)"
proof (rule keepsI)
  fix w assume w: "safe L now n w"
  obtain s' st changed r where c: "classify spec ob m now (sup w) = (s', st, changed, r)" by (metis prod_cases4)
  have "safe L now n (w\<lparr>sup := s'\<rparr>)"
    using same_attempts_classify[of spec ob m now "sup w"] c w by (intro safe_sup) simp_all
  moreover have "keeps (safe L now n) (recover_component E spec st changed now)"
    unfolding recover_component_def Let_def
    by (intro keeps_bind keeps_safe_sup keeps_if keeps_settle keeps_safe_calls keeps_try_restart[OF assms] keeps_safe_modify) simp_all
  ultimately show "wp (evaluateComponent E spec ob m now) (\<lambda>_. safe L now n) w"
    using c by (simp add: evaluateComponent_def keepsD)
qed

lemma keeps_evaluate_all:
  "\<forall>spec\<in>set specs. validComponentID (ID spec) \<Longrightarrow> keeps (safe L now n) (evaluate_all E snap now specs)"
  by (induction specs) (auto intro!: keeps_bind keeps_evaluateComponent keeps_safe_sup keeps_prod simp: Let_def)

lemma keeps_clear_pending [intro]: "keeps (safe L now n) clear_pending"
  unfolding clear_pending_def by (intro keeps_bind keeps_safe_sup keeps_if keeps_safe_modify keeps_return) simp

lemma wp_do_reboot:
  assumes "safe L now n w" "alive w \<Longrightarrow> int (length (filter (\<lambda>t. now - day \<le> t) (reboots (durable (sup w))))) < lim_reboots L"
  shows "wp (do_reboot E now) (\<lambda>_. safe L now n) w"
proof (cases "alive w")
  case False
  then show ?thesis
    using assms(1) by (simp add: do_reboot_def Save_def safe_def stored_ok_def on_disk_def)
next
  case True
  let ?h = "durable (sup w)"
  let ?w = "w\<lparr>sup := (sup w)\<lparr>durable := RecordReboot now ?h\<rparr>\<rparr>"
  have h: "history_ok L now (trace w) ?h" and now: "rfc3339_range now"
    using assms(1) True by (simp_all add: safe_def memory_ok_def)
  have s: "safe L now n ?w"
    using assms(1) history_ok_RecordReboot[OF h now] by (simp add: safe_def stored_ok_def memory_ok_def on_disk_def)
  have act: "wp (Probe_Reboot E now) (\<lambda>_. safe L now n) w'"
    if w': "safe L now n w'" "sup w' = sup ?w" "disk w' = Some (RecordReboot now ?h)" "history_ok L now (trace w') ?h" for w'
  proof -
    have "safe L now n (acted (DidReboot now (disk w')) w')"
      by (rule safe_reboot[OF w'(1,3,4)]) (use w'(2) assms(2) True in simp_all)
    then show ?thesis
      using safe_called[of L now n "acted (DidReboot now (disk w')) w'"] w'(1) by (simp add: Probe_Reboot_def)
  qed
  have tail: "wp (Probe_FailClosed E) (\<lambda>r. wp (case r of None \<Rightarrow> Probe_Reboot E now | Some e \<Rightarrow> State_Monad.return (Some e)) (\<lambda>_. safe L now n)) w'"
    if w': "safe L now n w'" "sup w' = sup ?w" "disk w' = Some (RecordReboot now ?h)" "history_ok L now (trace w') ?h" for w'
    using act[of "(acted (DidFailClosed True) w')\<lparr>wcalls := Suc (wcalls w')\<rparr>"] w' safe_dead[OF w'(1)]
      safe_acted_called[OF w'(1), of "DidFailClosed True"] safe_acted_called[OF w'(1), of "DidFailClosed False"]
    by (auto simp: Probe_FailClosed_def split: option.splits)
  show ?thesis
    unfolding do_reboot_def
  proof (simp, rule wp_Save[OF s], goal_cases)
    case 1
    show ?case using history_ok_RecordReboot[OF h now] by simp
  next
    case (2 e w')
    then show ?case by simp
  next
    case (3 w')
    then show ?case using tail[of w'] h by simp
  qed
qed

lemma wp_schedule_reboot:
  assumes "safe L now n w" "alive w \<Longrightarrow> int (length (filter (\<lambda>t. now - day \<le> t) (reboots (durable (sup w))))) < lim_reboots L"
  shows "wp (schedule_reboot E now) (\<lambda>_. safe L now n) w"
  unfolding schedule_reboot_def
  using assms(1) wp_do_reboot[OF assms, of E] by (auto split: option.splits intro: safe_sup wp_mono)

lemma keeps_evaluateReboot: "keeps (safe L now n) (evaluateReboot E critical m now sts)"
proof (rule keepsI)
  fix w assume w: "safe L now n w"
  let ?p = "policy (sup w)" and ?h = "durable (sup w)"
  obtain h b r where a: "RebootAllowed ?p now ?h = (h, b, r)" by (metis prod_cases3)
  let ?w = "w\<lparr>sup := (sup w)\<lparr>durable := h\<rparr>\<rparr>"
  have mem: "history_ok L now (trace w) h \<and> (b \<longrightarrow> int (length (filter (\<lambda>t. now - day \<le> t) (reboots h))) < lim_reboots L)" if "alive w"
  proof -
    have ok: "attempts_ok ?h" "durations_ok ?p" "MaxRebootsPer24h ?p \<le> lim_reboots L" and h: "within L ?p" "history_ok L now (trace w) ?h"
      using w that by (simp_all add: safe_def memory_ok_def history_ok_def within_def)
    from RebootAllowed_budget[OF ok(1), of ?p now] a have "h = Prune now ?p ?h"
      and "b \<longrightarrow> int (length (filter (\<lambda>t. now - day \<le> t) (reboots ?h))) < MaxRebootsPer24h ?p"
      by auto
    with ok(3) h show ?thesis using history_ok_Prune[OF h(2,1)] reboot_log.prune_entries[OF ok(1,2)] by auto
  qed
  have s: "safe L now n ?w"
    using w mem by (cases "alive w") (auto simp: safe_def stored_ok_def memory_ok_def on_disk_def)
  have "wp (schedule_reboot E now) (\<lambda>_. safe L now n) ?w" if b
    using that mem by (intro wp_schedule_reboot[OF s]) simp
  then show "wp (evaluateReboot E critical m now sts) (\<lambda>_. safe L now n) w"
    unfolding evaluateReboot_def using a w s keepsD[OF keeps_clear_pending] by (auto intro: wp_mono)
qed

lemma keeps_Save: "keeps (safe L now n) (do { s \<leftarrow> get_sup; Save E (durable s) })"
  by (rule keepsI, simp, rule wp_Save) (auto simp: safe_def memory_ok_def)

lemma keeps_publish_tick: "keeps (safe L now n) (publish_tick E snap source code pe re changed sts)"
proof (rule keepsI)
  fix w assume w: "safe L now n w"
  have save: "wp (if changed then Save E (durable (sup w)) else State_Monad.return None) (\<lambda>_. safe L now n) w"
    using w keepsD[OF keeps_Save w, of E] by simp
  have rest: "keeps (safe L now n) (do {
      written \<leftarrow> Status_Write E st;
      (case written of
         Some e \<Rightarrow> State_Monad.return (d, Some e)
       | None \<Rightarrow> do { modify_sup (\<lambda>s. s\<lparr>lastStatusWritten := True\<rparr>); State_Monad.return (d, e') }) })" for st d e'
    by (intro keeps_bind keeps_safe_calls keeps_option keeps_return keeps_safe_modify) simp
  show "wp (publish_tick E snap source code pe re changed sts) (\<lambda>_. safe L now n) w"
    unfolding publish_tick_def
    by (simp only: wp_bind wp_wd(3), rule wp_mono[OF save], rule keepsD[OF keeps_option[OF rest keeps_return]])
qed

lemma fixed_valid: "spec \<in> set fixedComponentSpecs \<Longrightarrow> validComponentID (ID spec)"
  by (auto simp: validComponentID_def list_ex_iff)

lemma keeps_tick_observed: "keeps (safe L now n) (tick_observed E now snap source code pe)"
  unfolding tick_observed_def Let_def
  by (intro keeps_bind keeps_evaluate_all keeps_prod keeps_if keeps_clear_pending keeps_return keeps_evaluateReboot keeps_publish_tick)
    (simp add: fixed_valid)

section \<open>Between cycles\<close>

definition sane_clock :: "wd_env \<Rightarrow> bool" where
  "sane_clock E \<longleftrightarrow> (\<forall>m n. m \<le> n \<longrightarrow> w_now E m \<le> w_now E n) \<and> (\<forall>n. rfc3339_range (w_now E n))"

definition policies_within :: "limits \<Rightarrow> wd_env \<Rightarrow> bool" where
  "policies_within L E \<longleftrightarrow> within L DefaultPolicy \<and> (\<forall>n p. w_policy E n = Inr p \<longrightarrow> within L p)"

definition rested :: "limits \<Rightarrow> wd_env \<Rightarrow> wd_world \<Rightarrow> bool" where
  "rested L E w \<longleftrightarrow> (\<exists>t. (\<forall>n\<ge>wcalls w. t \<le> w_now E n) \<and> stored_ok L t w \<and> (alive w \<longrightarrow> loaded (sup w) \<longrightarrow> memory_ok L t w))"

lemma history_ok_later: "history_ok L t tr h \<Longrightarrow> t \<le> now \<Longrightarrow> history_ok L now tr h"
  by (auto simp: history_ok_def intro: covers_later)

lemma stored_ok_later: "stored_ok L t w \<Longrightarrow> t \<le> now \<Longrightarrow> stored_ok L now w"
  by (auto simp: stored_ok_def logs_ok_def intro: history_ok_later log_ok_later)

lemma memory_ok_later: "memory_ok L t w \<Longrightarrow> t \<le> now \<Longrightarrow> memory_ok L now w"
  by (auto simp: memory_ok_def intro: history_ok_later)

lemma safe_rested:
  assumes "safe L (w_now E k) k w" "sane_clock E"
  shows "rested L E w"
  unfolding rested_def
  using assms by (intro exI[of _ "w_now E k"]) (auto simp: safe_def sane_clock_def)

lemma within_reboot [simp]: "within L (p\<lparr>HostRebootEnabled := b\<rparr>) = within L p"
  by (simp add: within_def durations_ok_def RestartWindow_def)

text \<open>\<open>initialize\<close> ends loaded, or with an error, in a state between cycles.\<close>

lemma wp_initialize:
  assumes "rested L E w" "sane_clock E" "policies_within L E"
  shows "wp (initialize E) (\<lambda>r w'. rested L E w' \<and> (r = None \<longrightarrow> loaded (sup w'))) w"
proof -
  obtain t where t: "\<forall>n\<ge>wcalls w. t \<le> w_now E n" and st: "stored_ok L t w" and mem: "alive w \<longrightarrow> loaded (sup w) \<longrightarrow> memory_ok L t w"
    using assms(1) by (auto simp: rested_def)
  have "logs_ok L t (trace w)" "history_ok L t (trace w) (case disk w of None \<Rightarrow> NewDurableHistory | Some h \<Rightarrow> h)"
    using st by (simp_all add: stored_ok_def on_disk_def)
  then show ?thesis
    using assms(1,3) t mem
    by (auto simp: initialize_def Load_def rested_def stored_ok_def on_disk_def memory_ok_def policies_within_def
        split: option.splits sum.splits intro!: exI[of _ t])
qed

lemma rested_sup: "rested L E w \<Longrightarrow> same_attempts s' (sup w) \<Longrightarrow> rested L E (w\<lparr>sup := s'\<rparr>)"
  using history_ok_frame[of "durable s'" "durable (sup w)"]
  by (simp add: rested_def stored_ok_def memory_ok_def on_disk_def same_attempts_def)

lemma rested_safe:
  assumes "rested L E w" "loaded (sup w)" "sane_clock E"
  shows "safe L (w_now E (wcalls w)) (wcalls w)
     (if \<not> alive w \<or> w_dies E (wcalls w) then w\<lparr>alive := False\<rparr> else w\<lparr>wcalls := Suc (wcalls w)\<rparr>)"
proof -
  obtain t where t: "t \<le> w_now E (wcalls w)" "stored_ok L t w" "alive w \<longrightarrow> memory_ok L t w"
    using assms(1,2) by (auto simp: rested_def)
  then have "stored_ok L (w_now E (wcalls w)) w" "alive w \<longrightarrow> memory_ok L (w_now E (wcalls w)) w"
    using stored_ok_later memory_ok_later by blast+
  then show ?thesis
    using assms(2,3) by (simp add: safe_def stored_ok_def memory_ok_def on_disk_def sane_clock_def)
qed

lemma safe_policy: "safe L now n w \<Longrightarrow> within L p \<Longrightarrow> safe L now n (w\<lparr>sup := (sup w)\<lparr>policy := p\<rparr>\<rparr>)"
  by (simp add: safe_def stored_ok_def memory_ok_def on_disk_def)

lemma keeps_prune: "keeps (safe L now n) (modify_sup (\<lambda>s. s\<lparr>durable := Prune now (policy s) (durable s)\<rparr>))"
  by (rule keepsI) (simp add: safe_def stored_ok_def memory_ok_def on_disk_def history_ok_Prune)

lemma wp_tick_loaded:
  assumes "rested L E w" "loaded (sup w)" "sane_clock E" "policies_within L E"
  shows "wp (tick_loaded E) (\<lambda>_. rested L E) w"
proof -
  let ?now = "w_now E (wcalls w)" and ?n = "wcalls w"
  have get: "wp (Policies_Get E) (\<lambda>r w'. safe L ?now ?n w' \<and> (\<forall>p. r = Inr p \<longrightarrow> within L p)) w'" if "safe L ?now ?n w'" for w'
    using that assms(4) by (auto simp: Policies_Get_def policies_within_def)
  have adopt: "wp (case got of Inl _ \<Rightarrow> State_Monad.return () | Inr p \<Rightarrow> modify_sup (\<lambda>s. s\<lparr>policy := p\<rparr>)) (\<lambda>_. safe L ?now ?n) w'"
    if "safe L ?now ?n w'" "\<forall>p. got = Inr p \<longrightarrow> within L p" for got w'
    using that safe_policy by (cases got) auto
  have "wp (tick_loaded E) (\<lambda>_. safe L ?now ?n) w"
    unfolding tick_loaded_def Let_def wp_bind wp_wd(2)
    by (rule wp_mono[OF get[OF rested_safe[OF assms(1-3)]]], rule wp_mono[OF adopt], simp, simp,
        rule wp_mono[OF keepsD[OF keeps_prune]], assumption, rule wp_mono[OF keepsD[OF keeps_safe_sup]], assumption,
        rule wp_mono[OF keepsD[OF keeps_safe_calls(2)]], assumption, rule keepsD[OF keeps_tick_observed])
  then show ?thesis by (rule wp_mono) (rule safe_rested[OF _ assms(3)])
qed

lemma rested_step:
  assumes "rested L E w" "sane_clock E" "policies_within L E"
  shows "rested L E (wd_step E w ev)"
proof (cases ev)
  case Cycle
  have "rested L E (w\<lparr>sup := (sup w)\<lparr>lastStatusWritten := False\<rparr>\<rparr>)" using assms(1) by (rule rested_sup) simp
  from wp_initialize[OF this assms(2,3)] have "wp (Tick E) (\<lambda>_. rested L E) w"
    unfolding Tick_def by (auto intro!: wp_tick_loaded assms(2,3) elim!: wp_mono split: option.split)
  then show ?thesis using Cycle by (simp add: wd_step_def wp_run)
next
  case Respawn
  obtain t where "\<forall>n\<ge>wcalls w. t \<le> w_now E n" "stored_ok L t w" using assms(1) by (auto simp: rested_def)
  then show ?thesis
    unfolding rested_def using Respawn
    by (intro exI[of _ t]) (simp add: wd_step_def next_process_def stored_ok_def on_disk_def unborn_supervisor_def)
qed

text \<open>A fresh process on a file whose attempts are in order and in the past.\<close>

definition first_world :: "durable_history option \<Rightarrow> wd_world" where
  "first_world d = \<lparr>sup = unborn_supervisor, disk = d, alive = True, trace = [], wcalls = 0\<rparr>"

definition file_ok :: "wd_env \<Rightarrow> durable_history option \<Rightarrow> bool" where
  "file_ok E d \<longleftrightarrow> (case d of None \<Rightarrow> True
     | Some h \<Rightarrow> attempts_ok h \<and> (\<forall>i. sorted (restarts h i) \<and> (\<forall>t\<in>set (restarts h i). t \<le> w_now E 0))
         \<and> sorted (reboots h) \<and> (\<forall>t\<in>set (reboots h). t \<le> w_now E 0))"

lemma rested_first: "sane_clock E \<Longrightarrow> file_ok E d \<Longrightarrow> rested L E (first_world d)"
  by (auto simp: rested_def first_world_def stored_ok_def logs_ok_def history_ok_def on_disk_def covers_def file_ok_def
      unborn_supervisor_def NewDurableHistory_def attempts_ok_def restarts_def attempts_of_def reboots_def sane_clock_def
      split: option.splits intro!: exI[of _ "w_now E 0"])

interpretation watchdog: operation_system "\<lambda>w. rested L E w" "\<lambda>_ _. sane_clock E \<and> policies_within L E" "wd_step E" for L E
  by unfold_locales (simp add: rested_step)

lemma watchdog_legal: "sane_clock E \<Longrightarrow> policies_within L E \<Longrightarrow> watchdog.legal_run E L w evs"
  by (induction evs arbitrary: w) (unfold watchdog.legal_run.simps, blast+)

lemma rested_run:
  assumes "sane_clock E" "policies_within L E" "file_ok E d"
  shows "rested L E (run_ops (wd_step E) (first_world d) evs)"
  by (rule watchdog.run_inv[OF rested_first watchdog_legal]) (use assms in auto)

section \<open>Properties of the life of the watchdog\<close>


text \<open>
  Whenever the watchdog restarts a component or reboots the
  host, the history file already holds that attempt, so that a crash or a power loss during the action consumes the budget.
\<close>

theorem attempts_are_persisted_first:
  assumes "sane_clock E" "policies_within L E" "file_ok E d"
  shows "list_all on_file (trace (run_ops (wd_step E) (first_world d) evs))"
  using rested_run[OF assms, of evs] by (auto simp: rested_def stored_ok_def logs_ok_def list_all_iff)

end
