(* ===== verification/Watchdog_Recovery.thy ===== *)
theory Watchdog_Recovery
  imports Watchdog_Theorems
begin

text \<open>
  When and how the watchdog acts: what precedes a restart or a reboot, what never causes one, and what a component
  that stays broken gets.
\<close>

section \<open>Guards of the actions\<close>

definition ends_with :: "wd_act list \<Rightarrow> wd_act list \<Rightarrow> bool" where
  "ends_with suffix xs \<longleftrightarrow> length suffix \<le> length xs \<and> drop (length xs - length suffix) xs = suffix"

definition path_block :: "component_spec \<Rightarrow> wd_act list" where
  "path_block spec = (if RestartWithoutPathBlock spec then [] else [DidFailClosed True])"

text \<open>
  A restart is of a restartable component and comes right after its attempt was saved, and before that the path
  was closed unless the component is one that does not carry traffic; a reboot comes right after the attempt was saved and
  the path was closed.
\<close>

fun guard_of :: "wd_act list \<Rightarrow> wd_act \<Rightarrow> bool" where
  "guard_of pre (DidRestart i t d) \<longleftrightarrow>
     list_ex (\<lambda>spec. ID spec = i \<and> Restartable spec \<and> ends_with (path_block spec @ [DidSave True]) pre) fixedComponentSpecs"
| "guard_of pre (DidReboot t d) \<longleftrightarrow> ends_with [DidSave True, DidFailClosed True] pre"
| "guard_of pre _ \<longleftrightarrow> True"

definition guarded :: "wd_act list \<Rightarrow> bool" where
  "guarded tr \<longleftrightarrow> (\<forall>k<length tr. guard_of (take k tr) (tr ! k))"

lemma guarded_snoc [simp]: "guarded (tr @ [a]) \<longleftrightarrow> guarded tr \<and> guard_of tr a"
  by (auto simp: guarded_def nth_append less_Suc_eq)

lemma guarded_more [simp]:
  "guarded (tr @ [a, b]) \<longleftrightarrow> guarded tr \<and> guard_of tr a \<and> guard_of (tr @ [a]) b"
  "guarded (tr @ [a, b, c]) \<longleftrightarrow> guarded tr \<and> guard_of tr a \<and> guard_of (tr @ [a]) b \<and> guard_of (tr @ [a, b]) c"
  using guarded_snoc[of "tr @ [a]" b] guarded_snoc[of "tr @ [a, b]" c] by simp_all

lemma guard_of_other [simp]: "\<not> attempt a \<Longrightarrow> guard_of pre a"
  by (cases a) auto

lemma ends_with_append [simp]: "ends_with suffix (pre @ suffix)" "ends_with [a] (pre @ [a])" "ends_with [a, b] (pre @ [a, b])"
  by (simp_all add: ends_with_def)

abbreviation tr_ok :: "wd_world \<Rightarrow> bool" where "tr_ok w \<equiv> guarded (trace w)"

lemma keeps_guarded_calls [intro]:
  "keeps tr_ok (Policies_Get E)" "keeps tr_ok (Probe_Snapshot E p)" "keeps tr_ok (Probe_Reconcile E i)"
  "keeps tr_ok (Probe_FailClosed E)" "keeps tr_ok (Status_Write E st)" "keeps tr_ok (Load E)" "keeps tr_ok (Save E h)"
  "keeps tr_ok (Now E)" "keeps tr_ok get_sup" "keeps tr_ok (modify_sup g)"
  unfolding Policies_Get_def Probe_Snapshot_def Probe_Reconcile_def Probe_FailClosed_def Status_Write_def Load_def Save_def
  by (rule keepsI, simp split: save_fault.splits sum.splits)+

lemma keeps_guarded_settle [intro]: "keeps tr_ok (settle st changed)"
  unfolding settle_def by (intro keeps_bind keeps_guarded_calls keeps_return)

lemma wp_guarded_restart:
  assumes "spec \<in> set fixedComponentSpecs" "Restartable spec" "tr_ok w" "alive w \<Longrightarrow> ends_with (path_block spec) (trace w)"
  shows "wp (do_restart E spec st now) (\<lambda>_. tr_ok) w"
proof (cases "alive w")
  case False
  then show ?thesis using assms(3) by (simp add: do_restart_def Save_def settle_def)
next
  case True
  have "ends_with (path_block spec @ [DidSave True]) (trace w @ [DidSave True])"
    using assms(4)[OF True] by (auto simp: ends_with_def Suc_diff_le)
  then have "guard_of (trace w @ [DidSave True]) (DidRestart (ID spec) now d)" for d
    using assms(1,2) by (auto simp: list_ex_iff)
  then show ?thesis
    using assms(3) by (auto simp: do_restart_def Save_def settle_def Probe_Restart_def split: save_fault.splits sum.splits)
qed

lemma keeps_guarded_try:
  assumes "spec \<in> set fixedComponentSpecs" "Restartable spec"
  shows "keeps tr_ok (try_restart E spec st changed now)"
proof (rule keepsI)
  fix w assume w: "tr_ok w"
  have close: "wp (Probe_FailClosed E) (\<lambda>r w'. tr_ok w' \<and> (r = None \<longrightarrow> alive w' \<longrightarrow> ends_with [DidFailClosed True] (trace w'))) w'"
    if "tr_ok w'" for w'
    using that by (simp add: Probe_FailClosed_def)
  show "wp (try_restart E spec st changed now) (\<lambda>_. tr_ok) w"
    unfolding try_restart_def using w assms keepsD[OF keeps_guarded_settle]
    by (auto simp: path_block_def ends_with_def split: prod.split option.split
        intro!: wp_guarded_restart wp_mono[OF close])
qed

lemma keeps_guarded_component:
  assumes "spec \<in> set fixedComponentSpecs"
  shows "keeps tr_ok (evaluateComponent E spec ob m now)"
  unfolding evaluateComponent_def recover_component_def Let_def
  by (intro keeps_bind keeps_prod keeps_if keeps_guarded_calls keeps_guarded_settle keeps_return keeps_guarded_try[OF assms]) simp

lemma keeps_guarded_all:
  "set specs \<subseteq> set fixedComponentSpecs \<Longrightarrow> keeps tr_ok (evaluate_all E snap now specs)"
  by (induction specs) (auto intro!: keeps_bind keeps_guarded_component keeps_prod simp: Let_def)

lemma keeps_guarded_reboot: "keeps tr_ok (do_reboot E now)"
  by (rule keepsI)
    (auto simp: do_reboot_def Save_def Probe_FailClosed_def Probe_Reboot_def ends_with_def split: save_fault.splits sum.splits option.splits)

lemma keeps_guarded_pending [intro]: "keeps tr_ok clear_pending"
  unfolding clear_pending_def by (intro keeps_bind keeps_if keeps_guarded_calls keeps_return)

lemma keeps_guarded_tick: "keeps tr_ok (Tick E)"
  unfolding Tick_def initialize_def tick_loaded_def tick_observed_def publish_tick_def evaluateReboot_def schedule_reboot_def Let_def
  by (intro keeps_bind keeps_prod keeps_if keeps_option keeps_sum keeps_guarded_calls keeps_return keeps_guarded_all
      keeps_guarded_pending keeps_guarded_reboot) simp_all

interpretation guarded_watchdog: operation_system tr_ok "\<lambda>_ _. True" "wd_step E" for E
  by unfold_locales (use keepsD[OF keeps_guarded_tick] in \<open>auto simp: wd_step_def wp_run next_process_def split: wd_event.split\<close>)

lemma guarded_legal: "guarded_watchdog.legal_run E w evs"
  by (induction evs arbitrary: w) (unfold guarded_watchdog.legal_run.simps, blast+)


section \<open>What never causes an action\<close>

fun calm :: "wd_act \<Rightarrow> bool" where
  "calm (DidSave b) = True"
| "calm (DidWrite st b) = True"
| "calm _ = False"

text \<open>The observation of the component gives no reason to recover it.\<close>

definition unprovoked :: "probe_snapshot \<Rightarrow> supervisor \<Rightarrow> component_spec \<Rightarrow> bool" where
  "unprovoked snap s spec \<longleftrightarrow>
     (let ob = observation_of snap spec in
      \<not> Applicable ob \<or> Healthy ob \<or> ObClassification ob = ClassificationExternal
      \<or> failures (runtime s (ID spec)) + 1 < FailureThreshold (policy s)
      \<or> RecoveryMode (policy s) (ID spec) = RecoveryModeMonitorOnly)"

definition idle :: "probe_snapshot \<Rightarrow> supervisor \<Rightarrow> component_spec \<Rightarrow> bool" where
  "idle snap s spec \<longleftrightarrow> Maintenance snap \<or> \<not> Enabled (policy s) \<or> unprovoked snap s spec"

lemma runtime_steps [simp]:
  "j \<noteq> i \<Longrightarrow> runtime (set_runtime i f s) j = runtime s j" "runtime (clear_critical i s) = runtime s"
  "runtime (mark_critical i now s) = runtime s" "policy (set_runtime i f s) = policy s"
  "policy (clear_critical i s) = policy s" "policy (mark_critical i now s) = policy s"
  "runtime (set_runtime i f s) i = f (runtime s i)"
  by (simp_all add: set_runtime_def clear_critical_def mark_critical_def)

lemma componentStatus_fields [simp]:
  "StState (componentStatus s st) = StState st" "StID (componentStatus s st) = StID st"
  "StState (suppressed r st) = StState st" "StID (suppressed r st) = StID st"
  "RecoverySuppressed (componentStatus s st) = RecoverySuppressed st" "RecoverySuppressed (suppressed r st)"
  by (simp_all add: componentStatus_def suppressed_def Let_def)

lemma classify_idle:
  assumes "idle snap s spec"
    and "classify spec (observation_of snap spec) (Maintenance snap) now s = (s', st, changed, r)"
  shows "\<not> r \<and> policy s' = policy s \<and> (\<forall>j. j \<noteq> ID spec \<longrightarrow> runtime s' j = runtime s j)
     \<and> (\<not> Maintenance snap \<longrightarrow> Enabled (policy s) \<longrightarrow> StState st = ComponentFailed \<longrightarrow> RecoveryMode (policy s) (ID spec) = RecoveryModeMonitorOnly)"
  using assms
  by (auto simp: classify_def idle_def unprovoked_def reset_component_def seen_healthy_def seen_failed_def Let_def new_status_def
      split: if_splits)

lemma idle_frame: "policy s' = policy s \<Longrightarrow> runtime s' (ID spec) = runtime s (ID spec) \<Longrightarrow> idle snap s' spec = idle snap s spec"
  by (simp add: idle_def unprovoked_def)

lemma wp_idle_all:
  assumes "\<forall>spec\<in>set specs. idle snap (sup w) spec" "distinct (map ID specs)"
  shows "wp (evaluate_all E snap now specs) (\<lambda>(sts, critical, changed) w'. trace w' = trace w \<and> policy (sup w') = policy (sup w)
     \<and> (\<not> Maintenance snap \<longrightarrow> Enabled (policy (sup w)) \<longrightarrow> critical = [])) w"
  using assms
proof (induction specs arbitrary: w)
  case (Cons spec specs)
  obtain s' st changed r where c: "classify spec (observation_of snap spec) (Maintenance snap) now (sup w) = (s', st, changed, r)"
    by (metis prod_cases4)
  note e = classify_idle[OF _ c]
  let ?w = "w\<lparr>sup := s'\<rparr>"
  have "\<forall>sp\<in>set specs. idle snap (sup ?w) sp"
  proof
    fix sp assume "sp \<in> set specs"
    then show "idle snap (sup ?w) sp"
      using Cons.prems e idle_frame[of s' "sup w" sp snap] by (auto simp: image_iff)
  qed
  from Cons.IH[OF this] Cons.prems show ?case
    using c e by (auto simp: evaluateComponent_def Let_def elim!: wp_mono)
qed simp

definition calmly :: "wd_act list \<Rightarrow> wd_world \<Rightarrow> bool" where
  "calmly tr w \<longleftrightarrow> (\<exists>new. trace w = tr @ new \<and> list_all calm new)"

lemma calmly_acted [simp]: "calmly tr w \<Longrightarrow> calm a \<Longrightarrow> calmly tr (acted a w)"
  by (auto simp: calmly_def)

lemma calmly_frame [simp]:
  "calmly tr (w\<lparr>sup := s\<rparr>) = calmly tr w" "calmly tr (w\<lparr>alive := b\<rparr>) = calmly tr w"
  "calmly tr (w\<lparr>wcalls := n\<rparr>) = calmly tr w" "calmly tr (w\<lparr>disk := d\<rparr>) = calmly tr w"
  by (simp_all add: calmly_def)

lemma keeps_calmly_calls [intro]:
  "keeps (calmly tr) (Status_Write E st)" "keeps (calmly tr) (Save E h)" "keeps (calmly tr) get_sup" "keeps (calmly tr) (modify_sup g)"
  unfolding Status_Write_def Save_def by (rule keepsI, simp split: save_fault.splits sum.splits)+

lemma keeps_calmly_publish: "keeps (calmly tr) (publish_tick E snap source code pe re changed sts)"
  unfolding publish_tick_def Let_def by (intro keeps_bind keeps_if keeps_option keeps_calmly_calls keeps_return)

lemma wp_clear_pending:
  "wp clear_pending Q w = (if PendingRebootAt (durable (sup w)) \<noteq> []
     then Q True (w\<lparr>sup := (sup w)\<lparr>durable := (durable (sup w))\<lparr>PendingRebootAt := []\<rparr>\<rparr>\<rparr>) else Q False w)"
  by (simp add: clear_pending_def)

lemma wp_no_reboot:
  assumes "critical = [] \<or> m \<or> \<not> Enabled (policy (sup w))"
  shows "wp (evaluateReboot E critical m now sts) (\<lambda>_ w'. trace w' = trace w) w"
  using assms by (simp add: evaluateReboot_def wp_clear_pending)

text \<open>
  Property C29 (no recovery without a local failure). A cycle that observes a maintenance transaction, that runs under
  a disabled policy, or in which every component is inapplicable, healthy, failing for an external reason, still below the
  failure threshold, or monitored only, performs no reconciliation, no fail-closed, no restart and no reboot: it saves
  the history and writes the status.
\<close>

theorem no_recovery_without_local_failure:
  assumes "\<forall>spec\<in>set fixedComponentSpecs. idle snap (sup w) spec"
  shows "calmly (trace w) (snd (run_state (tick_observed E now snap source code pe) w))"
proof -
  have pend: "wp (if b then clear_pending else State_Monad.return False) (\<lambda>_ w'. trace w' = trace w0 \<and> policy (sup w') = policy (sup w0)) w0" for b w0
    by (simp add: wp_clear_pending)
  have publish: "wp (publish_tick E snap source code' pe re changed sts) (\<lambda>_. calmly (trace w)) w'"
    if "trace w' = trace w" for code' re changed sts w'
    using that by (intro keepsD[OF keeps_calmly_publish]) (simp add: calmly_def)
  have rest: "wp (if Maintenance snap then clear_pending else State_Monad.return False)
      (\<lambda>dropped. wp (evaluateReboot E critical (Maintenance snap) now sts)
        (\<lambda>reboot. wp (case reboot of (rebootChanged, rebootErr, sts) \<Rightarrow>
           publish_tick E snap source (f rebootErr) pe rebootErr (changed \<or> dropped \<or> rebootChanged) sts) (\<lambda>_. calmly (trace w)))) w'"
    if w': "trace w' = trace w" "critical = [] \<or> Maintenance snap \<or> \<not> Enabled (policy (sup w'))" for critical sts changed f w'
    by (rule wp_mono[OF pend], rule wp_mono[OF wp_no_reboot]) (use w' in \<open>auto intro!: publish\<close>)
  have "wp (tick_observed E now snap source code pe) (\<lambda>_. calmly (trace w)) w"
    unfolding tick_observed_def Let_def wp_bind
  proof (rule wp_mono[OF wp_idle_all[OF assms fixed_distinct]], goal_cases)
    case (1 r w')
    obtain sts critical changed where r: "r = (sts, critical, changed)" by (cases r)
    show ?case unfolding r prod.case wp_bind by (rule rest) (use 1 r in auto)
  qed
  then show ?thesis by (simp add: wp_run)
qed

section \<open>What a broken component gets\<close>

text \<open>The component failed often enough, and the policy lets the watchdog restart it.\<close>

definition due :: "supervisor \<Rightarrow> component_spec \<Rightarrow> observation \<Rightarrow> bool" where
  "due s spec ob \<longleftrightarrow> Applicable ob \<and> \<not> Healthy ob \<and> ObClassification ob \<noteq> ClassificationExternal
     \<and> FailureThreshold (policy s) \<le> failures (runtime s (ID spec)) + 1 \<and> Enabled (policy s)
     \<and> RecoveryMode (policy s) (ID spec) = RecoveryModeRestart \<and> Restartable spec \<and> ComponentRestartEnabled (policy s)"

definition wants_reconcile :: "supervisor \<Rightarrow> component_spec \<Rightarrow> bool" where
  "wants_reconcile s spec \<longleftrightarrow> ReconcileEnabled (policy s) \<and> Reconcileable spec \<and> \<not> reconciled (runtime s (ID spec))"

text \<open>No crash, and the calls of the next \<open>k\<close> steps succeed.\<close>

definition calls_succeed :: "wd_env \<Rightarrow> nat \<Rightarrow> nat \<Rightarrow> bool" where
  "calls_succeed E n k \<longleftrightarrow> (\<forall>j\<in>{n..<n + k}. \<not> w_dies E j \<and> w_failclosed E j = None \<and> w_save E j = Saved)"

lemma classify_due:
  assumes "due s spec ob"
  obtains s' st where "classify spec ob False now s = (s', st, \<not> is_critical (ID spec) s, True)" "same_attempts s' s"
    "reconciled (runtime s' (ID spec)) = reconciled (runtime s (ID spec))" "durable s' = durable (mark_critical (ID spec) now s)"
proof -
  have "\<exists>s' st. classify spec ob False now s = (s', st, \<not> is_critical (ID spec) s, True) \<and> same_attempts s' s
      \<and> reconciled (runtime s' (ID spec)) = reconciled (runtime s (ID spec)) \<and> durable s' = durable (mark_critical (ID spec) now s)"
    using assms by (simp add: due_def classify_def seen_failed_def Let_def not_less)
      (simp add: set_runtime_def mark_critical_def is_critical_def)
  then show ?thesis using that by blast
qed

lemma normalize_mark: "normalize (durable s) = Inr () \<Longrightarrow> validComponentID i \<Longrightarrow> rfc3339_range now \<Longrightarrow> normalize (durable (mark_critical i now s)) = Inr ()"
  using set_update_subset
  by (fastforce simp: normalize_Inr mark_critical_def critical_entry_ok_def bad_stamp_def parse_format_time)

lemma normalize_saved_restart:
  assumes "normalize h = Inr ()" "attempts_ok h" "durations_ok p" "MaxRestartsPerComponent p \<le> 20" "validComponentID i"
    and "rfc3339_range now"
    and "budget (RestartWindow p) (MaxRestartsPerComponent p) c now (restarts h i)"
  shows "normalize (RecordRestart i now (Prune now p h)) = Inr ()"
proof (rule normalize_RecordRestart[OF normalize_Prune[OF assms(1,2)] assms(5) _ assms(6)])
  have "length (attempts_of (Prune now p h) i) = length (restarts (Prune now p h) i)"
    using length_stamps[OF attempts_ok_of[OF Prune_ok(1)[OF assms(2)]]] by (simp add: restarts_def)
  also have "\<dots> = length (filter (\<lambda>t. now - RestartWindow p \<le> t) (restarts h i))"
    by (simp add: restart_log.prune_entries[OF assms(2,3)])
  finally show "length (attempts_of (Prune now p h) i) < 1000"
    using assms(4,7) by (simp add: budget_def Let_def)
qed

text \<open>
  Property C30 (a broken component is recovered). When a restartable component has failed as many times in a row as the
  policy asks, outside maintenance, the cycle first asks for a reconciliation once; when that has been done it restarts the
  component if the budget allows, after closing the path and saving the attempt, and records the attempt; and it does
  nothing when the budget is used up.
\<close>

theorem broken_component_is_recovered:
  assumes d: "due (sup w) spec ob" and v: "validComponentID (ID spec)" and live: "alive w" "calls_succeed E (wcalls w) 3"
    and h: "attempts_ok (durable (sup w))" "normalize (durable (sup w)) = Inr ()" and p: "Validate (policy (sup w)) = Inr ()"
    and now: "rfc3339_range now"
  shows "let w' = snd (run_state (evaluateComponent E spec ob False now) w); p = policy (sup w); i = ID spec in
    if wants_reconcile (sup w) spec
    then trace w' = trace w @ [DidReconcile i] \<and> \<not> wants_reconcile (sup w') spec
    else if budget (RestartWindow p) (MaxRestartsPerComponent p) (seconds_dur (RestartCooldownSeconds p)) now (restarts (durable (sup w)) i)
    then trace w' = trace w @ path_block spec @ [DidSave True, DidRestart i now (Some (durable (sup w')))]
       \<and> now \<in> set (restarts (durable (sup w')) i)
    else trace w' = trace w"
proof -
  let ?s = "sup w" and ?p = "policy (sup w)" and ?i = "ID spec"
  obtain s' st where c: "classify spec ob False now ?s = (s', st, \<not> is_critical ?i ?s, True)" and same: "same_attempts s' ?s"
    and rec: "reconciled (runtime s' ?i) = reconciled (runtime ?s ?i)" and dur: "durable s' = durable (mark_critical ?i now ?s)"
    using classify_due[OF d] .
  have p': "policy s' = ?p" and ok: "attempts_ok (durable s')" and rs: "restarts (durable s') ?i = restarts (durable ?s) ?i"
    using same h(1) by (simp_all add: same_attempts_def attempts_ok_def restarts_def attempts_of_def)
  have b: "durations_ok ?p" "MaxRestartsPerComponent ?p \<le> 20"
    using p by (simp_all add: Validate_Inr in_bounds_def durations_ok_def)
  let ?B = "budget (RestartWindow ?p) (MaxRestartsPerComponent ?p) (seconds_dur (RestartCooldownSeconds ?p)) now (restarts (durable ?s) ?i)"
  let ?h = "Prune now ?p (durable s')"
  have "RestartAllowed ?i ?p now (durable s') = (?h, ?B, snd (snd (RestartAllowed ?i ?p now (durable s'))))"
    using RestartAllowed_budget[OF ok b(1) v, of now] rs by (simp add: prod_eq_iff)
  then obtain reason where a: "RestartAllowed ?i ?p now (durable s') = (?h, ?B, reason)" by blast
  have saves: "normalize (RecordRestart ?i now ?h) = Inr ()" if ?B
    using normalize_saved_restart[OF _ ok b v now] that rs normalize_mark[OF h(2) v now] dur by simp
  have "now \<in> set (restarts (RecordRestart ?i now ?h) ?i)"
    using restart_log.enter_mem[OF Prune_ok(1)[OF ok] now] .
  moreover have "\<not> w_dies E (wcalls w)" "\<not> w_dies E (Suc (wcalls w))" "\<not> w_dies E (Suc (Suc (wcalls w)))"
      "w_failclosed E (wcalls w) = None" "w_save E (wcalls w) = Saved" "w_save E (Suc (wcalls w)) = Saved"
    using live(2) by (simp_all add: calls_succeed_def)
  ultimately have "wp (evaluateComponent E spec ob False now) (\<lambda>_ w'.
      if wants_reconcile ?s spec then trace w' = trace w @ [DidReconcile ?i] \<and> \<not> wants_reconcile (sup w') spec
      else if ?B then trace w' = trace w @ path_block spec @ [DidSave True, DidRestart ?i now (Some (durable (sup w')))]
         \<and> now \<in> set (restarts (durable (sup w')) ?i)
      else trace w' = trace w) w"
    using c a p' rec live(1) saves d
    by (auto simp: evaluateComponent_def recover_component_def try_restart_def do_restart_def Probe_Reconcile_def
        Probe_FailClosed_def Save_def Probe_Restart_def settle_def wants_reconcile_def path_block_def due_def
        recovery_action_def set_runtime_def Let_def)
  then show ?thesis by (simp add: wp_run Let_def)
qed

end
