(* ===== verification/Watchdog_Status.thy ===== *)
theory Watchdog_Status
  imports Watchdog_Supervisor
begin

text \<open>
  What others read of the watchdog and it of others: \<open>status.go\<close> (freshness of the published status),
  \<open>heartbeat.go\<close> (the heartbeat of the control process) and the pause between cycles of \<open>supervisor.go\<close>.
\<close>

section \<open>The published status\<close>

definition ValidateFresh :: "wd_status \<Rightarrow> instant \<Rightarrow> duration \<Rightarrow> unit result" where
  "ValidateFresh st now maximumAge =
     (if maximumAge \<le> 0 then Inl (ErrMsg ''positive watchdog status age is required'')
      else (case (parse_time (SupervisorStartedAt st), parse_time (StatusObservedAt st)) of
          (Some started, Some observed) \<Rightarrow>
            if observed < started then Inl (ErrMsg ''watchdog status timestamps are invalid'')
            else let age = time_sub now observed
              in if age < - 5 * second \<or> age > maximumAge then Inl (ErrMsg ''watchdog status is stale'') else Inr ()
        | _ \<Rightarrow> Inl (ErrMsg ''watchdog status timestamps are invalid'')))"

definition MaximumStatusAge :: "wd_policy \<Rightarrow> duration" where
  "MaximumStatusAge p =
     (let p = (case Validate p of Inl _ \<Rightarrow> DefaultPolicy | Inr _ \<Rightarrow> p)
      in wrap64 (wrap64 (2 * CheckInterval p) + minute))"

text \<open>The rank of a component in the fixed order; an unknown id reads as zero from the Go map.\<close>

fun rank_of :: "nat \<Rightarrow> component_spec list \<Rightarrow> string \<Rightarrow> nat" where
  "rank_of k [] i = 0"
| "rank_of k (spec # specs) i = (if ID spec = i then k else rank_of (Suc k) specs i)"

definition sortComponentStatuses :: "component_status list \<Rightarrow> component_status list" where
  "sortComponentStatuses items =
     sort_stable (\<lambda>l r. rank_of 0 fixedComponentSpecs (StID l) < rank_of 0 fixedComponentSpecs (StID r)) items"

section \<open>The heartbeat of the control process\<close>

definition fixedWorkerIDs :: "string list" where
  "fixedWorkerIDs = [''subscription-refresh'', ''data-plane-reconcile'', ''modem-reconcile'', ''ethernet-reconcile'',
     ''path-health'', ''direct-health'', ''logging-sync'', ''database-backup'', ''retention'', ''traffic-accounting'',
     ''software-update'', ''management-fabric-runtime'']"

record worker_progress =
  LastProgressAt :: string
  MaximumSilenceSeconds :: int
  Critical :: bool

record control_heartbeat =
  HeartbeatSchemaVersion :: int
  PID :: int
  ProcessStartedAt :: string
  WrittenAt :: string
  DatabaseOK :: bool
  WorkersOK :: bool
  APIServing :: bool
  ReconcileLastAt :: string
  Workers :: "(string \<times> worker_progress) list"

definition worker_error :: "instant \<Rightarrow> instant \<Rightarrow> string \<times> worker_progress \<Rightarrow> go_error option" where
  "worker_error started written = (\<lambda>(i, progress).
     if i \<notin> set fixedWorkerIDs \<or> MaximumSilenceSeconds progress < 5 \<or> MaximumSilenceSeconds progress > 172800
     then Some (ErrMsg ''control worker heartbeat contains an invalid worker'')
     else (case parse_time (LastProgressAt progress) of
         None \<Rightarrow> Some (ErrMsg ''control worker progress timestamp is invalid'')
       | Some l \<Rightarrow> if l < started \<or> l > written + 5 * second
           then Some (ErrMsg ''control worker progress timestamp is invalid'') else None))"

definition reconcile_stamp_bad :: "instant \<Rightarrow> instant \<Rightarrow> string \<Rightarrow> bool" where
  "reconcile_stamp_bad started written s \<longleftrightarrow> s \<noteq> []
     \<and> (case parse_time s of None \<Rightarrow> True | Some t \<Rightarrow> t < started \<or> t > written + 5 * second)"

definition ValidateHeartbeat :: "control_heartbeat \<Rightarrow> unit result" where
  "ValidateHeartbeat hb =
     (if HeartbeatSchemaVersion hb \<noteq> 2 \<or> PID hb \<le> 0 then Inl (ErrMsg ''control heartbeat identity is invalid'')
      else (case parse_time (ProcessStartedAt hb) of
          None \<Rightarrow> Inl (ErrMsg ''control process start timestamp is invalid'')
        | Some started \<Rightarrow>
          (case parse_time (WrittenAt hb) of
             None \<Rightarrow> Inl (ErrMsg ''control heartbeat timestamp is invalid'')
           | Some written \<Rightarrow>
             if written < started then Inl (ErrMsg ''control heartbeat timestamp is invalid'')
             else if reconcile_stamp_bad started written (ReconcileLastAt hb)
             then Inl (ErrMsg ''control reconciliation timestamp is invalid'')
             else if Workers hb = [] \<or> length (Workers hb) > length fixedWorkerIDs
             then Inl (ErrMsg ''control worker heartbeat set is invalid'')
             else (case List.map_filter (worker_error started written) (Workers hb) of
                 e # _ \<Rightarrow> Inl e
               | [] \<Rightarrow> Inr ()))))"

text \<open>\<open>HeartbeatFile.Read\<close> from the decoded payload on (\<open>None\<close>: the payload did not decode).\<close>

definition ReadHeartbeat :: "instant \<Rightarrow> duration \<Rightarrow> control_heartbeat option \<Rightarrow> control_heartbeat result" where
  "ReadHeartbeat now maximumAge payload =
     (case payload of
        None \<Rightarrow> Inl (ErrMsg ''control heartbeat payload is invalid'')
      | Some hb \<Rightarrow>
        (case ValidateHeartbeat hb of
           Inl _ \<Rightarrow> Inl (ErrMsg ''control heartbeat payload is invalid'')
         | Inr _ \<Rightarrow>
           let written = parsed_or_zero (WrittenAt hb)
           in if maximumAge \<le> 0 \<or> time_sub now written < - 5 * second \<or> time_sub now written > maximumAge
              then Inl (ErrMsg ''control heartbeat is stale'') else Inr hb))"

section \<open>Bounds\<close>

lemma time_sub_window:
  assumes "age < max_int64"
  shows "\<not> (time_sub now t < - 5 * second \<or> time_sub now t > age) \<longleftrightarrow> t - 5 * second \<le> now \<and> now \<le> t + age"
  using assms by (auto simp: time_sub_def int64_defs second_def)

lemma MaximumStatusAge_valid:
  assumes "Validate p = Inr ()"
  shows "MaximumStatusAge p = 2 * CheckInterval p + minute" "5 * second \<le> CheckInterval p" "CheckInterval p \<le> 300 * second"
proof -
  have "5 \<le> CheckIntervalSeconds p" "CheckIntervalSeconds p \<le> 300" using assms by (simp_all add: Validate_Inr in_bounds_def)
  then show b: "5 * second \<le> CheckInterval p" "CheckInterval p \<le> 300 * second" by (simp_all add: CheckInterval_def second_def)
  then show "MaximumStatusAge p = 2 * CheckInterval p + minute"
    using assms by (simp add: MaximumStatusAge_def minute_def second_def int64_defs)
qed

lemma MaximumStatusAge_bounds: "70 * second \<le> MaximumStatusAge p \<and> MaximumStatusAge p \<le> 660 * second"
proof -
  have "\<exists>q. Validate q = Inr () \<and> MaximumStatusAge p = MaximumStatusAge q"
    using DefaultPolicy_valid by (cases "Validate p") (auto simp: MaximumStatusAge_def)
  then obtain q where q: "Validate q = Inr ()" and eq: "MaximumStatusAge p = MaximumStatusAge q" by blast
  show ?thesis unfolding eq using MaximumStatusAge_valid[OF q] by (simp add: minute_def second_def)
qed

lemma jitter_bounds:
  assumes "5 * second \<le> d" "d \<le> 300 * second" "0 \<le> r" "r \<le> 2 * (d div 10)"
  shows "jitterInterval d r = d - d div 10 + r"
proof -
  have d: "5000000000 \<le> d" "d \<le> 300000000000" using assms(1,2) by (simp_all add: second_def)
  then have "0 < d div 10" "d div 10 * 10 \<le> d" by simp_all
  moreover from this d assms(3,4) have "is_int64 (d - d div 10)" "is_int64 (d - d div 10 + r)" by (simp_all add: int64_defs)
  ultimately show ?thesis using d by (simp add: jitterInterval_def Let_def)
qed

text \<open>
  Property C32 (a live watchdog stays fresh, a dead one does not). The pause after a cycle deviates from the check interval
  by at most a tenth; the age up to which a status is accepted exceeds that pause by at least a minute for every valid
  policy, and is 70 to 660 seconds whatever policy is passed; and a status the supervisor publishes is accepted exactly
  from five seconds before its observation until that age.
\<close>

theorem status_is_fresh_exactly_while_alive:
  assumes "Validate p = Inr ()" and "0 \<le> r" "r \<le> 2 * (CheckInterval p div 10)"
    and "rfc3339_range (startedAt s)" "rfc3339_range (ObservedAt snap)" "startedAt s \<le> ObservedAt snap"
  shows "\<bar>jitterInterval (CheckInterval p) r - CheckInterval p\<bar> \<le> CheckInterval p div 10
    \<and> jitterInterval (CheckInterval p) r + minute \<le> MaximumStatusAge p
    \<and> 70 * second \<le> MaximumStatusAge q \<and> MaximumStatusAge q \<le> 660 * second
    \<and> (ValidateFresh (build_status s snap source code sts) now (MaximumStatusAge q) = Inr ()
       \<longleftrightarrow> ObservedAt snap - 5 * second \<le> now \<and> now \<le> ObservedAt snap + MaximumStatusAge q)"
proof -
  note c = MaximumStatusAge_valid[OF assms(1)]
  have j: "jitterInterval (CheckInterval p) r = CheckInterval p - CheckInterval p div 10 + r"
    by (rule jitter_bounds[OF c(2,3) assms(2,3)])
  have b: "70 * second \<le> MaximumStatusAge q" "MaximumStatusAge q \<le> 660 * second"
    using MaximumStatusAge_bounds by simp_all
  have "0 < MaximumStatusAge q" "MaximumStatusAge q < max_int64" using b by (simp_all add: second_def max_int64_def)
  then have "ValidateFresh (build_status s snap source code sts) now (MaximumStatusAge q) = Inr ()
     \<longleftrightarrow> ObservedAt snap - 5 * second \<le> now \<and> now \<le> ObservedAt snap + MaximumStatusAge q"
    using time_sub_window[of "MaximumStatusAge q" now "ObservedAt snap"] assms(4-6)
    by (auto simp: ValidateFresh_def build_status_def Let_def parse_format_time split: if_splits)
  moreover have "CheckInterval p div 10 * 10 \<le> CheckInterval p" by simp
  ultimately show ?thesis using j b c assms(2,3) by simp
qed


text \<open>
  A heartbeat that is read successfully names only known workers, was
  written at most the maximum age ago and at most five seconds in the future, and every worker in it made progress
  during this life of the process and no later than five seconds after the heartbeat was written.
\<close>

theorem accepted_heartbeat_is_recent:
  assumes "ReadHeartbeat now maximumAge payload = Inr hb" "maximumAge < max_int64"
  shows "\<exists>started written. parse_time (ProcessStartedAt hb) = Some started \<and> parse_time (WrittenAt hb) = Some written
    \<and> started \<le> written \<and> written - 5 * second \<le> now \<and> now \<le> written + maximumAge \<and> Workers hb \<noteq> []
    \<and> (\<forall>(i, progress)\<in>set (Workers hb). i \<in> set fixedWorkerIDs \<and> 5 \<le> MaximumSilenceSeconds progress
        \<and> (\<exists>l. parse_time (LastProgressAt progress) = Some l \<and> started \<le> l \<and> l \<le> written + 5 * second))"
proof -
  have v: "ValidateHeartbeat hb = Inr ()"
    and age: "\<not> (time_sub now (parsed_or_zero (WrittenAt hb)) < - 5 * second \<or> time_sub now (parsed_or_zero (WrittenAt hb)) > maximumAge)"
    using assms(1) by (auto simp: ReadHeartbeat_def Let_def split: option.splits sum.splits if_splits)
  have filter: "List.map_filter f xs = [] \<longleftrightarrow> (\<forall>x\<in>set xs. f x = None)" for f :: "string \<times> worker_progress \<Rightarrow> go_error option" and xs
    by (induction xs) (auto simp: List.map_filter_def)
  obtain started written where p: "parse_time (ProcessStartedAt hb) = Some started" "parse_time (WrittenAt hb) = Some written"
      "started \<le> written" "Workers hb \<noteq> []" and workers: "\<forall>x\<in>set (Workers hb). worker_error started written x = None"
    using v unfolding ValidateHeartbeat_def by (auto simp: filter split: if_splits option.splits list.splits)
  have "written - 5 * second \<le> now" "now \<le> written + maximumAge"
    using age time_sub_window[OF assms(2), of now written] p(2) by (simp_all add: parsed_or_zero_def)
  moreover have "i \<in> set fixedWorkerIDs \<and> 5 \<le> MaximumSilenceSeconds progress
        \<and> (\<exists>l. parse_time (LastProgressAt progress) = Some l \<and> started \<le> l \<and> l \<le> written + 5 * second)"
    if "(i, progress) \<in> set (Workers hb)" for i progress
    using workers that by (fastforce simp: worker_error_def split: if_splits option.splits)
  ultimately show ?thesis using p by blast
qed

section \<open>The overall state\<close>

lemma derive_overall_cases:
  "derive_overall r sts =
     (if \<exists>st\<in>set sts. RecoverySuppressed st \<and> StState st = ComponentFailed then OverallRecoverySuppressed
      else if \<exists>st\<in>set sts. StState st = ComponentFailed then OverallCriticalLocal
      else if r = OverallHealthy \<and> (\<exists>st\<in>set sts. StState st = ComponentDegraded) then OverallDegraded
      else r)"
proof (induction sts arbitrary: r)
  case (Cons st sts)
  show ?case
    by (cases "StState st = ComponentFailed"; cases "RecoverySuppressed st"; cases "StState st = ComponentDegraded";
        cases "r = OverallHealthy"; simp add: Cons)
qed simp

text \<open>
  Whatever the order of the components, the overall state is
  RECOVERY_SUPPRESSED when the recovery of some failed component is suppressed, else CRITICAL_LOCAL when a component failed, else
  DEGRADED when one is degraded, else HEALTHY.
\<close>

theorem deriveOverall_is_worst:
  "deriveOverall sts =
     (if \<exists>st\<in>set sts. RecoverySuppressed st \<and> StState st = ComponentFailed then OverallRecoverySuppressed
      else if \<exists>st\<in>set sts. StState st = ComponentFailed then OverallCriticalLocal
      else if \<exists>st\<in>set sts. StState st = ComponentDegraded then OverallDegraded
      else OverallHealthy)"
  by (simp add: deriveOverall_def derive_overall_cases)

end
