(* ===== verification/Watchdog_Samples.thy ===== *)
theory Watchdog_Samples
  imports Watchdog_Recovery Watchdog_Status Sample_Data
begin

text \<open>Concrete policies, worlds and heartbeats at which the properties of the watchdog apply.\<close>

definition input0 :: update_input where
  "input0 = \<lparr>InEnabled = True, InCheckIntervalSeconds = 15, InFailureThreshold = 3, InSuccessThreshold = 2,
     InReconcileEnabled = True, InComponentRestartEnabled = True, InRestartCooldownSeconds = 30,
     InMaxRestartsPerComponent = 5, InRestartWindowSeconds = 900, InHostRebootEnabled = True,
     InRebootAfterCriticalSeconds = 900, InMaxRebootsPer24h = 1, InRebootGraceSeconds = 60, InWorkerStaleSeconds = 120,
     InWireGuardHandshakeStaleSeconds = 180, InBackupMaxAgeHours = 36, InDatabaseWALMaxBytes = mib 256,
     InMinimumDiskFreeBytes = mib 512, InMinimumDiskFreePercent = 5, InMinimumMemoryAvailableBytes = mib 128,
     InMinimumMemoryAvailablePercent = 5, InComponentRecoveryModes = []\<rparr>"

definition policy1 :: wd_policy where
  "policy1 = DefaultPolicy\<lparr>HostRebootEnabled := True, UpdatedAt := text0\<rparr>"

lemma text0_parses: "parse_time text0 = Some now0"
  using parse_format_time[OF now0_range(1)] now0_text(1) by simp

lemma policy1_valid: "Validate policy1 = Inr ()"
  using DefaultPolicy_valid by (simp add: Validate_Inr policy1_def in_bounds_def text0_parses)

lemma input0_accepted: "NormalizeUpdate input0 now0 = Inr policy1"
proof -
  have "NormalizeUpdate input0 now0 = bind_result (Validate policy1) (\<lambda>_. Inr policy1)"
    by (simp add: NormalizeUpdate_def input0_def policy1_def DefaultPolicy_def now0_text(1) Let_def)
  then show ?thesis by (simp add: policy1_valid)
qed

theorem accepted_policy_is_bounded_witness:
  "in_bounds policy1 \<and> RestartWindow policy1 = 900 * second \<and> parse_time (UpdatedAt policy1) = Some now0"
  using accepted_policy_is_bounded[OF input0_accepted now0_range(1)] by (simp add: policy1_def DefaultPolicy_def)

section \<open>A watchdog\<close>

definition snapshot1 :: probe_snapshot where
  "snapshot1 = \<lparr>ObservedAt = now0, Maintenance = True, MaintenanceCode = ''UPDATE'', Connectivity = ''AVAILABLE'', Components = []\<rparr>"

definition wd_env0 :: wd_env where
  "wd_env0 = \<lparr>w_complete = True, w_dies = (\<lambda>n. n = 9), w_now = (\<lambda>_. now0), w_policy = (\<lambda>_. Inr policy1),
     w_snapshot = (\<lambda>_ _. Inr (snapshot1\<lparr>Maintenance := False\<rparr>)), w_reconcile = (\<lambda>_ _. None), w_failclosed = (\<lambda>_. None),
     w_restart = (\<lambda>_ _. None), w_reboot = (\<lambda>_. None), w_load = (\<lambda>_. None), w_save = (\<lambda>_. Saved), w_write = (\<lambda>_. None)\<rparr>"

definition limits0 :: limits where
  "limits0 = \<lparr>lim_window = 900 * second, lim_restarts = 5, lim_cooldown = 30 * second, lim_reboots = 1\<rparr>"

lemma limits0_within: "within limits0 DefaultPolicy" "within limits0 policy1"
  by (simp_all add: within_def limits0_def policy1_def DefaultPolicy_def durations_ok_def RestartWindow_def)

lemma wd_env0_sane: "sane_clock wd_env0" "policies_within limits0 wd_env0" "file_ok wd_env0 None"
  using now0_range(1) limits0_within by (simp_all add: sane_clock_def wd_env0_def policies_within_def file_ok_def)


theorem attempts_are_persisted_first_witness:
  "list_all on_file (trace (run_ops (wd_step wd_env0) (first_world None) [Cycle, Cycle, Cycle, Cycle]))"
  by (rule attempts_are_persisted_first[OF wd_env0_sane])

text \<open>A process that has seen Mihomo fail twice and has asked for its reconciliation.\<close>

definition mihomo_spec :: component_spec where
  "mihomo_spec = component_spec ComponentMihomo LabelMihomo True True True False"

definition failed_observation :: observation where
  "failed_observation = \<lparr>ComponentID = ComponentMihomo, Applicable = True, Healthy = False, ObClassification = [],
     ObErrorCode = ''UNIT_INACTIVE'', ObDetails = []\<rparr>"

definition wd_world1 :: wd_world where
  "wd_world1 = (first_world None)\<lparr>sup := unborn_supervisor\<lparr>policy := policy1, loaded := True,
     runtime := (\<lambda>_. new_runtime)(ComponentMihomo := new_runtime\<lparr>failures := 2, reconciled := True\<rparr>)\<rparr>\<rparr>"

theorem no_recovery_without_local_failure_witness:
  "calmly [] (snd (run_state (tick_observed wd_env0 now0 snapshot1 ''SQLITE'' [] None) wd_world1))"
  using no_recovery_without_local_failure[of snapshot1 wd_world1 wd_env0 now0 "''SQLITE''" "[]" None]
  by (simp add: idle_def snapshot1_def wd_world1_def first_world_def)

lemma mihomo_due: "due (sup wd_world1) mihomo_spec failed_observation"
proof -
  have "mihomo_spec \<in> set fixedComponentSpecs" by (simp add: mihomo_spec_def fixedComponentSpecs_def)
  have m: "map_of defaultRecoveryModes ComponentMihomo = Some RecoveryModeRestart"
    by (simp add: defaultRecoveryModes_def fixedComponentSpecs_def component_spec_def)
  have "RecoveryMode policy1 ComponentMihomo = RecoveryModeRestart"
    unfolding RecoveryMode_def policy1_def DefaultPolicy_def wd_policy.simps by (subst m) simp
  then show ?thesis
    by (simp add: due_def wd_world1_def first_world_def failed_observation_def mihomo_spec_def component_spec_def)
      (simp add: policy1_def DefaultPolicy_def)
qed

lemma mihomo_valid: "validComponentID (ID mihomo_spec)"
  by (simp add: validComponentID_def mihomo_spec_def component_spec_def fixedComponentSpecs_def)

lemma world1_history: "attempts_ok (durable (sup wd_world1))" "normalize (durable (sup wd_world1)) = Inr ()"
  by (simp_all add: wd_world1_def first_world_def unborn_supervisor_def NewDurableHistory_def attempts_ok_def normalize_Inr)

theorem broken_component_is_recovered_witness:
  "let w' = snd (run_state (evaluateComponent wd_env0 mihomo_spec failed_observation False now0) wd_world1)
   in trace w' = [DidFailClosed True, DidSave True, DidRestart ''mihomo'' now0 (Some (durable (sup w')))]"
proof -
  have w: "alive wd_world1" "calls_succeed wd_env0 (wcalls wd_world1) 3" "policy (sup wd_world1) = policy1" "trace wd_world1 = []"
      "\<not> wants_reconcile (sup wd_world1) mihomo_spec" "path_block mihomo_spec = [DidFailClosed True]" "ID mihomo_spec = ''mihomo''"
      "restarts (durable (sup wd_world1)) ''mihomo'' = []"
    by (simp_all add: wd_world1_def first_world_def unborn_supervisor_def NewDurableHistory_def calls_succeed_def wd_env0_def
        wants_reconcile_def mihomo_spec_def component_spec_def path_block_def restarts_def attempts_of_def)
  have "budget d (MaxRestartsPerComponent policy1) c now0 []" for d c
    by (simp add: budget_def policy1_def DefaultPolicy_def)
  then show ?thesis
    using broken_component_is_recovered[OF mihomo_due mihomo_valid w(1,2) world1_history _ now0_range(1)] w policy1_valid
    by (simp add: Let_def)
qed

section \<open>Status and heartbeat\<close>

theorem status_is_fresh_exactly_while_alive_witness:
  "Validate policy1 = Inr () \<and> jitterInterval (CheckInterval policy1) 0 + minute \<le> MaximumStatusAge policy1
   \<and> ValidateFresh (build_status (sup wd_world1\<lparr>startedAt := now0\<rparr>) snapshot1 ''SQLITE'' [] []) (now0 + 5 * second) (MaximumStatusAge policy1) = Inr ()"
proof -
  have "0 \<le> CheckInterval policy1 div 10" by (simp add: CheckInterval_def policy1_def DefaultPolicy_def second_def)
  then show ?thesis
    using status_is_fresh_exactly_while_alive[OF policy1_valid, of 0 "sup wd_world1\<lparr>startedAt := now0\<rparr>" snapshot1 policy1
        "''SQLITE''" "[]" "[]" "now0 + 5 * second"] now0_range(1) policy1_valid
    by (simp add: snapshot1_def second_def)
qed

definition heartbeat0 :: control_heartbeat where
  "heartbeat0 = \<lparr>HeartbeatSchemaVersion = 2, PID = 7, ProcessStartedAt = text0, WrittenAt = text0, DatabaseOK = True,
     WorkersOK = True, APIServing = True, ReconcileLastAt = [],
     Workers = [(''retention'', \<lparr>LastProgressAt = text0, MaximumSilenceSeconds = 60, Critical = False\<rparr>)]\<rparr>"

lemma heartbeat0_read: "ReadHeartbeat now0 second (Some heartbeat0) = Inr heartbeat0"
  by (simp add: ReadHeartbeat_def ValidateHeartbeat_def heartbeat0_def text0_parses reconcile_stamp_bad_def
      fixedWorkerIDs_def worker_error_def List.map_filter_def time_sub_def int64_defs parsed_or_zero_def second_def)

theorem accepted_heartbeat_is_recent_witness:
  "\<exists>written. parse_time (WrittenAt heartbeat0) = Some written \<and> now0 \<le> written + second"
  using accepted_heartbeat_is_recent[OF heartbeat0_read] by (auto simp: second_def max_int64_def)

end
