(* ===== verification/Watchdog_Budget.thy ===== *)
theory Watchdog_Budget
  imports Watchdog_Samples
begin

text \<open>
  The durable history of the watchdog (\<open>Watchdog_History\<close>) against its specification: a log of instants per component,
  without texts, schema or association lists. The history keeps RFC 3339 texts that it parses and writes again at every
  prune.
\<close>

section \<open>The abstract log\<close>

record attempt_log_state =
  log_restarts :: "string \<Rightarrow> instant list"
  log_reboots :: "instant list"

definition since :: "instant \<Rightarrow> instant list \<Rightarrow> instant list" where
  "since cutoff = filter (\<lambda>t. cutoff \<le> t)"

definition log_forget :: "duration \<Rightarrow> instant \<Rightarrow> attempt_log_state \<Rightarrow> attempt_log_state" where
  "log_forget window now l = \<lparr>log_restarts = since (now - window) \<circ> log_restarts l, log_reboots = since (now - day) (log_reboots l)\<rparr>"

definition log_restart :: "string \<Rightarrow> instant \<Rightarrow> attempt_log_state \<Rightarrow> attempt_log_state" where
  "log_restart i now l = l\<lparr>log_restarts := (log_restarts l)(i := log_restarts l i @ [now])\<rparr>"

definition log_reboot :: "instant \<Rightarrow> attempt_log_state \<Rightarrow> attempt_log_state" where
  "log_reboot now l = l\<lparr>log_reboots := log_reboots l @ [now]\<rparr>"

text \<open>The decisions: fewer attempts in the window than allowed, and the last one is old enough.\<close>

definition restart_verdict :: "int \<Rightarrow> duration \<Rightarrow> instant \<Rightarrow> instant list \<Rightarrow> bool \<times> string" where
  "restart_verdict most cooldown now recent =
     (if most \<le> int (length recent) then (False, ''RESTART_BUDGET_EXHAUSTED'')
      else if recent \<noteq> [] \<and> now < last recent + cooldown then (False, ''RESTART_COOLDOWN'')
      else (True, []))"

definition reboot_verdict :: "bool \<Rightarrow> int \<Rightarrow> instant list \<Rightarrow> bool \<times> string" where
  "reboot_verdict enabled most recent =
     (if \<not> enabled then (False, ''HOST_REBOOT_DISABLED'')
      else if most \<le> int (length recent) then (False, ''REBOOT_BUDGET_EXHAUSTED'')
      else (True, []))"

definition log_of :: "durable_history \<Rightarrow> attempt_log_state" where
  "log_of h = \<lparr>log_restarts = restarts h, log_reboots = reboots h\<rparr>"

section \<open>The history implements the log\<close>

lemma Validate_durations: "Validate p = Inr () \<Longrightarrow> durations_ok p"
  by (simp add: Validate_Inr in_bounds_def durations_ok_def)

lemma log_of_Prune:
  assumes "attempts_ok h" "durations_ok p"
  shows "log_of (Prune now p h) = log_forget (RestartWindow p) now (log_of h)"
  using Prune_ok[OF assms(1), of now p] durations(2)[OF assms(2), of now]
  by (simp add: log_of_def log_forget_def since_def fun_eq_iff)

lemma attempts_by_log:
  assumes "attempts_ok h"
  shows "length (attempts_of h i) = length (restarts h i)"
    and "attempts_of h i \<noteq> [] \<Longrightarrow> parsed_or_zero (last (attempts_of h i)) = last (restarts h i)"
    and "length (RebootAttempts h) = length (reboots h)"
  using assms attempts_ok_of[OF assms, of i] length_stamps last_stamps by (simp_all add: restarts_def reboots_def attempts_ok_def)

lemma RestartAllowed_verdict:
  assumes "attempts_ok h" "validComponentID i"
  shows "RestartAllowed i p now h = (Prune now p h,
    restart_verdict (MaxRestartsPerComponent p) (seconds_dur (RestartCooldownSeconds p)) now (restarts (Prune now p h) i))"
proof -
  note b = attempts_by_log(1,2)[OF Prune_ok(1)[OF assms(1)], where i = i]
  have "attempts_of (Prune now p h) i = [] \<longleftrightarrow> restarts (Prune now p h) i = []" using b(1) by (metis length_0_conv)
  then show ?thesis using assms(2) b(1,2) by (auto simp: RestartAllowed_def restart_verdict_def Let_def)
qed

lemma RebootAllowed_verdict:
  assumes "attempts_ok h"
  shows "RebootAllowed p now h = (Prune now p h, reboot_verdict (HostRebootEnabled p) (MaxRebootsPer24h p) (reboots (Prune now p h)))"
  using attempts_by_log(3)[OF Prune_ok(1)[OF assms]] by (simp add: RebootAllowed_def reboot_verdict_def Let_def)

text \<open>
  Property C17 (the durable history refines a log of instants). Under an accepted policy every operation of the history,
  seen through the instants its texts denote, is the operation of the abstract log: recording appends the instant, the
  decisions and their codes depend only on the attempts in the window that ends now, and what they leave is
  the log without the older attempts. The texts stay readable.
\<close>

theorem history_refines_log:
  assumes "attempts_ok h" "Validate p = Inr ()" "validComponentID i" "rfc3339_range now"
  shows "log_of (RecordRestart i now h) = log_restart i now (log_of h) \<and> attempts_ok (RecordRestart i now h)
    \<and> log_of (RecordReboot now h) = log_reboot now (log_of h) \<and> attempts_ok (RecordReboot now h)
    \<and> (let (h', d) = RestartAllowed i p now h; l' = log_forget (RestartWindowSeconds p * second) now (log_of h)
       in attempts_ok h' \<and> log_of h' = l'
        \<and> d = restart_verdict (MaxRestartsPerComponent p) (RestartCooldownSeconds p * second) now (log_restarts l' i))
    \<and> (let (h', d) = RebootAllowed p now h; l' = log_forget (RestartWindowSeconds p * second) now (log_of h)
       in attempts_ok h' \<and> log_of h' = l' \<and> d = reboot_verdict (HostRebootEnabled p) (MaxRebootsPer24h p) (log_reboots l'))"
proof -
  note dur = Validate_durations[OF assms(2)]
  have prune: "log_forget (RestartWindowSeconds p * second) now (log_of h) = log_of (Prune now p h)"
    using log_of_Prune[OF assms(1) dur] durations(1)[OF dur] by simp
  have "log_of (RecordRestart i now h) = log_restart i now (log_of h)"
    using RecordRestart_ok[OF assms(1,4), of i] by (simp add: log_of_def log_restart_def fun_eq_iff)
  moreover have "log_of (RecordReboot now h) = log_reboot now (log_of h)"
    using RecordReboot_ok[OF assms(1,4)] by (simp add: log_of_def log_reboot_def fun_eq_iff)
  ultimately show ?thesis
    using RecordRestart_ok(1)[OF assms(1,4)] RecordReboot_ok(1)[OF assms(1,4)] Prune_ok(1)[OF assms(1), of now p] durations(3)[OF dur]
    unfolding prune RestartAllowed_verdict[OF assms(1,3)] RebootAllowed_verdict[OF assms(1)] by (simp add: Let_def log_of_def)
qed

lemma Prune_idem:
  assumes "attempts_ok h"
  shows "Prune later p (Prune later p h) = Prune later p h"
proof -
  have "map ((\<lambda>(i, xs). (i, recentTimestamps xs c)) \<circ> (\<lambda>(i, xs). (i, recentTimestamps xs c))) (RestartAttempts h)
      = map (\<lambda>(i, xs). (i, recentTimestamps xs c)) (RestartAttempts h)" for c
    using assms by (auto simp: attempts_ok_def recent_idem)
  moreover have "recentTimestamps (recentTimestamps (RebootAttempts h) c) c = recentTimestamps (RebootAttempts h) c" for c
    using assms by (simp add: attempts_ok_def recent_idem)
  ultimately show ?thesis by (simp add: Prune_def Let_def)
qed

text \<open>
  Property C35 (a recorded attempt reads back). An attempt recorded at an instant is read from its text as that
  very instant for as long as the restart window lasts and is forgotten after it, the attempts of other components are untouched,
  and pruning again changes not a byte of the history.
\<close>

theorem recorded_restart_reads_back:
  assumes "attempts_ok h" "Validate p = Inr ()" "rfc3339_range now"
  shows "restarts (Prune later p (RecordRestart i now h)) i
      = since (later - RestartWindowSeconds p * second) (restarts h i)
        @ (if later \<le> now + RestartWindowSeconds p * second then [now] else [])
    \<and> (\<forall>j. j \<noteq> i \<longrightarrow> attempts_of (Prune later p (RecordRestart i now h)) j = attempts_of (Prune later p h) j)
    \<and> Prune later p (Prune later p h) = Prune later p h"
proof -
  note dur = Validate_durations[OF assms(2)]
  note rec = RecordRestart_ok[OF assms(1,3), of i]
  have "restarts (Prune later p (RecordRestart i now h)) i
      = since (later - RestartWindowSeconds p * second) (restarts h i)
        @ (if later \<le> now + RestartWindowSeconds p * second then [now] else [])"
    using Prune_ok(2)[OF rec(1), where now = later and p = p and i = i] durations(1)[OF dur] durations(2)[OF dur, of later] rec(2)[of i] by (simp add: since_def)
  moreover have "Prune later p (Prune later p h) = Prune later p h" by (rule Prune_idem[OF assms(1)])
  ultimately show ?thesis by (simp add: attempts_of_Prune attempts_of_Record)
qed

section \<open>Samples\<close>

definition history1 :: durable_history where
  "history1 = RecordRestart ComponentControl now0 NewDurableHistory"

lemma new_history_ok: "attempts_ok NewDurableHistory" "restarts NewDurableHistory i = []" "reboots NewDurableHistory = []"
  by (simp_all add: attempts_ok_def NewDurableHistory_def restarts_def reboots_def attempts_of_def)

lemma history1_ok: "attempts_ok history1" "restarts history1 ComponentControl = [now0]"
  using RecordRestart_ok[OF new_history_ok(1) now0_range(1)] new_history_ok(2) unfolding history1_def by simp_all

lemma sample_component: "validComponentID ComponentControl"
  by (simp add: validComponentID_def component_spec_def fixedComponentSpecs_def)

text \<open>A second attempt two minutes after the first is allowed; the cooldown is thirty seconds.\<close>

theorem history_refines_log_witness:
  "validComponentID ComponentControl \<and> Validate policy1 = Inr ()
   \<and> snd (RestartAllowed ComponentControl policy1 (now0 + 120 * second) history1) = (True, [])"
proof -
  have "RestartWindowSeconds policy1 = 900" "MaxRestartsPerComponent policy1 = 5" "RestartCooldownSeconds policy1 = 30"
    by (simp_all add: policy1_def DefaultPolicy_def)
  then show ?thesis
    using history_refines_log[OF history1_ok(1) policy1_valid sample_component now0_range(2)] history1_ok(2) sample_component policy1_valid
    by (simp add: case_prod_unfold Let_def restart_verdict_def log_forget_def log_of_def since_def second_def)
qed

theorem recorded_restart_reads_back_witness:
  "restarts (Prune (now0 + 900 * second) policy1 history1) ComponentControl = [now0]
   \<and> restarts (Prune (now0 + 901 * second) policy1 history1) ComponentControl = []"
proof -
  have w: "RestartWindowSeconds policy1 = 900" by (simp add: policy1_def DefaultPolicy_def)
  show ?thesis
    using recorded_restart_reads_back[OF new_history_ok(1) policy1_valid now0_range(1), of "now0 + 900 * second" ComponentControl]
      recorded_restart_reads_back[OF new_history_ok(1) policy1_valid now0_range(1), of "now0 + 901 * second" ComponentControl]
    by (simp add: w new_history_ok(2) history1_def[symmetric] since_def second_def)
qed

end
