(* ===== verification/Probe_Scheduler.thy ===== *)
theory Probe_Scheduler
  imports Go_Time
begin

text \<open>
  \<open>internal/scheduler/scheduler.go\<close>: concurrency, rate and traffic budget of the probes.

  The mutex makes each of \<open>reserveBudget\<close>, one pass of the loop of \<open>acquireRate\<close>, the accounting of \<open>Release\<close> and so on
  one step; a channel used as a semaphore is the number of its occupied slots. \<open>sched_step\<close> interleaves the steps of any number
  of goroutines: \<open>stage\<close> is where a goroutine stands in \<open>Acquire\<close> or in \<open>Release\<close>. The ghost component \<open>admitted\<close>
  records every admission by the rate limiter with its target and time.
\<close>

section \<open>Data\<close>

record sched_config =
  MaxConcurrency :: int
  MaxConcurrencyPerModem :: int
  MaxRequestsPerWindow :: int
  RequestWindow :: duration
  MinTargetInterval :: duration
  DailySoftLimitBytes :: int
  ActiveFailoverReservePercent :: int

record sched_request =
  ModemID :: string
  TargetID :: string
  RequestClass :: string
  EstimatedBytes :: int

record modem_usage =
  Day :: string
  ObservedBytes :: int
  ReservedBytes :: int
  Requests :: int
  OverageBytes :: int

record scheduler =
  config :: sched_config
  global :: nat
  perModem :: "string \<Rightarrow> nat"
  requestTimes :: "instant list"
  lastTarget :: "string \<rightharpoonup> instant"
  usage :: "string \<rightharpoonup> modem_usage"

definition validClass :: "string \<Rightarrow> bool" where
  "validClass v \<longleftrightarrow> v \<in> {''STANDBY'', ''ACTIVE'', ''FAILOVER''}"

definition DefaultConfig :: sched_config where
  "DefaultConfig = \<lparr>MaxConcurrency = 4, MaxConcurrencyPerModem = 2, MaxRequestsPerWindow = 30, RequestWindow = minute,
     MinTargetInterval = second, DailySoftLimitBytes = 25 * 1024 * 1024, ActiveFailoverReservePercent = 30\<rparr>"

definition NewScheduler :: "sched_config \<Rightarrow> scheduler result" where
  "NewScheduler c =
     (if MaxConcurrency c \<le> 0 \<or> MaxConcurrencyPerModem c \<le> 0 \<or> MaxConcurrencyPerModem c > MaxConcurrency c
      then Inl (ErrMsg ''invalid probe concurrency limits'')
      else if MaxRequestsPerWindow c \<le> 0 then Inl (ErrMsg ''probe request rate limit must be positive'')
      else let c = (if RequestWindow c \<le> 0 then c\<lparr>RequestWindow := minute\<rparr> else c)
        in if MinTargetInterval c < 0 \<or> DailySoftLimitBytes c \<le> 0 \<or> ActiveFailoverReservePercent c < 0
             \<or> ActiveFailoverReservePercent c > 100
           then Inl (ErrMsg ''invalid probe target interval or traffic budget'')
           else Inr \<lparr>config = c, global = 0, perModem = (\<lambda>_. 0), requestTimes = [], lastTarget = Map.empty, usage = Map.empty\<rparr>)"

section \<open>Steps under the mutex\<close>

definition format_day :: "instant \<Rightarrow> string" where
  "format_day t = (let (y, m, d) = civil_from_days (t div second div 86400)
     in format_year y @ ''-'' @ pad 2 (nat m) @ ''-'' @ pad 2 (nat d))"

definition new_usage :: "string \<Rightarrow> modem_usage" where
  "new_usage d = \<lparr>Day = d, ObservedBytes = 0, ReservedBytes = 0, Requests = 0, OverageBytes = 0\<rparr>"

definition currentUsageLocked :: "instant \<Rightarrow> string \<Rightarrow> scheduler \<Rightarrow> modem_usage" where
  "currentUsageLocked now m s = (case usage s m of
     None \<Rightarrow> new_usage (format_day now)
   | Some u \<Rightarrow> if Day u \<noteq> format_day now then new_usage (format_day now) else u)"

definition put_usage :: "string \<Rightarrow> modem_usage \<Rightarrow> scheduler \<Rightarrow> scheduler" where
  "put_usage m u s = s\<lparr>usage := (usage s)(m \<mapsto> u)\<rparr>"

definition standbyLimit :: "sched_config \<Rightarrow> int" where
  "standbyLimit c = go_div (wrap64 (DailySoftLimitBytes c * (100 - ActiveFailoverReservePercent c))) 100"

text \<open>The result is the state, whether the day's limit is exceeded, and whether the request is deferred.\<close>

definition reserveBudget :: "instant \<Rightarrow> sched_request \<Rightarrow> scheduler \<Rightarrow> scheduler \<times> bool \<times> bool" where
  "reserveBudget now r s =
     (let u = currentUsageLocked now (ModemID r) s;
          projected = wrap64 (wrap64 (ObservedBytes u + ReservedBytes u) + EstimatedBytes r)
      in if RequestClass r = ''STANDBY'' \<and> projected > standbyLimit (config s) then (put_usage (ModemID r) u s, False, True)
         else (put_usage (ModemID r) (u\<lparr>ReservedBytes := wrap64 (ReservedBytes u + EstimatedBytes r)\<rparr>) s,
               projected > DailySoftLimitBytes (config s), False))"

definition unreserved :: "sched_request \<Rightarrow> modem_usage \<Rightarrow> modem_usage" where
  "unreserved r u = (let left = wrap64 (ReservedBytes u - EstimatedBytes r) in u\<lparr>ReservedBytes := (if left < 0 then 0 else left)\<rparr>)"

definition unreserveBudget :: "instant \<Rightarrow> sched_request \<Rightarrow> scheduler \<Rightarrow> scheduler" where
  "unreserveBudget now r s = put_usage (ModemID r) (unreserved r (currentUsageLocked now (ModemID r) s)) s"

definition count_request :: "instant \<Rightarrow> sched_request \<Rightarrow> scheduler \<Rightarrow> scheduler" where
  "count_request now r s =
     (let u = currentUsageLocked now (ModemID r) s in put_usage (ModemID r) (u\<lparr>Requests := wrap64 (Requests u + 1)\<rparr>) s)"

text \<open>The accounting of \<open>Release\<close>.\<close>

definition account_release :: "instant \<Rightarrow> sched_request \<Rightarrow> int \<Rightarrow> scheduler \<Rightarrow> scheduler" where
  "account_release now r observed s =
     (let u = unreserved r (currentUsageLocked now (ModemID r) s);
          u = u\<lparr>ObservedBytes := wrap64 (ObservedBytes u + (if observed < 0 then 0 else observed))\<rparr>;
          limit = DailySoftLimitBytes (config s)
      in put_usage (ModemID r) (if ObservedBytes u > limit then u\<lparr>OverageBytes := wrap64 (ObservedBytes u - limit)\<rparr> else u) s)"

definition SnapshotUsage :: "instant \<Rightarrow> string \<Rightarrow> scheduler \<Rightarrow> scheduler \<times> modem_usage" where
  "SnapshotUsage now m s = (let u = currentUsageLocked now m s in (put_usage m u s, u))"

text \<open>
  One pass of the loop of \<open>acquireRate\<close>: admitted (\<open>None\<close>), or the time to wait for.
\<close>

definition previous_probe :: "string \<Rightarrow> scheduler \<Rightarrow> instant" where
  "previous_probe target s = (case lastTarget s target of None \<Rightarrow> zero_time | Some t \<Rightarrow> t)"

definition try_rate :: "instant \<Rightarrow> string \<Rightarrow> scheduler \<Rightarrow> scheduler \<times> instant option" where
  "try_rate now target s =
     (let c = config s;
          times = dropWhile (\<lambda>t. \<not> t > now - RequestWindow c) (requestTimes s);
          s = s\<lparr>requestTimes := times\<rparr>;
          waitUntil = (if MaxRequestsPerWindow c \<le> int (length times) then hd times + RequestWindow c else now);
          next = previous_probe target s + MinTargetInterval c;
          waitUntil = (if MinTargetInterval c > 0 \<and> next > waitUntil then next else waitUntil)
      in if \<not> waitUntil > now
         then (s\<lparr>requestTimes := times @ [now], lastTarget := (lastTarget s)(target \<mapsto> now)\<rparr>, None)
         else (s, Some waitUntil))"

text \<open>
  The loop, given the times at which it looks at the clock and whether the context is done while it waits. It has
  not returned (\<open>None\<close>) when these run out.
\<close>

fun acquireRate :: "(instant \<times> bool) list \<Rightarrow> string \<Rightarrow> scheduler \<Rightarrow> scheduler \<times> unit result option" where
  "acquireRate [] target s = (s, None)"
| "acquireRate ((now, cancelled) # rest) target s =
     (case try_rate now target s of
        (s', None) \<Rightarrow> (s', Some (Inr ()))
      | (s', Some wait) \<Rightarrow> if cancelled then (s', Some (Inl ErrDriver)) else acquireRate rest target s')"

text \<open>The policy as the status API shows it.\<close>

record sched_limits =
  LimDailySoftLimitBytes :: int
  LimStandbyLimitBytes :: int
  LimActiveFailoverReservePercent :: int
  LimMaxConcurrency :: int
  LimMaxConcurrencyPerModem :: int
  LimMaxRequestsPerWindow :: int
  LimRequestWindow :: duration
  LimMinTargetInterval :: duration

definition Limits :: "scheduler \<Rightarrow> sched_limits" where
  "Limits s = (let c = config s in
     \<lparr>LimDailySoftLimitBytes = DailySoftLimitBytes c, LimStandbyLimitBytes = standbyLimit c,
      LimActiveFailoverReservePercent = ActiveFailoverReservePercent c, LimMaxConcurrency = MaxConcurrency c,
      LimMaxConcurrencyPerModem = MaxConcurrencyPerModem c, LimMaxRequestsPerWindow = MaxRequestsPerWindow c,
      LimRequestWindow = RequestWindow c, LimMinTargetInterval = MinTargetInterval c\<rparr>)"

section \<open>Goroutines\<close>

datatype stage =
    Outside
  | Budgeted sched_request bool
  | InGlobal sched_request bool
  | InModem sched_request bool
  | Rated sched_request bool
  | Holding sched_request
  | DrainBoth sched_request
  | DrainGlobal sched_request
  | UndoBoth sched_request
  | UndoGlobal sched_request
  | UndoBudget sched_request

record sched_sys =
  sched :: scheduler
  procs :: "stage list"
  admitted :: "(string \<times> instant) list"
  clock :: instant

definition move :: "nat \<Rightarrow> stage \<Rightarrow> instant \<Rightarrow> scheduler \<Rightarrow> sched_sys \<Rightarrow> sched_sys" where
  "move i st now s y = y\<lparr>sched := s, procs := (procs y)[i := st], clock := now\<rparr>"

definition valid_request :: "sched_request \<Rightarrow> bool" where
  "valid_request r \<longleftrightarrow> \<not> (ModemID r = [] \<or> TargetID r = [] \<or> EstimatedBytes r < 0 \<or> \<not> validClass (RequestClass r))"

definition stands :: "sched_sys \<Rightarrow> nat \<Rightarrow> stage \<Rightarrow> instant \<Rightarrow> bool" where
  "stands y i st now \<longleftrightarrow> i < length (procs y) \<and> procs y ! i = st \<and> clock y \<le> now"

definition modem_slots :: "string \<Rightarrow> nat \<Rightarrow> scheduler \<Rightarrow> scheduler" where
  "modem_slots m n s = s\<lparr>perModem := (perModem s)(m := n)\<rparr>"

inductive sched_step :: "sched_sys \<Rightarrow> sched_sys \<Rightarrow> bool" where
  Spawn: "sched_step y (y\<lparr>procs := procs y @ [Outside]\<rparr>)"
| Defer: "stands y i Outside now \<Longrightarrow> valid_request r \<Longrightarrow> reserveBudget now r (sched y) = (s, overage, True)
     \<Longrightarrow> sched_step y (move i Outside now s y)"
| Reserve: "stands y i Outside now \<Longrightarrow> valid_request r \<Longrightarrow> reserveBudget now r (sched y) = (s, overage, False)
     \<Longrightarrow> sched_step y (move i (Budgeted r overage) now s y)"
| EnterGlobal: "stands y i (Budgeted r b) now \<Longrightarrow> int (global (sched y)) < MaxConcurrency (config (sched y))
     \<Longrightarrow> sched_step y (move i (InGlobal r b) now ((sched y)\<lparr>global := global (sched y) + 1\<rparr>) y)"
| CancelBudgeted: "stands y i (Budgeted r b) now \<Longrightarrow> sched_step y (move i (UndoBudget r) now (sched y) y)"
| EnterModem: "stands y i (InGlobal r b) now \<Longrightarrow> int (perModem (sched y) (ModemID r)) < MaxConcurrencyPerModem (config (sched y))
     \<Longrightarrow> sched_step y (move i (InModem r b) now (modem_slots (ModemID r) (perModem (sched y) (ModemID r) + 1) (sched y)) y)"
| CancelGlobal: "stands y i (InGlobal r b) now \<Longrightarrow> sched_step y (move i (UndoGlobal r) now (sched y) y)"
| Admit: "stands y i (InModem r b) now \<Longrightarrow> try_rate now (TargetID r) (sched y) = (s, None)
     \<Longrightarrow> sched_step y ((move i (Rated r b) now s y)\<lparr>admitted := admitted y @ [(TargetID r, now)]\<rparr>)"
| Wait: "stands y i (InModem r b) now \<Longrightarrow> try_rate now (TargetID r) (sched y) = (s, Some u)
     \<Longrightarrow> sched_step y (move i (InModem r b) now s y)"
| CancelRate: "stands y i (InModem r b) now \<Longrightarrow> sched_step y (move i (UndoBoth r) now (sched y) y)"
| Grant: "stands y i (Rated r b) now \<Longrightarrow> sched_step y (move i (Holding r) now (count_request now r (sched y)) y)"
| Release: "stands y i (Holding r) now
     \<Longrightarrow> sched_step y (move i (DrainBoth r) now (account_release now r observed (sched y)) y)"
| LeaveModem: "stands y i st now \<Longrightarrow> st = DrainBoth r \<and> st' = DrainGlobal r \<or> st = UndoBoth r \<and> st' = UndoGlobal r
     \<Longrightarrow> perModem (sched y) (ModemID r) = Suc n \<Longrightarrow> sched_step y (move i st' now (modem_slots (ModemID r) n (sched y)) y)"
| LeaveGlobal: "stands y i st now \<Longrightarrow> st = DrainGlobal r \<and> st' = Outside \<or> st = UndoGlobal r \<and> st' = UndoBudget r
     \<Longrightarrow> global (sched y) = Suc n \<Longrightarrow> sched_step y (move i st' now ((sched y)\<lparr>global := n\<rparr>) y)"
| Unreserve: "stands y i (UndoBudget r) now \<Longrightarrow> sched_step y (move i Outside now (unreserveBudget now r (sched y)) y)"

definition start_sys :: "scheduler \<Rightarrow> instant \<Rightarrow> sched_sys" where
  "start_sys s now = \<lparr>sched = s, procs = [], admitted = [], clock = now\<rparr>"

inductive reachable :: "sched_config \<Rightarrow> sched_sys \<Rightarrow> bool" for c where
  Start: "NewScheduler c = Inr s \<Longrightarrow> reachable c (start_sys s now)"
| Step: "reachable c y \<Longrightarrow> sched_step y y' \<Longrightarrow> reachable c y'"

inductive_cases sched_stepE: "sched_step y y'"

section \<open>Slots\<close>

fun holds_global :: "stage \<Rightarrow> bool" where
  "holds_global (InGlobal r b) = True"
| "holds_global (InModem r b) = True"
| "holds_global (Rated r b) = True"
| "holds_global (Holding r) = True"
| "holds_global (DrainBoth r) = True"
| "holds_global (DrainGlobal r) = True"
| "holds_global (UndoBoth r) = True"
| "holds_global (UndoGlobal r) = True"
| "holds_global _ = False"

fun holds_modem :: "string \<Rightarrow> stage \<Rightarrow> bool" where
  "holds_modem m (InModem r b) = (ModemID r = m)"
| "holds_modem m (Rated r b) = (ModemID r = m)"
| "holds_modem m (Holding r) = (ModemID r = m)"
| "holds_modem m (DrainBoth r) = (ModemID r = m)"
| "holds_modem m (UndoBoth r) = (ModemID r = m)"
| "holds_modem m _ = False"

abbreviation how_many :: "('a \<Rightarrow> bool) \<Rightarrow> 'a list \<Rightarrow> nat" where "how_many P xs \<equiv> length (filter P xs)"

definition slots_ok :: "sched_sys \<Rightarrow> bool" where
  "slots_ok y \<longleftrightarrow> global (sched y) = how_many holds_global (procs y)
     \<and> (\<forall>m. perModem (sched y) m = how_many (holds_modem m) (procs y))
     \<and> int (how_many holds_global (procs y)) \<le> MaxConcurrency (config (sched y))
     \<and> (\<forall>m. int (how_many (holds_modem m) (procs y)) \<le> MaxConcurrencyPerModem (config (sched y)))"

lemma how_many_update:
  "i < length xs \<Longrightarrow> how_many P (xs[i := v]) + (if P (xs ! i) then 1 else 0) = how_many P xs + (if P v then 1 else 0)"
proof (induction xs arbitrary: i)
  case (Cons x xs)
  then show ?case by (cases i) auto
qed simp

lemma how_many_stands:
  "stands y i st now \<Longrightarrow> how_many P ((procs y)[i := st']) + (if P st then 1 else 0) = how_many P (procs y) + (if P st' then 1 else 0)"
  using how_many_update[of i "procs y" P st'] by (simp add: stands_def)

text \<open>The steps under the mutex leave the semaphores alone.\<close>

lemma scheduler_frames [simp]:
  "config (put_usage m u s) = config s" "global (put_usage m u s) = global s" "perModem (put_usage m u s) = perModem s"
  "requestTimes (put_usage m u s) = requestTimes s" "lastTarget (put_usage m u s) = lastTarget s"
  "config (modem_slots m n s) = config s" "global (modem_slots m n s) = global s" "requestTimes (modem_slots m n s) = requestTimes s"
  "lastTarget (modem_slots m n s) = lastTarget s" "perModem (modem_slots m n s) = (perModem s)(m := n)"
  by (simp_all add: put_usage_def modem_slots_def)

definition only_usage :: "scheduler \<Rightarrow> scheduler \<Rightarrow> bool" where
  "only_usage s' s \<longleftrightarrow> config s' = config s \<and> global s' = global s \<and> perModem s' = perModem s
     \<and> requestTimes s' = requestTimes s \<and> lastTarget s' = lastTarget s"

lemma only_usage_steps:
  "reserveBudget now r s = (s', a, b) \<Longrightarrow> only_usage s' s" "only_usage (unreserveBudget now r s) s"
  "only_usage (count_request now r s) s" "only_usage (account_release now r obs s) s"
  by (auto simp: only_usage_def reserveBudget_def unreserveBudget_def count_request_def account_release_def Let_def split: if_splits)

lemma try_rate_frame:
  "try_rate now t s = (s', x) \<Longrightarrow> config s' = config s \<and> global s' = global s \<and> perModem s' = perModem s"
  by (auto simp: try_rate_def Let_def split: if_splits)

text \<open>A move that keeps the slots of the goroutine and the semaphores.\<close>

lemma slots_move:
  assumes "slots_ok y" "stands y i st now" "holds_global st' = holds_global st" "\<And>m. holds_modem m st' = holds_modem m st"
    and "config s = config (sched y)" "global s = global (sched y)" "perModem s = perModem (sched y)"
  shows "slots_ok (move i st' now s y)"
proof -
  have "how_many P ((procs y)[i := st']) = how_many P (procs y)" if "P st' = P st" for P
    using how_many_stands[OF assms(2), of P st'] that by simp
  then show ?thesis using assms by (auto simp: slots_ok_def move_def)
qed

lemma slots_change:
  assumes "slots_ok y" "stands y i st now"
    and "config s = config (sched y)" "int (global s) \<le> MaxConcurrency (config s)" "\<And>m. int (perModem s m) \<le> MaxConcurrencyPerModem (config s)"
    and "global s + (if holds_global st then 1 else 0) = global (sched y) + (if holds_global st' then 1 else 0)"
    and "\<And>m. perModem s m + (if holds_modem m st then 1 else 0) = perModem (sched y) m + (if holds_modem m st' then 1 else 0)"
  shows "slots_ok (move i st' now s y)"
proof -
  have "global s = how_many holds_global ((procs y)[i := st'])"
    using how_many_stands[OF assms(2), of holds_global st'] assms(1,6) by (auto simp: slots_ok_def)
  moreover have "perModem s m = how_many (holds_modem m) ((procs y)[i := st'])" for m
    using how_many_stands[OF assms(2), of "holds_modem m" st'] assms(1) assms(7)[of m] by (auto simp: slots_ok_def)
  ultimately show ?thesis using assms(3-5) by (simp add: slots_ok_def move_def)
qed

lemma slots_admitted [simp]: "slots_ok (y\<lparr>admitted := a\<rparr>) = slots_ok y"
  by (simp add: slots_ok_def)

lemma slots_bounds:
  assumes "slots_ok y"
  shows "int (global (sched y)) \<le> MaxConcurrency (config (sched y))"
    "int (perModem (sched y) m) \<le> MaxConcurrencyPerModem (config (sched y))"
  using assms by (simp_all add: slots_ok_def)

lemma slots_step: "sched_step y y' \<Longrightarrow> slots_ok y \<Longrightarrow> slots_ok y'"
proof (induction rule: sched_step.induct)
  case (EnterGlobal y i r b now)
  show ?case by (rule slots_change[OF EnterGlobal(3,1)]) (use EnterGlobal slots_bounds in \<open>simp_all\<close>)
next
  case (EnterModem y i r b now)
  show ?case by (rule slots_change[OF EnterModem(3,1)]) (use EnterModem slots_bounds in \<open>simp_all\<close>)
next
  case (LeaveModem y i st now r st' n)
  show ?case
    by (rule slots_change[OF LeaveModem(4,1)]) (use LeaveModem slots_bounds[OF LeaveModem(4)] slots_bounds(2)[OF LeaveModem(4), of "ModemID r"] in auto)
next
  case (LeaveGlobal y i st now r st' n)
  show ?case by (rule slots_change[OF LeaveGlobal(4,1)]) (use LeaveGlobal slots_bounds[OF LeaveGlobal(4)] in auto)
next
  case (Admit y i r b now s)
  then have "slots_ok (move i (Rated r b) now s y)" using try_rate_frame[OF Admit(2)] by (intro slots_move) auto
  then show ?case by simp
next
  case (Defer y i now r s overage)
  then show ?case using only_usage_steps(1)[OF Defer(3)] by (intro slots_move) (auto simp: only_usage_def)
next
  case (Reserve y i now r s overage)
  then show ?case using only_usage_steps(1)[OF Reserve(3)] by (intro slots_move) (auto simp: only_usage_def)
next
  case (Wait y i r b now s u)
  then show ?case using try_rate_frame[OF Wait(2)] by (intro slots_move) auto
next
  case (Spawn y)
  then show ?case by (simp add: slots_ok_def)
qed (use only_usage_steps(2-4) in \<open>auto simp: only_usage_def intro!: slots_move\<close>)

section \<open>Rate\<close>

definition admissions :: "sched_sys \<Rightarrow> instant list" where
  "admissions y = map snd (admitted y)"

definition admissions_of :: "string \<Rightarrow> (string \<times> instant) list \<Rightarrow> instant list" where
  "admissions_of target xs = map snd (filter (\<lambda>(t, _). t = target) xs)"

text \<open>Any \<open>most + 1\<close> consecutive times span at least the window.\<close>

definition rate_limited :: "nat \<Rightarrow> duration \<Rightarrow> instant list \<Rightarrow> bool" where
  "rate_limited most window ts \<longleftrightarrow> (\<forall>k. k + most < length ts \<longrightarrow> ts ! k + window \<le> ts ! (k + most))"

definition rate_ok :: "sched_sys \<Rightarrow> bool" where
  "rate_ok y \<longleftrightarrow> (let c = config (sched y); ts = requestTimes (sched y) in
     (\<exists>old. admissions y = old @ ts \<and> (\<forall>t\<in>set old. t + RequestWindow c \<le> clock y))
     \<and> int (length ts) \<le> MaxRequestsPerWindow c \<and> (\<forall>t\<in>set (admissions y). t \<le> clock y)
     \<and> rate_limited (nat (MaxRequestsPerWindow c)) (RequestWindow c) (admissions y)
     \<and> (\<forall>target. sorted_wrt (\<lambda>a b. a + MinTargetInterval c \<le> b) (admissions_of target (admitted y)))
     \<and> (\<forall>target. admissions_of target (admitted y) \<noteq> [] \<longrightarrow> lastTarget (sched y) target = Some (last (admissions_of target (admitted y)))))"

lemma rate_limited_snoc:
  assumes "rate_limited most window ts" "0 < most" "most \<le> length ts \<longrightarrow> ts ! (length ts - most) + window \<le> t"
  shows "rate_limited most window (ts @ [t])"
  unfolding rate_limited_def
proof (intro allI impI)
  fix k assume k: "k + most < length (ts @ [t])"
  show "(ts @ [t]) ! k + window \<le> (ts @ [t]) ! (k + most)"
  proof (cases "k + most < length ts")
    case True
    with assms(1) show ?thesis by (simp add: rate_limited_def nth_append)
  next
    case False
    with k have "k = length ts - most" "most \<le> length ts" "k < length ts" using assms(2) by auto
    with assms(2,3) show ?thesis by (simp add: nth_append)
  qed
qed

lemma dropWhile_old:
  assumes "ts = a @ b" "length b < most" "\<forall>t\<in>set a. P t" "most \<le> length ts"
  shows "P (ts ! (length ts - most))"
proof -
  have "length ts - most < length a" using assms by simp
  then show ?thesis using assms(1,3) by (metis nth_append nth_mem)
qed

text \<open>What an admission does: the window is not full without it, and the target was last probed long enough ago.\<close>

lemma try_rate_None:
  assumes "try_rate now target s = (s', None)" and "0 < MaxRequestsPerWindow (config s)"
  obtains a b where "requestTimes s = a @ b" "\<forall>t\<in>set a. t + RequestWindow (config s) \<le> now"
    "int (length b) < MaxRequestsPerWindow (config s)" "requestTimes s' = b @ [now]" "lastTarget s' = (lastTarget s)(target \<mapsto> now)"
    "\<forall>t. lastTarget s target = Some t \<longrightarrow> MinTargetInterval (config s) \<le> 0 \<or> t + MinTargetInterval (config s) \<le> now"
proof -
  let ?c = "config s"
  let ?P = "\<lambda>t. \<not> t > now - RequestWindow ?c"
  let ?a = "takeWhile ?P (requestTimes s)" and ?b = "dropWhile ?P (requestTimes s)"
  have h: "?b \<noteq> [] \<Longrightarrow> hd ?b > now - RequestWindow ?c" using hd_dropWhile[of ?P "requestTimes s"] by simp
  have full: "int (length ?b) < MaxRequestsPerWindow ?c"
  proof (rule ccontr)
    assume "\<not> ?thesis"
    moreover from this have "?b \<noteq> []" using assms(2) by (metis list.size(3) of_nat_0)
    ultimately have "hd ?b + RequestWindow ?c > now" "MaxRequestsPerWindow ?c \<le> int (length ?b)" using h by auto
    then show False using assms(1) by (simp add: try_rate_def Let_def not_less split: if_splits)
  qed
  show ?thesis
  proof (rule that[of ?a ?b])
    show "\<forall>t\<in>set ?a. t + RequestWindow ?c \<le> now" by (auto dest!: set_takeWhileD)
    show "\<forall>t. lastTarget s target = Some t \<longrightarrow> MinTargetInterval ?c \<le> 0 \<or> t + MinTargetInterval ?c \<le> now"
      using assms(1) full by (auto simp: try_rate_def Let_def previous_probe_def split: if_splits)
  qed (use assms(1) full in \<open>auto simp: try_rate_def Let_def split: if_splits\<close>)
qed

lemma try_rate_Some:
  assumes "try_rate now target s = (s', Some u)"
  obtains a where "requestTimes s = a @ requestTimes s'" "\<forall>t\<in>set a. t + RequestWindow (config s) \<le> now" "lastTarget s' = lastTarget s"
proof (rule that[of "takeWhile (\<lambda>t. \<not> t > now - RequestWindow (config s)) (requestTimes s)"])
  show "\<forall>t\<in>set (takeWhile (\<lambda>t. \<not> t > now - RequestWindow (config s)) (requestTimes s)). t + RequestWindow (config s) \<le> now"
    by (auto dest!: set_takeWhileD)
qed (use assms in \<open>auto simp: try_rate_def Let_def split: if_splits\<close>)

text \<open>Steps that admit nothing: at most some old times are forgotten.\<close>

lemma rate_quiet:
  assumes "rate_ok y" "stands y i st now" "config s = config (sched y)" "lastTarget s = lastTarget (sched y)"
    and "requestTimes (sched y) = a @ requestTimes s" "\<forall>t\<in>set a. t + RequestWindow (config s) \<le> now"
  shows "rate_ok (move i st' now s y)"
proof -
  obtain old where old: "admissions y = old @ requestTimes (sched y)" "\<forall>t\<in>set old. t + RequestWindow (config s) \<le> clock y"
    using assms(1,3) by (auto simp: rate_ok_def Let_def)
  have "clock y \<le> now" using assms(2) by (simp add: stands_def)
  then have "\<exists>old. admissions y = old @ requestTimes s \<and> (\<forall>t\<in>set old. t + RequestWindow (config s) \<le> now)"
    using old assms(5,6) by (intro exI[of _ "old @ a"]) force
  moreover have "\<forall>t\<in>set (admissions y). t \<le> now" using assms(1) \<open>clock y \<le> now\<close> by (force simp: rate_ok_def Let_def)
  ultimately show ?thesis
    using assms(1,3-5) by (simp add: rate_ok_def Let_def move_def admissions_def)
qed

lemma rate_same:
  "rate_ok y \<Longrightarrow> stands y i st now \<Longrightarrow> config s = config (sched y) \<and> requestTimes s = requestTimes (sched y) \<and> lastTarget s = lastTarget (sched y)
     \<Longrightarrow> rate_ok (move i st' now s y)"
  by (rule rate_quiet[where a = "[]"]) auto

lemma admissions_of_snoc: "admissions_of target (xs @ [(t, now)]) = admissions_of target xs @ (if t = target then [now] else [])"
  by (simp add: admissions_of_def)

lemma admissions_of_mem: "t \<in> set (admissions_of target (admitted y)) \<Longrightarrow> t \<in> set (admissions y)"
  by (auto simp: admissions_of_def admissions_def)

lemma spaced_last: "sorted_wrt (\<lambda>a b. a + d \<le> b) xs \<Longrightarrow> 0 \<le> d \<Longrightarrow> x \<in> set xs \<Longrightarrow> x \<le> last xs" for d :: int
  by (induction xs rule: rev_induct) (auto simp: sorted_wrt_append)

lemma rate_admit:
  assumes "rate_ok y" "stands y i (InModem r b) now" "try_rate now (TargetID r) (sched y) = (s, None)"
    and "0 < MaxRequestsPerWindow (config (sched y))" "0 \<le> MinTargetInterval (config (sched y))"
  shows "rate_ok ((move i st' now s y)\<lparr>admitted := admitted y @ [(TargetID r, now)]\<rparr>)"
proof -
  let ?c = "config (sched y)" and ?x = "TargetID r" and ?n = "nat (MaxRequestsPerWindow (config (sched y)))"
  obtain a e where t: "requestTimes (sched y) = a @ e" "\<forall>t\<in>set a. t + RequestWindow ?c \<le> now" "int (length e) < MaxRequestsPerWindow ?c"
      "requestTimes s = e @ [now]" "lastTarget s = (lastTarget (sched y))(?x \<mapsto> now)"
      "\<forall>t. lastTarget (sched y) ?x = Some t \<longrightarrow> MinTargetInterval ?c \<le> 0 \<or> t + MinTargetInterval ?c \<le> now"
    using try_rate_None[OF assms(3,4)] .
  obtain old where old: "admissions y = old @ a @ e" "\<forall>t\<in>set old. t + RequestWindow ?c \<le> clock y"
    using assms(1) t(1) by (auto simp: rate_ok_def Let_def)
  note inv = assms(1)[unfolded rate_ok_def Let_def]
  have cl: "clock y \<le> now" and le: "\<forall>t\<in>set (admissions y). t \<le> now"
    using assms(1,2) by (force simp: stands_def rate_ok_def Let_def)+
  have fit: "\<forall>t\<in>set (old @ a). t + RequestWindow ?c \<le> now" using old(2) t(2) cl by force
  have "rate_limited ?n (RequestWindow ?c) (admissions y @ [now])"
    using inv t(3) assms(4) dropWhile_old[of "admissions y" "old @ a" e ?n "\<lambda>t. t + RequestWindow ?c \<le> now"] fit old(1)
    by (intro rate_limited_snoc) auto
  moreover have "t + MinTargetInterval ?c \<le> now" if "t \<in> set (admissions_of ?x (admitted y))" for t
  proof -
    have ne: "admissions_of ?x (admitted y) \<noteq> []" using that by auto
    then have "t \<le> last (admissions_of ?x (admitted y))" "lastTarget (sched y) ?x = Some (last (admissions_of ?x (admitted y)))"
      using spaced_last[OF _ assms(5) that] inv by auto
    then show ?thesis using t(6) assms(5) le admissions_of_mem[OF that] by fastforce
  qed
  then have "sorted_wrt (\<lambda>a b. a + MinTargetInterval ?c \<le> b) (admissions_of target (admitted y @ [(?x, now)]))" for target
    using inv by (auto simp: admissions_of_snoc sorted_wrt_append)
  moreover have "admissions_of target (admitted y @ [(?x, now)]) \<noteq> []
      \<longrightarrow> lastTarget s target = Some (last (admissions_of target (admitted y @ [(?x, now)])))" for target
    using inv t(5) by (auto simp: admissions_of_snoc)
  moreover have "\<exists>old. admissions y @ [now] = old @ requestTimes s \<and> (\<forall>t\<in>set old. t + RequestWindow ?c \<le> now)"
    using old(1) t(4) fit by (intro exI[of _ "old @ a"]) simp
  ultimately show ?thesis
    using t(3,4) le try_rate_frame[OF assms(3)] by (simp add: rate_ok_def Let_def move_def admissions_def)
qed

section \<open>Reachable states\<close>

definition config_ok :: "sched_config \<Rightarrow> sched_sys \<Rightarrow> bool" where
  "config_ok c y \<longleftrightarrow> config (sched y) = c\<lparr>RequestWindow := (if RequestWindow c \<le> 0 then minute else RequestWindow c)\<rparr>
     \<and> 0 < MaxConcurrency c \<and> 0 < MaxConcurrencyPerModem c \<and> 0 < MaxRequestsPerWindow c \<and> 0 \<le> MinTargetInterval c"

lemma config_step: "sched_step y y' \<Longrightarrow> config (sched y') = config (sched y)"
  by (induction rule: sched_step.induct)
    (use only_usage_steps try_rate_frame in \<open>auto simp: move_def only_usage_def dest: only_usage_steps(1) try_rate_frame\<close>)

lemma rate_step:
  assumes "sched_step y y'" "rate_ok y" "0 < MaxRequestsPerWindow (config (sched y))" "0 \<le> MinTargetInterval (config (sched y))"
  shows "rate_ok y'"
  using assms
proof (induction rule: sched_step.induct)
  case (Spawn y)
  then show ?case by (simp add: rate_ok_def admissions_def)
next
  case (Defer y i now r s overage)
  then show ?case using only_usage_steps(1)[of now r "sched y" s overage] by (intro rate_same) (auto simp: only_usage_def)
next
  case (Reserve y i now r s overage)
  then show ?case using only_usage_steps(1)[of now r "sched y" s overage] by (intro rate_same) (auto simp: only_usage_def)
next
  case (Admit y i r b now s)
  then show ?case by (intro rate_admit)
next
  case (Wait y i r b now s u)
  obtain a where "requestTimes (sched y) = a @ requestTimes s" "\<forall>t\<in>set a. t + RequestWindow (config (sched y)) \<le> now"
    "lastTarget s = lastTarget (sched y)" using try_rate_Some[OF Wait(2)] .
  then show ?case using Wait(1,3) try_rate_frame[OF Wait(2)] by (intro rate_quiet[where a = a]) auto
qed (use only_usage_steps(2-4) in \<open>auto simp: only_usage_def intro!: rate_same\<close>)

lemma reachable_inv: "reachable c y \<Longrightarrow> config_ok c y \<and> slots_ok y \<and> rate_ok y"
proof (induction rule: reachable.induct)
  case (Start s now)
  then show ?case
    by (auto simp: NewScheduler_def Let_def config_ok_def slots_ok_def rate_ok_def start_sys_def admissions_def admissions_of_def
        rate_limited_def split: if_splits)
next
  case (Step y y')
  then show ?case using config_step slots_step rate_step by (auto simp: config_ok_def)
qed


section \<open>The wait ends\<close>

definition times_ok :: "instant \<Rightarrow> scheduler \<Rightarrow> bool" where
  "times_ok now s \<longleftrightarrow> int (length (requestTimes s)) \<le> MaxRequestsPerWindow (config s) \<and> 0 < MaxRequestsPerWindow (config s)
     \<and> (\<forall>t\<in>set (requestTimes s). t \<le> now) \<and> (\<forall>target t. lastTarget s target = Some t \<longrightarrow> t \<le> now)
     \<and> 0 < RequestWindow (config s) \<and> zero_time \<le> now"

text \<open>When a pass has to wait, it asks for a time at which the window has room and the target may be probed again.\<close>

lemma try_rate_wait:
  assumes "try_rate now target s = (s', Some u)" "times_ok now s"
  shows "config s' = config s" "MinTargetInterval (config s) > 0 \<longrightarrow> previous_probe target s' + MinTargetInterval (config s) \<le> u"
    "int (length (requestTimes s')) < MaxRequestsPerWindow (config s) \<or> hd (requestTimes s') + RequestWindow (config s) \<le> u"
    "requestTimes s' = dropWhile (\<lambda>t. \<not> t > now - RequestWindow (config s)) (requestTimes s)"
    "u \<le> now + max (RequestWindow (config s)) (MinTargetInterval (config s))"
proof -
  let ?c = "config s" and ?b = "dropWhile (\<lambda>t. \<not> t > now - RequestWindow (config s)) (requestTimes s)"
  show "config s' = config s" using try_rate_frame[OF assms(1)] by simp
  show "requestTimes s' = ?b" using assms(1) by (auto simp: try_rate_def Let_def split: if_splits)
  show "MinTargetInterval ?c > 0 \<longrightarrow> previous_probe target s' + MinTargetInterval ?c \<le> u"
    "int (length (requestTimes s')) < MaxRequestsPerWindow ?c \<or> hd (requestTimes s') + RequestWindow ?c \<le> u"
    using assms(1) by (auto simp: try_rate_def Let_def previous_probe_def not_le split: if_splits)
  have "hd ?b \<le> now" if "MaxRequestsPerWindow ?c \<le> int (length ?b)"
  proof -
    have "?b \<noteq> []" using that assms(2) by (metis times_ok_def list.size(3) not_le of_nat_0)
    then show ?thesis using assms(2) by (metis times_ok_def hd_in_set set_dropWhileD)
  qed
  moreover have "previous_probe target s \<le> now" using assms(2) by (auto simp: previous_probe_def times_ok_def split: option.splits)
  ultimately show "u \<le> now + max (RequestWindow ?c) (MinTargetInterval ?c)"
    using assms(1) by (auto simp: try_rate_def Let_def previous_probe_def split: if_splits)
qed

text \<open>A pass at or after the time asked for admits.\<close>

lemma try_rate_admits:
  assumes "MinTargetInterval (config s) > 0 \<longrightarrow> previous_probe target s + MinTargetInterval (config s) \<le> now"
    and "int (length (requestTimes s)) < MaxRequestsPerWindow (config s)
      \<or> int (length (requestTimes s)) \<le> MaxRequestsPerWindow (config s) \<and> requestTimes s \<noteq> [] \<and> hd (requestTimes s) + RequestWindow (config s) \<le> now"
  obtains s' where "try_rate now target s = (s', None)"
proof -
  let ?c = "config s" and ?P = "\<lambda>t. \<not> t > now - RequestWindow (config s)"
  have "int (length (dropWhile ?P (requestTimes s))) < MaxRequestsPerWindow ?c"
  proof (cases "requestTimes s")
    case Nil
    then show ?thesis using assms(2) by auto
  next
    case (Cons t ts)
    have "length (dropWhile ?P ts) \<le> length ts" by (simp add: length_dropWhile_le)
    then show ?thesis using assms(2) Cons length_dropWhile_le[of ?P "t # ts"] by auto
  qed
  then show ?thesis using assms(1) that by (auto simp: try_rate_def Let_def previous_probe_def not_less)
qed


section \<open>Samples\<close>

definition scheduler0 :: scheduler where
  "scheduler0 = \<lparr>config = DefaultConfig, global = 0, perModem = (\<lambda>_. 0), requestTimes = [], lastTarget = Map.empty, usage = Map.empty\<rparr>"

lemma sample_reachable: "reachable DefaultConfig ((start_sys scheduler0 0)\<lparr>procs := [Outside]\<rparr>)"
proof -
  have "NewScheduler DefaultConfig = Inr scheduler0"
    by (simp add: NewScheduler_def DefaultConfig_def scheduler0_def minute_def second_def)
  then have "reachable DefaultConfig (start_sys scheduler0 0)" by (rule Start)
  moreover have "sched_step (start_sys scheduler0 0) ((start_sys scheduler0 0)\<lparr>procs := [Outside]\<rparr>)"
    using Spawn[of "start_sys scheduler0 0"] by (simp add: start_sys_def)
  ultimately show ?thesis by (rule Step)
qed


text \<open>A full window: the first pass has to wait.\<close>

definition scheduler1 :: scheduler where
  "scheduler1 = scheduler0\<lparr>requestTimes := replicate 30 0\<rparr>"


end
