(* ===== verification/Path_Matrix.thy ===== *)
theory Path_Matrix
  imports Access_Paths
begin

text \<open>
  \<open>internal/pathmatrix/repository.go\<close>: the matrix of uplinks and subscriptions. A cell is a row of
  \<open>subscription_uplink_paths\<close>; \<open>ReconcileCells\<close> creates and refreshes the cells, \<open>UpdateResult\<close> writes a result into
  one, and the other operations take evidence away.

  \<open>update_paths\<close> is an UPDATE of the table with the constraints of migration 000017: the CHECKs on the counters and the foreign
  key on the selected node. Quality classes are values of \<open>quality\<close>; the empty class of an update is \<open>QualityOther []\<close>.
\<close>

section \<open>Data\<close>

abbreviation StateSubscriptionDisabled :: string where "StateSubscriptionDisabled \<equiv> ''SUBSCRIPTION_DISABLED''"
abbreviation StateProbing :: string where "StateProbing \<equiv> ''PROBING''"
abbreviation StateQualified :: string where "StateQualified \<equiv> ''QUALIFIED''"
abbreviation StateDegraded :: string where "StateDegraded \<equiv> ''DEGRADED''"
abbreviation StateFailed :: string where "StateFailed \<equiv> ''FAILED''"
abbreviation StateStale :: string where "StateStale \<equiv> ''STALE''"

record matrix_cell =
  ClID :: string
  ClUplinkID :: string
  ClUplinkDisplayNumber :: int
  ClUplinkType :: string
  ClUplinkName :: string
  ClUplinkPriority :: int
  ClModemID :: string
  ClModemDisplayNumber :: int
  ClModemName :: string
  ClModemPriority :: int
  ClSubscriptionID :: string
  ClSubscriptionName :: string
  ClSubscriptionPriority :: int
  ClState :: string
  ClTransportState :: string
  ClSelectedNodeID :: string
  ClCandidateNodes :: int
  ClQualifiedNodes :: int
  ClRequiredTargetsPassed :: int
  ClRequiredTargetsTotal :: int
  ClOptionalTargetsPassed :: int
  ClOptionalTargetsTotal :: int
  ClQualityClass :: quality
  ClFunctionalScore :: int
  ClLatencyMS :: int
  ClPolicyGeneration :: int
  ClRouteGeneration :: int
  ClLastCheckedAt :: string
  ClExpiresAt :: string
  ClCreatedAt :: string
  ClUpdatedAt :: string

record result_update =
  RuPathID :: string
  RuPolicyGeneration :: int
  RuRouteGeneration :: int
  RuState :: string
  RuTransportState :: string
  RuSelectedNodeID :: string
  RuCandidateNodes :: int
  RuQualifiedNodes :: int
  RuRequiredPassed :: int
  RuRequiredTotal :: int
  RuOptionalPassed :: int
  RuOptionalTotal :: int
  RuQualityClass :: quality
  RuFunctionalScore :: int
  RuLatencyMS :: int
  RuLastCheckedAt :: instant
  RuExpiresAt :: instant

section \<open>The table\<close>

definition nullIfEmpty :: "string \<Rightarrow> string option" where
  "nullIfEmpty v = (if v = [] then None else Some v)"

definition nullIfZero :: "int \<Rightarrow> int option" where
  "nullIfZero v = (if v = 0 then None else Some v)"

definition formatOptionalTime :: "instant \<Rightarrow> string option" where
  "formatOptionalTime t = (if is_zero t then None else Some (format_time t))"

text \<open>The CHECKs of \<open>subscription_uplink_paths\<close> and the foreign key on \<open>nodes\<close>.\<close>

definition path_row_ok :: "db \<Rightarrow> sub_path_row \<Rightarrow> bool" where
  "path_row_ok D p \<longleftrightarrow> 0 \<le> p_candidate_nodes p \<and> 0 \<le> p_qualified_nodes p \<and> 0 \<le> p_required_passed p \<and> 0 \<le> p_required_total p
     \<and> 0 \<le> p_optional_passed p \<and> 0 \<le> p_optional_total p
     \<and> p_quality_class p \<in> {QualityUnknown, QualityFull, QualityLimited, QualityWhitelistOnly, QualityFailed}
     \<and> 0 \<le> p_functional_score p \<and> (case p_latency_ms p of None \<Rightarrow> True | Some l \<Rightarrow> 0 \<le> l)
     \<and> 0 \<le> p_policy_generation p \<and> 0 \<le> p_route_generation p
     \<and> references (p_selected_node_id p) (map n_id (nodes D))
     \<and> p_qualified_nodes p \<le> p_candidate_nodes p \<and> p_required_passed p \<le> p_required_total p
     \<and> p_optional_passed p \<le> p_optional_total p"

definition update_paths :: "(sub_path_row \<Rightarrow> bool) \<Rightarrow> (sub_path_row \<Rightarrow> sub_path_row) \<Rightarrow> db \<Rightarrow> (db \<times> nat) result" where
  "update_paths hit change D =
     (let ps = subscription_uplink_paths D
      in if list_all (\<lambda>p. hit p \<longrightarrow> path_row_ok D (change p)) ps
         then Inr (D\<lparr>subscription_uplink_paths := map (\<lambda>p. if hit p then change p else p) ps\<rparr>, length (filter hit ps))
         else Inl ErrConstraint)"

section \<open>Reconciling the cells\<close>

definition current_path_policy :: "db \<Rightarrow> int result" where
  "current_path_policy D = (case settings D ''next_policy_generation'' of
     None \<Rightarrow> Inr 0
   | Some v \<Rightarrow> (case parse_int64 v of
       None \<Rightarrow> Inl (ErrFmt ''invalid next path policy generation %q'' [v])
     | Some n \<Rightarrow> if n < 1 then Inl (ErrFmt ''invalid next path policy generation %q'' [v]) else Inr (n - 1)))"

definition unusable_state :: "uplink_row \<Rightarrow> subscription_row \<Rightarrow> string option" where
  "unusable_state u s =
     (if \<not> u_enabled u then Some ''UPLINK_DISABLED''
      else if \<not> s_enabled s then Some StateSubscriptionDisabled
      else if u_state u \<noteq> ''UPLINK_READY'' then Some ''UPLINK_OFFLINE'' else None)"

definition new_cell :: "int \<Rightarrow> string \<Rightarrow> uplink_row \<Rightarrow> subscription_row \<Rightarrow> sub_path_row" where
  "new_cell g now u s =
     \<lparr>p_id = ''path:'' @ u_id u @ '':'' @ s_id s, p_uplink_id = u_id u, p_subscription_id = s_id s,
      p_state = (case unusable_state u s of Some st \<Rightarrow> st | None \<Rightarrow> ''UNTESTED''), p_transport_state = ''UNKNOWN'',
      p_selected_node_id = None, p_candidate_nodes = 0, p_qualified_nodes = 0, p_required_passed = 0, p_required_total = 0,
      p_optional_passed = 0, p_optional_total = 0, p_quality_class = QualityUnknown, p_functional_score = 0, p_latency_ms = None,
      p_policy_generation = g, p_route_generation = u_route_generation u, p_last_checked_at = None, p_expires_at = None,
      p_created_at = now, p_updated_at = now\<rparr>"

text \<open>
  \<open>INSERT ... SELECT ... ON CONFLICT(uplink_id, subscription_id) DO NOTHING\<close>: ids with colons can make two pairs clash in the
  primary key, which is a constraint error.
\<close>

fun insert_cells :: "db \<Rightarrow> int \<Rightarrow> string \<Rightarrow> (uplink_row \<times> subscription_row) list \<Rightarrow> sub_path_row list \<Rightarrow> sub_path_row list result" where
  "insert_cells D g now [] ps = Inr ps"
| "insert_cells D g now ((u, s) # us) ps =
     (let c = new_cell g now u s
      in if list_ex (\<lambda>p. p_uplink_id p = u_id u \<and> p_subscription_id p = s_id s) ps then insert_cells D g now us ps
         else if p_id c \<in> set (map p_id ps) \<or> \<not> path_row_ok D c then Inl ErrConstraint
         else insert_cells D g now us (ps @ [c]))"

definition refresh_cell :: "string \<Rightarrow> uplink_row \<Rightarrow> subscription_row \<Rightarrow> sub_path_row \<Rightarrow> sub_path_row" where
  "refresh_cell now u s p =
     (case unusable_state u s of
        Some st \<Rightarrow> p\<lparr>p_state := st, p_transport_state := ''UNKNOWN'', p_selected_node_id := None, p_qualified_nodes := 0,
          p_required_passed := 0, p_quality_class := QualityUnknown, p_functional_score := 0, p_optional_passed := 0,
          p_expires_at := None, p_updated_at := now\<rparr>
      | None \<Rightarrow> p\<lparr>p_state := (if p_state p \<in> {''UPLINK_DISABLED'', StateSubscriptionDisabled, ''UPLINK_OFFLINE''} then ''UNTESTED''
          else p_state p), p_updated_at := now\<rparr>)"

definition cell_parents :: "db \<Rightarrow> sub_path_row \<Rightarrow> (uplink_row \<times> subscription_row) option" where
  "cell_parents D p = first_row [(u, s). u \<leftarrow> uplinks D, s \<leftarrow> subscriptions D, u_id u = p_uplink_id p \<and> s_id s = p_subscription_id p]"

definition refreshed :: "db \<Rightarrow> string \<Rightarrow> sub_path_row \<Rightarrow> sub_path_row" where
  "refreshed D now p = (case cell_parents D p of None \<Rightarrow> p | Some (u, s) \<Rightarrow> refresh_cell now u s p)"

definition ReconcileCells :: "instant \<Rightarrow> fault \<Rightarrow> db \<Rightarrow> db \<times> unit result" where
  "ReconcileCells nowTime f D =
     (if f \<noteq> NoFault then (D, Inl ErrDriver)
      else let now = format_time nowTime;
               pairs = [(u, s). u \<leftarrow> uplinks D, s \<leftarrow> subscriptions D];
               r = bind_result (current_path_policy D) (\<lambda>g.
                   bind_result (insert_cells D g now pairs (subscription_uplink_paths D)) (\<lambda>ps.
                   update_paths (\<lambda>p. cell_parents D p \<noteq> None) (refreshed D now) (D\<lparr>subscription_uplink_paths := ps\<rparr>)))
        in case r of Inl e \<Rightarrow> (D, Inl e) | Inr (D', _) \<Rightarrow> (D', Inr ()))"

section \<open>Reading cells\<close>

definition scanCell :: "sub_path_row \<Rightarrow> uplink_row \<Rightarrow> subscription_row \<Rightarrow> matrix_cell" where
  "scanCell p u s = (let hilink = (u_type u = ''HILINK'') in
     \<lparr>ClID = p_id p, ClUplinkID = p_uplink_id p, ClUplinkDisplayNumber = u_display_number u, ClUplinkType = u_type u,
      ClUplinkName = u_name u, ClUplinkPriority = u_priority u, ClModemID = (if hilink then p_uplink_id p else []),
      ClModemDisplayNumber = (if hilink then u_display_number u else 0), ClModemName = (if hilink then u_name u else []),
      ClModemPriority = (if hilink then u_priority u else 0), ClSubscriptionID = p_subscription_id p,
      ClSubscriptionName = s_name s, ClSubscriptionPriority = s_priority s, ClState = p_state p,
      ClTransportState = p_transport_state p, ClSelectedNodeID = null_str (p_selected_node_id p),
      ClCandidateNodes = p_candidate_nodes p, ClQualifiedNodes = p_qualified_nodes p,
      ClRequiredTargetsPassed = p_required_passed p, ClRequiredTargetsTotal = p_required_total p,
      ClOptionalTargetsPassed = p_optional_passed p, ClOptionalTargetsTotal = p_optional_total p,
      ClQualityClass = p_quality_class p, ClFunctionalScore = p_functional_score p,
      ClLatencyMS = (case p_latency_ms p of None \<Rightarrow> 0 | Some l \<Rightarrow> l), ClPolicyGeneration = p_policy_generation p,
      ClRouteGeneration = p_route_generation p, ClLastCheckedAt = null_str (p_last_checked_at p),
      ClExpiresAt = null_str (p_expires_at p), ClCreatedAt = p_created_at p, ClUpdatedAt = p_updated_at p\<rparr>)"

definition cell_rows :: "db \<Rightarrow> (sub_path_row \<times> uplink_row \<times> subscription_row) list" where
  "cell_rows D = [(p, u, s). p \<leftarrow> subscription_uplink_paths D, u \<leftarrow> uplinks D, s \<leftarrow> subscriptions D,
     u_id u = p_uplink_id p \<and> s_id s = p_subscription_id p]"

definition cell_order :: "sub_path_row \<times> uplink_row \<times> subscription_row \<Rightarrow> sub_path_row \<times> uplink_row \<times> subscription_row \<Rightarrow> bool" where
  "cell_order = (\<lambda>(p, u, s) (p', u', s').
     if u_priority u \<noteq> u_priority u' then u_priority u < u_priority u'
     else if s_priority s \<noteq> s_priority s' then s_priority s < s_priority s'
     else u_display_number u < u_display_number u')"

definition ListCells :: "fault \<Rightarrow> db \<Rightarrow> matrix_cell list result" where
  "ListCells f D = (if f \<noteq> NoFault then Inl ErrDriver
     else Inr (map (\<lambda>(p, u, s). scanCell p u s) (sort_stable cell_order (cell_rows D))))"

definition get_cell :: "fault \<Rightarrow> (sub_path_row \<Rightarrow> bool) \<Rightarrow> db \<Rightarrow> matrix_cell result" where
  "get_cell f hit D = (if f \<noteq> NoFault then Inl ErrDriver
     else case first_row (filter (\<lambda>(p, u, s). hit p) (cell_rows D)) of
       None \<Rightarrow> Inl ErrNotFound | Some (p, u, s) \<Rightarrow> Inr (scanCell p u s))"

definition GetCell :: "fault \<Rightarrow> string \<Rightarrow> string \<Rightarrow> db \<Rightarrow> matrix_cell result" where
  "GetCell f uplinkID subscriptionID = get_cell f (\<lambda>p. p_uplink_id p = uplinkID \<and> p_subscription_id p = subscriptionID)"

definition GetByID :: "fault \<Rightarrow> string \<Rightarrow> db \<Rightarrow> matrix_cell result" where
  "GetByID f pathID D = (if pathID = [] then Inl (ErrMsg ''path id is required'') else get_cell f (\<lambda>p. p_id p = pathID) D)"

section \<open>Writing a result\<close>

definition validResultState :: "string \<Rightarrow> bool" where
  "validResultState st \<longleftrightarrow> st \<in> {StateProbing, StateQualified, StateDegraded, StateFailed, StateStale}"

definition validateResultUpdate :: "result_update \<Rightarrow> unit result" where
  "validateResultUpdate x =
     (if RuPathID x = [] then Inl (ErrMsg ''path id is required'')
      else if \<not> validResultState (RuState x) then Inl (ErrFmt ''invalid path result state %q'' [RuState x])
      else if RuCandidateNodes x < 0 \<or> RuQualifiedNodes x < 0 \<or> RuRequiredPassed x < 0 \<or> RuRequiredTotal x < 0
              \<or> RuOptionalPassed x < 0 \<or> RuOptionalTotal x < 0 \<or> RuFunctionalScore x < 0 \<or> RuLatencyMS x < 0
      then Inl (ErrMsg ''path result counters cannot be negative'')
      else if RuQualifiedNodes x > RuCandidateNodes x
      then Inl (ErrMsg ''qualified node count cannot exceed candidate node count'')
      else if RuRequiredPassed x > RuRequiredTotal x then Inl (ErrMsg ''passed target count cannot exceed total target count'')
      else if RuOptionalPassed x > RuOptionalTotal x
      then Inl (ErrMsg ''passed optional target count cannot exceed total target count'')
      else if RuQualityClass x \<notin> {QualityOther [], QualityUnknown, QualityFull, QualityLimited, QualityFailed}
      then Inl (ErrMsg ''path result quality class is invalid'')
      else if RuQualityClass x = QualityFull \<and> RuState x \<noteq> StateQualified
      then Inl (ErrMsg ''FULL path result requires QUALIFIED state'')
      else if RuQualityClass x = QualityLimited \<and> (RuState x \<noteq> StateDegraded \<or> RuTransportState x \<noteq> ''PASSED''
              \<or> RuSelectedNodeID x = [] \<or> RuFunctionalScore x \<le> 0 \<or> RuRequiredPassed x = RuRequiredTotal x)
      then Inl (ErrMsg ''LIMITED path result requires a selected degraded path with partial access and positive score'')
      else if RuQualityClass x = QualityFailed \<and> RuState x \<noteq> StateFailed
      then Inl (ErrMsg ''FAILED path result requires FAILED state'')
      else if \<not> is_zero (RuExpiresAt x) \<and> \<not> is_zero (RuLastCheckedAt x) \<and> \<not> RuExpiresAt x > RuLastCheckedAt x
      then Inl (ErrMsg ''path result expiry must be after check time'')
      else guard_err (RuState x = StateQualified \<and> (RuTransportState x \<noteq> ''PASSED'' \<or> RuSelectedNodeID x = [] \<or> RuQualifiedNodes x = 0
              \<or> RuRequiredTotal x = 0 \<or> RuRequiredPassed x \<noteq> RuRequiredTotal x))
        (ErrMsg ''qualified path requires passed transport, selected node, qualified candidate, and all required targets''))"

definition resultQuality :: "result_update \<Rightarrow> quality \<times> int" where
  "resultQuality x =
     (let score = wrap64 (wrap64 (RuRequiredPassed x * 1000) + RuOptionalPassed x)
      in if RuQualityClass x \<noteq> QualityOther [] then (RuQualityClass x, RuFunctionalScore x)
         else if RuState x = StateQualified then (QualityFull, score)
         else if RuState x = StateDegraded then (QualityLimited, if score = 0 \<and> RuTransportState x = ''PASSED'' then 1 else score)
         else if RuState x = StateFailed then (QualityFailed, 0)
         else (QualityUnknown, 0))"

definition result_hit :: "string \<Rightarrow> int \<Rightarrow> int \<Rightarrow> sub_path_row \<Rightarrow> bool" where
  "result_hit pathID pg rg p \<longleftrightarrow> p_id p = pathID \<and> p_policy_generation p = pg \<and> p_route_generation p = rg"

definition result_row :: "result_update \<Rightarrow> string \<Rightarrow> sub_path_row \<Rightarrow> sub_path_row" where
  "result_row x now p = p\<lparr>p_state := RuState x, p_transport_state := RuTransportState x,
     p_selected_node_id := nullIfEmpty (RuSelectedNodeID x), p_candidate_nodes := RuCandidateNodes x,
     p_qualified_nodes := RuQualifiedNodes x, p_required_passed := RuRequiredPassed x, p_required_total := RuRequiredTotal x,
     p_optional_passed := RuOptionalPassed x, p_optional_total := RuOptionalTotal x,
     p_quality_class := fst (resultQuality x), p_functional_score := snd (resultQuality x),
     p_latency_ms := nullIfZero (RuLatencyMS x), p_last_checked_at := formatOptionalTime (RuLastCheckedAt x),
     p_expires_at := formatOptionalTime (RuExpiresAt x), p_updated_at := now\<rparr>"

text \<open>An UPDATE that has to hit exactly one row; anything else is a stale generation.\<close>

definition update_one :: "(sub_path_row \<Rightarrow> bool) \<Rightarrow> (sub_path_row \<Rightarrow> sub_path_row) \<Rightarrow> db \<Rightarrow> db result" where
  "update_one hit change D = bind_result (update_paths hit change D) (\<lambda>(D', n). if n \<noteq> 1 then Inl ErrStaleGeneration else Inr D')"

text \<open>
  \<open>UpdateResult\<close> runs outside of a transaction: an UPDATE that hits several rows would stay, which the primary key excludes.
\<close>

definition UpdateResult :: "instant \<Rightarrow> fault \<Rightarrow> result_update \<Rightarrow> db \<Rightarrow> db \<times> unit result" where
  "UpdateResult nowTime f x D =
     (case validateResultUpdate x of
        Inl e \<Rightarrow> (D, Inl e)
      | Inr _ \<Rightarrow>
        if f \<noteq> NoFault then (D, Inl ErrDriver)
        else case update_paths (result_hit (RuPathID x) (RuPolicyGeneration x) (RuRouteGeneration x)) (result_row x (format_time nowTime)) D of
          Inl e \<Rightarrow> (D, Inl e)
        | Inr (D', n) \<Rightarrow> (D', if n \<noteq> 1 then Inl ErrStaleGeneration else Inr ()))"

section \<open>Taking evidence away\<close>

definition route_stale_path :: "int \<Rightarrow> string \<Rightarrow> sub_path_row \<Rightarrow> sub_path_row" where
  "route_stale_path rg now p = p\<lparr>p_route_generation := rg, p_state := StateStale, p_transport_state := ''UNKNOWN'',
     p_selected_node_id := None, p_qualified_nodes := 0, p_required_passed := 0, p_optional_passed := 0,
     p_quality_class := QualityUnknown, p_functional_score := 0, p_last_checked_at := None, p_expires_at := None, p_updated_at := now\<rparr>"

definition route_stale_direct :: "int \<Rightarrow> string \<Rightarrow> direct_path_row \<Rightarrow> direct_path_row" where
  "route_stale_direct rg now p = p\<lparr>d_route_generation := rg, d_state := StateStale, d_transport_state := ''UNKNOWN'',
     d_quality_class := QualityUnknown, d_functional_score := 0, d_required_passed := 0, d_optional_passed := 0,
     d_last_checked_at := None, d_expires_at := None, d_updated_at := now\<rparr>"

text \<open>Ids of uplinks are unique, so that the subquery reads the row that was updated; generations stay below the range of SQLite.\<close>

definition BumpRouteGeneration :: "instant \<Rightarrow> fault \<Rightarrow> string \<Rightarrow> db \<Rightarrow> db \<times> unit result" where
  "BumpRouteGeneration nowTime f uplinkID D =
     (if f \<noteq> NoFault then (D, Inl ErrDriver)
      else let now = format_time nowTime in
        case filter (\<lambda>u. u_id u = uplinkID) (uplinks D) of
          [u] \<Rightarrow>
            let rg = u_route_generation u + 1;
                D1 = D\<lparr>uplinks := map (\<lambda>u. if u_id u = uplinkID then u\<lparr>u_route_generation := u_route_generation u + 1\<rparr> else u) (uplinks D)\<rparr>
            in (case update_paths (\<lambda>p. p_uplink_id p = uplinkID) (route_stale_path rg now) D1 of
                  Inl e \<Rightarrow> (D, Inl e)
                | Inr (D2, _) \<Rightarrow> (D2\<lparr>direct_uplink_paths := map (\<lambda>p. if d_uplink_id p = uplinkID then route_stale_direct rg now p else p)
                     (direct_uplink_paths D2)\<rparr>, Inr ()))
        | _ \<Rightarrow> (D, Inl ErrNotFound))"

definition BumpPolicyGeneration :: "instant \<Rightarrow> fault \<Rightarrow> db \<Rightarrow> db \<times> int result" where
  "BumpPolicyGeneration nowTime f D =
     (if f \<noteq> NoFault then (D, Inl ErrDriver)
      else case InvalidatePathPolicy (format_time nowTime) D of
        Inl e \<Rightarrow> (D, Inl e)
      | Inr (g, D') \<Rightarrow> (D', Inr g))"

definition offline_path :: "string \<Rightarrow> sub_path_row \<Rightarrow> sub_path_row" where
  "offline_path now p = p\<lparr>p_state := ''UPLINK_OFFLINE'', p_transport_state := ''UNKNOWN'', p_selected_node_id := None,
     p_qualified_nodes := 0, p_required_passed := 0, p_optional_passed := 0, p_quality_class := QualityUnknown,
     p_functional_score := 0, p_expires_at := None, p_updated_at := now\<rparr>"

definition MarkUplinkOffline :: "instant \<Rightarrow> fault \<Rightarrow> string \<Rightarrow> db \<Rightarrow> db \<times> unit result" where
  "MarkUplinkOffline nowTime f uplinkID D =
     (if f \<noteq> NoFault then (D, Inl ErrDriver)
      else case update_paths (\<lambda>p. p_uplink_id p = uplinkID) (offline_path (format_time nowTime)) D of
        Inl e \<Rightarrow> (D, Inl e)
      | Inr (D', n) \<Rightarrow> (D', if n = 0 then Inl ErrNotFound else Inr ()))"

definition MarkModemOffline :: "instant \<Rightarrow> fault \<Rightarrow> string \<Rightarrow> db \<Rightarrow> db \<times> unit result" where
  "MarkModemOffline = MarkUplinkOffline"

end
