(* ===== verification/Node_Qualifier.thy ===== *)
theory Node_Qualifier
  imports Go_Prelude Go_Time
begin

text \<open>
  \<open>internal/health/qualifier.go\<close>: which node of a path is selected, by probing the nodes against the required and
  optional targets.

  The prober and the context are parameters: what each probe returns, and whether the context is done when the code
  looks at it. The goroutines of \<open>qualifyCandidates\<close> share nothing and write to their own index, so their
  results are those of a map over the candidates. Latencies are 64-bit sums; counts of targets are far below the range of
  \<open>int\<close> and are plain numbers.
\<close>

section \<open>Data\<close>

abbreviation CellQualified :: string where "CellQualified \<equiv> ''QUALIFIED''"
abbreviation CellDegraded :: string where "CellDegraded \<equiv> ''DEGRADED''"
abbreviation CellFailed :: string where "CellFailed \<equiv> ''FAILED''"
abbreviation NodeQualified :: string where "NodeQualified \<equiv> ''BYPASS_QUALIFIED''"
abbreviation NodeLimited :: string where "NodeLimited \<equiv> ''BYPASS_LIMITED''"
abbreviation NodeFailed :: string where "NodeFailed \<equiv> ''BYPASS_FAILED''"
abbreviation NodeCancelled :: string where "NodeCancelled \<equiv> ''CANCELLED''"
abbreviation ProbePassed :: string where "ProbePassed \<equiv> ''PASSED''"
abbreviation ProbeFailed :: string where "ProbeFailed \<equiv> ''FAILED''"

record h_target =
  TgID :: string
  TgName :: string
  TgURL :: string
  TgPriority :: int
  TgRequired :: bool
  TgTimeout :: duration
  TgExpectedStatus :: string
  TgExpectedBodySubstring :: string

record h_candidate =
  CaNodeID :: string
  CaFingerprint :: string
  CaProviderNodeName :: string

record h_path =
  PaID :: string
  PaModemID :: string
  PaSubscriptionID :: string
  PaProviderName :: string
  PaProbeGroupName :: string
  PaPreferredNodeID :: string
  PaPreferredNodeIDs :: "string list"
  PaCandidates :: "h_candidate list"

record probe_result =
  PrState :: string
  PrLatencyMS :: int
  PrHTTPStatus :: int
  PrErrorCode :: string

record target_result =
  TrTargetID :: string
  TrRequired :: bool
  TrState :: string
  TrLatencyMS :: int
  TrHTTPStatus :: int
  TrErrorCode :: string

record node_result =
  NrNodeID :: string
  NrFingerprint :: string
  NrState :: string
  NrTransport :: probe_result
  NrTargets :: "target_result list"
  RequiredPassed :: nat
  RequiredTotal :: nat
  OptionalPassed :: nat
  OptionalTotal :: nat
  AggregateLatencyMS :: int

record cell_result =
  CePathID :: string
  CeModemID :: string
  CeSubscriptionID :: string
  CeState :: string
  CeTransportState :: string
  SelectedNodeID :: string
  CandidateNodes :: nat
  QualifiedNodes :: nat
  RequiredTargetsPassed :: nat
  RequiredTargetsTotal :: nat
  OptionalTargetsPassed :: nat
  OptionalTargetsTotal :: nat
  FunctionalScore :: int
  CeLatencyMS :: int
  CeNodes :: "node_result list"

text \<open>\<open>ctx_*\<close>: the context is done before a target is probed, while waiting for a slot, after a preferred node, at the end.\<close>

record prober =
  ProbeTransport :: "h_path \<Rightarrow> h_candidate \<Rightarrow> probe_result"
  ProbeTarget :: "h_path \<Rightarrow> h_candidate \<Rightarrow> h_target \<Rightarrow> probe_result"
  ctx_target :: "h_candidate \<Rightarrow> h_target \<Rightarrow> bool"
  ctx_slot :: "h_candidate \<Rightarrow> bool"
  ctx_preferred :: "h_candidate \<Rightarrow> bool"
  ctx_end :: bool

section \<open>One node\<close>

definition no_probe :: probe_result where
  "no_probe = \<lparr>PrState = [], PrLatencyMS = 0, PrHTTPStatus = 0, PrErrorCode = []\<rparr>"

definition new_node :: "h_candidate \<Rightarrow> string \<Rightarrow> nat \<Rightarrow> nat \<Rightarrow> node_result" where
  "new_node c st req opt = \<lparr>NrNodeID = CaNodeID c, NrFingerprint = CaFingerprint c, NrState = st, NrTransport = no_probe,
     NrTargets = [], RequiredPassed = 0, RequiredTotal = req, OptionalPassed = 0, OptionalTotal = opt, AggregateLatencyMS = 0\<rparr>"

definition target_outcome :: "h_target \<Rightarrow> probe_result \<Rightarrow> target_result" where
  "target_outcome t p = \<lparr>TrTargetID = TgID t, TrRequired = TgRequired t, TrState = PrState p, TrLatencyMS = PrLatencyMS p,
     TrHTTPStatus = PrHTTPStatus p, TrErrorCode = PrErrorCode p\<rparr>"

definition passed_target :: "h_target \<Rightarrow> probe_result \<Rightarrow> node_result \<Rightarrow> node_result" where
  "passed_target t p r =
     (let r = r\<lparr>AggregateLatencyMS := wrap64 (AggregateLatencyMS r + PrLatencyMS p)\<rparr>
      in if TgRequired t then r\<lparr>RequiredPassed := RequiredPassed r + 1\<rparr> else r\<lparr>OptionalPassed := OptionalPassed r + 1\<rparr>)"

text \<open>The state of a node whose targets were all probed.\<close>

definition final_state :: "node_result \<Rightarrow> node_result" where
  "final_state r =
     (if RequiredPassed r = RequiredTotal r then r\<lparr>NrState := NodeQualified\<rparr>
      else if RequiredPassed r + OptionalPassed r > 0 then r\<lparr>NrState := NodeLimited\<rparr> else r)"

fun qualify_targets :: "prober \<Rightarrow> h_path \<Rightarrow> h_candidate \<Rightarrow> bool \<Rightarrow> h_target list \<Rightarrow> node_result \<Rightarrow> node_result" where
  "qualify_targets E path c continue [] r = final_state r"
| "qualify_targets E path c continue (t # ts) r =
     (if ctx_target E c t then r\<lparr>NrState := NodeCancelled\<rparr>
      else let p = ProbeTarget E path c t; r = r\<lparr>NrTargets := NrTargets r @ [target_outcome t p]\<rparr>
        in if PrState p = ProbePassed then qualify_targets E path c continue ts (passed_target t p r)
           else if TgRequired t \<and> \<not> continue then r
           else qualify_targets E path c continue ts r)"

definition qualifyNode :: "prober \<Rightarrow> h_path \<Rightarrow> h_candidate \<Rightarrow> h_target list \<Rightarrow> nat \<Rightarrow> nat \<Rightarrow> bool \<Rightarrow> node_result" where
  "qualifyNode E path c targets req opt continue =
     (let r = (new_node c NodeFailed req opt)\<lparr>NrTransport := ProbeTransport E path c\<rparr>
      in if PrState (NrTransport r) \<noteq> ProbePassed then r
         else qualify_targets E path c continue targets (r\<lparr>AggregateLatencyMS := PrLatencyMS (NrTransport r)\<rparr>))"

definition nodeFunctionalScore :: "node_result \<Rightarrow> int" where
  "nodeFunctionalScore r = int (RequiredPassed r * 1000 + OptionalPassed r)"

section \<open>Targets\<close>

fun check_targets :: "string list \<Rightarrow> h_target list \<Rightarrow> unit result" where
  "check_targets seen [] = Inr ()"
| "check_targets seen (t # ts) =
     (if TgID t = [] \<or> TgURL t = [] \<or> TgTimeout t \<le> 0 \<or> TgTimeout t > 60 * second
      then Inl (ErrFmt ''invalid probe target %q'' [TgID t])
      else if TgID t \<in> set seen then Inl (ErrFmt ''duplicate probe target %q'' [TgID t])
      else check_targets (TgID t # seen) ts)"

definition validateTargets :: "h_target list \<Rightarrow> (h_target list \<times> nat \<times> nat) result" where
  "validateTargets targets =
     (let ordered = sort_stable (\<lambda>a b. TgPriority a < TgPriority b) targets
      in bind_result (check_targets [] ordered) (\<lambda>_.
           Inr (ordered, length (filter TgRequired ordered), length (filter (\<lambda>t. \<not> TgRequired t) ordered))))"

section \<open>The cell\<close>

text \<open>The preferred nodes in order, each once.\<close>

fun first_seen :: "string list \<Rightarrow> string list \<Rightarrow> string list" where
  "first_seen seen [] = []"
| "first_seen seen (x # xs) = (if x = [] \<or> x \<in> set seen then first_seen seen xs else x # first_seen (x # seen) xs)"

definition preferred_ids :: "h_path \<Rightarrow> string list" where
  "preferred_ids path = first_seen [] (PaPreferredNodeID path # PaPreferredNodeIDs path)"

text \<open>\<open>preferredRank\<close>: the position of a preferred node.\<close>

fun position :: "string \<Rightarrow> string list \<Rightarrow> nat option" where
  "position x [] = None"
| "position x (y # ys) = (if x = y then Some 0 else map_option Suc (position x ys))"

definition betterQualified :: "node_result \<Rightarrow> node_result \<Rightarrow> bool" where
  "betterQualified a b \<longleftrightarrow> AggregateLatencyMS a < AggregateLatencyMS b
     \<or> AggregateLatencyMS a = AggregateLatencyMS b \<and> NrNodeID a < NrNodeID b"

definition betterLimitedNode :: "string list \<Rightarrow> node_result \<Rightarrow> node_result \<Rightarrow> bool" where
  "betterLimitedNode preferred candidate current =
     (if nodeFunctionalScore candidate \<noteq> nodeFunctionalScore current
      then nodeFunctionalScore candidate > nodeFunctionalScore current
      else (case (position (NrNodeID candidate) preferred, position (NrNodeID current) preferred) of
          (Some _, None) \<Rightarrow> True
        | (None, Some _) \<Rightarrow> False
        | (Some i, Some j) \<Rightarrow> if i \<noteq> j then i < j else betterQualified candidate current
        | (None, None) \<Rightarrow> betterQualified candidate current))"

definition chosen :: "string \<Rightarrow> node_result \<Rightarrow> cell_result \<Rightarrow> cell_result" where
  "chosen st best cell = cell\<lparr>CeState := st, SelectedNodeID := NrNodeID best, RequiredTargetsPassed := RequiredPassed best,
     OptionalTargetsPassed := OptionalPassed best, FunctionalScore := nodeFunctionalScore best, CeLatencyMS := AggregateLatencyMS best\<rparr>"

definition failed_cell :: "h_path \<Rightarrow> nat \<Rightarrow> nat \<Rightarrow> nat \<Rightarrow> cell_result" where
  "failed_cell path n req opt = \<lparr>CePathID = PaID path, CeModemID = PaModemID path, CeSubscriptionID = PaSubscriptionID path,
     CeState = CellFailed, CeTransportState = ProbeFailed, SelectedNodeID = [], CandidateNodes = n, QualifiedNodes = 0,
     RequiredTargetsPassed = 0, RequiredTargetsTotal = req, OptionalTargetsPassed = 0, OptionalTargetsTotal = opt,
     FunctionalScore = 0, CeLatencyMS = 0, CeNodes = []\<rparr>"

definition buildCellResult :: "h_path \<Rightarrow> nat \<Rightarrow> nat \<Rightarrow> nat \<Rightarrow> node_result list \<Rightarrow> cell_result" where
  "buildCellResult path n req opt results =
     (let qualified = filter (\<lambda>r. NrState r = NodeQualified) results;
          limited = filter (\<lambda>r. NrState r = NodeLimited) results;
          cell = (failed_cell path n req opt)\<lparr>
            CeTransportState := (if list_ex (\<lambda>r. PrState (NrTransport r) = ProbePassed) results then ProbePassed else ProbeFailed),
            QualifiedNodes := length qualified, CeNodes := results\<rparr>
      in case best_of betterQualified None qualified of
           Some best \<Rightarrow> chosen CellQualified best cell
         | None \<Rightarrow> (case best_of (betterLimitedNode (preferred_ids path)) None limited of
             Some best \<Rightarrow> chosen CellDegraded best cell
           | None \<Rightarrow> cell))"

definition qualifyCandidates :: "prober \<Rightarrow> h_path \<Rightarrow> h_candidate list \<Rightarrow> h_target list \<Rightarrow> nat \<Rightarrow> nat \<Rightarrow> bool \<Rightarrow> node_result list result" where
  "qualifyCandidates E path cs targets req opt continue =
     (if cs = [] then Inr []
      else if ctx_end E then Inl ErrDriver
      else Inr (map (\<lambda>c. if ctx_slot E c then new_node c NodeCancelled req opt
                         else qualifyNode E path c targets req opt continue) cs))"

text \<open>
  The loop over the preferred nodes: the first candidate with the preferred id is probed alone and removed; a qualified
  one ends the search (\<open>True\<close>).
\<close>

fun preferred_loop :: "prober \<Rightarrow> h_path \<Rightarrow> (h_candidate \<Rightarrow> node_result) \<Rightarrow> string list \<Rightarrow> h_candidate list \<Rightarrow> node_result list
    \<Rightarrow> (node_result list \<times> h_candidate list \<times> bool) result" where
  "preferred_loop E path q [] cs results = Inr (results, cs, False)"
| "preferred_loop E path q (i # is) cs results =
     (case find (\<lambda>c. CaNodeID c = i) cs of
        None \<Rightarrow> preferred_loop E path q is cs results
      | Some c \<Rightarrow>
          if ctx_preferred E c then Inl ErrDriver
          else let r = q c in
            if NrState r = NodeQualified then Inr (results @ [r], remove1 c cs, True)
            else preferred_loop E path q is (remove1 c cs) (results @ [r]))"

definition QualifyCell :: "prober \<Rightarrow> bool \<Rightarrow> h_path \<Rightarrow> h_target list \<Rightarrow> cell_result result" where
  "QualifyCell E continue path targets =
     (if PaID path = [] \<or> PaModemID path = [] \<or> PaSubscriptionID path = [] \<or> PaProviderName path = []
      then Inl (ErrMsg ''complete path identity is required'')
      else bind_result (validateTargets targets) (\<lambda>(ordered, req, opt).
        if req = 0 then Inl (ErrMsg ''at least one required bypass target is required'')
        else if PaCandidates path = [] then Inr (failed_cell path 0 req opt)
        else bind_result (preferred_loop E path (\<lambda>c. qualifyNode E path c ordered req opt continue) (preferred_ids path) (PaCandidates path) [])
          (\<lambda>(results, cs, found).
             if found then Inr (buildCellResult path (length (PaCandidates path)) req opt results)
             else bind_result (qualifyCandidates E path cs ordered req opt continue) (\<lambda>remaining.
               Inr (buildCellResult path (length (PaCandidates path)) req opt (results @ remaining))))))"

section \<open>Preferences\<close>

interpretation qualified_order: strict_preference "\<lambda>_. True" betterQualified
  by unfold_locales (auto simp: betterQualified_def)

text \<open>\<open>betterLimitedNode\<close> compares the score, then the position among the preferred nodes, then as \<open>betterQualified\<close>.\<close>

definition limited_key :: "string list \<Rightarrow> node_result \<Rightarrow> int \<times> nat" where
  "limited_key preferred r = (- nodeFunctionalScore r,
     case position (NrNodeID r) preferred of None \<Rightarrow> length preferred | Some i \<Rightarrow> i)"

lemma position_less: "position x xs = Some i \<Longrightarrow> i < length xs"
  by (induction xs arbitrary: i) (auto split: if_splits)

lemma betterLimited_key:
  "betterLimitedNode preferred a b \<longleftrightarrow>
     fst (limited_key preferred a) < fst (limited_key preferred b)
     \<or> fst (limited_key preferred a) = fst (limited_key preferred b)
       \<and> (snd (limited_key preferred a) < snd (limited_key preferred b)
          \<or> snd (limited_key preferred a) = snd (limited_key preferred b) \<and> betterQualified a b)"
  using position_less[of "NrNodeID a" preferred] position_less[of "NrNodeID b" preferred]
  by (auto simp: betterLimitedNode_def limited_key_def split: option.splits)

interpretation limited_order: strict_preference "\<lambda>_. True" "betterLimitedNode preferred" for preferred
proof unfold_locales
  fix x y z :: node_result
  show "betterLimitedNode preferred x y \<Longrightarrow> \<not> betterLimitedNode preferred y x"
    unfolding betterLimited_key using qualified_order.better_asym by force
  show "betterLimitedNode preferred x z \<Longrightarrow> betterLimitedNode preferred x y \<or> betterLimitedNode preferred y z"
    unfolding betterLimited_key using qualified_order.better_cotrans[of x z y]
    by (cases rule: linorder_cases[of "fst (limited_key preferred x)" "fst (limited_key preferred y)"];
        cases rule: linorder_cases[of "snd (limited_key preferred x)" "snd (limited_key preferred y)"]; force)
qed

section \<open>When a node qualifies\<close>

definition required_passed :: "prober \<Rightarrow> h_path \<Rightarrow> h_candidate \<Rightarrow> h_target list \<Rightarrow> bool" where
  "required_passed E path c ts \<longleftrightarrow> (\<forall>t\<in>set ts. TgRequired t \<longrightarrow> PrState (ProbeTarget E path c t) = ProbePassed)"

text \<open>The node answers and passes every required target.\<close>

definition working :: "prober \<Rightarrow> h_path \<Rightarrow> h_candidate \<Rightarrow> h_target list \<Rightarrow> bool" where
  "working E path c ts \<longleftrightarrow> PrState (ProbeTransport E path c) = ProbePassed \<and> required_passed E path c ts"

lemma passed_target_fields [simp]:
  "RequiredTotal (passed_target t p r) = RequiredTotal r" "NrState (passed_target t p r) = NrState r"
  "RequiredPassed (passed_target t p r) = RequiredPassed r + (if TgRequired t then 1 else 0)"
  by (simp_all add: passed_target_def Let_def)

lemma too_few_required:
  "NrState r \<noteq> NodeQualified \<Longrightarrow> RequiredPassed r + length (filter TgRequired ts) < RequiredTotal r
    \<Longrightarrow> NrState (qualify_targets E path c continue ts r) \<noteq> NodeQualified"
proof (induction ts arbitrary: r)
  case Nil
  then show ?case by (simp add: final_state_def)
next
  case (Cons t ts)
  let ?p = "ProbeTarget E path c t" and ?r = "r\<lparr>NrTargets := NrTargets r @ [target_outcome t (ProbeTarget E path c t)]\<rparr>"
  have "NrState (qualify_targets E path c continue ts (passed_target t ?p ?r)) \<noteq> NodeQualified"
    "NrState (qualify_targets E path c continue ts ?r) \<noteq> NodeQualified"
    using Cons.prems by (intro Cons.IH; simp split: if_splits)+
  then show ?case using Cons.prems(1) by (simp add: Let_def)
qed

lemma qualify_targets_iff:
  assumes "\<And>t. \<not> ctx_target E c t"
  shows "NrState r \<noteq> NodeQualified \<Longrightarrow> RequiredPassed r + length (filter TgRequired ts) = RequiredTotal r
    \<Longrightarrow> NrState (qualify_targets E path c continue ts r) = NodeQualified \<longleftrightarrow> required_passed E path c ts"
proof (induction ts arbitrary: r)
  case Nil
  then show ?case by (simp add: final_state_def required_passed_def)
next
  case (Cons t ts)
  let ?p = "ProbeTarget E path c t" and ?r = "r\<lparr>NrTargets := NrTargets r @ [target_outcome t (ProbeTarget E path c t)]\<rparr>"
  show ?case
  proof (cases "TgRequired t \<and> PrState ?p \<noteq> ProbePassed")
    case True
    then have "NrState (qualify_targets E path c continue ts ?r) \<noteq> NodeQualified"
      using Cons.prems by (intro too_few_required) simp_all
    then show ?thesis using True Cons.prems(1) assms by (cases continue) (simp_all add: required_passed_def Let_def)
  next
    case False
    have "NrState (qualify_targets E path c continue ts (passed_target t ?p ?r)) = NodeQualified \<longleftrightarrow> required_passed E path c ts"
      using Cons.prems by (intro Cons.IH) (simp_all split: if_splits)
    moreover have "NrState (qualify_targets E path c continue ts ?r) = NodeQualified \<longleftrightarrow> required_passed E path c ts" if "\<not> TgRequired t"
      using Cons.prems that by (intro Cons.IH) simp_all
    ultimately show ?thesis
      using False assms by (cases "PrState ?p = ProbePassed") (simp_all add: required_passed_def Let_def)
  qed
qed

lemma qualify_targets_id [simp]: "NrNodeID (qualify_targets E path c continue ts r) = NrNodeID r"
  by (induction ts arbitrary: r) (auto simp: final_state_def passed_target_def Let_def)

lemma qualifyNode_iff:
  assumes "\<And>t. \<not> ctx_target E c t" "req = length (filter TgRequired ts)"
  shows "NrState (qualifyNode E path c ts req opt continue) = NodeQualified \<longleftrightarrow> working E path c ts"
    and "NrNodeID (qualifyNode E path c ts req opt continue) = CaNodeID c"
  using assms by (auto simp: qualifyNode_def working_def new_node_def Let_def qualify_targets_iff)

section \<open>Which node is selected\<close>

lemma preferred_loop_results:
  assumes "preferred_loop E path q is cs rs = Inr (rs', cs', found)"
  shows "\<exists>probed. mset cs = mset probed + mset cs' \<and> rs' = rs @ map q probed
    \<and> (found \<longrightarrow> (\<exists>c\<in>set probed. NrState (q c) = NodeQualified))"
  using assms
proof (induction E path q "is" cs rs rule: preferred_loop.induct)
  case (1 E path q cs rs)
  then show ?case by auto
next
  case (2 E path q i "is" cs rs)
  show ?case
  proof (cases "find (\<lambda>c. CaNodeID c = i) cs")
    case None
    with 2 show ?thesis by simp
  next
    case (Some c)
    then have c: "c \<in> set cs" by (metis find_Some_iff nth_mem)
    obtain cs2 where cs2: "remove1 c cs = cs2" and ms: "mset cs = add_mset c (mset cs2)" using c by simp
    show ?thesis
    proof (cases "NrState (q c) = NodeQualified")
      case True
      with 2 Some have "rs' = rs @ [q c]" "cs' = cs2" "found" using cs2 by (auto split: if_splits)
      then show ?thesis using True ms by (intro exI[of _ "[c]"]) simp
    next
      case False
      with 2(3) Some have l: "preferred_loop E path q is (remove1 c cs) (rs @ [q c]) = Inr (rs', cs', found)" and ctx: "\<not> ctx_preferred E c"
        by (auto simp: Let_def split: if_splits)
      from 2(2)[OF Some ctx refl False l] obtain probed where "mset cs2 = mset probed + mset cs'"
          "rs' = (rs @ [q c]) @ map q probed" "found \<longrightarrow> (\<exists>c\<in>set probed. NrState (q c) = NodeQualified)" unfolding cs2 by blast
      then show ?thesis using ms by (intro exI[of _ "c # probed"]) auto
    qed
  qed
qed

lemma buildCellResult_cases:
  assumes cell_def: "cell = buildCellResult path n req opt results"
  shows "CeState cell = CellQualified \<longleftrightarrow> (\<exists>r\<in>set results. NrState r = NodeQualified)"
    and "CeState cell = CellQualified \<Longrightarrow> \<exists>r\<in>set results. NrState r = NodeQualified \<and> SelectedNodeID cell = NrNodeID r
      \<and> CeLatencyMS cell = AggregateLatencyMS r \<and> (\<forall>x\<in>set results. NrState x = NodeQualified \<longrightarrow> \<not> betterQualified x r)"
    and "CeNodes cell = results"
proof -
  let ?q = "filter (\<lambda>r. NrState r = NodeQualified) results"
  have none: "best_of betterQualified None ?q = None \<longleftrightarrow> ?q = []" by (simp add: best_of_None_iff)
  have some: "r \<in> set ?q \<and> (\<forall>x\<in>set ?q. \<not> betterQualified x r)" if "best_of betterQualified None ?q = Some r" for r
    using qualified_order.best_of_optimal[OF _ _ that] by simp
  show "CeNodes cell = results"
    by (simp add: cell_def buildCellResult_def Let_def chosen_def failed_cell_def split: option.split)
  show st: "CeState cell = CellQualified \<longleftrightarrow> (\<exists>r\<in>set results. NrState r = NodeQualified)"
    using none by (auto simp: cell_def buildCellResult_def Let_def chosen_def failed_cell_def filter_empty_conv split: option.splits)
  assume "CeState cell = CellQualified"
  then have "?q \<noteq> []" using st by (auto simp: filter_empty_conv)
  then obtain r where r: "best_of betterQualified None ?q = Some r" using none by auto
  then show "\<exists>r\<in>set results. NrState r = NodeQualified \<and> SelectedNodeID cell = NrNodeID r
      \<and> CeLatencyMS cell = AggregateLatencyMS r \<and> (\<forall>x\<in>set results. NrState x = NodeQualified \<longrightarrow> \<not> betterQualified x r)"
    using some[OF r] by (intro bexI[of _ r]) (auto simp: cell_def buildCellResult_def Let_def chosen_def)
qed


text \<open>The context is never done.\<close>

definition undisturbed :: "prober \<Rightarrow> bool" where
  "undisturbed E \<longleftrightarrow> (\<forall>c. \<not> ctx_slot E c \<and> \<not> ctx_preferred E c \<and> (\<forall>t. \<not> ctx_target E c t)) \<and> \<not> ctx_end E"

text \<open>The probed nodes are candidates, and either all were probed or one of them qualified.\<close>

lemma QualifyCell_Inr:
  assumes "QualifyCell E continue path targets = Inr cell" "undisturbed E" "PaCandidates path \<noteq> []"
  obtains probed ordered req opt where "cell = buildCellResult path (length (PaCandidates path)) req opt (map (\<lambda>c. qualifyNode E path c ordered req opt continue) probed)"
    "set ordered = set targets" "req = length (filter TgRequired ordered)" "set probed \<subseteq> set (PaCandidates path)"
    "set probed = set (PaCandidates path) \<or> (\<exists>c\<in>set probed. NrState (qualifyNode E path c ordered req opt continue) = NodeQualified)"
proof -
  obtain ordered req opt where v: "validateTargets targets = Inr (ordered, req, opt)" using assms(1) by (auto simp: QualifyCell_def split: if_splits)
  let ?q = "\<lambda>c. qualifyNode E path c ordered req opt continue"
  obtain results cs found where l: "preferred_loop E path ?q (preferred_ids path) (PaCandidates path) [] = Inr (results, cs, found)"
    and c: "cell = buildCellResult path (length (PaCandidates path)) req opt (results @ (if found then [] else map ?q cs))"
    using assms v
    by (auto simp: QualifyCell_def qualifyCandidates_def undisturbed_def split: if_splits)
  obtain probed where p: "mset (PaCandidates path) = mset probed + mset cs" "results = map ?q probed"
      "found \<longrightarrow> (\<exists>c\<in>set probed. NrState (?q c) = NodeQualified)"
    using preferred_loop_results[OF l] by auto
  have s: "set (PaCandidates path) = set probed \<union> set cs" using arg_cong[OF p(1), of set_mset] by simp
  show ?thesis
    by (rule that[of req opt ordered "probed @ (if found then [] else cs)"])
      (use c p s v in \<open>auto simp: validateTargets_def Let_def\<close>)
qed

lemma QualifyCell_probed:
  assumes "QualifyCell E continue path targets = Inr cell" "undisturbed E" "PaCandidates path \<noteq> []"
  obtains results where "CeNodes cell = results" "CePathID cell = PaID path"
    "CeState cell = CellQualified \<longleftrightarrow> (\<exists>r\<in>set results. NrState r = NodeQualified)"
    "(\<exists>r\<in>set results. NrState r = NodeQualified) \<longleftrightarrow> (\<exists>c\<in>set (PaCandidates path). working E path c targets)"
    "\<forall>r\<in>set results. NrState r = NodeQualified \<longrightarrow> (\<exists>c\<in>set (PaCandidates path). CaNodeID c = NrNodeID r \<and> working E path c targets)"
    "CeState cell = CellQualified \<longrightarrow> (\<exists>r\<in>set results. NrState r = NodeQualified \<and> SelectedNodeID cell = NrNodeID r
      \<and> CeLatencyMS cell = AggregateLatencyMS r \<and> (\<forall>x\<in>set results. NrState x = NodeQualified \<longrightarrow> \<not> betterQualified x r))"
proof -
  obtain probed ordered req opt where c: "cell = buildCellResult path (length (PaCandidates path)) req opt (map (\<lambda>c. qualifyNode E path c ordered req opt continue) probed)"
      and o: "set ordered = set targets" and req: "req = length (filter TgRequired ordered)" and sub: "set probed \<subseteq> set (PaCandidates path)"
      and all: "set probed = set (PaCandidates path) \<or> (\<exists>c\<in>set probed. NrState (qualifyNode E path c ordered req opt continue) = NodeQualified)"
    using QualifyCell_Inr[OF assms] .
  have q: "NrState (qualifyNode E path c ordered req opt continue) = NodeQualified \<longleftrightarrow> working E path c targets"
      "NrNodeID (qualifyNode E path c ordered req opt continue) = CaNodeID c" for c
    using qualifyNode_iff[of E c req ordered path opt continue] assms(2) req o
    by (simp_all add: undisturbed_def working_def required_passed_def)
  note b = buildCellResult_cases[OF c]
  have "CePathID cell = PaID path" by (simp add: c buildCellResult_def Let_def chosen_def failed_cell_def split: option.split)
  then show ?thesis by (rule that[OF b(3) _ b(1)]) (use all sub q b(2) in \<open>auto simp: subset_iff\<close>)
qed


section \<open>A sample\<close>

definition h_path0 :: h_path where
  "h_path0 = \<lparr>PaID = ''p1'', PaModemID = ''u1'', PaSubscriptionID = ''s1'', PaProviderName = ''prov'', PaProbeGroupName = ''g'',
     PaPreferredNodeID = [], PaPreferredNodeIDs = [''n1''],
     PaCandidates = [\<lparr>CaNodeID = ''n1'', CaFingerprint = ''f1'', CaProviderNodeName = ''one''\<rparr>,
       \<lparr>CaNodeID = ''n2'', CaFingerprint = ''f2'', CaProviderNodeName = ''two''\<rparr>]\<rparr>"

definition h_target0 :: h_target where
  "h_target0 = \<lparr>TgID = ''t1'', TgName = ''site'', TgURL = ''https://example.org'', TgPriority = 1, TgRequired = True,
     TgTimeout = second, TgExpectedStatus = ''200'', TgExpectedBodySubstring = []\<rparr>"

text \<open>The preferred node fails the target, the other one passes.\<close>

definition prober0 :: prober where
  "prober0 = \<lparr>ProbeTransport = (\<lambda>_ _. \<lparr>PrState = ProbePassed, PrLatencyMS = 5, PrHTTPStatus = 0, PrErrorCode = []\<rparr>),
     ProbeTarget = (\<lambda>_ c _. \<lparr>PrState = (if CaNodeID c = ''n2'' then ProbePassed else ProbeFailed), PrLatencyMS = 7,
       PrHTTPStatus = 200, PrErrorCode = []\<rparr>),
     ctx_target = (\<lambda>_ _. False), ctx_slot = (\<lambda>_. False), ctx_preferred = (\<lambda>_. False), ctx_end = False\<rparr>"

lemma sample_cell: "case QualifyCell prober0 False h_path0 [h_target0] of Inl _ \<Rightarrow> False | Inr cell \<Rightarrow> CeState cell = CellQualified"
  by code_simp


end
