(* ===== verification/Path_Evidence.thy ===== *)
theory Path_Evidence
  imports Path_Matrix Node_Qualifier
begin

text \<open>
  \<open>internal/pathmatrix/qualification_repository.go\<close>, \<open>health_bridge.go\<close> and \<open>target_degraded.go\<close>: how the result of a
  qualification run (\<open>Node_Qualifier\<close>) becomes rows of evidence and a cell of the matrix, and how evidence is withdrawn.

  The tables have the keys of migration 000017: \<open>uplink_path_nodes\<close> is keyed by path and node, a target result refers to
  its node row, which deletes it when it is deleted, and to a target; an INSERT that violates a foreign key is
  \<open>ErrConstraint\<close>. A transaction that fails leaves the database as it was.
\<close>

section \<open>Data\<close>

record target_evidence =
  TeTargetID :: string
  TeState :: string
  TeLatencyMS :: int
  TeHTTPStatus :: int
  TeErrorCode :: string

record node_evidence =
  NeNodeID :: string
  NeState :: string
  NeLatencyMS :: int
  NeErrorCode :: string
  NeTargets :: "target_evidence list"

record qualification_snapshot =
  QsPathID :: string
  QsPolicyGeneration :: int
  QsRouteGeneration :: int
  QsState :: string
  QsTransportState :: string
  QsSelectedNodeID :: string
  QsRequiredPassed :: int
  QsRequiredTotal :: int
  QsOptionalPassed :: int
  QsOptionalTotal :: int
  QsFunctionalScore :: int
  QsLatencyMS :: int
  QsCheckedAt :: instant
  QsExpiresAt :: instant
  QsNodes :: "node_evidence list"

record node_snapshot =
  NsPathID :: string
  NsPolicyGeneration :: int
  NsRouteGeneration :: int
  NsCandidateNodes :: int
  NsRequiredTotal :: int
  NsCheckedAt :: instant
  NsExpiresAt :: instant
  NsNode :: node_evidence

section \<open>From a qualification run\<close>

definition node_error :: "node_result \<Rightarrow> string" where
  "node_error r =
     (if PrErrorCode (NrTransport r) \<noteq> [] then PrErrorCode (NrTransport r)
      else case find (\<lambda>t. TrState t \<noteq> ProbePassed) (NrTargets r) of None \<Rightarrow> [] | Some t \<Rightarrow> TrErrorCode t)"

definition evidence_of :: "node_result \<Rightarrow> node_evidence" where
  "evidence_of r = \<lparr>NeNodeID = NrNodeID r, NeState = NrState r, NeLatencyMS = AggregateLatencyMS r, NeErrorCode = node_error r,
     NeTargets = map (\<lambda>t. \<lparr>TeTargetID = TrTargetID t, TeState = TrState t, TeLatencyMS = TrLatencyMS t, TeHTTPStatus = TrHTTPStatus t,
       TeErrorCode = TrErrorCode t\<rparr>) (NrTargets r)\<rparr>"

definition SnapshotFromHealth :: "cell_result \<Rightarrow> int \<Rightarrow> int \<Rightarrow> instant \<Rightarrow> instant \<Rightarrow> qualification_snapshot" where
  "SnapshotFromHealth r policyGeneration routeGeneration checkedAt expiresAt =
     \<lparr>QsPathID = CePathID r, QsPolicyGeneration = policyGeneration, QsRouteGeneration = routeGeneration, QsState = CeState r,
      QsTransportState = CeTransportState r, QsSelectedNodeID = SelectedNodeID r,
      QsRequiredPassed = int (cell_result.RequiredTargetsPassed r), QsRequiredTotal = int (cell_result.RequiredTargetsTotal r),
      QsOptionalPassed = int (cell_result.OptionalTargetsPassed r), QsOptionalTotal = int (cell_result.OptionalTargetsTotal r),
      QsFunctionalScore = cell_result.FunctionalScore r, QsLatencyMS = CeLatencyMS r, QsCheckedAt = checkedAt, QsExpiresAt = expiresAt,
      QsNodes = map evidence_of (CeNodes r)\<rparr>"

section \<open>Validation\<close>

fun check_evidence_targets :: "string list \<Rightarrow> target_evidence list \<Rightarrow> string \<Rightarrow> string \<Rightarrow> unit result" where
  "check_evidence_targets seen [] invalid duplicate = Inr ()"
| "check_evidence_targets seen (t # ts) invalid duplicate =
     (if TeTargetID t = [] \<or> TeLatencyMS t < 0 then Inl (ErrMsg invalid)
      else if TeTargetID t \<in> set seen then Inl (ErrMsg duplicate)
      else check_evidence_targets (TeTargetID t # seen) ts invalid duplicate)"

fun check_evidence_nodes :: "string list \<Rightarrow> node_evidence list \<Rightarrow> unit result" where
  "check_evidence_nodes seen [] = Inr ()"
| "check_evidence_nodes seen (n # ns) =
     (if NeNodeID n = [] \<or> NeState n \<notin> {NodeQualified, NodeLimited, NodeFailed} \<or> NeLatencyMS n < 0
      then Inl (ErrMsg ''invalid node qualification evidence'')
      else if NeNodeID n \<in> set seen then Inl (ErrMsg ''duplicate node qualification evidence'')
      else bind_result (check_evidence_targets [] (NeTargets n) ''invalid target qualification evidence'' ''duplicate target qualification evidence'')
        (\<lambda>_. check_evidence_nodes (NeNodeID n # seen) ns))"

definition selected_in :: "qualification_snapshot \<Rightarrow> string \<Rightarrow> bool" where
  "selected_in x st = list_ex (\<lambda>n. NeNodeID n = QsSelectedNodeID x \<and> NeState n = st) (QsNodes x)"

definition validateQualificationSnapshot :: "qualification_snapshot \<Rightarrow> unit result" where
  "validateQualificationSnapshot x =
     (if QsPathID x = [] \<or> is_zero (QsCheckedAt x) \<or> is_zero (QsExpiresAt x) \<or> \<not> QsExpiresAt x > QsCheckedAt x
      then Inl (ErrMsg ''qualification path, check time, and future expiry are required'')
      else if \<not> validResultState (QsState x) \<or> QsState x = StateProbing
      then Inl (ErrFmt ''invalid final qualification state %q'' [QsState x])
      else if QsRequiredTotal x \<le> 0 \<or> QsRequiredPassed x < 0 \<or> QsRequiredPassed x > QsRequiredTotal x \<or> QsLatencyMS x < 0
      then Inl (ErrMsg ''invalid qualification counters'')
      else bind_result (check_evidence_nodes [] (QsNodes x)) (\<lambda>_.
        if QsState x = StateQualified then
          if QsTransportState x \<noteq> ''PASSED'' \<or> QsSelectedNodeID x = [] \<or> QsRequiredPassed x \<noteq> QsRequiredTotal x
          then Inl (ErrMsg ''qualified snapshot requires passed transport, selected node, and all required targets'')
          else guard_err (\<not> selected_in x NodeQualified) (ErrMsg ''selected node is not qualified in this snapshot'')
        else if QsState x = StateDegraded then
          if QsTransportState x \<noteq> ''PASSED'' \<or> QsSelectedNodeID x = [] \<or> QsFunctionalScore x \<le> 0 \<or> QsRequiredPassed x \<ge> QsRequiredTotal x
          then Inl (ErrMsg ''degraded snapshot requires passed transport, selected node, and partial target access'')
          else guard_err (\<not> selected_in x NodeLimited) (ErrMsg ''selected node is not limited in this snapshot'')
        else Inr ()))"

section \<open>Rows of evidence\<close>

definition node_row_of :: "string \<Rightarrow> int \<Rightarrow> int \<Rightarrow> string \<Rightarrow> string \<Rightarrow> bool \<Rightarrow> node_evidence \<Rightarrow> path_node_row" where
  "node_row_of pathID pg rg checkedAt expiresAt success n =
     \<lparr>pn_path_id = pathID, pn_node_id = NeNodeID n, pn_qualification_state = NeState n, pn_qualification_generation = pg,
      pn_route_generation = rg, pn_expires_at = Some expiresAt, pn_latency_ms = nullIfZero (NeLatencyMS n),
      pn_last_success_at = (if success then Some checkedAt else None), pn_last_failure_at = (if success then None else Some checkedAt),
      pn_failure_code = nullIfEmpty (NeErrorCode n)\<rparr>"

definition target_row_of :: "string \<Rightarrow> string \<Rightarrow> int \<Rightarrow> int \<Rightarrow> string \<Rightarrow> string \<Rightarrow> target_evidence \<Rightarrow> target_result_row" where
  "target_row_of pathID nodeID pg rg checkedAt expiresAt t =
     \<lparr>r_path_id = pathID, r_node_id = nodeID, r_target_id = TeTargetID t, r_state = TeState t, r_latency_ms = nullIfZero (TeLatencyMS t),
      r_http_status = nullIfZero (TeHTTPStatus t), r_error_code = nullIfEmpty (TeErrorCode t), r_checked_at = checkedAt,
      r_expires_at = expiresAt, r_policy_generation = pg, r_route_generation = rg\<rparr>"

definition insert_results :: "db \<Rightarrow> target_result_row list \<Rightarrow> target_result_row list result" where
  "insert_results D rows =
     (if list_all (\<lambda>r. r_target_id r \<in> set (map t_id (bypass_probe_targets D))) rows
      then Inr (uplink_path_node_target_results D @ rows) else Inl ErrConstraint)"

text \<open>\<open>DELETE FROM uplink_path_nodes\<close> with the cascade to the target results.\<close>

definition delete_path_nodes :: "(path_node_row \<Rightarrow> bool) \<Rightarrow> db \<Rightarrow> db" where
  "delete_path_nodes hit D = D\<lparr>uplink_path_nodes := filter (\<lambda>n. \<not> hit n) (uplink_path_nodes D),
     uplink_path_node_target_results := filter (\<lambda>r. \<not> list_ex (\<lambda>n. hit n \<and> pn_path_id n = r_path_id r \<and> pn_node_id n = r_node_id r)
       (uplink_path_nodes D)) (uplink_path_node_target_results D)\<rparr>"

text \<open>The path of a snapshot with its subscription; the active version is the empty text when it is NULL.\<close>

definition snapshot_path :: "string \<Rightarrow> db \<Rightarrow> (sub_path_row \<times> string) option" where
  "snapshot_path pathID D = first_row [(p, null_str (s_active_version_id s)). p \<leftarrow> subscription_uplink_paths D, s \<leftarrow> subscriptions D,
     s_id s = p_subscription_id p \<and> p_id p = pathID]"

definition version_nodes :: "string \<Rightarrow> string \<Rightarrow> string \<Rightarrow> (node_row \<Rightarrow> bool) \<Rightarrow> db \<Rightarrow> nat" where
  "version_nodes nodeID versionID subscriptionID extra D = length [(). n \<leftarrow> nodes D, v \<leftarrow> subscription_versions D,
     v_id v = n_version_id n \<and> n_id n = nodeID \<and> extra n \<and> v_id v = versionID \<and> v_subscription_id v = subscriptionID]"

section \<open>Storing a whole path\<close>

definition snapshot_rows :: "qualification_snapshot \<Rightarrow> path_node_row list \<times> target_result_row list" where
  "snapshot_rows x =
     (let at = format_time (QsCheckedAt x); till = format_time (QsExpiresAt x); pg = QsPolicyGeneration x; rg = QsRouteGeneration x
      in (map (\<lambda>n. node_row_of (QsPathID x) pg rg at till (NeState n \<in> {NodeQualified, NodeLimited}) n) (QsNodes x),
          concat (map (\<lambda>n. map (target_row_of (QsPathID x) (NeNodeID n) pg rg at till) (NeTargets n)) (QsNodes x))))"

definition replace_evidence :: "qualification_snapshot \<Rightarrow> db \<Rightarrow> db result" where
  "replace_evidence x D =
     (let D1 = delete_path_nodes (\<lambda>n. pn_path_id n = QsPathID x) D; (ns, rs) = snapshot_rows x
      in bind_result (insert_results D1 rs) (\<lambda>results.
           Inr (D1\<lparr>uplink_path_nodes := uplink_path_nodes D1 @ ns, uplink_path_node_target_results := results\<rparr>)))"

definition snapshot_quality :: "qualification_snapshot \<Rightarrow> quality \<times> int" where
  "snapshot_quality x =
     (if QsState x = StateQualified then (QualityFull, wrap64 (wrap64 (QsRequiredPassed x * 1000) + QsOptionalPassed x))
      else if QsState x = StateDegraded then (QualityLimited, QsFunctionalScore x)
      else (QualityFailed, 0))"

definition snapshot_cell :: "qualification_snapshot \<Rightarrow> string \<Rightarrow> sub_path_row \<Rightarrow> sub_path_row" where
  "snapshot_cell x now p = p\<lparr>p_state := QsState x, p_transport_state := QsTransportState x,
     p_selected_node_id := nullIfEmpty (QsSelectedNodeID x), p_candidate_nodes := int (length (QsNodes x)),
     p_qualified_nodes := int (length (filter (\<lambda>n. NeState n = NodeQualified) (QsNodes x))),
     p_required_passed := QsRequiredPassed x, p_required_total := QsRequiredTotal x, p_optional_passed := QsOptionalPassed x,
     p_optional_total := QsOptionalTotal x, p_quality_class := fst (snapshot_quality x), p_functional_score := snd (snapshot_quality x),
     p_latency_ms := nullIfZero (QsLatencyMS x), p_last_checked_at := Some (format_time (QsCheckedAt x)),
     p_expires_at := Some (format_time (QsExpiresAt x)), p_updated_at := now\<rparr>"

definition store_snapshot :: "instant \<Rightarrow> qualification_snapshot \<Rightarrow> db \<Rightarrow> db result" where
  "store_snapshot nowTime x D =
     (case snapshot_path (QsPathID x) D of
        None \<Rightarrow> Inl ErrNotFound
      | Some (p, version) \<Rightarrow>
          if p_policy_generation p \<noteq> QsPolicyGeneration x \<or> p_route_generation p \<noteq> QsRouteGeneration x then Inl ErrStaleGeneration
          else if version = [] then Inl (ErrMsg ''subscription has no active version'')
          else case find (\<lambda>n. version_nodes (NeNodeID n) version (p_subscription_id p) (\<lambda>_. True) D \<noteq> 1) (QsNodes x) of
            Some n \<Rightarrow> Inl (ErrFmt ''node %s does not belong to the active subscription version'' [NeNodeID n])
          | None \<Rightarrow> bind_result (replace_evidence x D)
              (update_one (result_hit (QsPathID x) (QsPolicyGeneration x) (QsRouteGeneration x)) (snapshot_cell x (format_time nowTime))))"

definition StoreQualification :: "instant \<Rightarrow> fault \<Rightarrow> qualification_snapshot \<Rightarrow> db \<Rightarrow> db \<times> unit result" where
  "StoreQualification nowTime f x D =
     (case validateQualificationSnapshot x of
        Inl e \<Rightarrow> (D, Inl e)
      | Inr _ \<Rightarrow>
        if f \<noteq> NoFault then (D, Inl ErrDriver)
        else case store_snapshot nowTime x D of Inl e \<Rightarrow> (D, Inl e) | Inr D' \<Rightarrow> (D', Inr ()))"

section \<open>Storing one node\<close>

text \<open>The upsert keeps the time of the last success or failure that the new row does not have.\<close>

definition coalesce :: "'a option \<Rightarrow> 'a option \<Rightarrow> 'a option" where
  "coalesce a b = (case a of None \<Rightarrow> b | Some x \<Rightarrow> Some x)"

definition same_node :: "path_node_row \<Rightarrow> path_node_row \<Rightarrow> bool" where
  "same_node a b \<longleftrightarrow> pn_path_id a = pn_path_id b \<and> pn_node_id a = pn_node_id b"

definition upsert_node :: "path_node_row \<Rightarrow> path_node_row list \<Rightarrow> path_node_row list" where
  "upsert_node row ns =
     (if list_ex (same_node row) ns
      then map (\<lambda>n. if same_node row n then row\<lparr>pn_last_success_at := coalesce (pn_last_success_at row) (pn_last_success_at n),
                pn_last_failure_at := coalesce (pn_last_failure_at row) (pn_last_failure_at n)\<rparr> else n) ns
      else ns @ [row])"

text \<open>
  The rows the aggregation reads: unexpired node rows of the path under the expected generations, of enabled nodes of the
  active version.
\<close>

definition live_nodes :: "string \<Rightarrow> int \<Rightarrow> int \<Rightarrow> string \<Rightarrow> db \<Rightarrow> path_node_row list" where
  "live_nodes pathID pg rg now D = [pn. pn \<leftarrow> uplink_path_nodes D, n \<leftarrow> nodes D, s \<leftarrow> subscriptions D, p \<leftarrow> subscription_uplink_paths D,
     n_id n = pn_node_id pn \<and> n_enabled n \<and> s_active_version_id s = Some (n_version_id n) \<and> p_id p = pn_path_id pn
     \<and> p_subscription_id p = s_id s \<and> pn_path_id pn = pathID \<and> pn_qualification_generation pn = pg \<and> pn_route_generation pn = rg
     \<and> text_after (pn_expires_at pn) now]"

definition latency_order :: "path_node_row \<Rightarrow> path_node_row \<Rightarrow> bool" where
  "latency_order a b =
     (let x = (case pn_latency_ms a of None \<Rightarrow> max_int64 | Some l \<Rightarrow> l); y = (case pn_latency_ms b of None \<Rightarrow> max_int64 | Some l \<Rightarrow> l)
      in if x \<noteq> y then x < y else pn_node_id a < pn_node_id b)"

definition aggregate_node :: "path_node_row list \<Rightarrow> path_node_row option" where
  "aggregate_node ns = first_row (sort_stable latency_order (filter (\<lambda>n. pn_qualification_state n = NodeQualified) ns))"

definition carried_traffic :: "int \<Rightarrow> int \<Rightarrow> string \<Rightarrow> db \<Rightarrow> path_node_row \<Rightarrow> bool" where
  "carried_traffic pg rg now D n \<longleftrightarrow> pn_qualification_state n = NodeQualified
     \<or> list_ex (\<lambda>r. r_path_id r = pn_path_id n \<and> r_node_id r = pn_node_id n \<and> r_policy_generation r = pg \<and> r_route_generation r = rg
          \<and> now < r_expires_at r) (uplink_path_node_target_results D)"

definition aggregate_cell :: "node_snapshot \<Rightarrow> int \<Rightarrow> path_node_row list \<Rightarrow> db \<Rightarrow> string \<Rightarrow> sub_path_row \<Rightarrow> sub_path_row" where
  "aggregate_cell x required ns D now p =
     (let at = format_time (NsCheckedAt x); best = aggregate_node ns;
          passed = (if best = None then 0 else required)
      in p\<lparr>p_state := (if best = None then StateFailed else StateQualified),
           p_transport_state := (if list_ex (carried_traffic (NsPolicyGeneration x) (NsRouteGeneration x) at D) ns then ''PASSED'' else ''FAILED''),
           p_selected_node_id := (case best of None \<Rightarrow> None | Some n \<Rightarrow> nullIfEmpty (pn_node_id n)),
           p_candidate_nodes := NsCandidateNodes x,
           p_qualified_nodes := int (length (filter (\<lambda>n. pn_qualification_state n = NodeQualified) ns)),
           p_required_passed := passed, p_required_total := required,
           p_quality_class := (if best = None then QualityFailed else QualityFull),
           p_functional_score := (if best = None then 0 else wrap64 (passed * 1000)),
           p_latency_ms := (case best of None \<Rightarrow> None | Some n \<Rightarrow> Option.bind (pn_latency_ms n) nullIfZero),
           p_last_checked_at := Some (case best of None \<Rightarrow> at | Some n \<Rightarrow> null_str (coalesce (pn_last_success_at n) (pn_last_failure_at n))),
           p_expires_at := Some (case best of None \<Rightarrow> format_time (NsExpiresAt x) | Some n \<Rightarrow> null_str (pn_expires_at n)),
           p_updated_at := now\<rparr>)"

text \<open>The evidence of the node is replaced; the sums over no row at all are NULL, which does not scan into an integer.\<close>

definition write_node :: "node_snapshot \<Rightarrow> db \<Rightarrow> db result" where
  "write_node x D =
     (let at = format_time (NsCheckedAt x); till = format_time (NsExpiresAt x); n = NsNode x; pg = NsPolicyGeneration x; rg = NsRouteGeneration x;
          row = node_row_of (NsPathID x) pg rg at till (NeState n = NodeQualified) n;
          D1 = D\<lparr>uplink_path_nodes := upsert_node row (uplink_path_nodes D),
            uplink_path_node_target_results := filter (\<lambda>r. \<not> (r_path_id r = NsPathID x \<and> r_node_id r = NeNodeID n)) (uplink_path_node_target_results D)\<rparr>
      in bind_result (check_evidence_targets [] (NeTargets n) ''invalid exact node target evidence'' ''duplicate exact node target evidence'') (\<lambda>_.
         bind_result (insert_results D1 (map (target_row_of (NsPathID x) (NeNodeID n) pg rg at till) (NeTargets n))) (\<lambda>results.
           Inr (D1\<lparr>uplink_path_node_target_results := results\<rparr>))))"

definition store_node :: "instant \<Rightarrow> node_snapshot \<Rightarrow> db \<Rightarrow> db result" where
  "store_node nowTime x D =
     (case snapshot_path (NsPathID x) D of
        None \<Rightarrow> Inl ErrNotFound
      | Some (p, version) \<Rightarrow>
          if p_policy_generation p \<noteq> NsPolicyGeneration x \<or> p_route_generation p \<noteq> NsRouteGeneration x then Inl ErrStaleGeneration
          else if version_nodes (NeNodeID (NsNode x)) version (p_subscription_id p) n_enabled D \<noteq> 1
          then Inl (ErrMsg ''node does not belong to the enabled active subscription candidate set'')
          else let required = int (length (filter (\<lambda>t. t_enabled t \<and> t_target_class t = ''GLOBAL_REQUIRED'') (bypass_probe_targets D)))
            in if required \<noteq> NsRequiredTotal x then Inl ErrStaleGeneration
               else bind_result (write_node x D) (\<lambda>D1.
                 let ns = live_nodes (NsPathID x) (NsPolicyGeneration x) (NsRouteGeneration x) (format_time (NsCheckedAt x)) D1
                 in if ns = [] then Inl ErrDriver
                    else update_one (result_hit (NsPathID x) (NsPolicyGeneration x) (NsRouteGeneration x))
                      (aggregate_cell x required ns D1 (format_time nowTime)) D1))"

definition StoreNodeQualification :: "instant \<Rightarrow> fault \<Rightarrow> node_snapshot \<Rightarrow> db \<Rightarrow> db \<times> matrix_cell result" where
  "StoreNodeQualification nowTime f x D =
     (if NsPathID x = [] \<or> NsCandidateNodes x \<le> 0 \<or> NsRequiredTotal x \<le> 0 \<or> is_zero (NsCheckedAt x) \<or> is_zero (NsExpiresAt x)
         \<or> \<not> NsExpiresAt x > NsCheckedAt x
      then (D, Inl (ErrMsg ''complete node qualification snapshot is required''))
      else if NeNodeID (NsNode x) = [] \<or> NeState (NsNode x) \<noteq> NodeQualified \<and> NeState (NsNode x) \<noteq> NodeFailed \<or> NeLatencyMS (NsNode x) < 0
      then (D, Inl (ErrMsg ''valid node qualification evidence is required''))
      else if f = FaultTx then (D, Inl ErrDriver)
      else case store_node nowTime x D of
        Inl e \<Rightarrow> (D, Inl e)
      | Inr D' \<Rightarrow> (D', GetByID f (NsPathID x) D'))"

section \<open>Withdrawing a version\<close>

definition withdrawn_cell :: "string \<Rightarrow> sub_path_row \<Rightarrow> sub_path_row" where
  "withdrawn_cell now p = p\<lparr>p_state := StateStale, p_transport_state := ''UNKNOWN'', p_selected_node_id := None, p_candidate_nodes := 0,
     p_qualified_nodes := 0, p_required_passed := 0, p_required_total := 0, p_latency_ms := None, p_last_checked_at := None,
     p_expires_at := None, p_updated_at := now\<rparr>"

definition node_of_version :: "string \<Rightarrow> db \<Rightarrow> path_node_row \<Rightarrow> bool" where
  "node_of_version versionID D pn = list_ex (\<lambda>n. n_id n = pn_node_id pn \<and> n_version_id n = versionID) (nodes D)"

definition InvalidateVersionEvidence :: "instant \<Rightarrow> fault \<Rightarrow> string \<Rightarrow> string \<Rightarrow> db \<Rightarrow> db \<times> unit result" where
  "InvalidateVersionEvidence nowTime f subscriptionID versionID D =
     (if subscriptionID = [] \<or> versionID = []
      then (D, Inl (ErrMsg ''subscription and version ids are required for qualification invalidation''))
      else if f \<noteq> NoFault then (D, Inl ErrDriver)
      else if length (filter (\<lambda>v. v_id v = versionID \<and> v_subscription_id v = subscriptionID) (subscription_versions D)) \<noteq> 1
      then (D, Inl ErrNotFound)
      else case update_paths (\<lambda>p. p_subscription_id p = subscriptionID
               \<and> list_ex (\<lambda>pn. pn_path_id pn = p_id p \<and> node_of_version versionID D pn) (uplink_path_nodes D))
             (withdrawn_cell (format_time nowTime)) D of
        Inl e \<Rightarrow> (D, Inl e)
      | Inr (D', _) \<Rightarrow> (delete_path_nodes (node_of_version versionID D') D', Inr ()))"

section \<open>A path that only suspect targets degrade\<close>

definition degraded_node_where :: "string \<Rightarrow> string \<Rightarrow> string \<Rightarrow> runtime_row \<Rightarrow> sub_path_row \<Rightarrow> path_node_row \<Rightarrow> subscription_row \<Rightarrow> node_row \<Rightarrow> bool" where
  "degraded_node_where pathID nodeID now rs p pn s n \<longleftrightarrow>
     rt_active_path_id rs = Some (p_id p) \<and> rt_active_node_id rs = Some nodeID \<and> rt_path_state rs = PathActive
   \<and> pn_path_id pn = p_id p \<and> pn_node_id pn = nodeID \<and> s_id s = p_subscription_id p
   \<and> n_id n = pn_node_id pn \<and> n_enabled n \<and> s_active_version_id s = Some (n_version_id n)
   \<and> p_id p = pathID \<and> pn_qualification_generation pn = p_policy_generation p \<and> pn_route_generation pn = p_route_generation p
   \<and> text_after (pn_expires_at pn) now"

definition degraded_node :: "string \<Rightarrow> string \<Rightarrow> string \<Rightarrow> db \<Rightarrow> (sub_path_row \<times> path_node_row) option" where
  "degraded_node pathID nodeID now D = (case runtime_state D of
     None \<Rightarrow> None
   | Some rs \<Rightarrow> first_row [(p, pn). p \<leftarrow> subscription_uplink_paths D, pn \<leftarrow> uplink_path_nodes D, s \<leftarrow> subscriptions D, n \<leftarrow> nodes D,
       degraded_node_where pathID nodeID now rs p pn s n])"

text \<open>The state of each required target with its result, if there is one (\<open>LEFT JOIN\<close>).\<close>

definition required_results :: "string \<Rightarrow> string \<Rightarrow> int \<Rightarrow> int \<Rightarrow> string \<Rightarrow> db \<Rightarrow> (string \<times> (string \<times> string) option) list" where
  "required_results pathID nodeID pg rg now D =
     map (\<lambda>t. (t_state t, map_option (\<lambda>r. (r_state r, r_checked_at r)) (first_row (filter (\<lambda>r. r_path_id r = pathID \<and> r_node_id r = nodeID
            \<and> r_target_id r = t_id t \<and> r_policy_generation r = pg \<and> r_route_generation r = rg \<and> now < r_expires_at r)
            (uplink_path_node_target_results D)))))
       (sort_stable (\<lambda>a b. t_priority a < t_priority b \<or> t_priority a = t_priority b \<and> t_id a < t_id b)
         (filter (\<lambda>t. t_enabled t \<and> t_target_class t = ''GLOBAL_REQUIRED'') (bypass_probe_targets D)))"

record degraded_sum =
  DsTotal :: int
  DsPassed :: int
  DsSuspect :: bool
  DsCheckedAt :: string

fun degraded_scan :: "(string \<times> (string \<times> string) option) list \<Rightarrow> degraded_sum \<Rightarrow> degraded_sum result" where
  "degraded_scan [] a = Inr a"
| "degraded_scan ((targetState, None) # rest) a = Inl ErrStaleGeneration"
| "degraded_scan ((targetState, Some (st, at)) # rest) a =
     (let a = a\<lparr>DsTotal := DsTotal a + 1\<rparr>; next = (\<lambda>a. if DsCheckedAt a < at then a\<lparr>DsCheckedAt := at\<rparr> else a)
      in if st = ''PASSED'' then degraded_scan rest (next (a\<lparr>DsPassed := DsPassed a + 1\<rparr>))
         else if targetState = ''TARGET_SUSPECT'' then degraded_scan rest (next (a\<lparr>DsSuspect := True\<rparr>))
         else Inl (ErrMsg ''required target failure is not outage-suppressed''))"

definition degraded_cell :: "string \<Rightarrow> degraded_sum \<Rightarrow> path_node_row \<Rightarrow> string \<Rightarrow> sub_path_row \<Rightarrow> sub_path_row" where
  "degraded_cell nodeID a pn now p = p\<lparr>p_state := StateDegraded, p_transport_state := ''PASSED'', p_selected_node_id := Some nodeID,
     p_qualified_nodes := 0, p_required_passed := DsPassed a, p_required_total := DsTotal a, p_latency_ms := pn_latency_ms pn,
     p_last_checked_at := Some (DsCheckedAt a), p_expires_at := pn_expires_at pn, p_updated_at := now\<rparr>"

definition degrade_cell :: "instant \<Rightarrow> string \<Rightarrow> string \<Rightarrow> int \<Rightarrow> int \<Rightarrow> string \<Rightarrow> db \<Rightarrow> db result" where
  "degrade_cell nowTime pathID nodeID pg rg now D =
     (case degraded_node pathID nodeID now D of
        None \<Rightarrow> Inl ErrStaleGeneration
      | Some (p, pn) \<Rightarrow>
          if p_policy_generation p \<noteq> pg \<or> p_route_generation p \<noteq> rg \<or> pn_qualification_state pn \<noteq> NodeFailed then Inl ErrStaleGeneration
          else bind_result (degraded_scan (required_results pathID nodeID pg rg now D)
                  \<lparr>DsTotal = 0, DsPassed = 0, DsSuspect = False, DsCheckedAt = []\<rparr>) (\<lambda>a.
            if DsTotal a = 0 \<or> \<not> DsSuspect a \<or> DsCheckedAt a = []
            then Inl (ErrMsg ''target degradation requires a suspect required failure'')
            else update_one (result_hit pathID pg rg) (degraded_cell nodeID a pn (format_time nowTime)) D))"

definition MarkCellDegraded :: "instant \<Rightarrow> fault \<Rightarrow> string \<Rightarrow> string \<Rightarrow> int \<Rightarrow> int \<Rightarrow> instant \<Rightarrow> db \<Rightarrow> db \<times> matrix_cell result" where
  "MarkCellDegraded nowTime f pathID nodeID pg rg at D =
     (if pathID = [] \<or> nodeID = [] \<or> is_zero at then (D, Inl (ErrMsg ''path, node, and current time are required for target degradation''))
      else if f = FaultTx then (D, Inl ErrDriver)
      else case degrade_cell nowTime pathID nodeID pg rg (format_time at) D of
        Inl e \<Rightarrow> (D, Inl e)
      | Inr D' \<Rightarrow> (D', GetByID f pathID D'))"

end
