(* ===== verification/Path_Theorems.thy ===== *)
theory Path_Theorems
  imports Path_Evidence
begin

text \<open>
  What the path matrix guarantees: its cells stay consistent under every sequence of operations, a qualification run that finds a
  working node makes the path a candidate of the ranking, and evidence that is withdrawn makes it none.
\<close>

section \<open>What an UPDATE does\<close>

lemma update_paths_Inr:
  "update_paths hit change D = Inr (D', n) \<longleftrightarrow>
     D' = D\<lparr>subscription_uplink_paths := map (\<lambda>p. if hit p then change p else p) (subscription_uplink_paths D)\<rparr>
     \<and> n = length (filter hit (subscription_uplink_paths D))
     \<and> (\<forall>p\<in>set (subscription_uplink_paths D). hit p \<longrightarrow> path_row_ok D (change p))"
  by (auto simp: update_paths_def Let_def list_all_iff)

lemma update_one_Inr:
  "update_one hit change D = Inr D' \<longleftrightarrow>
     D' = D\<lparr>subscription_uplink_paths := map (\<lambda>p. if hit p then change p else p) (subscription_uplink_paths D)\<rparr>
     \<and> length (filter hit (subscription_uplink_paths D)) = 1
     \<and> (\<forall>p\<in>set (subscription_uplink_paths D). hit p \<longrightarrow> path_row_ok D (change p))"
  unfolding update_one_def bind_result_Inr using update_paths_Inr[of hit change D] by (auto split: if_splits)

lemma all_updated:
  "\<lbrakk>\<And>p. hit p \<Longrightarrow> Q (change p); \<And>p. \<not> hit p \<Longrightarrow> Q p\<rbrakk> \<Longrightarrow> \<forall>p\<in>set (map (\<lambda>p. if hit p then change p else p) ps). Q p"
  by auto

section \<open>What a stored snapshot leaves\<close>

lemma validate_qualified:
  assumes "validateQualificationSnapshot x = Inr u" "QsState x = StateQualified"
  shows "QsTransportState x = ''PASSED''" "QsSelectedNodeID x \<noteq> []" "QsRequiredPassed x = QsRequiredTotal x" "0 < QsRequiredTotal x"
    "selected_in x NodeQualified"
  using assms by (auto simp: validateQualificationSnapshot_def split: if_splits)

lemma replace_evidence_Inr:
  assumes "replace_evidence x D = Inr D1"
  shows "D1 = D\<lparr>uplink_path_nodes := uplink_path_nodes D1, uplink_path_node_target_results := uplink_path_node_target_results D1\<rparr>"
    "set (uplink_path_nodes D1) = {n \<in> set (uplink_path_nodes D). pn_path_id n \<noteq> QsPathID x} \<union> set (fst (snapshot_rows x))"
    "subscription_uplink_paths D1 = subscription_uplink_paths D"
  using assms by (auto simp: replace_evidence_def delete_path_nodes_def Let_def split: prod.splits)

lemma snapshot_path_Some:
  assumes "snapshot_path pathID D = Some (p, version)"
  obtains s where "p \<in> set (subscription_uplink_paths D)" "p_id p = pathID" "s \<in> set (subscriptions D)" "s_id s = p_subscription_id p"
    "version = null_str (s_active_version_id s)"
  using first_row_mem[OF assms[unfolded snapshot_path_def]] by auto

lemma version_nodes_pos:
  assumes "version_nodes i version sub extra D \<noteq> 0"
  obtains n where "n \<in> set (nodes D)" "n_id n = i" "n_version_id n = version" "extra n"
proof -
  have "[(). n \<leftarrow> nodes D, v \<leftarrow> subscription_versions D,
     v_id v = n_version_id n \<and> n_id n = i \<and> extra n \<and> v_id v = version \<and> v_subscription_id v = sub] \<noteq> []"
    using assms unfolding version_nodes_def by (rule contrapos_nn) simp
  then show ?thesis using that by (auto simp: concat_eq_Nil_conv split: if_splits)
qed

lemma store_snapshot_Inr:
  assumes "store_snapshot t x D = Inr D'"
  obtains p version D1 where "snapshot_path (QsPathID x) D = Some (p, version)" "version \<noteq> []"
    "p_policy_generation p = QsPolicyGeneration x" "p_route_generation p = QsRouteGeneration x"
    "\<forall>n\<in>set (QsNodes x). version_nodes (NeNodeID n) version (p_subscription_id p) (\<lambda>_. True) D = 1"
    "replace_evidence x D = Inr D1"
    "update_one (result_hit (QsPathID x) (QsPolicyGeneration x) (QsRouteGeneration x)) (snapshot_cell x (format_time t)) D1 = Inr D'"
  using assms that by (auto simp: store_snapshot_def find_None_iff split: option.splits if_splits)

text \<open>The selected node of a stored QUALIFIED snapshot has a qualified row that expires with it, and belongs to the active version.\<close>

lemma qualified_snapshot_rows:
  assumes "validateQualificationSnapshot x = Inr ()" "QsState x = StateQualified" "store_snapshot t x D = Inr D'"
  obtains p s pn n where "p \<in> set (subscription_uplink_paths D)" "p_id p = QsPathID x" "s \<in> set (subscriptions D)" "s_id s = p_subscription_id p"
    "p_policy_generation p = QsPolicyGeneration x" "p_route_generation p = QsRouteGeneration x"
    "snapshot_cell x (format_time t) p \<in> set (subscription_uplink_paths D')"
    "D' = D\<lparr>uplink_path_nodes := uplink_path_nodes D', uplink_path_node_target_results := uplink_path_node_target_results D',
       subscription_uplink_paths := subscription_uplink_paths D'\<rparr>"
    "pn \<in> set (uplink_path_nodes D')" "pn_path_id pn = QsPathID x" "pn_node_id pn = QsSelectedNodeID x"
    "pn_qualification_state pn = NodeQualified" "pn_qualification_generation pn = QsPolicyGeneration x"
    "pn_route_generation pn = QsRouteGeneration x" "pn_expires_at pn = Some (format_time (QsExpiresAt x))"
    "n \<in> set (nodes D)" "n_id n = QsSelectedNodeID x" "s_active_version_id s = Some (n_version_id n)"
proof -
  obtain p version D1 where p: "snapshot_path (QsPathID x) D = Some (p, version)" "version \<noteq> []"
    "p_policy_generation p = QsPolicyGeneration x" "p_route_generation p = QsRouteGeneration x"
    and members: "\<forall>n\<in>set (QsNodes x). version_nodes (NeNodeID n) version (p_subscription_id p) (\<lambda>_. True) D = 1"
    and r: "replace_evidence x D = Inr D1"
    and u: "update_one (result_hit (QsPathID x) (QsPolicyGeneration x) (QsRouteGeneration x)) (snapshot_cell x (format_time t)) D1 = Inr D'"
    by (rule store_snapshot_Inr[OF assms(3)])
  obtain s where s: "p \<in> set (subscription_uplink_paths D)" "p_id p = QsPathID x" "s \<in> set (subscriptions D)" "s_id s = p_subscription_id p"
    "version = null_str (s_active_version_id s)" by (rule snapshot_path_Some[OF p(1)])
  obtain e where e: "e \<in> set (QsNodes x)" "NeNodeID e = QsSelectedNodeID x" "NeState e = NodeQualified"
    using validate_qualified(5)[OF assms(1,2)] by (auto simp: selected_in_def list_ex_iff)
  then obtain n where n: "n \<in> set (nodes D)" "n_id n = QsSelectedNodeID x" "n_version_id n = version"
    using members version_nodes_pos by (metis zero_neq_one)
  have "s_active_version_id s = Some (n_version_id n)" using s(5) p(2) n(3) null_str_nonempty by metis
  moreover let ?pn = "node_row_of (QsPathID x) (QsPolicyGeneration x) (QsRouteGeneration x) (format_time (QsCheckedAt x))
    (format_time (QsExpiresAt x)) True e"
  have "?pn \<in> set (fst (snapshot_rows x))" using e by (force simp: snapshot_rows_def Let_def image_iff)
  then have "?pn \<in> set (uplink_path_nodes D')" using replace_evidence_Inr(2)[OF r] u by (simp add: update_one_Inr)
  moreover have "snapshot_cell x (format_time t) p \<in> set (subscription_uplink_paths D')"
    using u s(1,2) p(3,4) replace_evidence_Inr(3)[OF r] by (force simp: update_one_Inr result_hit_def image_iff)
  moreover have "D' = D\<lparr>uplink_path_nodes := uplink_path_nodes D', uplink_path_node_target_results := uplink_path_node_target_results D',
       subscription_uplink_paths := subscription_uplink_paths D'\<rparr>"
    using u replace_evidence_Inr(1)[OF r] unfolding update_one_Inr by (cases D, cases D1) simp
  ultimately show ?thesis using e s(1-4) p(3,4) n
    by (intro that[of p s ?pn n]) (simp_all add: node_row_of_def)
qed

section \<open>From a probe to a candidate\<close>

text \<open>The path exists, its uplink is ready under the route generation, and its subscription and its access method are enabled.\<close>

definition in_service :: "db \<Rightarrow> string \<Rightarrow> int \<Rightarrow> sub_path_row \<Rightarrow> uplink_row \<Rightarrow> subscription_row \<Rightarrow> method_row \<Rightarrow> bool" where
  "in_service D pathID rg p u s a \<longleftrightarrow> p \<in> set (subscription_uplink_paths D) \<and> p_id p = pathID
     \<and> u \<in> set (uplinks D) \<and> u_id u = p_uplink_id p \<and> u_enabled u \<and> u_state u = ''UPLINK_READY'' \<and> u_route_generation u = rg
     \<and> s \<in> set (subscriptions D) \<and> s_id s = p_subscription_id p \<and> s_enabled s
     \<and> a \<in> set (access_methods D) \<and> m_subscription_id a = Some (s_id s) \<and> m_kind a = MethodSubscription \<and> m_enabled a"

definition primary_keys :: "db \<Rightarrow> bool" where
  "primary_keys D \<longleftrightarrow> distinct (map p_id (subscription_uplink_paths D)) \<and> distinct (map s_id (subscriptions D))"

lemma key_unique: "distinct (map f xs) \<Longrightarrow> x \<in> set xs \<Longrightarrow> y \<in> set xs \<Longrightarrow> f x = f y \<Longrightarrow> x = y"
  by (simp add: distinct_map inj_on_def)

lemma preferred_ranks_nonempty: "preferred_ranks s n D \<noteq> []"
  by (auto simp: preferred_ranks_def split: list.split)

lemma vpn_candidate_member:
  assumes "currentPolicyGeneration D = Inr g" "p \<in> set (subscription_uplink_paths D)" "u \<in> set (uplinks D)" "s \<in> set (subscriptions D)"
    "a \<in> set (access_methods D)" "n \<in> set (nodes D)" "pn \<in> set (uplink_path_nodes D)"
    "vpn_candidate_where q (format_time now) g p u s a n pn"
  obtains cs rank where "Candidates q now NoFault False D = Inr cs" "vpn_candidate p u a n rank \<in> set cs"
proof -
  obtain rank where "rank \<in> set (preferred_ranks s n D)" using preferred_ranks_nonempty by (meson list.set_sel(1))
  then have "vpn_candidate p u a n rank \<in> set (direct_candidates q (format_time now) g D @ vpn_candidates q (format_time now) g D)"
    using assms(2-8) by (fastforce simp: vpn_candidates_def)
  moreover have "Candidates q now NoFault False D = Inr (direct_candidates q (format_time now) g D @ vpn_candidates q (format_time now) g D)"
    using assms(1) by (simp add: Candidates_def Let_def)
  ultimately show ?thesis using that by blast
qed

lemma stored_snapshot_is_candidate:
  assumes v: "validateQualificationSnapshot x = Inr ()" "QsState x = StateQualified" "store_snapshot t x D = Inr D'"
    and env: "currentPolicyGeneration D = Inr (QsPolicyGeneration x)" "in_service D (QsPathID x) (QsRouteGeneration x) p u s a" "primary_keys D"
    and node: "\<forall>n\<in>set (nodes D). n_id n = QsSelectedNodeID x \<longrightarrow> n_enabled n \<and> n_selection_override n \<noteq> ''exclude''"
    and fresh: "julian_after q (Some (format_time (QsExpiresAt x))) (format_time now)"
  obtains cs k where "Candidates q now NoFault False D' = Inr cs" "k \<in> set cs" "PathID k = QsPathID x" "NodeID k = QsSelectedNodeID x"
    "Quality k = QualityFull" "UplinkID k = u_id u"
proof -
  obtain p0 s0 pn n where p0: "p0 \<in> set (subscription_uplink_paths D)" "p_id p0 = QsPathID x" "s0 \<in> set (subscriptions D)" "s_id s0 = p_subscription_id p0"
      "p_policy_generation p0 = QsPolicyGeneration x" "p_route_generation p0 = QsRouteGeneration x"
    and cell: "snapshot_cell x (format_time t) p0 \<in> set (subscription_uplink_paths D')"
    and D': "D' = D\<lparr>uplink_path_nodes := uplink_path_nodes D', uplink_path_node_target_results := uplink_path_node_target_results D',
       subscription_uplink_paths := subscription_uplink_paths D'\<rparr>"
    and pn: "pn \<in> set (uplink_path_nodes D')" "pn_path_id pn = QsPathID x" "pn_node_id pn = QsSelectedNodeID x"
      "pn_qualification_state pn = NodeQualified" "pn_qualification_generation pn = QsPolicyGeneration x"
      "pn_route_generation pn = QsRouteGeneration x" "pn_expires_at pn = Some (format_time (QsExpiresAt x))"
    and n: "n \<in> set (nodes D)" "n_id n = QsSelectedNodeID x" "s_active_version_id s0 = Some (n_version_id n)"
    by (rule qualified_snapshot_rows[OF v])
  have same: "p0 = p" "s0 = s"
    using env(2,3) p0 key_unique[of p_id "subscription_uplink_paths D" p0 p] key_unique[of s_id "subscriptions D" s0 s]
    by (auto simp: in_service_def primary_keys_def)
  let ?p = "snapshot_cell x (format_time t) p"
  have frame: "settings D' = settings D" "uplinks D' = uplinks D" "subscriptions D' = subscriptions D" "access_methods D' = access_methods D" "nodes D' = nodes D"
    by (subst D', simp)+
  have "vpn_candidate_where q (format_time now) (QsPolicyGeneration x) ?p u s a n pn"
    using env(2) p0 pn n node fresh same validate_qualified[OF v(1,2)] v(2)
    by (simp add: vpn_candidate_where_def in_service_def snapshot_cell_def snapshot_quality_def nullIfEmpty_def)
  moreover have "currentPolicyGeneration D' = Inr (QsPolicyGeneration x)" using env(1) currentPolicyGeneration_frame[OF frame(1)] by simp
  ultimately obtain cs rank where "Candidates q now NoFault False D' = Inr cs" "vpn_candidate ?p u a n rank \<in> set cs"
    using vpn_candidate_member[of D' _ ?p u s a n pn q now] cell pn(1) n(1) env(2) unfolding frame same in_service_def by metis
  then show ?thesis
    by (rule that) (use p0 n(2) v(2) env(2) same in \<open>simp_all add: vpn_candidate_def snapshot_cell_def snapshot_quality_def in_service_def\<close>)
qed

text \<open>
  Property C12 (a working node becomes a candidate). When a qualification run that is not cancelled probes a path of which some
  candidate node answers and passes every required target, and its result is stored under the current policy and route
  generations, then the selection offers the path, with a node that works, as a FULL candidate for as long as the
  evidence lasts, provided its uplink is ready and its subscription, its access method and the node are enabled.
\<close>

theorem working_node_becomes_candidate:
  assumes "QualifyCell E continue path targets = Inr cell" "undisturbed E" "c \<in> set (PaCandidates path)" "working E path c targets"
    and "StoreQualification t f (SnapshotFromHealth cell g rg at till) D = (D', Inr ())"
    and "currentPolicyGeneration D = Inr g" "in_service D (PaID path) rg p u s a" "primary_keys D"
    and "\<forall>n\<in>set (nodes D). n_id n = SelectedNodeID cell \<longrightarrow> n_enabled n \<and> n_selection_override n \<noteq> ''exclude''"
    and "julian_after q (Some (format_time till)) (format_time now)"
  shows "\<exists>cs k c'. Candidates q now NoFault False D' = Inr cs \<and> k \<in> set cs \<and> PathID k = PaID path \<and> UplinkID k = u_id u
    \<and> Quality k = QualityFull \<and> c' \<in> set (PaCandidates path) \<and> NodeID k = CaNodeID c' \<and> working E path c' targets"
proof -
  have "PaCandidates path \<noteq> []" using assms(3) by auto
  then obtain results where "CeNodes cell = results" and id: "CePathID cell = PaID path"
    and st: "CeState cell = CellQualified \<longleftrightarrow> (\<exists>r\<in>set results. NrState r = NodeQualified)"
    and w: "(\<exists>r\<in>set results. NrState r = NodeQualified) \<longleftrightarrow> (\<exists>c\<in>set (PaCandidates path). working E path c targets)"
    and sel: "\<forall>r\<in>set results. NrState r = NodeQualified \<longrightarrow> (\<exists>c\<in>set (PaCandidates path). CaNodeID c = NrNodeID r \<and> working E path c targets)"
    and best: "CeState cell = CellQualified \<longrightarrow> (\<exists>r\<in>set results. NrState r = NodeQualified \<and> SelectedNodeID cell = NrNodeID r
      \<and> CeLatencyMS cell = AggregateLatencyMS r \<and> (\<forall>x\<in>set results. NrState x = NodeQualified \<longrightarrow> \<not> betterQualified x r))"
    by (rule QualifyCell_probed[OF assms(1,2)])
  have q: "CeState cell = CellQualified" using assms(3,4) st w by blast
  with best obtain r where "r \<in> set results" "NrState r = NodeQualified" "SelectedNodeID cell = NrNodeID r" by blast
  with sel obtain c' where c': "c' \<in> set (PaCandidates path)" "CaNodeID c' = SelectedNodeID cell" "working E path c' targets" by auto
  let ?x = "SnapshotFromHealth cell g rg at till"
  have x: "QsPathID ?x = PaID path" "QsState ?x = StateQualified" "QsPolicyGeneration ?x = g" "QsRouteGeneration ?x = rg"
    "QsSelectedNodeID ?x = SelectedNodeID cell" "QsExpiresAt ?x = till" by (simp_all add: SnapshotFromHealth_def id q)
  have "validateQualificationSnapshot ?x = Inr ()" "store_snapshot t ?x D = Inr D'"
    using assms(5) by (auto simp: StoreQualification_def split: sum.splits if_splits)
  then obtain cs k where "Candidates q now NoFault False D' = Inr cs" "k \<in> set cs" "PathID k = QsPathID ?x" "NodeID k = QsSelectedNodeID ?x"
    "Quality k = QualityFull" "UplinkID k = u_id u"
    using stored_snapshot_is_candidate[of ?x t D D' p u s a q now] assms(6-10) unfolding x by metis
  then show ?thesis using c' unfolding x by metis
qed

section \<open>A node that works in part\<close>

lemma QualifyCell_degraded:
  assumes "QualifyCell E continue path targets = Inr cell" "CeState cell = CellDegraded"
  shows "\<exists>r\<in>set (CeNodes cell). NrState r = NodeLimited \<and> NrNodeID r = SelectedNodeID cell"
proof -
  obtain n req opt results where "cell = failed_cell path 0 req opt \<or> cell = buildCellResult path n req opt results"
    using assms(1) by (auto simp: QualifyCell_def split: if_splits)
  then have c: "cell = buildCellResult path n req opt results" using assms(2) by (auto simp: failed_cell_def)
  let ?limited = "filter (\<lambda>r. NrState r = NodeLimited) results"
  obtain r where r: "best_of (betterLimitedNode (preferred_ids path)) None ?limited = Some r" "SelectedNodeID cell = NrNodeID r" "CeNodes cell = results"
    using assms(2) unfolding c
    by (auto simp: buildCellResult_def Let_def chosen_def failed_cell_def split: option.splits)
  have "r \<in> set ?limited" using limited_order.best_of_optimal[OF _ _ r(1)] by simp
  then show ?thesis using r(2,3) by (auto intro!: bexI[of _ r])
qed


section \<open>Evidence that is withdrawn\<close>

lemma no_candidate_without_expiry:
  assumes "Candidates q t f directOnly D = Inr cs" "k \<in> set cs"
    and "\<forall>p\<in>set (subscription_uplink_paths D). p_uplink_id p = i \<longrightarrow> p_expires_at p = None"
    and "\<forall>p\<in>set (direct_uplink_paths D). d_uplink_id p = i \<longrightarrow> d_expires_at p = None"
  shows "UplinkID k \<noteq> i"
  using Candidates_sound(1)[OF assms(1,2)] assms(3,4)
  by (auto simp: candidate_proven_def split: method_kind.splits)

text \<open>
  Property C36 (a new route takes its uplink out of the selection). Raising the route generation of an uplink succeeds only for
  an uplink that exists; it leaves the uplink one generation further, and no path over it, direct or VPN, is a candidate
  until new evidence is published, while the paths of other uplinks are as they were.
\<close>

theorem no_candidate_after_route_change:
  assumes "BumpRouteGeneration t f i D = (D', Inr ())"
  shows "(\<forall>q now f' directOnly cs. Candidates q now f' directOnly D' = Inr cs \<longrightarrow> (\<forall>k\<in>set cs. UplinkID k \<noteq> i))
    \<and> map u_route_generation (filter (\<lambda>u. u_id u = i) (uplinks D')) = map (\<lambda>u. u_route_generation u + 1) (filter (\<lambda>u. u_id u = i) (uplinks D))
    \<and> length (filter (\<lambda>u. u_id u = i) (uplinks D)) = 1
    \<and> filter (\<lambda>p. p_uplink_id p \<noteq> i) (subscription_uplink_paths D') = filter (\<lambda>p. p_uplink_id p \<noteq> i) (subscription_uplink_paths D)
    \<and> filter (\<lambda>p. d_uplink_id p \<noteq> i) (direct_uplink_paths D') = filter (\<lambda>p. d_uplink_id p \<noteq> i) (direct_uplink_paths D)"
proof -
  obtain u where u: "filter (\<lambda>u. u_id u = i) (uplinks D) = [u]" and f: "f = NoFault"
    using assms by (auto simp: BumpRouteGeneration_def Let_def split: if_splits list.splits)
  let ?rg = "u_route_generation u + 1" and ?now = "format_time t"
  have D': "uplinks D' = map (\<lambda>u. if u_id u = i then u\<lparr>u_route_generation := u_route_generation u + 1\<rparr> else u) (uplinks D)"
      "subscription_uplink_paths D' = map (\<lambda>p. if p_uplink_id p = i then route_stale_path ?rg ?now p else p) (subscription_uplink_paths D)"
      "direct_uplink_paths D' = map (\<lambda>p. if d_uplink_id p = i then route_stale_direct ?rg ?now p else p) (direct_uplink_paths D)"
    using assms u f by (auto simp: BumpRouteGeneration_def Let_def update_paths_Inr split: sum.splits)
  have keep: "filter P (map (\<lambda>x. if \<not> P x then g x else x) xs) = filter P xs" if "\<And>x. P (g x) = P x" for P g and xs :: "'a list"
    using that by (induction xs) auto
  have gens: "map u_route_generation (filter (\<lambda>u. u_id u = i) (map (\<lambda>u. if u_id u = i then u\<lparr>u_route_generation := u_route_generation u + 1\<rparr> else u) us))
      = map (\<lambda>u. u_route_generation u + 1) (filter (\<lambda>u. u_id u = i) us)" for us :: "uplink_row list" by (induction us) auto
  have expired: "\<forall>p\<in>set (subscription_uplink_paths D'). p_uplink_id p = i \<longrightarrow> p_expires_at p = None"
      "\<forall>p\<in>set (direct_uplink_paths D'). d_uplink_id p = i \<longrightarrow> d_expires_at p = None"
    unfolding D'(2,3) by (rule all_updated; simp add: route_stale_path_def route_stale_direct_def)+
  have "\<forall>k\<in>set cs. UplinkID k \<noteq> i" if "Candidates q now f' directOnly D' = Inr cs" for q now f' directOnly cs
    using no_candidate_without_expiry[OF that _ expired] by blast
  moreover have "filter (\<lambda>p. p_uplink_id p \<noteq> i) (subscription_uplink_paths D') = filter (\<lambda>p. p_uplink_id p \<noteq> i) (subscription_uplink_paths D)"
    using keep[of "\<lambda>p. p_uplink_id p \<noteq> i" "route_stale_path ?rg ?now"] by (simp add: D' route_stale_path_def)
  moreover have "filter (\<lambda>p. d_uplink_id p \<noteq> i) (direct_uplink_paths D') = filter (\<lambda>p. d_uplink_id p \<noteq> i) (direct_uplink_paths D)"
    using keep[of "\<lambda>p. d_uplink_id p \<noteq> i" "route_stale_direct ?rg ?now"] by (simp add: D' route_stale_direct_def)
  ultimately show ?thesis using gens u by (simp add: D')
qed

section \<open>The cells under every sequence of operations\<close>

definition cell_sound :: "sub_path_row \<Rightarrow> bool" where
  "cell_sound p \<longleftrightarrow> (p_state p = StateQualified \<longrightarrow> p_transport_state p = ''PASSED'' \<and> p_selected_node_id p \<noteq> None
     \<and> p_required_passed p = p_required_total p \<and> 0 < p_required_total p)"

definition cell_key :: "sub_path_row \<Rightarrow> string \<times> string" where
  "cell_key p = (p_uplink_id p, p_subscription_id p)"

definition matrix_inv :: "db \<Rightarrow> bool" where
  "matrix_inv D \<longleftrightarrow> (\<forall>p\<in>set (subscription_uplink_paths D). cell_sound p) \<and> distinct (map cell_key (subscription_uplink_paths D))
     \<and> (\<forall>n\<in>set (uplink_path_nodes D). pn_node_id n \<noteq> [])"

datatype matrix_op =
    OpReconcileCells instant fault
  | OpUpdateResult instant fault result_update
  | OpBumpRoute instant fault string
  | OpBumpPolicy instant fault
  | OpUplinkOffline instant fault string
  | OpStoreQualification instant fault qualification_snapshot
  | OpStoreNode instant fault node_snapshot
  | OpInvalidateVersion instant fault string string
  | OpMarkDegraded instant fault string string int int instant

fun matrix_step :: "db \<Rightarrow> matrix_op \<Rightarrow> db" where
  "matrix_step D (OpReconcileCells t f) = fst (ReconcileCells t f D)"
| "matrix_step D (OpUpdateResult t f x) = fst (UpdateResult t f x D)"
| "matrix_step D (OpBumpRoute t f i) = fst (BumpRouteGeneration t f i D)"
| "matrix_step D (OpBumpPolicy t f) = fst (BumpPolicyGeneration t f D)"
| "matrix_step D (OpUplinkOffline t f i) = fst (MarkUplinkOffline t f i D)"
| "matrix_step D (OpStoreQualification t f x) = fst (StoreQualification t f x D)"
| "matrix_step D (OpStoreNode t f x) = fst (StoreNodeQualification t f x D)"
| "matrix_step D (OpInvalidateVersion t f i v) = fst (InvalidateVersionEvidence t f i v D)"
| "matrix_step D (OpMarkDegraded t f i n pg rg at) = fst (MarkCellDegraded t f i n pg rg at D)"

text \<open>A change of rows that keeps their keys and makes sound cells keeps the invariant.\<close>

lemma matrix_inv_change:
  assumes "matrix_inv D" "\<And>p. cell_key (change p) = cell_key p" "\<And>p. hit p \<Longrightarrow> cell_sound p \<Longrightarrow> cell_sound (change p)"
    and "subscription_uplink_paths D' = map (\<lambda>p. if hit p then change p else p) (subscription_uplink_paths D)"
    and "set (uplink_path_nodes D') \<subseteq> set (uplink_path_nodes D)"
  shows "matrix_inv D'"
proof -
  have "map cell_key (subscription_uplink_paths D') = map cell_key (subscription_uplink_paths D)"
    using assms(2) by (simp add: assms(4))
  moreover have "\<forall>p\<in>set (subscription_uplink_paths D'). cell_sound p"
    using assms(1,3) by (auto simp: matrix_inv_def assms(4))
  moreover have "\<forall>n\<in>set (uplink_path_nodes D'). pn_node_id n \<noteq> []" using assms(1,5) by (auto simp: matrix_inv_def)
  ultimately show ?thesis using assms(1) by (metis matrix_inv_def)
qed

lemma update_paths_inv:
  assumes "update_paths hit change D = Inr (D', n)" "matrix_inv D" "\<And>p. cell_key (change p) = cell_key p"
    "\<And>p. hit p \<Longrightarrow> cell_sound p \<Longrightarrow> cell_sound (change p)"
  shows "matrix_inv D'"
  using assms(1) matrix_inv_change[OF assms(2-4), of hit D'] by (simp add: update_paths_Inr)

lemma update_one_inv:
  assumes "update_one hit change D = Inr D'" "matrix_inv D" "\<And>p. cell_key (change p) = cell_key p"
    "\<And>p. hit p \<Longrightarrow> cell_sound p \<Longrightarrow> cell_sound (change p)"
  shows "matrix_inv D'"
  using assms(1) matrix_inv_change[OF assms(2-4), of hit D'] by (simp add: update_one_Inr)

lemma matrix_inv_nodes:
  "matrix_inv D \<Longrightarrow> subscription_uplink_paths D' = subscription_uplink_paths D \<Longrightarrow> \<forall>n\<in>set (uplink_path_nodes D'). pn_node_id n \<noteq> [] \<Longrightarrow> matrix_inv D'"
  by (simp add: matrix_inv_def)

subsection \<open>Each operation\<close>

lemma insert_cells_inv:
  assumes "insert_cells D g now pairs ps = Inr ps'" "\<forall>p\<in>set ps. cell_sound p" "distinct (map cell_key ps)"
  shows "(\<forall>p\<in>set ps'. cell_sound p) \<and> distinct (map cell_key ps')"
  using assms
proof (induction D g now pairs ps rule: insert_cells.induct)
  case (2 D g now u s us ps)
  have new: "cell_sound (new_cell g now u s)" "cell_key (new_cell g now u s) = (u_id u, s_id s)"
    by (auto simp: cell_sound_def cell_key_def new_cell_def unusable_state_def split: option.split)
  show ?case
  proof (cases "list_ex (\<lambda>p. p_uplink_id p = u_id u \<and> p_subscription_id p = s_id s) ps")
    case True
    then show ?thesis using 2 by (simp add: Let_def)
  next
    case False
    then have "(u_id u, s_id s) \<notin> set (map cell_key ps)" by (auto simp: list_ex_iff cell_key_def)
    then show ?thesis using 2 False new by (auto simp: Let_def split: if_splits)
  qed
qed simp

lemma ReconcileCells_inv: "matrix_inv D \<Longrightarrow> matrix_inv (fst (ReconcileCells t f D))"
proof (cases "snd (ReconcileCells t f D)")
  case (Inr u)
  assume inv: "matrix_inv D"
  obtain g ps D1 n where ps: "insert_cells D g (format_time t) [(u, s). u \<leftarrow> uplinks D, s \<leftarrow> subscriptions D] (subscription_uplink_paths D) = Inr ps"
    and u: "update_paths (\<lambda>p. cell_parents D p \<noteq> None) (refreshed D (format_time t)) (D\<lparr>subscription_uplink_paths := ps\<rparr>) = Inr (D1, n)"
    and D1: "fst (ReconcileCells t f D) = D1"
    using Inr by (auto simp: ReconcileCells_def Let_def split: if_splits sum.splits)
  have "matrix_inv (D\<lparr>subscription_uplink_paths := ps\<rparr>)" using insert_cells_inv[OF ps] inv by (simp add: matrix_inv_def)
  then show ?thesis unfolding D1
    by (rule update_paths_inv[OF u])
      (auto simp: refreshed_def refresh_cell_def cell_key_def cell_sound_def unusable_state_def split: option.splits if_splits)
next
  case (Inl e)
  then show "matrix_inv D \<Longrightarrow> ?thesis" by (auto simp: ReconcileCells_def Let_def split: if_splits sum.splits)
qed

lemma BumpPolicy_inv: "matrix_inv D \<Longrightarrow> matrix_inv (fst (BumpPolicyGeneration t f D))"
proof (cases "f \<noteq> NoFault \<or> (\<exists>e. InvalidatePathPolicy (format_time t) D = Inl e)")
  case False
  assume inv: "matrix_inv D"
  obtain g D' where i: "InvalidatePathPolicy (format_time t) D = Inr (g, D')" using False by (cases "InvalidatePathPolicy (format_time t) D") auto
  have "matrix_inv D'"
    by (rule matrix_inv_change[OF inv, where hit = "\<lambda>_. True" and change = "invalidate_sub_path g (format_time t)"])
      (auto simp: InvalidatePathPolicy_frame[OF i] invalidate_sub_path_def Let_def cell_key_def cell_sound_def)
  then show ?thesis using False i by (simp add: BumpPolicyGeneration_def)
qed (auto simp: BumpPolicyGeneration_def)

lemma UpdateResult_inv:
  assumes "matrix_inv D"
  shows "matrix_inv (fst (UpdateResult t f x D))"
proof (cases "validateResultUpdate x")
  case v: (Inr u)
  have keep: "cell_key (result_row x now p) = cell_key p" "cell_sound (result_row x now p)" for now p
    using v by (auto simp: result_row_def cell_key_def cell_sound_def validateResultUpdate_def nullIfEmpty_def split: if_splits)
  then show ?thesis using assms v by (auto simp: UpdateResult_def split: sum.split intro: update_paths_inv)
qed (use assms in \<open>simp add: UpdateResult_def\<close>)

lemma stale_cells:
  "cell_key (route_stale_path rg now p) = cell_key p" "cell_sound (route_stale_path rg now p)"
  "cell_key (offline_path now p) = cell_key p" "cell_sound (offline_path now p)"
  "cell_key (withdrawn_cell now p) = cell_key p" "cell_sound (withdrawn_cell now p)"
  "cell_key (degraded_cell i a pn now p) = cell_key p" "cell_sound (degraded_cell i a pn now p)"
  "cell_key (snapshot_cell x now p) = cell_key p" "cell_key (aggregate_cell y required ns D now p) = cell_key p"
  by (simp_all add: cell_key_def cell_sound_def route_stale_path_def offline_path_def withdrawn_cell_def degraded_cell_def snapshot_cell_def
      aggregate_cell_def Let_def)

lemma MarkUplinkOffline_inv: "matrix_inv D \<Longrightarrow> matrix_inv (fst (MarkUplinkOffline t f i D))"
  by (auto simp: MarkUplinkOffline_def stale_cells split: sum.split intro: update_paths_inv)

lemma BumpRoute_inv:
  assumes "matrix_inv D"
  shows "matrix_inv (fst (BumpRouteGeneration t f i D))"
proof (cases "snd (BumpRouteGeneration t f i D)")
  case (Inr u)
  obtain rg ups D2 n where u: "update_paths (\<lambda>p. p_uplink_id p = i) (route_stale_path rg (format_time t)) (D\<lparr>uplinks := ups\<rparr>) = Inr (D2, n)"
    and D': "subscription_uplink_paths (fst (BumpRouteGeneration t f i D)) = subscription_uplink_paths D2"
      "uplink_path_nodes (fst (BumpRouteGeneration t f i D)) = uplink_path_nodes D2"
    using Inr by (auto simp: BumpRouteGeneration_def Let_def split: if_splits list.splits sum.splits)
  have "matrix_inv (D\<lparr>uplinks := ups\<rparr>)" using assms by (simp add: matrix_inv_def)
  then have "matrix_inv D2" by (rule update_paths_inv[OF u]) (simp_all add: stale_cells)
  then show ?thesis by (rule matrix_inv_nodes) (simp_all add: D', use \<open>matrix_inv D2\<close> in \<open>simp add: matrix_inv_def\<close>)
qed (use assms in \<open>auto simp: BumpRouteGeneration_def Let_def split: if_splits list.splits sum.splits\<close>)

lemma InvalidateVersion_inv:
  assumes "matrix_inv D"
  shows "matrix_inv (fst (InvalidateVersionEvidence t f i v D))"
proof (cases "snd (InvalidateVersionEvidence t f i v D)")
  case (Inr u)
  obtain hit D1 n where u: "update_paths hit (withdrawn_cell (format_time t)) D = Inr (D1, n)"
    and D': "fst (InvalidateVersionEvidence t f i v D) = delete_path_nodes (node_of_version v D1) D1"
    using Inr by (auto simp: InvalidateVersionEvidence_def split: if_splits sum.splits)
  have "matrix_inv D1" by (rule update_paths_inv[OF u assms]) (simp_all add: stale_cells)
  then show ?thesis by (simp add: D' matrix_inv_def delete_path_nodes_def)
qed (use assms in \<open>auto simp: InvalidateVersionEvidence_def split: if_splits sum.splits\<close>)

lemma MarkCellDegraded_inv:
  assumes "matrix_inv D"
  shows "matrix_inv (fst (MarkCellDegraded t f i n pg rg at D))"
proof -
  have "matrix_inv D'" if "degrade_cell t i n pg rg (format_time at) D = Inr D'" for D'
    using that assms by (auto simp: degrade_cell_def stale_cells split: option.splits if_splits elim!: update_one_inv)
  then show ?thesis using assms by (auto simp: MarkCellDegraded_def split: sum.split)
qed

lemma evidence_nodes_named: "check_evidence_nodes seen ns = Inr u \<Longrightarrow> \<forall>n\<in>set ns. NeNodeID n \<noteq> []"
  by (induction seen ns rule: check_evidence_nodes.induct) (auto split: if_splits)

lemma StoreQualification_inv:
  assumes "matrix_inv D"
  shows "matrix_inv (fst (StoreQualification t f x D))"
proof (cases "snd (StoreQualification t f x D)")
  case (Inr u)
  then have v: "validateQualificationSnapshot x = Inr ()" and s: "store_snapshot t x D = Inr (fst (StoreQualification t f x D))"
    by (auto simp: StoreQualification_def split: sum.splits if_splits)
  obtain p version D1 where r: "replace_evidence x D = Inr D1"
    and u: "update_one (result_hit (QsPathID x) (QsPolicyGeneration x) (QsRouteGeneration x)) (snapshot_cell x (format_time t)) D1
      = Inr (fst (StoreQualification t f x D))"
    by (rule store_snapshot_Inr[OF s])
  have "cell_sound (snapshot_cell x now p)" for now p
    using validate_qualified[OF v] by (auto simp: cell_sound_def snapshot_cell_def nullIfEmpty_def)
  moreover have "check_evidence_nodes [] (QsNodes x) = Inr ()" using v by (auto simp: validateQualificationSnapshot_def split: if_splits)
  then have "\<forall>n\<in>set (QsNodes x). NeNodeID n \<noteq> []" by (rule evidence_nodes_named)
  then have "matrix_inv D1"
    using replace_evidence_Inr(2,3)[OF r] assms by (auto simp: matrix_inv_def snapshot_rows_def node_row_of_def Let_def)
  ultimately show ?thesis using update_one_inv[OF u] by (simp add: stale_cells)
next
  case (Inl e)
  then show ?thesis using assms by (auto simp: StoreQualification_def split: sum.splits if_splits)
qed

lemma write_node_Inr:
  assumes "write_node x D = Inr D1"
  shows "subscription_uplink_paths D1 = subscription_uplink_paths D"
    "\<forall>n\<in>set (uplink_path_nodes D1). n \<in> set (uplink_path_nodes D) \<or> pn_node_id n = NeNodeID (NsNode x)"
  using assms by (auto simp: write_node_def Let_def upsert_node_def node_row_of_def split: if_splits)

lemma aggregate_node_mem: "aggregate_node ns = Some n \<Longrightarrow> n \<in> set ns \<and> pn_qualification_state n = NodeQualified"
  unfolding aggregate_node_def by (drule first_row_mem) simp

lemma live_nodes_mem: "n \<in> set (live_nodes i pg rg now D) \<Longrightarrow> n \<in> set (uplink_path_nodes D)"
  by (auto simp: live_nodes_def)

lemma aggregate_cell_sound:
  assumes "\<forall>n\<in>set ns. pn_node_id n \<noteq> []" "0 < required"
  shows "cell_sound (aggregate_cell x required ns D now p)"
proof (cases "aggregate_node ns")
  case (Some n)
  then have "n \<in> set ns" "pn_qualification_state n = NodeQualified" using aggregate_node_mem by blast+
  then have "list_ex (carried_traffic pg rg at D) ns" "pn_node_id n \<noteq> []" for pg rg at
    using assms(1) by (auto simp: list_ex_iff carried_traffic_def)
  then show ?thesis using Some assms(2) by (simp add: cell_sound_def aggregate_cell_def nullIfEmpty_def Let_def)
qed (simp add: cell_sound_def aggregate_cell_def Let_def)

lemma StoreNode_inv:
  assumes "matrix_inv D"
  shows "matrix_inv (fst (StoreNodeQualification t f x D))"
proof -
  have "matrix_inv D'" if s: "store_node t x D = Inr D'" and n: "NeNodeID (NsNode x) \<noteq> []" "0 < NsRequiredTotal x" for D'
  proof -
    obtain D1 where w: "write_node x D = Inr D1"
      and u: "update_one (result_hit (NsPathID x) (NsPolicyGeneration x) (NsRouteGeneration x)) (aggregate_cell x (NsRequiredTotal x)
         (live_nodes (NsPathID x) (NsPolicyGeneration x) (NsRouteGeneration x) (format_time (NsCheckedAt x)) D1) D1 (format_time t)) D1 = Inr D'"
      using s by (auto simp: store_node_def Let_def split: option.splits if_splits)
    have named: "\<forall>n\<in>set (uplink_path_nodes D1). pn_node_id n \<noteq> []"
      using write_node_Inr(2)[OF w] n(1) assms by (auto simp: matrix_inv_def)
    then have "matrix_inv D1" by (rule matrix_inv_nodes[OF assms write_node_Inr(1)[OF w]])
    then show ?thesis
      by (rule update_one_inv[OF u]) (use named n(2) live_nodes_mem in \<open>auto simp: stale_cells intro!: aggregate_cell_sound\<close>)
  qed
  then show ?thesis using assms by (auto simp: StoreNodeQualification_def not_le split: sum.split)
qed

interpretation matrix_ops: operation_system matrix_inv "\<lambda>_ _. True" matrix_step
proof
  show "matrix_inv (matrix_step D x)" if "matrix_inv D" for D x
    using that by (cases x) (simp_all add: ReconcileCells_inv UpdateResult_inv BumpRoute_inv BumpPolicy_inv MarkUplinkOffline_inv
        StoreQualification_inv StoreNode_inv InvalidateVersion_inv MarkCellDegraded_inv)
qed

lemma matrix_ops_legal [simp]: "matrix_ops.legal_run D ops"
  by (induction ops arbitrary: D) simp_all

text \<open>
  Property C13 (the matrix stays consistent). After every sequence of the operations of the path matrix, with any arguments, clock
  readings and driver faults, there is at most one cell per uplink and subscription, and a QUALIFIED cell has passed
  transport, a selected node, and as many passed required targets as there were, of which there was at least one.
\<close>

theorem matrix_inv_always:
  assumes "matrix_inv D"
  shows "matrix_inv (run_ops matrix_step D ops)"
  using assms by (rule matrix_ops.run_inv) simp

end
