(* ===== verification/Path_Samples.thy ===== *)
theory Path_Samples
  imports Path_Theorems Sample_Data
begin

text \<open>A qualification run over the sample database at which the properties of the path matrix apply.\<close>

definition path1 :: h_path where
  "path1 = h_path0\<lparr>PaPreferredNodeIDs := [],
     PaCandidates := [\<lparr>CaNodeID = ''n1'', CaFingerprint = ''fp1'', CaProviderNodeName = ''one''\<rparr>]\<rparr>"

text \<open>The node answers and passes the first target only.\<close>

definition prober1 :: prober where
  "prober1 = prober0\<lparr>ProbeTarget := (\<lambda>_ _ t. \<lparr>PrState = (if TgID t = ''t1'' then ProbePassed else ProbeFailed), PrLatencyMS = 7,
     PrHTTPStatus = 200, PrErrorCode = []\<rparr>)\<rparr>"

definition targets1 :: "h_target list" where
  "targets1 = [h_target0, h_target0\<lparr>TgID := ''t2''\<rparr>]"

definition node1 :: node_result where
  "node1 = \<lparr>NrNodeID = ''n1'', NrFingerprint = ''fp1'', NrState = NodeQualified,
     NrTransport = \<lparr>PrState = ProbePassed, PrLatencyMS = 5, PrHTTPStatus = 0, PrErrorCode = []\<rparr>,
     NrTargets = [\<lparr>TrTargetID = ''t1'', TrRequired = True, TrState = ProbePassed, TrLatencyMS = 7, TrHTTPStatus = 200, TrErrorCode = []\<rparr>],
     RequiredPassed = 1, RequiredTotal = 1, OptionalPassed = 0, OptionalTotal = 0, AggregateLatencyMS = 12\<rparr>"

definition cell1 :: cell_result where
  "cell1 = \<lparr>CePathID = ''p1'', CeModemID = ''u1'', CeSubscriptionID = ''s1'', CeState = CellQualified, CeTransportState = ProbePassed,
     SelectedNodeID = ''n1'', CandidateNodes = 1, QualifiedNodes = 1, RequiredTargetsPassed = 1, RequiredTargetsTotal = 1,
     OptionalTargetsPassed = 0, OptionalTargetsTotal = 0, FunctionalScore = 1000, CeLatencyMS = 12, CeNodes = [node1]\<rparr>"

definition till0 :: instant where "till0 = now0 + 3600 * second"

lemma sample_run: "QualifyCell prober1 True path1 [h_target0] = Inr cell1"
  by code_simp

lemma sample_working: "working prober1 path1 \<lparr>CaNodeID = ''n1'', CaFingerprint = ''fp1'', CaProviderNodeName = ''one''\<rparr> [h_target0]"
  by (simp add: working_def required_passed_def prober1_def prober0_def h_target0_def)

lemma sample_undisturbed: "undisturbed prober1"
  by (simp add: undisturbed_def prober1_def prober0_def)

abbreviation "sample_snapshot \<equiv> SnapshotFromHealth cell1 5 3 now0 till0"

lemma sample_valid: "validateQualificationSnapshot sample_snapshot = Inr ()"
  by code_simp

lemma sample_stored: "\<exists>D'. StoreQualification now0 NoFault sample_snapshot db0 = (D', Inr ())"
proof -
  have "\<exists>D'. store_snapshot now0 sample_snapshot db0 = Inr D'"
    by (simp add: store_snapshot_def snapshot_path_def first_row_def version_nodes_def replace_evidence_def delete_path_nodes_def
        snapshot_rows_def insert_results_def target_row_of_def update_one_Inr result_hit_def path_row_ok_def snapshot_cell_def
        snapshot_quality_def nullIfEmpty_def nullIfZero_def references_def SnapshotFromHealth_def evidence_of_def cell1_def node1_def
        db0_def sub_path0_def path_node0_def subscription0_def node0_def target0_def int64_defs Let_def)
  then show ?thesis by (auto simp: StoreQualification_def sample_valid)
qed

lemma sample_service: "in_service db0 ''p1'' 3 sub_path0 uplink0 subscription0 sub_method0" "primary_keys db0"
    "currentPolicyGeneration db0 = Inr 5"
  by (simp_all add: in_service_def primary_keys_def db0_def sub_path0_def uplink0_def subscription0_def sub_method0_def)
    code_simp

lemma path_sample_fresh: "julian_after sql0 (Some (format_time till0)) (format_time now0)"
  using parse_format_time[OF now0_range(1)] parse_format_time[OF now0_range(3)]
  by (simp add: julian_after_def sql0_def till0_def second_def)

theorem working_node_becomes_candidate_witness:
  "\<exists>D' cs k. StoreQualification now0 NoFault sample_snapshot db0 = (D', Inr ()) \<and> Candidates sql0 now0 NoFault False D' = Inr cs
     \<and> k \<in> set cs \<and> PathID k = ''p1'' \<and> NodeID k = ''n1'' \<and> Quality k = QualityFull"
proof -
  obtain D' where D': "StoreQualification now0 NoFault sample_snapshot db0 = (D', Inr ())" using sample_stored by blast
  have "\<forall>n\<in>set (nodes db0). n_id n = SelectedNodeID cell1 \<longrightarrow> n_enabled n \<and> n_selection_override n \<noteq> ''exclude''"
    by (simp add: db0_def node0_def)
  moreover have "PaID path1 = ''p1''" "PaCandidates path1 = [\<lparr>CaNodeID = ''n1'', CaFingerprint = ''fp1'', CaProviderNodeName = ''one''\<rparr>]"
    by (simp_all add: path1_def h_path0_def)
  ultimately show ?thesis
    using working_node_becomes_candidate[OF sample_run sample_undisturbed _ sample_working D' sample_service(3) _ sample_service(2) _ path_sample_fresh]
      sample_service(1) D' by fastforce
qed

lemma sample_partial:
  "case QualifyCell prober1 True path1 targets1 of Inl _ \<Rightarrow> False | Inr cell \<Rightarrow> CeState cell = CellDegraded \<and> length (CeNodes cell) = 1"
  by code_simp


lemma sample_bump: "\<exists>D'. BumpRouteGeneration now0 NoFault ''u1'' db0 = (D', Inr ())"
  by (simp add: BumpRouteGeneration_def Let_def update_paths_def route_stale_path_def path_row_ok_def db0_def uplink0_def sub_path0_def references_def)

theorem no_candidate_after_route_change_witness:
  "\<exists>D'. BumpRouteGeneration now0 NoFault ''u1'' db0 = (D', Inr ())
     \<and> (\<forall>cs. Candidates sql0 now0 NoFault False D' = Inr cs \<longrightarrow> (\<forall>k\<in>set cs. UplinkID k \<noteq> ''u1''))"
proof -
  obtain D' where D': "BumpRouteGeneration now0 NoFault ''u1'' db0 = (D', Inr ())" using sample_bump by blast
  then show ?thesis using no_candidate_after_route_change[OF D'] by blast
qed

theorem matrix_inv_always_witness:
  "matrix_inv db0 \<and> matrix_inv (run_ops matrix_step db0 [OpStoreQualification now0 NoFault sample_snapshot, OpBumpRoute now0 NoFault ''u1'',
     OpReconcileCells now0 NoFault])"
proof -
  have "matrix_inv db0" by (simp add: matrix_inv_def cell_sound_def cell_key_def db0_def sub_path0_def path_node0_def)
  then show ?thesis using matrix_inv_always by blast
qed

end
