(* ===== verification/Target_Outage.thy ===== *)
theory Target_Outage
  imports Sample_Data "HOL-Library.AList"
begin

text \<open>
  \<open>internal/health/target_outage.go\<close>: a probe target is suspected of being down itself when it fails on enough
  independent paths, and is trusted again when it passes on enough of them.

  \<open>evaluate\<close> reads the clock twice, \<open>now\<close> for the query and \<open>later\<close> for the change. The Go map of the observations is an
  association list: the code only counts over it, so the order of the iteration does not matter.
\<close>

section \<open>Data\<close>

abbreviation TargetNormal :: string where "TargetNormal \<equiv> ''NORMAL''"
abbreviation TargetSuspect :: string where "TargetSuspect \<equiv> ''TARGET_SUSPECT''"

record outage_config =
  FailureCombinationsMin :: int
  FailureDistinctModemsMin :: int
  FailureDistinctSubscriptionsMin :: int
  RecoveryCombinationsMin :: int
  RecoveryDistinctModemsMin :: int

record target_assessment =
  TaTargetID :: string
  PreviousState :: string
  TaState :: string
  TaChanged :: bool
  FailureCombinations :: int
  SuccessCombinations :: int
  DistinctFailureModems :: int
  DistinctFailureSubscriptions :: int

record target_observation =
  ToModemID :: string
  ToSubscriptionID :: string
  ToPassed :: bool

definition DefaultTargetOutageConfig :: outage_config where
  "DefaultTargetOutageConfig = \<lparr>FailureCombinationsMin = 3, FailureDistinctModemsMin = 2, FailureDistinctSubscriptionsMin = 2,
     RecoveryCombinationsMin = 2, RecoveryDistinctModemsMin = 2\<rparr>"

section \<open>Observations\<close>

type_synonym scope = "string \<times> string"

text \<open>The joined rows of the query, before the grouping: the scope and whether the probe passed.\<close>

definition evidence_where :: "string \<Rightarrow> string \<Rightarrow> target_result_row \<Rightarrow> sub_path_row \<Rightarrow> bool" where
  "evidence_where targetID now r p \<longleftrightarrow> p_id p = r_path_id r \<and> r_target_id r = targetID \<and> now < r_expires_at r
     \<and> r_policy_generation r = p_policy_generation p \<and> r_route_generation r = p_route_generation p"

definition evidence :: "string \<Rightarrow> string \<Rightarrow> db \<Rightarrow> (scope \<times> bool) list" where
  "evidence targetID now D =
     [((p_uplink_id p, p_subscription_id p), r_state r = ''PASSED'').
        r \<leftarrow> uplink_path_node_target_results D, p \<leftarrow> subscription_uplink_paths D, evidence_where targetID now r p]"

text \<open>\<open>GROUP BY\<close> with the maximum of the pass flags.\<close>

definition group_passed :: "(scope \<times> bool) list \<Rightarrow> (scope \<times> bool) list" where
  "group_passed rows = map (\<lambda>k. (k, (k, True) \<in> set rows)) (remdups (map fst rows))"

definition with_observation :: "target_observation option \<Rightarrow> (scope \<times> bool) list \<Rightarrow> (scope \<times> bool) list" where
  "with_observation obs m = (case obs of
     None \<Rightarrow> m
   | Some x \<Rightarrow> AList.update (ToModemID x, ToSubscriptionID x) (ToPassed x) m)"

definition scopes :: "bool \<Rightarrow> (scope \<times> bool) list \<Rightarrow> scope list" where
  "scopes b m = map fst (filter (\<lambda>x. snd x = b) m)"

definition distinct_count :: "'a list \<Rightarrow> int" where
  "distinct_count xs = int (length (remdups xs))"

section \<open>Evaluation\<close>

definition no_assessment :: "string \<Rightarrow> string \<Rightarrow> target_assessment" where
  "no_assessment targetID st = \<lparr>TaTargetID = targetID, PreviousState = st, TaState = st, TaChanged = False, FailureCombinations = 0,
     SuccessCombinations = 0, DistinctFailureModems = 0, DistinctFailureSubscriptions = 0\<rparr>"

definition count_scopes :: "(scope \<times> bool) list \<Rightarrow> target_assessment \<Rightarrow> target_assessment" where
  "count_scopes m a = a\<lparr>SuccessCombinations := int (length (scopes True m)), FailureCombinations := int (length (scopes False m)),
     DistinctFailureModems := distinct_count (map fst (scopes False m)),
     DistinctFailureSubscriptions := distinct_count (map snd (scopes False m))\<rparr>"

definition next_state :: "outage_config \<Rightarrow> target_assessment \<Rightarrow> int \<Rightarrow> string \<Rightarrow> string" where
  "next_state c a successModems st =
     (if st \<noteq> TargetSuspect \<and> FailureCombinations a \<ge> FailureCombinationsMin c
        \<and> DistinctFailureModems a \<ge> FailureDistinctModemsMin c \<and> DistinctFailureSubscriptions a \<ge> FailureDistinctSubscriptionsMin c
      then TargetSuspect
      else if st = TargetSuspect \<and> SuccessCombinations a \<ge> RecoveryCombinationsMin c \<and> successModems \<ge> RecoveryDistinctModemsMin c
      then TargetNormal
      else if st \<noteq> TargetSuspect \<and> st \<noteq> TargetNormal \<and> FailureCombinations a + SuccessCombinations a > 0 then TargetNormal
      else st)"

definition outage_event :: "string \<Rightarrow> target_assessment \<Rightarrow> event_row" where
  "outage_event at a =
     \<lparr>e_occurred_at = at, e_severity = (if TaState a = TargetSuspect then ''WARNING'' else ''INFO''),
      e_type = (if TaState a = TargetSuspect then ''TARGET_OUTAGE_SUSPECTED''
                else if PreviousState a = TargetSuspect then ''TARGET_OUTAGE_RECOVERED'' else ''TARGET_STATE_NORMAL''),
      e_uplink_id = None, e_modem_id = None, e_subscription_id = None, e_path_id = None,
      e_details_json = marshal [(''target_id'', JStr (TaTargetID a)), (''previous_state'', JStr (PreviousState a)),
        (''state'', JStr (TaState a)), (''failure_combinations'', JInt (FailureCombinations a)),
        (''success_combinations'', JInt (SuccessCombinations a)), (''distinct_failure_modems'', JInt (DistinctFailureModems a)),
        (''distinct_failure_subscriptions'', JInt (DistinctFailureSubscriptions a))]\<rparr>"

definition set_target_state :: "string \<Rightarrow> string \<Rightarrow> string \<Rightarrow> db \<Rightarrow> db" where
  "set_target_state targetID st at D = D\<lparr>bypass_probe_targets :=
     map (\<lambda>t. if t_id t = targetID then t\<lparr>t_state := st, t_updated_at := at\<rparr> else t) (bypass_probe_targets D)\<rparr>"

definition change_target :: "instant \<Rightarrow> string \<Rightarrow> target_assessment \<Rightarrow> db \<Rightarrow> db \<times> target_assessment" where
  "change_target later st a D =
     (if st = PreviousState a then (D, a)
      else let at = format_time later; a = a\<lparr>TaState := st, TaChanged := True\<rparr>;
               D = set_target_state (TaTargetID a) st at D
        in (D\<lparr>events := events D @ [outage_event at a]\<rparr>, a))"

definition thresholds_ok :: "outage_config \<Rightarrow> bool" where
  "thresholds_ok c \<longleftrightarrow> \<not> (FailureCombinationsMin c \<le> 0 \<or> FailureDistinctModemsMin c \<le> 0 \<or> FailureDistinctSubscriptionsMin c \<le> 0
     \<or> RecoveryCombinationsMin c \<le> 0 \<or> RecoveryDistinctModemsMin c \<le> 0)"

definition evaluate :: "outage_config \<Rightarrow> instant \<Rightarrow> instant \<Rightarrow> fault \<Rightarrow> string \<Rightarrow> target_observation option \<Rightarrow> db
    \<Rightarrow> db \<times> target_assessment result" where
  "evaluate c now later f targetID obs D =
     (if \<not> thresholds_ok c then (D, Inl (ErrMsg ''complete target outage thresholds are required''))
      else if targetID = [] then (D, Inl (ErrMsg ''target outage evaluator database and target id are required''))
      else if f \<noteq> NoFault then (D, Inl ErrDriver)
      else case find (\<lambda>t. t_id t = targetID) (bypass_probe_targets D) of
        None \<Rightarrow> (D, Inl ErrNotFound)
      | Some t \<Rightarrow>
          let a = no_assessment targetID (t_state t)
          in if \<not> t_enabled t then (D, Inr a)
             else let m = with_observation obs (group_passed (evidence targetID (format_time now) D));
                      a = count_scopes m a;
                      st = next_state c a (distinct_count (map fst (scopes True m))) (t_state t);
                      (D', a') = change_target later st a D
               in (D', Inr a'))"

definition Evaluate :: "outage_config \<Rightarrow> instant \<Rightarrow> instant \<Rightarrow> fault \<Rightarrow> string \<Rightarrow> db \<Rightarrow> db \<times> target_assessment result" where
  "Evaluate c now later f targetID D = evaluate c now later f targetID None D"

definition EvaluateWithObservation :: "outage_config \<Rightarrow> instant \<Rightarrow> instant \<Rightarrow> fault \<Rightarrow> string \<Rightarrow> target_observation \<Rightarrow> db
    \<Rightarrow> db \<times> target_assessment result" where
  "EvaluateWithObservation c now later f targetID obs D =
     (if ToModemID obs = [] \<or> ToSubscriptionID obs = [] then (D, Inl (ErrMsg ''complete target observation scope is required''))
      else evaluate c now later f targetID (Some obs) D)"

section \<open>Counting\<close>

text \<open>
  What the evidence says of a pair of uplink and subscription: the observation of the active probe if there is one for
  it, otherwise whether any node passed, if there is unexpired evidence of the current generations at all.
\<close>

definition verdict :: "string \<Rightarrow> string \<Rightarrow> target_observation option \<Rightarrow> db \<Rightarrow> scope \<Rightarrow> bool option" where
  "verdict targetID now obs D k =
     (if \<exists>x. obs = Some x \<and> k = (ToModemID x, ToSubscriptionID x) then map_option ToPassed obs
      else if \<exists>b. (k, b) \<in> set (evidence targetID now D) then Some ((k, True) \<in> set (evidence targetID now D))
      else None)"

lemma group_passed_map: "map_of (group_passed rows) k = (if \<exists>b. (k, b) \<in> set rows then Some ((k, True) \<in> set rows) else None)"
proof -
  have "map_of (map (\<lambda>k. (k, f k)) ks) k = (if k \<in> set ks then Some (f k) else None)" for f :: "scope \<Rightarrow> bool" and ks
    by (induction ks) auto
  then show ?thesis by (auto simp: group_passed_def image_iff)
qed

lemma group_passed_distinct: "distinct (map fst (group_passed rows))"
  by (simp add: group_passed_def comp_def)

lemma observations_map:
  "map_of (with_observation obs (group_passed (evidence targetID now D))) k = verdict targetID now obs D k"
  "distinct (map fst (with_observation obs (group_passed (evidence targetID now D))))"
  by (cases obs; simp add: with_observation_def verdict_def group_passed_map update_conv' distinct_update group_passed_distinct)+

text \<open>Counting over the entries of a map is counting its keys.\<close>

lemma scopes_set: "distinct (map fst m) \<Longrightarrow> set (scopes b m) = {k. map_of m k = Some b} \<and> distinct (scopes b m)"
  by (auto simp: scopes_def image_iff distinct_map inj_on_def intro: map_of_is_SomeI dest: map_of_SomeD)

lemma distinct_count_card: "distinct_count (map f xs) = int (card (f ` set xs))"
  by (simp add: distinct_count_def length_remdups_card_conv)

lemma counted:
  fixes obs targetID now D
  defines "F \<equiv> {k. verdict targetID now obs D k = Some False}" and "S \<equiv> {k. verdict targetID now obs D k = Some True}"
    and "m \<equiv> with_observation obs (group_passed (evidence targetID now D))"
  shows "FailureCombinations (count_scopes m a) = int (card F)" "SuccessCombinations (count_scopes m a) = int (card S)"
    "DistinctFailureModems (count_scopes m a) = int (card (fst ` F))"
    "DistinctFailureSubscriptions (count_scopes m a) = int (card (snd ` F))"
    "distinct_count (map fst (scopes True m)) = int (card (fst ` S))"
proof -
  have "set (scopes False m) = F" "distinct (scopes False m)" "set (scopes True m) = S" "distinct (scopes True m)"
    using scopes_set[OF observations_map(2)] observations_map(1) unfolding F_def S_def m_def by simp_all
  then show "FailureCombinations (count_scopes m a) = int (card F)" "SuccessCombinations (count_scopes m a) = int (card S)"
    "DistinctFailureModems (count_scopes m a) = int (card (fst ` F))"
    "DistinctFailureSubscriptions (count_scopes m a) = int (card (snd ` F))"
    "distinct_count (map fst (scopes True m)) = int (card (fst ` S))"
    by (simp_all add: count_scopes_def distinct_count_card distinct_card[symmetric])
qed

section \<open>The decision\<close>

text \<open>The target fails on enough independent scopes; it passes on enough of them.\<close>

definition failing :: "outage_config \<Rightarrow> (scope \<Rightarrow> bool option) \<Rightarrow> bool" where
  "failing c v \<longleftrightarrow> FailureCombinationsMin c \<le> int (card {k. v k = Some False})
     \<and> FailureDistinctModemsMin c \<le> int (card (fst ` {k. v k = Some False}))
     \<and> FailureDistinctSubscriptionsMin c \<le> int (card (snd ` {k. v k = Some False}))"

definition recovered :: "outage_config \<Rightarrow> (scope \<Rightarrow> bool option) \<Rightarrow> bool" where
  "recovered c v \<longleftrightarrow> RecoveryCombinationsMin c \<le> int (card {k. v k = Some True})
     \<and> RecoveryDistinctModemsMin c \<le> int (card (fst ` {k. v k = Some True}))"

lemma evaluate_Inr:
  assumes "evaluate c now later f targetID obs D = (D', Inr a)" "find (\<lambda>t. t_id t = targetID) (bypass_probe_targets D) = Some t" "t_enabled t"
  defines "v \<equiv> verdict targetID (format_time now) obs D"
  obtains a0 st where "PreviousState a0 = t_state t" "TaState a0 = t_state t" "TaTargetID a0 = targetID" "\<not> TaChanged a0"
    "st \<in> {TargetSuspect, TargetNormal} \<or> st = t_state t"
    "st = TargetSuspect \<longleftrightarrow> (if t_state t = TargetSuspect then \<not> recovered c v else failing c v)"
    "(D', a) = change_target later st a0 D"
proof -
  let ?m = "with_observation obs (group_passed (evidence targetID (format_time now) D))"
  let ?a0 = "count_scopes ?m (no_assessment targetID (t_state t))"
  let ?st = "next_state c ?a0 (distinct_count (map fst (scopes True ?m))) (t_state t)"
  note count = counted[where targetID = targetID and now = "format_time now" and obs = obs and D = D, folded v_def]
  have st: "?st = TargetSuspect \<longleftrightarrow> (if t_state t = TargetSuspect then \<not> recovered c v else failing c v)"
    by (simp add: next_state_def count failing_def recovered_def)
  have "(D', a) = change_target later ?st ?a0 D"
    using assms(1-3) by (auto simp: evaluate_def Let_def split: if_splits prod.splits)
  with st show ?thesis
    by (intro that[of ?a0 ?st]) (auto simp: count_scopes_def no_assessment_def next_state_def)
qed

text \<open>
  The query compares \<open>expires_at\<close> as text. Within a second that is not the order of the times: half a second past
  midnight sorts before midnight, since a full stop is below \<open>Z\<close>.
\<close>

lemma expiry_text_order:
  "\<not> evidence_where targetID text0 (r\<lparr>r_expires_at := ''2026-01-01T00:00:00.5Z''\<rparr>) p \<and> format_time now0 = text0"
  by (simp add: evidence_where_def now0_text(1))

text \<open>
  Property C34 (when a target is suspected). For an enabled target the stored state after an evaluation is suspect
  exactly when it was not suspect and the target fails on enough scopes over enough uplinks and subscriptions, or it was
  suspect and does not pass on enough scopes over enough uplinks; the observation of the active probe replaces the stored evidence of its
  scope. The evaluation changes nothing but the state of that target, and every change is recorded by exactly one event.
\<close>

theorem target_suspected_iff:
  assumes "evaluate c now later f targetID obs D = (D', Inr a)"
    and "find (\<lambda>t. t_id t = targetID) (bypass_probe_targets D) = Some t" "t_enabled t"
  shows "(TaState a = TargetSuspect \<longleftrightarrow>
        (if t_state t = TargetSuspect then \<not> recovered c (verdict targetID (format_time now) obs D)
         else failing c (verdict targetID (format_time now) obs D)))
    \<and> find (\<lambda>t. t_id t = targetID) (bypass_probe_targets D') = Some (if TaState a = t_state t then t
        else t\<lparr>t_state := TaState a, t_updated_at := format_time later\<rparr>)
    \<and> (if TaState a = t_state t then D' = D
       else D' = (set_target_state targetID (TaState a) (format_time later) D)\<lparr>events := events D @ [outage_event (format_time later) a]\<rparr>)"
proof -
  obtain a0 st where a0: "PreviousState a0 = t_state t" "TaState a0 = t_state t" "TaTargetID a0 = targetID"
    and st: "st = TargetSuspect \<longleftrightarrow> (if t_state t = TargetSuspect then \<not> recovered c (verdict targetID (format_time now) obs D)
         else failing c (verdict targetID (format_time now) obs D))"
    and ch: "(D', a) = change_target later st a0 D"
    using evaluate_Inr[OF assms] by metis
  have upd: "find (\<lambda>t. t_id t = targetID) (map (\<lambda>t. if t_id t = targetID then g t else t) ts) = Some (g t)"
    if "find (\<lambda>t. t_id t = targetID) ts = Some t" "\<And>t. t_id (g t) = t_id t" for g :: "target_row \<Rightarrow> target_row" and ts
    using that(1) by (induction ts) (auto simp: that(2) split: if_splits)
  have sa: "TaState a = st"
    using ch a0 by (simp add: change_target_def Let_def split: if_splits)
  have D': "if st = t_state t then D' = D
       else D' = (set_target_state targetID st (format_time later) D)\<lparr>events := events D @ [outage_event (format_time later) a]\<rparr>"
    using ch a0 by (simp add: change_target_def set_target_state_def Let_def split: if_splits)
  then have "find (\<lambda>t. t_id t = targetID) (bypass_probe_targets D') = Some (if st = t_state t then t
        else t\<lparr>t_state := st, t_updated_at := format_time later\<rparr>)"
    using assms(2) upd[OF assms(2), of "\<lambda>t. t\<lparr>t_state := st, t_updated_at := format_time later\<rparr>"]
    by (auto simp: set_target_state_def split: if_splits)
  with D' st sa show ?thesis by simp
qed

text \<open>Three failing scopes over two uplinks and two subscriptions, one of them seen by the active probe.\<close>

definition outage_path :: "string \<Rightarrow> string \<Rightarrow> sub_path_row" where
  "outage_path u s = sub_path0\<lparr>p_id := u @ s, p_uplink_id := u, p_subscription_id := s\<rparr>"

definition outage_result :: "string \<Rightarrow> target_result_row" where
  "outage_result path = \<lparr>r_path_id = path, r_node_id = ''n1'', r_target_id = ''t1'', r_state = ''FAILED'', r_latency_ms = None,
     r_http_status = None, r_error_code = None, r_checked_at = text0, r_expires_at = expiry0, r_policy_generation = 5, r_route_generation = 3\<rparr>"

definition outage_db :: db where
  "outage_db = db0\<lparr>subscription_uplink_paths := [outage_path ''u1'' ''s1'', outage_path ''u2'' ''s1''],
     uplink_path_node_target_results := [outage_result ''u1s1'', outage_result ''u2s1'']\<rparr>"

abbreviation "outage_seen \<equiv> Some \<lparr>ToModemID = ''u1'', ToSubscriptionID = ''s2'', ToPassed = False\<rparr>"

lemma outage_sample:
  "find (\<lambda>t. t_id t = ''t1'') (bypass_probe_targets outage_db) = Some target0" "t_enabled target0"
  "case snd (evaluate DefaultTargetOutageConfig now0 now0 NoFault ''t1'' outage_seen outage_db) of
     Inl _ \<Rightarrow> False | Inr a \<Rightarrow> TaState a = TargetSuspect"
proof -
  show t: "find (\<lambda>t. t_id t = ''t1'') (bypass_probe_targets outage_db) = Some target0" "t_enabled target0"
    by code_simp+
  let ?m = "with_observation outage_seen (group_passed (evidence ''t1'' text0 outage_db))"
  let ?a = "count_scopes ?m (no_assessment ''t1'' (t_state target0))"
  have "next_state DefaultTargetOutageConfig ?a (distinct_count (map fst (scopes True ?m))) (t_state target0) = TargetSuspect"
    by code_simp
  moreover have "thresholds_ok DefaultTargetOutageConfig" "t_state target0 \<noteq> TargetSuspect" by code_simp+
  ultimately show "case snd (evaluate DefaultTargetOutageConfig now0 now0 NoFault ''t1'' outage_seen outage_db) of
     Inl _ \<Rightarrow> False | Inr a \<Rightarrow> TaState a = TargetSuspect"
    using t by (simp add: evaluate_def now0_text(1) Let_def change_target_def no_assessment_def count_scopes_def)
qed

theorem target_suspected_iff_witness:
  "\<exists>D' a. evaluate DefaultTargetOutageConfig now0 now0 NoFault ''t1'' outage_seen outage_db = (D', Inr a)
     \<and> failing DefaultTargetOutageConfig (verdict ''t1'' (format_time now0) outage_seen outage_db)
     \<and> find (\<lambda>t. t_id t = ''t1'') (bypass_probe_targets D')
        = Some (target0\<lparr>t_state := TargetSuspect, t_updated_at := format_time now0\<rparr>)"
proof -
  obtain D' a where e: "evaluate DefaultTargetOutageConfig now0 now0 NoFault ''t1'' outage_seen outage_db = (D', Inr a)"
      and a: "TaState a = TargetSuspect"
    using outage_sample(3) by (cases "evaluate DefaultTargetOutageConfig now0 now0 NoFault ''t1'' outage_seen outage_db") (auto split: sum.splits)
  have "t_state target0 \<noteq> TargetSuspect" by (simp add: target0_def)
  then show ?thesis using target_suspected_iff[OF e outage_sample(1,2)] e a by (intro exI conjI) auto
qed

end
