(* ===== verification/Periodic_Health.thy ===== *)
theory Periodic_Health
  imports Sample_Data "HOL-Library.Word"
begin

unbundle bit_operations_syntax

text \<open>
  \<open>internal/health/periodic_repository.go\<close>: the schedule of the periodic probes, one row of \<open>path_health_runtime\<close> per path,
  with the deterministic jitter that spreads them (FNV-1a over 64-bit words). \<open>update_health\<close> is an UPDATE with the CHECKs of
  migration 000018.
\<close>

section \<open>Data\<close>

record due_path =
  DuePathID :: string
  DueModemID :: string
  DueSubscriptionID :: string
  DueProbeClass :: string
  DueLastResult :: string
  DueSuccesses :: int
  DueFailures :: int

record periodic_status =
  PsPathID :: string
  PsProbeClass :: string
  PsNextProbeAt :: string
  PsLastProbeAt :: string
  PsLastResult :: string
  PsSuccesses :: int
  PsFailures :: int
  PsDeferredReason :: string

definition health_row_ok :: "health_row \<Rightarrow> bool" where
  "health_row_ok h \<longleftrightarrow> h_probe_class h \<in> {''ACTIVE'', ''STANDBY''}
     \<and> h_last_result h \<in> {''UNKNOWN'', ''PASSED'', ''FAILED'', ''DEFERRED_BUDGET''}
     \<and> 0 \<le> h_consecutive_successes h \<and> 0 \<le> h_consecutive_failures h
     \<and> \<not> (h_consecutive_successes h > 0 \<and> h_consecutive_failures h > 0)
     \<and> (h_last_result h = ''DEFERRED_BUDGET'') = (h_deferred_reason h \<noteq> None)"

definition update_health :: "(health_row \<Rightarrow> bool) \<Rightarrow> (health_row \<Rightarrow> health_row) \<Rightarrow> db \<Rightarrow> (db \<times> nat) result" where
  "update_health hit change D =
     (let hs = path_health_runtime D
      in if list_all (\<lambda>h. hit h \<longrightarrow> health_row_ok (change h)) hs
         then Inr (D\<lparr>path_health_runtime := map (\<lambda>h. if hit h then change h else h) hs\<rparr>, length (filter hit hs))
         else Inl ErrConstraint)"

section \<open>The class of a path\<close>

definition class_of :: "string \<Rightarrow> string \<Rightarrow> string" where
  "class_of activePathID pathID = (if pathID = activePathID then ''ACTIVE'' else ''STANDBY'')"

definition new_schedule :: "string \<Rightarrow> string \<Rightarrow> sub_path_row \<Rightarrow> health_row" where
  "new_schedule activePathID now p = \<lparr>h_path_id = p_id p, h_probe_class = class_of activePathID (p_id p), h_next_probe_at = now,
     h_last_probe_at = None, h_last_result = ''UNKNOWN'', h_consecutive_successes = 0, h_consecutive_failures = 0,
     h_deferred_reason = None, h_updated_at = now\<rparr>"

text \<open>\<open>INSERT ... SELECT ... ON CONFLICT(path_id) DO NOTHING\<close>\<close>

fun insert_schedules :: "string \<Rightarrow> string \<Rightarrow> sub_path_row list \<Rightarrow> health_row list \<Rightarrow> health_row list" where
  "insert_schedules activePathID now [] hs = hs"
| "insert_schedules activePathID now (p # ps) hs =
     insert_schedules activePathID now ps (if p_id p \<in> set (map h_path_id hs) then hs else hs @ [new_schedule activePathID now p])"

definition reclassify :: "string \<Rightarrow> string \<Rightarrow> health_row \<Rightarrow> health_row" where
  "reclassify activePathID now h =
     (let c = class_of activePathID (h_path_id h); moved = (h_probe_class h \<noteq> c)
      in h\<lparr>h_probe_class := c, h_next_probe_at := (if moved then now else h_next_probe_at h),
           h_last_result := (if moved then ''UNKNOWN'' else h_last_result h),
           h_consecutive_successes := (if moved then 0 else h_consecutive_successes h),
           h_consecutive_failures := (if moved then 0 else h_consecutive_failures h),
           h_deferred_reason := (if moved then None else h_deferred_reason h), h_updated_at := now\<rparr>)"

definition ReconcilePeriodic :: "instant \<Rightarrow> fault \<Rightarrow> string \<Rightarrow> db \<Rightarrow> db \<times> unit result" where
  "ReconcilePeriodic nowTime f activePathID D =
     (if f \<noteq> NoFault then (D, Inl ErrDriver)
      else let now = format_time nowTime;
               D1 = D\<lparr>path_health_runtime := insert_schedules activePathID now (subscription_uplink_paths D) (path_health_runtime D)\<rparr>
        in case update_health (\<lambda>_. True) (reclassify activePathID now) D1 of
             Inl e \<Rightarrow> (D, Inl e)
           | Inr (D', _) \<Rightarrow> (D', Inr ()))"

section \<open>What is due\<close>

definition class_rank :: "string \<Rightarrow> nat" where
  "class_rank c = (if c = ''ACTIVE'' then 0 else 1)"

definition schedule_order :: "health_row \<Rightarrow> health_row \<Rightarrow> bool" where
  "schedule_order a b =
     (if class_rank (h_probe_class a) \<noteq> class_rank (h_probe_class b) then class_rank (h_probe_class a) < class_rank (h_probe_class b)
      else if h_next_probe_at a \<noteq> h_next_probe_at b then h_next_probe_at a < h_next_probe_at b
      else h_path_id a < h_path_id b)"

definition due_where :: "string \<Rightarrow> health_row \<Rightarrow> sub_path_row \<Rightarrow> uplink_row \<Rightarrow> subscription_row \<Rightarrow> bool" where
  "due_where now h p u s \<longleftrightarrow> p_id p = h_path_id h \<and> u_id u = p_uplink_id p \<and> s_id s = p_subscription_id p
     \<and> h_next_probe_at h \<le> now \<and> u_enabled u \<and> u_state u = ''UPLINK_READY'' \<and> s_enabled s \<and> s_active_version_id s \<noteq> None"

definition Due :: "instant \<Rightarrow> fault \<Rightarrow> int \<Rightarrow> db \<Rightarrow> due_path list result" where
  "Due nowTime f limit D =
     (if limit \<le> 0 \<or> limit > 100 then Inl (ErrMsg ''periodic health database and due limit 1..100 are required'')
      else if f \<noteq> NoFault then Inl ErrDriver
      else let now = format_time nowTime;
               rows = [(h, p). h \<leftarrow> path_health_runtime D, p \<leftarrow> subscription_uplink_paths D, u \<leftarrow> uplinks D, s \<leftarrow> subscriptions D, due_where now h p u s]
        in Inr (map (\<lambda>(h, p). \<lparr>DuePathID = h_path_id h, DueModemID = p_uplink_id p, DueSubscriptionID = p_subscription_id p,
               DueProbeClass = h_probe_class h, DueLastResult = h_last_result h, DueSuccesses = h_consecutive_successes h,
               DueFailures = h_consecutive_failures h\<rparr>)
             (take (nat limit) (sort_stable (\<lambda>x y. schedule_order (fst x) (fst y)) rows))))"

section \<open>Jitter\<close>

definition fnv_prime :: "64 word" where "fnv_prime = 1099511628211"
definition fnv_offset :: "64 word" where "fnv_offset = 14695981039346656037"

definition fnv64a :: "string \<Rightarrow> 64 word" where
  "fnv64a bytes = fold (\<lambda>c h. (h XOR word_of_nat (of_char c)) * fnv_prime) bytes fnv_offset"

text \<open>\<open>Format("2006-01-02T15:04")\<close>\<close>

definition format_minute :: "instant \<Rightarrow> string" where
  "format_minute t =
     (let s = t div second; (y, m, d) = civil_from_days (s div 86400); r = s mod 86400
      in format_year y @ ''-'' @ pad 2 (nat m) @ ''-'' @ pad 2 (nat d) @ ''T'' @ pad 2 (nat (r div 3600)) @ '':'' @ pad 2 (nat (r div 60 mod 60)))"

definition deterministicJitter :: "string \<Rightarrow> instant \<Rightarrow> duration \<Rightarrow> int \<Rightarrow> duration" where
  "deterministicJitter pathID at interval percent =
     (if percent = 0 then 0
      else let span = go_div (wrap64 (interval * percent)) 100
        in if span \<le> 0 then 0
           else wrap64 (wrap64 (uint (fnv64a (pathID @ format_minute at) mod (word_of_int (wrap64 (2 * span)) + 1))) - span))"

section \<open>Recording\<close>

definition status_of :: "health_row \<Rightarrow> periodic_status" where
  "status_of h = \<lparr>PsPathID = h_path_id h, PsProbeClass = h_probe_class h, PsNextProbeAt = h_next_probe_at h,
     PsLastProbeAt = null_str (h_last_probe_at h), PsLastResult = h_last_result h, PsSuccesses = h_consecutive_successes h,
     PsFailures = h_consecutive_failures h, PsDeferredReason = null_str (h_deferred_reason h)\<rparr>"

definition GetPeriodic :: "fault \<Rightarrow> string \<Rightarrow> db \<Rightarrow> periodic_status result" where
  "GetPeriodic f pathID D =
     (if pathID = [] then Inl (ErrMsg ''periodic health database and path id are required'')
      else if f \<noteq> NoFault then Inl ErrDriver
      else case first_row (filter (\<lambda>h. h_path_id h = pathID) (path_health_runtime D)) of
        None \<Rightarrow> Inl ErrNotFound
      | Some h \<Rightarrow> Inr (status_of h))"

definition ListPeriodic :: "fault \<Rightarrow> db \<Rightarrow> periodic_status list result" where
  "ListPeriodic f D = (if f \<noteq> NoFault then Inl ErrDriver else Inr (map status_of (sort_stable schedule_order (path_health_runtime D))))"

text \<open>An UPDATE of one path outside of a transaction, and the row it leaves; \<open>FaultReread\<close> is a failure of the second step.\<close>

definition change_schedule :: "fault \<Rightarrow> string \<Rightarrow> (health_row \<Rightarrow> health_row) \<Rightarrow> db \<Rightarrow> db \<times> unit result" where
  "change_schedule f pathID change D =
     (if f = FaultTx then (D, Inl ErrDriver)
      else case update_health (\<lambda>h. h_path_id h = pathID) change D of
        Inl e \<Rightarrow> (D, Inl e)
      | Inr (D', n) \<Rightarrow> (D', if n \<noteq> 1 then Inl ErrNotFound else Inr ()))"

definition changed_status :: "fault \<Rightarrow> string \<Rightarrow> (health_row \<Rightarrow> health_row) \<Rightarrow> db \<Rightarrow> db \<times> periodic_status result" where
  "changed_status f pathID change D = (case change_schedule f pathID change D of
     (D', Inl e) \<Rightarrow> (D', Inl e)
   | (D', Inr _) \<Rightarrow> (D', GetPeriodic f pathID D'))"

definition next_probe :: "string \<Rightarrow> instant \<Rightarrow> duration \<Rightarrow> int \<Rightarrow> instant" where
  "next_probe pathID now interval percent = now + wrap64 (interval + deterministicJitter pathID now interval percent)"

definition recorded :: "string \<Rightarrow> instant \<Rightarrow> instant \<Rightarrow> health_row \<Rightarrow> health_row" where
  "recorded result now next h = h\<lparr>h_last_probe_at := Some (format_time now), h_next_probe_at := format_time next,
     h_last_result := result, h_deferred_reason := None,
     h_consecutive_successes := (if result = ''PASSED'' then h_consecutive_successes h + 1 else 0),
     h_consecutive_failures := (if result = ''FAILED'' then h_consecutive_failures h + 1 else 0), h_updated_at := format_time now\<rparr>"

definition Record :: "instant \<Rightarrow> fault \<Rightarrow> string \<Rightarrow> string \<Rightarrow> duration \<Rightarrow> int \<Rightarrow> db \<Rightarrow> db \<times> periodic_status result" where
  "Record now f pathID result interval jitterPercent D =
     (if pathID = [] \<or> result \<noteq> ''PASSED'' \<and> result \<noteq> ''FAILED'' \<or> interval \<le> 0 \<or> jitterPercent < 0 \<or> jitterPercent > 50
      then (D, Inl (ErrMsg ''valid periodic result, interval, and jitter are required''))
      else let next = next_probe pathID now interval jitterPercent;
               next = (if \<not> next > now then now + second else next)
        in changed_status f pathID (recorded result now next) D)"

definition Defer :: "instant \<Rightarrow> fault \<Rightarrow> string \<Rightarrow> string \<Rightarrow> duration \<Rightarrow> int \<Rightarrow> db \<Rightarrow> db \<times> periodic_status result" where
  "Defer now f pathID reason interval jitterPercent D =
     (if pathID = [] \<or> reason = [] \<or> interval \<le> 0 \<or> jitterPercent < 0 \<or> jitterPercent > 50
      then (D, Inl (ErrMsg ''valid deferred periodic schedule is required''))
      else changed_status f pathID (\<lambda>h. h\<lparr>h_next_probe_at := format_time (next_probe pathID now interval jitterPercent),
             h_last_result := ''DEFERRED_BUDGET'', h_deferred_reason := Some reason, h_updated_at := format_time now\<rparr>) D)"

definition Acknowledge :: "instant \<Rightarrow> fault \<Rightarrow> string \<Rightarrow> db \<Rightarrow> db \<times> unit result" where
  "Acknowledge now f pathID D =
     (if pathID = [] then (D, Inl (ErrMsg ''path id is required for periodic acknowledgement''))
      else change_schedule f pathID (\<lambda>h. h\<lparr>h_consecutive_successes := 0, h_consecutive_failures := 0, h_updated_at := format_time now\<rparr>) D)"

section \<open>The jitter is bounded\<close>

lemma go_div_pos: "0 < go_div x 100 \<Longrightarrow> 0 < x"
  by (rule ccontr) (auto simp: go_div_def Let_def split: if_splits)

lemma jitter_span:
  assumes "span = go_div (wrap64 (interval * percent)) 100"
  shows "\<bar>deterministicJitter pathID at interval percent\<bar> \<le> max 0 span"
proof (cases "percent = 0 \<or> span \<le> 0")
  case True
  then show ?thesis using assms by (auto simp: deterministicJitter_def)
next
  case False
  let ?m = "word_of_int (2 * span) + 1 :: 64 word" and ?h = "fnv64a (pathID @ format_minute at)"
  define x where "x = wrap64 (interval * percent)"
  have x: "span = go_div x 100" "is_int64 x" unfolding x_def by (rule assms, rule wrap64_range)
  have "0 < span" using False by simp
  then have "0 < x" unfolding x(1) by (rule go_div_pos)
  then have "span = x div 100" "x < 2 ^ 63" using x by (simp_all add: int64_defs)
  then have b: "0 < span" "2 * span < 2 ^ 62" using False by simp_all
  have w: "wrap64 (2 * span) = 2 * span" using b by (intro wrap64_id) (simp add: int64_defs)
  have "?m = word_of_int (2 * span + 1)" by simp
  then have u: "uint ?m = 2 * span + 1" using b by (simp only: uint_word_of_int) (simp add: take_bit_int_eq_self)
  have r: "0 \<le> uint (?h mod ?m)" "uint (?h mod ?m) \<le> 2 * span"
    using b u pos_mod_bound[of "2 * span + 1" "uint ?h"] by (simp_all only: uint_mod u) simp_all
  define v where "v = uint (?h mod ?m)"
  have "is_int64 v" "is_int64 (v - span)" using r b unfolding v_def[symmetric] by (simp_all add: int64_defs)
  moreover have "deterministicJitter pathID at interval percent = wrap64 (wrap64 v - span)"
    using False by (simp only: deterministicJitter_def Let_def assms[symmetric] w v_def) simp
  ultimately show ?thesis using r b unfolding v_def[symmetric] by simp
qed

text \<open>For intervals of up to three years nothing overflows.\<close>

lemma jitter_bound:
  assumes "0 < interval" "interval \<le> 10 ^ 17" "0 \<le> percent" "percent \<le> 50"
  shows "\<bar>deterministicJitter pathID at interval percent\<bar> \<le> interval * percent div 100" "interval * percent div 100 < interval"
proof -
  have "interval * percent \<le> 10 ^ 17 * 50" using assms by (intro mult_mono) simp_all
  moreover have "0 \<le> interval * percent" using assms by simp
  ultimately have "is_int64 (interval * percent)" by (simp add: int64_defs)
  then show "\<bar>deterministicJitter pathID at interval percent\<bar> \<le> interval * percent div 100"
    using jitter_span[OF refl, of pathID at interval percent] assms by (simp add: pos_imp_zdiv_nonneg_iff)
  have "interval * percent \<le> interval * 50" using assms by (intro mult_left_mono) simp_all
  then show "interval * percent div 100 < interval" using assms(1) by linarith
qed

lemma next_probe_bounds:
  assumes "0 < interval" "interval \<le> 10 ^ 17" "0 \<le> percent" "percent \<le> 50"
  shows "\<bar>next_probe pathID now interval percent - (now + interval)\<bar> \<le> interval * percent div 100" "now < next_probe pathID now interval percent"
proof -
  note j = jitter_bound(1)[OF assms, of pathID now] jitter_bound(2)[OF assms]
  have "is_int64 (interval + deterministicJitter pathID now interval percent)"
    using j assms(1,2) by (simp add: int64_defs) linarith
  then have "next_probe pathID now interval percent = now + (interval + deterministicJitter pathID now interval percent)"
    by (simp add: next_probe_def)
  then show "\<bar>next_probe pathID now interval percent - (now + interval)\<bar> \<le> interval * percent div 100" "now < next_probe pathID now interval percent"
    using j by linarith+
qed

lemma update_health_Inr:
  "update_health hit change D = Inr (D', n) \<longleftrightarrow>
     D' = D\<lparr>path_health_runtime := map (\<lambda>h. if hit h then change h else h) (path_health_runtime D)\<rparr>
     \<and> n = length (filter hit (path_health_runtime D)) \<and> (\<forall>h\<in>set (path_health_runtime D). hit h \<longrightarrow> health_row_ok (change h))"
  by (auto simp: update_health_def Let_def list_all_iff)

lemma filter_map_keep: "(\<And>h. P (g h) = P h) \<Longrightarrow> filter P (map (\<lambda>h. if P h then g h else h) hs) = map g (filter P hs)"
  by (induction hs) auto

text \<open>
  Property C38 (the next probe of a path). Recording the result of a periodic probe of a path that has a schedule (and whose
  counters satisfy the constraints of the table) succeeds, for an interval of up to three years and a jitter of up to 50 percent:
  the next probe is after now and within the jitter of one interval from now, a success adds one to the successes and clears the
  failures and a failure does the reverse, and the schedules of other paths are as they were.
\<close>

theorem Record_schedules_next:
  assumes "filter (\<lambda>h. h_path_id h = pathID) (path_health_runtime D) = [h]" "health_row_ok h" "pathID \<noteq> []" "result = ''PASSED'' \<or> result = ''FAILED''"
    and "0 < interval" "interval \<le> 10 ^ 17" "0 \<le> percent" "percent \<le> 50"
  shows "\<exists>D' next s. Record now NoFault pathID result interval percent D = (D', Inr s) \<and> PsNextProbeAt s = format_time next
    \<and> now < next \<and> \<bar>next - (now + interval)\<bar> \<le> interval * percent div 100 \<and> PsLastResult s = result
    \<and> (PsSuccesses s, PsFailures s) = (if result = ''PASSED'' then (h_consecutive_successes h + 1, 0) else (0, h_consecutive_failures h + 1))
    \<and> filter (\<lambda>h. h_path_id h \<noteq> pathID) (path_health_runtime D') = filter (\<lambda>h. h_path_id h \<noteq> pathID) (path_health_runtime D)"
proof -
  let ?hit = "\<lambda>h. h_path_id h = pathID" and ?next = "next_probe pathID now interval percent"
  let ?D' = "D\<lparr>path_health_runtime := map (\<lambda>h. if ?hit h then recorded result now ?next h else h) (path_health_runtime D)\<rparr>"
  note bounds = next_probe_bounds[OF assms(5-8), where pathID = pathID and now = now]
  have one: "h' = h" if "h' \<in> set (path_health_runtime D)" "?hit h'" for h' 
    using that arg_cong[OF assms(1), of set] by auto
  have ok: "health_row_ok (recorded result now ?next h)" using assms(2,4) by (auto simp: health_row_ok_def recorded_def)
  have key: "h_path_id (recorded result now ?next h) = h_path_id h" for h by (simp add: recorded_def)
  have u: "update_health ?hit (recorded result now ?next) D = Inr (?D', 1)"
    using one ok assms(1) by (auto simp: update_health_Inr)
  have "filter ?hit (path_health_runtime ?D') = [recorded result now ?next h]"
    using filter_map_keep[of ?hit "recorded result now ?next"] assms(1) key by simp
  then have "GetPeriodic NoFault pathID ?D' = Inr (status_of (recorded result now ?next h))"
    using assms(3) by (simp only: GetPeriodic_def first_row_def) simp
  with u have "Record now NoFault pathID result interval percent D = (?D', Inr (status_of (recorded result now ?next h)))"
    using assms(3-8) bounds(2) by (simp add: Record_def Let_def changed_status_def change_schedule_def)
  moreover have "filter (\<lambda>h. \<not> ?hit h) (map (\<lambda>h. if ?hit h then recorded result now ?next h else h) hs) = filter (\<lambda>h. \<not> ?hit h) hs" for hs
    by (induction hs) (auto simp: key)
  ultimately show ?thesis using assms(4) bounds
    by (intro exI[of _ ?D'] exI[of _ ?next] exI[of _ "status_of (recorded result now ?next h)"]) (auto simp: status_of_def recorded_def)
qed

section \<open>A sample\<close>

definition schedule0 :: health_row where
  "schedule0 = \<lparr>h_path_id = ''p1'', h_probe_class = ''ACTIVE'', h_next_probe_at = text0, h_last_probe_at = None, h_last_result = ''UNKNOWN'',
     h_consecutive_successes = 0, h_consecutive_failures = 2, h_deferred_reason = None, h_updated_at = text0\<rparr>"

theorem Record_schedules_next_witness:
  "\<exists>D' next s. Record now0 NoFault ''p1'' ''PASSED'' (60 * second) 20 (db0\<lparr>path_health_runtime := [schedule0]\<rparr>) = (D', Inr s)
     \<and> PsNextProbeAt s = format_time next \<and> now0 + 48 * second \<le> next \<and> next \<le> now0 + 72 * second \<and> (PsSuccesses s, PsFailures s) = (1, 0)"
proof -
  let ?D = "db0\<lparr>path_health_runtime := [schedule0]\<rparr>"
  have h: "filter (\<lambda>h. h_path_id h = ''p1'') (path_health_runtime ?D) = [schedule0]" "health_row_ok schedule0"
    by (simp_all add: schedule0_def health_row_ok_def)
  have "h_consecutive_successes schedule0 = 0" by (simp add: schedule0_def)
  then show ?thesis
    using Record_schedules_next[OF h, of "''PASSED''" "60 * second" 20 now0] by (fastforce simp: second_def)
qed

end
