(* ===== verification/Go_Net.thy ===== *)
theory Go_Net
  imports Go_Json "HOL-Library.Word"
begin

unbundle bit_operations_syntax

text \<open>
  What the sources use of Go's packages \<open>net/netip\<close>, \<open>net/url\<close>, \<open>strings\<close>, \<open>encoding/hex\<close> and \<open>crypto/sha256\<close>.

  IPv4 addresses and prefixes are concrete: an address is a 32-bit word, its text is parsed and written as \<open>netip\<close> does
  (four decimal octets without leading zeros). Three things whose definition is long and on which no theorem depends are
  parameters, in the record \<open>net_lib\<close>: the parser and the printer of IPv6 text, the URL parser, and the SHA-256 digest, with
  the classification of runes beyond ASCII by package \<open>unicode\<close>.
\<close>

section \<open>Strings\<close>

definition last_index :: "char \<Rightarrow> string \<Rightarrow> nat option" where
  "last_index c s = (if c \<in> set s then Some (length s - 1 - length (takeWhile (\<lambda>x. x \<noteq> c) (rev s))) else None)"

fun split_on :: "char \<Rightarrow> string \<Rightarrow> string list" where
  "split_on c [] = [[]]"
| "split_on c (x # xs) = (if x = c then [] # split_on c xs
     else case split_on c xs of [] \<Rightarrow> [[x]] | y # ys \<Rightarrow> (x # y) # ys)"

text \<open>The white space rune at the end of a text, by the number of its bytes.\<close>

definition space_len_right :: "string \<Rightarrow> nat" where
  "space_len_right s =
     (if length s \<ge> 1 \<and> space_len (drop (length s - 1) s) = 1 then 1
      else if length s \<ge> 2 \<and> space_len (drop (length s - 2) s) = 2 then 2
      else if length s \<ge> 3 \<and> space_len (drop (length s - 3) s) = 3 then 3 else 0)"

function trim_right :: "string \<Rightarrow> string" where
  "trim_right s = (if space_len_right s = 0 then s else trim_right (take (length s - space_len_right s) s))"
  by pat_completeness auto
termination
  by (relation "measure length") (auto simp: space_len_right_def split: if_splits)

declare trim_right.simps [simp del]

definition TrimSpace :: "string \<Rightarrow> string" where
  "TrimSpace s = trim_right (trim_left s)"

text \<open>The number of runes of a text, \<open>len([]rune(s))\<close>: a byte that begins no rune counts as one.\<close>

function rune_count :: "string \<Rightarrow> nat" where
  "rune_count s = (if s = [] then 0 else Suc (rune_count (drop (max 1 (rune_len s)) s)))"
  by pat_completeness auto
termination
  by (relation "measure length") auto

declare rune_count.simps [simp del]

definition in_range :: "char \<Rightarrow> char \<Rightarrow> char \<Rightarrow> bool" where
  "in_range lo hi c \<longleftrightarrow> lo \<le> c \<and> c \<le> hi"

definition is_lower :: "char \<Rightarrow> bool" where "is_lower c \<longleftrightarrow> in_range CHR ''a'' CHR ''z'' c"
definition is_upper :: "char \<Rightarrow> bool" where "is_upper c \<longleftrightarrow> in_range CHR ''A'' CHR ''Z'' c"

section \<open>Hexadecimal text\<close>

definition hex_byte :: "char \<Rightarrow> string" where
  "hex_byte c = [hex_digit (byte_val c div 16), hex_digit (byte_val c mod 16)]"

definition hex_encode :: "string \<Rightarrow> string" where
  "hex_encode s = concat (map hex_byte s)"

definition hex_val :: "char \<Rightarrow> nat option" where
  "hex_val c = (if is_digit c then Some (byte_val c - 48)
     else if in_range CHR ''a'' CHR ''f'' c then Some (byte_val c - 87)
     else if in_range CHR ''A'' CHR ''F'' c then Some (byte_val c - 55) else None)"

fun hex_decode :: "string \<Rightarrow> string option" where
  "hex_decode [] = Some []"
| "hex_decode [_] = None"
| "hex_decode (a # b # s) = (case (hex_val a, hex_val b, hex_decode s) of
     (Some x, Some y, Some r) \<Rightarrow> Some (char_of (16 * x + y) # r) | _ \<Rightarrow> None)"

lemma hex_val_digit [simp]: "n < 16 \<Longrightarrow> hex_val (hex_digit n) = Some n"
  by (auto simp: hex_val_def hex_digit_def is_digit_def in_range_def byte_val_def less_eq_char_def)

lemma byte_val_less: "byte_val c < 256"
proof -
  have "(of_char c :: nat) mod 256 = of_char c" by (rule of_char_mod_256)
  then show ?thesis using mod_less_divisor[of 256 "of_char c :: nat"] by (simp add: byte_val_def)
qed

lemma hex_decode_encode [simp]: "hex_decode (hex_encode s) = Some s"
proof (induction s)
  case (Cons c s)
  have "byte_val c div 16 < 16" "byte_val c mod 16 < 16" using byte_val_less[of c] by auto
  moreover have "char_of (16 * (byte_val c div 16) + byte_val c mod 16) = c"
    by (simp add: byte_val_def)
  ultimately show ?case using Cons by (simp add: hex_encode_def hex_byte_def)
qed (simp add: hex_encode_def)

interpretation hex_codec: text_codec "\<lambda>_. True" hex_encode hex_decode
  by unfold_locales simp

section \<open>Addresses\<close>

datatype addr = Addr4 "32 word" | Addr6 "nat list" string

record url =
  Scheme :: string
  URLHost :: string
  HasUser :: bool
  URLPath :: string
  RawQuery :: string
  Fragment :: string
  Hostname :: string
  Port :: string

record net_lib =
  parse_addr6 :: "string \<Rightarrow> (nat list \<times> string) option"
  print_addr6 :: "nat list \<Rightarrow> string \<Rightarrow> string"
  url_Parse :: "string \<Rightarrow> url option"
  sha256 :: "string \<Rightarrow> string"
  letter_or_digit :: "string \<Rightarrow> bool"

definition Is4 :: "addr \<Rightarrow> bool" where
  "Is4 a \<longleftrightarrow> (case a of Addr4 _ \<Rightarrow> True | Addr6 _ _ \<Rightarrow> False)"

definition octets :: "32 word \<Rightarrow> nat list" where
  "octets w = [unat w div 2 ^ 24, unat w div 2 ^ 16 mod 256, unat w div 2 ^ 8 mod 256, unat w mod 256]"

definition from_octets :: "nat list \<Rightarrow> 32 word" where
  "from_octets bs = word_of_nat (foldl (\<lambda>acc b. 256 * acc + b) 0 bs)"

definition Unmap :: "addr \<Rightarrow> addr" where
  "Unmap a = (case a of Addr4 w \<Rightarrow> a
     | Addr6 bs z \<Rightarrow> if take 12 bs = replicate 10 0 @ [255, 255] \<and> length bs = 16 then Addr4 (from_octets (drop 12 bs)) else a)"

definition IsUnspecified :: "addr \<Rightarrow> bool" where
  "IsUnspecified a \<longleftrightarrow> (case a of Addr4 w \<Rightarrow> w = 0 | Addr6 bs z \<Rightarrow> bs = replicate 16 0 \<and> z = [])"

definition print_addr4 :: "32 word \<Rightarrow> string" where
  "print_addr4 w = join_with ''.'' (map format_nat (octets w))"

definition addr_String :: "net_lib \<Rightarrow> addr \<Rightarrow> string" where
  "addr_String L a = (case a of Addr4 w \<Rightarrow> print_addr4 w | Addr6 bs z \<Rightarrow> print_addr6 L bs z)"

text \<open>An octet: decimal digits, no leading zero, at most 255.\<close>

definition parse_octet :: "string \<Rightarrow> nat option" where
  "parse_octet s = (case parse_digits s of None \<Rightarrow> None
     | Some n \<Rightarrow> if 255 < n \<or> 1 < length s \<and> hd s = CHR ''0'' then None else Some n)"

fun parse_octets :: "string list \<Rightarrow> nat list option" where
  "parse_octets [] = Some []"
| "parse_octets (s # ss) = (case (parse_octet s, parse_octets ss) of (Some n, Some ns) \<Rightarrow> Some (n # ns) | _ \<Rightarrow> None)"

definition parse_addr4 :: "string \<Rightarrow> 32 word option" where
  "parse_addr4 s = (let fs = split_on CHR ''.'' s
     in if length fs \<noteq> 4 then None else map_option from_octets (parse_octets fs))"

definition ParseAddr :: "net_lib \<Rightarrow> string \<Rightarrow> addr option" where
  "ParseAddr L s = (case dropWhile (\<lambda>c. c \<notin> {CHR ''.'', CHR '':'', CHR ''%''}) s of
     [] \<Rightarrow> None
   | c # _ \<Rightarrow> if c = CHR ''.'' then map_option Addr4 (parse_addr4 s)
       else if c = CHR '':'' then map_option (\<lambda>(bs, z). Addr6 bs z) (parse_addr6 L s) else None)"

section \<open>Prefixes\<close>

type_synonym prefix = "addr \<times> nat"

definition ParsePrefix :: "net_lib \<Rightarrow> string \<Rightarrow> prefix option" where
  "ParsePrefix L s = (case last_index CHR ''/'' s of None \<Rightarrow> None
     | Some i \<Rightarrow> (case ParseAddr L (take i s) of None \<Rightarrow> None
       | Some a \<Rightarrow> let bits = drop (Suc i) s in
           if (case a of Addr4 _ \<Rightarrow> False | Addr6 _ z \<Rightarrow> z \<noteq> []) then None
           else if 1 < length bits \<and> \<not> in_range CHR ''1'' CHR ''9'' (hd bits) then None
           else (case parse_digits bits of None \<Rightarrow> None
             | Some n \<Rightarrow> if (if Is4 a then 32 else 128) < n then None else Some (a, n))))"

definition prefix_String :: "net_lib \<Rightarrow> prefix \<Rightarrow> string" where
  "prefix_String L p = addr_String L (fst p) @ ''/'' @ format_nat (snd p)"

text \<open>On IPv4: the network of a prefix, membership, and overlap. An IPv6 address is in no IPv4 prefix.\<close>

definition netmask :: "nat \<Rightarrow> 32 word" where
  "netmask bits = push_bit (32 - bits) (mask bits)"

definition Masked :: "prefix \<Rightarrow> prefix" where
  "Masked p = (case fst p of Addr4 w \<Rightarrow> (Addr4 (w AND netmask (snd p)), snd p) | Addr6 _ _ \<Rightarrow> p)"

definition Contains :: "prefix \<Rightarrow> addr \<Rightarrow> bool" where
  "Contains p a \<longleftrightarrow> (case (fst p, a) of (Addr4 w, Addr4 v) \<Rightarrow> drop_bit (32 - snd p) (w XOR v) = 0 | _ \<Rightarrow> False)"

definition Overlaps :: "prefix \<Rightarrow> prefix \<Rightarrow> bool" where
  "Overlaps p q \<longleftrightarrow> (case (fst p, fst q) of
     (Addr4 w, Addr4 v) \<Rightarrow> let m = netmask (min (snd p) (snd q)) in w AND m = v AND m | _ \<Rightarrow> False)"

definition first_octet :: "32 word \<Rightarrow> nat" where "first_octet w = octets w ! 0"
definition second_octet :: "32 word \<Rightarrow> nat" where "second_octet w = octets w ! 1"

definition IsPrivate4 :: "32 word \<Rightarrow> bool" where
  "IsPrivate4 w \<longleftrightarrow> first_octet w = 10 \<or> first_octet w = 172 \<and> second_octet w div 16 = 1
     \<or> first_octet w = 192 \<and> second_octet w = 168"

definition IsGlobalUnicast4 :: "32 word \<Rightarrow> bool" where
  "IsGlobalUnicast4 w \<longleftrightarrow> w \<noteq> 0 \<and> w \<noteq> - 1 \<and> first_octet w \<noteq> 127 \<and> first_octet w div 16 \<noteq> 14
     \<and> \<not> (first_octet w = 169 \<and> second_octet w = 254)"

section \<open>The text of an IPv4 address is read back\<close>

lemma split_on_nonempty [simp]: "split_on c s \<noteq> []"
  by (induction s) (auto split: list.splits)

lemma split_on_no: "c \<notin> set s \<Longrightarrow> split_on c s = [s]"
  by (induction s) auto

lemma split_on_append: "c \<notin> set s \<Longrightarrow> split_on c (s @ c # r) = s # split_on c r"
  by (induction s) auto

lemma format_nat_no_dot: "CHR ''.'' \<notin> set (format_nat n)" "CHR '':'' \<notin> set (format_nat n)" "CHR ''%'' \<notin> set (format_nat n)"
  "CHR ''/'' \<notin> set (format_nat n)"
  using format_nat_digits[of n] by (auto simp: list_all_iff is_digit_def)

lemma format_nat_leading_zero: "1 < length (format_nat n) \<Longrightarrow> hd (format_nat n) \<noteq> CHR ''0''"
proof (induction n rule: format_nat.induct)
  case (1 n)
  show ?case
  proof (cases "n < 10")
    case False
    have hd: "hd (format_nat n) = hd (format_nat (n div 10))"
      using False format_nat_digits[of "n div 10"] by (simp add: format_nat.simps[of n])
    show ?thesis
    proof (cases "n div 10 < 10")
      case True
      with False have "n div 10 \<noteq> 0" by auto
      with True have "digit_char (n div 10) \<noteq> CHR ''0''"
        using digit_char_val[of "n div 10"] by (auto simp: digit_val_def)
      with hd True show ?thesis by (simp add: format_nat.simps[of "n div 10"])
    next
      case big: False
      have "1 < length (format_nat (n div 10))"
        using big format_nat_digits[of "n div 10 div 10"] by (cases "format_nat (n div 10 div 10)") (auto simp: format_nat.simps[of "n div 10"])
      with 1 False hd show ?thesis by simp
    qed
  qed (use 1 in \<open>simp add: format_nat.simps[of n]\<close>)
qed

lemma parse_octet_format [simp]: "n \<le> 255 \<Longrightarrow> parse_octet (format_nat n) = Some n"
  using format_nat_leading_zero[of n] by (auto simp: parse_octet_def)

lemma octets_le: "b \<in> set (octets w) \<Longrightarrow> b \<le> 255"
proof -
  have "unat w < 2 ^ 32" using unsigned_less[of w, where 'a = nat] by simp
  then have "unat w div 2 ^ 24 < 256" by (simp add: less_mult_imp_div_less)
  moreover assume "b \<in> set (octets w)"
  ultimately show ?thesis by (auto simp: octets_def)
qed

lemma length_octets [simp]: "length (octets w) = 4"
  by (simp add: octets_def)

lemma from_octets [simp]: "from_octets (octets w) = w"
proof -
  let ?n = "unat w"
  have "256 * (256 * (256 * (?n div 2 ^ 24) + ?n div 2 ^ 16 mod 256) + ?n div 2 ^ 8 mod 256) + ?n mod 256 = ?n"
  proof -
    have "?n div 2 ^ 24 = ?n div 2 ^ 16 div 256" "?n div 2 ^ 16 = ?n div 2 ^ 8 div 256" "?n div 2 ^ 8 = ?n div 256"
      by (simp_all add: div_mult2_eq[symmetric])
    then show ?thesis by simp
  qed
  then show ?thesis by (simp add: from_octets_def octets_def)
qed

lemma parse_octets_map: "list_all (\<lambda>n. n \<le> 255) ns \<Longrightarrow> parse_octets (map format_nat ns) = Some ns"
  by (induction ns) auto

lemma split_print_addr4: "split_on CHR ''.'' (print_addr4 w) = map format_nat (octets w)"
  by (simp add: print_addr4_def octets_def split_on_append split_on_no format_nat_no_dot)

lemma parse_print_addr4 [simp]: "parse_addr4 (print_addr4 w) = Some w"
proof -
  have "parse_octets (map format_nat (octets w)) = Some (octets w)"
    by (rule parse_octets_map) (use octets_le in \<open>auto simp: list_all_iff\<close>)
  then show ?thesis by (simp add: parse_addr4_def split_print_addr4)
qed

lemma first_separator: "dropWhile (\<lambda>c. c \<notin> {CHR ''.'', CHR '':'', CHR ''%''}) (format_nat n @ CHR ''.'' # r) = CHR ''.'' # r"
proof -
  have "dropWhile (\<lambda>c. c \<notin> {CHR ''.'', CHR '':'', CHR ''%''}) (format_nat n) = []"
    using format_nat_no_dot[of n] by (auto simp: dropWhile_eq_Nil_conv)
  then show ?thesis by (subst dropWhile_append2) (use format_nat_no_dot[of n] in auto)
qed

lemma ParseAddr_print [simp]: "ParseAddr L (print_addr4 w) = Some (Addr4 w)"
proof -
  obtain r where "print_addr4 w = format_nat (octets w ! 0) @ CHR ''.'' # r"
    by (simp add: print_addr4_def octets_def)
  then have "dropWhile (\<lambda>c. c \<notin> {CHR ''.'', CHR '':'', CHR ''%''}) (print_addr4 w) = CHR ''.'' # r"
    by (simp only: first_separator)
  then show ?thesis by (simp add: ParseAddr_def)
qed

interpretation addr4_codec: text_codec "\<lambda>_. True" print_addr4 parse_addr4
  by unfold_locales simp

lemma last_index_append: "c \<notin> set t \<Longrightarrow> last_index c (s @ c # t) = Some (length s)"
proof -
  assume c: "c \<notin> set t"
  have "takeWhile (\<lambda>x. x \<noteq> c) (rev t @ c # rev s) = rev t"
    using c by (subst takeWhile_append2) auto
  then show ?thesis by (simp add: last_index_def)
qed

lemma ParsePrefix_print:
  assumes "n \<le> 32"
  shows "ParsePrefix L (prefix_String L (Addr4 w, n)) = Some (Addr4 w, n)"
proof -
  let ?s = "prefix_String L (Addr4 w, n)"
  have s: "?s = print_addr4 w @ CHR ''/'' # format_nat n" by (simp add: prefix_String_def addr_String_def)
  have i: "last_index CHR ''/'' ?s = Some (length (print_addr4 w))"
    unfolding s by (rule last_index_append[OF format_nat_no_dot(4)])
  have h: "1 < length (format_nat n) \<Longrightarrow> in_range CHR ''1'' CHR ''9'' (hd (format_nat n))"
  proof -
    assume l: "1 < length (format_nat n)"
    then have "is_digit (hd (format_nat n))" "hd (format_nat n) \<noteq> CHR ''0''"
      using format_nat_digits[of n] format_nat_leading_zero[OF l] by (auto simp: list_all_iff neq_Nil_conv)
    moreover from this have "(of_char (hd (format_nat n)) :: nat) \<noteq> of_char CHR ''0''" by (simp only: of_char_eq_iff not_False_eq_True)
    ultimately show ?thesis by (simp add: is_digit_def in_range_def less_eq_char_def)
  qed
  show ?thesis unfolding ParsePrefix_def i using h assms by (auto simp: s Is4_def Let_def)
qed

end
