(* ===== verification/Network_Manifest.thy ===== *)
theory Network_Manifest
  imports Go_Net Go_Time
begin

text \<open>
  The data of a network change and its validation: the types and the pure functions of \<open>internal/networkapply/store.go\<close>,
  \<open>engine.go\<close> and \<open>repository.go\<close>, with \<open>internal/netutil/lan.go\<close> and the Ethernet validation of \<open>internal/uplink/repository.go\<close>.

  A pointer to a mutation is an \<open>option\<close>. \<open>buildManifest\<close> copies every slice with \<open>append\<close> onto nil, so an empty slice is nil
  from then on and is written as \<open>null\<close>; a slice is therefore a list.
\<close>

section \<open>Data\<close>

abbreviation LegacyManifestSchema :: int where "LegacyManifestSchema \<equiv> 1"
abbreviation ManifestSchema :: int where "ManifestSchema \<equiv> 2"
abbreviation TopologyManifestSchema :: int where "TopologyManifestSchema \<equiv> 3"

record ethernet_mutation =
  e_operation :: string
  e_uplink_id :: string
  e_expected_generation :: int
  e_target_interface_id :: string
  e_name :: string
  e_address_mode :: string
  e_ipv4_cidr :: string
  e_gateway :: string
  e_dns :: "string list"
  e_mtu :: int

record topology_listen =
  tl_interface_id :: string
  tl_exposure_mode :: string
  tl_priority :: int

record topology_ethernet =
  te_id :: string
  te_name :: string
  te_interface_id :: string
  te_address_mode :: string
  te_ipv4_cidr :: string
  te_gateway :: string
  te_dns :: "string list"
  te_mtu :: int

record topology_mutation =
  t_expected_generation :: int
  t_profile :: string
  t_lan_ids :: "string list"
  t_management_ids :: "string list"
  t_wg_endpoint_ids :: "string list"
  t_shared_id :: string
  t_lan_name :: string
  t_lan_address :: string
  t_dhcp_dns :: bool
  t_ingress :: bool
  t_ingress_mode :: string
  t_listen :: "topology_listen list"
  t_prerequisites :: "string list"
  t_uplinks :: "topology_ethernet list"

record manifest =
  mf_schema :: int
  mf_id :: string
  mf_operation :: string
  mf_interface :: string
  mf_old_lan :: string
  mf_new_lan :: string
  mf_old_url :: string
  mf_new_url :: string
  mf_destination :: string
  mf_ethernet :: "ethernet_mutation option"
  mf_topology :: "topology_mutation option"
  mf_require_wireguard :: bool
  mf_allow_console :: bool
  mf_deadline :: string
  mf_created_at :: string

record net_candidate =
  nc_interface :: string
  nc_old_lan :: string
  nc_new_lan :: string
  nc_old_url :: string
  nc_new_url :: string
  nc_ethernet :: "ethernet_mutation option"
  nc_topology :: "topology_mutation option"
  nc_management_url :: string
  nc_management_ip :: string
  nc_require_wireguard :: bool
  nc_allow_console :: bool

record apply_transaction =
  at_id :: string
  at_state :: string
  at_token_sha256 :: string
  at_schema :: int
  at_operation :: string
  at_candidate_json :: string
  at_interface :: string
  at_old_lan :: string
  at_new_lan :: string
  at_old_url :: string
  at_new_url :: string
  at_destination :: string
  at_deadline :: string
  at_dir :: string
  at_error_code :: "string option"
  at_created_at :: string
  at_updated_at :: string
  at_confirmed_at :: "string option"
  at_rolled_back_at :: "string option"

abbreviation bad :: "string \<Rightarrow> go_error option" where "bad msg \<equiv> Some (ErrMsg msg)"

section \<open>Identifiers\<close>

definition safeID :: "string \<Rightarrow> bool" where
  "safeID v \<longleftrightarrow> v \<noteq> [] \<and> length v \<le> 96 \<and> list_all (\<lambda>c. is_lower c \<or> is_digit c \<or> c = CHR ''-'') v"

definition safeErrorCode :: "string \<Rightarrow> bool" where
  "safeErrorCode v \<longleftrightarrow> v \<noteq> [] \<and> length v \<le> 64 \<and> list_all (\<lambda>c. is_upper c \<or> is_digit c \<or> c = CHR ''_'') v"

definition safeObjectID :: "string \<Rightarrow> bool" where
  "safeObjectID v \<longleftrightarrow> (let v = TrimSpace v
     in v \<noteq> [] \<and> length v \<le> 128 \<and> list_all (\<lambda>c. is_lower c \<or> is_upper c \<or> is_digit c \<or> c \<in> set ''-_:.'') v)"

definition validInterfaceName :: "string \<Rightarrow> bool" where
  "validInterfaceName v \<longleftrightarrow> v \<noteq> [] \<and> length v \<le> 15
     \<and> list_all (\<lambda>c. is_lower c \<or> is_upper c \<or> is_digit c \<or> c \<in> set ''_.:-'') v"

text \<open>The loop over the runes of an identifier, where a byte that begins no rune is U+FFFD, neither letter nor digit.\<close>

function identifier_runes :: "net_lib \<Rightarrow> string \<Rightarrow> bool" where
  "identifier_runes L s =
     (if s = [] then True
      else let k = rune_len s in
        if k = 0 then False
        else (if k = 1 then is_lower (hd s) \<or> is_upper (hd s) \<or> is_digit (hd s) \<or> hd s \<in> set ''-_:.'' else letter_or_digit L (take k s))
          \<and> identifier_runes L (drop k s))"
  by pat_completeness auto
termination
  by (relation "measure (length \<circ> snd)") auto

declare identifier_runes.simps [simp del]

definition validIdentifier :: "net_lib \<Rightarrow> string \<Rightarrow> bool" where
  "validIdentifier L v \<longleftrightarrow> (let v = TrimSpace v in v \<noteq> [] \<and> length v \<le> 128 \<and> identifier_runes L v)"

section \<open>Addresses of the gateway\<close>

definition IsUsableIPv4Host :: "prefix \<Rightarrow> addr \<Rightarrow> bool" where
  "IsUsableIPv4Host p a \<longleftrightarrow> (case (fst p, a) of
     (Addr4 w, Addr4 v) \<Rightarrow> IsGlobalUnicast4 v \<and> Contains p a
       \<and> (snd p \<ge> 31 \<or> (let network = w AND netmask (snd p) in v \<noteq> network \<and> v \<noteq> (network OR mask (32 - snd p))))
   | _ \<Rightarrow> False)"

definition ParsePrivateLAN :: "net_lib \<Rightarrow> string \<Rightarrow> prefix option" where
  "ParsePrivateLAN L s = (case ParsePrefix L s of None \<Rightarrow> None
     | Some p \<Rightarrow> (case fst p of
         Addr4 w \<Rightarrow> if \<not> IsPrivate4 w \<or> snd p < 16 \<or> snd p > 30 \<or> \<not> IsUsableIPv4Host p (fst p) then None else Some p
       | Addr6 _ _ \<Rightarrow> None))"

definition wireGuardManagement :: prefix where
  "wireGuardManagement = (Addr4 (from_octets [10, 80, 0, 0]), 24)"

definition ParseGatewayLAN :: "net_lib \<Rightarrow> string \<Rightarrow> prefix option" where
  "ParseGatewayLAN L s = (case ParsePrivateLAN L s of None \<Rightarrow> None
     | Some p \<Rightarrow> if Overlaps (Masked p) wireGuardManagement then None else Some p)"

definition ValidGatewayLAN :: "net_lib \<Rightarrow> string \<Rightarrow> bool" where
  "ValidGatewayLAN L s \<longleftrightarrow> ParseGatewayLAN L s \<noteq> None"

definition validPrivateIPv4LAN :: "net_lib \<Rightarrow> prefix \<Rightarrow> bool" where
  "validPrivateIPv4LAN L p \<longleftrightarrow> ValidGatewayLAN L (prefix_String L p)"

definition trim_brackets :: "string \<Rightarrow> string" where
  "trim_brackets s = rev (dropWhile (\<lambda>c. c \<in> set ''[]'') (rev (dropWhile (\<lambda>c. c \<in> set ''[]'') s)))"

definition validateManagementURL :: "net_lib \<Rightarrow> string \<Rightarrow> addr \<Rightarrow> go_error option" where
  "validateManagementURL L v expected = (case url_Parse L v of
     None \<Rightarrow> bad ''URL must be an HTTPS origin without credentials, path, query, or fragment''
   | Some u \<Rightarrow>
     if Scheme u \<noteq> ''https'' \<or> URLHost u = [] \<or> HasUser u \<or> URLPath u \<noteq> [] \<or> RawQuery u \<noteq> [] \<or> Fragment u \<noteq> []
     then bad ''URL must be an HTTPS origin without credentials, path, query, or fragment''
     else (case ParseAddr L (trim_brackets (Hostname u)) of
         None \<Rightarrow> bad ''URL host must equal the LAN address and include the API port''
       | Some host \<Rightarrow> if Unmap host \<noteq> Unmap expected \<or> Port u = []
           then bad ''URL host must equal the LAN address and include the API port'' else None))"

text \<open>The origin that a topology change leaves: its host is any address.\<close>

definition old_origin_ok :: "net_lib \<Rightarrow> string \<Rightarrow> bool" where
  "old_origin_ok L v \<longleftrightarrow> (case url_Parse L v of None \<Rightarrow> False
     | Some u \<Rightarrow> (case ParseAddr L (trim_brackets (Hostname u)) of None \<Rightarrow> False
       | Some a \<Rightarrow> validateManagementURL L v a = None))"

section \<open>Candidates\<close>

definition validateLANCandidate :: "net_lib \<Rightarrow> string \<Rightarrow> string \<Rightarrow> string \<Rightarrow> string \<Rightarrow> string \<Rightarrow> (prefix \<times> prefix) result" where
  "validateLANCandidate L iface oldLAN newLAN oldURL newURL =
     (if \<not> validInterfaceName iface then Inl (ErrMsg ''network candidate interface is invalid'')
      else case ParsePrefix L oldLAN of None \<Rightarrow> Inl (ErrMsg ''old LAN CIDR is invalid'')
      | Some old \<Rightarrow> (case ParsePrefix L newLAN of None \<Rightarrow> Inl (ErrMsg ''new LAN CIDR is invalid'')
      | Some new \<Rightarrow>
        if \<not> validPrivateIPv4LAN L old \<or> \<not> validPrivateIPv4LAN L new \<or> Masked old = Masked new \<or> Overlaps (Masked old) (Masked new)
        then Inl (ErrMsg ''old and new LAN subnets must be distinct non-overlapping private IPv4 networks'')
        else (case validateManagementURL L oldURL (fst old) of Some e \<Rightarrow> Inl e
        | None \<Rightarrow> (case validateManagementURL L newURL (fst new) of Some e \<Rightarrow> Inl e
        | None \<Rightarrow> Inr (old, new)))))"

fun check_dns :: "net_lib \<Rightarrow> addr list \<Rightarrow> string list \<Rightarrow> go_error option" where
  "check_dns L seen [] = None"
| "check_dns L seen (raw # rest) = (case ParseAddr L raw of
     None \<Rightarrow> bad ''Ethernet DNS contains an invalid IPv4 address''
   | Some a \<Rightarrow> if \<not> Is4 a \<or> IsUnspecified a then bad ''Ethernet DNS contains an invalid IPv4 address''
       else if a \<in> set seen then bad ''Ethernet DNS contains a duplicate address''
       else check_dns L (a # seen) rest)"

text \<open>The static address of a mutation: nothing when the text is empty, an error when it is no usable host or no IPv4 address.\<close>

definition static_prefix :: "net_lib \<Rightarrow> string \<Rightarrow> prefix option result" where
  "static_prefix L cidr = (if cidr = [] then Inr None else case ParsePrefix L cidr of
     None \<Rightarrow> Inl (ErrMsg ''Ethernet IPv4 CIDR is invalid'')
   | Some p \<Rightarrow> if IsUsableIPv4Host p (fst p) then Inr (Some p) else Inl (ErrMsg ''Ethernet IPv4 CIDR is invalid''))"

definition static_gateway :: "net_lib \<Rightarrow> (addr \<Rightarrow> bool) \<Rightarrow> string \<Rightarrow> string \<Rightarrow> addr option result" where
  "static_gateway L ok msg gw = (if gw = [] then Inr None else case ParseAddr L gw of
     None \<Rightarrow> Inl (ErrMsg msg) | Some a \<Rightarrow> if ok a then Inr (Some a) else Inl (ErrMsg msg))"

definition static_pair_ok :: "prefix option \<Rightarrow> addr option \<Rightarrow> bool" where
  "static_pair_ok p g \<longleftrightarrow> (case (p, g) of (Some p, Some g) \<Rightarrow> IsUsableIPv4Host p g \<and> fst p \<noteq> g | _ \<Rightarrow> False)"

definition check_address :: "net_lib \<Rightarrow> ethernet_mutation \<Rightarrow> go_error option" where
  "check_address L c =
     (if e_mtu c \<noteq> 0 \<and> (e_mtu c < 576 \<or> e_mtu c > 9216) then bad ''Ethernet MTU must be between 576 and 9216''
      else case static_prefix L (e_ipv4_cidr c) of Inl e \<Rightarrow> Some e
      | Inr p \<Rightarrow> (case static_gateway L (\<lambda>a. Is4 a \<and> \<not> IsUnspecified a) ''Ethernet gateway is invalid'' (e_gateway c) of Inl e \<Rightarrow> Some e
      | Inr g \<Rightarrow>
        if e_address_mode c = ''DHCP'' \<and> (p \<noteq> None \<or> g \<noteq> None) then bad ''DHCP cannot contain a static address or gateway''
        else if e_address_mode c = ''STATIC'' \<and> \<not> static_pair_ok p g
        then bad ''static mode requires an address and a different gateway in the same subnet''
        else if e_address_mode c \<noteq> ''DHCP'' \<and> e_address_mode c \<noteq> ''STATIC'' then bad ''Ethernet address mode must be DHCP or STATIC''
        else if length (e_dns c) > 8 then bad ''at most eight Ethernet DNS addresses are allowed''
        else check_dns L [] (e_dns c)))"

definition validateEthernetMutation :: "net_lib \<Rightarrow> ethernet_mutation \<Rightarrow> go_error option" where
  "validateEthernetMutation L c =
     (if \<not> safeObjectID (e_uplink_id c) \<or> \<not> safeObjectID (e_target_interface_id c)
      then bad ''safe uplink and target interface IDs are required''
      else if e_operation c = ''CREATE'' then
        (if e_expected_generation c \<noteq> 0 \<or> TrimSpace (e_name c) = [] \<or> rune_count (TrimSpace (e_name c)) > 128
         then bad ''create requires a name and generation zero'' else check_address L c)
      else if e_operation c = ''REPLACE_INTERFACE'' \<or> e_operation c = ''UPDATE_ADDRESS'' then
        (if e_expected_generation c < 1 \<or> e_name c \<noteq> []
         then bad ''existing uplink mutation requires its expected generation'' else check_address L c)
      else if e_operation c = ''DELETE'' then
        (if e_expected_generation c < 1 \<or> e_name c \<noteq> [] then bad ''delete requires the expected uplink generation''
         else if e_address_mode c \<noteq> [] \<or> e_ipv4_cidr c \<noteq> [] \<or> e_gateway c \<noteq> [] \<or> e_dns c \<noteq> [] \<or> e_mtu c \<noteq> 0
         then bad ''delete cannot contain Ethernet address configuration'' else None)
      else bad ''unsupported Ethernet operation'')"

text \<open>\<open>validateEthernetInput\<close> of \<open>internal/uplink\<close>, on the Ethernet intent of a topology.\<close>

fun invalid_dns :: "net_lib \<Rightarrow> string list \<Rightarrow> go_error option" where
  "invalid_dns L [] = None"
| "invalid_dns L (raw # rest) = (case ParseAddr L raw of
     None \<Rightarrow> Some (ErrFmt ''invalid Ethernet DNS IPv4 address %q'' [raw])
   | Some a \<Rightarrow> if \<not> Is4 a \<or> IsUnspecified a then Some (ErrFmt ''invalid Ethernet DNS IPv4 address %q'' [raw]) else invalid_dns L rest)"

definition validateEthernetInput :: "net_lib \<Rightarrow> topology_ethernet \<Rightarrow> go_error option" where
  "validateEthernetInput L i =
     (if \<not> validIdentifier L (te_id i) \<or> TrimSpace (te_name i) = [] \<or> rune_count (TrimSpace (te_name i)) > 128
      then bad ''uplink id and a name up to 128 characters are required''
      else if \<not> validIdentifier L (te_interface_id i) then bad ''network interface id is required''
      else if te_address_mode i \<noteq> ''DHCP'' \<and> te_address_mode i \<noteq> ''STATIC'' then bad ''Ethernet address mode must be DHCP or STATIC''
      else if te_mtu i \<noteq> 0 \<and> (te_mtu i < 576 \<or> te_mtu i > 9216) then bad ''Ethernet MTU must be between 576 and 9216''
      else case static_prefix L (te_ipv4_cidr i) of Inl e \<Rightarrow> Some e
      | Inr p \<Rightarrow> (case static_gateway L Is4 ''Ethernet gateway must be an IPv4 address'' (te_gateway i) of Inl e \<Rightarrow> Some e
      | Inr g \<Rightarrow>
        if te_address_mode i = ''STATIC'' \<and> \<not> static_pair_ok p g
        then bad ''static Ethernet mode requires an IPv4 CIDR and a different gateway inside that subnet''
        else if te_address_mode i \<noteq> ''STATIC'' \<and> (p \<noteq> None \<or> g \<noteq> None)
        then bad ''DHCP Ethernet mode cannot also contain static IPv4 CIDR or gateway''
        else invalid_dns L (te_dns i)))"

fun collect_ids :: "string list \<Rightarrow> string list \<Rightarrow> string list result" where
  "collect_ids seen [] = Inr seen"
| "collect_ids seen (raw # rest) = (let v = TrimSpace raw
     in if \<not> safeObjectID v then Inl (ErrMsg ''interface id is invalid'')
        else if v \<in> set seen then Inl (ErrMsg ''interface id is duplicated'')
        else collect_ids (v # seen) rest)"

definition validateTopologyIDs :: "string list \<Rightarrow> nat \<Rightarrow> string list result" where
  "validateTopologyIDs vs limit = (if length vs > limit then Inl (ErrMsg ''too many interface assignments'') else collect_ids [] vs)"

fun check_uplinks :: "net_lib \<Rightarrow> string list \<Rightarrow> string list \<Rightarrow> topology_ethernet list \<Rightarrow> go_error option" where
  "check_uplinks L ids ifs [] = None"
| "check_uplinks L ids ifs (i # rest) =
     (if \<not> safeObjectID (te_id i) then bad ''topology Ethernet uplink id is invalid''
      else if te_id i \<in> set ids then bad ''topology Ethernet uplink id is duplicated''
      else if \<not> safeObjectID (te_interface_id i) then bad ''topology Ethernet uplink interface id is invalid''
      else if te_interface_id i \<in> set ifs then bad ''topology Ethernet uplink interface is duplicated''
      else case validateEthernetInput L i of Some e \<Rightarrow> Some e
      | None \<Rightarrow> check_uplinks L (te_id i # ids) (te_interface_id i # ifs) rest)"

fun check_listeners :: "string list \<Rightarrow> string list \<Rightarrow> string \<Rightarrow> int \<Rightarrow> string list \<Rightarrow> topology_listen list \<Rightarrow> go_error option" where
  "check_listeners lan endpoints shared index seen [] = None"
| "check_listeners lan endpoints shared index seen (i # rest) =
     (let n = TrimSpace (tl_interface_id i) in
      if \<not> safeObjectID n \<or> tl_priority i \<noteq> index + 1 \<or> tl_exposure_mode i \<noteq> ''LOCAL'' \<and> tl_exposure_mode i \<noteq> ''PUBLIC''
      then bad ''WireGuard ingress listener list is invalid''
      else if n \<in> set seen then bad ''WireGuard ingress listener is duplicated''
      else if n \<notin> set lan \<and> n \<notin> set endpoints \<and> n \<noteq> shared \<and> n \<noteq> ''netif:managed:lan''
      then bad ''WireGuard ingress listener has no candidate LAN/WG endpoint role''
      else if tl_exposure_mode i = ''PUBLIC'' \<and> n \<notin> set endpoints \<and> n \<noteq> shared
      then bad ''public WireGuard ingress listener requires WG_ENDPOINT or SHARED_ONE_ARM''
      else check_listeners lan endpoints shared (index + 1) (n # seen) rest)"

fun check_prerequisites :: "string list \<Rightarrow> string list \<Rightarrow> go_error option" where
  "check_prerequisites seen [] = None"
| "check_prerequisites seen (v # rest) =
     (if v \<notin> {''MOVE_LAN_CABLES'', ''CONFIGURE_KEENETIC_WAN_DHCP'', ''CONFIGURE_KEENETIC_WIREGUARD'', ''VERIFY_UPSTREAM_RETURN_PATH'',
           ''ACCEPT_TEMPORARY_DISCONNECT''} then bad ''unknown topology prerequisite acknowledgement''
      else if v \<in> set seen then bad ''topology prerequisite acknowledgement is duplicated''
      else check_prerequisites (v # seen) rest)"

text \<open>Which interfaces the profile of a topology asks for.\<close>

definition check_profile :: "topology_mutation \<Rightarrow> string list \<Rightarrow> string list \<Rightarrow> string \<Rightarrow> go_error option" where
  "check_profile c lan management shared =
     (if t_profile c = ''ONE_ARM_WIREGUARD'' then
        (if t_lan_name c \<noteq> ''wg-ingress'' \<or> shared = [] \<or> lan \<noteq> [] \<or> length management \<noteq> 1 \<or> \<not> t_ingress c
            \<or> t_ingress_mode c \<noteq> ''ONE_ARM'' \<or> t_dhcp_dns c
         then bad ''one-arm profile requires exactly one shared management/uplink interface, enabled ONE_ARM ingress and no LAN DHCP/DNS''
         else None)
      else if t_profile c = ''MIXED'' \<and> shared \<noteq> [] \<and> lan = [] then
        (if t_lan_name c \<noteq> ''wg-ingress'' \<or> \<not> t_ingress c \<or> t_ingress_mode c \<noteq> ''ONE_ARM'' \<or> t_dhcp_dns c
         then bad ''shared-only mixed profile requires enabled ONE_ARM ingress and no LAN DHCP/DNS'' else None)
      else if t_lan_name c \<noteq> ''gateway-vpn-lan'' \<or> lan = [] \<or> \<not> t_dhcp_dns c
      then bad ''Ethernet LAN profiles require at least one LAN member and LAN DHCP/DNS''
      else if t_ingress_mode c = ''ONE_ARM'' then bad ''ONE_ARM ingress is reserved for the one-arm topology profile''
      else if shared \<noteq> [] \<and> t_profile c \<noteq> ''MIXED'' then bad ''shared one-arm role is allowed only in ONE_ARM or MIXED profile''
      else None)"

definition check_ingress :: "topology_mutation \<Rightarrow> string list \<Rightarrow> string list \<Rightarrow> string \<Rightarrow> go_error option" where
  "check_ingress c lan endpoints shared =
     (if t_ingress_mode c \<noteq> ''ROUTED'' \<and> t_ingress_mode c \<noteq> ''ONE_ARM'' then bad ''WireGuard ingress topology mode is invalid''
      else if length (t_listen c) > 16 then bad ''too many WireGuard ingress listeners''
      else case check_listeners lan endpoints shared 0 [] (t_listen c) of Some e \<Rightarrow> Some e
      | None \<Rightarrow>
        if t_ingress c \<and> t_listen c = [] \<or> \<not> t_ingress c \<and> t_listen c \<noteq> []
        then bad ''WireGuard ingress listeners do not match enabled state''
        else if length (t_prerequisites c) > 8 then bad ''too many topology prerequisite acknowledgements''
        else check_prerequisites [] (t_prerequisites c))"

definition check_roles :: "net_lib \<Rightarrow> topology_mutation \<Rightarrow> string list \<Rightarrow> string list \<Rightarrow> string list \<Rightarrow> go_error option" where
  "check_roles L c lan management endpoints = (let shared = TrimSpace (t_shared_id c) in
     if shared \<noteq> [] \<and> \<not> safeObjectID shared then bad ''shared one-arm interface id is invalid''
     else if \<not> list_all (\<lambda>n. n \<in> set lan \<or> n = shared) management
     then bad ''management interface must also be a LAN member or the shared one-arm interface''
     else if management = [] then bad ''at least one local management interface is required''
     else if shared \<noteq> [] \<and> shared \<in> set lan then bad ''shared one-arm interface cannot also be a plaintext LAN member''
     else if length (t_uplinks c) > 16 then bad ''too many topology Ethernet uplinks''
     else case check_uplinks L [] [] (t_uplinks c) of Some e \<Rightarrow> Some e
     | None \<Rightarrow>
       if t_profile c = ''ETHERNET_HILINK'' \<and> t_uplinks c \<noteq> [] then bad ''HiLink topology cannot carry Ethernet uplink intent''
       else if t_profile c = ''ONE_ARM_WIREGUARD'' \<and> t_uplinks c \<noteq> []
            \<and> (length (t_uplinks c) \<noteq> 1 \<or> te_interface_id (hd (t_uplinks c)) \<noteq> shared)
       then bad ''one-arm topology Ethernet intent must contain one uplink on the shared interface''
       else case check_profile c lan management shared of Some e \<Rightarrow> Some e | None \<Rightarrow> check_ingress c lan endpoints shared)"

definition validateTopologyMutation :: "net_lib \<Rightarrow> topology_mutation \<Rightarrow> go_error option" where
  "validateTopologyMutation L c =
     (if t_expected_generation c < 1 \<or> \<not> validInterfaceName (t_lan_name c) \<or> \<not> ValidGatewayLAN L (t_lan_address c)
      then bad ''topology generation, LAN interface and private LAN address are required''
      else if t_profile c \<notin> {''ETHERNET_HILINK'', ''ETHERNET_ETHERNET'', ''ONE_ARM_WIREGUARD'', ''MIXED''}
      then bad ''unsupported topology profile''
      else case validateTopologyIDs (t_lan_ids c) 16 of Inl e \<Rightarrow> Some e
      | Inr lan \<Rightarrow> (case validateTopologyIDs (t_management_ids c) 16 of Inl e \<Rightarrow> Some e
      | Inr management \<Rightarrow> (case validateTopologyIDs (t_wg_endpoint_ids c) 16 of Inl e \<Rightarrow> Some e
      | Inr endpoints \<Rightarrow> check_roles L c lan management endpoints)))"

section \<open>Manifests\<close>

definition valid_destination :: "net_lib \<Rightarrow> string \<Rightarrow> addr option" where
  "valid_destination L s = (case ParseAddr L s of Some a \<Rightarrow> if Is4 a then Some a else None | None \<Rightarrow> None)"

definition check_legacy :: "net_lib \<Rightarrow> manifest \<Rightarrow> go_error option" where
  "check_legacy L m =
     (if mf_operation m \<noteq> [] \<and> mf_operation m \<noteq> ''LAN_ADDRESS'' \<or> mf_ethernet m \<noteq> None \<or> mf_topology m \<noteq> None
        \<or> mf_require_wireguard m \<or> mf_allow_console m
      then bad ''legacy LAN transaction manifest contains a foreign operation''
      else case validateLANCandidate L (mf_interface m) (mf_old_lan m) (mf_new_lan m) (mf_old_url m) (mf_new_url m) of
        Inl e \<Rightarrow> bad ''network transaction LAN candidate is invalid''
      | Inr (_, new) \<Rightarrow> if mf_destination m \<noteq> addr_String L (fst new) then bad ''network transaction LAN candidate is invalid'' else None)"

definition check_topology :: "net_lib \<Rightarrow> manifest \<Rightarrow> go_error option" where
  "check_topology L m =
     (case mf_topology m of None \<Rightarrow> bad ''network transaction topology operation is invalid''
      | Some t \<Rightarrow>
        if mf_operation m \<noteq> ''TOPOLOGY_PROFILE'' \<or> mf_interface m \<noteq> [] \<or> mf_old_lan m \<noteq> [] \<or> mf_new_lan m \<noteq> [] \<or> mf_ethernet m \<noteq> None
        then bad ''network transaction topology operation is invalid''
        else case validateTopologyMutation L t of Some e \<Rightarrow> Some e
        | None \<Rightarrow> (case valid_destination L (mf_destination m) of None \<Rightarrow> bad ''network transaction confirmation destination is invalid''
        | Some d \<Rightarrow>
          if validateManagementURL L (mf_new_url m) d \<noteq> None then bad ''topology transaction new management URL is invalid''
          else if mf_allow_console m \<and> mf_old_url m = mf_new_url m
          then bad ''local-console confirmation is reserved for a changed topology management origin''
          else if \<not> old_origin_ok L (mf_old_url m) then bad ''topology transaction old management URL is invalid'' else None))"

definition check_ethernet :: "net_lib \<Rightarrow> manifest \<Rightarrow> go_error option" where
  "check_ethernet L m =
     (case mf_ethernet m of None \<Rightarrow> bad ''network transaction manifest operation is invalid''
      | Some e \<Rightarrow>
        if mf_schema m \<noteq> ManifestSchema \<or> mf_operation m \<noteq> ''ETHERNET_UPLINK'' \<or> mf_interface m \<noteq> [] \<or> mf_old_lan m \<noteq> []
          \<or> mf_new_lan m \<noteq> [] \<or> mf_topology m \<noteq> None \<or> mf_require_wireguard m \<or> mf_allow_console m
        then bad ''network transaction manifest operation is invalid''
        else case validateEthernetMutation L e of Some er \<Rightarrow> Some er
        | None \<Rightarrow> (case valid_destination L (mf_destination m) of None \<Rightarrow> bad ''network transaction confirmation destination is invalid''
        | Some d \<Rightarrow>
          if validateManagementURL L (mf_old_url m) d \<noteq> None then bad ''network transaction old management URL is invalid''
          else if validateManagementURL L (mf_new_url m) d \<noteq> None \<or> mf_new_url m \<noteq> mf_old_url m
          then bad ''Ethernet transaction management URL must remain unchanged'' else None))"

text \<open>The deadline is after the creation and at most 90 seconds later.\<close>

definition check_deadline :: "manifest \<Rightarrow> go_error option" where
  "check_deadline m = (case parse_time (mf_deadline m) of
     None \<Rightarrow> bad ''network transaction rollback deadline is invalid''
   | Some d \<Rightarrow> (case parse_time (mf_created_at m) of
       None \<Rightarrow> bad ''network transaction deadline must be after creation and at most 90 seconds''
     | Some c \<Rightarrow> if \<not> c < d \<or> time_sub d c > 90 * second
         then bad ''network transaction deadline must be after creation and at most 90 seconds'' else None))"

definition validateManifest :: "net_lib \<Rightarrow> manifest \<Rightarrow> go_error option" where
  "validateManifest L m =
     (if \<not> safeID (mf_id m) \<or> mf_old_url m = [] \<or> mf_new_url m = [] \<or> mf_destination m = []
      then bad ''complete network transaction manifest is required''
      else case check_deadline m of Some e \<Rightarrow> Some e
      | None \<Rightarrow>
        if mf_schema m = LegacyManifestSchema then check_legacy L m
        else if mf_schema m = TopologyManifestSchema then check_topology L m
        else check_ethernet L m)"

definition empty_manifest :: manifest where
  "empty_manifest = \<lparr>mf_schema = 0, mf_id = [], mf_operation = [], mf_interface = [], mf_old_lan = [], mf_new_lan = [], mf_old_url = [],
     mf_new_url = [], mf_destination = [], mf_ethernet = None, mf_topology = None, mf_require_wireguard = False,
     mf_allow_console = False, mf_deadline = [], mf_created_at = []\<rparr>"

definition build_topology :: "net_lib \<Rightarrow> net_candidate \<Rightarrow> topology_mutation \<Rightarrow> manifest result" where
  "build_topology L c t =
     (if nc_ethernet c \<noteq> None \<or> nc_interface c \<noteq> [] \<or> nc_old_lan c \<noteq> [] \<or> nc_new_lan c \<noteq> []
      then Inl (ErrMsg ''topology candidate cannot contain LAN or Ethernet mutation fields'')
      else case validateTopologyMutation L t of Some e \<Rightarrow> Inl e
      | None \<Rightarrow>
        let oldURL = (if nc_old_url c = [] then nc_management_url c else nc_old_url c);
            newURL = (if nc_new_url c = [] then nc_management_url c else nc_new_url c)
        in case valid_destination L (nc_management_ip c) of
             None \<Rightarrow> Inl (ErrMsg ''topology confirmation destination must be an IPv4 address'')
           | Some d \<Rightarrow> (case validateManagementURL L newURL d of Some e \<Rightarrow> Inl e
             | None \<Rightarrow> if \<not> old_origin_ok L oldURL then Inl (ErrMsg ''topology old management URL is invalid'')
                 else Inr (empty_manifest\<lparr>mf_schema := TopologyManifestSchema, mf_operation := ''TOPOLOGY_PROFILE'', mf_old_url := oldURL,
                   mf_new_url := newURL, mf_destination := addr_String L d, mf_topology := Some t,
                   mf_require_wireguard := nc_require_wireguard c, mf_allow_console := nc_allow_console c\<rparr>)))"

definition build_ethernet :: "net_lib \<Rightarrow> net_candidate \<Rightarrow> ethernet_mutation \<Rightarrow> manifest result" where
  "build_ethernet L c e =
     (if nc_interface c \<noteq> [] \<or> nc_old_lan c \<noteq> [] \<or> nc_new_lan c \<noteq> [] \<or> nc_old_url c \<noteq> [] \<or> nc_new_url c \<noteq> []
      then Inl (ErrMsg ''Ethernet candidate cannot contain LAN mutation fields'')
      else let e = e\<lparr>e_uplink_id := TrimSpace (e_uplink_id e), e_target_interface_id := TrimSpace (e_target_interface_id e),
                     e_name := TrimSpace (e_name e)\<rparr>
        in case validateEthernetMutation L e of Some er \<Rightarrow> Inl er
        | None \<Rightarrow> (case valid_destination L (nc_management_ip c) of
            None \<Rightarrow> Inl (ErrMsg ''current management destination must be an IPv4 address'')
          | Some d \<Rightarrow> (case validateManagementURL L (nc_management_url c) d of Some er \<Rightarrow> Inl er
            | None \<Rightarrow> Inr (empty_manifest\<lparr>mf_schema := ManifestSchema, mf_operation := ''ETHERNET_UPLINK'',
                mf_old_url := nc_management_url c, mf_new_url := nc_management_url c, mf_destination := addr_String L d,
                mf_ethernet := Some e\<rparr>))))"

definition buildManifest :: "net_lib \<Rightarrow> net_candidate \<Rightarrow> manifest result" where
  "buildManifest L c = (case nc_topology c of
     Some t \<Rightarrow> build_topology L c t
   | None \<Rightarrow> (case nc_ethernet c of
       Some e \<Rightarrow> build_ethernet L c e
     | None \<Rightarrow> (case validateLANCandidate L (nc_interface c) (nc_old_lan c) (nc_new_lan c) (nc_old_url c) (nc_new_url c) of
         Inl e \<Rightarrow> Inl e
       | Inr (old, new) \<Rightarrow> Inr (empty_manifest\<lparr>mf_schema := LegacyManifestSchema, mf_interface := nc_interface c,
           mf_old_lan := prefix_String L old, mf_new_lan := prefix_String L new, mf_old_url := nc_old_url c, mf_new_url := nc_new_url c,
           mf_destination := addr_String L (fst new)\<rparr>))))"

section \<open>JSON texts\<close>

definition jfield :: "string \<Rightarrow> string \<Rightarrow> string" where "jfield k v = json_string k @ '':'' @ v"
definition jobject :: "string list \<Rightarrow> string" where "jobject xs = ''{'' @ join_with '','' xs @ ''}''"
definition jbool :: "bool \<Rightarrow> string" where "jbool b = (if b then ''true'' else ''false'')"

definition jarray :: "string list \<Rightarrow> string" where
  "jarray xs = (if xs = [] then ''null'' else ''['' @ join_with '','' xs @ '']'')"

text \<open>A field with \<open>omitempty\<close> is written only when its value is not the zero value.\<close>

definition jopt :: "bool \<Rightarrow> string \<Rightarrow> string \<Rightarrow> string list" where
  "jopt present k v = (if present then [jfield k v] else [])"

definition ethernet_json :: "ethernet_mutation \<Rightarrow> string" where
  "ethernet_json e = jobject ([jfield ''operation'' (json_string (e_operation e)), jfield ''uplink_id'' (json_string (e_uplink_id e)),
       jfield ''expected_desired_generation'' (format_int (e_expected_generation e)),
       jfield ''target_interface_id'' (json_string (e_target_interface_id e))]
     @ jopt (e_name e \<noteq> []) ''name'' (json_string (e_name e))
     @ [jfield ''address_mode'' (json_string (e_address_mode e))]
     @ jopt (e_ipv4_cidr e \<noteq> []) ''ipv4_cidr'' (json_string (e_ipv4_cidr e))
     @ jopt (e_gateway e \<noteq> []) ''gateway'' (json_string (e_gateway e))
     @ [jfield ''dns'' (jarray (map json_string (e_dns e)))]
     @ jopt (e_mtu e \<noteq> 0) ''mtu'' (format_int (e_mtu e)))"

definition listen_json :: "topology_listen \<Rightarrow> string" where
  "listen_json l = jobject [jfield ''network_interface_id'' (json_string (tl_interface_id l)),
     jfield ''exposure_mode'' (json_string (tl_exposure_mode l)), jfield ''priority'' (format_int (tl_priority l))]"

definition uplink_json :: "topology_ethernet \<Rightarrow> string" where
  "uplink_json u = jobject ([jfield ''id'' (json_string (te_id u)), jfield ''name'' (json_string (te_name u)),
       jfield ''network_interface_id'' (json_string (te_interface_id u)), jfield ''address_mode'' (json_string (te_address_mode u))]
     @ jopt (te_ipv4_cidr u \<noteq> []) ''ipv4_cidr'' (json_string (te_ipv4_cidr u))
     @ jopt (te_gateway u \<noteq> []) ''gateway'' (json_string (te_gateway u))
     @ jopt (te_dns u \<noteq> []) ''dns'' (jarray (map json_string (te_dns u)))
     @ jopt (te_mtu u \<noteq> 0) ''mtu'' (format_int (te_mtu u)))"

definition topology_json :: "topology_mutation \<Rightarrow> string" where
  "topology_json t = jobject ([jfield ''expected_desired_generation'' (format_int (t_expected_generation t)),
       jfield ''profile'' (json_string (t_profile t)), jfield ''lan_interface_ids'' (jarray (map json_string (t_lan_ids t))),
       jfield ''management_interface_ids'' (jarray (map json_string (t_management_ids t))),
       jfield ''wg_endpoint_interface_ids'' (jarray (map json_string (t_wg_endpoint_ids t)))]
     @ jopt (t_shared_id t \<noteq> []) ''shared_one_arm_interface_id'' (json_string (t_shared_id t))
     @ [jfield ''lan_interface_name'' (json_string (t_lan_name t)), jfield ''lan_address'' (json_string (t_lan_address t)),
        jfield ''dhcp_dns_enabled'' (jbool (t_dhcp_dns t)), jfield ''ingress_enabled'' (jbool (t_ingress t)),
        jfield ''ingress_topology_mode'' (json_string (t_ingress_mode t)),
        jfield ''ingress_listen_interfaces'' (jarray (map listen_json (t_listen t))),
        jfield ''acknowledged_prerequisites'' (jarray (map json_string (t_prerequisites t)))]
     @ jopt (t_uplinks t \<noteq> []) ''ethernet_uplinks'' (jarray (map uplink_json (t_uplinks t))))"

definition manifest_json :: "manifest \<Rightarrow> string" where
  "manifest_json m = jobject ([jfield ''schema_version'' (format_int (mf_schema m)), jfield ''id'' (json_string (mf_id m))]
     @ jopt (mf_operation m \<noteq> []) ''operation_kind'' (json_string (mf_operation m))
     @ jopt (mf_interface m \<noteq> []) ''interface_name'' (json_string (mf_interface m))
     @ jopt (mf_old_lan m \<noteq> []) ''old_lan_cidr'' (json_string (mf_old_lan m))
     @ jopt (mf_new_lan m \<noteq> []) ''new_lan_cidr'' (json_string (mf_new_lan m))
     @ [jfield ''old_url'' (json_string (mf_old_url m)), jfield ''new_url'' (json_string (mf_new_url m)),
        jfield ''new_destination_ip'' (json_string (mf_destination m))]
     @ (case mf_ethernet m of None \<Rightarrow> [] | Some e \<Rightarrow> [jfield ''ethernet'' (ethernet_json e)])
     @ (case mf_topology m of None \<Rightarrow> [] | Some t \<Rightarrow> [jfield ''topology'' (topology_json t)])
     @ jopt (mf_require_wireguard m) ''require_wireguard_confirmation'' ''true''
     @ jopt (mf_allow_console m) ''allow_local_console_confirmation'' ''true''
     @ [jfield ''rollback_deadline'' (json_string (mf_deadline m)), jfield ''created_at'' (json_string (mf_created_at m))])"

definition manifestCandidateJSON :: "manifest \<Rightarrow> string" where
  "manifestCandidateJSON m =
     (if mf_schema m = LegacyManifestSchema then ''{}''
      else if mf_schema m = TopologyManifestSchema then (case mf_topology m of None \<Rightarrow> ''null'' | Some t \<Rightarrow> topology_json t)
      else (case mf_ethernet m of None \<Rightarrow> ''null'' | Some e \<Rightarrow> ethernet_json e))"

definition sameManifestCore :: "manifest \<Rightarrow> manifest \<Rightarrow> bool" where
  "sameManifestCore l r \<longleftrightarrow>
     manifest_json (l\<lparr>mf_deadline := [], mf_created_at := []\<rparr>) = manifest_json (r\<lparr>mf_deadline := [], mf_created_at := []\<rparr>)"

section \<open>Manifests and transactions\<close>

definition effectiveOperationKind :: "manifest \<Rightarrow> string" where
  "effectiveOperationKind m = (if mf_schema m = LegacyManifestSchema then ''LAN_ADDRESS'' else mf_operation m)"

definition manifestCoreMatchesTransaction :: "manifest \<Rightarrow> apply_transaction \<Rightarrow> string \<Rightarrow> bool" where
  "manifestCoreMatchesTransaction m tx dir \<longleftrightarrow>
     mf_id m = at_id tx \<and> mf_schema m = at_schema tx \<and> effectiveOperationKind m = at_operation tx
     \<and> manifestCandidateJSON m = at_candidate_json tx \<and> mf_interface m = at_interface tx \<and> mf_old_lan m = at_old_lan tx
     \<and> mf_new_lan m = at_new_lan tx \<and> mf_old_url m = at_old_url tx \<and> mf_new_url m = at_new_url tx
     \<and> mf_destination m = at_destination tx \<and> at_dir tx = dir"

definition manifestMatchesTransaction :: "manifest \<Rightarrow> apply_transaction \<Rightarrow> string \<Rightarrow> bool" where
  "manifestMatchesTransaction m tx dir \<longleftrightarrow> manifestCoreMatchesTransaction m tx dir \<and> mf_deadline m = at_deadline tx"

definition validTransactionOperation :: "apply_transaction \<Rightarrow> bool" where
  "validTransactionOperation tx \<longleftrightarrow>
     (if at_schema tx = LegacyManifestSchema \<and> at_operation tx = ''LAN_ADDRESS''
      then at_candidate_json tx = ''{}'' \<and> validInterfaceName (at_interface tx) \<and> at_old_lan tx \<noteq> [] \<and> at_new_lan tx \<noteq> []
      else if at_schema tx = ManifestSchema \<and> at_operation tx = ''ETHERNET_UPLINK''
        \<or> at_schema tx = TopologyManifestSchema \<and> at_operation tx = ''TOPOLOGY_PROFILE''
      then at_interface tx = [] \<and> at_old_lan tx = [] \<and> at_new_lan tx = [] \<and> at_candidate_json tx \<noteq> [] \<and> at_candidate_json tx \<noteq> ''{}''
      else False)"

abbreviation StatePreparing :: string where "StatePreparing \<equiv> ''PREPARING''"
abbreviation StateArmed :: string where "StateArmed \<equiv> ''ARMED''"
abbreviation StateApplied :: string where "StateApplied \<equiv> ''APPLIED''"
abbreviation StateConfirming :: string where "StateConfirming \<equiv> ''CONFIRMING''"
abbreviation StateConfirmed :: string where "StateConfirmed \<equiv> ''CONFIRMED''"
abbreviation StateRolledBack :: string where "StateRolledBack \<equiv> ''ROLLED_BACK''"
abbreviation StateFailed :: string where "StateFailed \<equiv> ''FAILED''"
abbreviation PhaseCreated :: string where "PhaseCreated \<equiv> ''CREATED''"
abbreviation PhaseSnapshot :: string where "PhaseSnapshot \<equiv> ''SNAPSHOT_READY''"
abbreviation PhaseArmed :: string where "PhaseArmed \<equiv> ''ARMED''"
abbreviation PhaseApplied :: string where "PhaseApplied \<equiv> ''APPLIED''"
abbreviation PhaseConfirming :: string where "PhaseConfirming \<equiv> ''CONFIRMING''"
abbreviation PhaseConfirmed :: string where "PhaseConfirmed \<equiv> ''CONFIRMED''"
abbreviation PhaseRolledBack :: string where "PhaseRolledBack \<equiv> ''ROLLED_BACK''"
abbreviation PhaseFailed :: string where "PhaseFailed \<equiv> ''FAILED''"

definition validState :: "string \<Rightarrow> bool" where
  "validState v \<longleftrightarrow> v \<in> {StatePreparing, StateArmed, StateApplied, StateConfirming, StateConfirmed, StateRolledBack, StateFailed}"

definition validPhase :: "string \<Rightarrow> bool" where
  "validPhase v \<longleftrightarrow> v \<in> {PhaseCreated, PhaseSnapshot, PhaseArmed, PhaseApplied, PhaseConfirming, PhaseConfirmed, PhaseRolledBack, PhaseFailed}"

definition unfinished_states :: "string list" where
  "unfinished_states = [StatePreparing, StateArmed, StateApplied, StateConfirming]"

end
