(* ===== verification/Network_Apply.thy ===== *)
theory Network_Apply
  imports Network_Manifest
begin

text \<open>
  \<open>internal/networkapply\<close>: a change of the gateway's own network is staged, applied and confirmed, and rolled back unless it is
  confirmed (\<open>engine.go\<close>, \<open>repository.go\<close>, \<open>systemd_timer.go\<close>, the files of \<open>store.go\<close>, and the rollback command of
  \<open>cmd/gateway-vpn/network_commands.go\<close>, which the systemd timer starts as a process of its own).

  An operation is a \<open>prog\<close>: it returns, or makes a \<open>call\<close> and goes on with the response. A call is one SQL transaction, one
  atomic replacement or reading of a file, one action of the backend, of systemd, or one look at the clock. What a call does to the
  \<open>net_world\<close> when it works is \<open>perform\<close>; the \<open>choice\<close> of the environment says when it happens, which random bytes there are, and
  whether it works, fails without effect, or reports a failure although it had its effect. \<open>net_step\<close> interleaves any number of
  operations call by call, starts new ones, and lets a process die between any two calls, as a crash or a power loss does.

  The table \<open>network_apply_transactions\<close> is a list of rows. A transaction directory holds the manifest and the status file, each
  as the value it encodes: a file that cannot be read, exceeds its limit, does not decode or has a wrong checksum is a failing
  read. \<open>Accept\<close> is no call of the code: it marks in the log that \<open>Confirm\<close> has validated a request.
\<close>

section \<open>The world\<close>

record confirm_evidence =
  ce_token :: string
  ce_local_ip :: string
  ce_wireguard :: bool
  ce_console :: bool

datatype net_event =
    Snapshotted manifest string
  | Armed string instant
  | Disarmed string
  | Applying manifest string
  | Applied manifest string
  | Committing manifest string
  | Committed manifest string
  | RolledBack manifest string
  | Accepted apply_transaction manifest confirm_evidence instant

record apply_dir =
  ad_manifest :: "manifest option"
  ad_status :: "(string \<times> string) option"

record net_world =
  na_rows :: "apply_transaction list"
  na_dirs :: "string \<rightharpoonup> apply_dir"
  na_log :: "net_event list"

datatype call =
    DbCreate apply_transaction
  | DbGet string
  | DbDeadline string string
  | DbTransition string "string list" string string
  | DbUnfinished
  | FsMkdir string
  | FsWriteManifest string manifest
  | FsWriteStatus string string
  | FsReadManifest string
  | FsReadStatus string
  | BkSnapshot manifest string
  | BkApply manifest string
  | BkCommit manifest string
  | BkRollback manifest string
  | TmArm string instant
  | TmDisarm string
  | Clock
  | NewSecret nat
  | Accept apply_transaction manifest confirm_evidence instant

datatype resp =
    Ok
  | Failed go_error
  | Row apply_transaction
  | Rows "apply_transaction list"
  | ManifestFile manifest
  | StatusFile string string
  | Time instant
  | Bytes string

datatype fate = Works | FailsBefore | FailsAfter

record choice =
  ch_time :: instant
  ch_secret :: string
  ch_fate :: fate

definition ErrApplyInProgress :: go_error where "ErrApplyInProgress = ErrMsg ''another network apply is in progress''"
definition ErrApplyState :: go_error where "ErrApplyState = ErrMsg ''network apply state changed''"
definition ErrApplyExpired :: go_error where "ErrApplyExpired = ErrMsg ''network apply confirmation deadline expired''"
definition ErrConfirmToken :: go_error where "ErrConfirmToken = ErrMsg ''network apply confirmation token is invalid''"
definition ErrConfirmSource :: go_error where
  "ErrConfirmSource = ErrMsg ''network apply must be confirmed through the new address or WireGuard''"

section \<open>What a working call does\<close>

definition find_row :: "string \<Rightarrow> apply_transaction list \<Rightarrow> apply_transaction option" where
  "find_row n rows = find (\<lambda>r. at_id r = n) rows"

definition is_unfinished :: "apply_transaction \<Rightarrow> bool" where
  "is_unfinished r \<longleftrightarrow> at_state r \<in> set unfinished_states"

definition insert_transaction :: "string \<Rightarrow> apply_transaction \<Rightarrow> apply_transaction list \<Rightarrow> apply_transaction list result" where
  "insert_transaction now tx rows =
     (if filter is_unfinished rows \<noteq> [] then Inl ErrApplyInProgress
      else if find_row (at_id tx) rows \<noteq> None \<or> at_schema tx \<notin> {1, 2, 3}
        \<or> at_operation tx \<notin> {''LAN_ADDRESS'', ''ETHERNET_UPLINK'', ''TOPOLOGY_PROFILE''} then Inl ErrConstraint
      else Inr (rows @ [tx\<lparr>at_error_code := None, at_created_at := now, at_updated_at := now, at_confirmed_at := None,
        at_rolled_back_at := None\<rparr>]))"

definition moved :: "string \<Rightarrow> string \<Rightarrow> string \<Rightarrow> apply_transaction \<Rightarrow> apply_transaction" where
  "moved now state code r = r\<lparr>at_state := state, at_error_code := (if code = [] then None else Some code), at_updated_at := now,
     at_confirmed_at := (if state = StateConfirmed then Some now else at_confirmed_at r),
     at_rolled_back_at := (if state = StateRolledBack then Some now else at_rolled_back_at r)\<rparr>"

definition update_where :: "(apply_transaction \<Rightarrow> bool) \<Rightarrow> (apply_transaction \<Rightarrow> apply_transaction) \<Rightarrow> apply_transaction list
    \<Rightarrow> apply_transaction list result" where
  "update_where P f rows = (if length (filter P rows) = 1 then Inr (map (\<lambda>r. if P r then f r else r) rows) else Inl ErrApplyState)"

definition unfinished_rows :: "apply_transaction list \<Rightarrow> apply_transaction list" where
  "unfinished_rows rows = sort_stable (\<lambda>a b. at_created_at a < at_created_at b) (filter is_unfinished rows)"

definition set_rows :: "net_world \<Rightarrow> apply_transaction list result \<Rightarrow> resp \<times> net_world" where
  "set_rows w r = (case r of Inl e \<Rightarrow> (Failed e, w) | Inr rows \<Rightarrow> (Ok, w\<lparr>na_rows := rows\<rparr>))"

definition log_event :: "net_event \<Rightarrow> net_world \<Rightarrow> net_world" where
  "log_event ev w = w\<lparr>na_log := ev # na_log w\<rparr>"

fun perform :: "choice \<Rightarrow> call \<Rightarrow> net_world \<Rightarrow> resp \<times> net_world" where
  "perform ch (DbCreate tx) w = set_rows w (insert_transaction (format_time (ch_time ch)) tx (na_rows w))"
| "perform ch (DbGet n) w = (case find_row n (na_rows w) of None \<Rightarrow> (Failed ErrNotFound, w) | Some r \<Rightarrow> (Row r, w))"
| "perform ch (DbDeadline n d) w = set_rows w (update_where (\<lambda>r. at_id r = n \<and> at_state r = StatePreparing)
     (\<lambda>r. r\<lparr>at_deadline := d, at_updated_at := format_time (ch_time ch)\<rparr>) (na_rows w))"
| "perform ch (DbTransition n expected state code) w = set_rows w (update_where (\<lambda>r. at_id r = n \<and> at_state r \<in> set expected)
     (moved (format_time (ch_time ch)) state code) (na_rows w))"
| "perform ch DbUnfinished w = (Rows (unfinished_rows (na_rows w)), w)"
| "perform ch (FsMkdir n) w = (case na_dirs w n of
     Some _ \<Rightarrow> (Failed (ErrMsg ''network transaction directory already exists''), w)
   | None \<Rightarrow> (Ok, w\<lparr>na_dirs := (na_dirs w)(n \<mapsto> \<lparr>ad_manifest = None, ad_status = None\<rparr>)\<rparr>))"
| "perform ch (FsWriteManifest n m) w = (case na_dirs w n of None \<Rightarrow> (Failed ErrDriver, w)
   | Some d \<Rightarrow> (Ok, w\<lparr>na_dirs := (na_dirs w)(n \<mapsto> d\<lparr>ad_manifest := Some m\<rparr>)\<rparr>))"
| "perform ch (FsWriteStatus n phase) w = (case na_dirs w n of None \<Rightarrow> (Failed ErrDriver, w)
   | Some d \<Rightarrow> (Ok, w\<lparr>na_dirs := (na_dirs w)(n \<mapsto> d\<lparr>ad_status := Some (phase, format_time (ch_time ch))\<rparr>)\<rparr>))"
| "perform ch (FsReadManifest n) w = (case na_dirs w n of None \<Rightarrow> (Failed ErrDriver, w)
   | Some d \<Rightarrow> (case ad_manifest d of None \<Rightarrow> (Failed ErrDriver, w) | Some m \<Rightarrow> (ManifestFile m, w)))"
| "perform ch (FsReadStatus n) w = (case na_dirs w n of None \<Rightarrow> (Failed ErrDriver, w)
   | Some d \<Rightarrow> (case ad_status d of None \<Rightarrow> (Failed ErrDriver, w) | Some (phase, at) \<Rightarrow> (StatusFile phase at, w)))"
| "perform ch (BkSnapshot m dir) w = (Ok, log_event (Snapshotted m dir) w)"
| "perform ch (BkApply m dir) w = (Ok, log_event (Applied m dir) w)"
| "perform ch (BkCommit m dir) w = (Ok, log_event (Committed m dir) w)"
| "perform ch (BkRollback m dir) w = (Ok, log_event (RolledBack m dir) w)"
| "perform ch (TmArm n deadline) w = (Ok, log_event (Armed n deadline) w)"
| "perform ch (TmDisarm n) w = (Ok, log_event (Disarmed n) w)"
| "perform ch Clock w = (Time (ch_time ch), w)"
| "perform ch (NewSecret n) w = (Bytes (ch_secret ch), w)"
| "perform ch (Accept tx m ev now) w = (Ok, log_event (Accepted tx m ev now) w)"

text \<open>An action of the backend is in the log from its attempt on; the clock cannot fail.\<close>

fun attempted :: "call \<Rightarrow> net_world \<Rightarrow> net_world" where
  "attempted (BkApply m dir) w = log_event (Applying m dir) w"
| "attempted (BkCommit m dir) w = log_event (Committing m dir) w"
| "attempted _ w = w"

fun infallible :: "call \<Rightarrow> bool" where
  "infallible Clock = True"
| "infallible (Accept _ _ _ _) = True"
| "infallible _ = False"

definition react :: "choice \<Rightarrow> call \<Rightarrow> net_world \<Rightarrow> resp \<times> net_world" where
  "react ch c w = (let w0 = attempted c w; (r, w1) = perform ch c w0
     in if infallible c then (r, w1)
        else case ch_fate ch of Works \<Rightarrow> (r, w1) | FailsBefore \<Rightarrow> (Failed ErrDriver, w0) | FailsAfter \<Rightarrow> (Failed ErrDriver, w1))"

text \<open>Times are such that they and the deadlines after them have an RFC 3339 text (the years 0 to 9999).\<close>

definition good_time :: "instant \<Rightarrow> bool" where
  "good_time t \<longleftrightarrow> rfc3339_range t \<and> rfc3339_range (t + 90 * second)"

section \<open>Programs\<close>

datatype 'a prog = Ret 'a | Call call "resp \<Rightarrow> 'a prog"

primrec and_then :: "'a prog \<Rightarrow> ('a \<Rightarrow> 'b prog) \<Rightarrow> 'b prog" where
  "and_then (Ret x) f = f x"
| "and_then (Call c k) f = Call c (\<lambda>r. and_then (k r) f)"

definition resp_error :: "resp \<Rightarrow> go_error" where
  "resp_error r = (case r of Failed e \<Rightarrow> e | _ \<Rightarrow> ErrDriver)"

definition failure :: "resp \<Rightarrow> go_error option" where
  "failure r = (case r of Failed e \<Rightarrow> Some e | _ \<Rightarrow> None)"

definition do_call :: "call \<Rightarrow> go_error option prog" where
  "do_call c = Call c (\<lambda>r. Ret (failure r))"

text \<open>Go on when there was no error.\<close>

definition on_error :: "go_error option prog \<Rightarrow> (go_error \<Rightarrow> 'b prog) \<Rightarrow> 'b prog \<Rightarrow> 'b prog" where
  "on_error p f k = and_then p (\<lambda>err. case err of Some e \<Rightarrow> f e | None \<Rightarrow> k)"

section \<open>Repository, store and timer\<close>

record net_engine =
  eng_lib :: net_lib
  eng_root :: string
  eng_rollback_after :: duration

definition validate :: "net_engine \<Rightarrow> go_error option" where
  "validate e = (if eng_root e = [] then bad ''network apply engine dependencies are incomplete''
     else if eng_rollback_after e < 30 * second \<or> eng_rollback_after e > 90 * second
     then bad ''network rollback timeout must be between 30 and 90 seconds'' else None)"

text \<open>\<open>eng_root\<close> is the absolute path of the transaction root.\<close>

definition Directory :: "net_engine \<Rightarrow> string \<Rightarrow> string result" where
  "Directory e n = (if \<not> safeID n \<or> blank (eng_root e) then Inl (ErrMsg ''safe network transaction id and root are required'')
     else Inr (eng_root e @ ''/'' @ n))"

definition CreateRow :: "apply_transaction \<Rightarrow> go_error option prog" where
  "CreateRow tx =
     (let tx = tx\<lparr>at_schema := (if at_schema tx = 0 then LegacyManifestSchema else at_schema tx),
                  at_operation := (if at_operation tx = [] then ''LAN_ADDRESS'' else at_operation tx),
                  at_candidate_json := (if at_candidate_json tx = [] then ''{}'' else at_candidate_json tx)\<rparr>
      in if \<not> safeID (at_id tx) \<or> at_state tx \<noteq> StatePreparing \<or> at_token_sha256 tx = [] \<or> at_dir tx = [] \<or> \<not> validTransactionOperation tx
         then Ret (bad ''complete preparing network transaction is required'')
         else do_call (DbCreate tx))"

definition GetRow :: "string \<Rightarrow> apply_transaction result prog" where
  "GetRow n = Call (DbGet n) (\<lambda>r. Ret (case r of Row tx \<Rightarrow> Inr tx | _ \<Rightarrow> Inl (resp_error r)))"

definition UpdateDeadline :: "string \<Rightarrow> instant \<Rightarrow> go_error option prog" where
  "UpdateDeadline n deadline =
     (if \<not> safeID n \<or> is_zero deadline then Ret (bad ''safe network apply id and deadline are required'')
      else do_call (DbDeadline n (format_time deadline)))"

definition Transition :: "string \<Rightarrow> string list \<Rightarrow> string \<Rightarrow> string \<Rightarrow> go_error option prog" where
  "Transition n expected state code =
     (if \<not> safeID n \<or> expected = [] \<or> \<not> validState state \<or> code \<noteq> [] \<and> \<not> safeErrorCode code
      then Ret (bad ''valid network apply transition is required'')
      else if \<not> list_all validState expected then Ret (bad ''network apply expected state is invalid'')
      else do_call (DbTransition n expected state code))"

definition ListUnfinished :: "apply_transaction list result prog" where
  "ListUnfinished = Call DbUnfinished (\<lambda>r. Ret (case r of Rows txs \<Rightarrow> Inr txs | _ \<Rightarrow> Inl (resp_error r)))"

definition SetPhase :: "net_engine \<Rightarrow> string \<Rightarrow> string \<Rightarrow> go_error option prog" where
  "SetPhase e n phase = (if \<not> validPhase phase then Ret (bad ''network transaction phase is invalid'')
     else case Directory e n of Inl er \<Rightarrow> Ret (Some er) | Inr _ \<Rightarrow> do_call (FsWriteStatus n phase))"

definition LoadStatus :: "manifest \<Rightarrow> string \<Rightarrow> (manifest \<times> string) result prog" where
  "LoadStatus m n = Call (FsReadStatus n) (\<lambda>r. Ret (case r of
     StatusFile phase at \<Rightarrow>
       if \<not> validPhase phase then Inl (ErrMsg ''network transaction status is invalid'')
       else if parse_time at = None then Inl (ErrMsg ''network transaction status timestamp is invalid'') else Inr (m, phase)
   | _ \<Rightarrow> Inl (resp_error r)))"

definition LoadFiles :: "net_engine \<Rightarrow> string \<Rightarrow> (manifest \<times> string) result prog" where
  "LoadFiles e n = (case Directory e n of Inl er \<Rightarrow> Ret (Inl er)
     | Inr _ \<Rightarrow> Call (FsReadManifest n) (\<lambda>r. case r of
         ManifestFile m \<Rightarrow>
           if validateManifest (eng_lib e) m \<noteq> None \<or> mf_id m \<noteq> n then Ret (Inl (ErrMsg ''network transaction manifest is invalid''))
           else LoadStatus m n
       | _ \<Rightarrow> Ret (Inl (resp_error r))))"

definition StoreCreate :: "net_engine \<Rightarrow> manifest \<Rightarrow> string result prog" where
  "StoreCreate e m = (case validateManifest (eng_lib e) m of Some er \<Rightarrow> Ret (Inl er)
     | None \<Rightarrow>
       if blank (eng_root e) then Ret (Inl (ErrMsg ''network transaction root is required''))
       else on_error (do_call (FsMkdir (mf_id m))) (\<lambda>er. Ret (Inl er))
         (on_error (do_call (FsWriteManifest (mf_id m) m)) (\<lambda>er. Ret (Inl er))
           (on_error (SetPhase e (mf_id m) PhaseCreated) (\<lambda>er. Ret (Inl er))
             (Ret (Inr (eng_root e @ ''/'' @ mf_id m))))))"

definition ReplaceManifest :: "net_engine \<Rightarrow> manifest \<Rightarrow> go_error option prog" where
  "ReplaceManifest e m = (case validateManifest (eng_lib e) m of Some er \<Rightarrow> Ret (Some er)
     | None \<Rightarrow> and_then (LoadFiles e (mf_id m)) (\<lambda>loaded. case loaded of Inl er \<Rightarrow> Ret (Some er)
         | Inr (previous, phase) \<Rightarrow>
             if phase \<noteq> PhaseCreated \<or> \<not> sameManifestCore previous m
             then Ret (bad ''network transaction manifest replacement is not allowed'')
             else do_call (FsWriteManifest (mf_id m) m)))"

text \<open>\<open>SystemdRollbackTimer\<close>: the packaged timer fires after 60 seconds, so another delay is refused.\<close>

definition ArmTimer :: "string \<Rightarrow> instant \<Rightarrow> go_error option prog" where
  "ArmTimer n deadline =
     (if \<not> safeID n then Ret (bad ''safe network apply id is required for rollback timer'')
      else Call Clock (\<lambda>r. case r of
        Time now \<Rightarrow> let delay = time_sub deadline now
          in if delay < 55 * second \<or> delay > 65 * second then Ret (bad ''systemd rollback timer requires a 60-second deadline'')
             else do_call (TmArm n deadline)
      | _ \<Rightarrow> Ret (Some (resp_error r))))"

definition DisarmTimer :: "string \<Rightarrow> go_error option prog" where
  "DisarmTimer n = (if \<not> safeID n then Ret (bad ''safe network apply id is required for rollback timer'') else do_call (TmDisarm n))"

section \<open>Staging and applying\<close>

record prepared =
  pr_apply_id :: string
  pr_token :: string
  pr_old_url :: string
  pr_new_url :: string
  pr_deadline :: instant

definition rollback :: "net_engine \<Rightarrow> string \<Rightarrow> manifest \<Rightarrow> string \<Rightarrow> string \<Rightarrow> go_error prog" where
  "rollback e n m dir code = on_error (do_call (BkRollback m dir))
     (\<lambda>_. and_then (SetPhase e n PhaseFailed) (\<lambda>_.
          and_then (Transition n unfinished_states StateFailed ''ROLLBACK_FAILED'') (\<lambda>_.
            Ret (ErrFmt ''network apply %s failed and rollback failed'' [n]))))
     (and_then (SetPhase e n PhaseRolledBack) (\<lambda>_.
       and_then (Transition n unfinished_states StateRolledBack code) (\<lambda>_.
         and_then (DisarmTimer n) (\<lambda>_. Ret (ErrFmt ''network apply %s failed and was rolled back (%s)'' [n, code])))))"

definition failBeforeArm :: "net_engine \<Rightarrow> string \<Rightarrow> string \<Rightarrow> prepared result prog" where
  "failBeforeArm e n code =
     and_then (Transition n [StatePreparing] StateFailed code) (\<lambda>_.
       and_then (SetPhase e n PhaseFailed) (\<lambda>_. Ret (Inl (ErrFmt ''network apply %s failed (%s)'' [n, code]))))"

definition stamped :: "manifest \<Rightarrow> string \<Rightarrow> instant \<Rightarrow> instant \<Rightarrow> manifest" where
  "stamped m n created deadline = m\<lparr>mf_id := n, mf_deadline := format_time deadline, mf_created_at := format_time created\<rparr>"

definition staged_row :: "net_engine \<Rightarrow> net_candidate \<Rightarrow> manifest \<Rightarrow> string \<Rightarrow> string \<Rightarrow> apply_transaction" where
  "staged_row e c m token dir = \<lparr>at_id = mf_id m, at_state = StatePreparing, at_token_sha256 = hex_encode (sha256 (eng_lib e) token),
     at_schema = mf_schema m, at_operation = effectiveOperationKind m, at_candidate_json = manifestCandidateJSON m,
     at_interface = nc_interface c, at_old_lan = mf_old_lan m, at_new_lan = mf_new_lan m, at_old_url = mf_old_url m,
     at_new_url = mf_new_url m, at_destination = mf_destination m, at_deadline = mf_deadline m, at_dir = dir, at_error_code = None,
     at_created_at = [], at_updated_at = [], at_confirmed_at = None, at_rolled_back_at = None\<rparr>"

definition stage_armed :: "net_engine \<Rightarrow> manifest \<Rightarrow> string \<Rightarrow> string \<Rightarrow> instant \<Rightarrow> prepared result prog" where
  "stage_armed e m dir token deadline =
     on_error (SetPhase e (mf_id m) PhaseArmed) (\<lambda>_. map_prog Inl (rollback e (mf_id m) m dir ''ARMED_STATUS_FAILED''))
       (on_error (Transition (mf_id m) [StatePreparing] StateArmed []) (\<lambda>_. map_prog Inl (rollback e (mf_id m) m dir ''ARMED_DB_FAILED''))
         (Ret (Inr \<lparr>pr_apply_id = mf_id m, pr_token = token, pr_old_url = mf_old_url m, pr_new_url = mf_new_url m, pr_deadline = deadline\<rparr>)))"

definition stage_snapshotted :: "net_engine \<Rightarrow> manifest \<Rightarrow> string \<Rightarrow> string \<Rightarrow> instant \<Rightarrow> prepared result prog" where
  "stage_snapshotted e m dir token armTime =
     (let n = mf_id m; deadline = armTime + eng_rollback_after e; m = stamped m n armTime deadline
      in on_error (ReplaceManifest e m) (\<lambda>_. failBeforeArm e n ''ROLLBACK_DEADLINE_STORE_FAILED'')
        (on_error (UpdateDeadline n deadline) (\<lambda>_. failBeforeArm e n ''ROLLBACK_DEADLINE_DB_FAILED'')
          (on_error (SetPhase e n PhaseSnapshot) (\<lambda>_. failBeforeArm e n ''SNAPSHOT_STATUS_FAILED'')
            (on_error (ArmTimer n deadline) (\<lambda>_. failBeforeArm e n ''ROLLBACK_TIMER_ARM_FAILED'')
              (stage_armed e m dir token deadline)))))"

definition stage_created :: "net_engine \<Rightarrow> manifest \<Rightarrow> string \<Rightarrow> string \<Rightarrow> prepared result prog" where
  "stage_created e m dir token =
     and_then (StoreCreate e m) (\<lambda>created. case created of
       Inl _ \<Rightarrow> failBeforeArm e (mf_id m) ''SNAPSHOT_DIRECTORY_FAILED''
     | Inr createdDirectory \<Rightarrow>
         if createdDirectory \<noteq> dir then failBeforeArm e (mf_id m) ''SNAPSHOT_DIRECTORY_MISMATCH''
         else on_error (do_call (BkSnapshot m dir)) (\<lambda>_. failBeforeArm e (mf_id m) ''SNAPSHOT_FAILED'')
           (Call Clock (\<lambda>r. case r of Time armTime \<Rightarrow> stage_snapshotted e m dir token armTime | _ \<Rightarrow> Ret (Inl (resp_error r)))))"

definition stage_manifest :: "net_engine \<Rightarrow> net_candidate \<Rightarrow> manifest \<Rightarrow> string \<Rightarrow> string \<Rightarrow> instant \<Rightarrow> prepared result prog" where
  "stage_manifest e c m n token now =
     (let m = stamped m n now (now + eng_rollback_after e)
      in case Directory e n of Inl er \<Rightarrow> Ret (Inl er)
         | Inr dir \<Rightarrow> on_error (CreateRow (staged_row e c m token dir)) (\<lambda>er. Ret (Inl er)) (stage_created e m dir token))"

definition Stage :: "net_engine \<Rightarrow> net_candidate \<Rightarrow> prepared result prog" where
  "Stage e c = (case validate e of Some er \<Rightarrow> Ret (Inl er)
     | None \<Rightarrow> (case buildManifest (eng_lib e) c of Inl er \<Rightarrow> Ret (Inl er)
     | Inr m \<Rightarrow> Call (NewSecret 16) (\<lambda>r. case r of
         Bytes idBytes \<Rightarrow> Call (NewSecret 32) (\<lambda>r. case r of
           Bytes tokenBytes \<Rightarrow> Call Clock (\<lambda>r. case r of
             Time now \<Rightarrow> stage_manifest e c m (''apply-'' @ hex_encode idBytes) (hex_encode tokenBytes) now
           | _ \<Rightarrow> Ret (Inl (resp_error r)))
         | _ \<Rightarrow> Ret (Inl (ErrMsg ''allocate network apply confirmation token failed'')))
       | _ \<Rightarrow> Ret (Inl (ErrMsg ''allocate network apply id failed'')))))"

definition apply_armed :: "net_engine \<Rightarrow> apply_transaction \<Rightarrow> manifest \<Rightarrow> string \<Rightarrow> go_error option prog" where
  "apply_armed e tx m dir =
     on_error (do_call (BkApply m dir)) (\<lambda>_. map_prog Some (rollback e (at_id tx) m dir ''CANDIDATE_APPLY_FAILED''))
       (on_error (SetPhase e (at_id tx) PhaseApplied) (\<lambda>_. map_prog Some (rollback e (at_id tx) m dir ''APPLIED_STATUS_FAILED''))
         (on_error (Transition (at_id tx) [StateArmed] StateApplied []) (\<lambda>_. map_prog Some (rollback e (at_id tx) m dir ''APPLIED_DB_FAILED''))
           (Ret None)))"

text \<open>Whether a deadline text is a time after now.\<close>

definition before_deadline :: "string \<Rightarrow> instant \<Rightarrow> bool" where
  "before_deadline deadline now \<longleftrightarrow> (case parse_time deadline of None \<Rightarrow> False | Some d \<Rightarrow> now < d)"

definition apply_at :: "net_engine \<Rightarrow> apply_transaction \<Rightarrow> manifest \<Rightarrow> string \<Rightarrow> resp \<Rightarrow> go_error option prog" where
  "apply_at e tx m dir r = (case r of
     Time now \<Rightarrow> if before_deadline (at_deadline tx) now then apply_armed e tx m dir
       else map_prog Some (rollback e (at_id tx) m dir ''APPLY_DEADLINE_EXPIRED'')
   | _ \<Rightarrow> Ret (Some (resp_error r)))"

definition apply_loaded :: "net_engine \<Rightarrow> apply_transaction \<Rightarrow> (manifest \<times> string) result \<Rightarrow> go_error option prog" where
  "apply_loaded e tx loaded = (case loaded of
     Inl _ \<Rightarrow> Ret (bad ''armed network apply durable state is unavailable'')
   | Inr (m, phase) \<Rightarrow> (case Directory e (at_id tx) of
       Inl _ \<Rightarrow> Ret (bad ''armed network apply durable state is unavailable'')
     | Inr dir \<Rightarrow>
         if phase \<noteq> PhaseArmed \<or> \<not> manifestMatchesTransaction m tx dir
         then Ret (bad ''armed network apply durable state is unavailable'')
         else Call Clock (apply_at e tx m dir)))"

definition apply_row :: "net_engine \<Rightarrow> apply_transaction result \<Rightarrow> go_error option prog" where
  "apply_row e got = (case got of Inl er \<Rightarrow> Ret (Some er)
     | Inr tx \<Rightarrow> if at_state tx \<noteq> StateArmed then Ret (Some ErrApplyState)
         else and_then (LoadFiles e (at_id tx)) (apply_loaded e tx))"

definition Apply :: "net_engine \<Rightarrow> string \<Rightarrow> go_error option prog" where
  "Apply e n = (case validate e of Some er \<Rightarrow> Ret (Some er) | None \<Rightarrow> and_then (GetRow n) (apply_row e))"

definition Prepare :: "net_engine \<Rightarrow> net_candidate \<Rightarrow> prepared result prog" where
  "Prepare e c = and_then (Stage e c) (\<lambda>p. case p of Inl er \<Rightarrow> Ret (Inl er)
     | Inr p \<Rightarrow> on_error (Apply e (pr_apply_id p)) (\<lambda>er. Ret (Inl er)) (Ret (Inr p)))"

section \<open>Confirming\<close>

definition token_matches :: "net_lib \<Rightarrow> apply_transaction \<Rightarrow> string \<Rightarrow> bool" where
  "token_matches L tx token \<longleftrightarrow> hex_decode (at_token_sha256 tx) = Some (sha256 L token)"

definition local_is :: "net_lib \<Rightarrow> string \<Rightarrow> string \<Rightarrow> bool" where
  "local_is L ip destination \<longleftrightarrow> (case ParseAddr L ip of None \<Rightarrow> False | Some a \<Rightarrow> addr_String L (Unmap a) = destination)"

text \<open>The request came over the new address, over the management WireGuard network, or, where the manifest allows it, from the console.\<close>

definition source_ok :: "net_lib \<Rightarrow> apply_transaction \<Rightarrow> manifest \<Rightarrow> confirm_evidence \<Rightarrow> bool" where
  "source_ok L tx m ev \<longleftrightarrow>
     \<not> (ce_wireguard ev \<and> ce_console ev)
     \<and> (ce_console ev \<longrightarrow> mf_allow_console m)
     \<and> (mf_require_wireguard m \<longrightarrow> ce_wireguard ev \<or> ce_console ev)
     \<and> (ce_wireguard ev \<longrightarrow> (case ParseAddr L (ce_local_ip ev) of None \<Rightarrow> False | Some a \<Rightarrow> Contains wireGuardManagement a)
          \<or> local_is L (ce_local_ip ev) (at_destination tx))
     \<and> (\<not> ce_wireguard ev \<and> \<not> ce_console ev \<longrightarrow> local_is L (ce_local_ip ev) (at_destination tx))"

definition rollbackConfirmFailure :: "net_engine \<Rightarrow> apply_transaction \<Rightarrow> manifest \<Rightarrow> string \<Rightarrow> go_error prog" where
  "rollbackConfirmFailure e tx m code = (case Directory e (at_id tx) of
     Inl _ \<Rightarrow> Ret (ErrMsg ''network apply confirmation durable state mismatch'')
   | Inr dir \<Rightarrow>
     if \<not> manifestMatchesTransaction m tx dir then Ret (ErrMsg ''network apply confirmation durable state mismatch'')
     else on_error (do_call (BkRollback m dir))
       (\<lambda>_. and_then (SetPhase e (at_id tx) PhaseFailed) (\<lambda>_.
            and_then (Transition (at_id tx) [StateConfirming] StateFailed ''ROLLBACK_FAILED'') (\<lambda>_.
              Ret (ErrMsg ''network apply confirmation failed and rollback failed''))))
       (and_then (SetPhase e (at_id tx) PhaseRolledBack) (\<lambda>_.
         and_then (Transition (at_id tx) [StateConfirming] StateRolledBack code) (\<lambda>_.
           Ret (ErrFmt ''network apply confirmation failed and was rolled back (%s)'' [code])))))"

definition confirm_accepted :: "net_engine \<Rightarrow> apply_transaction \<Rightarrow> manifest \<Rightarrow> string \<Rightarrow> go_error option prog" where
  "confirm_accepted e tx m dir = (let n = at_id tx in
     on_error (SetPhase e n PhaseConfirming) (\<lambda>er. Ret (Some er))
      (on_error (Transition n [StateApplied] StateConfirming []) (\<lambda>er. Ret (Some er))
       (on_error (DisarmTimer n) (\<lambda>_. map_prog Some (rollbackConfirmFailure e tx m ''ROLLBACK_TIMER_DISARM_FAILED''))
        (on_error (do_call (BkCommit m dir)) (\<lambda>_. map_prog Some (rollbackConfirmFailure e tx m ''CANDIDATE_COMMIT_FAILED''))
         (on_error (SetPhase e n PhaseConfirmed) (\<lambda>er. Ret (Some er))
          (on_error (Transition n [StateConfirming] StateConfirmed []) (\<lambda>er. Ret (Some er)) (Ret None)))))))"

definition confirm_loaded :: "net_engine \<Rightarrow> apply_transaction \<Rightarrow> confirm_evidence \<Rightarrow> instant \<Rightarrow> (manifest \<times> string) result
    \<Rightarrow> go_error option prog" where
  "confirm_loaded e tx ev now loaded = (case loaded of
     Inl _ \<Rightarrow> Ret (bad ''network apply durable state is unavailable'')
   | Inr (m, phase) \<Rightarrow> (case Directory e (at_id tx) of
       Inl _ \<Rightarrow> Ret (bad ''network apply durable state is unavailable'')
     | Inr dir \<Rightarrow>
         if phase \<noteq> PhaseApplied \<or> \<not> manifestMatchesTransaction m tx dir
         then Ret (bad ''network apply durable state is unavailable'')
         else if \<not> source_ok (eng_lib e) tx m ev then Ret (Some ErrConfirmSource)
         else Call (Accept tx m ev now) (\<lambda>_. confirm_accepted e tx m dir)))"

definition confirm_at :: "net_engine \<Rightarrow> apply_transaction \<Rightarrow> confirm_evidence \<Rightarrow> resp \<Rightarrow> go_error option prog" where
  "confirm_at e tx ev r = (case r of
     Time now \<Rightarrow>
       if \<not> before_deadline (at_deadline tx) now then Ret (Some ErrApplyExpired)
       else if \<not> token_matches (eng_lib e) tx (ce_token ev) then Ret (Some ErrConfirmToken)
       else and_then (LoadFiles e (at_id tx)) (confirm_loaded e tx ev now)
   | _ \<Rightarrow> Ret (Some (resp_error r)))"

definition confirm_row :: "net_engine \<Rightarrow> confirm_evidence \<Rightarrow> apply_transaction result \<Rightarrow> go_error option prog" where
  "confirm_row e ev got = (case got of Inl er \<Rightarrow> Ret (Some er)
     | Inr tx \<Rightarrow> if at_state tx \<noteq> StateApplied then Ret (Some ErrApplyState) else Call Clock (confirm_at e tx ev))"

definition Confirm :: "net_engine \<Rightarrow> string \<Rightarrow> confirm_evidence \<Rightarrow> go_error option prog" where
  "Confirm e n ev = (case validate e of Some er \<Rightarrow> Ret (Some er) | None \<Rightarrow> and_then (GetRow n) (confirm_row e ev))"

section \<open>Recovery\<close>

text \<open>
  \<open>Recover\<close> declares a new \<open>err\<close> in the statement that disarms and commits, so that a failure of either is not seen afterwards:
  \<open>outer\<close> is the \<open>err\<close> of the function, which is nil after the listing and keeps the error of an earlier transaction.
\<close>

definition recover_confirming :: "net_engine \<Rightarrow> apply_transaction \<Rightarrow> manifest \<Rightarrow> string \<Rightarrow> go_error option
    \<Rightarrow> (go_error option \<times> go_error list) prog" where
  "recover_confirming e item m dir outer =
     and_then (on_error (DisarmTimer (at_id item)) (\<lambda>er. Ret (Some er)) (do_call (BkCommit m dir))) (\<lambda>_.
       and_then (if outer = None then SetPhase e (at_id item) PhaseConfirmed else Ret outer) (\<lambda>err.
         and_then (if err = None then Transition (at_id item) [at_state item] StateConfirmed [] else Ret err) (\<lambda>err.
           Ret (err, case err of None \<Rightarrow> [] | Some er \<Rightarrow> [er]))))"

definition recover_default :: "net_engine \<Rightarrow> apply_transaction \<Rightarrow> manifest \<Rightarrow> string \<Rightarrow> go_error list prog" where
  "recover_default e item m dir =
     on_error (do_call (BkRollback m dir)) (\<lambda>er. Ret [er])
       (and_then (DisarmTimer (at_id item)) (\<lambda>_.
         on_error (SetPhase e (at_id item) PhaseRolledBack) (\<lambda>er. Ret [er])
           (on_error (Transition (at_id item) [at_state item] StateRolledBack ''REBOOT_RECOVERY'') (\<lambda>er. Ret [er]) (Ret []))))"

definition finish_item :: "string \<Rightarrow> string \<Rightarrow> apply_transaction \<Rightarrow> go_error list prog" where
  "finish_item state code item = on_error (Transition (at_id item) [at_state item] state code) (\<lambda>er. Ret [er]) (Ret [])"

definition recover_loaded :: "net_engine \<Rightarrow> apply_transaction \<Rightarrow> manifest \<Rightarrow> string \<Rightarrow> string \<Rightarrow> go_error option
    \<Rightarrow> (go_error option \<times> go_error list) prog" where
  "recover_loaded e item m phase dir outer =
     (if phase = PhaseConfirmed then map_prog (Pair outer) (finish_item StateConfirmed [] item)
      else if phase = PhaseRolledBack then map_prog (Pair outer) (finish_item StateRolledBack ''RECOVERED_ROLLBACK'' item)
      else if phase = PhaseConfirming then recover_confirming e item m dir outer
      else map_prog (Pair outer) (recover_default e item m dir))"

definition recover_files :: "net_engine \<Rightarrow> apply_transaction \<Rightarrow> go_error option \<Rightarrow> (manifest \<times> string) result
    \<Rightarrow> (go_error option \<times> go_error list) prog" where
  "recover_files e item outer loaded = (case loaded of Inl er \<Rightarrow> Ret (outer, [er])
   | Inr (m, phase) \<Rightarrow> (case Directory e (at_id item) of
       Inl _ \<Rightarrow> Ret (outer, [ErrMsg ''durable manifest and database transaction differ''])
     | Inr dir \<Rightarrow>
         if \<not> manifestMatchesTransaction m item dir
           \<and> \<not> (at_state item = StatePreparing \<and> manifestCoreMatchesTransaction m item dir)
         then Ret (outer, [ErrMsg ''durable manifest and database transaction differ''])
         else recover_loaded e item m phase dir outer))"

definition recover_item :: "net_engine \<Rightarrow> apply_transaction \<Rightarrow> go_error option \<Rightarrow> (go_error option \<times> go_error list) prog" where
  "recover_item e item outer = and_then (LoadFiles e (at_id item)) (recover_files e item outer)"

primrec recover_items :: "net_engine \<Rightarrow> go_error option \<Rightarrow> go_error list \<Rightarrow> apply_transaction list \<Rightarrow> go_error list prog" where
  "recover_items e outer failures [] = Ret failures"
| "recover_items e outer failures (item # items) =
     and_then (recover_item e item outer) (\<lambda>(outer, errs). recover_items e outer (failures @ errs) items)"

definition Recover :: "net_engine \<Rightarrow> go_error option prog" where
  "Recover e = (case validate e of Some er \<Rightarrow> Ret (Some er)
     | None \<Rightarrow> and_then ListUnfinished (\<lambda>listed. case listed of Inl er \<Rightarrow> Ret (Some er)
     | Inr items \<Rightarrow> and_then (recover_items e None [] items) (\<lambda>failures. Ret (if failures = [] then None else Some (ErrJoin failures)))))"

definition rollback_files :: "net_engine \<Rightarrow> string \<Rightarrow> (manifest \<times> string) result \<Rightarrow> bool result prog" where
  "rollback_files e n loaded = (case loaded of Inl er \<Rightarrow> Ret (Inl er)
     | Inr (m, phase) \<Rightarrow>
       if phase = PhaseConfirmed \<or> phase = PhaseConfirming \<or> phase = PhaseRolledBack then Ret (Inr False)
       else (case Directory e n of Inl er \<Rightarrow> Ret (Inl er)
       | Inr dir \<Rightarrow> on_error (do_call (BkRollback m dir))
           (\<lambda>er. and_then (SetPhase e n PhaseFailed) (\<lambda>_. Ret (Inl er)))
           (on_error (SetPhase e n PhaseRolledBack) (\<lambda>er. Ret (Inl er)) (Ret (Inr True)))))"

definition RollbackFromDisk :: "net_engine \<Rightarrow> string \<Rightarrow> bool result prog" where
  "RollbackFromDisk e n = and_then (LoadFiles e n) (rollback_files e n)"

text \<open>
  The command the timer starts, with its exit status. \<open>opened\<close> says whether the database could be opened; without it only the
  files are rolled back, and only for a legacy manifest.
\<close>

definition finish_rollback :: "apply_transaction result \<Rightarrow> nat prog" where
  "finish_rollback got = (case got of Inl _ \<Rightarrow> Ret 1
     | Inr tx \<Rightarrow>
       if at_state tx \<in> set unfinished_states
       then on_error (Transition (at_id tx) [at_state tx] StateRolledBack ''ROLLBACK_TIMER'') (\<lambda>_. Ret 1) (Ret 0)
       else Ret 0)"

definition after_rollback :: "bool \<Rightarrow> string \<Rightarrow> bool result \<Rightarrow> nat prog" where
  "after_rollback opened n changed = (case changed of Inl _ \<Rightarrow> Ret 1
     | Inr c \<Rightarrow> if c \<and> opened then and_then (GetRow n) finish_rollback else Ret 0)"

definition network_rollback :: "net_engine \<Rightarrow> bool \<Rightarrow> string \<Rightarrow> nat prog" where
  "network_rollback e opened n = and_then (LoadFiles e n) (\<lambda>loaded. case loaded of Inl _ \<Rightarrow> Ret 1
     | Inr (m, _) \<Rightarrow> if \<not> opened \<and> mf_schema m \<noteq> LegacyManifestSchema then Ret 1
         else and_then (RollbackFromDisk e n) (after_rollback opened n))"

section \<open>Interleaving\<close>

datatype operation =
    OpStage net_candidate
  | OpPrepare net_candidate
  | OpApply string
  | OpConfirm string confirm_evidence
  | OpRecover
  | OpTimer bool string

fun start :: "net_engine \<Rightarrow> operation \<Rightarrow> unit prog" where
  "start e (OpStage c) = map_prog (\<lambda>_. ()) (Stage e c)"
| "start e (OpPrepare c) = map_prog (\<lambda>_. ()) (Prepare e c)"
| "start e (OpApply n) = map_prog (\<lambda>_. ()) (Apply e n)"
| "start e (OpConfirm n ev) = map_prog (\<lambda>_. ()) (Confirm e n ev)"
| "start e OpRecover = map_prog (\<lambda>_. ()) (Recover e)"
| "start e (OpTimer opened n) = map_prog (\<lambda>_. ()) (network_rollback e opened n)"

text \<open>The processes that run and the world they share.\<close>

type_synonym net_system = "net_world \<times> unit prog list"

inductive net_step :: "net_engine \<Rightarrow> net_system \<Rightarrow> net_system \<Rightarrow> bool" for e where
  begin_op: "net_step e (w, ps) (w, ps @ [start e x])"
| call_step: "i < length ps \<Longrightarrow> ps ! i = Call c k \<Longrightarrow> good_time (ch_time ch) \<Longrightarrow> react ch c w = (r, w')
    \<Longrightarrow> net_step e (w, ps) (w', ps[i := k r])"
| crash: "net_step e (w, ps) (w, take i ps @ drop (Suc i) ps)"

definition fresh_world :: net_world where
  "fresh_world = \<lparr>na_rows = [], na_dirs = Map.empty, na_log = []\<rparr>"

definition net_reachable :: "net_engine \<Rightarrow> net_system \<Rightarrow> bool" where
  "net_reachable e s \<longleftrightarrow> (net_step e)\<^sup>*\<^sup>* (fresh_world, []) s"

end
