(* ===== verification/Network_Safety.thy ===== *)
theory Network_Safety
  imports Network_Apply
begin

text \<open>
  What the network apply protocol guarantees over all interleavings, faults and crashes.

  The method is rely and guarantee on programs that are trees of calls. \<open>safe p Q own w\<close> says that from \<open>w\<close> on, whatever other
  processes do between its calls, every call of \<open>p\<close> keeps the invariant, changes the world only in ways the others tolerate,
  and ends with \<open>Q\<close>. \<open>own\<close> are the transactions whose row the process has created itself: only their creator writes their
  manifest and their deadline and arms them. The locale \<open>owned_world\<close> holds that argument for any invariant; it is interpreted on
  the invariant \<open>net_inv\<close> of the protocol.
\<close>

section \<open>Processes that share a world\<close>

locale owned_world =
  fixes inv :: "net_world \<Rightarrow> bool"
    and future :: "net_world \<Rightarrow> net_world \<Rightarrow> bool"
    and kept :: "string \<Rightarrow> net_world \<Rightarrow> net_world \<Rightarrow> bool"
    and known :: "net_world \<Rightarrow> string \<Rightarrow> bool"
  assumes future_refl: "future w w"
    and future_trans: "future w1 w2 \<Longrightarrow> future w2 w3 \<Longrightarrow> future w1 w3"
    and kept_refl: "kept n w w"
    and kept_trans: "kept n w1 w2 \<Longrightarrow> kept n w2 w3 \<Longrightarrow> kept n w1 w3"
    and known_future: "future w w' \<Longrightarrow> known w n \<Longrightarrow> known w' n"
begin

definition rely :: "string set \<Rightarrow> net_world \<Rightarrow> net_world \<Rightarrow> bool" where
  "rely own w w' \<longleftrightarrow> future w w' \<and> (\<forall>n\<in>own. kept n w w')"

definition guar :: "string set \<Rightarrow> string set \<Rightarrow> net_world \<Rightarrow> net_world \<Rightarrow> bool" where
  "guar own own' w w' \<longleftrightarrow> future w w' \<and> own \<subseteq> own' \<and> (\<forall>n\<in>own' - own. \<not> known w n \<and> known w' n)
     \<and> (\<forall>n. n \<notin> own \<and> known w n \<longrightarrow> kept n w w')"

primrec safe :: "'a prog \<Rightarrow> (string set \<Rightarrow> 'a \<Rightarrow> net_world \<Rightarrow> bool) \<Rightarrow> string set \<Rightarrow> net_world \<Rightarrow> bool" where
  "safe (Ret x) Q own w \<longleftrightarrow> Q own x w"
| "safe (Call c k) Q own w \<longleftrightarrow> (\<forall>w1 ch r w2. rely own w w1 \<longrightarrow> inv w1 \<longrightarrow> good_time (ch_time ch) \<longrightarrow> react ch c w1 = (r, w2) \<longrightarrow>
     inv w2 \<and> (\<exists>own'. guar own own' w1 w2 \<and> safe (k r) Q own' w2))"

lemma rely_refl: "rely own w w"
  by (simp add: rely_def future_refl kept_refl)

lemma rely_trans: "rely own w1 w2 \<Longrightarrow> rely own w2 w3 \<Longrightarrow> rely own w1 w3"
  unfolding rely_def using future_trans kept_trans by blast

lemma rely_future: "rely own w w' \<Longrightarrow> future w w'"
  by (simp add: rely_def)

lemma rely_kept: "rely own w w' \<Longrightarrow> n \<in> own \<Longrightarrow> kept n w w'"
  by (simp add: rely_def)

lemma guar_same: "future w w' \<Longrightarrow> (\<And>n. n \<notin> own \<Longrightarrow> known w n \<Longrightarrow> kept n w w') \<Longrightarrow> guar own own w w'"
  by (simp add: guar_def)

lemma guar_refl: "guar own own w w"
  by (rule guar_same) (simp_all add: future_refl kept_refl)

lemma safe_and_then: "safe p (\<lambda>own x. safe (f x) Q own) own w \<Longrightarrow> safe (and_then p f) Q own w"
proof (induction p arbitrary: own w)
  case (Call c k)
  show ?case unfolding and_then.simps safe.simps
  proof (intro allI impI)
    fix w1 ch r w2
    assume "rely own w w1" "inv w1" "good_time (ch_time ch)" "react ch c w1 = (r, w2)"
    with Call.prems obtain own' where "inv w2" "guar own own' w1 w2" "safe (k r) (\<lambda>own x. safe (f x) Q own) own' w2"
      unfolding safe.simps by metis
    with Call.IH show "inv w2 \<and> (\<exists>own'. guar own own' w1 w2 \<and> safe (and_then (k r) f) Q own' w2)" by blast
  qed
qed simp

lemma safe_map: "safe p (\<lambda>own x. Q own (f x)) own w \<Longrightarrow> safe (map_prog f p) Q own w"
proof (induction p arbitrary: own w)
  case (Call c k)
  show ?case unfolding prog.map safe.simps
  proof (intro allI impI)
    fix w1 ch r w2
    assume "rely own w w1" "inv w1" "good_time (ch_time ch)" "react ch c w1 = (r, w2)"
    with Call.prems obtain own' where "inv w2" "guar own own' w1 w2" "safe (k r) (\<lambda>own x. Q own (f x)) own' w2"
      unfolding safe.simps by metis
    with Call.IH show "inv w2 \<and> (\<exists>own'. guar own own' w1 w2 \<and> safe ((map_prog f \<circ> k) r) Q own' w2)" by auto
  qed
qed simp

lemma safe_weaken: "safe p Q own w \<Longrightarrow> (\<And>own x w. Q own x w \<Longrightarrow> Q' own x w) \<Longrightarrow> safe p Q' own w"
proof (induction p arbitrary: own w)
  case (Call c k)
  show ?case unfolding safe.simps
  proof (intro allI impI)
    fix w1 ch r w2
    assume "rely own w w1" "inv w1" "good_time (ch_time ch)" "react ch c w1 = (r, w2)"
    with Call.prems(1) obtain own' where "inv w2" "guar own own' w1 w2" "safe (k r) Q own' w2" unfolding safe.simps by metis
    with Call.IH Call.prems(2) show "inv w2 \<and> (\<exists>own'. guar own own' w1 w2 \<and> safe (k r) Q' own' w2)" by blast
  qed
qed simp

lemma safe_rely: "safe p (\<lambda>_ _ _. True) own w \<Longrightarrow> rely own w w' \<Longrightarrow> safe p (\<lambda>_ _ _. True) own w'"
  by (cases p) (auto intro: rely_trans)

lemma safe_CallI:
  assumes "\<And>w1 ch r w2. rely own w w1 \<Longrightarrow> inv w1 \<Longrightarrow> good_time (ch_time ch) \<Longrightarrow> react ch c w1 = (r, w2) \<Longrightarrow>
    inv w2 \<and> guar own own w1 w2 \<and> safe (k r) Q own w2"
  shows "safe (Call c k) Q own w"
  unfolding safe.simps using assms by blast

text \<open>The processes of a system, each with what it owns.\<close>

definition system_ok :: "net_system \<Rightarrow> bool" where
  "system_ok s \<longleftrightarrow> inv (fst s) \<and> (\<exists>owns. length owns = length (snd s)
     \<and> (\<forall>i j. i < length owns \<longrightarrow> j < length owns \<longrightarrow> i \<noteq> j \<longrightarrow> owns ! i \<inter> owns ! j = {})
     \<and> (\<forall>i < length owns. safe (snd s ! i) (\<lambda>_ _ _. True) (owns ! i) (fst s) \<and> (\<forall>n\<in>owns ! i. known (fst s) n)))"

lemma system_okE:
  assumes "system_ok (w, ps)"
  obtains owns where "inv w" "length owns = length ps"
    "\<And>i j. i < length ps \<Longrightarrow> j < length ps \<Longrightarrow> i \<noteq> j \<Longrightarrow> owns ! i \<inter> owns ! j = {}"
    "\<And>i. i < length ps \<Longrightarrow> safe (ps ! i) (\<lambda>_ _ _. True) (owns ! i) w"
    "\<And>i n. i < length ps \<Longrightarrow> n \<in> owns ! i \<Longrightarrow> known w n"
  using assms unfolding system_ok_def by auto

lemma system_okI:
  assumes "inv w" "length owns = length ps"
    "\<And>i j. i < length ps \<Longrightarrow> j < length ps \<Longrightarrow> i \<noteq> j \<Longrightarrow> owns ! i \<inter> owns ! j = {}"
    "\<And>i. i < length ps \<Longrightarrow> safe (ps ! i) (\<lambda>_ _ _. True) (owns ! i) w"
    "\<And>i n. i < length ps \<Longrightarrow> n \<in> owns ! i \<Longrightarrow> known w n"
  shows "system_ok (w, ps)"
  unfolding system_ok_def using assms by (intro conjI exI[of _ owns]) auto

lemma system_ok_begin:
  assumes "system_ok (w, ps)" "safe p (\<lambda>_ _ _. True) {} w"
  shows "system_ok (w, ps @ [p])"
proof -
  from assms(1) obtain owns where o: "inv w" "length owns = length ps"
    "\<And>i j. i < length ps \<Longrightarrow> j < length ps \<Longrightarrow> i \<noteq> j \<Longrightarrow> owns ! i \<inter> owns ! j = {}"
    "\<And>i. i < length ps \<Longrightarrow> safe (ps ! i) (\<lambda>_ _ _. True) (owns ! i) w"
    "\<And>i n. i < length ps \<Longrightarrow> n \<in> owns ! i \<Longrightarrow> known w n" by (rule system_okE) blast
  show ?thesis
    by (rule system_okI[of _ "owns @ [{}]"]) (use o assms(2) in \<open>auto simp: nth_append less_Suc_eq split: if_splits\<close>)
qed

lemma system_ok_crash:
  assumes "system_ok (w, ps)"
  shows "system_ok (w, take i ps @ drop (Suc i) ps)"
proof (cases "i < length ps")
  case i: True
  from assms obtain owns where o: "inv w" "length owns = length ps"
    "\<And>i j. i < length ps \<Longrightarrow> j < length ps \<Longrightarrow> i \<noteq> j \<Longrightarrow> owns ! i \<inter> owns ! j = {}"
    "\<And>i. i < length ps \<Longrightarrow> safe (ps ! i) (\<lambda>_ _ _. True) (owns ! i) w"
    "\<And>i n. i < length ps \<Longrightarrow> n \<in> owns ! i \<Longrightarrow> known w n" by (rule system_okE) blast
  define g where "g j = (if j < i then j else Suc j)" for j
  have p: "(take i ps @ drop (Suc i) ps) ! j = ps ! g j" "(take i owns @ drop (Suc i) owns) ! j = owns ! g j" "g j < length ps"
    if "j < length ps - 1" for j
    using that i o(2) by (auto simp: nth_append g_def)
  have inj: "g j = g k \<longleftrightarrow> j = k" for j k by (auto simp: g_def)
  show ?thesis
    by (rule system_okI[of _ "take i owns @ drop (Suc i) owns"]) (use o i p inj in \<open>auto dest: o(5)[rotated]\<close>)
qed (use assms in simp)

lemma system_ok_call:
  assumes "system_ok (w, ps)" "i < length ps" "ps ! i = Call c k" "good_time (ch_time ch)" "react ch c w = (r, w')"
  shows "system_ok (w', ps[i := k r])"
proof -
  from assms(1) obtain owns where o: "inv w" "length owns = length ps"
    "\<And>i j. i < length ps \<Longrightarrow> j < length ps \<Longrightarrow> i \<noteq> j \<Longrightarrow> owns ! i \<inter> owns ! j = {}"
    "\<And>i. i < length ps \<Longrightarrow> safe (ps ! i) (\<lambda>_ _ _. True) (owns ! i) w"
    "\<And>i n. i < length ps \<Longrightarrow> n \<in> owns ! i \<Longrightarrow> known w n" by (rule system_okE) blast
  have "safe (Call c k) (\<lambda>_ _ _. True) (owns ! i) w" using o(4)[OF assms(2)] assms(3) by simp
  then obtain own' where g: "inv w'" "guar (owns ! i) own' w w'" "safe (k r) (\<lambda>_ _ _. True) own' w'"
    using rely_refl o(1) assms(4,5) unfolding safe.simps by metis
  note gd = g(2)[unfolded guar_def]
  have disjoint: "owns ! j \<inter> own' = {}" if "j < length ps" "j \<noteq> i" for j
    using gd o(3)[OF that(1) assms(2) that(2)] o(5)[OF that(1)] by blast
  have other: "safe (ps ! j) (\<lambda>_ _ _. True) (owns ! j) w'" if "j < length ps" "j \<noteq> i" for j
  proof (rule safe_rely[OF o(4)[OF that(1)]])
    show "rely (owns ! j) w w'"
      using gd o(3)[OF that(1) assms(2) that(2)] o(5)[OF that(1)] unfolding rely_def by blast
  qed
  show ?thesis
  proof (rule system_okI[of _ "owns[i := own']"])
    fix j n
    assume "j < length (ps[i := k r])" "n \<in> owns[i := own'] ! j"
    then show "known w' n"
      using gd o(2) o(5)[of j n] o(5)[OF assms(2)] known_future by (cases "j = i") auto
  qed (use o(2,3) g assms(2) disjoint other in \<open>auto simp: nth_list_update Int_commute\<close>)
qed

lemma step_future:
  assumes "system_ok s" "net_step e s s'"
  shows "future (fst s) (fst s')"
  using assms(2,1)
proof cases
  case (call_step i ps c k ch w r w')
  with assms(1) obtain own where "safe (Call c k) (\<lambda>_ _ _. True) own w" "inv w" by (metis system_okE)
  with call_step show ?thesis using rely_refl[of own w] unfolding safe.simps by (auto simp: guar_def)
qed (auto simp: future_refl)

lemma reachable_ok:
  assumes "inv fresh_world" "\<And>x w. inv w \<Longrightarrow> safe (start e x) (\<lambda>_ _ _. True) {} w" "net_reachable e s"
  shows "system_ok s"
proof -
  have start: "system_ok (fresh_world, [])" using assms(1) by (intro system_okI[of _ "[]"]) auto
  have "(net_step e)\<^sup>*\<^sup>* (fresh_world, []) s" using assms(3) by (simp add: net_reachable_def)
  then show ?thesis
  proof induction
    case (step s s')
    from step.hyps(2) step.IH show ?case
    proof cases
      case (begin_op w ps x)
      have "inv w" using step.IH begin_op by (auto simp: system_ok_def)
      then show ?thesis using begin_op step.IH assms(2) system_ok_begin by simp
    next
      case (crash w ps i)
      then show ?thesis using step.IH system_ok_crash by simp
    qed (use system_ok_call in auto)
  qed (rule start)
qed

end

section \<open>The invariant\<close>

text \<open>What a transaction never changes after its creation.\<close>

definition core :: "apply_transaction \<Rightarrow> apply_transaction" where
  "core tx = tx\<lparr>at_state := [], at_deadline := [], at_error_code := None, at_created_at := [], at_updated_at := [],
     at_confirmed_at := None, at_rolled_back_at := None\<rparr>"

definition prepared_for :: "apply_transaction \<Rightarrow> net_event list \<Rightarrow> bool" where
  "prepared_for tx es \<longleftrightarrow> (\<exists>m d. Snapshotted m (at_dir tx) \<in> set es \<and> manifestCoreMatchesTransaction m tx (at_dir tx)
     \<and> Armed (at_id tx) d \<in> set es)"

definition applied_for :: "apply_transaction \<Rightarrow> net_event list \<Rightarrow> bool" where
  "applied_for tx es \<longleftrightarrow> (\<exists>m. Applied m (at_dir tx) \<in> set es \<and> manifestCoreMatchesTransaction m tx (at_dir tx))"

definition accepted_for :: "apply_transaction \<Rightarrow> net_event list \<Rightarrow> bool" where
  "accepted_for tx es \<longleftrightarrow> (\<exists>tx' m ev now. Accepted tx' m ev now \<in> set es \<and> core tx' = core tx)"

fun event_ok :: "net_lib \<Rightarrow> net_event \<Rightarrow> net_event list \<Rightarrow> bool" where
  "event_ok L (Applying m dir) es \<longleftrightarrow> (\<exists>tx. manifestMatchesTransaction m tx dir \<and> prepared_for tx es)"
| "event_ok L (Committing m dir) es \<longleftrightarrow> (\<exists>tx. manifestCoreMatchesTransaction m tx dir \<and> accepted_for tx es)"
| "event_ok L (Accepted tx m ev now) es \<longleftrightarrow> before_deadline (at_deadline tx) now \<and> token_matches L tx (ce_token ev) \<and> source_ok L tx m ev
     \<and> manifestMatchesTransaction m tx (at_dir tx) \<and> prepared_for tx es \<and> applied_for tx es"
| "event_ok L _ es \<longleftrightarrow> True"

fun log_ok :: "net_lib \<Rightarrow> net_event list \<Rightarrow> bool" where
  "log_ok L [] \<longleftrightarrow> True"
| "log_ok L (ev # es) \<longleftrightarrow> event_ok L ev es \<and> log_ok L es"

definition row :: "net_world \<Rightarrow> string \<Rightarrow> apply_transaction option" where
  "row w n = find_row n (na_rows w)"

definition manifest_file :: "net_world \<Rightarrow> string \<Rightarrow> manifest option" where
  "manifest_file w n = (case na_dirs w n of None \<Rightarrow> None | Some d \<Rightarrow> ad_manifest d)"

definition status_file :: "net_world \<Rightarrow> string \<Rightarrow> (string \<times> string) option" where
  "status_file w n = (case na_dirs w n of None \<Rightarrow> None | Some d \<Rightarrow> ad_status d)"

definition live :: "apply_transaction \<Rightarrow> bool" where
  "live r \<longleftrightarrow> at_state r \<in> {StateArmed, StateApplied, StateConfirming}"

definition row_ok :: "net_engine \<Rightarrow> net_event list \<Rightarrow> apply_transaction \<Rightarrow> bool" where
  "row_ok e es r \<longleftrightarrow> Directory e (at_id r) = Inr (at_dir r) \<and> validState (at_state r)
     \<and> (at_state r = StateArmed \<longrightarrow> prepared_for r es)
     \<and> (at_state r = StateApplied \<longrightarrow> prepared_for r es \<and> applied_for r es)
     \<and> (at_state r = StateConfirming \<or> at_state r = StateConfirmed \<longrightarrow> accepted_for r es)"

definition files_ok :: "net_engine \<Rightarrow> net_world \<Rightarrow> apply_transaction \<Rightarrow> bool" where
  "files_ok e w r \<longleftrightarrow>
     (\<forall>m. manifest_file w (at_id r) = Some m \<longrightarrow> validateManifest (eng_lib e) m = None \<and> manifestCoreMatchesTransaction m r (at_dir r))
     \<and> (live r \<longrightarrow> (\<exists>m. manifest_file w (at_id r) = Some m \<and> mf_deadline m = at_deadline r) \<and> status_file w (at_id r) \<noteq> None)"

definition status_ok :: "net_world \<Rightarrow> string \<Rightarrow> string \<times> string \<Rightarrow> bool" where
  "status_ok w n s \<longleftrightarrow> validPhase (fst s) \<and> parse_time (snd s) \<noteq> None
     \<and> (fst s = PhaseConfirming \<or> fst s = PhaseConfirmed \<longrightarrow> (\<exists>r. row w n = Some r \<and> accepted_for r (na_log w)))"

definition net_inv :: "net_engine \<Rightarrow> net_world \<Rightarrow> bool" where
  "net_inv e w \<longleftrightarrow> distinct (map at_id (na_rows w)) \<and> length (filter is_unfinished (na_rows w)) \<le> 1
     \<and> (\<forall>n r. row w n = Some r \<longrightarrow> row_ok e (na_log w) r \<and> files_ok e w r)
     \<and> (\<forall>n s. status_file w n = Some s \<longrightarrow> status_ok w n s)
     \<and> (\<forall>n. na_dirs w n \<noteq> None \<longrightarrow> row w n \<noteq> None)
     \<and> log_ok (eng_lib e) (na_log w)"

definition net_future :: "net_world \<Rightarrow> net_world \<Rightarrow> bool" where
  "net_future w w' \<longleftrightarrow> (\<exists>es. na_log w' = es @ na_log w)
     \<and> (\<forall>n r. row w n = Some r \<longrightarrow> (\<exists>r'. row w' n = Some r' \<and> core r' = core r \<and> (is_unfinished r' \<longrightarrow> is_unfinished r)))
     \<and> (\<forall>n. status_file w n \<noteq> None \<longrightarrow> status_file w' n \<noteq> None)"

definition live_in :: "net_world \<Rightarrow> string \<Rightarrow> bool" where
  "live_in w n \<longleftrightarrow> (case row w n of None \<Rightarrow> False | Some r \<Rightarrow> live r)"

definition net_kept :: "string \<Rightarrow> net_world \<Rightarrow> net_world \<Rightarrow> bool" where
  "net_kept n w w' \<longleftrightarrow> map_option at_deadline (row w' n) = map_option at_deadline (row w n) \<and> (live_in w' n \<longrightarrow> live_in w n)
     \<and> manifest_file w' n = manifest_file w n \<and> (na_dirs w' n = None \<longleftrightarrow> na_dirs w n = None)"

definition net_known :: "net_world \<Rightarrow> string \<Rightarrow> bool" where
  "net_known w n \<longleftrightarrow> row w n \<noteq> None"

lemma net_future_trans:
  assumes "net_future w1 w2" "net_future w2 w3"
  shows "net_future w1 w3"
proof -
  have "\<exists>r'. row w3 n = Some r' \<and> core r' = core r \<and> (is_unfinished r' \<longrightarrow> is_unfinished r)" if r: "row w1 n = Some r" for n r
  proof -
    from assms(1) r obtain r2 where r2: "row w2 n = Some r2" "core r2 = core r" "is_unfinished r2 \<longrightarrow> is_unfinished r"
      unfolding net_future_def by blast
    with assms(2) obtain r3 where "row w3 n = Some r3" "core r3 = core r2" "is_unfinished r3 \<longrightarrow> is_unfinished r2"
      unfolding net_future_def by blast
    with r2 show ?thesis by auto
  qed
  moreover have "\<exists>es. na_log w3 = es @ na_log w1" using assms unfolding net_future_def by (metis append_assoc)
  moreover have "\<forall>n. status_file w1 n \<noteq> None \<longrightarrow> status_file w3 n \<noteq> None" using assms unfolding net_future_def by blast
  ultimately show ?thesis unfolding net_future_def by blast
qed

interpretation apply_world: owned_world "net_inv e" net_future net_kept net_known for e
proof
  show "net_known w' n" if "net_future w w'" "net_known w n" for w w' n
    using that unfolding net_future_def net_known_def by fastforce
qed (simp add: net_future_def, erule (1) net_future_trans, auto simp: net_kept_def)

section \<open>Facts that last\<close>

lemma core_fields:
  assumes "core a = core b"
  shows "at_id a = at_id b" "at_dir a = at_dir b" "at_token_sha256 a = at_token_sha256 b"
    "manifestCoreMatchesTransaction m a d = manifestCoreMatchesTransaction m b d"
  using assms by (cases a; cases b; simp add: core_def manifestCoreMatchesTransaction_def)+

lemma core_for:
  assumes "core a = core b"
  shows "prepared_for a es = prepared_for b es" "applied_for a es = applied_for b es" "accepted_for a es = accepted_for b es"
  using core_fields[OF assms] assms by (auto simp: prepared_for_def applied_for_def accepted_for_def)

lemma for_mono:
  "prepared_for a es \<Longrightarrow> prepared_for a (es' @ es)"
  "applied_for a es \<Longrightarrow> applied_for a (es' @ es)"
  "accepted_for a es \<Longrightarrow> accepted_for a (es' @ es)"
  by (auto simp: prepared_for_def applied_for_def accepted_for_def)

lemma row_ok_mono: "row_ok e es r \<Longrightarrow> row_ok e (es' @ es) r"
  by (auto simp: row_ok_def intro: for_mono)

lemma event_ok_log: "log_ok L es \<Longrightarrow> es = pre @ ev # post \<Longrightarrow> event_ok L ev post"
  by (induction pre arbitrary: es) auto

lemma accepted_history:
  assumes "log_ok L es" "accepted_for tx es"
  shows "prepared_for tx es" "applied_for tx es"
proof -
  from assms(2) obtain tx' m ev now where a: "Accepted tx' m ev now \<in> set es" "core tx' = core tx"
    by (auto simp: accepted_for_def)
  then obtain pre post where es: "es = pre @ Accepted tx' m ev now # post" by (meson split_list)
  from event_ok_log[OF assms(1) es] have "prepared_for tx' post" "applied_for tx' post" by auto
  then have "prepared_for tx' es" "applied_for tx' es" unfolding es using for_mono[of tx' post "pre @ [Accepted tx' m ev now]"] by auto
  then show "prepared_for tx es" "applied_for tx es" using core_for[OF a(2)] by auto
qed

lemma find_row_Some: "find_row n rows = Some r \<Longrightarrow> at_id r = n \<and> r \<in> set rows"
  by (auto simp: find_row_def find_Some_iff)

lemma find_row_mem: "distinct (map at_id rows) \<Longrightarrow> r \<in> set rows \<Longrightarrow> find_row (at_id r) rows = Some r"
  by (induction rows) (auto simp: find_row_def)

lemma find_row_snoc: "find_row n (rows @ [tx]) = (case find_row n rows of Some r \<Rightarrow> Some r | None \<Rightarrow> if at_id tx = n then Some tx else None)"
  by (induction rows) (auto simp: find_row_def)

lemma find_row_map:
  assumes "\<And>r. at_id (f r) = at_id r"
  shows "find_row n (map f rows) = map_option f (find_row n rows)"
  using assms by (induction rows) (auto simp: find_row_def)

lemma row_id: "row w n = Some r \<Longrightarrow> at_id r = n"
  using find_row_Some by (fastforce simp: row_def)

lemma net_future_row:
  assumes "net_future w w'" "row w n = Some r"
  obtains r' where "row w' n = Some r'" "core r' = core r" "is_unfinished r' \<Longrightarrow> is_unfinished r"
  using assms unfolding net_future_def by blast

lemma net_future_log: "net_future w w' \<Longrightarrow> x \<in> set (na_log w) \<Longrightarrow> x \<in> set (na_log w')"
  unfolding net_future_def by auto

lemma net_future_for:
  assumes "net_future w w'"
  shows "prepared_for a (na_log w) \<Longrightarrow> prepared_for a (na_log w')"
    "applied_for a (na_log w) \<Longrightarrow> applied_for a (na_log w')"
    "accepted_for a (na_log w) \<Longrightarrow> accepted_for a (na_log w')"
  using assms for_mono unfolding net_future_def by metis+

lemma net_inv_row: "net_inv e w \<Longrightarrow> row w n = Some r \<Longrightarrow> row_ok e (na_log w) r \<and> files_ok e w r"
  by (auto simp: net_inv_def)

lemma status_ok_future:
  assumes "net_future w w'" "status_ok w n s"
  shows "status_ok w' n s"
proof -
  have "\<exists>r'. row w' n = Some r' \<and> accepted_for r' (na_log w')" if "row w n = Some r" "accepted_for r (na_log w)" for r
    using net_future_row[OF assms(1) that(1)] net_future_for(3)[OF assms(1) that(2)] core_for(3) by metis
  then show ?thesis using assms(2) unfolding status_ok_def by blast
qed

lemma net_invI:
  assumes inv: "net_inv e w" and fut: "net_future w w'"
    and rows: "distinct (map at_id (na_rows w'))" "length (filter is_unfinished (na_rows w')) \<le> 1"
      "\<And>n r. row w' n = Some r \<Longrightarrow> row_ok e (na_log w') r \<and> files_ok e w' r"
    and status: "\<And>n s. status_file w' n = Some s \<Longrightarrow> status_file w n = Some s \<or> status_ok w n s"
    and dirs: "\<And>n. na_dirs w' n \<noteq> None \<Longrightarrow> na_dirs w n \<noteq> None \<or> row w n \<noteq> None"
    and log: "log_ok (eng_lib e) (na_log w')"
  shows "net_inv e w'"
proof -
  have "status_ok w' n s" if "status_file w' n = Some s" for n s
    using status[OF that] status_ok_future[OF fut] inv unfolding net_inv_def by blast
  moreover have "row w' n \<noteq> None" if "na_dirs w' n \<noteq> None" for n
  proof -
    have "row w n \<noteq> None" using dirs[OF that] inv unfolding net_inv_def by blast
    then show ?thesis using fut unfolding net_future_def by fastforce
  qed
  ultimately show ?thesis using rows log unfolding net_inv_def by blast
qed

section \<open>What single changes do to the invariant\<close>

definition step_ok :: "net_engine \<Rightarrow> string set \<Rightarrow> net_world \<Rightarrow> net_world \<Rightarrow> bool" where
  "step_ok e own w w' \<longleftrightarrow> net_inv e w' \<and> apply_world.guar own own w w'"

lemma step_okI:
  assumes "net_inv e w'" "net_future w w'" "\<And>n. n \<notin> own \<Longrightarrow> net_known w n \<Longrightarrow> net_kept n w w'"
  shows "step_ok e own w w'"
  unfolding step_ok_def using assms by (auto intro: apply_world.guar_same)

lemma step_ok_refl: "net_inv e w \<Longrightarrow> step_ok e own w w"
  by (simp add: step_ok_def apply_world.guar_refl)

lemma log_step:
  assumes inv: "net_inv e w" and log: "log_ok (eng_lib e) (es @ na_log w)" and w': "w' = w\<lparr>na_log := es @ na_log w\<rparr>"
  shows "step_ok e own w w'"
proof (rule step_okI)
  have same: "row w' = row w" "manifest_file w' = manifest_file w" "status_file w' = status_file w" "na_rows w' = na_rows w"
      "na_log w' = es @ na_log w" "na_dirs w' = na_dirs w"
    by (auto simp: w' row_def manifest_file_def status_file_def)
  show fut: "net_future w w'" using same by (auto simp: net_future_def)
  show "net_inv e w'"
    by (rule net_invI[OF inv fut]) (use inv log in \<open>auto simp: net_inv_def same files_ok_def intro: row_ok_mono\<close>)
  show "net_kept n w w'" for n using same by (simp add: net_kept_def live_in_def)
qed

lemma status_step:
  assumes inv: "net_inv e w" and d: "na_dirs w n = Some d" and ok: "status_ok w n s"
    and w': "w' = w\<lparr>na_dirs := (na_dirs w)(n \<mapsto> d\<lparr>ad_status := Some s\<rparr>)\<rparr>"
  shows "step_ok e own w w'"
proof (rule step_okI)
  have same: "row w' = row w" "manifest_file w' = manifest_file w" "na_rows w' = na_rows w" "na_log w' = na_log w"
    using d by (auto simp: w' row_def manifest_file_def fun_eq_iff)
  have status: "status_file w' k = (if k = n then Some s else status_file w k)" for k
    by (simp add: w' status_file_def)
  have dirs: "na_dirs w' = (na_dirs w)(n \<mapsto> d\<lparr>ad_status := Some s\<rparr>)" by (simp add: w')
  show fut: "net_future w w'" using same status by (auto simp: net_future_def)
  have "files_ok e w' r" if "row w k = Some r" for k r
    using net_inv_row[OF inv that] unfolding files_ok_def same status by auto
  then show "net_inv e w'"
    by (intro net_invI[OF inv fut]) (use inv ok d in \<open>auto simp: net_inv_def same status dirs split: if_splits\<close>)
  show "net_kept k w w'" for k using same d dirs by (auto simp: net_kept_def live_in_def)
qed

lemma mkdir_step:
  assumes inv: "net_inv e w" and n: "n \<in> own" "na_dirs w n = None" "row w n \<noteq> None"
    and w': "w' = w\<lparr>na_dirs := (na_dirs w)(n \<mapsto> \<lparr>ad_manifest = None, ad_status = None\<rparr>)\<rparr>"
  shows "step_ok e own w w'"
proof (rule step_okI)
  have same: "row w' = row w" "manifest_file w' = manifest_file w" "status_file w' = status_file w" "na_rows w' = na_rows w"
      "na_log w' = na_log w"
    using n by (auto simp: w' row_def manifest_file_def status_file_def fun_eq_iff)
  have dirs: "na_dirs w' = (na_dirs w)(n \<mapsto> \<lparr>ad_manifest = None, ad_status = None\<rparr>)" by (simp add: w')
  show fut: "net_future w w'" using same by (auto simp: net_future_def)
  show "net_inv e w'"
    by (rule net_invI[OF inv fut]) (use inv n in \<open>auto simp: net_inv_def same files_ok_def dirs split: if_splits\<close>)
  show "net_kept k w w'" if "k \<notin> own" for k using same that n dirs by (auto simp: net_kept_def live_in_def)
qed

lemma manifest_step:
  assumes inv: "net_inv e w" and n: "n \<in> own" "na_dirs w n = Some d" and r: "row w n = Some r" "\<not> live r"
    and m: "validateManifest (eng_lib e) m = None" "manifestCoreMatchesTransaction m r (at_dir r)"
    and w': "w' = w\<lparr>na_dirs := (na_dirs w)(n \<mapsto> d\<lparr>ad_manifest := Some m\<rparr>)\<rparr>"
  shows "step_ok e own w w'"
proof (rule step_okI)
  have same: "row w' = row w" "status_file w' = status_file w" "na_rows w' = na_rows w" "na_log w' = na_log w"
    using n by (auto simp: w' row_def status_file_def fun_eq_iff)
  have mf: "manifest_file w' k = (if k = n then Some m else manifest_file w k)" for k
    by (simp add: w' manifest_file_def)
  have dirs: "na_dirs w' = (na_dirs w)(n \<mapsto> d\<lparr>ad_manifest := Some m\<rparr>)" by (simp add: w')
  show fut: "net_future w w'" using same by (auto simp: net_future_def)
  have "files_ok e w' r'" if "row w k = Some r'" for k r'
    using net_inv_row[OF inv that] row_id[OF that] r m that same unfolding files_ok_def mf
    by (cases "k = n") auto
  then show "net_inv e w'"
    by (intro net_invI[OF inv fut]) (use inv n in \<open>auto simp: net_inv_def same dirs split: if_splits\<close>)
  show "net_kept k w w'" if "k \<notin> own" for k using same that n mf dirs by (auto simp: net_kept_def live_in_def)
qed

text \<open>An update of the rows of one transaction.\<close>

lemma filter_length_map:
  assumes "\<And>r. R (f r) \<Longrightarrow> R r"
  shows "length (filter R (map f rows)) \<le> length (filter R rows)"
  using assms by (induction rows) (auto simp: le_SucI)

lemma rows_step:
  assumes inv: "net_inv e w"
    and f: "\<And>r. core (f r) = core r" and P: "\<And>r. P r \<Longrightarrow> is_unfinished r"
    and upd: "\<And>r. row w n = Some r \<Longrightarrow> P r \<Longrightarrow> row_ok e (na_log w) (f r) \<and> files_ok e w (f r)"
    and own: "\<And>r. row w n = Some r \<Longrightarrow> P r \<Longrightarrow> n \<in> own \<or> at_deadline (f r) = at_deadline r \<and> (live (f r) \<longrightarrow> live r)"
    and w': "w' = w\<lparr>na_rows := map (\<lambda>r. if at_id r = n \<and> P r then f r else r) (na_rows w)\<rparr>"
  shows "step_ok e own w w'"
proof (rule step_okI)
  define g where "g r = (if at_id r = n \<and> P r then f r else r)" for r
  have gid: "at_id (g r) = at_id r" and gcore: "core (g r) = core r" and gun: "is_unfinished (g r) \<Longrightarrow> is_unfinished r" for r
    using core_fields(1)[OF f] f P by (auto simp: g_def split: if_splits)
  have same: "manifest_file w' = manifest_file w" "status_file w' = status_file w" "na_log w' = na_log w" "na_dirs w' = na_dirs w"
    by (auto simp: w' manifest_file_def status_file_def)
  have rows': "na_rows w' = map g (na_rows w)" by (simp add: w' g_def)
  have row': "row w' k = map_option g (row w k)" for k
    unfolding row_def rows' by (rule find_row_map[OF gid])
  have ids: "map at_id (na_rows w') = map at_id (na_rows w)" by (simp add: rows' gid)
  have rows: "row_ok e (na_log w') r' \<and> files_ok e w' r'" if "row w' k = Some r'" for k r'
  proof -
    from that row' obtain r where r: "row w k = Some r" "r' = g r" by auto
    show ?thesis
      using upd[of r] net_inv_row[OF inv r(1)] r row_id[OF r(1)] unfolding files_ok_def same by (cases "k = n \<and> P r") (auto simp: g_def)
  qed
  show fut: "net_future w w'"
    unfolding net_future_def row' same by (auto simp: gcore intro: gun)
  have "length (filter is_unfinished (na_rows w')) \<le> 1"
    using inv filter_length_map[of is_unfinished g "na_rows w", OF gun] by (simp add: net_inv_def rows')
  then show "net_inv e w'"
    by (intro net_invI[OF inv fut _ _ rows]) (use inv in \<open>auto simp: net_inv_def ids same\<close>)
  show "net_kept k w w'" if "k \<notin> own" for k
  proof (cases "row w k")
    case (Some r)
    then show ?thesis
      using own[of r] that row_id[OF Some] unfolding net_kept_def live_in_def row' same by (cases "k = n \<and> P r") (auto simp: g_def)
  qed (simp add: net_kept_def live_in_def row' same)
qed

lemma create_step:
  assumes inv: "net_inv e w" and none: "filter is_unfinished (na_rows w) = []" "row w (at_id tx) = None"
    and dir: "Directory e (at_id tx) = Inr (at_dir tx)" "at_state tx = StatePreparing"
    and w': "w' = w\<lparr>na_rows := na_rows w @ [tx]\<rparr>"
  shows "net_inv e w'" "apply_world.guar own (insert (at_id tx) own) w w'" "row w' (at_id tx) = Some tx"
proof -
  have same: "manifest_file w' = manifest_file w" "status_file w' = status_file w" "na_log w' = na_log w" "na_dirs w' = na_dirs w"
    by (auto simp: w' manifest_file_def status_file_def)
  have rows': "na_rows w' = na_rows w @ [tx]" by (simp add: w')
  have row': "row w' k = (if k = at_id tx then Some tx else row w k)" for k
    using none(2) by (auto simp: w' row_def find_row_snoc split: option.splits)
  then show "row w' (at_id tx) = Some tx" by simp
  have "na_dirs w (at_id tx) = None" using inv none(2) unfolding net_inv_def by blast
  then have files: "manifest_file w (at_id tx) = None" by (simp add: manifest_file_def)
  have new: "row_ok e (na_log w) tx \<and> files_ok e w' tx"
    using dir files same by (auto simp: row_ok_def files_ok_def live_def validState_def)
  have fut: "net_future w w'" using none(2) unfolding net_future_def row' same by auto
  have fresh: "at_id tx \<notin> set (map at_id (na_rows w))"
    using none(2) inv find_row_mem[of "na_rows w"] unfolding net_inv_def row_def by fastforce
  have rows: "row_ok e (na_log w') r \<and> files_ok e w' r" if "row w' k = Some r" for k r
    using that row' new net_inv_row[OF inv, of k r] unfolding files_ok_def same by (auto split: if_splits)
  show "net_inv e w'"
    by (rule net_invI[OF inv fut _ _ rows]) (use inv fresh none(1) rows' in \<open>auto simp: net_inv_def same\<close>)
  have "net_kept k w w'" if "net_known w k" for k
    using that none(2) unfolding net_kept_def net_known_def live_in_def row' same by auto
  with fut show "apply_world.guar own (insert (at_id tx) own) w w'"
    using none(2) unfolding apply_world.guar_def net_known_def by (auto simp: row')
qed

section \<open>Triples\<close>

abbreviation net_rely :: "string set \<Rightarrow> net_world \<Rightarrow> net_world \<Rightarrow> bool" where
  "net_rely \<equiv> owned_world.rely net_future net_kept"

abbreviation net_safe :: "net_engine \<Rightarrow> 'a prog \<Rightarrow> (string set \<Rightarrow> 'a \<Rightarrow> net_world \<Rightarrow> bool) \<Rightarrow> string set \<Rightarrow> net_world \<Rightarrow> bool" where
  "net_safe e \<equiv> owned_world.safe (net_inv e) net_future net_kept net_known"

definition triple :: "net_engine \<Rightarrow> string set \<Rightarrow> (net_world \<Rightarrow> bool) \<Rightarrow> 'a prog \<Rightarrow> ('a \<Rightarrow> net_world \<Rightarrow> bool) \<Rightarrow> bool" where
  "triple e own K p Q \<longleftrightarrow> (\<forall>w. K w \<longrightarrow> net_safe e p (\<lambda>o' x w. o' = own \<and> Q x w) own w)"

definition stable :: "string set \<Rightarrow> (net_world \<Rightarrow> bool) \<Rightarrow> bool" where
  "stable own K \<longleftrightarrow> (\<forall>w w'. K w \<longrightarrow> net_rely own w w' \<longrightarrow> K w')"

definition lasting :: "(net_world \<Rightarrow> bool) \<Rightarrow> bool" where
  "lasting K \<longleftrightarrow> (\<forall>w w'. K w \<longrightarrow> net_future w w' \<longrightarrow> K w')"

lemma lasting_stable: "lasting K \<Longrightarrow> stable own K"
  unfolding lasting_def stable_def using apply_world.rely_future by blast

lemma lasting_simps [simp]:
  "lasting (\<lambda>w. True)" "lasting (\<lambda>w. P)" "lasting (\<lambda>w. ev \<in> set (na_log w))"
  "lasting (\<lambda>w. prepared_for tx (na_log w))" "lasting (\<lambda>w. applied_for tx (na_log w))" "lasting (\<lambda>w. accepted_for tx (na_log w))"
  by (auto simp: lasting_def intro: net_future_log net_future_for)

lemma lasting_conj [simp]: "lasting K \<Longrightarrow> lasting J \<Longrightarrow> lasting (\<lambda>w. K w \<and> J w)"
  unfolding lasting_def by blast

lemma triple_ret: "(\<And>w. K w \<Longrightarrow> Q x w) \<Longrightarrow> triple e own K (Ret x) Q"
  by (simp add: triple_def)

lemma triple_call:
  assumes "stable own K"
    and "\<And>w1 ch r w2. K w1 \<Longrightarrow> net_inv e w1 \<Longrightarrow> good_time (ch_time ch) \<Longrightarrow> react ch c w1 = (r, w2) \<Longrightarrow> step_ok e own w1 w2 \<and> R r w2"
    and "\<And>r. triple e own (R r) (k r) Q"
  shows "triple e own K (Call c k) Q"
  unfolding triple_def
proof (intro allI impI apply_world.safe_CallI)
  fix w w1 ch r w2
  assume "K w" "net_rely own w w1" "net_inv e w1" "good_time (ch_time ch)" "react ch c w1 = (r, w2)"
  moreover from this assms(1) have "K w1" by (auto simp: stable_def)
  ultimately show "net_inv e w2 \<and> apply_world.guar own own w1 w2 \<and> net_safe e (k r) (\<lambda>o' x w. o' = own \<and> Q x w) own w2"
    using assms(2)[of w1 ch r w2] assms(3)[of r] by (auto simp: step_ok_def triple_def)
qed

lemma triple_conseq: "triple e own K p Q \<Longrightarrow> (\<And>w. K' w \<Longrightarrow> K w) \<Longrightarrow> (\<And>x w. Q x w \<Longrightarrow> Q' x w) \<Longrightarrow> triple e own K' p Q'"
  unfolding triple_def by (intro allI impI, rule apply_world.safe_weaken[where Q = "\<lambda>o' x w. o' = own \<and> Q x w"]) auto

lemma triple_then:
  assumes "triple e own K p R" "\<And>x. triple e own (R x) (f x) Q"
  shows "triple e own K (and_then p f) Q"
  unfolding triple_def
proof (intro allI impI apply_world.safe_and_then)
  fix w
  assume "K w"
  with assms(1) have "net_safe e p (\<lambda>o' x w. o' = own \<and> R x w) own w" by (simp add: triple_def)
  then show "net_safe e p (\<lambda>o' x. net_safe e (f x) (\<lambda>o' x w. o' = own \<and> Q x w) o') own w"
    by (rule apply_world.safe_weaken) (use assms(2) in \<open>auto simp: triple_def\<close>)
qed

lemma triple_on_error:
  assumes "triple e own K p R" "\<And>er. triple e own (R (Some er)) (f er) Q" "triple e own (R None) k Q"
  shows "triple e own K (on_error p f k) Q"
  unfolding on_error_def by (rule triple_then[OF assms(1)]) (use assms in \<open>auto split: option.splits\<close>)

lemma triple_map: "triple e own K p (\<lambda>x. Q (f x)) \<Longrightarrow> triple e own K (map_prog f p) Q"
  unfolding triple_def by (auto intro: apply_world.safe_map)

lemma safe_frame:
  assumes "net_safe e p Q own w" "lasting J" "J w"
  shows "net_safe e p (\<lambda>o' x w. Q o' x w \<and> J w) own w"
  using assms(1,3)
proof (induction p arbitrary: own w)
  case (Call c k)
  show ?case unfolding apply_world.safe.simps
  proof (intro allI impI)
    fix w1 ch r w2
    assume a: "net_rely own w w1" "net_inv e w1" "good_time (ch_time ch)" "react ch c w1 = (r, w2)"
    with Call.prems(1) obtain own' where s: "net_inv e w2" "apply_world.guar own own' w1 w2" "net_safe e (k r) Q own' w2"
      unfolding apply_world.safe.simps by metis
    have "net_future w w2"
      using a(1) s(2) net_future_trans[of w w1 w2] by (auto simp: apply_world.rely_def apply_world.guar_def)
    with assms(2) Call.prems(2) have "J w2" by (auto simp: lasting_def)
    with Call.IH s show "net_inv e w2 \<and> (\<exists>own'. apply_world.guar own own' w1 w2 \<and> net_safe e (k r) (\<lambda>o' x w. Q o' x w \<and> J w) own' w2)"
      by blast
  qed
qed simp

lemma triple_frame:
  assumes "triple e own K p Q" "lasting J"
  shows "triple e own (\<lambda>w. K w \<and> J w) p (\<lambda>x w. Q x w \<and> J w)"
  unfolding triple_def
proof (intro allI impI)
  fix w
  assume "K w \<and> J w"
  with assms have "net_safe e p (\<lambda>o' x w. (o' = own \<and> Q x w) \<and> J w) own w"
    by (intro safe_frame) (auto simp: triple_def)
  then show "net_safe e p (\<lambda>o' x w. o' = own \<and> Q x w \<and> J w) own w"
    by (rule apply_world.safe_weaken) auto
qed

lemma triple_last:
  assumes "triple e own (\<lambda>_. True) p (\<lambda>_ _. True)" "lasting J"
  shows "triple e own J p (\<lambda>_. J)"
  using triple_frame[OF assms] by (rule triple_conseq) auto

lemma triple_do_call:
  assumes "stable own K"
    and "\<And>w1 ch r w2. K w1 \<Longrightarrow> net_inv e w1 \<Longrightarrow> good_time (ch_time ch) \<Longrightarrow> react ch c w1 = (r, w2) \<Longrightarrow> step_ok e own w1 w2 \<and> Q (failure r) w2"
  shows "triple e own K (do_call c) Q"
  unfolding do_call_def by (rule triple_call[OF assms(1), of _ _ "\<lambda>r. Q (failure r)"]) (use assms(2) triple_ret in auto)

section \<open>Single calls\<close>

lemma react_cases:
  assumes "react ch c w = (r, w')"
  shows "w' = attempted c w \<or> w' = snd (perform ch c (attempted c w))"
    and "failure r = None \<Longrightarrow> (r, w') = perform ch c (attempted c w)"
  using assms by (auto simp: react_def Let_def failure_def split: prod.splits if_splits fate.splits)

fun is_read :: "call \<Rightarrow> bool" where
  "is_read (DbGet _) = True" | "is_read DbUnfinished = True" | "is_read (FsReadManifest _) = True" | "is_read (FsReadStatus _) = True"
| "is_read Clock = True" | "is_read (NewSecret _) = True" | "is_read _ = False"

lemma read_same:
  assumes "is_read c" "react ch c w = (r, w')"
  shows "w' = w"
proof -
  have "attempted c w = w" "snd (perform ch c w) = w"
    using assms(1) by (cases c; auto split: option.splits)+
  with react_cases(1)[OF assms(2)] show ?thesis by auto
qed

lemma triple_read:
  assumes "is_read c" "stable own K"
    and "\<And>w ch r. K w \<Longrightarrow> net_inv e w \<Longrightarrow> react ch c w = (r, w) \<Longrightarrow> R r w"
    and "\<And>r. triple e own (R r) (k r) Q"
  shows "triple e own K (Call c k) Q"
proof (rule triple_call[OF assms(2) _ assms(4)])
  fix w1 ch r w2
  assume k: "K w1" "net_inv e w1" "react ch c w1 = (r, w2)"
  with read_same[OF assms(1)] have "w2 = w1" by blast
  with k assms(3) show "step_ok e own w1 w2 \<and> R r w2" by (auto intro: step_ok_refl)
qed

lemma log_call:
  assumes "net_inv e w" "react ch c w = (r, w')"
    and "attempted c w = w\<lparr>na_log := es @ na_log w\<rparr>" "snd (perform ch c (attempted c w)) = w\<lparr>na_log := es' @ na_log w\<rparr>"
    and "log_ok (eng_lib e) (es @ na_log w)" "log_ok (eng_lib e) (es' @ na_log w)"
  shows "step_ok e own w w'"
  using react_cases(1)[OF assms(2)] log_step[OF assms(1)] assms(3-) by metis

lemma log_event_append: "log_event ev w = w\<lparr>na_log := [ev] @ na_log w\<rparr>"
  by (simp add: log_event_def)

lemma free_event_call:
  assumes "net_inv e w" "react ch c w = (r, w')"
    and "c \<in> {BkSnapshot m dir, BkRollback m dir, TmArm n d, TmDisarm n}"
  shows "step_ok e own w w'"
proof -
  have "log_ok (eng_lib e) (na_log w)" using assms(1) by (simp add: net_inv_def)
  with assms(3) show ?thesis
    by (intro log_call[OF assms(1,2), of "[]" "[case c of BkSnapshot m dir \<Rightarrow> Snapshotted m dir | BkRollback m dir \<Rightarrow> RolledBack m dir
        | TmArm n d \<Rightarrow> Armed n d | TmDisarm n \<Rightarrow> Disarmed n]"]) (auto simp: log_event_append)
qed

lemma triple_event:
  assumes "c \<in> {BkSnapshot m dir, BkRollback m dir, TmArm n d, TmDisarm n}"
  shows "triple e own (\<lambda>_. True) (do_call c) (\<lambda>_ _. True)"
  by (rule triple_do_call) (use assms free_event_call in \<open>auto intro: lasting_stable\<close>)

lemma triple_rollback_call [simp]: "triple e own (\<lambda>_. True) (do_call (BkRollback m dir)) (\<lambda>_ _. True)"
  by (rule triple_event) auto

lemma triple_disarm [simp]: "triple e own (\<lambda>_. True) (DisarmTimer n) (\<lambda>_ _. True)"
  unfolding DisarmTimer_def by (auto intro: triple_ret triple_event)

lemma triple_snapshot: "triple e own (\<lambda>_. True) (do_call (BkSnapshot m dir)) (\<lambda>err w. err = None \<longrightarrow> Snapshotted m dir \<in> set (na_log w))"
proof (rule triple_do_call)
  fix w1 ch r w2
  assume "net_inv e w1" "react ch (BkSnapshot m dir) w1 = (r, w2)"
  then show "step_ok e own w1 w2 \<and> (failure r = None \<longrightarrow> Snapshotted m dir \<in> set (na_log w2))"
    using free_event_call[of e w1 ch "BkSnapshot m dir" r w2] react_cases(2)[of ch "BkSnapshot m dir" w1 r w2]
    by (auto simp: log_event_def)
qed (simp add: lasting_stable)

lemma triple_arm: "triple e own (\<lambda>_. True) (ArmTimer n d) (\<lambda>err w. err = None \<longrightarrow> Armed n d \<in> set (na_log w))"
proof -
  have "triple e own (\<lambda>_. True) (do_call (TmArm n d)) (\<lambda>err w. err = None \<longrightarrow> Armed n d \<in> set (na_log w))"
  proof (rule triple_do_call)
    fix w1 ch r w2
    assume "net_inv e w1" "react ch (TmArm n d) w1 = (r, w2)"
    then show "step_ok e own w1 w2 \<and> (failure r = None \<longrightarrow> Armed n d \<in> set (na_log w2))"
      using free_event_call[of e w1 ch "TmArm n d" r w2] react_cases(2)[of ch "TmArm n d" w1 r w2]
      by (auto simp: log_event_def)
  qed (simp add: lasting_stable)
  then show ?thesis unfolding ArmTimer_def
    by (auto intro!: triple_ret triple_read[where R = "\<lambda>_ _. True"] lasting_stable simp: Let_def split: resp.splits)
qed

section \<open>Files\<close>

definition acc :: "string \<Rightarrow> net_world \<Rightarrow> bool" where
  "acc n w \<longleftrightarrow> (\<exists>r. row w n = Some r \<and> accepted_for r (na_log w))"

definition has :: "apply_transaction \<Rightarrow> net_world \<Rightarrow> bool" where
  "has tx w \<longleftrightarrow> (\<exists>r. row w (at_id tx) = Some r \<and> core r = core tx)"

lemma lasting_acc [simp]: "lasting (acc n)"
  unfolding lasting_def acc_def
  by (metis net_future_row net_future_for(3) core_for(3))

lemma lasting_has [simp]: "lasting (has tx)"
  unfolding lasting_def has_def by (metis net_future_row)

lemma has_acc: "has tx w \<Longrightarrow> accepted_for tx (na_log w) \<Longrightarrow> acc (at_id tx) w"
  unfolding has_def acc_def using core_for(3) by metis

lemma lasting_step: "lasting K \<Longrightarrow> K w \<Longrightarrow> step_ok e own w w' \<Longrightarrow> K w'"
  by (auto simp: step_ok_def apply_world.guar_def lasting_def)

lemma status_call:
  assumes k: "net_inv e w1" "react ch (FsWriteStatus n ph) w1 = (r, w2)" "status_ok w1 n (ph, format_time (ch_time ch))"
  shows "step_ok e own w1 w2 \<and> (failure r = None \<longrightarrow> status_file w2 n \<noteq> None)"
proof -
  have "step_ok e own w1 w2"
    using react_cases(1)[OF k(2)] k(1) status_step[OF k(1) _ k(3)] by (auto split: option.splits intro: step_ok_refl)
  moreover have "status_file w2 n \<noteq> None" if "failure r = None"
    using react_cases(2)[OF k(2) that] that by (auto simp: status_file_def failure_def split: option.splits)
  ultimately show ?thesis by blast
qed

lemma triple_phase:
  assumes "ph = PhaseConfirming \<or> ph = PhaseConfirmed \<Longrightarrow> K = acc n" "lasting K"
  shows "triple e own K (SetPhase e n ph) (\<lambda>err w. K w \<and> (err = None \<longrightarrow> status_file w n \<noteq> None))"
proof -
  have "triple e own K (do_call (FsWriteStatus n ph)) (\<lambda>err w. K w \<and> (err = None \<longrightarrow> status_file w n \<noteq> None))" if "validPhase ph"
  proof (rule triple_do_call)
    fix w1 r w2 and ch :: choice
    let ?s = "(ph, format_time (ch_time ch))"
    assume k: "K w1" "net_inv e w1" "good_time (ch_time ch)" "react ch (FsWriteStatus n ph) w1 = (r, w2)"
    have "status_ok w1 n ?s"
      using that assms(1) k(1,3) parse_format_time[of "ch_time ch"] by (auto simp: status_ok_def acc_def good_time_def)
    from status_call[OF k(2,4) this]
    show "step_ok e own w1 w2 \<and> K w2 \<and> (failure r = None \<longrightarrow> status_file w2 n \<noteq> None)"
      using lasting_step[OF assms(2) k(1)] by blast
  qed (rule lasting_stable[OF assms(2)])
  then show ?thesis unfolding SetPhase_def by (auto intro: triple_ret split: sum.splits)
qed

lemma triple_phase_simple:
  assumes "ph \<notin> {PhaseConfirming, PhaseConfirmed}"
  shows "triple e own (\<lambda>_. True) (SetPhase e n ph) (\<lambda>_ _. True)"
  by (rule triple_conseq[OF triple_phase[of ph "\<lambda>_. True" n]]) (use assms in auto)

text \<open>What is read of a transaction: its row was there, and a confirming phase was accepted.\<close>

lemma triple_get:
  assumes "lasting K"
  shows "triple e own K (GetRow n) (\<lambda>got w. K w \<and> (case got of Inl _ \<Rightarrow> True
     | Inr tx \<Rightarrow> at_id tx = n \<and> has tx w \<and> Directory e n = Inr (at_dir tx) \<and> row_ok e (na_log w) tx))"
  unfolding GetRow_def
proof (rule triple_read[where R = "\<lambda>r w. K w \<and> (case r of Row tx \<Rightarrow> at_id tx = n \<and> has tx w \<and> Directory e n = Inr (at_dir tx)
    \<and> row_ok e (na_log w) tx | _ \<Rightarrow> True)"])
  fix w ch r
  assume k: "K w" "net_inv e w" "react ch (DbGet n) w = (r, w)"
  show "K w \<and> (case r of Row tx \<Rightarrow> at_id tx = n \<and> has tx w \<and> Directory e n = Inr (at_dir tx) \<and> row_ok e (na_log w) tx | _ \<Rightarrow> True)"
  proof (cases r)
    case (Row tx)
    then have "row w n = Some tx"
      using react_cases(2)[OF k(3)] by (auto simp: failure_def row_def split: option.splits)
    then show ?thesis
      using k(1) Row row_id[of w n tx] net_inv_row[OF k(2)] by (auto simp: has_def row_ok_def)
  qed (use k in auto)
qed (auto intro: triple_ret lasting_stable[OF assms] split: resp.splits)

definition loaded_ok :: "net_engine \<Rightarrow> string \<Rightarrow> manifest \<times> string \<Rightarrow> net_world \<Rightarrow> bool" where
  "loaded_ok e n l w \<longleftrightarrow> (snd l = PhaseConfirming \<or> snd l = PhaseConfirmed \<longrightarrow> acc n w)"

lemma lasting_loaded [simp]: "lasting (loaded_ok e n l)"
  unfolding loaded_ok_def using lasting_acc[of n] unfolding lasting_def by blast

lemma triple_load:
  assumes "lasting K"
  shows "triple e own K (LoadFiles e n) (\<lambda>l w. K w \<and> (case l of Inl _ \<Rightarrow> True | Inr l \<Rightarrow> loaded_ok e n l w))"
proof -
  have st: "triple e own K (LoadStatus m n) (\<lambda>l w. K w \<and> (case l of Inl _ \<Rightarrow> True | Inr l \<Rightarrow> loaded_ok e n l w))" for m
    unfolding LoadStatus_def
  proof (rule triple_read[where R = "\<lambda>r w. K w \<and> (case r of StatusFile phase at \<Rightarrow> loaded_ok e n (m, phase) w | _ \<Rightarrow> True)"])
    fix w ch r
    assume k: "K w" "net_inv e w" "react ch (FsReadStatus n) w = (r, w)"
    show "K w \<and> (case r of StatusFile phase at \<Rightarrow> loaded_ok e n (m, phase) w | _ \<Rightarrow> True)"
    proof (cases r)
      case (StatusFile phase at)
      then have "status_file w n = Some (phase, at)"
        using react_cases(2)[OF k(3)] by (auto simp: failure_def status_file_def split: option.splits)
      then have "status_ok w n (phase, at)" using k(2) by (simp add: net_inv_def)
      then show ?thesis using k(1) StatusFile by (auto simp: loaded_ok_def status_ok_def acc_def)
    qed (use k in auto)
  qed (auto intro: triple_ret lasting_stable[OF assms] split: resp.splits)
  show ?thesis
  proof (cases "Directory e n")
    case (Inr d)
    show ?thesis unfolding LoadFiles_def Inr sum.case
      by (rule triple_read[where R = "\<lambda>_. K"]) (use st in \<open>auto intro: triple_ret lasting_stable[OF assms] split: resp.splits\<close>)
  qed (simp add: LoadFiles_def triple_ret)
qed

section \<open>Rows\<close>

lemma core_moved [simp]: "core (moved now st code r) = core r"
  by (simp add: core_def moved_def)

lemma moved_simps [simp]:
  "at_state (moved now st code r) = st" "at_deadline (moved now st code r) = at_deadline r" "at_id (moved now st code r) = at_id r"
  "at_dir (moved now st code r) = at_dir r"
  by (simp_all add: moved_def)

lemma live_moved [simp]: "live (moved now st code r) \<longleftrightarrow> st \<in> {StateArmed, StateApplied, StateConfirming}"
  by (simp add: live_def)

lemma files_ok_core: "core r' = core r \<Longrightarrow> at_deadline r' = at_deadline r \<Longrightarrow> (live r' \<Longrightarrow> live r) \<Longrightarrow> files_ok e w r \<Longrightarrow> files_ok e w r'"
  using core_fields[of r' r] by (auto simp: files_ok_def)

lemma transition_call:
  assumes inv: "net_inv e w1" and react: "react ch (DbTransition n expected st code) w1 = (r, w2)"
    and exp: "set expected \<subseteq> set unfinished_states"
    and ok: "\<And>r now. row w1 n = Some r \<Longrightarrow> at_state r \<in> set expected \<Longrightarrow>
       row_ok e (na_log w1) (moved now st code r) \<and> files_ok e w1 (moved now st code r)
       \<and> (n \<in> own \<or> (st \<in> {StateArmed, StateApplied, StateConfirming} \<longrightarrow> live r))"
  shows "step_ok e own w1 w2"
proof -
  let ?f = "moved (format_time (ch_time ch)) st code"
  have "w2 = w1 \<or> w2 = w1\<lparr>na_rows := map (\<lambda>r. if at_id r = n \<and> at_state r \<in> set expected then ?f r else r) (na_rows w1)\<rparr>"
    using react_cases(1)[OF react] by (auto simp: set_rows_def update_where_def split: if_splits)
  then show ?thesis
  proof
    assume w2: "w2 = w1\<lparr>na_rows := map (\<lambda>r. if at_id r = n \<and> at_state r \<in> set expected then ?f r else r) (na_rows w1)\<rparr>"
    show ?thesis
      by (rule rows_step[OF inv _ _ _ _ w2]) (use exp ok in \<open>auto simp: is_unfinished_def\<close>)
  qed (simp add: inv step_ok_refl)
qed

text \<open>A state change: the new state is justified by \<open>K\<close>, and a transaction becomes live only by its owner.\<close>

lemma triple_transition:
  assumes K: "stable own K" "\<And>w w'. K w \<Longrightarrow> net_inv e w \<Longrightarrow> step_ok e own w w' \<Longrightarrow> K w'"
    and exp: "set expected \<subseteq> set unfinished_states"
    and ok: "\<And>w r now. K w \<Longrightarrow> net_inv e w \<Longrightarrow> row w n = Some r \<Longrightarrow> at_state r \<in> set expected \<Longrightarrow>
       row_ok e (na_log w) (moved now st code r) \<and> files_ok e w (moved now st code r)
       \<and> (n \<in> own \<or> (st \<in> {StateArmed, StateApplied, StateConfirming} \<longrightarrow> live r))"
  shows "triple e own K (Transition n expected st code) (\<lambda>_. K)"
proof -
  have "triple e own K (do_call (DbTransition n expected st code)) (\<lambda>_. K)"
  proof (rule triple_do_call[OF K(1)])
    fix w1 r w2 and ch :: choice
    assume k: "K w1" "net_inv e w1" "react ch (DbTransition n expected st code) w1 = (r, w2)"
    have "step_ok e own w1 w2" by (rule transition_call[OF k(2,3) exp ok[OF k(1,2)]])
    with K(2)[OF k(1,2)] show "step_ok e own w1 w2 \<and> K w2" by blast
  qed
  then show ?thesis unfolding Transition_def by (auto intro: triple_ret)
qed

lemma row_ok_finished:
  "row_ok e es r \<Longrightarrow> row_ok e es (moved now StateFailed code r)" "row_ok e es r \<Longrightarrow> row_ok e es (moved now StateRolledBack code r)"
  by (auto simp: row_ok_def validState_def)

lemma triple_finish:
  assumes "st = StateFailed \<or> st = StateRolledBack" "set expected \<subseteq> set unfinished_states"
  shows "triple e own (\<lambda>_. True) (Transition n expected st code) (\<lambda>_ _. True)"
proof (rule triple_transition[OF _ _ assms(2)])
  fix w r now
  assume "net_inv e w" "row w n = Some r"
  from net_inv_row[OF this] show "row_ok e (na_log w) (moved now st code r) \<and> files_ok e w (moved now st code r)
      \<and> (n \<in> own \<or> (st \<in> {StateArmed, StateApplied, StateConfirming} \<longrightarrow> live r))"
    using assms(1) row_ok_finished[of e "na_log w" r] files_ok_core[of "moved now st code r" r e w] by auto
qed (simp_all add: lasting_stable)

lemma row_ok_accepted:
  assumes "row_ok e es r" "accepted_for r es" "st = StateConfirming \<or> st = StateConfirmed"
  shows "row_ok e es (moved now st code r)"
  using assms core_for(3)[of "moved now st code r" r] by (auto simp: row_ok_def validState_def)

lemma triple_confirm:
  assumes "st = StateConfirming \<and> expected = [StateApplied] \<or> st = StateConfirmed \<and> set expected \<subseteq> set unfinished_states"
  shows "triple e own (acc n) (Transition n expected st code) (\<lambda>_. acc n)"
proof (rule triple_transition)
  fix w r now
  assume a: "acc n w" "net_inv e w" "row w n = Some r" "at_state r \<in> set expected"
  have "accepted_for r (na_log w)" using a(1,3) by (auto simp: acc_def)
  moreover have "st = StateConfirming \<Longrightarrow> live r" using assms a(4) by (auto simp: live_def)
  ultimately show "row_ok e (na_log w) (moved now st code r) \<and> files_ok e w (moved now st code r)
      \<and> (n \<in> own \<or> (st \<in> {StateArmed, StateApplied, StateConfirming} \<longrightarrow> live r))"
    using assms net_inv_row[OF a(2,3)] row_ok_accepted[of e "na_log w" r st] files_ok_core[of "moved now st code r" r e w] by auto
qed (use assms in \<open>auto simp: unfinished_states_def intro: lasting_stable lasting_step[OF lasting_acc]\<close>)

lemma triple_applied:
  "triple e own (\<lambda>w. has tx w \<and> applied_for tx (na_log w)) (Transition (at_id tx) [StateArmed] StateApplied [])
     (\<lambda>_ w. has tx w \<and> applied_for tx (na_log w))"
proof (rule triple_transition)
  have l: "lasting (\<lambda>w. has tx w \<and> applied_for tx (na_log w))" by simp
  show "stable own (\<lambda>w. has tx w \<and> applied_for tx (na_log w))" by (rule lasting_stable[OF l])
  show "has tx w' \<and> applied_for tx (na_log w')"
    if "has tx w \<and> applied_for tx (na_log w)" "step_ok e own w w'" for w w'
    using lasting_step[OF l that(1,2)] .
  fix w r now
  assume a: "has tx w \<and> applied_for tx (na_log w)" "net_inv e w" "row w (at_id tx) = Some r" "at_state r \<in> set [StateArmed]"
  have r: "core r = core tx" "live r" using a by (auto simp: has_def live_def)
  let ?r = "moved now StateApplied [] r"
  have "applied_for ?r (na_log w)" "prepared_for ?r (na_log w)"
    using a net_inv_row[OF a(2,3)] core_for(1)[of ?r r] core_for(2)[of ?r tx] r by (auto simp: row_ok_def)
  then show "row_ok e (na_log w) ?r \<and> files_ok e w ?r \<and> (at_id tx \<in> own \<or> (StateApplied \<in> {StateArmed, StateApplied, StateConfirming} \<longrightarrow> live r))"
    using net_inv_row[OF a(2,3)] r files_ok_core[of ?r r e w] by (auto simp: row_ok_def validState_def)
qed (simp add: unfinished_states_def)

section \<open>Applying, confirming and recovering\<close>

abbreviation harmless :: "net_engine \<Rightarrow> string set \<Rightarrow> 'a prog \<Rightarrow> bool" where
  "harmless e own p \<equiv> triple e own (\<lambda>_. True) p (\<lambda>_ _. True)"

lemma harmless_ret [simp]: "harmless e own (Ret x)"
  by (rule triple_ret) simp

lemma harmless_any: "harmless e own p \<Longrightarrow> triple e own K p (\<lambda>_ _. True)"
  by (rule triple_conseq) auto

lemma harmless_then [intro]: "harmless e own p \<Longrightarrow> (\<And>x. harmless e own (f x)) \<Longrightarrow> harmless e own (and_then p f)"
  by (rule triple_then)

lemma harmless_on_error [intro]: "harmless e own p \<Longrightarrow> (\<And>er. harmless e own (f er)) \<Longrightarrow> harmless e own k \<Longrightarrow> harmless e own (on_error p f k)"
  by (rule triple_on_error)

lemma harmless_map [intro]: "harmless e own p \<Longrightarrow> harmless e own (map_prog f p)"
  by (rule triple_map)

lemma harmless_phase [simp]: "ph \<notin> {PhaseConfirming, PhaseConfirmed} \<Longrightarrow> harmless e own (SetPhase e n ph)"
  by (rule triple_phase_simple)

lemma harmless_finish [simp]:
  "set expected \<subseteq> set unfinished_states \<Longrightarrow> harmless e own (Transition n expected StateFailed code)"
  "set expected \<subseteq> set unfinished_states \<Longrightarrow> harmless e own (Transition n expected StateRolledBack code)"
  by (simp_all add: triple_finish)

lemma harmless_rollback [simp]: "harmless e own (rollback e n m dir code)"
  unfolding rollback_def by (intro harmless_on_error harmless_then) simp_all

lemma harmless_fail [simp]: "harmless e own (failBeforeArm e n code)"
  unfolding failBeforeArm_def by (intro harmless_then) (simp_all add: unfinished_states_def)

lemma harmless_confirm_failure [simp]: "harmless e own (rollbackConfirmFailure e tx m code)"
proof -
  have "harmless e own (Transition n [StateConfirming] st code)" if "st = StateFailed \<or> st = StateRolledBack" for n st code
    using that by (auto simp: unfinished_states_def)
  then show ?thesis unfolding rollbackConfirmFailure_def
    by (auto split: sum.splits intro!: harmless_on_error harmless_then)
qed

lemma triple_backend_apply:
  assumes m: "manifestMatchesTransaction m tx dir"
  shows "triple e own (\<lambda>w. prepared_for tx (na_log w)) (do_call (BkApply m dir)) (\<lambda>err w. err = None \<longrightarrow> applied_for tx (na_log w))"
proof (rule triple_do_call)
  fix w1 r w2 and ch :: choice
  assume k: "prepared_for tx (na_log w1)" "net_inv e w1" "react ch (BkApply m dir) w1 = (r, w2)"
  have l: "log_ok (eng_lib e) (na_log w1)" using k(2) by (simp add: net_inv_def)
  then have "step_ok e own w1 w2"
    by (intro log_call[OF k(2,3), of "[Applying m dir]" "[Applied m dir, Applying m dir]"])
      (use k(1) m in \<open>auto simp: log_event_def\<close>)
  moreover have "applied_for tx (na_log w2)" if "failure r = None"
    using react_cases(2)[OF k(3) that] m by (auto simp: applied_for_def log_event_def manifestMatchesTransaction_def manifestCoreMatchesTransaction_def)
  ultimately show "step_ok e own w1 w2 \<and> (failure r = None \<longrightarrow> applied_for tx (na_log w2))" by blast
qed (simp add: lasting_stable)

lemma triple_backend_commit:
  assumes m: "manifestCoreMatchesTransaction m tx dir" and K: "lasting K" "\<And>w. K w \<Longrightarrow> accepted_for tx (na_log w)"
  shows "triple e own K (do_call (BkCommit m dir)) (\<lambda>_. K)"
proof (rule triple_do_call[OF lasting_stable[OF K(1)]])
  fix w1 r w2 and ch :: choice
  assume k: "K w1" "net_inv e w1" "react ch (BkCommit m dir) w1 = (r, w2)"
  have l: "log_ok (eng_lib e) (na_log w1)" using k(2) by (simp add: net_inv_def)
  then have s: "step_ok e own w1 w2"
    by (intro log_call[OF k(2,3), of "[Committing m dir]" "[Committed m dir, Committing m dir]"])
      (use K(2)[OF k(1)] m in \<open>auto simp: log_event_def\<close>)
  then show "step_ok e own w1 w2 \<and> K w2" using lasting_step[OF K(1) k(1)] by blast
qed

lemma triple_accept:
  assumes "before_deadline (at_deadline tx) now" "token_matches (eng_lib e) tx (ce_token ev)" "source_ok (eng_lib e) tx m ev"
    "manifestMatchesTransaction m tx (at_dir tx)"
    and k: "triple e own (\<lambda>w. has tx w \<and> accepted_for tx (na_log w)) k Q"
  shows "triple e own (\<lambda>w. has tx w \<and> prepared_for tx (na_log w) \<and> applied_for tx (na_log w)) (Call (Accept tx m ev now) (\<lambda>_. k)) Q"
proof (rule triple_call)
  fix w1 r w2 and ch :: choice
  assume a: "has tx w1 \<and> prepared_for tx (na_log w1) \<and> applied_for tx (na_log w1)" "net_inv e w1" "react ch (Accept tx m ev now) w1 = (r, w2)"
  have w2: "w2 = w1\<lparr>na_log := [Accepted tx m ev now] @ na_log w1\<rparr>" using a(3) by (auto simp: react_def log_event_def)
  have "log_ok (eng_lib e) ([Accepted tx m ev now] @ na_log w1)" using assms a by (auto simp: net_inv_def)
  from log_step[OF a(2) this w2] have s: "step_ok e own w1 w2" .
  moreover have "has tx w2" using lasting_step[OF lasting_has _ s] a(1) by blast
  moreover have "accepted_for tx (na_log w2)" by (auto simp: accepted_for_def w2)
  ultimately show "step_ok e own w1 w2 \<and> has tx w2 \<and> accepted_for tx (na_log w2)" by blast
qed (use k in \<open>auto simp: lasting_stable\<close>)

text \<open>Error branches that only roll back need no assumption.\<close>

lemma triple_try:
  assumes "triple e own K p R" "\<And>er. harmless e own (f er)" "triple e own J k (\<lambda>_ _. True)" "\<And>w. R None w \<Longrightarrow> J w"
  shows "triple e own K (on_error p f k) (\<lambda>_ _. True)"
  by (rule triple_on_error[OF assms(1) harmless_any[OF assms(2)]]) (rule triple_conseq[OF assms(3)], auto intro: assms(4))

lemma harmless_after:
  assumes "triple e own (\<lambda>_. True) p R" "\<And>x. triple e own (J x) (f x) (\<lambda>_ _. True)" "\<And>x w. R x w \<Longrightarrow> J x w"
  shows "harmless e own (and_then p f)"
  by (rule triple_then[OF assms(1)]) (rule triple_conseq[OF assms(2)], auto intro: assms(3))

lemma harmless_apply_armed:
  assumes m: "manifestMatchesTransaction m tx dir"
  shows "triple e own (\<lambda>w. has tx w \<and> prepared_for tx (na_log w)) (apply_armed e tx m dir) (\<lambda>_ _. True)"
  unfolding apply_armed_def
proof (rule triple_try)
  let ?K = "\<lambda>w. has tx w \<and> applied_for tx (na_log w)"
  show "triple e own (\<lambda>w. has tx w \<and> prepared_for tx (na_log w)) (do_call (BkApply m dir))
      (\<lambda>err w. (err = None \<longrightarrow> applied_for tx (na_log w)) \<and> has tx w)"
    by (rule triple_conseq[OF triple_frame[OF triple_backend_apply[OF m] lasting_has]]) auto
  have ph: "triple e own ?K (SetPhase e (at_id tx) PhaseApplied) (\<lambda>_. ?K)"
    by (rule triple_last) simp_all
  have tr: "triple e own ?K (on_error (Transition (at_id tx) [StateArmed] StateApplied []) f (Ret None)) (\<lambda>_ _. True)"
    if "\<And>er. harmless e own (f er)" for f :: "go_error \<Rightarrow> go_error option prog"
    by (rule triple_try[OF triple_applied that, of "\<lambda>_. True"]) simp_all
  show "triple e own ?K (on_error (SetPhase e (at_id tx) PhaseApplied)
      (\<lambda>_. map_prog Some (rollback e (at_id tx) m dir ''APPLIED_STATUS_FAILED''))
      (on_error (Transition (at_id tx) [StateArmed] StateApplied [])
         (\<lambda>_. map_prog Some (rollback e (at_id tx) m dir ''APPLIED_DB_FAILED'')) (Ret None))) (\<lambda>_ _. True)"
    by (rule triple_try[OF ph _ tr]) auto
qed auto

lemma harmless_apply [simp]: "harmless e own (Apply e n)"
proof -
  let ?J = "\<lambda>tx w. has tx w \<and> prepared_for tx (na_log w)"
  have at: "triple e own (?J tx) (apply_at e tx m dir r) (\<lambda>_ _. True)" if "manifestMatchesTransaction m tx dir" for tx m dir r
    unfolding apply_at_def using harmless_apply_armed[OF that]
    by (cases r) (auto intro: harmless_any[OF harmless_ret] harmless_any[OF harmless_map[OF harmless_rollback]])
  have clock: "triple e own (?J tx) (Call Clock (apply_at e tx m dir)) (\<lambda>_ _. True)" if "manifestMatchesTransaction m tx dir" for tx m dir
    by (rule triple_read[where R = "\<lambda>_. ?J tx"]) (use at[OF that] in \<open>simp_all add: lasting_stable\<close>)
  have loaded: "triple e own (?J tx) (apply_loaded e tx l) (\<lambda>_ _. True)" for tx l
    unfolding apply_loaded_def
    by (cases l; cases "Directory e (at_id tx)") (auto intro: harmless_any[OF harmless_ret] clock)
  have files: "triple e own (?J tx) (and_then (LoadFiles e (at_id tx)) (apply_loaded e tx)) (\<lambda>_ _. True)" for tx
  proof (rule triple_then[OF triple_load[of "?J tx"]])
    show "triple e own (\<lambda>w. ?J tx w \<and> (case l of Inl _ \<Rightarrow> True | Inr l \<Rightarrow> loaded_ok e (at_id tx) l w)) (apply_loaded e tx l) (\<lambda>_ _. True)" for l
      by (rule triple_conseq[OF loaded]) auto
  qed simp
  have row: "triple e own (\<lambda>w. case got of Inl _ \<Rightarrow> True | Inr tx \<Rightarrow> has tx w \<and> row_ok e (na_log w) tx) (apply_row e got) (\<lambda>_ _. True)" for got
  proof (cases got)
    case (Inr tx)
    show ?thesis
    proof (cases "at_state tx = StateArmed")
      case True
      show ?thesis unfolding apply_row_def Inr sum.case using True by (simp, intro triple_conseq[OF files]) (auto simp: row_ok_def)
    qed (auto simp: apply_row_def Inr intro: harmless_any[OF harmless_ret])
  qed (auto simp: apply_row_def intro: harmless_any[OF harmless_ret])
  have "harmless e own (and_then (GetRow n) (apply_row e))"
    by (rule harmless_after[OF triple_get[of "\<lambda>_. True"] row]) (auto split: sum.splits)
  then show ?thesis by (auto simp: Apply_def split: option.splits)
qed

text \<open>With an accepted confirmation every step towards the confirmed state is allowed.\<close>

definition granted :: "apply_transaction \<Rightarrow> net_world \<Rightarrow> bool" where
  "granted tx w \<longleftrightarrow> acc (at_id tx) w \<and> accepted_for tx (na_log w)"

lemma lasting_granted [simp]: "lasting (granted tx)"
  unfolding granted_def by simp

lemma triple_granted:
  shows "triple e own (granted tx) (SetPhase e (at_id tx) ph) (\<lambda>_. granted tx)"
    and "st = StateConfirming \<and> expected = [StateApplied] \<or> st = StateConfirmed \<and> set expected \<subseteq> set unfinished_states
      \<Longrightarrow> triple e own (granted tx) (Transition (at_id tx) expected st code) (\<lambda>_. granted tx)"
    and "triple e own (granted tx) (DisarmTimer n) (\<lambda>_. granted tx)"
    and "manifestCoreMatchesTransaction m tx dir \<Longrightarrow> triple e own (granted tx) (do_call (BkCommit m dir)) (\<lambda>_. granted tx)"
proof -
  have l: "lasting (\<lambda>w. accepted_for tx (na_log w))" by simp
  show "triple e own (granted tx) (SetPhase e (at_id tx) ph) (\<lambda>_. granted tx)"
    by (rule triple_conseq[OF triple_frame[OF triple_phase[of ph "acc (at_id tx)" "at_id tx"] l]]) (auto simp: granted_def)
  show "triple e own (granted tx) (Transition (at_id tx) expected st code) (\<lambda>_. granted tx)"
    if "st = StateConfirming \<and> expected = [StateApplied] \<or> st = StateConfirmed \<and> set expected \<subseteq> set unfinished_states"
    by (rule triple_conseq[OF triple_frame[OF triple_confirm[OF that] l]]) (auto simp: granted_def)
  show "triple e own (granted tx) (DisarmTimer n) (\<lambda>_. granted tx)" by (rule triple_last) simp_all
  show "triple e own (granted tx) (do_call (BkCommit m dir)) (\<lambda>_. granted tx)" if "manifestCoreMatchesTransaction m tx dir"
    by (rule triple_backend_commit[OF that]) (auto simp: granted_def)
qed

lemma harmless_confirm_accepted:
  assumes m: "manifestMatchesTransaction m tx dir"
  shows "triple e own (granted tx) (confirm_accepted e tx m dir) (\<lambda>_ _. True)"
proof -
  have core: "manifestCoreMatchesTransaction m tx dir" using m by (simp add: manifestMatchesTransaction_def)
  have "triple e own (granted tx) (on_error (Transition (at_id tx) [StateConfirming] StateConfirmed []) f (Ret None)) (\<lambda>_ _. True)"
    if "\<And>er. harmless e own (f er)" for f :: "go_error \<Rightarrow> go_error option prog"
    by (rule triple_try[OF triple_granted(2) that, where J = "\<lambda>_. True"]) (auto simp: unfinished_states_def)
  note rest1 = triple_try[OF triple_granted(1) _ this]
  note rest2 = triple_try[OF triple_granted(4)[OF core] _ rest1]
  note rest3 = triple_try[OF triple_granted(3) _ rest2]
  note rest4 = triple_try[OF triple_granted(2) _ rest3]
  show ?thesis unfolding confirm_accepted_def Let_def
    by (rule triple_try[OF triple_granted(1) _ rest4]) auto
qed

lemma harmless_confirm [simp]: "harmless e own (Confirm e n ev)"
proof -
  let ?J = "\<lambda>tx w. has tx w \<and> prepared_for tx (na_log w) \<and> applied_for tx (na_log w)"
  note ret = harmless_any[OF harmless_ret]
  have accept: "triple e own (?J tx) (Call (Accept tx m ev now) (\<lambda>_. confirm_accepted e tx m dir)) (\<lambda>_ _. True)"
    if "before_deadline (at_deadline tx) now" "token_matches (eng_lib e) tx (ce_token ev)" "source_ok (eng_lib e) tx m ev"
      "manifestMatchesTransaction m tx dir" for tx m now dir
  proof -
    have "dir = at_dir tx" using that(4) by (simp add: manifestMatchesTransaction_def manifestCoreMatchesTransaction_def)
    then show ?thesis
      by (intro triple_accept that(1-3) triple_conseq[OF harmless_confirm_accepted[OF that(4)]])
        (use that(4) has_acc in \<open>auto simp: granted_def\<close>)
  qed
  have loaded: "triple e own (?J tx) (confirm_loaded e tx ev now l) (\<lambda>_ _. True)"
    if "before_deadline (at_deadline tx) now" "token_matches (eng_lib e) tx (ce_token ev)" for tx now l
    unfolding confirm_loaded_def
    by (cases l; cases "Directory e (at_id tx)") (auto intro: ret accept[OF that])
  have files: "triple e own (?J tx) (and_then (LoadFiles e (at_id tx)) (confirm_loaded e tx ev now)) (\<lambda>_ _. True)"
    if "before_deadline (at_deadline tx) now" "token_matches (eng_lib e) tx (ce_token ev)" for tx now
  proof (rule triple_then[OF triple_load[of "?J tx"]])
    show "triple e own (\<lambda>w. ?J tx w \<and> (case l of Inl _ \<Rightarrow> True | Inr l \<Rightarrow> loaded_ok e (at_id tx) l w)) (confirm_loaded e tx ev now l) (\<lambda>_ _. True)" for l
      by (rule triple_conseq[OF loaded[OF that]]) auto
  qed simp
  have at: "triple e own (?J tx) (confirm_at e tx ev r) (\<lambda>_ _. True)" for tx r
    unfolding confirm_at_def by (cases r) (auto intro: ret files)
  have clock: "triple e own (?J tx) (Call Clock (confirm_at e tx ev)) (\<lambda>_ _. True)" for tx
    by (rule triple_read[where R = "\<lambda>_. ?J tx"]) (use at in \<open>simp_all add: lasting_stable\<close>)
  have row: "triple e own (\<lambda>w. case got of Inl _ \<Rightarrow> True | Inr tx \<Rightarrow> has tx w \<and> row_ok e (na_log w) tx) (confirm_row e ev got) (\<lambda>_ _. True)" for got
  proof (cases got)
    case (Inr tx)
    show ?thesis
    proof (cases "at_state tx = StateApplied")
      case True
      show ?thesis unfolding confirm_row_def Inr sum.case using True by (simp, intro triple_conseq[OF clock]) (auto simp: row_ok_def)
    qed (auto simp: confirm_row_def Inr intro: ret)
  qed (auto simp: confirm_row_def intro: ret)
  have "harmless e own (and_then (GetRow n) (confirm_row e ev))"
    by (rule harmless_after[OF triple_get[of "\<lambda>_. True"] row]) (auto split: sum.splits)
  then show ?thesis by (auto simp: Confirm_def split: option.splits)
qed

text \<open>Recovery works on the rows it has listed.\<close>

lemma triple_list:
  "triple e own (\<lambda>_. True) ListUnfinished (\<lambda>l w. case l of Inl _ \<Rightarrow> True
     | Inr items \<Rightarrow> \<forall>item\<in>set items. has item w \<and> at_state item \<in> set unfinished_states)"
  unfolding ListUnfinished_def
proof (rule triple_read[where R = "\<lambda>r w. case r of Rows items \<Rightarrow> \<forall>item\<in>set items. has item w \<and> at_state item \<in> set unfinished_states | _ \<Rightarrow> True"])
  fix w ch r
  assume k: "net_inv e w" "react ch DbUnfinished w = (r, w)"
  show "case r of Rows items \<Rightarrow> \<forall>item\<in>set items. has item w \<and> at_state item \<in> set unfinished_states | _ \<Rightarrow> True"
  proof (cases r)
    case (Rows items)
    then have "items = unfinished_rows (na_rows w)"
      using react_cases(2)[OF k(2)] by (auto simp: failure_def)
    moreover have "row w (at_id r) = Some r" if "r \<in> set (na_rows w)" for r
      using find_row_mem[OF _ that] k(1) by (simp add: net_inv_def row_def)
    ultimately show ?thesis using Rows by (auto simp: unfinished_rows_def is_unfinished_def has_def)
  qed auto
qed (auto intro: triple_ret lasting_stable split: resp.splits)

lemma triple_recover_item:
  assumes un: "at_state item \<in> set unfinished_states"
  shows "triple e own (has item) (recover_item e item outer) (\<lambda>_ _. True)"
proof -
  note ret = harmless_any[OF harmless_ret]
  have confirming: "triple e own (granted item) (recover_confirming e item m dir outer) (\<lambda>_ _. True)"
    if m: "manifestCoreMatchesTransaction m item dir" for m dir
  proof -
    have commit: "triple e own (granted item) (on_error (DisarmTimer (at_id item)) (\<lambda>er. Ret (Some er)) (do_call (BkCommit m dir))) (\<lambda>_. granted item)"
      by (rule triple_on_error[OF triple_granted(3) _ triple_granted(4)[OF m]]) (simp add: triple_ret)
    have tr: "triple e own (granted item) (if err = None then Transition (at_id item) [at_state item] StateConfirmed [] else Ret err) (\<lambda>_. granted item)" for err
      using un by (auto intro: triple_granted(2) triple_ret)
    have ph: "triple e own (granted item) (if outer = None then SetPhase e (at_id item) PhaseConfirmed else Ret outer) (\<lambda>_. granted item)"
      by (auto intro: triple_granted(1) triple_ret)
    show ?thesis unfolding recover_confirming_def
      by (rule triple_then[OF commit], rule triple_then[OF ph], rule triple_then[OF tr], rule ret)
  qed
  have finish: "triple e own (granted item) (finish_item StateConfirmed [] item) (\<lambda>_ _. True)"
    unfolding finish_item_def by (rule triple_try[OF triple_granted(2), where J = "\<lambda>_. True"]) (use un in auto)
  have harmless: "harmless e own (finish_item StateRolledBack code item)" "harmless e own (recover_default e item m dir)" for code m dir
    unfolding finish_item_def recover_default_def using un by (auto intro!: harmless_on_error harmless_then)
  have loaded: "triple e own (\<lambda>w. has item w \<and> (phase = PhaseConfirming \<or> phase = PhaseConfirmed \<longrightarrow> granted item w))
      (recover_loaded e item m phase dir outer) (\<lambda>_ _. True)" if m: "manifestCoreMatchesTransaction m item dir" for m phase dir
  proof -
    consider "phase = PhaseConfirmed" | "phase = PhaseConfirming" | "phase = PhaseRolledBack"
      | "phase \<notin> {PhaseConfirmed, PhaseConfirming, PhaseRolledBack}" by blast
    then show ?thesis
    proof cases
      case 1
      then show ?thesis unfolding recover_loaded_def by (simp, intro triple_map) (rule triple_conseq[OF finish], auto)
    next
      case 2
      then show ?thesis unfolding recover_loaded_def by simp (rule triple_conseq[OF confirming[OF m]], auto)
    next
      case 3
      then show ?thesis unfolding recover_loaded_def by simp (intro triple_map harmless_any[OF harmless(1)])
    next
      case 4
      then show ?thesis unfolding recover_loaded_def by simp (intro triple_map harmless_any[OF harmless(2)])
    qed
  qed
  have granted: "granted item w" if "has item w" "acc (at_id item) w" for w
  proof -
    from that obtain r where r: "row w (at_id item) = Some r" "core r = core item" "accepted_for r (na_log w)"
      by (auto simp: has_def acc_def)
    from core_for(3)[OF r(2)] r(3) that(2) show ?thesis by (simp add: granted_def)
  qed
  have "triple e own (\<lambda>w. has item w \<and> (case l of Inl _ \<Rightarrow> True | Inr l \<Rightarrow> loaded_ok e (at_id item) l w)) (recover_files e item outer l) (\<lambda>_ _. True)" for l
  proof (cases l)
    case (Inr mp)
    obtain m phase where mp: "mp = (m, phase)" by force
    show ?thesis
    proof (cases "Directory e (at_id item)")
      case d: (Inr dir)
      show ?thesis
      proof (cases "manifestCoreMatchesTransaction m item dir")
        case True
        have "triple e own (\<lambda>w. has item w \<and> loaded_ok e (at_id item) (m, phase) w) (recover_loaded e item m phase dir outer) (\<lambda>_ _. True)"
          by (rule triple_conseq[OF loaded[OF True]]) (auto dest: granted simp: loaded_ok_def)
        then show ?thesis unfolding recover_files_def Inr mp by (simp add: d ret)
      qed (auto simp: recover_files_def Inr mp d manifestMatchesTransaction_def intro: ret)
    qed (auto simp: recover_files_def Inr mp intro: ret)
  qed (auto simp: recover_files_def intro: ret)
  then show ?thesis unfolding recover_item_def by (rule triple_then[OF triple_load[OF lasting_has]])
qed

lemma lasting_all_has: "lasting (\<lambda>w. \<forall>item\<in>A. has item w)"
  using lasting_has unfolding lasting_def by blast

lemma triple_recover_items:
  assumes "\<forall>item\<in>set items. at_state item \<in> set unfinished_states"
  shows "triple e own (\<lambda>w. \<forall>item\<in>set items. has item w) (recover_items e outer failures items) (\<lambda>_ _. True)"
  using assms
proof (induction items arbitrary: outer failures)
  case (Cons item items)
  have "triple e own (\<lambda>w. has item w \<and> (\<forall>item\<in>set items. has item w)) (recover_item e item outer) (\<lambda>x w. True \<and> (\<forall>item\<in>set items. has item w))"
    by (rule triple_frame[OF triple_recover_item lasting_all_has]) (use Cons.prems in auto)
  moreover have "triple e own (\<lambda>w. True \<and> (\<forall>item\<in>set items. has item w)) (case x of (outer, errs) \<Rightarrow> recover_items e outer (failures @ errs) items)
      (\<lambda>_ _. True)" for x
    using Cons by (auto split: prod.splits)
  ultimately have "triple e own (\<lambda>w. has item w \<and> (\<forall>item\<in>set items. has item w)) (recover_items e outer failures (item # items)) (\<lambda>_ _. True)"
    unfolding recover_items.simps by (rule triple_then)
  then show ?case by (rule triple_conseq) auto
qed (simp add: triple_ret)

lemma harmless_recover [simp]: "harmless e own (Recover e)"
proof -
  have "triple e own (\<lambda>w. case l of Inl _ \<Rightarrow> True | Inr items \<Rightarrow> \<forall>item\<in>set items. has item w \<and> at_state item \<in> set unfinished_states)
      (case l of Inl er \<Rightarrow> Ret (Some er)
       | Inr items \<Rightarrow> and_then (recover_items e None [] items) (\<lambda>failures. Ret (if failures = [] then None else Some (ErrJoin failures)))) (\<lambda>_ _. True)" for l
  proof (cases l)
    case (Inr items)
    show ?thesis
    proof (cases "\<forall>item\<in>set items. at_state item \<in> set unfinished_states")
      case True
      have "triple e own (\<lambda>w. \<forall>item\<in>set items. has item w) (and_then (recover_items e None [] items)
          (\<lambda>failures. Ret (if failures = [] then None else Some (ErrJoin failures)))) (\<lambda>_ _. True)"
        by (rule triple_then[OF triple_recover_items[OF True]]) simp
      then show ?thesis unfolding Inr sum.case by (rule triple_conseq) auto
    next
      case False
      then show ?thesis unfolding Inr sum.case triple_def by auto
    qed
  qed (simp add: triple_ret)
  then have "harmless e own (and_then ListUnfinished (\<lambda>listed. case listed of Inl er \<Rightarrow> Ret (Some er)
     | Inr items \<Rightarrow> and_then (recover_items e None [] items) (\<lambda>failures. Ret (if failures = [] then None else Some (ErrJoin failures)))))"
    by (rule triple_then[OF triple_list])
  then show ?thesis by (auto simp: Recover_def split: option.splits)
qed

lemma harmless_load [simp]: "harmless e own (LoadFiles e n)"
  by (rule triple_conseq[OF triple_load[of "\<lambda>_. True"]]) auto

lemma harmless_get [simp]: "harmless e own (GetRow n)"
  by (rule triple_conseq[OF triple_get[of "\<lambda>_. True"]]) auto

lemma harmless_timer [simp]: "harmless e own (network_rollback e opened n)"
proof -
  have "harmless e own (rollback_files e n l)" for l
    unfolding rollback_files_def by (auto split: sum.splits intro!: harmless_on_error harmless_then)
  then have "harmless e own (RollbackFromDisk e n)" unfolding RollbackFromDisk_def by (intro harmless_then) auto
  moreover have "harmless e own (finish_rollback got)" for got
    unfolding finish_rollback_def by (auto split: sum.splits intro!: harmless_on_error)
  then have "harmless e own (after_rollback opened n changed)" for changed
    unfolding after_rollback_def by (auto split: sum.splits intro!: harmless_then)
  ultimately show ?thesis unfolding network_rollback_def by (auto split: sum.splits intro!: harmless_then)
qed

section \<open>Staging\<close>

text \<open>What the creator of a transaction knows stays true until it changes it itself.\<close>

definition solid :: "net_engine \<Rightarrow> string set \<Rightarrow> (net_world \<Rightarrow> bool) \<Rightarrow> bool" where
  "solid e own K \<longleftrightarrow> stable own K \<and> (\<forall>w w'. K w \<longrightarrow> step_ok e {} w w' \<longrightarrow> K w')"

lemma step_ok_weaken: "step_ok e {} w w' \<Longrightarrow> step_ok e own w w'"
  by (auto simp: step_ok_def apply_world.guar_def)

lemma triple_solid_call:
  assumes "solid e own K"
    and "\<And>w1 ch r w2. net_inv e w1 \<Longrightarrow> good_time (ch_time ch) \<Longrightarrow> react ch c w1 = (r, w2) \<Longrightarrow> step_ok e {} w1 w2 \<and> Q (failure r) w2"
  shows "triple e own K (do_call c) (\<lambda>err w. K w \<and> Q err w)"
  by (rule triple_do_call) (use assms step_ok_weaken in \<open>auto simp: solid_def\<close>)

definition mine :: "apply_transaction \<Rightarrow> net_world \<Rightarrow> bool" where
  "mine tx w \<longleftrightarrow> (\<exists>r. row w (at_id tx) = Some r \<and> core r = core tx \<and> \<not> live r)"

definition staged :: "apply_transaction \<Rightarrow> manifest \<Rightarrow> net_world \<Rightarrow> bool" where
  "staged tx m w \<longleftrightarrow> mine tx w \<and> manifest_file w (at_id tx) = Some m"

definition dated :: "apply_transaction \<Rightarrow> manifest \<Rightarrow> net_world \<Rightarrow> bool" where
  "dated tx m w \<longleftrightarrow> staged tx m w \<and> map_option at_deadline (row w (at_id tx)) = Some (mf_deadline m)"

lemma mine_kept: "mine tx w \<Longrightarrow> net_future w w' \<Longrightarrow> net_kept (at_id tx) w w' \<Longrightarrow> mine tx w'"
  unfolding mine_def net_kept_def live_in_def by (erule exE, elim conjE net_future_row) auto

lemma owned_kept:
  assumes "net_future w w'" "net_kept (at_id tx) w w'"
  shows "staged tx m w \<Longrightarrow> staged tx m w'" "dated tx m w \<Longrightarrow> dated tx m w'"
  using assms mine_kept[OF _ assms] by (auto simp: staged_def dated_def net_kept_def)

lemma solidI:
  assumes "n \<in> own" "\<And>w w'. K w \<Longrightarrow> net_future w w' \<Longrightarrow> net_kept n w w' \<Longrightarrow> K w'" "\<And>w. K w \<Longrightarrow> row w n \<noteq> None"
  shows "solid e own K"
  unfolding solid_def stable_def
proof (intro conjI allI impI)
  fix w w'
  assume k: "K w"
  show "K w'" if "net_rely own w w'" using that assms(1) assms(2)[OF k] by (auto simp: apply_world.rely_def)
  show "K w'" if "step_ok e {} w w'"
    using that assms(2)[OF k] assms(3)[OF k] by (auto simp: step_ok_def apply_world.guar_def net_known_def)
qed

lemma solid_lasting: "lasting K \<Longrightarrow> solid e own K"
  unfolding solid_def using lasting_stable lasting_step by blast

lemma solid_conj: "solid e own K \<Longrightarrow> solid e own J \<Longrightarrow> solid e own (\<lambda>w. K w \<and> J w)"
  unfolding solid_def stable_def by blast

lemma solid_owned:
  assumes "at_id tx \<in> own"
  shows "solid e own (mine tx)" "solid e own (staged tx m)" "solid e own (dated tx m)"
proof -
  show "solid e own (mine tx)" by (rule solidI[OF assms mine_kept]) (auto simp: mine_def)
  show "solid e own (staged tx m)" by (rule solidI[OF assms owned_kept(1)]) (auto simp: staged_def mine_def)
  show "solid e own (dated tx m)" by (rule solidI[OF assms owned_kept(2)]) (auto simp: dated_def staged_def mine_def)
qed

lemma solid_load: "solid e own K \<Longrightarrow> triple e own K (LoadFiles e n) (\<lambda>_. K)"
proof -
  assume s: "solid e own K"
  then have st: "stable own K" by (simp add: solid_def)
  have "triple e own K (LoadStatus m n) (\<lambda>_. K)" for m
    unfolding LoadStatus_def by (rule triple_read[OF _ st, where R = "\<lambda>_. K"]) (auto intro: triple_ret)
  then show ?thesis unfolding LoadFiles_def
    by (auto intro: triple_ret intro!: triple_read[OF _ st, where R = "\<lambda>_. K"] split: sum.splits resp.splits)
qed

lemma solid_phase:
  assumes "solid e own K" "ph \<notin> {PhaseConfirming, PhaseConfirmed}"
  shows "triple e own K (SetPhase e n ph) (\<lambda>err w. K w \<and> (err = None \<longrightarrow> status_file w n \<noteq> None))"
proof -
  have "triple e own K (do_call (FsWriteStatus n ph)) (\<lambda>err w. K w \<and> (err = None \<longrightarrow> status_file w n \<noteq> None))" if v: "validPhase ph"
  proof (rule triple_solid_call[OF assms(1)])
    fix w1 r w2 and ch :: choice
    assume k: "net_inv e w1" "good_time (ch_time ch)" "react ch (FsWriteStatus n ph) w1 = (r, w2)"
    have "status_ok w1 n (ph, format_time (ch_time ch))"
      using v assms(2) k(2) parse_format_time[of "ch_time ch"] by (auto simp: status_ok_def good_time_def)
    from status_call[OF k(1,3) this] show "step_ok e {} w1 w2 \<and> (failure r = None \<longrightarrow> status_file w2 n \<noteq> None)" .
  qed
  then show ?thesis unfolding SetPhase_def by (auto intro: triple_ret split: sum.splits)
qed

lemma solid_event:
  assumes "solid e own K"
  shows "triple e own K (do_call (BkSnapshot m dir)) (\<lambda>err w. K w \<and> (err = None \<longrightarrow> Snapshotted m dir \<in> set (na_log w)))"
    "triple e own K (ArmTimer n d) (\<lambda>err w. K w \<and> (err = None \<longrightarrow> Armed n d \<in> set (na_log w)))"
proof -
  have call: "triple e own K (do_call c) (\<lambda>err w. K w \<and> (err = None \<longrightarrow> ev \<in> set (na_log w)))"
    if c: "c = BkSnapshot m dir \<and> ev = Snapshotted m dir \<or> c = TmArm n d \<and> ev = Armed n d" for c ev
  proof (rule triple_solid_call[OF assms])
    fix w1 r w2 and ch :: choice
    assume k: "net_inv e w1" "react ch c w1 = (r, w2)"
    show "step_ok e {} w1 w2 \<and> (failure r = None \<longrightarrow> ev \<in> set (na_log w2))"
      using c react_cases(2)[OF k(2)] free_event_call[OF k, of m dir n d] by (auto simp: log_event_def)
  qed
  then show "triple e own K (do_call (BkSnapshot m dir)) (\<lambda>err w. K w \<and> (err = None \<longrightarrow> Snapshotted m dir \<in> set (na_log w)))" by blast
  have st: "stable own K" using assms by (simp add: solid_def)
  have arm: "triple e own K (do_call (TmArm n d)) (\<lambda>err w. K w \<and> (err = None \<longrightarrow> Armed n d \<in> set (na_log w)))" using call by blast
  show "triple e own K (ArmTimer n d) (\<lambda>err w. K w \<and> (err = None \<longrightarrow> Armed n d \<in> set (na_log w)))"
  proof (cases "safeID n")
    case True
    have "triple e own K (case r of Time now \<Rightarrow> let delay = time_sub d now
          in if delay < 55 * second \<or> delay > 65 * second then Ret (bad ''systemd rollback timer requires a 60-second deadline'')
             else do_call (TmArm n d) | _ \<Rightarrow> Ret (Some (resp_error r))) (\<lambda>err w. K w \<and> (err = None \<longrightarrow> Armed n d \<in> set (na_log w)))" for r
      using arm by (cases r) (auto simp: Let_def intro: triple_ret)
    then show ?thesis unfolding ArmTimer_def using True by (simp, intro triple_read[OF _ st, where R = "\<lambda>_. K"]) auto
  qed (auto simp: ArmTimer_def intro: triple_ret)
qed

lemma mineE:
  assumes "mine tx w"
  obtains r where "row w (at_id tx) = Some r" "core r = core tx" "\<not> live r" "at_dir r = at_dir tx"
  using assms core_fields(2) unfolding mine_def by metis

lemma mine_rows: "mine tx w \<Longrightarrow> row w' = row w \<Longrightarrow> mine tx w'"
  by (simp add: mine_def)

lemma mine_mkdir:
  assumes "at_id tx \<in> own"
  shows "triple e own (mine tx) (do_call (FsMkdir (at_id tx))) (\<lambda>_. mine tx)"
proof (rule triple_do_call)
  show "stable own (mine tx)" using solid_owned(1)[OF assms] by (simp add: solid_def)
  fix w1 r w2 and ch :: choice
  assume k: "mine tx w1" "net_inv e w1" "react ch (FsMkdir (at_id tx)) w1 = (r, w2)"
  let ?w = "w1\<lparr>na_dirs := (na_dirs w1)(at_id tx \<mapsto> \<lparr>ad_manifest = None, ad_status = None\<rparr>)\<rparr>"
  have "w2 = w1 \<or> na_dirs w1 (at_id tx) = None \<and> w2 = ?w"
    using react_cases(1)[OF k(3)] by (auto split: option.splits)
  then show "step_ok e own w1 w2 \<and> mine tx w2"
  proof
    assume "na_dirs w1 (at_id tx) = None \<and> w2 = ?w"
    then show ?thesis
      using mkdir_step[OF k(2) assms, of w2] k(1) mine_rows[OF k(1), of w2] by (auto simp: mine_def row_def)
  qed (use k in \<open>simp add: step_ok_refl\<close>)
qed

lemma mine_write:
  assumes "at_id tx \<in> own" "validateManifest (eng_lib e) m = None" "manifestCoreMatchesTransaction m tx (at_dir tx)"
  shows "triple e own (mine tx) (do_call (FsWriteManifest (at_id tx) m)) (\<lambda>err w. mine tx w \<and> (err = None \<longrightarrow> staged tx m w))"
proof (rule triple_do_call)
  show "stable own (mine tx)" using solid_owned(1)[OF assms(1)] by (simp add: solid_def)
  fix w1 r w2 and ch :: choice
  assume k: "mine tx w1" "net_inv e w1" "react ch (FsWriteManifest (at_id tx) m) w1 = (r, w2)"
  have same: "row w2 = row w1" using react_cases(1)[OF k(3)] by (auto simp: row_def split: option.splits)
  from k(1) obtain q where q: "row w1 (at_id tx) = Some q" "core q = core tx" "\<not> live q" "at_dir q = at_dir tx" by (rule mineE)
  have "step_ok e own w1 w2"
    using react_cases(1)[OF k(3)] manifest_step[OF k(2) assms(1) _ q(1,3) assms(2), of _ w2] assms(3) q core_fields(4)[OF q(2)]
    by (auto split: option.splits intro: step_ok_refl[OF k(2)])
  moreover have "manifest_file w2 (at_id tx) = Some m" if "failure r = None"
    using react_cases(2)[OF k(3) that] that by (auto simp: manifest_file_def failure_def split: option.splits)
  ultimately show "step_ok e own w1 w2 \<and> mine tx w2 \<and> (failure r = None \<longrightarrow> staged tx m w2)"
    using mine_rows[OF k(1) same] by (auto simp: staged_def)
qed

lemma mine_store_create:
  assumes "at_id tx \<in> own" "mf_id m = at_id tx" "manifestCoreMatchesTransaction m tx (at_dir tx)"
  shows "triple e own (mine tx) (StoreCreate e m) (\<lambda>_. mine tx)"
proof (cases "validateManifest (eng_lib e) m")
  case None
  have ph: "triple e own (mine tx) (SetPhase e (mf_id m) PhaseCreated) (\<lambda>_. mine tx)"
    by (rule triple_conseq[OF solid_phase[OF solid_owned(1)[OF assms(1)]]]) auto
  have wr: "triple e own (mine tx) (do_call (FsWriteManifest (mf_id m) m)) (\<lambda>_. mine tx)"
    unfolding assms(2) by (rule triple_conseq[OF mine_write[OF assms(1) None assms(3)]]) auto
  have mk: "triple e own (mine tx) (do_call (FsMkdir (mf_id m))) (\<lambda>_. mine tx)"
    unfolding assms(2) by (rule mine_mkdir[OF assms(1)])
  have "triple e own (mine tx) (on_error (SetPhase e (mf_id m) PhaseCreated) (\<lambda>er. Ret (Inl er)) (Ret (Inr (eng_root e @ ''/'' @ mf_id m)))) (\<lambda>_. mine tx)"
    by (rule triple_on_error[OF ph]) (simp_all add: triple_ret)
  then have "triple e own (mine tx) (on_error (do_call (FsWriteManifest (mf_id m) m)) (\<lambda>er. Ret (Inl er))
      (on_error (SetPhase e (mf_id m) PhaseCreated) (\<lambda>er. Ret (Inl er)) (Ret (Inr (eng_root e @ ''/'' @ mf_id m))))) (\<lambda>_. mine tx)"
    by (intro triple_on_error[OF wr]) (simp_all add: triple_ret)
  then have "triple e own (mine tx) (on_error (do_call (FsMkdir (mf_id m))) (\<lambda>er. Ret (Inl er)) (on_error (do_call (FsWriteManifest (mf_id m) m))
      (\<lambda>er. Ret (Inl er)) (on_error (SetPhase e (mf_id m) PhaseCreated) (\<lambda>er. Ret (Inl er)) (Ret (Inr (eng_root e @ ''/'' @ mf_id m)))))) (\<lambda>_. mine tx)"
    by (intro triple_on_error[OF mk]) (simp_all add: triple_ret)
  then show ?thesis unfolding StoreCreate_def None by (auto intro: triple_ret)
qed (simp add: StoreCreate_def triple_ret)

lemma mine_replace:
  assumes "at_id tx \<in> own" "mf_id m = at_id tx" "manifestCoreMatchesTransaction m tx (at_dir tx)"
  shows "triple e own (mine tx) (ReplaceManifest e m) (\<lambda>err w. mine tx w \<and> (err = None \<longrightarrow> staged tx m w))"
proof (cases "validateManifest (eng_lib e) m")
  case None
  show ?thesis unfolding ReplaceManifest_def None option.case
    by (rule triple_then[OF solid_load[OF solid_owned(1)[OF assms(1)]]])
      (auto simp: assms(2) intro: triple_ret mine_write[OF assms(1) None assms(3)] split: sum.splits)
qed (simp add: ReplaceManifest_def triple_ret)

lemma dated_deadline:
  assumes own: "at_id tx \<in> own" and m: "mf_deadline m = format_time d"
  shows "triple e own (staged tx m) (UpdateDeadline (at_id tx) d) (\<lambda>err w. staged tx m w \<and> (err = None \<longrightarrow> dated tx m w))"
proof -
  have "triple e own (staged tx m) (do_call (DbDeadline (at_id tx) (format_time d))) (\<lambda>err w. staged tx m w \<and> (err = None \<longrightarrow> dated tx m w))"
  proof (rule triple_do_call)
    show "stable own (staged tx m)" using solid_owned(2)[OF own] by (simp add: solid_def)
    fix w1 r w2 and ch :: choice
    assume k: "staged tx m w1" "net_inv e w1" "react ch (DbDeadline (at_id tx) (format_time d)) w1 = (r, w2)"
    define f where "f q = q\<lparr>at_deadline := format_time d, at_updated_at := format_time (ch_time ch)\<rparr>" for q :: apply_transaction
    let ?P = "\<lambda>q. at_state q = StatePreparing"
    let ?g = "\<lambda>q. if at_id q = at_id tx \<and> ?P q then f q else q"
    have f: "core (f q) = core q" "live (f q) = live q" "at_id (f q) = at_id q" "at_deadline (f q) = format_time d" for q
      by (simp_all add: f_def core_def live_def)
    have w2: "w2 = w1 \<or> w2 = w1\<lparr>na_rows := map ?g (na_rows w1)\<rparr>"
      using react_cases(1)[OF k(3)] by (auto simp: set_rows_def update_where_def f_def split: if_splits)
    have row2: "row (w1\<lparr>na_rows := map ?g (na_rows w1)\<rparr>) n = map_option ?g (row w1 n)" for n
      using find_row_map[of ?g n "na_rows w1"] f by (simp add: row_def)
    from k(1) obtain q where q: "row w1 (at_id tx) = Some q" "core q = core tx" "\<not> live q" "at_dir q = at_dir tx"
      unfolding staged_def by (metis mineE)
    have "step_ok e own w1 w2"
      using w2
    proof
      assume w2: "w2 = w1\<lparr>na_rows := map ?g (na_rows w1)\<rparr>"
      show ?thesis
      proof (rule rows_step[OF k(2) f(1) _ _ _ w2])
        fix p
        assume p: "row w1 (at_id tx) = Some p" "?P p"
        have "row_ok e (na_log w1) (f p)"
          using net_inv_row[OF k(2) p(1)] p(2) by (simp add: row_ok_def f_def)
        moreover have "files_ok e w1 (f p)"
          using net_inv_row[OF k(2) p(1)] p(2) core_fields[OF f(1)[of p]] f(2)[of p] by (auto simp: files_ok_def live_def)
        ultimately show "row_ok e (na_log w1) (f p) \<and> files_ok e w1 (f p)" by blast
      qed (use own in \<open>auto simp: is_unfinished_def unfinished_states_def\<close>)
    qed (simp add: step_ok_refl[OF k(2)])
    moreover have "staged tx m w2"
      using w2 k(1) row2[of "at_id tx"] q f by (auto simp: staged_def mine_def manifest_file_def)
    moreover have "dated tx m w2" if "failure r = None"
    proof -
      have ok: "(r, w2) = set_rows w1 (update_where (\<lambda>q. at_id q = at_id tx \<and> ?P q) f (na_rows w1))"
        using react_cases(2)[OF k(3) that] by (simp add: f_def[abs_def])
      then have "length (filter (\<lambda>q. at_id q = at_id tx \<and> ?P q) (na_rows w1)) = 1" "w2 = w1\<lparr>na_rows := map ?g (na_rows w1)\<rparr>"
        using that by (auto simp: set_rows_def update_where_def failure_def split: if_splits)
      moreover from this(1) obtain p where p: "p \<in> set (filter (\<lambda>q. at_id q = at_id tx \<and> ?P q) (na_rows w1))"
        using hd_in_set by fastforce
      then have p: "p \<in> set (na_rows w1)" "at_id p = at_id tx" "?P p" by auto
      moreover from p have "q = p" using q(1) find_row_mem[of "na_rows w1" p] k(2) by (simp add: net_inv_def row_def)
      ultimately show ?thesis
        using \<open>staged tx m w2\<close> row2[of "at_id tx"] q(1) f m by (simp add: dated_def)
    qed
    ultimately show "step_ok e own w1 w2 \<and> staged tx m w2 \<and> (failure r = None \<longrightarrow> dated tx m w2)" by blast
  qed
  then show ?thesis unfolding UpdateDeadline_def by (auto intro: triple_ret)
qed

text \<open>Everything that arming needs.\<close>

definition ready :: "apply_transaction \<Rightarrow> manifest \<Rightarrow> net_world \<Rightarrow> bool" where
  "ready tx m w \<longleftrightarrow> dated tx m w \<and> status_file w (at_id tx) \<noteq> None \<and> prepared_for tx (na_log w)"

lemma armed_transition:
  assumes own: "at_id tx \<in> own" and dir: "Directory e (at_id tx) = Inr (at_dir tx)"
  shows "triple e own (ready tx m) (Transition (at_id tx) [StatePreparing] StateArmed []) (\<lambda>_ _. True)"
proof -
  have st: "stable own (ready tx m)"
    unfolding stable_def ready_def
  proof (intro allI impI)
    fix w w'
    assume a: "dated tx m w \<and> status_file w (at_id tx) \<noteq> None \<and> prepared_for tx (na_log w)" "net_rely own w w'"
    have f: "net_future w w'" using a(2) by (simp add: apply_world.rely_def)
    have "stable own (dated tx m)" using solid_owned(3)[OF own] unfolding solid_def by blast
    with a have "dated tx m w'" unfolding stable_def by blast
    moreover have "status_file w' (at_id tx) \<noteq> None" using a(1) f unfolding net_future_def by blast
    ultimately show "dated tx m w' \<and> status_file w' (at_id tx) \<noteq> None \<and> prepared_for tx (na_log w')" using net_future_for(1)[OF f] a(1) by blast
  qed
  have "triple e own (ready tx m) (do_call (DbTransition (at_id tx) [StatePreparing] StateArmed [])) (\<lambda>_ _. True)"
  proof (rule triple_do_call[OF st], intro conjI TrueI)
    fix w1 r w2 and ch :: choice
    assume k: "ready tx m w1" "net_inv e w1" "react ch (DbTransition (at_id tx) [StatePreparing] StateArmed []) w1 = (r, w2)"
    show "step_ok e own w1 w2"
    proof (rule transition_call[OF k(2,3)])
      fix q now
      assume q: "row w1 (at_id tx) = Some q"
      let ?q = "moved now StateArmed [] q"
      have core: "core q = core tx" and mf: "manifest_file w1 (at_id tx) = Some m" "at_deadline q = mf_deadline m"
        using k(1) q by (auto simp: ready_def dated_def staged_def mine_def)
      have c: "core ?q = core tx" using core by simp
      note same = core_fields[OF c] core_fields[OF core]
      have "row_ok e (na_log w1) ?q"
        using k(1) dir core_for(1)[OF c] same by (auto simp: ready_def row_ok_def validState_def)
      moreover have "files_ok e w1 ?q"
        using net_inv_row[OF k(2) q] mf k(1) same by (auto simp: files_ok_def ready_def)
      ultimately show "row_ok e (na_log w1) ?q \<and> files_ok e w1 ?q
          \<and> (at_id tx \<in> own \<or> (StateArmed \<in> {StateArmed, StateApplied, StateConfirming} \<longrightarrow> live q))"
        using own by blast
    qed (simp add: unfinished_states_def)
  qed
  then show ?thesis unfolding Transition_def by (auto intro: triple_ret)
qed

lemma harmless_stage_snapshotted:
  assumes own: "at_id tx \<in> own" and dir: "Directory e (at_id tx) = Inr (at_dir tx)"
    and m: "mf_id m = at_id tx" "manifestCoreMatchesTransaction m tx (at_dir tx)"
  shows "triple e own (\<lambda>w. mine tx w \<and> Snapshotted m (at_dir tx) \<in> set (na_log w)) (stage_snapshotted e m (at_dir tx) token t) (\<lambda>_ _. True)"
proof -
  define d where "d = t + eng_rollback_after e"
  define m' where "m' = stamped m (mf_id m) t d"
  have m': "mf_id m' = at_id tx" "manifestCoreMatchesTransaction m' tx (at_dir tx)" "mf_deadline m' = format_time d"
    using m by (auto simp: m'_def stamped_def manifestCoreMatchesTransaction_def effectiveOperationKind_def manifestCandidateJSON_def)
  let ?S = "\<lambda>w. Snapshotted m (at_dir tx) \<in> set (na_log w)"
  have l: "lasting ?S" by simp
  note rb = harmless_map[OF harmless_rollback]
  have arm: "triple e own (ready tx m') (stage_armed e m' (at_dir tx) token d) (\<lambda>_ _. True)"
    unfolding stage_armed_def m'(1)
  proof (rule triple_try)
    have s: "solid e own (\<lambda>w. dated tx m' w \<and> prepared_for tx (na_log w))"
      by (rule solid_conj[OF solid_owned(3)[OF own]]) (simp add: solid_lasting)
    show "triple e own (ready tx m') (SetPhase e (at_id tx) PhaseArmed)
        (\<lambda>err w. (dated tx m' w \<and> prepared_for tx (na_log w)) \<and> (err = None \<longrightarrow> status_file w (at_id tx) \<noteq> None))"
      by (rule triple_conseq[OF solid_phase[OF s]]) (auto simp: ready_def)
    show "triple e own (ready tx m') (on_error (Transition (at_id tx) [StatePreparing] StateArmed [])
        (\<lambda>_. map_prog Inl (rollback e (at_id tx) m' (at_dir tx) ''ARMED_DB_FAILED'')) (Ret (Inr \<lparr>pr_apply_id = at_id tx, pr_token = token,
          pr_old_url = mf_old_url m', pr_new_url = mf_new_url m', pr_deadline = d\<rparr>))) (\<lambda>_ _. True)"
      by (rule triple_try[OF armed_transition[OF own dir], where J = "\<lambda>_. True"]) (use rb in simp_all)
  qed (use rb in \<open>auto simp: ready_def\<close>)
  let ?D = "\<lambda>w. (dated tx m' w \<and> ?S w) \<and> status_file w (at_id tx) \<noteq> None"
  have status: "lasting (\<lambda>w. status_file w n \<noteq> None)" for n unfolding lasting_def net_future_def by blast
  have timer: "triple e own ?D (on_error (ArmTimer (at_id tx) d) (\<lambda>_. failBeforeArm e (at_id tx) ''ROLLBACK_TIMER_ARM_FAILED'')
      (stage_armed e m' (at_dir tx) token d)) (\<lambda>_ _. True)"
  proof (rule triple_try[OF solid_event(2) _ arm])
    show "solid e own ?D"
      by (rule solid_conj[OF solid_conj[OF solid_owned(3)[OF own] solid_lasting[OF l]] solid_lasting[OF status]])
    show "ready tx m' w" if "?D w \<and> (None = None \<longrightarrow> Armed (at_id tx) d \<in> set (na_log w))" for w
      using that m(2) by (auto simp: ready_def prepared_for_def)
  qed simp
  have phase: "triple e own (\<lambda>w. dated tx m' w \<and> ?S w) (on_error (SetPhase e (at_id tx) PhaseSnapshot)
      (\<lambda>_. failBeforeArm e (at_id tx) ''SNAPSHOT_STATUS_FAILED'') (on_error (ArmTimer (at_id tx) d)
        (\<lambda>_. failBeforeArm e (at_id tx) ''ROLLBACK_TIMER_ARM_FAILED'') (stage_armed e m' (at_dir tx) token d))) (\<lambda>_ _. True)"
    by (rule triple_try[OF solid_phase[OF solid_conj[OF solid_owned(3)[OF own] solid_lasting[OF l]]] _ timer]) auto
  have deadline: "triple e own (\<lambda>w. staged tx m' w \<and> ?S w) (on_error (UpdateDeadline (at_id tx) d)
      (\<lambda>_. failBeforeArm e (at_id tx) ''ROLLBACK_DEADLINE_DB_FAILED'') (on_error (SetPhase e (at_id tx) PhaseSnapshot)
      (\<lambda>_. failBeforeArm e (at_id tx) ''SNAPSHOT_STATUS_FAILED'') (on_error (ArmTimer (at_id tx) d)
        (\<lambda>_. failBeforeArm e (at_id tx) ''ROLLBACK_TIMER_ARM_FAILED'') (stage_armed e m' (at_dir tx) token d)))) (\<lambda>_ _. True)"
    by (rule triple_try[OF triple_frame[OF dated_deadline[OF own m'(3)] l] _ phase]) auto
  show ?thesis unfolding stage_snapshotted_def Let_def m(1) d_def[symmetric] m'_def[unfolded m(1), symmetric]
    by (rule triple_try[OF triple_frame[OF mine_replace[OF own m'(1,2)] l] _ deadline]) auto
qed

lemma harmless_stage_created:
  assumes own: "at_id tx \<in> own" and dir: "Directory e (at_id tx) = Inr (at_dir tx)"
    and m: "mf_id m = at_id tx" "manifestCoreMatchesTransaction m tx (at_dir tx)"
  shows "triple e own (mine tx) (stage_created e m (at_dir tx) token) (\<lambda>_ _. True)"
proof -
  let ?K = "\<lambda>w. mine tx w \<and> Snapshotted m (at_dir tx) \<in> set (na_log w)"
  have "solid e own ?K" by (rule solid_conj[OF solid_owned(1)[OF own]]) (simp add: solid_lasting)
  then have st: "stable own ?K" unfolding solid_def by blast
  have "triple e own ?K (case r of Time armTime \<Rightarrow> stage_snapshotted e m (at_dir tx) token armTime | _ \<Rightarrow> Ret (Inl (resp_error r))) (\<lambda>_ _. True)" for r
    using harmless_stage_snapshotted[OF own dir m] by (cases r) (auto intro: harmless_any[OF harmless_ret])
  then have clock: "triple e own ?K (Call Clock (\<lambda>r. case r of Time armTime \<Rightarrow> stage_snapshotted e m (at_dir tx) token armTime
      | _ \<Rightarrow> Ret (Inl (resp_error r)))) (\<lambda>_ _. True)"
    by (intro triple_read[OF _ st, where R = "\<lambda>_. ?K"]) auto
  have snap: "triple e own (mine tx) (on_error (do_call (BkSnapshot m (at_dir tx))) (\<lambda>_. failBeforeArm e (mf_id m) ''SNAPSHOT_FAILED'')
      (Call Clock (\<lambda>r. case r of Time armTime \<Rightarrow> stage_snapshotted e m (at_dir tx) token armTime | _ \<Rightarrow> Ret (Inl (resp_error r))))) (\<lambda>_ _. True)"
    by (rule triple_try[OF solid_event(1)[OF solid_owned(1)[OF own]] _ clock]) auto
  show ?thesis unfolding stage_created_def
    by (rule triple_then[OF mine_store_create[OF own m]])
      (use snap in \<open>auto intro: harmless_any[OF harmless_fail] split: sum.splits\<close>)
qed

lemma built_manifest:
  assumes "buildManifest L c = Inr m"
  shows "mf_schema m \<noteq> 0" "effectiveOperationKind m \<noteq> []" "manifestCandidateJSON m \<noteq> []" "mf_interface m = nc_interface c"
proof -
  have "jobject xs \<noteq> []" for xs by (simp add: jobject_def)
  then have json: "topology_json t \<noteq> []" "ethernet_json x \<noteq> []" for t x by (simp_all only: topology_json_def ethernet_json_def not_False_eq_True)
  show "mf_schema m \<noteq> 0" "effectiveOperationKind m \<noteq> []" "manifestCandidateJSON m \<noteq> []" "mf_interface m = nc_interface c"
    using assms json
    by (auto simp: buildManifest_def build_topology_def build_ethernet_def Let_def effectiveOperationKind_def manifestCandidateJSON_def
        empty_manifest_def split: option.splits sum.splits if_splits prod.splits)
qed

lemma staged_row_matches:
  assumes m: "buildManifest (eng_lib e) c = Inr m0" and mm: "m = stamped m0 n t d"
  shows "manifestCoreMatchesTransaction m (staged_row e c m token dir) dir"
  using built_manifest(4)[OF m] by (simp add: mm stamped_def staged_row_def manifestCoreMatchesTransaction_def)

lemma safe_create:
  assumes k: "triple e (insert (at_id tx) own) (mine tx) k (\<lambda>_ _. True)"
    and tx: "at_schema tx \<noteq> 0" "at_operation tx \<noteq> []" "at_candidate_json tx \<noteq> []" "Directory e (at_id tx) = Inr (at_dir tx)"
  shows "net_safe e (on_error (CreateRow tx) (\<lambda>er. Ret (Inl er)) k) (\<lambda>_ _ _. True) own w"
proof -
  have tx': "tx\<lparr>at_schema := (if at_schema tx = 0 then LegacyManifestSchema else at_schema tx),
      at_operation := (if at_operation tx = [] then ''LAN_ADDRESS'' else at_operation tx),
      at_candidate_json := (if at_candidate_json tx = [] then ''{}'' else at_candidate_json tx)\<rparr> = tx"
    using tx by simp
  have "net_safe e (on_error (do_call (DbCreate tx)) (\<lambda>er. Ret (Inl er)) k) (\<lambda>_ _ _. True) own w" if prep: "at_state tx = StatePreparing"
    unfolding on_error_def do_call_def and_then.simps apply_world.safe.simps
  proof (intro allI impI)
    fix w1 r w2 and ch :: choice
    assume a: "net_inv e w1" "react ch (DbCreate tx) w1 = (r, w2)"
    define tx2 where "tx2 = tx\<lparr>at_error_code := None, at_created_at := format_time (ch_time ch), at_updated_at := format_time (ch_time ch),
        at_confirmed_at := None, at_rolled_back_at := None\<rparr>"
    have same: "at_id tx2 = at_id tx" "at_dir tx2 = at_dir tx" "at_state tx2 = at_state tx" "core tx2 = core tx"
      by (simp_all add: tx2_def core_def)
    show "net_inv e w2 \<and> (\<exists>own'. apply_world.guar own own' w1 w2
        \<and> net_safe e (case failure r of Some er \<Rightarrow> Ret (Inl er) | None \<Rightarrow> k) (\<lambda>_ _ _. True) own' w2)"
    proof (cases "w2 = w1")
      case True
      have "failure r \<noteq> None"
      proof
        assume f: "failure r = None"
        have "(r, w1) = set_rows w1 (insert_transaction (format_time (ch_time ch)) tx (na_rows w1))"
          using react_cases(2)[OF a(2) f] True by simp
        then have "na_rows w1 = na_rows w1 @ [tx2]"
          using f by (auto simp: set_rows_def insert_transaction_def failure_def tx2_def split: if_splits dest: arg_cong[where f = na_rows])
        then show False by simp
      qed
      then show ?thesis using True a(1) apply_world.guar_refl[of own w1] by auto
    next
      case False
      then have w2: "w2 = w1\<lparr>na_rows := na_rows w1 @ [tx2]\<rparr>" "filter is_unfinished (na_rows w1) = []" "row w1 (at_id tx2) = None"
        using react_cases(1)[OF a(2)] by (auto simp: set_rows_def insert_transaction_def tx2_def row_def split: if_splits)
      have d: "Directory e (at_id tx2) = Inr (at_dir tx2)" "at_state tx2 = StatePreparing" using tx(4) prep same by auto
      note c = create_step[OF a(1) w2(2,3) d w2(1)]
      have "mine tx w2" using c(3) same d(2) by (auto simp: mine_def live_def)
      then have "net_safe e k (\<lambda>_ _ _. True) (insert (at_id tx) own) w2"
        using k by (auto simp: triple_def intro: apply_world.safe_weaken)
      then show ?thesis using c(1,2) same by (cases "failure r") auto
    qed
  qed
  then show ?thesis unfolding CreateRow_def Let_def tx' by (auto simp: on_error_def)
qed

lemma safe_stage: "net_safe e (Stage e c) (\<lambda>_ _ _. True) own w"
proof (cases "validate e")
  case valid: None
  show ?thesis
  proof (cases "buildManifest (eng_lib e) c")
    case (Inr m)
    have staged: "net_safe e (stage_manifest e c m n token now) (\<lambda>_ _ _. True) own w" for n token now w
    proof (cases "Directory e n")
      case d: (Inr dir)
      define m' where "m' = stamped m n now (now + eng_rollback_after e)"
      let ?tx = "staged_row e c m' token dir"
      have id: "mf_id m' = n" by (simp add: m'_def stamped_def)
      have same: "mf_schema m' = mf_schema m" "effectiveOperationKind m' = effectiveOperationKind m" "manifestCandidateJSON m' = manifestCandidateJSON m"
        by (simp_all add: m'_def stamped_def effectiveOperationKind_def manifestCandidateJSON_def)
      have tx: "at_id ?tx = n" "at_dir ?tx = dir" by (simp_all add: staged_row_def id)
      have created: "triple e (insert (at_id ?tx) own) (mine ?tx) (stage_created e m' (at_dir ?tx) token) (\<lambda>_ _. True)"
        by (rule harmless_stage_created) (use d tx id staged_row_matches[OF Inr m'_def] in auto)
      then have "net_safe e (on_error (CreateRow ?tx) (\<lambda>er. Ret (Inl er)) (stage_created e m' dir token)) (\<lambda>_ _ _. True) own w"
        by (intro safe_create) (use d tx built_manifest[OF Inr] same in \<open>auto simp: staged_row_def\<close>)
      then show ?thesis by (simp add: stage_manifest_def d m'_def[symmetric] Let_def)
    qed (simp add: stage_manifest_def)
    have clock: "net_safe e (Call Clock (\<lambda>r. case r of Time now \<Rightarrow> stage_manifest e c m n token now | _ \<Rightarrow> Ret (Inl (resp_error r)))) (\<lambda>_ _ _. True) own w"
      for n token w
      by (rule apply_world.safe_CallI) (use staged in \<open>auto dest!: read_same[rotated] intro: apply_world.guar_refl split: resp.splits\<close>)
    have token: "net_safe e (Call (NewSecret 32) (\<lambda>r. case r of Bytes tokenBytes \<Rightarrow> Call Clock (\<lambda>r. case r of
          Time now \<Rightarrow> stage_manifest e c m n (hex_encode tokenBytes) now | _ \<Rightarrow> Ret (Inl (resp_error r)))
        | _ \<Rightarrow> Ret (Inl (ErrMsg ''allocate network apply confirmation token failed'')))) (\<lambda>_ _ _. True) own w" for n w
      by (rule apply_world.safe_CallI) (use clock in \<open>auto simp del: apply_world.safe.simps(2) dest!: read_same[rotated]
          intro: apply_world.guar_refl split: resp.splits\<close>)
    show ?thesis unfolding Stage_def valid Inr option.case sum.case
      by (rule apply_world.safe_CallI) (use token in \<open>auto simp del: apply_world.safe.simps(2) dest!: read_same[rotated]
          intro: apply_world.guar_refl split: resp.splits\<close>)
  qed (simp add: Stage_def valid)
qed (simp add: Stage_def)

section \<open>Every reachable world\<close>

lemma harmless_safe: "harmless e own p \<Longrightarrow> net_safe e p (\<lambda>_ _ _. True) own w"
  by (auto simp: triple_def intro: apply_world.safe_weaken)

lemma safe_start: "net_safe e (start e x) (\<lambda>_ _ _. True) {} w"
proof (cases x)
  case (OpPrepare c)
  have "net_safe e (case p of Inl er \<Rightarrow> Ret (Inl er) | Inr p \<Rightarrow> on_error (Apply e (pr_apply_id p)) (\<lambda>er. Ret (Inl er)) (Ret (Inr p)))
      (\<lambda>_ _ _. True) own w" for p own w
    by (rule harmless_safe) (auto split: sum.splits intro!: harmless_on_error)
  then have "net_safe e (Prepare e c) (\<lambda>_ _ _. True) {} w" unfolding Prepare_def
    by (intro apply_world.safe_and_then apply_world.safe_weaken[OF safe_stage])
  then show ?thesis using OpPrepare by (simp add: apply_world.safe_map)
qed (simp_all add: apply_world.safe_map safe_stage harmless_safe)

lemma net_inv_fresh: "net_inv e fresh_world"
  by (simp add: net_inv_def fresh_world_def row_def find_row_def status_file_def)

lemma reachable_system: "net_reachable e s \<Longrightarrow> apply_world.system_ok e s"
  by (rule apply_world.reachable_ok[OF net_inv_fresh safe_start])

lemma net_reachable_inv: "net_reachable e (w, ps) \<Longrightarrow> net_inv e w"
  using reachable_system by (fastforce simp: apply_world.system_ok_def)

lemma reachable_steps: "net_reachable e s \<Longrightarrow> (net_step e)\<^sup>*\<^sup>* s s' \<Longrightarrow> net_reachable e s'"
  unfolding net_reachable_def by (rule rtranclp_trans)

lemma reachable_future:
  assumes "(net_step e)\<^sup>*\<^sup>* s s'" "net_reachable e s"
  shows "net_future (fst s) (fst s')"
  using assms
proof induction
  case (step s' s'')
  have "net_reachable e s'" using reachable_steps step.prems step.hyps(1) by blast
  from apply_world.step_future[OF reachable_system[OF this] step.hyps(2)] step.IH step.prems net_future_trans
  show ?case by blast
qed (simp add: apply_world.future_refl)

end
