(* ===== verification/Network_Theorems.thy ===== *)
theory Network_Theorems
  imports Network_Safety
begin

text \<open>
  The guarantees of the network apply protocol: a change reaches the network only with a snapshot and an armed rollback timer, it is
  made permanent only by a confirmation that was validated, there is one change at a time, and after a crash at any point a
  recovery that works finishes what was begun. \<open>run\<close> executes one operation alone, call by call, under given choices of the
  environment.
\<close>

section \<open>Running an operation alone\<close>

primrec run :: "'a prog \<Rightarrow> (nat \<Rightarrow> choice) \<Rightarrow> net_world \<Rightarrow> 'a \<times> (nat \<Rightarrow> choice) \<times> net_world" where
  "run (Ret x) chs w = (x, chs, w)"
| "run (Call c k) chs w = (case react (chs 0) c w of (r, w') \<Rightarrow> run (k r) (\<lambda>i. chs (Suc i)) w')"

definition works :: "(nat \<Rightarrow> choice) \<Rightarrow> bool" where
  "works chs \<longleftrightarrow> (\<forall>i. ch_fate (chs i) = Works \<and> good_time (ch_time (chs i)))"

lemma works_tail: "works chs \<Longrightarrow> works (\<lambda>i. chs (Suc i))"
  by (simp add: works_def)

lemma run_and_then: "run (and_then p f) chs w = (case run p chs w of (x, chs', w') \<Rightarrow> run (f x) chs' w')"
  by (induction p arbitrary: chs w) (auto split: prod.splits)

lemma run_map: "run (map_prog f p) chs w = (case run p chs w of (x, chs', w') \<Rightarrow> (f x, chs', w'))"
  by (induction p arbitrary: chs w) (auto split: prod.splits)

lemma run_on_error: "run (on_error p f k) chs w = (case run p chs w of (err, chs', w') \<Rightarrow>
    case err of Some er \<Rightarrow> run (f er) chs' w' | None \<Rightarrow> run k chs' w')"
  by (auto simp: on_error_def run_and_then split: prod.splits option.splits)

lemma run_works:
  assumes "works chs"
  shows "works (fst (snd (run p chs w)))"
  using assms by (induction p arbitrary: chs w) (auto simp: works_tail split: prod.splits)

lemma react_works: "ch_fate ch = Works \<Longrightarrow> react ch c w = perform ch c (attempted c w)"
  by (auto simp: react_def Let_def split: prod.splits)

lemma run_do_call:
  assumes "works chs"
  shows "run (do_call c) chs w = (case perform (chs 0) c (attempted c w) of (r, w') \<Rightarrow> (failure r, (\<lambda>i. chs (Suc i)), w'))"
  using assms by (simp add: do_call_def works_def react_works split: prod.splits)

lemma filter_unique:
  assumes "distinct (map f xs)" "x \<in> set xs" "P x"
  shows "filter (\<lambda>y. f y = f x \<and> P y) xs = [x]"
  using assms(1,2)
proof (induction xs)
  case (Cons a xs)
  show ?case
  proof (cases "a = x")
    case True
    have "f y \<noteq> f x" if "y \<in> set xs" for y using Cons.prems(1) that True by (metis distinct.simps(2) imageI list.simps(9) set_map)
    then have "filter (\<lambda>y. f y = f x \<and> P y) xs = []" by (simp add: filter_empty_conv)
    then show ?thesis using True assms(3) by simp
  next
    case False
    then have "x \<in> set xs" "f a \<noteq> f x" using Cons.prems by auto
    then show ?thesis using Cons by simp
  qed
qed simp

lemma run_transition:
  assumes "works chs" "distinct (map at_id (na_rows w))" "row w n = Some r" "at_state r \<in> set expected"
    and "safeID n" "list_all validState expected" "validState st" "code = [] \<or> safeErrorCode code"
  shows "run (Transition n expected st code) chs w = (None, (\<lambda>i. chs (Suc i)),
     w\<lparr>na_rows := map (\<lambda>q. if at_id q = n \<and> at_state q \<in> set expected then moved (format_time (ch_time (chs 0))) st code q else q) (na_rows w)\<rparr>)"
proof -
  have r: "r \<in> set (na_rows w)" "at_id r = n" using find_row_Some assms(3) by (auto simp: row_def)
  have "length (filter (\<lambda>q. at_id q = n \<and> at_state q \<in> set expected) (na_rows w)) = 1"
    using filter_unique[OF assms(2) r(1), of "\<lambda>q. at_state q \<in> set expected"] r(2) assms(4) by simp
  moreover have "expected \<noteq> []" using assms(4) by auto
  ultimately show ?thesis
    using assms by (simp add: Transition_def run_do_call set_rows_def update_where_def failure_def)
qed

lemma run_phase:
  assumes "works chs" "Directory e n = Inr dir" "na_dirs w n = Some d" "validPhase ph"
  shows "run (SetPhase e n ph) chs w = (None, (\<lambda>i. chs (Suc i)),
     w\<lparr>na_dirs := (na_dirs w)(n \<mapsto> d\<lparr>ad_status := Some (ph, format_time (ch_time (chs 0)))\<rparr>)\<rparr>)"
  using assms by (simp add: SetPhase_def run_do_call failure_def)

lemma run_disarm:
  assumes "works chs" "safeID n"
  shows "run (DisarmTimer n) chs w = (None, (\<lambda>i. chs (Suc i)), log_event (Disarmed n) w)"
  using assms by (simp add: DisarmTimer_def run_do_call failure_def)

text \<open>A transaction whose directory was not completed when its creator died.\<close>

definition torn :: "net_world \<Rightarrow> bool" where
  "torn w \<longleftrightarrow> (\<exists>r\<in>set (na_rows w). is_unfinished r \<and> (manifest_file w (at_id r) = None \<or> status_file w (at_id r) = None))"

lemma run_load:
  assumes inv: "net_inv e w" and r: "row w n = Some r" and "works chs"
  shows "\<exists>chs'. works chs' \<and> run (LoadFiles e n) chs w = (case (manifest_file w n, status_file w n) of
      (Some m, Some (ph, _)) \<Rightarrow> Inr (m, ph) | _ \<Rightarrow> Inl ErrDriver, chs', w)"
proof -
  have dir: "Directory e n = Inr (at_dir r)" and files: "files_ok e w r" and id: "at_id r = n"
    using net_inv_row[OF inv r] row_id[OF r] by (auto simp: row_ok_def)
  have status: "status_ok w n s" if "status_file w n = Some s" for s using inv that unfolding net_inv_def by blast
  let ?c = "\<lambda>i. chs (Suc i)"
  have react: "react (chs j) c w = perform (chs j) c (attempted c w)" for j c using assms(3) by (simp add: works_def react_works)
  show ?thesis
  proof (cases "manifest_file w n")
    case None
    then have "perform (chs 0) (FsReadManifest n) w = (Failed ErrDriver, w)"
      by (auto simp: manifest_file_def split: option.splits)
    then show ?thesis using None works_tail[OF assms(3)] by (auto simp: LoadFiles_def dir react resp_error_def)
  next
    case (Some m)
    then have m: "perform (chs 0) (FsReadManifest n) w = (ManifestFile m, w)"
      by (auto simp: manifest_file_def split: option.splits)
    have valid: "validateManifest (eng_lib e) m = None" "mf_id m = n"
      using files Some id by (auto simp: files_ok_def manifestCoreMatchesTransaction_def)
    show ?thesis
    proof (cases "status_file w n")
      case None
      then have "perform (chs 1) (FsReadStatus n) w = (Failed ErrDriver, w)"
        by (auto simp: status_file_def split: option.splits)
      then show ?thesis
        using None Some m valid works_tail[OF works_tail[OF assms(3)]] by (auto simp: LoadFiles_def LoadStatus_def dir react resp_error_def)
    next
      case s: (Some s)
      obtain ph at where sp: "s = (ph, at)" by force
      have "perform (chs 1) (FsReadStatus n) w = (StatusFile ph at, w)"
        using s sp by (auto simp: status_file_def split: option.splits)
      then show ?thesis
        using s sp Some m valid status[OF s] works_tail[OF works_tail[OF assms(3)]]
        by (auto simp: LoadFiles_def LoadStatus_def dir react status_ok_def)
    qed
  qed
qed

lemma single_unfinished:
  assumes "net_inv e w"
  shows "filter is_unfinished (na_rows w) = [] \<or> (\<exists>r. filter is_unfinished (na_rows w) = [r] \<and> row w (at_id r) = Some r \<and> is_unfinished r)"
proof (cases "filter is_unfinished (na_rows w)")
  case (Cons r rs)
  then have "rs = []" using assms by (simp add: net_inv_def)
  moreover have r: "r \<in> set (na_rows w)" "is_unfinished r" using Cons by (auto simp: filter_eq_Cons_iff)
  moreover have "row w (at_id r) = Some r" using find_row_mem[OF _ r(1)] assms by (simp add: net_inv_def row_def)
  ultimately show ?thesis using Cons by simp
qed simp

text \<open>What finishing the only unfinished transaction leaves.\<close>

lemma finished_rows:
  assumes "filter is_unfinished rows = [r]" "distinct (map at_id rows)" "st = StateConfirmed \<or> st = StateRolledBack"
  shows "filter is_unfinished (map (\<lambda>q. if at_id q = at_id r \<and> at_state q \<in> set [at_state r] then moved now st code q else q) rows) = []"
    "find_row (at_id r) (map (\<lambda>q. if at_id q = at_id r \<and> at_state q \<in> set [at_state r] then moved now st code q else q) rows) = Some (moved now st code r)"
proof -
  let ?g = "\<lambda>q. if at_id q = at_id r \<and> at_state q \<in> set [at_state r] then moved now st code q else q"
  have mem: "set (filter is_unfinished rows) = {r}" by (simp only: assms(1) list.set)
  then have r: "r \<in> set rows" by auto
  have "q = r" if "q \<in> set rows" "is_unfinished q" for q using mem that by auto
  then have "\<not> is_unfinished (?g q)" if "q \<in> set rows" for q
    using that assms(3) by (auto simp: is_unfinished_def unfinished_states_def)
  then show "filter is_unfinished (map ?g rows) = []" by (auto simp only: filter_empty_conv set_map image_iff)
  have "find_row (at_id r) (map ?g rows) = map_option ?g (find_row (at_id r) rows)" by (rule find_row_map) simp
  then show "find_row (at_id r) (map ?g rows) = Some (moved now st code r)" using find_row_mem[OF assms(2) r] by simp
qed

lemma run_finish:
  assumes "works chs" "filter is_unfinished (na_rows w) = [r]" "distinct (map at_id (na_rows w))" "safeID (at_id r)"
    and "st = StateConfirmed \<or> st = StateRolledBack" "code = [] \<or> safeErrorCode code"
  obtains w' where "run (Transition (at_id r) [at_state r] st code) chs w = (None, (\<lambda>i. chs (Suc i)), w')"
    "filter is_unfinished (na_rows w') = []" "\<exists>now. row w' (at_id r) = Some (moved now st code r)" "na_log w' = na_log w"
proof -
  have r: "r \<in> set (na_rows w)" "is_unfinished r" using assms(2) by (auto simp: filter_eq_Cons_iff)
  have row: "row w (at_id r) = Some r" using find_row_mem[OF assms(3) r(1)] by (simp add: row_def)
  have v: "list_all validState [at_state r]" using r(2) by (auto simp: is_unfinished_def unfinished_states_def validState_def)
  have st: "validState st" using assms(5) by (auto simp: validState_def)
  let ?w = "w\<lparr>na_rows := map (\<lambda>q. if at_id q = at_id r \<and> at_state q \<in> set [at_state r] then moved (format_time (ch_time (chs 0))) st code q else q) (na_rows w)\<rparr>"
  show ?thesis
  proof (rule that)
    show "run (Transition (at_id r) [at_state r] st code) chs w = (None, (\<lambda>i. chs (Suc i)), ?w)"
      by (rule run_transition[OF assms(1,3) row _ assms(4) v st assms(6)]) simp
    show "filter is_unfinished (na_rows ?w) = []" "\<exists>now. row ?w (at_id r) = Some (moved now st code r)"
      using finished_rows[OF assms(2,3,5)] by (auto simp: row_def simp del: map_map)
  qed simp
qed

definition outcome_ok :: "apply_transaction \<Rightarrow> manifest \<Rightarrow> string \<Rightarrow> net_world \<Rightarrow> net_world \<Rightarrow> bool" where
  "outcome_ok r m ph w w' \<longleftrightarrow> filter is_unfinished (na_rows w') = [] \<and> (\<exists>r'. row w' (at_id r) = Some r' \<and> core r' = core r
     \<and> (if ph = PhaseConfirming \<or> ph = PhaseConfirmed
        then at_state r' = StateConfirmed \<and> (ph = PhaseConfirming \<longrightarrow> Committed m (at_dir r) \<in> set (na_log w'))
        else at_state r' = StateRolledBack \<and> (ph \<noteq> PhaseRolledBack \<longrightarrow> na_log w' = Disarmed (at_id r) # RolledBack m (at_dir r) # na_log w)))"

lemma run_recover_loaded:
  assumes chs: "works chs" and un: "filter is_unfinished (na_rows w) = [r]" and dist: "distinct (map at_id (na_rows w))"
    and dir: "Directory e (at_id r) = Inr (at_dir r)" and d: "na_dirs w (at_id r) = Some d"
  shows "\<exists>chs' w'. run (recover_loaded e r m ph (at_dir r) None) chs w = ((None, []), chs', w') \<and> outcome_ok r m ph w w'"
proof -
  have safe: "safeID (at_id r)" using dir by (auto simp: Directory_def split: if_splits)
  have code: "safeErrorCode ''RECOVERED_ROLLBACK''" "safeErrorCode ''REBOOT_RECOVERY''" by code_simp+
  have vp: "validPhase PhaseConfirmed" "validPhase PhaseRolledBack" by (simp_all add: validPhase_def)
  note tl = works_tail[OF chs] works_tail[OF works_tail[OF chs]] works_tail[OF works_tail[OF works_tail[OF chs]]]
  consider "ph = PhaseConfirmed" | "ph = PhaseRolledBack" | "ph = PhaseConfirming" | "ph \<notin> {PhaseConfirmed, PhaseRolledBack, PhaseConfirming}" by blast
  then show ?thesis
  proof cases
    case 1
    obtain w' where w': "run (Transition (at_id r) [at_state r] StateConfirmed []) chs w = (None, (\<lambda>i. chs (Suc i)), w')"
      "filter is_unfinished (na_rows w') = []" "\<exists>now. row w' (at_id r) = Some (moved now StateConfirmed [] r)" "na_log w' = na_log w"
      by (rule run_finish[OF chs un dist safe, of StateConfirmed "[]"]) auto
    then show ?thesis using 1 by (auto simp: recover_loaded_def finish_item_def run_map run_on_error outcome_ok_def)
  next
    case 2
    obtain w' where w': "run (Transition (at_id r) [at_state r] StateRolledBack ''RECOVERED_ROLLBACK'') chs w = (None, (\<lambda>i. chs (Suc i)), w')"
      "filter is_unfinished (na_rows w') = []" "\<exists>now. row w' (at_id r) = Some (moved now StateRolledBack ''RECOVERED_ROLLBACK'' r)" "na_log w' = na_log w"
      by (rule run_finish[OF chs un dist safe, of StateRolledBack "''RECOVERED_ROLLBACK''"]) (use code in auto)
    then show ?thesis using 2 by (auto simp: recover_loaded_def finish_item_def run_map run_on_error outcome_ok_def)
  next
    case 3
    let ?w1 = "log_event (Disarmed (at_id r)) w"
    let ?w2 = "log_event (Committed m (at_dir r)) (log_event (Committing m (at_dir r)) ?w1)"
    let ?w3 = "?w2\<lparr>na_dirs := (na_dirs ?w2)(at_id r \<mapsto> d\<lparr>ad_status := Some (PhaseConfirmed, format_time (ch_time (chs 2)))\<rparr>)\<rparr>"
    have same: "na_rows ?w3 = na_rows w" by (simp add: log_event_def)
    obtain w' where w': "run (Transition (at_id r) [at_state r] StateConfirmed []) (\<lambda>i. chs (Suc (Suc (Suc i)))) ?w3
        = (None, (\<lambda>i. chs (Suc (Suc (Suc (Suc i))))), w')"
      "filter is_unfinished (na_rows w') = []" "\<exists>now. row w' (at_id r) = Some (moved now StateConfirmed [] r)" "na_log w' = na_log ?w3"
      by (rule run_finish[OF tl(3), of ?w3 r StateConfirmed "[]"]) (use un dist safe same in auto)
    have ph: "run (SetPhase e (at_id r) PhaseConfirmed) (\<lambda>i. chs (Suc (Suc i))) ?w2 = (None, (\<lambda>i. chs (Suc (Suc (Suc i)))), ?w3)"
      by (subst run_phase[OF tl(2) dir _ vp(1), of _ d]) (simp_all add: log_event_def d eval_nat_numeral)
    show ?thesis
      using 3 w' ph run_disarm[OF chs safe, of w] run_do_call[OF tl(1), of "BkCommit m (at_dir r)" ?w1]
      by (auto simp: recover_loaded_def recover_confirming_def run_and_then run_on_error failure_def outcome_ok_def log_event_def)
  next
    case 4
    let ?w1 = "log_event (RolledBack m (at_dir r)) w"
    let ?w2 = "log_event (Disarmed (at_id r)) ?w1"
    let ?w3 = "?w2\<lparr>na_dirs := (na_dirs ?w2)(at_id r \<mapsto> d\<lparr>ad_status := Some (PhaseRolledBack, format_time (ch_time (chs 2)))\<rparr>)\<rparr>"
    have same: "na_rows ?w3 = na_rows w" by (simp add: log_event_def)
    obtain w' where w': "run (Transition (at_id r) [at_state r] StateRolledBack ''REBOOT_RECOVERY'') (\<lambda>i. chs (Suc (Suc (Suc i)))) ?w3
        = (None, (\<lambda>i. chs (Suc (Suc (Suc (Suc i))))), w')"
      "filter is_unfinished (na_rows w') = []" "\<exists>now. row w' (at_id r) = Some (moved now StateRolledBack ''REBOOT_RECOVERY'' r)" "na_log w' = na_log ?w3"
      by (rule run_finish[OF tl(3), of ?w3 r StateRolledBack "''REBOOT_RECOVERY''"]) (use un dist safe same code in auto)
    have ph: "run (SetPhase e (at_id r) PhaseRolledBack) (\<lambda>i. chs (Suc (Suc i))) ?w2 = (None, (\<lambda>i. chs (Suc (Suc (Suc i)))), ?w3)"
      by (subst run_phase[OF tl(2) dir _ vp(2), of _ d]) (simp_all add: log_event_def d eval_nat_numeral)
    show ?thesis
      using 4 w' ph run_disarm[OF tl(1) safe, of ?w1] run_do_call[OF chs, of "BkRollback m (at_dir r)" w]
      by (auto simp: recover_loaded_def recover_default_def run_map run_and_then run_on_error failure_def outcome_ok_def log_event_def)
  qed
qed

lemma unfinished_rows_small:
  "filter is_unfinished rows = [] \<Longrightarrow> unfinished_rows rows = []" "filter is_unfinished rows = [r] \<Longrightarrow> unfinished_rows rows = [r]"
  by (simp_all add: unfinished_rows_def)

lemma run_list:
  assumes "works chs"
  shows "run ListUnfinished chs w = (Inr (unfinished_rows (na_rows w)), (\<lambda>i. chs (Suc i)), w)"
  using assms by (simp add: ListUnfinished_def works_def react_works)

lemma run_recover:
  assumes "validate e = None" "works chs"
  shows "run (Recover e) chs w = (case run (recover_items e None [] (unfinished_rows (na_rows w))) (\<lambda>i. chs (Suc i)) w of
     (failures, chs', w') \<Rightarrow> (if failures = [] then None else Some (ErrJoin failures), chs', w'))"
  using assms by (simp add: Recover_def run_and_then run_list split: prod.splits)

lemma recover_item_outcome:
  assumes inv: "net_inv e w" and un: "filter is_unfinished (na_rows w) = [r]" and chs: "works chs"
  shows "\<exists>chs' w' errs. run (recover_item e r None) chs w = ((None, errs), chs', w')
    \<and> (case (manifest_file w (at_id r), status_file w (at_id r)) of
         (Some m, Some (ph, _)) \<Rightarrow> errs = [] \<and> outcome_ok r m ph w w' | _ \<Rightarrow> errs \<noteq> [] \<and> w' = w)"
proof -
  have r: "row w (at_id r) = Some r" "is_unfinished r" using single_unfinished[OF inv] un by auto
  have dist: "distinct (map at_id (na_rows w))" using inv by (simp add: net_inv_def)
  have dir: "Directory e (at_id r) = Inr (at_dir r)" and files: "files_ok e w r"
    using net_inv_row[OF inv r(1)] by (auto simp: row_ok_def)
  obtain chs' where l: "works chs'" "run (LoadFiles e (at_id r)) chs w = (case (manifest_file w (at_id r), status_file w (at_id r)) of
      (Some m, Some (ph, _)) \<Rightarrow> Inr (m, ph) | _ \<Rightarrow> Inl ErrDriver, chs', w)"
    using run_load[OF inv r(1) chs] by blast
  show ?thesis
  proof (cases "\<exists>m s. manifest_file w (at_id r) = Some m \<and> status_file w (at_id r) = Some s")
    case True
    then obtain m ph at where ms: "manifest_file w (at_id r) = Some m" "status_file w (at_id r) = Some (ph, at)" by fastforce
    then obtain d where d: "na_dirs w (at_id r) = Some d" by (auto simp: manifest_file_def split: option.splits)
    have match: "manifestMatchesTransaction m r (at_dir r) \<or> at_state r = StatePreparing \<and> manifestCoreMatchesTransaction m r (at_dir r)"
      using files ms r(2) by (auto simp: files_ok_def manifestMatchesTransaction_def live_def is_unfinished_def unfinished_states_def)
    obtain chs'' w' where "run (recover_loaded e r m ph (at_dir r) None) chs' w = ((None, []), chs'', w')" "outcome_ok r m ph w w'"
      using run_recover_loaded[OF l(1) un dist dir d] by blast
    then show ?thesis using ms l(2) dir match by (auto simp: recover_item_def recover_files_def run_and_then)
  next
    case False
    then show ?thesis
      using l(2) by (auto simp: recover_item_def recover_files_def run_and_then split: option.splits)
  qed
qed

text \<open>
  Property C7 (crash recovery). Take any reachable world: any number of operations, interleaved call by call, with faults in any
  call, processes that died anywhere. If now \<open>Recover\<close> runs alone and its calls work, it succeeds exactly if no transaction was
  cut off while its directory was being created. Then nothing is left unfinished: a transaction whose confirmation had been
  accepted is committed and confirmed, and every other one is rolled back, its timer disarmed, and marked so.
\<close>

theorem crash_recovery:
  assumes reach: "net_reachable e (w, ps)" and valid: "validate e = None" and chs: "works chs"
    and run: "run (Recover e) chs w = (err, chs', w')"
  shows "(err = None \<longleftrightarrow> \<not> torn w) \<and> (torn w \<longrightarrow> w' = w)
    \<and> (\<not> torn w \<longrightarrow> filter is_unfinished (na_rows w') = []
      \<and> (\<forall>r\<in>set (na_rows w). is_unfinished r \<longrightarrow> (\<exists>m ph at. manifest_file w (at_id r) = Some m
           \<and> status_file w (at_id r) = Some (ph, at) \<and> outcome_ok r m ph w w')))"
proof -
  have inv: "net_inv e w" by (rule net_reachable_inv[OF reach])
  note rec = run[unfolded run_recover[OF valid chs]]
  from single_unfinished[OF inv] show ?thesis
  proof
    assume none: "filter is_unfinished (na_rows w) = []"
    then have no: "\<not> is_unfinished r" if "r \<in> set (na_rows w)" for r using that by (auto simp: filter_empty_conv)
    have "err = None" "w' = w" using rec unfinished_rows_small(1)[OF none] by auto
    then show ?thesis using none no unfolding torn_def by blast
  next
    assume "\<exists>r. filter is_unfinished (na_rows w) = [r] \<and> row w (at_id r) = Some r \<and> is_unfinished r"
    then obtain r where r: "filter is_unfinished (na_rows w) = [r]" "is_unfinished r" by blast
    have mem: "set (filter is_unfinished (na_rows w)) = {r}" by (simp only: r(1) list.set)
    have only: "q = r" if "q \<in> set (na_rows w)" "is_unfinished q" for q
      using that mem by auto
    have here: "r \<in> set (na_rows w)" using mem by auto
    have torn: "torn w \<longleftrightarrow> manifest_file w (at_id r) = None \<or> status_file w (at_id r) = None"
    proof
      assume "torn w"
      then obtain q where "q \<in> set (na_rows w)" "is_unfinished q" "manifest_file w (at_id q) = None \<or> status_file w (at_id q) = None"
        unfolding torn_def by (elim bexE conjE)
      then show "manifest_file w (at_id r) = None \<or> status_file w (at_id r) = None" using only[of q] by simp
    next
      assume "manifest_file w (at_id r) = None \<or> status_file w (at_id r) = None"
      then show "torn w" unfolding torn_def by (intro bexI[OF _ here] conjI r(2))
    qed
    obtain chs2 w2 errs where it: "run (recover_item e r None) (\<lambda>i. chs (Suc i)) w = ((None, errs), chs2, w2)"
      "case (manifest_file w (at_id r), status_file w (at_id r)) of
         (Some m, Some (ph, _)) \<Rightarrow> errs = [] \<and> outcome_ok r m ph w w2 | _ \<Rightarrow> errs \<noteq> [] \<and> w2 = w"
      using recover_item_outcome[OF inv r(1) works_tail[OF chs]] by blast
    have e: "err = (if errs = [] then None else Some (ErrJoin errs))" "w' = w2"
      using rec it(1) unfinished_rows_small(2)[OF r(1)] by (auto simp: run_and_then)
    show ?thesis
    proof (cases "torn w")
      case True
      then have "errs \<noteq> [] \<and> w2 = w" using it(2) torn by (auto split: option.splits)
      then show ?thesis using True e by simp
    next
      case False
      then obtain m ph at where ms: "manifest_file w (at_id r) = Some m" "status_file w (at_id r) = Some (ph, at)" using torn by fastforce
      then have ok: "errs = []" "outcome_ok r m ph w w'" using it(2) e(2) by simp_all
      then have "filter is_unfinished (na_rows w') = []" by (simp add: outcome_ok_def)
      moreover have "err = None" using e(1) ok(1) by simp
      ultimately show ?thesis using False ok(2) ms only by blast
    qed
  qed
qed

text \<open>
  Property C3 (a change is recoverable before it is made). Whenever the backend begins to apply a manifest, in any
  interleaving and after any faults and crashes, the log before it has a completed snapshot of the same transaction in the same directory
  and an armed rollback timer for it, and the manifest that is applied is the one the transaction in the database describes.
\<close>

theorem applied_only_when_recoverable:
  assumes "net_reachable e (w, ps)" "na_log w = later @ Applying m dir # earlier"
  shows "\<exists>tx m' deadline. manifestMatchesTransaction m tx dir \<and> manifestCoreMatchesTransaction m' tx dir
     \<and> Snapshotted m' dir \<in> set earlier \<and> Armed (mf_id m) deadline \<in> set earlier"
proof -
  have "log_ok (eng_lib e) (na_log w)" using net_reachable_inv[OF assms(1)] by (simp add: net_inv_def)
  from event_ok_log[OF this assms(2)] obtain tx where tx: "manifestMatchesTransaction m tx dir" "prepared_for tx earlier" by auto
  then have same: "at_dir tx = dir" "at_id tx = mf_id m" by (auto simp: manifestMatchesTransaction_def manifestCoreMatchesTransaction_def)
  from tx(2) obtain m' deadline where "Snapshotted m' dir \<in> set earlier" "manifestCoreMatchesTransaction m' tx dir"
    "Armed (mf_id m) deadline \<in> set earlier" unfolding prepared_for_def same by blast
  with tx(1) show ?thesis by blast
qed

text \<open>
  Property C4 (a change becomes permanent only by a valid confirmation). Whenever the backend begins to commit, by \<open>Confirm\<close> or by
  a recovery, a confirmation of that transaction had been accepted before: at a time before its deadline, with the token whose digest the
  transaction stores, and from a place that shows the new network works; and the change had been applied and snapshotted before that.
\<close>

theorem committed_only_when_confirmed:
  assumes "net_reachable e (w, ps)" "na_log w = later @ Committing m dir # earlier"
  shows "\<exists>tx m' ev now. Accepted tx m' ev now \<in> set earlier \<and> manifestCoreMatchesTransaction m tx dir
     \<and> before_deadline (at_deadline tx) now \<and> token_matches (eng_lib e) tx (ce_token ev) \<and> source_ok (eng_lib e) tx m' ev
     \<and> manifestMatchesTransaction m' tx dir \<and> (\<exists>m''. Applied m'' dir \<in> set earlier) \<and> (\<exists>m''. Snapshotted m'' dir \<in> set earlier)"
proof -
  have log: "log_ok (eng_lib e) (na_log w)" using net_reachable_inv[OF assms(1)] by (simp add: net_inv_def)
  have "event_ok (eng_lib e) (Committing m dir) earlier" by (rule event_ok_log[OF log assms(2)])
  then obtain tx0 tx m' ev now where a: "manifestCoreMatchesTransaction m tx0 dir" "Accepted tx m' ev now \<in> set earlier" "core tx = core tx0"
    by (auto simp: accepted_for_def)
  then obtain pre post where p: "earlier = pre @ Accepted tx m' ev now # post" by (meson split_list)
  then have "na_log w = (later @ Committing m dir # pre) @ Accepted tx m' ev now # post" using assms(2) by simp
  from event_ok_log[OF log this] have ok: "event_ok (eng_lib e) (Accepted tx m' ev now) post" .
  have m: "manifestCoreMatchesTransaction m tx dir" using a core_fields(4) by blast
  then have dir: "at_dir tx = dir" by (simp add: manifestCoreMatchesTransaction_def)
  have post: "set post \<subseteq> set earlier" using p by auto
  obtain m1 m2 where "Applied m1 dir \<in> set earlier" "Snapshotted m2 dir \<in> set earlier"
    using ok dir post by (auto simp: prepared_for_def applied_for_def)
  moreover have "before_deadline (at_deadline tx) now" "token_matches (eng_lib e) tx (ce_token ev)" "source_ok (eng_lib e) tx m' ev"
    "manifestMatchesTransaction m' tx dir" using ok dir by simp_all
  ultimately show ?thesis using a(2) m by blast
qed

text \<open>
  Property C11 (one change at a time). In every reachable world at most one transaction is unfinished, no two rows share an id,
  and whatever happens afterwards a finished transaction stays there and stays finished.
\<close>

theorem one_apply_at_a_time:
  assumes "net_reachable e s" "(net_step e)\<^sup>*\<^sup>* s s'"
  shows "length (filter is_unfinished (na_rows (fst s))) \<le> 1 \<and> distinct (map at_id (na_rows (fst s)))
    \<and> (\<forall>r\<in>set (na_rows (fst s)). \<not> is_unfinished r \<longrightarrow>
         (\<exists>r'\<in>set (na_rows (fst s')). at_id r' = at_id r \<and> at_token_sha256 r' = at_token_sha256 r \<and> \<not> is_unfinished r'))"
proof -
  have inv: "net_inv e (fst s)" using net_reachable_inv[of e "fst s" "snd s"] assms(1) by simp
  have fut: "net_future (fst s) (fst s')" by (rule reachable_future[OF assms(2,1)])
  have "\<exists>r'\<in>set (na_rows (fst s')). at_id r' = at_id r \<and> at_token_sha256 r' = at_token_sha256 r \<and> \<not> is_unfinished r'"
    if r: "r \<in> set (na_rows (fst s))" "\<not> is_unfinished r" for r
  proof -
    have "row (fst s) (at_id r) = Some r" using find_row_mem[OF _ r(1)] inv by (simp add: net_inv_def row_def)
    from net_future_row[OF fut this] obtain r' where r': "row (fst s') (at_id r) = Some r'" "core r' = core r" "is_unfinished r' \<Longrightarrow> is_unfinished r" by blast
    have "r' \<in> set (na_rows (fst s'))" using r'(1) find_row_Some by (auto simp: row_def)
    then show ?thesis using r' r(2) core_fields[OF r'(2)] by blast
  qed
  then show ?thesis using inv by (auto simp: net_inv_def)
qed

end
