(* ===== verification/Network_Faults.thy ===== *)
theory Network_Faults
  imports Network_Theorems
begin

text \<open>
  Two faults of \<open>internal/networkapply/engine.go\<close> that the model shows: a transaction that was cut off while it was created
  stops every later change, and a recovery does not notice that the commit failed.
\<close>

section \<open>A transaction that was cut off while it was created\<close>

lemma unfinished_blocks_create:
  assumes "is_unfinished r" "r \<in> set (na_rows w)"
  shows "\<exists>er chs'. run (CreateRow tx) chs w = (Some er, chs', w)"
proof -
  have "filter is_unfinished (na_rows w) \<noteq> []" using assms by (auto simp: filter_empty_conv)
  then have p: "perform ch (DbCreate t) w = (Failed ErrApplyInProgress, w)" for ch t
    by (simp add: insert_transaction_def set_rows_def)
  have "\<exists>er. react ch (DbCreate t) w = (Failed er, w)" for ch t
    using p by (cases "ch_fate ch") (auto simp: react_def Let_def split: prod.splits)
  then obtain f where "react ch (DbCreate t) w = (Failed (f ch t), w)" for ch t by metis
  then have "\<exists>er chs'. run (do_call (DbCreate t)) chs w = (Some er, chs', w)" for t
    by (simp add: do_call_def failure_def)
  then show ?thesis by (auto simp: CreateRow_def Let_def)
qed

lemma unfinished_blocks_stage:
  assumes "is_unfinished r" "r \<in> set (na_rows w)"
  shows "\<exists>er chs'. run (Stage e c) chs w = (Inl er, chs', w)"
proof -
  have created: "\<exists>er chs'. run (CreateRow tx) chs w = (Some er, chs', w)" for tx chs
    by (rule unfinished_blocks_create[OF assms])
  have m: "\<exists>er chs'. run (stage_manifest e c m n token now) chs w = (Inl er, chs', w)" for m n token now chs
  proof (cases "Directory e n")
    case (Inr dir)
    let ?m = "stamped m n now (now + eng_rollback_after e)"
    obtain er chs' where "run (CreateRow (staged_row e c ?m token dir)) chs w = (Some er, chs', w)" using created by blast
    then show ?thesis by (simp add: stage_manifest_def Let_def run_on_error Inr)
  qed (simp add: stage_manifest_def)
  have quiet: "snd (react ch (NewSecret k) w) = w" "snd (react ch Clock w) = w" for ch k
    by (auto simp: react_def Let_def split: fate.splits)
  show ?thesis
    using m by (auto simp: Stage_def react_def Let_def split: option.splits sum.splits fate.splits)
qed

lemma run_load_missing:
  assumes "manifest_file w n = None \<or> status_file w n = None"
  shows "\<exists>er chs'. run (LoadFiles e n) chs w = (Inl er, chs', w)"
proof (cases "Directory e n")
  case (Inr dir)
  have "(\<exists>er. react (chs 0) (FsReadManifest n) w = (Failed er, w))
      \<or> (\<exists>m. manifest_file w n = Some m \<and> react (chs 0) (FsReadManifest n) w = (ManifestFile m, w))"
    by (cases "ch_fate (chs 0)") (auto simp: react_def Let_def manifest_file_def split: option.splits)
  then consider er where "react (chs 0) (FsReadManifest n) w = (Failed er, w)"
    | m where "manifest_file w n = Some m" "react (chs 0) (FsReadManifest n) w = (ManifestFile m, w)" by blast
  then show ?thesis
  proof cases
    case 2
    then have "status_file w n = None" using assms by simp
    then have "\<exists>er. react (chs 1) (FsReadStatus n) w = (Failed er, w)"
      by (cases "ch_fate (chs 1)") (auto simp: react_def Let_def status_file_def split: option.splits)
    then show ?thesis using 2(2) by (auto simp: LoadFiles_def LoadStatus_def Inr)
  qed (simp add: LoadFiles_def Inr)
qed (simp add: LoadFiles_def)

lemma run_load_quiet: "snd (snd (run (LoadFiles e n) chs w)) = w"
proof -
  have "snd (react ch (FsReadManifest n) w) = w" "snd (react ch (FsReadStatus n) w) = w" for ch
    by (cases "ch_fate ch"; auto simp: react_def Let_def split: option.splits)+
  then show ?thesis
    by (auto simp: LoadFiles_def LoadStatus_def split: sum.splits prod.splits resp.splits) (metis snd_conv)+
qed

lemma run_get: "\<exists>chs' got. run (GetRow n) chs w = (got, chs', w) \<and> (\<forall>tx. got = Inr tx \<longrightarrow> row w n = Some tx)"
  by (cases "ch_fate (chs 0)") (auto simp: GetRow_def react_def Let_def row_def split: option.splits)

text \<open>A program on one transaction that leaves the table and the other directories as they are.\<close>

definition only_files :: "string \<Rightarrow> net_world \<Rightarrow> net_world \<Rightarrow> bool" where
  "only_files n w w' \<longleftrightarrow> na_rows w' = na_rows w \<and> (\<forall>k. k \<noteq> n \<longrightarrow> na_dirs w' k = na_dirs w k)"

definition leaves :: "string \<Rightarrow> 'a prog \<Rightarrow> bool" where
  "leaves n p \<longleftrightarrow> (\<forall>chs w. only_files n w (snd (snd (run p chs w))))"

lemma leaves_Ret: "leaves n (Ret x)"
  by (simp add: leaves_def only_files_def)

lemma leaves_and_then: "leaves n p \<Longrightarrow> (\<And>x. leaves n (f x)) \<Longrightarrow> leaves n (and_then p f)"
  unfolding leaves_def run_and_then only_files_def by (simp add: case_prod_beta)

lemma leaves_on_error: "leaves n p \<Longrightarrow> (\<And>er. leaves n (f er)) \<Longrightarrow> leaves n k \<Longrightarrow> leaves n (on_error p f k)"
  unfolding on_error_def by (rule leaves_and_then) (auto split: option.splits)

lemma leaves_calls: "leaves n (do_call (BkRollback m dir))" "leaves n (SetPhase e n ph)" "leaves n (LoadFiles e n)"
proof -
  have "na_rows (snd (react ch (BkRollback m dir) w)) = na_rows w" "na_dirs (snd (react ch (BkRollback m dir) w)) = na_dirs w" for ch w
    by (cases "ch_fate ch"; simp add: react_def Let_def log_event_def)+
  then show "leaves n (do_call (BkRollback m dir))" by (simp add: leaves_def do_call_def only_files_def case_prod_beta)
  have "na_rows (snd (react ch (FsWriteStatus n ph) w)) = na_rows w"
    "k \<noteq> n \<Longrightarrow> na_dirs (snd (react ch (FsWriteStatus n ph) w)) k = na_dirs w k" for ch w k
    by (cases "ch_fate ch"; auto simp: react_def Let_def split: option.splits)+
  then show "leaves n (SetPhase e n ph)"
    by (auto simp: leaves_def SetPhase_def do_call_def only_files_def case_prod_beta split: sum.splits)
  show "leaves n (LoadFiles e n)" by (simp add: leaves_def run_load_quiet only_files_def)
qed

lemmas leaves_intros = leaves_Ret leaves_and_then leaves_on_error leaves_calls

lemma rollback_leaves: "leaves n (RollbackFromDisk e n)"
proof -
  have "leaves n (rollback_files e n got)" for got
    by (auto simp: rollback_files_def split: sum.splits intro!: leaves_intros)
  then show ?thesis unfolding RollbackFromDisk_def by (intro leaves_intros)
qed

text \<open>The transaction that was cut off is the only unfinished one, and it is still being prepared.\<close>

lemma torn_row:
  assumes inv: "net_inv e w" and "torn w"
  obtains r where "filter is_unfinished (na_rows w) = [r]" "r \<in> set (na_rows w)" "is_unfinished r"
    "manifest_file w (at_id r) = None \<or> status_file w (at_id r) = None"
    "\<And>n q. row w n = Some q \<Longrightarrow> at_state q = StatePreparing \<or> \<not> is_unfinished q"
    "\<And>n q. row w n = Some q \<Longrightarrow> n \<noteq> at_id r \<Longrightarrow> \<not> is_unfinished q"
proof -
  obtain r where r: "r \<in> set (na_rows w)" "is_unfinished r" "manifest_file w (at_id r) = None \<or> status_file w (at_id r) = None"
    using assms(2) unfolding torn_def by (elim bexE conjE)
  then obtain r' where r': "filter is_unfinished (na_rows w) = [r']" using single_unfinished[OF inv] by (auto simp: filter_empty_conv)
  have "set (filter is_unfinished (na_rows w)) = {r'}" by (simp only: r' list.set)
  then have only: "q = r'" if "q \<in> set (na_rows w)" "is_unfinished q" for q using that by auto
  then have same: "r' = r" using r by blast
  have mem: "q \<in> set (na_rows w)" "at_id q = n" if "row w n = Some q" for n q using find_row_Some that by (auto simp: row_def)
  have "row w (at_id r) = Some r" using find_row_mem[OF _ r(1)] inv by (simp add: net_inv_def row_def)
  from net_inv_row[OF inv this] have "\<not> live r" using r(3) by (auto simp: files_ok_def)
  then have prep: "at_state r = StatePreparing" using r(2) by (auto simp: live_def is_unfinished_def unfinished_states_def)
  show ?thesis
  proof (rule that[of r])
    fix n q
    assume "row w n = Some q"
    note q = mem[OF this] only[of q]
    show "at_state q = StatePreparing \<or> \<not> is_unfinished q" using q prep same by blast
    show "\<not> is_unfinished q" if "n \<noteq> at_id r" using q same that by blast
  qed (use r r' same in auto)
qed

lemma torn_recover:
  assumes "net_inv e w" "torn w"
  shows "\<exists>er chs'. run (Recover e) chs w = (Some er, chs', w)"
proof (cases "validate e = None \<and> ch_fate (chs 0) = Works")
  case True
  obtain r where r: "filter is_unfinished (na_rows w) = [r]" "manifest_file w (at_id r) = None \<or> status_file w (at_id r) = None"
    by (rule torn_row[OF assms]) blast
  obtain er chs' where "run (recover_item e r None) (\<lambda>i. chs (Suc i)) w = ((None, [er]), chs', w)"
    using run_load_missing[OF r(2), of e "\<lambda>i. chs (Suc i)"] by (auto simp: recover_item_def recover_files_def run_and_then)
  with True show ?thesis
    by (simp add: Recover_def ListUnfinished_def react_works run_and_then unfinished_rows_small(2)[OF r(1)])
next
  case False
  then show ?thesis
    by (cases "ch_fate (chs 0)") (auto simp: Recover_def ListUnfinished_def react_def Let_def split: option.splits)
qed

lemma torn_stage:
  assumes "net_inv e w" "torn w"
  shows "\<exists>er chs'. run (Stage e c) chs w = (Inl er, chs', w)"
proof -
  obtain r where "r \<in> set (na_rows w)" "is_unfinished r" by (rule torn_row[OF assms]) blast
  then show ?thesis using unfinished_blocks_stage by blast
qed

lemma torn_apply_confirm:
  assumes "net_inv e w" "torn w"
  shows "snd (snd (run (Apply e n) chs w)) = w" "snd (snd (run (Confirm e n ev) chs w)) = w"
proof -
  have "at_state q = StatePreparing \<or> \<not> is_unfinished q" if "row w n = Some q" for q by (rule torn_row[OF assms]) (use that in blast)
  then have st: "at_state q \<noteq> StateArmed \<and> at_state q \<noteq> StateApplied" if "row w n = Some q" for q
    using that by (fastforce simp: is_unfinished_def unfinished_states_def)
  obtain chs' got where g: "run (GetRow n) chs w = (got, chs', w)" "\<And>tx. got = Inr tx \<Longrightarrow> row w n = Some tx"
    using run_get by blast
  show "snd (snd (run (Apply e n) chs w)) = w" "snd (snd (run (Confirm e n ev) chs w)) = w"
    using g st by (auto simp: Apply_def Confirm_def apply_row_def confirm_row_def run_and_then split: option.splits sum.splits)
qed

lemma torn_timer:
  assumes "net_inv e w" "torn w"
  shows "only_files n w (snd (snd (run (network_rollback e opened n) chs w))) \<and> torn (snd (snd (run (network_rollback e opened n) chs w)))"
proof -
  obtain r where r: "r \<in> set (na_rows w)" "is_unfinished r" "manifest_file w (at_id r) = None \<or> status_file w (at_id r) = None"
    "\<And>n q. row w n = Some q \<Longrightarrow> n \<noteq> at_id r \<Longrightarrow> \<not> is_unfinished q"
    by (rule torn_row[OF assms]) blast
  show ?thesis
  proof (cases "n = at_id r")
    case True
    obtain er chs' where "run (LoadFiles e n) chs w = (Inl er, chs', w)" using run_load_missing r(3) True by blast
    then show ?thesis using assms(2) by (simp add: network_rollback_def run_and_then only_files_def)
  next
    case False
    have after: "only_files n w' (snd (snd (run (after_rollback opened n changed) chs w')))" if "na_rows w' = na_rows w" for changed w' chs
    proof -
      obtain chs' got where g: "run (GetRow n) chs w' = (got, chs', w')" "\<And>tx. got = Inr tx \<Longrightarrow> row w' n = Some tx"
        using run_get by blast
      moreover have "row w' n = row w n" using that by (simp add: row_def)
      ultimately have "\<And>tx. got = Inr tx \<Longrightarrow> at_state tx \<notin> set unfinished_states" using r(4) False by (auto simp: is_unfinished_def)
      then show ?thesis using g(1)
        by (auto simp: after_rollback_def finish_rollback_def run_and_then only_files_def split: sum.splits)
    qed
    have rb: "only_files n w (snd (snd (run (RollbackFromDisk e n) chs w)))" for chs using rollback_leaves by (simp add: leaves_def)
    have "only_files n w (snd (snd (run (and_then (RollbackFromDisk e n) (after_rollback opened n)) chs w)))" for chs
      using rb[of chs] after[of "snd (snd (run (RollbackFromDisk e n) chs w))"] by (auto simp: run_and_then only_files_def case_prod_beta)
    then have keep: "only_files n w (snd (snd (run (network_rollback e opened n) chs w)))"
      using run_load_quiet[of e n chs w]
      by (auto simp: network_rollback_def run_and_then only_files_def case_prod_beta split: sum.splits)
    then have "torn (snd (snd (run (network_rollback e opened n) chs w)))"
      using r(1-3) False unfolding torn_def only_files_def manifest_file_def status_file_def by auto
    with keep show ?thesis by blast
  qed
qed

text \<open>
  Property C39 (a torn transaction blocks every change). In a reachable world with a transaction whose creator died after its row was
  committed and before both files of its directory were written, \<open>Recover\<close> fails and changes nothing, however its calls turn out,
  \<open>Stage\<close> refuses every candidate, and no operation of the program, run from there under any choices of the environment, changes
  the table or ends that state.
\<close>

theorem torn_blocks_changes:
  assumes "net_reachable e (w, ps)" "torn w"
  shows "(\<exists>er. fst (run (Recover e) chs w) = Some er) \<and> (\<exists>er. fst (run (Stage e c) chs w) = Inl er)
    \<and> (let w' = snd (snd (run (start e x) chs w)) in na_rows w' = na_rows w \<and> torn w')"
proof -
  have inv: "net_inv e w" by (rule net_reachable_inv[OF assms(1)])
  note t = torn_recover[OF inv assms(2)] torn_stage[OF inv assms(2)]
  have "na_rows (snd (snd (run (start e x) chs w))) = na_rows w \<and> torn (snd (snd (run (start e x) chs w)))"
  proof (cases x)
    case (OpStage d)
    then show ?thesis using t(2)[of d chs] assms(2) by (auto simp: run_map)
  next
    case (OpPrepare d)
    then show ?thesis using t(2)[of d chs] assms(2) by (auto simp: Prepare_def run_map run_and_then)
  next
    case OpRecover
    then show ?thesis using t(1)[of chs] assms(2) by (auto simp: run_map)
  next
    case (OpTimer opened n)
    then show ?thesis using torn_timer[OF inv assms(2)] by (simp add: run_map case_prod_beta only_files_def)
  qed (use torn_apply_confirm[OF inv assms(2)] assms(2) in \<open>simp_all add: run_map case_prod_beta\<close>)
  moreover have "\<exists>er. fst (run (Recover e) chs w) = Some er" "\<exists>er. fst (run (Stage e c) chs w) = Inl er"
    using t(1)[of chs] t(2)[of c chs] by auto
  ultimately show ?thesis by (simp add: Let_def)
qed

section \<open>A commit whose failure is not seen\<close>

lemma run_load_present:
  assumes inv: "net_inv e w" and r: "row w n = Some r" and "manifest_file w n = Some m" "status_file w n = Some (ph, at)"
    and "ch_fate (chs 0) = Works" "ch_fate (chs 1) = Works"
  shows "run (LoadFiles e n) chs w = (Inr (m, ph), (\<lambda>i. chs (Suc (Suc i))), w)"
proof -
  have dir: "Directory e n = Inr (at_dir r)" and "validateManifest (eng_lib e) m = None" "mf_id m = n"
    using net_inv_row[OF inv r] row_id[OF r] assms(3) by (auto simp: row_ok_def files_ok_def manifestCoreMatchesTransaction_def)
  moreover have "status_ok w n (ph, at)" using inv assms(4) unfolding net_inv_def by blast
  moreover have "react (chs 0) (FsReadManifest n) w = (ManifestFile m, w)" "react (chs 1) (FsReadStatus n) w = (StatusFile ph at, w)"
    using assms(3-6) by (auto simp: react_works manifest_file_def status_file_def split: option.splits)
  ultimately show ?thesis by (simp add: LoadFiles_def LoadStatus_def status_ok_def)
qed

lemma commit_failure_unseen:
  assumes "safeID (at_id r)" "Directory e (at_id r) = Inr dir" "na_dirs w (at_id r) = Some d"
    and un: "filter is_unfinished (na_rows w) = [r]" "distinct (map at_id (na_rows w))"
    and "ch_fate (chs 0) = Works" "ch_fate (chs 1) = FailsBefore" "works (\<lambda>i. chs (Suc (Suc i)))"
  shows "\<exists>chs' w' now. run (recover_confirming e r m dir None) chs w = ((None, []), chs', w')
    \<and> row w' (at_id r) = Some (moved now StateConfirmed [] r) \<and> na_log w' = Committing m dir # Disarmed (at_id r) # na_log w"
proof -
  let ?w2 = "log_event (Committing m dir) (log_event (Disarmed (at_id r)) w)"
  let ?w3 = "?w2\<lparr>na_dirs := (na_dirs ?w2)(at_id r \<mapsto> d\<lparr>ad_status := Some (PhaseConfirmed, format_time (ch_time (chs 2)))\<rparr>)\<rparr>"
  have disarm: "run (DisarmTimer (at_id r)) chs w = (None, (\<lambda>i. chs (Suc i)), log_event (Disarmed (at_id r)) w)"
    using assms(1,6) by (simp add: DisarmTimer_def do_call_def react_works failure_def)
  have commit: "run (do_call (BkCommit m dir)) (\<lambda>i. chs (Suc i)) (log_event (Disarmed (at_id r)) w) = (Some ErrDriver, (\<lambda>i. chs (Suc (Suc i))), ?w2)"
    using assms(7) by (simp add: do_call_def react_def failure_def)
  have phase: "run (SetPhase e (at_id r) PhaseConfirmed) (\<lambda>i. chs (Suc (Suc i))) ?w2 = (None, (\<lambda>i. chs (Suc (Suc (Suc i)))), ?w3)"
    by (subst run_phase[OF assms(8) assms(2), of _ d]) (simp_all add: log_event_def assms(3) eval_nat_numeral validPhase_def)
  obtain w' where w': "run (Transition (at_id r) [at_state r] StateConfirmed []) (\<lambda>i. chs (Suc (Suc (Suc i)))) ?w3
      = (None, (\<lambda>i. chs (Suc (Suc (Suc (Suc i))))), w')"
    "\<exists>now. row w' (at_id r) = Some (moved now StateConfirmed [] r)" "na_log w' = na_log ?w3"
    by (rule run_finish[OF works_tail[OF assms(8)], of ?w3 r StateConfirmed "[]"]) (use un assms(1) in \<open>auto simp: log_event_def\<close>)
  have "run (recover_confirming e r m dir None) chs w = ((None, []), (\<lambda>i. chs (Suc (Suc (Suc (Suc i))))), w')"
    using w'(1) by (simp add: recover_confirming_def run_and_then run_on_error disarm commit phase)
  with w'(2,3) show ?thesis by (auto simp: log_event_def)
qed

text \<open>
  Property C40 (a failed commit is reported as done). Let a process have died after it had written that it was confirming. If the backend's
  commit then fails during the recovery and everything else works, \<open>Recover\<close> reports no error and the transaction is marked as confirmed,
  although the commit was only attempted: the recovery looks at the outer \<open>err\<close>, and the failure is in one it has shadowed.
\<close>

theorem recover_hides_commit_failure:
  assumes reach: "net_reachable e (w, ps)" and valid: "validate e = None" and r: "r \<in> set (na_rows w)" "is_unfinished r"
    and files: "manifest_file w (at_id r) = Some m" "status_file w (at_id r) = Some (PhaseConfirming, at)"
    and chs: "\<forall>i. good_time (ch_time (chs i)) \<and> ch_fate (chs i) = (if i = 4 then FailsBefore else Works)"
  shows "\<exists>chs' w' now. run (Recover e) chs w = (None, chs', w') \<and> row w' (at_id r) = Some (moved now StateConfirmed [] r)
    \<and> na_log w' = Committing m (at_dir r) # Disarmed (at_id r) # na_log w"
proof -
  have inv: "net_inv e w" by (rule net_reachable_inv[OF reach])
  have dist: "distinct (map at_id (na_rows w))" using inv by (simp add: net_inv_def)
  have row: "row w (at_id r) = Some r" using find_row_mem[OF dist r(1)] by (simp add: row_def)
  have dir: "Directory e (at_id r) = Inr (at_dir r)" and fok: "files_ok e w r"
    using net_inv_row[OF inv row] by (auto simp: row_ok_def)
  have safe: "safeID (at_id r)" using dir by (auto simp: Directory_def split: if_splits)
  obtain d where d: "na_dirs w (at_id r) = Some d" using files(1) by (auto simp: manifest_file_def split: option.splits)
  have match: "manifestMatchesTransaction m r (at_dir r) \<or> at_state r = StatePreparing \<and> manifestCoreMatchesTransaction m r (at_dir r)"
    using fok files r(2) by (auto simp: files_ok_def manifestMatchesTransaction_def live_def is_unfinished_def unfinished_states_def)
  have "r \<in> set (filter is_unfinished (na_rows w))" using r by simp
  moreover obtain r' where r': "filter is_unfinished (na_rows w) = [r']"
    using single_unfinished[OF inv] r by (auto simp: filter_empty_conv)
  ultimately have un: "filter is_unfinished (na_rows w) = [r]" by (simp only: r' list.set) simp
  have load: "run (LoadFiles e (at_id r)) (\<lambda>i. chs (Suc i)) w = (Inr (m, PhaseConfirming), (\<lambda>i. chs (Suc (Suc (Suc i)))), w)"
    by (rule run_load_present[OF inv row files]) (simp_all add: chs)
  have "works (\<lambda>i. chs (Suc (Suc (Suc (Suc (Suc i))))))" using chs by (simp add: works_def)
  then obtain chs' w' now where f: "run (recover_confirming e r m (at_dir r) None) (\<lambda>i. chs (Suc (Suc (Suc i)))) w = ((None, []), chs', w')"
    "row w' (at_id r) = Some (moved now StateConfirmed [] r)" "na_log w' = Committing m (at_dir r) # Disarmed (at_id r) # na_log w"
    using commit_failure_unseen[OF safe dir d un dist, of "\<lambda>i. chs (Suc (Suc (Suc i)))" m] chs by auto
  have "run (recover_item e r None) (\<lambda>i. chs (Suc i)) w = ((None, []), chs', w')"
    using load f(1) dir match by (auto simp: recover_item_def recover_files_def recover_loaded_def run_and_then)
  then have "run (Recover e) chs w = (None, chs', w')"
    using chs valid by (simp add: Recover_def ListUnfinished_def react_works run_and_then unfinished_rows_small(2)[OF un])
  with f(2,3) show ?thesis by blast
qed

end
