(* ===== verification/Network_Progress.thy ===== *)
theory Network_Progress
  imports Network_Faults
begin

text \<open>
  Progress of the network apply protocol: when nothing else runs, the calls work and the clock stays in a window, a change of the
  LAN address is staged, applied and confirmed. \<open>succeeds\<close> is the weakest precondition of a program under such choices; its rules
  follow one transaction \<open>tx\<close>, the last row of the table, with its directory and the events since the start.
\<close>

section \<open>Programs whose calls work\<close>

definition calm :: "instant \<Rightarrow> instant \<Rightarrow> choice \<Rightarrow> bool" where
  "calm lo hi ch \<longleftrightarrow> ch_fate ch = Works \<and> good_time (ch_time ch) \<and> lo \<le> ch_time ch \<and> ch_time ch \<le> hi"

definition succeeds :: "instant \<Rightarrow> instant \<Rightarrow> 'a prog \<Rightarrow> ('a \<Rightarrow> net_world \<Rightarrow> bool) \<Rightarrow> net_world \<Rightarrow> bool" where
  "succeeds lo hi p Q w \<longleftrightarrow> (\<forall>chs. (\<forall>i. calm lo hi (chs i)) \<longrightarrow> (case run p chs w of (x, chs', w') \<Rightarrow> (\<forall>i. calm lo hi (chs' i)) \<and> Q x w'))"

lemma run_calm: "\<forall>i. calm lo hi (chs i) \<Longrightarrow> calm lo hi (fst (snd (run p chs w)) i)"
  by (induction p arbitrary: chs w) (auto split: prod.splits)

lemma succeeds_Ret: "Q x w \<Longrightarrow> succeeds lo hi (Ret x) Q w"
  by (simp add: succeeds_def)

lemma succeeds_Call:
  assumes "\<And>ch r w'. calm lo hi ch \<Longrightarrow> perform ch c (attempted c w) = (r, w') \<Longrightarrow> succeeds lo hi (k r) Q w'"
  shows "succeeds lo hi (Call c k) Q w"
  unfolding succeeds_def
proof (intro allI impI)
  fix chs :: "nat \<Rightarrow> choice"
  assume c: "\<forall>i. calm lo hi (chs i)"
  obtain r w' where p: "perform (chs 0) c (attempted c w) = (r, w')" by force
  have "react (chs 0) c w = (r, w')" using c p by (simp add: react_works calm_def)
  then show "case run (Call c k) chs w of (x, chs', w') \<Rightarrow> (\<forall>i. calm lo hi (chs' i)) \<and> Q x w'"
    using assms[of "chs 0", OF _ p] c unfolding succeeds_def by simp
qed

lemma succeeds_and_then: "succeeds lo hi p (\<lambda>x. succeeds lo hi (f x) Q) w \<Longrightarrow> succeeds lo hi (and_then p f) Q w"
  unfolding succeeds_def run_and_then by (simp add: case_prod_beta)

lemma succeeds_map: "succeeds lo hi p (\<lambda>x. Q (f x)) w \<Longrightarrow> succeeds lo hi (map_prog f p) Q w"
  unfolding succeeds_def run_map by (simp add: case_prod_beta)

lemma succeeds_on_error: "succeeds lo hi p (\<lambda>err w'. err = None \<and> succeeds lo hi k Q w') w \<Longrightarrow> succeeds lo hi (on_error p f k) Q w"
  unfolding succeeds_def run_on_error by (simp add: case_prod_beta)

lemma succeeds_do_call:
  assumes "\<And>ch. calm lo hi ch \<Longrightarrow> \<exists>r w'. perform ch c (attempted c w) = (r, w') \<and> Q (failure r) w'"
  shows "succeeds lo hi (do_call c) Q w"
  unfolding do_call_def by (rule succeeds_Call, rule succeeds_Ret) (use assms in fastforce)

lemma succeeds_run:
  assumes "succeeds lo hi p Q w" "\<forall>i. calm lo hi (chs i)"
  obtains x chs' w' where "run p chs w = (x, chs', w')" "Q x w'"
  using assms unfolding succeeds_def by (cases "run p chs w") fastforce

section \<open>One transaction\<close>

definition tracked :: "net_world \<Rightarrow> apply_transaction \<Rightarrow> apply_dir \<Rightarrow> net_event list \<Rightarrow> net_world" where
  "tracked w tx d es = \<lparr>na_rows = na_rows w @ [tx], na_dirs = (na_dirs w)(at_id tx \<mapsto> d), na_log = es @ na_log w\<rparr>"

lemma row_tracked: "row w (at_id tx) = None \<Longrightarrow> row (tracked w tx d es) (at_id tx) = Some tx"
  by (simp add: row_def tracked_def find_row_snoc)

lemma update_where_tracked:
  assumes "row w (at_id tx) = None" "P tx"
  shows "update_where (\<lambda>r. at_id r = at_id tx \<and> P r) f (na_rows w @ [tx]) = Inr (na_rows w @ [f tx])"
proof -
  have no: "at_id r \<noteq> at_id tx" if "r \<in> set (na_rows w)" for r
    using assms(1) that by (auto simp: row_def find_row_def find_None_iff)
  then have "filter (\<lambda>r. at_id r = at_id tx \<and> P r) (na_rows w) = []" by (auto simp: filter_empty_conv)
  moreover have "map (\<lambda>r. if at_id r = at_id tx \<and> P r then f r else r) (na_rows w) = na_rows w"
    by (rule map_idI) (use no in auto)
  ultimately show ?thesis using assms(2) by (simp add: update_where_def)
qed

lemma succeeds_phase:
  assumes "safeID (at_id tx)" "\<not> blank (eng_root e)" "validPhase ph"
    and "\<And>t. good_time t \<Longrightarrow> Q None (tracked w tx (d\<lparr>ad_status := Some (ph, format_time t)\<rparr>) es)"
  shows "succeeds lo hi (SetPhase e (at_id tx) ph) Q (tracked w tx d es)"
  using assms(1-3) unfolding SetPhase_def Directory_def
  by (simp, intro succeeds_do_call) (use assms(4) in \<open>auto simp: tracked_def failure_def calm_def\<close>)

lemma succeeds_transition:
  assumes "row w (at_id tx) = None" "safeID (at_id tx)" "validState st" "list_all validState expected" "at_state tx \<in> set expected"
    and "\<And>t. Q None (tracked w (moved t st [] tx) d es)"
  shows "succeeds lo hi (Transition (at_id tx) expected st []) Q (tracked w tx d es)"
proof -
  have ne: "expected \<noteq> []" using assms(5) by auto
  have "perform ch (DbTransition (at_id tx) expected st []) (tracked w tx d es) = (Ok, tracked w (moved (format_time (ch_time ch)) st [] tx) d es)" for ch
    using update_where_tracked[OF assms(1), of "\<lambda>r. at_state r \<in> set expected"] assms(5)
    by (simp add: tracked_def set_rows_def moved_def)
  then show ?thesis using assms(2-4,6) ne unfolding Transition_def by (simp, intro succeeds_do_call) (simp add: failure_def)
qed

lemma succeeds_event:
  assumes "\<And>ch. perform ch c (attempted c (tracked w tx d es)) = (Ok, tracked w tx d (es' @ es))"
    and "Q None (tracked w tx d (es' @ es))"
  shows "succeeds lo hi (do_call c) Q (tracked w tx d es)"
  by (rule succeeds_do_call) (simp add: assms failure_def)

lemma succeeds_clock:
  assumes "\<And>t. good_time t \<Longrightarrow> lo \<le> t \<Longrightarrow> t \<le> hi \<Longrightarrow> succeeds lo hi (k (Time t)) Q w"
  shows "succeeds lo hi (Call Clock k) Q w"
  by (rule succeeds_Call) (use assms in \<open>auto simp: calm_def\<close>)

lemma succeeds_get:
  assumes "row w (at_id tx) = None" "Q (Inr tx) (tracked w tx d es)"
  shows "succeeds lo hi (GetRow (at_id tx)) Q (tracked w tx d es)"
  unfolding GetRow_def
  by (rule succeeds_Call, rule succeeds_Ret) (use assms row_tracked[OF assms(1), of d es] in \<open>auto simp: row_def\<close>)

lemma succeeds_load:
  assumes "safeID (at_id tx)" "\<not> blank (eng_root e)" "validateManifest (eng_lib e) m = None" "mf_id m = at_id tx"
    and "validPhase ph" "good_time t"
    and "d = \<lparr>ad_manifest = Some m, ad_status = Some (ph, format_time t)\<rparr>" "Q (Inr (m, ph)) (tracked w tx d es)"
  shows "succeeds lo hi (LoadFiles e (at_id tx)) Q (tracked w tx d es)"
proof -
  have t: "parse_time (format_time t) = Some t" using assms(6) by (simp add: good_time_def parse_format_time)
  have "succeeds lo hi (LoadStatus m (at_id tx)) Q (tracked w tx d es)"
    unfolding LoadStatus_def
    by (rule succeeds_Call, rule succeeds_Ret) (use assms(5,7,8) t in \<open>auto simp: tracked_def\<close>)
  then show ?thesis
    using assms(1-4) unfolding LoadFiles_def Directory_def
    by (simp, intro succeeds_Call) (use assms(7) in \<open>auto simp: tracked_def\<close>)
qed

end
