(* ===== verification/Network_Success.thy ===== *)
theory Network_Success
  imports Network_Progress
begin

text \<open>
  A change of the LAN address that is staged, applied and confirmed in time is made permanent: each of the three operations, run
  alone with calls that work, returns without an error, and the transaction ends as confirmed.
\<close>

section \<open>Applying and confirming\<close>

text \<open>The transaction \<open>tx\<close> and its directory agree, in a given state of the row and phase of the files.\<close>

definition at_phase :: "net_engine \<Rightarrow> net_world \<Rightarrow> manifest \<Rightarrow> apply_transaction \<Rightarrow> string \<Rightarrow> string \<Rightarrow> net_event list \<Rightarrow> net_world \<Rightarrow> bool" where
  "at_phase e w m tx st ph es w' \<longleftrightarrow> (\<exists>t. good_time t
       \<and> w' = tracked w tx \<lparr>ad_manifest = Some m, ad_status = Some (ph, format_time t)\<rparr> es)
     \<and> at_state tx = st \<and> row w (at_id tx) = None \<and> Directory e (at_id tx) = Inr (at_dir tx)
     \<and> manifestMatchesTransaction m tx (at_dir tx) \<and> validateManifest (eng_lib e) m = None"

lemma moved_same: "at_id (moved t st c tx) = at_id tx" "at_dir (moved t st c tx) = at_dir tx" "at_state (moved t st c tx) = st"
  "at_deadline (moved t st c tx) = at_deadline tx" "at_token_sha256 (moved t st c tx) = at_token_sha256 tx"
  "at_destination (moved t st c tx) = at_destination tx"
  "manifestMatchesTransaction m (moved t st c tx) d = manifestMatchesTransaction m tx d"
  by (simp_all add: moved_def manifestMatchesTransaction_def manifestCoreMatchesTransaction_def)

lemma valid_names: "validPhase PhaseCreated" "validPhase PhaseSnapshot" "validPhase PhaseArmed" "validPhase PhaseApplied"
  "validPhase PhaseConfirming" "validPhase PhaseConfirmed"
  "validState StatePreparing" "validState StateArmed" "validState StateApplied" "validState StateConfirming" "validState StateConfirmed"
  by (simp_all add: validPhase_def validState_def)

lemma Directory_parts: "Directory e n = Inr dir \<Longrightarrow> safeID n \<and> \<not> blank (eng_root e)"
  by (auto simp: Directory_def split: if_splits)

lemma backend_event:
  assumes "Q None (tracked w tx d ([Applied m dir, Applying m dir] @ es))"
  shows "succeeds lo hi (do_call (BkApply m dir)) Q (tracked w tx d es)"
  by (rule succeeds_event[of _ _ _ _ _ "[Applied m dir, Applying m dir]"]) (use assms in \<open>simp_all add: tracked_def log_event_def\<close>)

lemma commit_event:
  assumes "Q None (tracked w tx d ([Committed m dir, Committing m dir] @ es))"
  shows "succeeds lo hi (do_call (BkCommit m dir)) Q (tracked w tx d es)"
  by (rule succeeds_event[of _ _ _ _ _ "[Committed m dir, Committing m dir]"]) (use assms in \<open>simp_all add: tracked_def log_event_def\<close>)

lemma disarm_event:
  assumes "safeID n" "Q None (tracked w tx d (Disarmed n # es))"
  shows "succeeds lo hi (DisarmTimer n) Q (tracked w tx d es)"
  unfolding DisarmTimer_def using assms(1)
  by (simp, intro succeeds_event[of _ _ _ _ _ "[Disarmed n]"]) (use assms(2) in \<open>simp_all add: tracked_def log_event_def\<close>)

lemma snapshot_event:
  assumes "Q None (tracked w tx d (Snapshotted m dir # es))"
  shows "succeeds lo hi (do_call (BkSnapshot m dir)) Q (tracked w tx d es)"
  by (rule succeeds_event[of _ _ _ _ _ "[Snapshotted m dir]"]) (use assms in \<open>simp_all add: tracked_def log_event_def\<close>)

lemma apply_succeeds:
  assumes ph: "at_phase e w m tx StateArmed PhaseArmed es w1" and valid: "validate e = None"
    and late: "\<And>t. t \<le> hi \<Longrightarrow> before_deadline (at_deadline tx) t"
  shows "succeeds lo hi (Apply e (at_id tx)) (\<lambda>err w2. err = None \<and> (\<exists>tx'. at_phase e w m tx' StateApplied PhaseApplied
     (Applied m (at_dir tx) # Applying m (at_dir tx) # es) w2 \<and> (\<exists>now. tx' = moved now StateApplied [] tx))) w1"
proof -
  obtain t where w1: "good_time t" "w1 = tracked w tx \<lparr>ad_manifest = Some m, ad_status = Some (PhaseArmed, format_time t)\<rparr> es"
    and tx: "at_state tx = StateArmed" "row w (at_id tx) = None" "Directory e (at_id tx) = Inr (at_dir tx)"
      "manifestMatchesTransaction m tx (at_dir tx)" "validateManifest (eng_lib e) m = None"
    using ph unfolding at_phase_def by blast
  have safe: "safeID (at_id tx)" "\<not> blank (eng_root e)" using Directory_parts[OF tx(3)] by auto
  have id: "mf_id m = at_id tx" using tx(4) by (simp add: manifestMatchesTransaction_def manifestCoreMatchesTransaction_def)
  note rules = succeeds_on_error backend_event succeeds_phase[OF safe] succeeds_transition[OF tx(2) safe(1)] succeeds_Ret
  let ?Q = "\<lambda>err w2. err = None \<and> (\<exists>tx'. at_phase e w m tx' StateApplied PhaseApplied
      (Applied m (at_dir tx) # Applying m (at_dir tx) # es) w2 \<and> (\<exists>now. tx' = moved now StateApplied [] tx))"
  have armed: "succeeds lo hi (apply_armed e tx m (at_dir tx)) ?Q w1"
    unfolding apply_armed_def w1(2)
    by (intro rules conjI) (use tx in \<open>auto simp: valid_names at_phase_def moved_same\<close>)
  have loaded: "succeeds lo hi (apply_loaded e tx (Inr (m, PhaseArmed))) ?Q w1"
    using tx(3,4) armed late by (simp add: apply_loaded_def, intro succeeds_clock) (simp add: apply_at_def)
  show ?thesis
    unfolding Apply_def valid w1(2)
    by (simp, intro succeeds_and_then succeeds_get[OF tx(2)])
      (simp add: apply_row_def tx(1), intro succeeds_and_then succeeds_load[OF safe tx(5) id _ w1(1) refl], simp_all add: valid_names loaded[unfolded w1(2)])
qed


lemma confirm_succeeds:
  assumes ph: "at_phase e w m tx StateApplied PhaseApplied es w1" and valid: "validate e = None"
    and late: "\<And>t. t \<le> hi \<Longrightarrow> before_deadline (at_deadline tx) t"
    and ev: "token_matches (eng_lib e) tx (ce_token ev)" "source_ok (eng_lib e) tx m ev"
  shows "succeeds lo hi (Confirm e (at_id tx) ev) (\<lambda>err w2. err = None \<and> (\<exists>now accepted. at_phase e w m (moved now StateConfirmed [] tx)
     StateConfirmed PhaseConfirmed (Committed m (at_dir tx) # Committing m (at_dir tx) # Disarmed (at_id tx) # Accepted tx m ev accepted # es) w2)) w1"
proof -
  obtain t where w1: "good_time t" "w1 = tracked w tx \<lparr>ad_manifest = Some m, ad_status = Some (PhaseApplied, format_time t)\<rparr> es"
    and tx: "at_state tx = StateApplied" "row w (at_id tx) = None" "Directory e (at_id tx) = Inr (at_dir tx)"
      "manifestMatchesTransaction m tx (at_dir tx)" "validateManifest (eng_lib e) m = None"
    using ph unfolding at_phase_def by blast
  have safe: "safeID (at_id tx)" "\<not> blank (eng_root e)" using Directory_parts[OF tx(3)] by auto
  have id: "mf_id m = at_id tx" using tx(4) by (simp add: manifestMatchesTransaction_def manifestCoreMatchesTransaction_def)
  let ?d = "\<lparr>ad_manifest = Some m, ad_status = Some (PhaseApplied, format_time t)\<rparr>"
  let ?Q = "\<lambda>err w2. err = None \<and> (\<exists>now accepted. at_phase e w m (moved now StateConfirmed [] tx)
     StateConfirmed PhaseConfirmed (Committed m (at_dir tx) # Committing m (at_dir tx) # Disarmed (at_id tx) # Accepted tx m ev accepted # es) w2)"
  have commit: "succeeds lo hi (on_error (DisarmTimer (at_id tx)) f (on_error (do_call (BkCommit m (at_dir tx))) g
     (on_error (SetPhase e (at_id tx) PhaseConfirmed) h (on_error (Transition (at_id tx) [StateConfirming] StateConfirmed []) i (Ret None)))))
     ?Q (tracked w (moved n0 StateConfirming [] tx) (?d\<lparr>ad_status := Some (PhaseConfirming, s)\<rparr>) (Accepted tx m ev now # es))" for f g h i n0 s now
  proof -
    let ?tx = "moved n0 StateConfirming [] tx"
    have t': "row w (at_id ?tx) = None" "safeID (at_id ?tx)" using tx safe by (simp_all add: moved_same)
    note rules = succeeds_on_error disarm_event[OF safe(1)] commit_event succeeds_phase[OF t'(2) safe(2), unfolded moved_same]
      succeeds_transition[OF t', unfolded moved_same] succeeds_Ret
    have twice: "moved n1 StateConfirmed [] ?tx = moved n1 StateConfirmed [] tx" for n1 by (simp add: moved_def)
    show ?thesis by (intro rules conjI) (use tx in \<open>auto simp: valid_names at_phase_def moved_same twice\<close>)
  qed
  have accepted: "succeeds lo hi (confirm_accepted e tx m (at_dir tx)) ?Q (tracked w tx ?d (Accepted tx m ev now # es))" for now
    unfolding confirm_accepted_def Let_def
    by (intro succeeds_on_error succeeds_phase[OF safe] succeeds_transition[OF tx(2) safe(1)] conjI commit) (use tx in \<open>auto simp: valid_names\<close>)
  have loaded: "succeeds lo hi (confirm_loaded e tx ev now (Inr (m, PhaseApplied))) ?Q (tracked w tx ?d es)" for now
    using tx(3,4) ev(2) accepted[of now]
    by (simp add: confirm_loaded_def, intro succeeds_Call) (auto simp: tracked_def log_event_def)
  have at: "succeeds lo hi (confirm_at e tx ev (Time now)) ?Q (tracked w tx ?d es)" if "now \<le> hi" for now
    using late[OF that] ev(1)
    by (simp add: confirm_at_def, intro succeeds_and_then succeeds_load[OF safe tx(5) id _ w1(1) refl]) (simp_all add: valid_names loaded)
  show ?thesis
    unfolding Confirm_def valid w1(2)
    by (simp, intro succeeds_and_then succeeds_get[OF tx(2)]) (simp add: confirm_row_def tx(1), intro succeeds_clock at)
qed

section \<open>Staging\<close>

definition lan_manifest :: "net_lib \<Rightarrow> net_candidate \<Rightarrow> prefix \<Rightarrow> prefix \<Rightarrow> manifest" where
  "lan_manifest L c old new = empty_manifest\<lparr>mf_schema := LegacyManifestSchema, mf_interface := nc_interface c,
     mf_old_lan := prefix_String L old, mf_new_lan := prefix_String L new, mf_old_url := nc_old_url c, mf_new_url := nc_new_url c,
     mf_destination := addr_String L (fst new)\<rparr>"

definition lan_candidate_ok :: "net_lib \<Rightarrow> net_candidate \<Rightarrow> prefix \<Rightarrow> prefix \<Rightarrow> bool" where
  "lan_candidate_ok L c old new \<longleftrightarrow> nc_topology c = None \<and> nc_ethernet c = None \<and> nc_old_url c \<noteq> [] \<and> nc_new_url c \<noteq> []
     \<and> validateLANCandidate L (nc_interface c) (nc_old_lan c) (nc_new_lan c) (nc_old_url c) (nc_new_url c) = Inr (old, new)
     \<and> Is4 (fst old) \<and> Is4 (fst new)"

lemma prefix_read_back:
  assumes "ParsePrefix L s = Some p" "Is4 (fst p)"
  shows "ParsePrefix L (prefix_String L p) = Some p"
proof -
  obtain w n where p: "p = (Addr4 w, n)" using assms(2) by (cases p) (auto simp: Is4_def split: addr.splits)
  have "n \<le> 32" using assms(1) p by (auto simp: ParsePrefix_def Is4_def Let_def split: option.splits if_splits)
  then show ?thesis unfolding p by (rule ParsePrefix_print)
qed

lemma lan_candidate_read_back:
  assumes "validateLANCandidate L i o_lan n_lan ou nu = Inr (old, new)" "Is4 (fst old)" "Is4 (fst new)"
  shows "validateLANCandidate L i (prefix_String L old) (prefix_String L new) ou nu = Inr (old, new)"
    and "validInterfaceName i"
proof -
  have p: "ParsePrefix L o_lan = Some old" "ParsePrefix L n_lan = Some new" and rest: "validInterfaceName i"
    "\<not> (\<not> validPrivateIPv4LAN L old \<or> \<not> validPrivateIPv4LAN L new \<or> Masked old = Masked new \<or> Overlaps (Masked old) (Masked new))"
    "validateManagementURL L ou (fst old) = None" "validateManagementURL L nu (fst new) = None"
    using assms(1) unfolding validateLANCandidate_def by (auto split: if_splits option.splits)
  show "validateLANCandidate L i (prefix_String L old) (prefix_String L new) ou nu = Inr (old, new)"
    unfolding validateLANCandidate_def prefix_read_back[OF p(1) assms(2)] prefix_read_back[OF p(2) assms(3)] using rest by simp
  show "validInterfaceName i" by (rule rest(1))
qed

lemma print_addr4_nonempty: "print_addr4 w \<noteq> []"
  by (simp add: print_addr4_def octets_def)

lemma lan_manifest_valid:
  assumes c: "lan_candidate_ok L c old new" and "safeID n" "rfc3339_range t" "rfc3339_range d" "t < d" "d - t \<le> 90 * second"
  shows "validateManifest L (stamped (lan_manifest L c old new) n t d) = None"
proof -
  have "addr_String L (fst new) \<noteq> []"
    using c by (auto simp: lan_candidate_ok_def addr_String_def Is4_def print_addr4_nonempty split: addr.splits)
  moreover have "check_deadline (stamped (lan_manifest L c old new) n t d) = None"
    using assms(3-6) by (simp add: check_deadline_def stamped_def parse_format_time time_sub_def second_def max_int64_def min_int64_def)
  moreover have "check_legacy L (stamped (lan_manifest L c old new) n t d) = None"
    using c lan_candidate_read_back[of L "nc_interface c" "nc_old_lan c" "nc_new_lan c" "nc_old_url c" "nc_new_url c" old new]
    by (simp add: check_legacy_def lan_candidate_ok_def stamped_def lan_manifest_def empty_manifest_def)
  ultimately show ?thesis
    using c assms(2) by (simp add: validateManifest_def stamped_def lan_manifest_def lan_candidate_ok_def)
qed

lemma prefix_String_nonempty: "prefix_String L p \<noteq> []"
  by (simp add: prefix_String_def)

lemma create_row_call:
  assumes tx: "safeID (at_id tx)" "at_state tx = StatePreparing" "at_token_sha256 tx \<noteq> []" "at_dir tx \<noteq> []"
      "at_schema tx = LegacyManifestSchema" "at_operation tx = ''LAN_ADDRESS''" "at_candidate_json tx = ''{}''" "validTransactionOperation tx"
  shows "CreateRow tx = do_call (DbCreate tx)"
proof -
  have same: "tx\<lparr>at_schema := LegacyManifestSchema, at_operation := ''LAN_ADDRESS'', at_candidate_json := ''{}''\<rparr> = tx"
    using tx(5-7) by (cases tx) simp
  show ?thesis using tx by (simp add: CreateRow_def Let_def same)
qed

lemma create_row_succeeds:
  assumes free: "filter is_unfinished (na_rows w) = []" "row w (at_id tx) = None"
    and tx: "safeID (at_id tx)" "at_state tx = StatePreparing" "at_token_sha256 tx \<noteq> []" "at_dir tx \<noteq> []"
      "at_schema tx = LegacyManifestSchema" "at_operation tx = ''LAN_ADDRESS''" "at_candidate_json tx = ''{}''" "validTransactionOperation tx"
      "at_error_code tx = None" "at_confirmed_at tx = None" "at_rolled_back_at tx = None"
    and Q: "\<And>t. Q None (w\<lparr>na_rows := na_rows w @ [tx\<lparr>at_created_at := t, at_updated_at := t\<rparr>]\<rparr>)"
  shows "succeeds lo hi (CreateRow tx) Q w"
proof -
  have stamp: "tx\<lparr>at_error_code := None, at_created_at := t, at_updated_at := t, at_confirmed_at := None, at_rolled_back_at := None\<rparr>
      = tx\<lparr>at_created_at := t, at_updated_at := t\<rparr>" for t using tx(9-11) by (cases tx) simp
  have "perform ch (DbCreate tx) w = (Ok, w\<lparr>na_rows := na_rows w @ [tx\<lparr>at_created_at := format_time (ch_time ch), at_updated_at := format_time (ch_time ch)\<rparr>]\<rparr>)" for ch
    using free tx(5,6) by (simp add: insert_transaction_def set_rows_def row_def stamp)
  then have "succeeds lo hi (do_call (DbCreate tx)) Q w" by (intro succeeds_do_call) (simp add: Q failure_def)
  then show ?thesis by (simp only: create_row_call[OF tx(1-8)])
qed

lemma store_create_succeeds:
  assumes "validateManifest (eng_lib e) m = None" "Directory e (mf_id m) = Inr dir" "at_id tx = mf_id m" "na_dirs w (mf_id m) = None"
    and Q: "\<And>t. good_time t \<Longrightarrow> Q (Inr dir) (tracked w tx \<lparr>ad_manifest = Some m, ad_status = Some (PhaseCreated, format_time t)\<rparr> [])"
  shows "succeeds lo hi (StoreCreate e m) Q (w\<lparr>na_rows := na_rows w @ [tx]\<rparr>)"
proof -
  have safe: "safeID (at_id tx)" "\<not> blank (eng_root e)" using Directory_parts[OF assms(2)] assms(3) by auto
  have dir: "eng_root e @ ''/'' @ mf_id m = dir" using assms(2) by (auto simp: Directory_def split: if_splits)
  have eq: "w\<lparr>na_rows := rs, na_dirs := ds\<rparr> = \<lparr>na_rows = rs, na_dirs = ds, na_log = na_log w\<rparr>" for rs ds by (cases w) simp
  let ?w = "\<lambda>x. tracked w tx \<lparr>ad_manifest = x, ad_status = None\<rparr> []"
  have phase: "succeeds lo hi (on_error (SetPhase e (at_id tx) PhaseCreated) g (Ret (Inr dir))) Q (?w (Some m))" for g
    by (intro succeeds_on_error succeeds_phase[OF safe] conjI succeeds_Ret) (use Q in \<open>auto simp: valid_names\<close>)
  have mk: "succeeds lo hi (do_call (FsMkdir (mf_id m))) R (w\<lparr>na_rows := na_rows w @ [tx]\<rparr>)" if "R None (?w None)" for R
    by (rule succeeds_do_call) (use that assms(3,4) in \<open>auto simp: failure_def tracked_def eq\<close>)
  have wr: "succeeds lo hi (do_call (FsWriteManifest (mf_id m) m)) R (?w None)" if "R None (?w (Some m))" for R
    by (rule succeeds_do_call) (use that assms(3) in \<open>auto simp: failure_def tracked_def\<close>)
  show ?thesis
    unfolding StoreCreate_def assms(1) dir using safe(2)
    by (simp, intro succeeds_on_error mk wr conjI refl phase[unfolded assms(3)])
qed


lemma replace_succeeds:
  assumes "safeID (at_id tx)" "\<not> blank (eng_root e)" "validateManifest (eng_lib e) m = None" "validateManifest (eng_lib e) m' = None"
    and "mf_id m = at_id tx" "mf_id m' = at_id tx" "sameManifestCore m m'" "good_time t"
    and "Q None (tracked w tx \<lparr>ad_manifest = Some m', ad_status = Some (PhaseCreated, format_time t)\<rparr> es)"
  shows "succeeds lo hi (ReplaceManifest e m') Q (tracked w tx \<lparr>ad_manifest = Some m, ad_status = Some (PhaseCreated, format_time t)\<rparr> es)"
proof -
  let ?d = "\<lparr>ad_manifest = Some m, ad_status = Some (PhaseCreated, format_time t)\<rparr>"
  have "succeeds lo hi (do_call (FsWriteManifest (at_id tx) m')) Q (tracked w tx ?d es)"
    by (rule succeeds_do_call) (use assms(9) in \<open>auto simp: failure_def tracked_def\<close>)
  then show ?thesis
    unfolding ReplaceManifest_def assms(4,6)
    by (simp, intro succeeds_and_then succeeds_load[OF assms(1-3,5) _ assms(8) refl]) (simp_all add: assms(7) valid_names)
qed

lemma deadline_succeeds:
  assumes "row w (at_id tx) = None" "safeID (at_id tx)" "at_state tx = StatePreparing" "\<not> is_zero d'"
    and "\<And>t. Q None (tracked w (tx\<lparr>at_deadline := format_time d', at_updated_at := t\<rparr>) d es)"
  shows "succeeds lo hi (UpdateDeadline (at_id tx) d') Q (tracked w tx d es)"
proof -
  have "perform ch (DbDeadline (at_id tx) (format_time d')) (tracked w tx d es)
      = (Ok, tracked w (tx\<lparr>at_deadline := format_time d', at_updated_at := format_time (ch_time ch)\<rparr>) d es)" for ch
    using update_where_tracked[OF assms(1), of "\<lambda>r. at_state r = StatePreparing"] assms(3) by (simp add: tracked_def set_rows_def)
  then show ?thesis
    unfolding UpdateDeadline_def using assms(2,4) by (simp, intro succeeds_do_call) (simp add: failure_def assms(5))
qed

lemma arm_succeeds:
  assumes "safeID n" "\<And>t. lo \<le> t \<Longrightarrow> t \<le> hi \<Longrightarrow> 55 * second \<le> d' - t \<and> d' - t \<le> 65 * second"
    and "Q None (tracked w tx d (Armed n d' # es))"
  shows "succeeds lo hi (ArmTimer n d') Q (tracked w tx d es)"
proof -
  have arm: "succeeds lo hi (do_call (TmArm n d')) Q (tracked w tx d es)"
    by (rule succeeds_event[of _ _ _ _ _ "[Armed n d']"]) (use assms(3) in \<open>simp_all add: tracked_def log_event_def\<close>)
  have "\<not> (time_sub d' t < 55 * second \<or> time_sub d' t > 65 * second)" if "lo \<le> t" "t \<le> hi" for t
    using assms(2)[OF that] by (auto simp: time_sub_def second_def max_int64_def min_int64_def)
  then show ?thesis using assms(1) arm by (simp add: ArmTimer_def, intro succeeds_clock) (simp add: Let_def)
qed

lemma stage_snapshotted_succeeds:
  assumes tx: "row w (at_id tx) = None" "at_state tx = StatePreparing" "Directory e (at_id tx) = Inr (at_dir tx)"
    and m: "mf_id m = at_id tx" "manifestCoreMatchesTransaction m tx (at_dir tx)" "validateManifest (eng_lib e) m = None"
      "validateManifest (eng_lib e) (stamped m (at_id tx) arm (arm + eng_rollback_after e)) = None"
    and time: "0 \<le> arm" "eng_rollback_after e = 60 * second" "lo \<le> arm" "arm \<le> hi" "hi - lo \<le> 5 * second" "good_time t"
    and dir: "dir = at_dir tx"
  shows "succeeds lo hi (stage_snapshotted e m dir token arm) (\<lambda>p w'. \<exists>m' tx' p'. p = Inr p'
      \<and> m' = stamped m (at_id tx) arm (arm + eng_rollback_after e)
      \<and> at_phase e w m' tx' StateArmed PhaseArmed (Armed (at_id tx) (arm + eng_rollback_after e) # es) w'
      \<and> core tx' = core tx \<and> at_deadline tx' = format_time (arm + eng_rollback_after e)
      \<and> pr_apply_id p' = at_id tx \<and> pr_token p' = token \<and> pr_deadline p' = arm + eng_rollback_after e)
     (tracked w tx \<lparr>ad_manifest = Some m, ad_status = Some (PhaseCreated, format_time t)\<rparr> es)"
proof -
  let ?dl = "arm + eng_rollback_after e"
  let ?m = "stamped m (at_id tx) arm ?dl"
  let ?tx = "\<lambda>u. tx\<lparr>at_deadline := format_time ?dl, at_updated_at := u\<rparr>"
  have safe: "safeID (at_id tx)" "\<not> blank (eng_root e)" using Directory_parts[OF tx(3)] by auto
  have nz: "\<not> is_zero ?dl" using time(1,2) by (simp add: is_zero_def zero_time_def second_def)
  have mid: "mf_id ?m = at_id tx" by (simp add: stamped_def)
  have same: "sameManifestCore m ?m" using m(1) by (cases m) (simp add: sameManifestCore_def stamped_def)
  have match: "manifestMatchesTransaction ?m (?tx u) (at_dir tx)" for u
    using m(2) by (auto simp: manifestMatchesTransaction_def manifestCoreMatchesTransaction_def stamped_def effectiveOperationKind_def manifestCandidateJSON_def)
  have delay: "55 * second \<le> ?dl - u \<and> ?dl - u \<le> 65 * second" if "lo \<le> u" "u \<le> hi" for u
    using time(2-5) that by (simp add: second_def)
  have fields: "at_id (?tx u) = at_id tx" "at_dir (?tx u) = at_dir tx" "at_state (?tx u) = StatePreparing" for u using tx(2) by simp_all
  have core: "core (?tx u) = core tx" "core (moved v StateArmed [] (?tx u)) = core tx" for u v
    by (cases tx; simp add: core_def moved_def)+
  let ?Q = "\<lambda>p w'. \<exists>m' tx' p'. p = Inr p' \<and> m' = ?m \<and> at_phase e w m' tx' StateArmed PhaseArmed (Armed (at_id tx) ?dl # es) w'
      \<and> core tx' = core tx \<and> at_deadline tx' = format_time ?dl
      \<and> pr_apply_id p' = at_id tx \<and> pr_token p' = token \<and> pr_deadline p' = ?dl"
  have result: "?Q (Inr \<lparr>pr_apply_id = at_id tx, pr_token = token, pr_old_url = a, pr_new_url = b, pr_deadline = ?dl\<rparr>)
      (tracked w (moved v StateArmed [] (?tx u)) \<lparr>ad_manifest = Some ?m, ad_status = Some (PhaseArmed, format_time s)\<rparr> (Armed (at_id tx) ?dl # es))"
    if "good_time s" for a b v u s
    by (rule exI[of _ ?m], rule exI[of _ "moved v StateArmed [] (?tx u)"])
      (use that tx match[of u] m(4) in \<open>auto simp: at_phase_def moved_same core\<close>)
  have armed: "succeeds lo hi (stage_armed e ?m dir token ?dl) ?Q
      (tracked w (?tx u) \<lparr>ad_manifest = Some ?m, ad_status = st\<rparr> (Armed (at_id tx) ?dl # es))" for u st
    unfolding stage_armed_def mid
    by (intro succeeds_on_error succeeds_phase[of "?tx _", unfolded fields, OF safe] succeeds_transition[of w "?tx _", unfolded fields, OF tx(1) safe(1)]
        succeeds_Ret conjI refl) (use result in \<open>simp_all add: valid_names\<close>)
  show ?thesis
    unfolding stage_snapshotted_def Let_def m(1)
    by (intro succeeds_on_error replace_succeeds[OF safe m(3,4,1) mid same time(6)] deadline_succeeds[OF tx(1) safe(1) tx(2) nz]
        succeeds_phase[of "?tx _", unfolded fields, OF safe] arm_succeeds[OF safe(1) delay] conjI refl)
      (use armed in \<open>simp_all add: valid_names\<close>)
qed

lemma hex_digit_safe: "n < 16 \<Longrightarrow> is_lower (hex_digit n) \<or> is_digit (hex_digit n)"
  by (auto simp: hex_digit_def is_lower_def is_digit_def in_range_def less_eq_char_def)

lemma safe_apply_id:
  assumes "length s \<le> 32"
  shows "safeID (''apply-'' @ hex_encode s)"
proof -
  have "list_all (\<lambda>c. is_lower c \<or> is_digit c) (hex_encode s)" "length (hex_encode s) = 2 * length s"
  proof (induction s)
    case (Cons c s)
    have "byte_val c div 16 < 16" "byte_val c mod 16 < 16" using byte_val_less[of c] by auto
    with Cons hex_digit_safe show "list_all (\<lambda>c. is_lower c \<or> is_digit c) (hex_encode (c # s))"
      by (simp add: hex_encode_def hex_byte_def)
  qed (simp_all add: hex_encode_def hex_byte_def)
  moreover have "list_all (\<lambda>c. is_lower c \<or> is_digit c \<or> c = CHR ''-'') ''apply-''" by code_simp
  ultimately show ?thesis using assms by (auto simp: safeID_def list_all_iff)
qed


text \<open>
  What a staging relies on: an engine whose timeout fits the packaged timer, a candidate that is valid, no other unfinished
  transaction, a fresh identifier, calls that work within five seconds, and a digest that is not empty.
\<close>

definition can_stage :: "net_engine \<Rightarrow> net_world \<Rightarrow> net_candidate \<Rightarrow> prefix \<Rightarrow> prefix \<Rightarrow> instant \<Rightarrow> instant \<Rightarrow> (nat \<Rightarrow> choice) \<Rightarrow> bool" where
  "can_stage e w c old new lo hi chs \<longleftrightarrow> validate e = None \<and> \<not> blank (eng_root e) \<and> eng_rollback_after e = 60 * second
     \<and> lan_candidate_ok (eng_lib e) c old new \<and> filter is_unfinished (na_rows w) = []
     \<and> row w (''apply-'' @ hex_encode (ch_secret (chs 0))) = None \<and> length (ch_secret (chs 0)) \<le> 32
     \<and> 0 \<le> lo \<and> hi - lo \<le> 5 * second \<and> (\<forall>t. lo \<le> t \<longrightarrow> t \<le> hi \<longrightarrow> rfc3339_range (t + 60 * second))
     \<and> (\<forall>i. calm lo hi (chs i)) \<and> (\<forall>s. sha256 (eng_lib e) s \<noteq> [])"

lemma stage_created_succeeds:
  assumes tx: "row w (at_id tx) = None" "at_state tx = StatePreparing" "Directory e (at_id tx) = Inr (at_dir tx)" "na_dirs w (at_id tx) = None"
    and m: "mf_id m = at_id tx" "manifestCoreMatchesTransaction m tx (at_dir tx)" "validateManifest (eng_lib e) m = None"
      "\<forall>arm. good_time arm \<longrightarrow> lo \<le> arm \<longrightarrow> arm \<le> hi \<longrightarrow> validateManifest (eng_lib e) (stamped m (at_id tx) arm (arm + eng_rollback_after e)) = None"
    and time: "0 \<le> lo" "eng_rollback_after e = 60 * second" "hi - lo \<le> 5 * second"
  shows "succeeds lo hi (stage_created e m (at_dir tx) token) (\<lambda>p w'. \<exists>arm tx' p'. lo \<le> arm \<and> arm \<le> hi \<and> p = Inr p'
      \<and> at_phase e w (stamped m (at_id tx) arm (arm + 60 * second)) tx' StateArmed PhaseArmed
          [Armed (at_id tx) (arm + 60 * second), Snapshotted m (at_dir tx)] w'
      \<and> core tx' = core tx \<and> at_deadline tx' = format_time (arm + 60 * second)
      \<and> pr_apply_id p' = at_id tx \<and> pr_token p' = token \<and> pr_deadline p' = arm + 60 * second)
     (w\<lparr>na_rows := na_rows w @ [tx]\<rparr>)"
proof -
  let ?Q = "\<lambda>p w'. \<exists>arm tx' p'. lo \<le> arm \<and> arm \<le> hi \<and> p = Inr p'
      \<and> at_phase e w (stamped m (at_id tx) arm (arm + 60 * second)) tx' StateArmed PhaseArmed
          [Armed (at_id tx) (arm + 60 * second), Snapshotted m (at_dir tx)] w'
      \<and> core tx' = core tx \<and> at_deadline tx' = format_time (arm + 60 * second)
      \<and> pr_apply_id p' = at_id tx \<and> pr_token p' = token \<and> pr_deadline p' = arm + 60 * second"
  let ?w = "\<lambda>t es. tracked w tx \<lparr>ad_manifest = Some m, ad_status = Some (PhaseCreated, format_time t)\<rparr> es"
  have snap: "succeeds lo hi (stage_snapshotted e m (at_dir tx) token arm) ?Q (?w t [Snapshotted m (at_dir tx)])"
    if a: "good_time arm" "lo \<le> arm" "arm \<le> hi" "good_time t" for arm t
    using stage_snapshotted_succeeds[OF tx(1-3) m(1-3) m(4)[rule_format, OF a(1-3)] _ time(2) a(2,3) time(3) a(4) refl, of token "[Snapshotted m (at_dir tx)]"] time(1) a
    unfolding succeeds_def time(2) by (simp add: case_prod_beta) blast
  show ?thesis
    unfolding stage_created_def
    by (intro succeeds_and_then store_create_succeeds[OF m(3), of _ tx, unfolded m(1), OF tx(3) refl tx(4)])
      (simp only: sum.case simp_thms if_False, intro succeeds_on_error snapshot_event conjI refl succeeds_clock, simp only: resp.case, rule snap)
qed

lemma staged_row_ready:
  assumes c: "lan_candidate_ok (eng_lib e) c old new" and "sha256 (eng_lib e) token \<noteq> []"
  defines "tx dir n t d \<equiv> staged_row e c (stamped (lan_manifest (eng_lib e) c old new) n t d) token dir"
  shows "at_id (tx dir n t d) = n" "at_dir (tx dir n t d) = dir" "at_state (tx dir n t d) = StatePreparing"
    "at_schema (tx dir n t d) = LegacyManifestSchema" "at_operation (tx dir n t d) = ''LAN_ADDRESS''" "at_candidate_json (tx dir n t d) = ''{}''"
    "at_token_sha256 (tx dir n t d) \<noteq> []" "validTransactionOperation (tx dir n t d)"
proof -
  have iface: "validInterfaceName (nc_interface c)"
    using c unfolding lan_candidate_ok_def by (auto dest: lan_candidate_read_back(2))
  show all: "at_id (tx dir n t d) = n" "at_dir (tx dir n t d) = dir" "at_state (tx dir n t d) = StatePreparing"
    "at_schema (tx dir n t d) = LegacyManifestSchema" "at_operation (tx dir n t d) = ''LAN_ADDRESS''" "at_candidate_json (tx dir n t d) = ''{}''"
    "at_token_sha256 (tx dir n t d) \<noteq> []"
    using assms(2) by (simp_all add: tx_def staged_row_def stamped_def lan_manifest_def effectiveOperationKind_def manifestCandidateJSON_def
        hex_encode_def hex_byte_def)
  show "validTransactionOperation (tx dir n t d)"
    using all iface by (simp add: validTransactionOperation_def tx_def staged_row_def stamped_def lan_manifest_def prefix_String_nonempty)
qed

lemma stage_succeeds:
  assumes inv: "net_inv e w" and can: "can_stage e w c old new lo hi chs"
  shows "\<exists>p chs' w' m0 m arm tx. run (Stage e c) chs w = (Inr p, chs', w') \<and> lo \<le> arm \<and> arm \<le> hi
     \<and> at_phase e w m tx StateArmed PhaseArmed [Armed (at_id tx) (arm + 60 * second), Snapshotted m0 (at_dir tx)] w'
     \<and> at_deadline tx = format_time (arm + 60 * second) \<and> pr_apply_id p = at_id tx \<and> pr_deadline p = arm + 60 * second
     \<and> at_token_sha256 tx = hex_encode (sha256 (eng_lib e) (pr_token p)) \<and> at_destination tx = addr_String (eng_lib e) (fst new)
     \<and> \<not> mf_require_wireguard m \<and> \<not> mf_allow_console m"
proof -
  let ?L = "eng_lib e" and ?n = "''apply-'' @ hex_encode (ch_secret (chs 0))" and ?token = "hex_encode (ch_secret (chs 1))"
  let ?now = "ch_time (chs 2)" and ?lan = "lan_manifest (eng_lib e) c old new"
  let ?m = "stamped ?lan ?n ?now (?now + 60 * second)"
  note can_parts = can[unfolded can_stage_def]
  have calm: "calm lo hi (chs i)" for i using can_parts by blast
  then have times: "good_time (ch_time (chs i))" "lo \<le> ch_time (chs i)" "ch_time (chs i) \<le> hi" "ch_fate (chs i) = Works" for i
    unfolding calm_def by blast+
  have c: "lan_candidate_ok ?L c old new" and rb: "eng_rollback_after e = 60 * second" and win: "0 \<le> lo" "hi - lo \<le> 5 * second"
    using can_parts by blast+
  have safe: "safeID ?n" using can_parts safe_apply_id by blast
  then obtain dir where dir: "Directory e ?n = Inr dir" "dir \<noteq> []" using can_parts by (auto simp: Directory_def)
  have mv: "validateManifest ?L (stamped ?lan ?n t (t + 60 * second)) = None" if "good_time t" "lo \<le> t" "t \<le> hi" for t
    by (rule lan_manifest_valid[OF c safe]) (use can_parts that in \<open>auto simp: good_time_def second_def\<close>)
  let ?new = "staged_row e c ?m ?token dir"
  let ?tx = "\<lambda>t. ?new\<lparr>at_created_at := t, at_updated_at := t\<rparr>"
  have digest: "sha256 ?L ?token \<noteq> []" using can_parts by blast
  note tx0 = staged_row_ready(1-7)[OF c digest, where dir = dir and n = ?n and t = ?now and d = "?now + 60 * second"]
  note op = staged_row_ready(8)[OF c digest, where dir = dir and n = ?n and t = ?now and d = "?now + 60 * second"]
  have free: "row w (at_id ?new) = None" "na_dirs w ?n = None" using can_parts inv tx0(1) unfolding net_inv_def by auto
  have core_match: "manifestCoreMatchesTransaction ?m (?tx t) (at_dir (?tx t))" for t
    by (simp add: manifestCoreMatchesTransaction_def staged_row_def stamped_def lan_manifest_def)
  have restamp: "stamped ?m ?n t d = stamped ?lan ?n t d" for t d by (simp add: stamped_def)
  let ?Q = "\<lambda>p w'. \<exists>arm tx' p' t. lo \<le> arm \<and> arm \<le> hi \<and> p = Inr p'
      \<and> at_phase e w (stamped ?m ?n arm (arm + 60 * second)) tx' StateArmed PhaseArmed [Armed ?n (arm + 60 * second), Snapshotted ?m dir] w'
      \<and> core tx' = core (?tx t) \<and> at_deadline tx' = format_time (arm + 60 * second)
      \<and> pr_apply_id p' = ?n \<and> pr_token p' = ?token \<and> pr_deadline p' = arm + 60 * second"
  have created: "succeeds lo hi (stage_created e ?m dir ?token) ?Q (w\<lparr>na_rows := na_rows w @ [?tx t]\<rparr>)" for t
  proof -
    have f: "at_id (?tx t) = ?n" "at_dir (?tx t) = dir" "at_state (?tx t) = StatePreparing" using tx0 by simp_all
    have id: "mf_id ?m = ?n" by (simp add: stamped_def)
    have row: "row w ?n = None" using free(1) tx0(1) by simp
    have all: "\<forall>arm. good_time arm \<longrightarrow> lo \<le> arm \<longrightarrow> arm \<le> hi \<longrightarrow> validateManifest ?L (stamped ?lan ?n arm (arm + 60 * second)) = None"
      using mv by blast
    note base = stage_created_succeeds[where tx = "?tx t" and m = ?m and e = e and w = w and lo = lo and hi = hi and token = ?token,
      unfolded f id restamp rb, OF row refl dir(1) free(2) refl core_match[of t, unfolded f] mv[OF times(1-3)] all win(1) refl win(2)]
    then show ?thesis unfolding succeeds_def restamp by (simp only: case_prod_beta) blast
  qed
  have "succeeds lo hi (stage_manifest e c ?lan ?n ?token ?now) ?Q w"
    unfolding stage_manifest_def Let_def rb dir(1) sum.case
    by (intro succeeds_on_error create_row_succeeds conjI refl created) (use can_parts tx0 op free dir safe in \<open>auto simp: staged_row_def\<close>)
  then obtain p chs' w' where r: "run (stage_manifest e c ?lan ?n ?token ?now) (\<lambda>i. chs (Suc (Suc (Suc i)))) w = (p, chs', w')" "?Q p w'"
    by (rule succeeds_run[of _ _ _ _ _ "\<lambda>i. chs (Suc (Suc (Suc i)))"]) (use calm in auto)
  have build: "buildManifest ?L c = Inr ?lan"
    using c by (simp add: buildManifest_def lan_candidate_ok_def lan_manifest_def)
  have "run (Stage e c) chs w = (p, chs', w')"
    using r(1) build can_parts times(4) by (simp add: Stage_def react_works eval_nat_numeral)
  moreover obtain arm tx' p' t where q: "lo \<le> arm" "arm \<le> hi" "p = Inr p'"
      "at_phase e w (stamped ?m ?n arm (arm + 60 * second)) tx' StateArmed PhaseArmed [Armed ?n (arm + 60 * second), Snapshotted ?m dir] w'"
      "core tx' = core (?tx t)" "at_deadline tx' = format_time (arm + 60 * second)"
      "pr_apply_id p' = ?n" "pr_token p' = ?token" "pr_deadline p' = arm + 60 * second"
    using r(2) by blast
  moreover have "at_id tx' = ?n" "at_dir tx' = dir" using core_fields(1,2)[OF q(5)] tx0 by simp_all
  moreover have "at_token_sha256 tx' = hex_encode (sha256 ?L ?token)" using core_fields(3)[OF q(5)] by (simp add: staged_row_def)
  moreover have "at_destination tx' = addr_String ?L (fst new)"
    using q(4) by (simp add: at_phase_def manifestMatchesTransaction_def manifestCoreMatchesTransaction_def stamped_def lan_manifest_def)
  moreover have "\<not> mf_require_wireguard (stamped ?m ?n t d)" "\<not> mf_allow_console (stamped ?m ?n t d)" for t d
    by (simp_all add: stamped_def lan_manifest_def empty_manifest_def)
  ultimately show ?thesis
    by (intro exI[of _ p'] exI[of _ chs'] exI[of _ w'] exI[of _ ?m] exI[of _ "stamped ?m ?n arm (arm + 60 * second)"] exI[of _ arm] exI[of _ tx']) simp
qed


text \<open>The confirmation that comes from the new address with the token of the staging.\<close>

definition from_new_address :: "net_engine \<Rightarrow> prefix \<Rightarrow> prepared \<Rightarrow> confirm_evidence" where
  "from_new_address e new p = \<lparr>ce_token = pr_token p, ce_local_ip = addr_String (eng_lib e) (fst new), ce_wireguard = False, ce_console = False\<rparr>"

lemma staged_and_applied:
  assumes inv: "net_inv e w" and can: "can_stage e w c old new lo hi chs"
    and chs': "\<forall>i. calm lo' hi' (chs' i)" "hi' < lo + 60 * second" and late: "hi2 < lo + 60 * second"
  obtains p c1 w1 c2 w2 m0 m arm tx where "run (Stage e c) chs w = (Inr p, c1, w1)" "run (Apply e (pr_apply_id p)) chs' w1 = (None, c2, w2)"
    "at_phase e w m tx StateApplied PhaseApplied [Applied m (at_dir tx), Applying m (at_dir tx), Armed (at_id tx) arm, Snapshotted m0 (at_dir tx)] w2"
    "pr_apply_id p = at_id tx" "token_matches (eng_lib e) tx (ce_token (from_new_address e new p))" "source_ok (eng_lib e) tx m (from_new_address e new p)"
    "\<And>t. t \<le> hi2 \<Longrightarrow> before_deadline (at_deadline tx) t"
proof -
  obtain p c1 w1 m0 m arm tx where st: "run (Stage e c) chs w = (Inr p, c1, w1)" "lo \<le> arm" "arm \<le> hi"
    "at_phase e w m tx StateArmed PhaseArmed [Armed (at_id tx) (arm + 60 * second), Snapshotted m0 (at_dir tx)] w1"
    "at_deadline tx = format_time (arm + 60 * second)" "pr_apply_id p = at_id tx"
    "at_token_sha256 tx = hex_encode (sha256 (eng_lib e) (pr_token p))" "at_destination tx = addr_String (eng_lib e) (fst new)"
    "\<not> mf_require_wireguard m" "\<not> mf_allow_console m"
    using stage_succeeds[OF inv can] by blast
  have valid: "validate e = None" and new: "Is4 (fst new)" and range: "rfc3339_range (arm + 60 * second)"
    using can st(2,3) by (auto simp: can_stage_def lan_candidate_ok_def)
  have before: "before_deadline (at_deadline tx) t" if "t < lo + 60 * second" for t
    using that st(2,5) range by (simp add: before_deadline_def parse_format_time)
  obtain err c2 w2 where ap: "run (Apply e (at_id tx)) chs' w1 = (err, c2, w2)" and q: "err = None \<and> (\<exists>tx'. at_phase e w m tx' StateApplied PhaseApplied
     (Applied m (at_dir tx) # Applying m (at_dir tx) # [Armed (at_id tx) (arm + 60 * second), Snapshotted m0 (at_dir tx)]) w2 \<and> (\<exists>now. tx' = moved now StateApplied [] tx))"
    by (rule succeeds_run[OF apply_succeeds[OF st(4) valid, of hi'] chs'(1)]) (use before chs'(2) in auto)
  obtain now where w2: "at_phase e w m (moved now StateApplied [] tx) StateApplied PhaseApplied
     [Applied m (at_dir tx), Applying m (at_dir tx), Armed (at_id tx) (arm + 60 * second), Snapshotted m0 (at_dir tx)] w2" "err = None"
    using q by auto
  obtain v where v: "fst new = Addr4 v" using new by (cases "fst new") (auto simp: Is4_def)
  show ?thesis
  proof (rule that[OF st(1) _ w2(1)[folded moved_same(1)[of now StateApplied "[]" tx] moved_same(2)[of now StateApplied "[]" tx]]])
    show "run (Apply e (pr_apply_id p)) chs' w1 = (None, c2, w2)" using ap st(6) w2(2) by simp
    show "source_ok (eng_lib e) (moved now StateApplied [] tx) m (from_new_address e new p)"
      using st(8-10) v by (simp add: source_ok_def from_new_address_def local_is_def moved_same addr_String_def Unmap_def)
    show "before_deadline (at_deadline (moved now StateApplied [] tx)) t" if "t \<le> hi2" for t using before that late by (simp add: moved_same)
  qed (use st(6,7) in \<open>simp_all add: moved_same token_matches_def from_new_address_def\<close>)
qed

text \<open>
  Property C10 (a change that is confirmed in time is kept). Let no change be unfinished, and let a valid candidate for the LAN address be
  staged, applied and confirmed from the new address with the token of the staging, by operations whose calls work, the first within five seconds
  and the others before the deadline of 60 seconds. Then none of them fails, the transaction is confirmed, and the backend has been called exactly so: snapshot,
  arming of the timer, application, and only after the accepted confirmation disarming and commit.
\<close>

theorem confirmed_change_is_kept:
  assumes "net_reachable e (w, ps)" "can_stage e w c old new lo hi chs"
    and "\<forall>i. calm lo' hi' (chs' i)" "hi' < lo + 60 * second" "\<forall>i. calm lo'' hi'' (chs'' i)" "hi'' < lo + 60 * second"
  shows "\<exists>p c1 w1 c2 w2 c3 w3 r m0 m dir arm tx t. run (Stage e c) chs w = (Inr p, c1, w1)
     \<and> run (Apply e (pr_apply_id p)) chs' w1 = (None, c2, w2)
     \<and> run (Confirm e (pr_apply_id p) (from_new_address e new p)) chs'' w2 = (None, c3, w3)
     \<and> row w3 (pr_apply_id p) = Some r \<and> at_state r = StateConfirmed
     \<and> na_log w3 = [Committed m dir, Committing m dir, Disarmed (pr_apply_id p), Accepted tx m (from_new_address e new p) t,
          Applied m dir, Applying m dir, Armed (pr_apply_id p) arm, Snapshotted m0 dir] @ na_log w"
proof -
  have inv: "net_inv e w" by (rule net_reachable_inv[OF assms(1)])
  have valid: "validate e = None" using assms(2) by (simp add: can_stage_def)
  obtain p c1 w1 c2 w2 m0 m arm tx where s: "run (Stage e c) chs w = (Inr p, c1, w1)" "run (Apply e (pr_apply_id p)) chs' w1 = (None, c2, w2)"
    "at_phase e w m tx StateApplied PhaseApplied [Applied m (at_dir tx), Applying m (at_dir tx), Armed (at_id tx) arm, Snapshotted m0 (at_dir tx)] w2"
    "pr_apply_id p = at_id tx" "token_matches (eng_lib e) tx (ce_token (from_new_address e new p))" "source_ok (eng_lib e) tx m (from_new_address e new p)"
    "\<And>t. t \<le> hi'' \<Longrightarrow> before_deadline (at_deadline tx) t"
    by (rule staged_and_applied[OF inv assms(2-4,6)]) blast
  obtain err c3 w3 where cf: "run (Confirm e (at_id tx) (from_new_address e new p)) chs'' w2 = (err, c3, w3)"
    and q: "err = None \<and> (\<exists>now accepted. at_phase e w m (moved now StateConfirmed [] tx) StateConfirmed PhaseConfirmed
      (Committed m (at_dir tx) # Committing m (at_dir tx) # Disarmed (at_id tx) # Accepted tx m (from_new_address e new p) accepted
        # [Applied m (at_dir tx), Applying m (at_dir tx), Armed (at_id tx) arm, Snapshotted m0 (at_dir tx)]) w3)"
    by (rule succeeds_run[OF confirm_succeeds[OF s(3) valid s(7) s(5,6)] assms(5)]) blast+
  then obtain now accepted where ph: "at_phase e w m (moved now StateConfirmed [] tx) StateConfirmed PhaseConfirmed
      (Committed m (at_dir tx) # Committing m (at_dir tx) # Disarmed (at_id tx) # Accepted tx m (from_new_address e new p) accepted
        # [Applied m (at_dir tx), Applying m (at_dir tx), Armed (at_id tx) arm, Snapshotted m0 (at_dir tx)]) w3" by blast
  then have "row w3 (at_id tx) = Some (moved now StateConfirmed [] tx)"
    using row_tracked[of w "moved now StateConfirmed [] tx"] by (auto simp: at_phase_def moved_same)
  moreover have "na_log w3 = [Committed m (at_dir tx), Committing m (at_dir tx), Disarmed (at_id tx), Accepted tx m (from_new_address e new p) accepted,
      Applied m (at_dir tx), Applying m (at_dir tx), Armed (at_id tx) arm, Snapshotted m0 (at_dir tx)] @ na_log w"
    using ph by (auto simp: at_phase_def tracked_def)
  ultimately show ?thesis using s(1,2,4) cf q moved_same(3) by metis
qed

section \<open>Operations that are cut off\<close>

text \<open>\<open>calls n p\<close> runs \<open>p\<close> alone and lets its process die after \<open>n\<close> calls.\<close>

fun calls :: "nat \<Rightarrow> 'a prog \<Rightarrow> (nat \<Rightarrow> choice) \<Rightarrow> net_world \<Rightarrow> net_world" where
  "calls 0 p chs w = w"
| "calls (Suc n) (Ret x) chs w = w"
| "calls (Suc n) (Call c k) chs w = (case react (chs 0) c w of (r, w') \<Rightarrow> calls n (k r) (\<lambda>i. chs (Suc i)) w')"

lemma calls_map [simp]: "calls n (map_prog f p) chs w = calls n p chs w"
  by (induction n p chs w rule: calls.induct) (auto split: prod.splits)

lemma calls_run:
  "\<exists>n. calls n p chs w = snd (snd (run p chs w))"
proof (induction p arbitrary: chs w)
  case (Ret x)
  then show ?case by (intro exI[of _ 0]) simp
next
  case (Call c k)
  obtain r w' where r: "react (chs 0) c w = (r, w')" by force
  obtain n where "calls n (k r) (\<lambda>i. chs (Suc i)) w' = snd (snd (run (k r) (\<lambda>i. chs (Suc i)) w'))" using Call by blast
  then show ?case using r by (intro exI[of _ "Suc n"]) simp
qed

lemma calls_steps:
  assumes "\<forall>i. good_time (ch_time (chs i))"
  shows "\<exists>p'. (net_step e)\<^sup>*\<^sup>* (w, [p]) (calls n p chs w, [p'])"
  using assms
proof (induction n p chs w rule: calls.induct)
  case (3 n c k chs w)
  obtain r w' where r: "react (chs 0) c w = (r, w')" by force
  have "net_step e (w, [Call c k]) (w', [Call c k][0 := k r])" by (rule call_step[of _ _ _ _ "chs 0"]) (use 3(2) r in auto)
  moreover obtain p' where "(net_step e)\<^sup>*\<^sup>* (w', [k r]) (calls n (k r) (\<lambda>i. chs (Suc i)) w', [p'])"
    using 3(1)[OF r[symmetric]] 3(2) by blast
  ultimately show ?case using r by (auto intro: converse_rtranclp_into_rtranclp)
qed auto

lemma calls_reachable:
  assumes "net_reachable e (w, [])" "\<forall>i. good_time (ch_time (chs i))"
  shows "net_reachable e (calls n (start e x) chs w, [])"
proof -
  obtain p' where p: "(net_step e)\<^sup>*\<^sup>* (w, [start e x]) (calls n (start e x) chs w, [p'])" using calls_steps[OF assms(2)] by blast
  have "net_step e (w, []) (w, [start e x])" using begin_op[of e w "[]" x] by simp
  moreover have "net_step e (calls n (start e x) chs w, [p']) (calls n (start e x) chs w, [])"
    using crash[of e "calls n (start e x) chs w" "[p']" 0] by simp
  ultimately show ?thesis using assms(1) p unfolding net_reachable_def by (meson rtranclp.rtrancl_into_rtrancl rtranclp_trans)
qed

lemma run_reachable:
  assumes "net_reachable e (w, [])" "\<forall>i. calm lo hi (chs i)" "snd (snd (run (start e x) chs w)) = w'"
  shows "net_reachable e (w', [])"
proof -
  obtain n where "calls n (start e x) chs w = w'" using calls_run[of "start e x" chs w] assms(3) by auto
  then show ?thesis using calls_reachable[OF assms(1), of chs n x] assms(2) by (auto simp: calm_def)
qed

lemma interrupted_confirm:
  assumes ph: "at_phase e w m tx StateApplied PhaseApplied es w1" and valid: "validate e = None"
    and late: "\<And>t. t \<le> hi \<Longrightarrow> before_deadline (at_deadline tx) t" and calm: "\<forall>i. calm lo hi (chs i)"
    and ev: "token_matches (eng_lib e) tx (ce_token ev)" "source_ok (eng_lib e) tx m ev"
  shows "\<exists>now. at_phase e w m (moved now StateConfirming [] tx) StateConfirming PhaseConfirming
     (Accepted tx m ev (ch_time (chs 1)) # es) (calls 7 (Confirm e (at_id tx) ev) chs w1)"
proof -
  obtain t where w1: "good_time t" "w1 = tracked w tx \<lparr>ad_manifest = Some m, ad_status = Some (PhaseApplied, format_time t)\<rparr> es"
    and tx: "at_state tx = StateApplied" "row w (at_id tx) = None" "Directory e (at_id tx) = Inr (at_dir tx)"
      "manifestMatchesTransaction m tx (at_dir tx)" "validateManifest (eng_lib e) m = None"
    using ph unfolding at_phase_def by blast
  have safe: "safeID (at_id tx)" using Directory_parts[OF tx(3)] by auto
  have id: "mf_id m = at_id tx" using tx(4) by (simp add: manifestMatchesTransaction_def manifestCoreMatchesTransaction_def)
  have works: "ch_fate (chs i) = Works" "good_time (ch_time (chs i))" "before_deadline (at_deadline tx) (ch_time (chs i))" for i
    using calm late by (auto simp: calm_def)
  have found: "find_row (at_id tx) (na_rows w @ [tx]) = Some tx" using row_tracked[OF tx(2)] by (simp add: row_def tracked_def)
  have read: "parse_time (format_time t) = Some t" using w1(1) by (simp add: good_time_def parse_format_time)
  have upd: "update_where (\<lambda>r. at_id r = at_id tx \<and> at_state r = StateApplied) f (na_rows w @ [tx]) = Inr (na_rows w @ [f tx])" for f
    using update_where_tracked[OF tx(2), of "\<lambda>r. at_state r = StateApplied"] tx(1) by simp
  have "calls 7 (Confirm e (at_id tx) ev) chs w1 = tracked w (moved (format_time (ch_time (chs 6))) StateConfirming [] tx)
      \<lparr>ad_manifest = Some m, ad_status = Some (PhaseConfirming, format_time (ch_time (chs 5)))\<rparr> (Accepted tx m ev (ch_time (chs 1)) # es)"
    unfolding Confirm_def valid w1(2)
    by (simp add: eval_nat_numeral GetRow_def react_works works found tracked_def confirm_row_def tx confirm_at_def ev LoadFiles_def LoadStatus_def id read
        valid_names confirm_loaded_def log_event_def confirm_accepted_def Let_def on_error_def SetPhase_def do_call_def failure_def Transition_def safe
        set_rows_def upd moved_same)
  then show ?thesis using tx works by (auto simp: at_phase_def moved_same)
qed

lemma calls_one:
  assumes "ch_fate (chs 0) = Works" "perform (chs 0) c (attempted c w) = (r, w')"
  shows "calls 1 (and_then (do_call c) f) chs w = w'"
  using assms by (simp add: do_call_def react_works)

lemma interrupted_staging:
  assumes can: "can_stage e w c old new lo hi chs" and dirs: "\<And>n. row w n = None \<Longrightarrow> na_dirs w n = None"
  shows "torn (calls 4 (Stage e c) chs w)"
proof -
  let ?L = "eng_lib e" and ?n = "''apply-'' @ hex_encode (ch_secret (chs 0))" and ?token = "hex_encode (ch_secret (chs 1))"
  let ?now = "ch_time (chs 2)"
  let ?new = "\<lambda>dir. staged_row e c (stamped (lan_manifest ?L c old new) ?n ?now (?now + 60 * second)) ?token dir"
  note can_parts = can[unfolded can_stage_def]
  have works: "ch_fate (chs i) = Works" for i using can_parts by (auto simp: calm_def)
  have c: "lan_candidate_ok ?L c old new" and digest: "sha256 ?L ?token \<noteq> []" and rb: "eng_rollback_after e = 60 * second" using can_parts by blast+
  have safe: "safeID ?n" using can_parts safe_apply_id by blast
  then obtain dir where dir: "Directory e ?n = Inr dir" "dir \<noteq> []" using can_parts by (auto simp: Directory_def)
  note tx = staged_row_ready[OF c digest, where dir = dir and n = ?n and t = ?now and d = "?now + 60 * second"]
  have call: "CreateRow (?new dir) = do_call (DbCreate (?new dir))" by (rule create_row_call) (use tx safe dir in auto)
  have build: "buildManifest ?L c = Inr (lan_manifest ?L c old new)"
    using c by (simp add: buildManifest_def lan_candidate_ok_def lan_manifest_def)
  have none: "find_row ?n (na_rows w) = None" "filter is_unfinished (na_rows w) = []" using can_parts by (auto simp: row_def)
  have valid: "validate e = None" using can_parts by blast
  let ?rest = "\<lambda>i. chs (Suc (Suc (Suc i)))"
  have first: "calls 4 (Stage e c) chs w = calls 1 (stage_manifest e c (lan_manifest ?L c old new) ?n ?token ?now) ?rest w"
    unfolding Stage_def valid build by (simp add: eval_nat_numeral react_works works)
  have create: "perform ch (DbCreate (?new dir)) w = (Ok, w\<lparr>na_rows := na_rows w @ [?new dir\<lparr>at_created_at := format_time (ch_time ch),
      at_updated_at := format_time (ch_time ch)\<rparr>]\<rparr>)" for ch
    using none tx(1,4,5) by (simp add: insert_transaction_def set_rows_def) (simp add: staged_row_def)
  have "calls 1 (stage_manifest e c (lan_manifest ?L c old new) ?n ?token ?now) ?rest w
      = w\<lparr>na_rows := na_rows w @ [?new dir\<lparr>at_created_at := format_time (ch_time (chs 3)), at_updated_at := format_time (ch_time (chs 3))\<rparr>]\<rparr>"
    unfolding stage_manifest_def Let_def rb dir(1) sum.case call on_error_def
    by (rule calls_one[OF works, where r = Ok]) (use create[of "chs 3"] in \<open>simp add: numeral_3_eq_3 del: perform.simps\<close>)
  then have made: "calls 4 (Stage e c) chs w = w\<lparr>na_rows := na_rows w @ [?new dir\<lparr>at_created_at := format_time (ch_time (chs 3)),
      at_updated_at := format_time (ch_time (chs 3))\<rparr>]\<rparr>" by (simp only: first)
  obtain q where q: "at_id q = ?n" "at_state q = StatePreparing" "calls 4 (Stage e c) chs w = w\<lparr>na_rows := na_rows w @ [q]\<rparr>"
    by (rule that[OF _ _ made]) (use tx(1,3) in simp_all)
  have "na_dirs w ?n = None" using dirs can_parts by blast
  then show ?thesis unfolding torn_def q(3)
    by (intro bexI[of _ q]) (use q(1,2) in \<open>auto simp: is_unfinished_def unfinished_states_def manifest_file_def\<close>)
qed

end
