(* ===== verification/Network_Samples.thy ===== *)
theory Network_Samples
  imports Network_Success Sample_Data
begin

text \<open>
  Concrete runs of the network apply protocol, and the applications of its properties to them. The candidate moves the LAN address of
  \<open>br0\<close> from 192.168.8.1 to 192.168.9.1; the parameters are a URL parser for origins of the form \<open>https://host:8443\<close> and a
  digest that is the text with a mark in front.
\<close>

section \<open>The sample\<close>

definition https_origin :: "string \<Rightarrow> url option" where
  "https_origin s = (if take 8 s = ''https://'' \<and> drop (length s - 5) s = '':8443''
     then let host = take (length s - 13) (drop 8 s)
       in Some \<lparr>Scheme = ''https'', URLHost = host @ '':8443'', HasUser = False, URLPath = [], RawQuery = [], Fragment = [], Hostname = host, Port = ''8443''\<rparr>
     else None)"

definition lib0 :: net_lib where
  "lib0 = \<lparr>parse_addr6 = (\<lambda>_. None), print_addr6 = (\<lambda>_ z. z), url_Parse = https_origin, sha256 = (\<lambda>s. CHR ''#'' # s), letter_or_digit = (\<lambda>_. False)\<rparr>"

definition engine0 :: net_engine where
  "engine0 = \<lparr>eng_lib = lib0, eng_root = ''/var/lib/gateway-vpn/network'', eng_rollback_after = 60 * second\<rparr>"

definition candidate0 :: net_candidate where
  "candidate0 = \<lparr>nc_interface = ''br0'', nc_old_lan = ''192.168.8.1/24'', nc_new_lan = ''192.168.9.1/24'',
     nc_old_url = ''https://192.168.8.1:8443'', nc_new_url = ''https://192.168.9.1:8443'', nc_ethernet = None, nc_topology = None,
     nc_management_url = [], nc_management_ip = [], nc_require_wireguard = False, nc_allow_console = False\<rparr>"

definition chs0 :: "nat \<Rightarrow> choice" where
  "chs0 i = \<lparr>ch_time = now0, ch_secret = ''0123456789abcdef'', ch_fate = Works\<rparr>"

definition old0 :: prefix where "old0 = (Addr4 3232237569, 24)"
definition new0 :: prefix where "new0 = (Addr4 3232237825, 24)"

lemma sample_octets: "octets 3232237569 = [192, 168, 8, 1]" "octets 3232237825 = [192, 168, 9, 1]"
  by (simp_all add: octets_def)

lemma sample_numbers: "format_nat 192 = ''192''" "format_nat 168 = ''168''" "format_nat 8 = ''8''" "format_nat 9 = ''9''"
  "format_nat 1 = ''1''" "format_nat 24 = ''24''"
  by code_simp+

lemma sample_prints: "print_addr4 3232237569 = ''192.168.8.1''" "print_addr4 3232237825 = ''192.168.9.1''"
  by (simp_all add: print_addr4_def sample_octets sample_numbers del: One_nat_def)

lemma sample_prefixes: "prefix_String lib0 old0 = ''192.168.8.1/24''" "prefix_String lib0 new0 = ''192.168.9.1/24''"
  by (simp_all add: prefix_String_def old0_def new0_def addr_String_def sample_prints sample_numbers)

lemma sample_parses: "ParsePrefix lib0 ''192.168.8.1/24'' = Some old0" "ParsePrefix lib0 ''192.168.9.1/24'' = Some new0"
  using ParsePrefix_print[of 24 lib0 3232237569] ParsePrefix_print[of 24 lib0 3232237825] sample_prefixes
  by (simp_all add: old0_def new0_def)

lemma sample_masks: "push_bit 8 (mask 24) = (4294967040 :: 32 word)" "mask 8 = (255 :: 32 word)"
  by (simp_all add: mask_eq_exp_minus_1 push_bit_eq_mult)

lemma sample_private: "validPrivateIPv4LAN lib0 old0" "validPrivateIPv4LAN lib0 new0"
  unfolding validPrivateIPv4LAN_def sample_prefixes ValidGatewayLAN_def ParseGatewayLAN_def ParsePrivateLAN_def sample_parses
  by (simp_all add: old0_def new0_def IsPrivate4_def first_octet_def second_octet_def sample_octets IsUsableIPv4Host_def IsGlobalUnicast4_def
      Contains_def netmask_def Overlaps_def Masked_def wireGuardManagement_def from_octets_def Let_def sample_masks)

lemma sample_distinct: "Masked old0 \<noteq> Masked new0" "\<not> Overlaps (Masked old0) (Masked new0)"
  by (simp_all add: old0_def new0_def Masked_def netmask_def Overlaps_def Let_def sample_masks)


lemma sample_hosts: "ParseAddr lib0 ''192.168.8.1'' = Some (fst old0)" "ParseAddr lib0 ''192.168.9.1'' = Some (fst new0)"
  using ParseAddr_print[of lib0 3232237569] ParseAddr_print[of lib0 3232237825] by (simp_all add: sample_prints old0_def new0_def)

lemma sample_urls: "validateManagementURL lib0 ''https://192.168.8.1:8443'' (fst old0) = None"
  "validateManagementURL lib0 ''https://192.168.9.1:8443'' (fst new0) = None"
  using sample_hosts by (simp_all add: validateManagementURL_def lib0_def https_origin_def trim_brackets_def Let_def)

lemma sample_candidate: "lan_candidate_ok lib0 candidate0 old0 new0"
proof -
  have "validInterfaceName ''br0''" by code_simp
  then show ?thesis
    using sample_parses sample_private sample_distinct sample_urls
    by (simp add: lan_candidate_ok_def validateLANCandidate_def candidate0_def) (simp add: old0_def new0_def Is4_def)
qed

lemma sample_dates:
  assumes "now0 \<le> t" "t < now0 + 86400 * second"
  shows "rfc3339_range t"
proof -
  have "t div second div 86400 = 20454" using assms by (simp add: now0_def second_def)
  then show ?thesis using civil_from_days_eq[OF sample_date(2,1)] by (simp add: rfc3339_range_def)
qed

lemma sample_calm: "now0 \<le> hi \<Longrightarrow> calm now0 hi (chs0 i)"
  using sample_dates[of now0] sample_dates[of "now0 + 90 * second"] by (simp add: calm_def chs0_def good_time_def second_def)

lemma sample_can_stage: "can_stage engine0 fresh_world candidate0 old0 new0 now0 (now0 + 5 * second) chs0"
proof -
  have "rfc3339_range (t + 60 * second)" if "now0 \<le> t" "t \<le> now0 + 5 * second" for t
    by (rule sample_dates) (use that in \<open>simp_all add: second_def\<close>)
  moreover have "\<not> blank ''/var/lib/gateway-vpn/network''" by code_simp
  ultimately show ?thesis
    using sample_candidate sample_calm[of "now0 + 5 * second"]
    by (simp add: can_stage_def engine0_def validate_def fresh_world_def row_def find_row_def lib0_def now0_def second_def chs0_def)
qed

lemma fresh_reachable: "net_reachable e (fresh_world, [])"
  by (simp add: net_reachable_def)

section \<open>Worlds of the sample\<close>

lemma sample_applied:
  obtains p w2 m0 m arm tx where "net_reachable engine0 (w2, [])"
    "at_phase engine0 fresh_world m tx StateApplied PhaseApplied
       [Applied m (at_dir tx), Applying m (at_dir tx), Armed (at_id tx) arm, Snapshotted m0 (at_dir tx)] w2"
    "token_matches lib0 tx (ce_token (from_new_address engine0 new0 p))" "source_ok lib0 tx m (from_new_address engine0 new0 p)"
    "\<And>t. t \<le> now0 \<Longrightarrow> before_deadline (at_deadline tx) t"
proof -
  have inv: "net_inv engine0 fresh_world" by (rule net_reachable_inv[OF fresh_reachable])
  have calm: "\<forall>i. calm now0 now0 (chs0 i)" and late: "now0 < now0 + 60 * second" using sample_calm[of now0] by (simp_all add: second_def)
  obtain p c1 w1 c2 w2 m0 m arm tx where s: "run (Stage engine0 candidate0) chs0 fresh_world = (Inr p, c1, w1)"
    "run (Apply engine0 (pr_apply_id p)) chs0 w1 = (None, c2, w2)"
    "at_phase engine0 fresh_world m tx StateApplied PhaseApplied
       [Applied m (at_dir tx), Applying m (at_dir tx), Armed (at_id tx) arm, Snapshotted m0 (at_dir tx)] w2"
    "token_matches (eng_lib engine0) tx (ce_token (from_new_address engine0 new0 p))" "source_ok (eng_lib engine0) tx m (from_new_address engine0 new0 p)"
    "\<And>t. t \<le> now0 \<Longrightarrow> before_deadline (at_deadline tx) t"
    by (rule staged_and_applied[OF inv sample_can_stage calm late late]) blast
  have r1: "net_reachable engine0 (w1, [])"
    by (rule run_reachable[OF fresh_reachable calm, of _ "OpStage candidate0"]) (simp add: run_map s(1))
  have r2: "net_reachable engine0 (w2, [])"
    by (rule run_reachable[OF r1 calm, of "OpApply (pr_apply_id p)"]) (simp add: run_map s(2))
  have lib: "eng_lib engine0 = lib0" by (simp add: engine0_def)
  show ?thesis by (rule that[OF r2 s(3) s(4,5)[unfolded lib] s(6)])
qed

lemma sample_confirming:
  obtains w m tx at where "net_reachable engine0 (w, [])" "na_rows w = [tx]" "is_unfinished tx"
    "manifest_file w (at_id tx) = Some m" "status_file w (at_id tx) = Some (PhaseConfirming, at)"
proof -
  obtain p w2 m0 m arm tx where s: "net_reachable engine0 (w2, [])"
    "at_phase engine0 fresh_world m tx StateApplied PhaseApplied
       [Applied m (at_dir tx), Applying m (at_dir tx), Armed (at_id tx) arm, Snapshotted m0 (at_dir tx)] w2"
    "token_matches lib0 tx (ce_token (from_new_address engine0 new0 p))" "source_ok lib0 tx m (from_new_address engine0 new0 p)"
    "\<And>t. t \<le> now0 \<Longrightarrow> before_deadline (at_deadline tx) t"
    by (rule sample_applied) blast
  have calm: "\<forall>i. calm now0 now0 (chs0 i)" using sample_calm[of now0] by simp
  have lib: "lib0 = eng_lib engine0" and valid: "validate engine0 = None" by (simp_all add: engine0_def validate_def second_def)
  let ?w = "calls 7 (Confirm engine0 (at_id tx) (from_new_address engine0 new0 p)) chs0 w2"
  obtain now where ph: "at_phase engine0 fresh_world m (moved now StateConfirming [] tx) StateConfirming PhaseConfirming
      (Accepted tx m (from_new_address engine0 new0 p) (ch_time (chs0 1)) #
       [Applied m (at_dir tx), Applying m (at_dir tx), Armed (at_id tx) arm, Snapshotted m0 (at_dir tx)]) ?w"
    using interrupted_confirm[OF s(2) valid s(5) calm s(3,4)[unfolded lib]] by blast
  have "net_reachable engine0 (?w, [])"
    using calls_reachable[OF s(1), of chs0 7 "OpConfirm (at_id tx) (from_new_address engine0 new0 p)"] calm by (simp add: calm_def)
  moreover have "na_rows ?w = [moved now StateConfirming [] tx]" "is_unfinished (moved now StateConfirming [] tx)"
    "manifest_file ?w (at_id tx) = Some m" "\<exists>at. status_file ?w (at_id tx) = Some (PhaseConfirming, at)"
    using ph by (auto simp: at_phase_def tracked_def fresh_world_def is_unfinished_def unfinished_states_def manifest_file_def status_file_def moved_same)
  ultimately show ?thesis using that moved_same(1) by metis
qed

lemma sample_confirmed:
  obtains w m dir earlier where "net_reachable engine0 (w, [])" "na_log w = [Committed m dir] @ Committing m dir # earlier"
proof -
  obtain p w2 m0 m arm tx where s: "net_reachable engine0 (w2, [])"
    "at_phase engine0 fresh_world m tx StateApplied PhaseApplied
       [Applied m (at_dir tx), Applying m (at_dir tx), Armed (at_id tx) arm, Snapshotted m0 (at_dir tx)] w2"
    "token_matches lib0 tx (ce_token (from_new_address engine0 new0 p))" "source_ok lib0 tx m (from_new_address engine0 new0 p)"
    "\<And>t. t \<le> now0 \<Longrightarrow> before_deadline (at_deadline tx) t"
    by (rule sample_applied) blast
  have calm: "\<forall>i. calm now0 now0 (chs0 i)" using sample_calm[of now0] by simp
  have lib: "lib0 = eng_lib engine0" and valid: "validate engine0 = None" by (simp_all add: engine0_def validate_def second_def)
  let ?ev = "from_new_address engine0 new0 p"
  obtain err c3 w3 where cf: "run (Confirm engine0 (at_id tx) ?ev) chs0 w2 = (err, c3, w3)"
    and q: "err = None \<and> (\<exists>now accepted. at_phase engine0 fresh_world m (moved now StateConfirmed [] tx) StateConfirmed PhaseConfirmed
      (Committed m (at_dir tx) # Committing m (at_dir tx) # Disarmed (at_id tx) # Accepted tx m ?ev accepted
        # [Applied m (at_dir tx), Applying m (at_dir tx), Armed (at_id tx) arm, Snapshotted m0 (at_dir tx)]) w3)"
    by (rule succeeds_run[OF confirm_succeeds[OF s(2) valid s(5) s(3,4)[unfolded lib]] calm]) blast+
  have "net_reachable engine0 (w3, [])"
    by (rule run_reachable[OF s(1) calm, of "OpConfirm (at_id tx) ?ev"]) (simp add: run_map cf)
  moreover obtain earlier where "na_log w3 = [Committed m (at_dir tx)] @ Committing m (at_dir tx) # earlier"
    using q by (auto simp: at_phase_def tracked_def)
  ultimately show ?thesis by (rule that)
qed

section \<open>Applications\<close>

lemma sample_engine: "validate engine0 = None"
  by (simp add: engine0_def validate_def second_def)

lemma sample_works: "works chs0"
  using sample_calm[of now0] by (simp add: works_def calm_def)

theorem crash_recovery_witness:
  "\<exists>w w' chs'. net_reachable engine0 (w, []) \<and> filter is_unfinished (na_rows w) \<noteq> [] \<and> run (Recover engine0) chs0 w = (None, chs', w')
     \<and> filter is_unfinished (na_rows w') = []"
proof -
  obtain w m tx at where w: "net_reachable engine0 (w, [])" "na_rows w = [tx]" "is_unfinished tx"
    "manifest_file w (at_id tx) = Some m" "status_file w (at_id tx) = Some (PhaseConfirming, at)" by (rule sample_confirming) blast
  have nt: "\<not> torn w" using w by (simp add: torn_def)
  obtain err chs' w' where r: "run (Recover engine0) chs0 w = (err, chs', w')" by (metis prod_cases3)
  have "err = None" "filter is_unfinished (na_rows w') = []"
    using crash_recovery[OF w(1) sample_engine sample_works r] nt by blast+
  then show ?thesis using w r by auto
qed

theorem applied_only_when_recoverable_witness:
  "\<exists>w m dir earlier m' deadline. net_reachable engine0 (w, []) \<and> na_log w = [Applied m dir] @ Applying m dir # earlier
     \<and> Snapshotted m' dir \<in> set earlier \<and> Armed (mf_id m) deadline \<in> set earlier"
proof -
  obtain p w2 m0 m arm tx where s: "net_reachable engine0 (w2, [])"
    "at_phase engine0 fresh_world m tx StateApplied PhaseApplied
       [Applied m (at_dir tx), Applying m (at_dir tx), Armed (at_id tx) arm, Snapshotted m0 (at_dir tx)] w2"
    by (rule sample_applied) blast
  have log: "na_log w2 = [Applied m (at_dir tx)] @ Applying m (at_dir tx) # [Armed (at_id tx) arm, Snapshotted m0 (at_dir tx)]"
    using s(2) by (auto simp: at_phase_def tracked_def fresh_world_def)
  from applied_only_when_recoverable[OF s(1) log] obtain m' deadline
    where "Snapshotted m' (at_dir tx) \<in> set [Armed (at_id tx) arm, Snapshotted m0 (at_dir tx)]"
      "Armed (mf_id m) deadline \<in> set [Armed (at_id tx) arm, Snapshotted m0 (at_dir tx)]" by blast
  with s(1) log show ?thesis by blast
qed

theorem committed_only_when_confirmed_witness:
  "\<exists>w m dir earlier tx m' ev now. net_reachable engine0 (w, []) \<and> na_log w = [Committed m dir] @ Committing m dir # earlier
     \<and> Accepted tx m' ev now \<in> set earlier \<and> before_deadline (at_deadline tx) now \<and> token_matches lib0 tx (ce_token ev)"
proof -
  obtain w m dir earlier where w: "net_reachable engine0 (w, [])" "na_log w = [Committed m dir] @ Committing m dir # earlier"
    by (rule sample_confirmed) blast
  have lib: "eng_lib engine0 = lib0" by (simp add: engine0_def)
  from committed_only_when_confirmed[OF w, unfolded lib] obtain tx m' ev now
    where "Accepted tx m' ev now \<in> set earlier" "before_deadline (at_deadline tx) now" "token_matches lib0 tx (ce_token ev)" by blast
  with w show ?thesis by blast
qed

theorem one_apply_at_a_time_witness:
  "\<exists>w. net_reachable engine0 (w, []) \<and> na_rows w \<noteq> [] \<and> length (filter is_unfinished (na_rows w)) \<le> 1 \<and> distinct (map at_id (na_rows w))"
proof -
  obtain w m tx at where w: "net_reachable engine0 (w, [])" "na_rows w = [tx]" "is_unfinished tx" by (rule sample_confirming) blast
  show ?thesis using one_apply_at_a_time[OF w(1) rtranclp.rtrancl_refl] w(1,2) by (intro exI[of _ w]) simp
qed

theorem torn_blocks_changes_witness:
  "\<exists>w er er'. net_reachable engine0 (w, []) \<and> torn w \<and> fst (run (Recover engine0) chs0 w) = Some er
     \<and> fst (run (Stage engine0 candidate0) chs0 w) = Inl er'"
proof -
  let ?w = "calls 4 (Stage engine0 candidate0) chs0 fresh_world"
  have torn: "torn ?w" by (rule interrupted_staging[OF sample_can_stage]) (simp add: fresh_world_def)
  have "\<forall>i. good_time (ch_time (chs0 i))" using sample_works by (simp add: works_def)
  from calls_reachable[OF fresh_reachable this, of engine0 4 "OpStage candidate0"] have reach: "net_reachable engine0 (?w, [])" by simp
  show ?thesis using torn_blocks_changes[OF reach torn, of chs0 candidate0 OpRecover] reach torn by blast
qed

theorem recover_hides_commit_failure_witness:
  "\<exists>w chs chs' w' m (tx :: apply_transaction) at. net_reachable engine0 (w, []) \<and> status_file w (at_id tx) = Some (PhaseConfirming, at) \<and> run (Recover engine0) chs w = (None, chs', w')
     \<and> na_log w' = Committing m (at_dir tx) # Disarmed (at_id tx) # na_log w"
proof -
  obtain w m tx at where w: "net_reachable engine0 (w, [])" "na_rows w = [tx]" "is_unfinished tx"
    "manifest_file w (at_id tx) = Some m" "status_file w (at_id tx) = Some (PhaseConfirming, at)" by (rule sample_confirming) blast
  let ?chs = "\<lambda>i. (chs0 i)\<lparr>ch_fate := if i = 4 then FailsBefore else Works\<rparr>"
  have chs: "\<forall>i. good_time (ch_time (?chs i)) \<and> ch_fate (?chs i) = (if i = 4 then FailsBefore else Works)"
    using sample_works by (simp add: works_def)
  have mem: "tx \<in> set (na_rows w)" using w(2) by simp
  show ?thesis using recover_hides_commit_failure[OF w(1) sample_engine mem w(3-5) chs] w(1,5) by blast
qed

theorem confirmed_change_is_kept_witness:
  "\<exists>p c1 w1 c2 w2 c3 w3 r. run (Stage engine0 candidate0) chs0 fresh_world = (Inr p, c1, w1) \<and> run (Apply engine0 (pr_apply_id p)) chs0 w1 = (None, c2, w2)
     \<and> run (Confirm engine0 (pr_apply_id p) (from_new_address engine0 new0 p)) chs0 w2 = (None, c3, w3)
     \<and> row w3 (pr_apply_id p) = Some r \<and> at_state r = StateConfirmed"
proof -
  have calm: "\<forall>i. calm now0 now0 (chs0 i)" and late: "now0 < now0 + 60 * second" using sample_calm[of now0] by (simp_all add: second_def)
  show ?thesis using confirmed_change_is_kept[OF fresh_reachable sample_can_stage calm late calm late] by blast
qed

end
