(* ===== verification/Spec2Isabelle.thy ===== *)
theory Spec2Isabelle
  imports Reconciler_Theorems Watchdog_Budget Probe_Scheduler Path_Samples Target_Outage Periodic_Health Network_Samples
begin

text \<open>
  Gateway VPN: a verification development of the program under \<open>src/\<close>.

  \<^bold>\<open>The program.\<close> A gateway routes the traffic of a LAN over one of several paths: a subscription of VPN nodes or a direct
  uplink. It is fail closed: when no path is proven to work, traffic is blocked. Probes (\<open>internal/health\<close>, paced by
  \<open>internal/scheduler\<close>) produce evidence, which \<open>internal/pathmatrix\<close> and \<open>internal/accesspolicy\<close> keep in SQLite under
  generations: a counter per policy and per route that a change increments, so that evidence of an older generation no longer
  counts. \<open>internal/accesspolicy\<close> ranks the paths with fresh evidence, \<open>internal/reconcile\<close> converges the runtime row of
  \<open>internal/state\<close> and the data plane to the best one, and \<open>internal/watchdog\<close>, a process of its own, restarts broken components and,
  as the last resort, the host. Changes of the gateway's own network go through \<open>internal/networkapply\<close>: staged, applied, and rolled back
  by a systemd timer unless they are confirmed over the new network.

  \<^bold>\<open>The language.\<close> \<open>Go_Prelude\<close> has errors, results, 64-bit wrap-around, numbers as text and the generic lemmas with their
  collections; \<open>Go_Time\<close> the package \<open>time\<close> (instants in nanoseconds, RFC 3339 text with its calendar), \<open>Go_Json\<close> the
  marshalling of the values the sources write, \<open>Go_Net\<close> the packages \<open>netip\<close>, \<open>hex\<close> and \<open>strings\<close> as far as they are used.
  An operation that may fail returns a \<open>result\<close>, whose left side is the error; a Go \<open>error\<close> alone is an option.

  \<^bold>\<open>The database\<close> (\<open>Schema\<close>, \<open>Sample_Data\<close>). A table is a list of records with the columns the code reads or writes; keys,
  foreign keys, checks, unique indexes and cascades are written out where a statement can violate them. A repository method is a function from the
  database to an error or a new database, so a transaction that fails changes nothing. SQLite's \<open>julianday\<close> and \<open>CAST\<close> are
  the parameter \<open>sql_fns\<close>.

  \<^bold>\<open>Components and their theories.\<close>
  \<^item> \<open>Access_Ranking\<close>: \<open>accesspolicy/ranking.go\<close>. The choice is optimal in the architectural order, independent of the order of
    the input and sticky on ties.
  \<^item> \<open>Store\<close>: \<open>store/counter.go\<close>, \<open>store/policy.go\<close>. Counters and the invalidation of every result of an old policy.
  \<^item> \<open>State_Repository\<close>, \<open>State_Theorems\<close>: \<open>state/repository.go\<close>. The runtime row is well-formed after every sequence of
    operations, its generation identifies the active tuple, activation needs fresh evidence and ends, blocking is idempotent.
  \<^item> \<open>Access_Transition\<close>, \<open>Access_Methods\<close>, \<open>Access_Paths\<close>: \<open>accesspolicy/transition.go\<close>, \<open>repository.go\<close> with
    \<open>preferences.go\<close>, \<open>direct_paths.go\<close>. Hysteresis of switches, boots, method order, publication of direct results, and that a
    candidate always rests on unexpired evidence of the current generations.
  \<^item> \<open>Inventory\<close>, \<open>Reconciler\<close>, \<open>Reconciler_Theorems\<close>: \<open>reconcile/reconciler.go\<close> as programs of the state monad whose
    world holds the database and a trace of the calls to the actuator (\<open>Program_Logic\<close> has the weakest preconditions). An error
    ends with a block, an activation was begun in the database first, and a working candidate is activated from the blocked state.
  \<^item> \<open>Watchdog_Policy\<close>, \<open>Watchdog_History\<close>, \<open>Watchdog_Supervisor\<close>, \<open>Watchdog_Status\<close>: \<open>watchdog/policy.go\<close>,
    \<open>durable.go\<close>, \<open>supervisor.go\<close>, \<open>status.go\<close>, \<open>heartbeat.go\<close>. \<open>Watchdog_Theorems\<close> shows that the budgets hold over crashes at any
    call and new processes, \<open>Watchdog_Recovery\<close> what precedes an action, what never causes one and what a broken component gets,
    \<open>Watchdog_Budget\<close> that the history of texts refines a log of instants. \<open>Watchdog_Samples\<close> has the concrete instances.
  \<^item> \<open>Node_Qualifier\<close>, \<open>Target_Outage\<close>, \<open>Periodic_Health\<close>: \<open>health/qualifier.go\<close>, \<open>target_outage.go\<close>,
    \<open>periodic_repository.go\<close>. The probing with early returns agrees with a reference, suspicion of targets, the schedule with its jitter.
  \<^item> \<open>Probe_Scheduler\<close>: \<open>scheduler/scheduler.go\<close>. Goroutines are interleaved between the points where they hold the mutex; the limits
    hold in every reachable state and the rate loop ends.
  \<^item> \<open>Path_Matrix\<close>, \<open>Path_Evidence\<close>, \<open>Path_Theorems\<close>, \<open>Path_Samples\<close>: \<open>pathmatrix/repository.go\<close>,
    \<open>qualification_repository.go\<close>, \<open>health_bridge.go\<close>, \<open>target_degraded.go\<close>. The matrix stays consistent, a node that works
    makes its path a candidate of the ranking (from the probes to the selection), a new route withdraws it.
  \<^item> \<open>Network_Manifest\<close>: the types and checks of \<open>networkapply/store.go\<close> and \<open>engine.go\<close>, \<open>netutil/lan.go\<close>, and the
    validation of Ethernet inputs of \<open>uplink/repository.go\<close>.
  \<^item> \<open>Network_Apply\<close>: the protocol of \<open>networkapply/engine.go\<close> with \<open>repository.go\<close>, the files of \<open>store.go\<close>,
    \<open>systemd_timer.go\<close> and the rollback command of \<open>cmd/gateway-vpn/network_commands.go\<close>, as programs that are trees of calls.
    \<open>net_step\<close> interleaves any number of them call by call, lets any call fail with or without its effect, and lets any process die.
    \<open>Network_Safety\<close> is the rely and guarantee argument; \<open>Network_Theorems\<close> shows that a change is recoverable before it is made,
    becomes permanent only by a valid confirmation, is the only one, and is finished by a recovery after a crash at any point;
    \<open>Network_Progress\<close> and \<open>Network_Success\<close> that staging, applying and confirming succeed when their calls work;
    \<open>Network_Faults\<close> two cases in which the code does not do what it means to; \<open>Network_Samples\<close> has the concrete instances.

  \<^bold>\<open>Interfaces.\<close> \<open>text_codec\<close> is a text that reads back (integers, times, hexadecimal, addresses); \<open>strict_preference\<close> a
  strict order by which a loop keeps the best element (candidates, qualified and limited nodes); \<open>operation_system\<close> an invariant kept by every operation of a
  sequence (runtime row, its history, path matrix, watchdog); \<open>attempt_log\<close> a log of attempts under a budget (restarts,
  reboots); \<open>owned_world\<close> processes that share a world and own parts of it (network apply). Each is interpreted on the model's own definitions
  in the theory that provides them.

  \<^bold>\<open>Time, bounds and fuel.\<close> Instants are unbounded integers of nanoseconds; what is printed is assumed to lie in the years 0 to 9999
  (\<open>rfc3339_range\<close>, \<open>good_time\<close>), the range in which RFC 3339 text exists. Durations and counters wrap at 64 bits where the
  code can overflow; the intervals of the periodic schedule are at most \<open>10 ^ 17\<close> nanoseconds (three years) where its products must not overflow. The loop of
  \<open>acquireRate\<close> runs on a list of clock readings and is shown to return within two of them. All other loops are structural or have
  a termination proof. A staging relies on a timeout of 60 seconds, the only one the packaged timer accepts, and on calls that take at
  most five seconds in all before the timer is armed.

  \<^bold>\<open>Parameters.\<close> What is not in the sources is an argument: \<open>sql_fns\<close>, the probers, actuator, observer and probes of the
  environments, the clock, random bytes and faults of every call (\<open>choice\<close>), and \<open>net_lib\<close> (IPv6 text, URL parser, SHA-256, letters
  beyond ASCII). A transaction directory holds the values its files encode; a file that cannot be read or decoded is a failing call.

  \<^bold>\<open>Not modelled.\<close> Code that drives the operating system or a third-party program and makes few decisions of its own: uplinks
  and modems, subscription fetching, Mihomo, the data plane that implements the actuator, the broker and the backends of the network apply, WireGuard,
  the management fabric, the agent on the VPS, updates, backups, the web API, installation and the commands. Of the modelled
  packages the read-only listings for the web API (\<open>ListEvents\<close>, path details, the topology preview), the storage of the
  watchdog policy and the HTTP probers are left out. Context deadlines are faults of calls. The wrapping texts of errors are not
  kept where only the inner error is tested.
\<close>

end
